(* ===== verification/Go_Prelude.thy ===== *)
theory Go_Prelude
  imports Main "HOL-Library.Word" "HOL-Library.Sublist"
begin

text \<open>
  Shared foundations of the development: the part of Go's \<^verbatim>\<open>strings\<close>, \<^verbatim>\<open>strconv\<close>,
  \<^verbatim>\<open>encoding/base64\<close>, \<^verbatim>\<open>sort\<close> and \<^verbatim>\<open>time\<close> packages that the OpenDesk API uses, written as
  executable functions on byte strings and integers, and the generic operations on
  rows of a table (first match, update of the first match, removal of the first match)
  that every repository method is built from.

  Go strings are byte strings: a HOL \<^typ>\<open>string\<close> is a list of 8-bit characters, so
  \<^term>\<open>length s\<close> is Go's \<^verbatim>\<open>len(s)\<close>. Times are nanoseconds since the Unix epoch; Go's
  \<^verbatim>\<open>UTC()\<close> changes only the location of a time and is the identity here.
  Identifiers (\<^verbatim>\<open>int64\<close>, counted up from a small number) are integers; where the width
  of an integer matters (durations) it is a 64-bit word.
\<close>

named_theorems go_defs \<open>definitions of the model that proofs unfold\<close>

named_theorems repo_simps \<open>equations that drive proofs about repository operations\<close>

section \<open>Bytes and white space\<close>

abbreviation byte :: "char \<Rightarrow> nat" where
  "byte c \<equiv> of_char c"

definition ascii_space :: "char \<Rightarrow> bool" where
  "ascii_space c \<longleftrightarrow> byte c = 32 \<or> (9 \<le> byte c \<and> byte c \<le> 13)"

definition space2 :: "nat \<Rightarrow> nat \<Rightarrow> bool" where
  "space2 a b \<longleftrightarrow> a = 0xC2 \<and> (b = 0x85 \<or> b = 0xA0)"

definition space3 :: "nat \<Rightarrow> nat \<Rightarrow> nat \<Rightarrow> bool" where
  "space3 a b c \<longleftrightarrow>
     (a = 0xE1 \<and> b = 0x9A \<and> c = 0x80) \<or>
     (a = 0xE2 \<and> b = 0x80 \<and> (0x80 \<le> c \<and> c \<le> 0x8A \<or> c = 0xA8 \<or> c = 0xA9 \<or> c = 0xAF)) \<or>
     (a = 0xE2 \<and> b = 0x81 \<and> c = 0x9F) \<or>
     (a = 0xE3 \<and> b = 0x80 \<and> c = 0x80)"

text \<open>
  The number of bytes of the white space code point (\<^verbatim>\<open>unicode.IsSpace\<close>) that a UTF-8
  string starts with; 0 when it starts with anything else.
\<close>

fun space_width :: "string \<Rightarrow> nat" where
  "space_width [] = 0"
| "space_width (a # s) =
     (if ascii_space a then 1
      else (case s of [] \<Rightarrow> 0
        | b # t \<Rightarrow>
            (if space2 (byte a) (byte b) then 2
             else (case t of [] \<Rightarrow> 0
               | c # u \<Rightarrow> if space3 (byte a) (byte b) (byte c) then 3 else 0))))"

text \<open>The same for the code point a string ends with, on the reversed string.\<close>

fun rspace_width :: "string \<Rightarrow> nat" where
  "rspace_width [] = 0"
| "rspace_width (c # s) =
     (if ascii_space c then 1
      else (case s of [] \<Rightarrow> 0
        | b # t \<Rightarrow>
            (if space2 (byte b) (byte c) then 2
             else (case t of [] \<Rightarrow> 0
               | a # u \<Rightarrow> if space3 (byte a) (byte b) (byte c) then 3 else 0))))"

lemma space_width_drop: "0 < space_width s \<Longrightarrow> length (drop (space_width s) s) < length s"
  by (cases s) auto

lemma rspace_width_drop: "0 < rspace_width s \<Longrightarrow> length (drop (rspace_width s) s) < length s"
  by (cases s) auto

function trim_left :: "string \<Rightarrow> string" where
  "trim_left s = (if space_width s = 0 then s else trim_left (drop (space_width s) s))"
  by pat_completeness auto
termination
  by (relation "measure length") (use space_width_drop in auto)

function rtrim :: "string \<Rightarrow> string" where
  "rtrim s = (if rspace_width s = 0 then s else rtrim (drop (rspace_width s) s))"
  by pat_completeness auto
termination
  by (relation "measure length") (use rspace_width_drop in auto)

declare trim_left.simps [simp del] rtrim.simps [simp del]

definition trim_right :: "string \<Rightarrow> string" where
  "trim_right s = rev (rtrim (rev s))"

text \<open>\<^verbatim>\<open>strings.TrimSpace\<close>.\<close>

definition TrimSpace :: "string \<Rightarrow> string" where
  "TrimSpace s = trim_right (trim_left s)"


lemma trim_left_nil [simp]: "trim_left [] = []"
  by (subst trim_left.simps) simp

lemma rtrim_nil [simp]: "rtrim [] = []"
  by (subst rtrim.simps) simp

lemma trim_right_nil [simp]: "trim_right [] = []"
  by (simp add: trim_right_def)

lemma TrimSpace_nil [simp]: "TrimSpace [] = []"
  by (simp add: TrimSpace_def)

lemma space_width_trim_left [simp]: "space_width (trim_left s) = 0"
proof (induction s rule: trim_left.induct)
  case (1 s)
  then show ?case by (cases "space_width s = 0") (simp_all add: trim_left.simps [of s])
qed

lemma rspace_width_rtrim [simp]: "rspace_width (rtrim s) = 0"
proof (induction s rule: rtrim.induct)
  case (1 s)
  then show ?case by (cases "rspace_width s = 0") (simp_all add: rtrim.simps [of s])
qed

lemma trim_left_id: "space_width s = 0 \<Longrightarrow> trim_left s = s"
  by (subst trim_left.simps) simp

lemma rtrim_id: "rspace_width s = 0 \<Longrightarrow> rtrim s = s"
  by (subst rtrim.simps) simp

lemma rtrim_suffix: "suffix (rtrim s) s"
proof (induction s rule: rtrim.induct)
  case (1 s)
  show ?case
  proof (cases "rspace_width s = 0")
    case True
    then show ?thesis by (simp add: rtrim_id)
  next
    case False
    with 1 have "suffix (rtrim (drop (rspace_width s) s)) (drop (rspace_width s) s)" by simp
    also have "suffix (drop (rspace_width s) s) s" by (rule suffix_drop)
    finally show ?thesis using False by (simp add: rtrim.simps [of s])
  qed
qed

lemma trim_right_prefix: "prefix (trim_right s) s"
  using rtrim_suffix [of "rev s"] by (simp add: trim_right_def suffix_to_prefix)

lemma space_width_prefix: "space_width (s @ t) = 0 \<Longrightarrow> space_width s = 0"
  by (cases s rule: space_width.cases; cases t)
     (auto split: list.splits if_splits)

text \<open>Trimming is idempotent, so a value the code has trimmed once stays as it is.\<close>

lemma TrimSpace_idem [simp]: "TrimSpace (TrimSpace s) = TrimSpace s"
proof -
  obtain t where "trim_left s = trim_right (trim_left s) @ t"
    using trim_right_prefix [of "trim_left s"] by (auto simp: prefix_def)
  then have "space_width (trim_right (trim_left s)) = 0"
    using space_width_prefix space_width_trim_left [of s] by metis
  then show ?thesis
    by (simp add: TrimSpace_def trim_left_id) (simp add: trim_right_def rtrim_id)
qed

text \<open>A string of visible ASCII characters has nothing to trim.\<close>

lemma TrimSpace_graph:
  assumes "\<And>c. c \<in> set s \<Longrightarrow> 32 < byte c \<and> byte c < 128"
  shows "TrimSpace s = s"
proof -
  have *: "space_width t = 0 \<and> rspace_width t = 0"
    if "\<And>c. c \<in> set t \<Longrightarrow> 32 < byte c \<and> byte c < 128" for t
  proof (cases t)
    case (Cons a u)
    then have "32 < byte a \<and> byte a < 128" using that by simp
    then have "\<not> ascii_space a" "\<And>b. \<not> space2 (byte a) (byte b)"
      "\<And>b c. \<not> space3 (byte a) (byte b) (byte c)" "\<And>b. \<not> space2 (byte b) (byte a)"
      "\<And>b c. \<not> space3 (byte c) (byte b) (byte a)"
      by (auto simp: ascii_space_def space2_def space3_def)
    then show ?thesis using Cons by (auto split: list.split)
  qed simp
  have "space_width s = 0" "rspace_width (rev s) = 0" using * [of s] * [of "rev s"] assms by auto
  then show ?thesis by (simp add: TrimSpace_def trim_left_id trim_right_def rtrim_id)
qed

section \<open>Letter case, prefixes, splitting\<close>

text \<open>
  \<^verbatim>\<open>strings.ToLower\<close> and \<^verbatim>\<open>strings.EqualFold\<close> on ASCII letters; bytes of code points
  above 127 are left as they are.
\<close>

definition lower_char :: "char \<Rightarrow> char" where
  "lower_char c = (if 65 \<le> byte c \<and> byte c \<le> 90 then char_of (byte c + 32) else c)"

definition ToLower :: "string \<Rightarrow> string" where
  "ToLower s = map lower_char s"

definition EqualFold :: "string \<Rightarrow> string \<Rightarrow> bool" where
  "EqualFold s t \<longleftrightarrow> ToLower s = ToLower t"

lemma byte_char_of_shift: "byte c \<le> 90 \<Longrightarrow> byte (char_of (byte c + 32)) = byte c + 32"
  by simp

lemma lower_char_idem [simp]: "lower_char (lower_char c) = lower_char c"
  by (simp add: lower_char_def byte_char_of_shift)

lemma ToLower_idem [simp]: "ToLower (ToLower s) = ToLower s"
  by (simp add: ToLower_def)

lemma ToLower_Nil [simp]: "ToLower [] = []"
  by (simp add: ToLower_def)

lemma ToLower_eq_Nil [simp]: "ToLower s = [] \<longleftrightarrow> s = []"
  by (simp add: ToLower_def)

lemma EqualFold_refl [simp]: "EqualFold s s"
  by (simp add: EqualFold_def)

definition HasPrefix :: "string \<Rightarrow> string \<Rightarrow> bool" where
  "HasPrefix s p \<longleftrightarrow> take (length p) s = p"

definition HasSuffix :: "string \<Rightarrow> string \<Rightarrow> bool" where
  "HasSuffix s p \<longleftrightarrow> length p \<le> length s \<and> drop (length s - length p) s = p"

definition TrimPrefix :: "string \<Rightarrow> string \<Rightarrow> string" where
  "TrimPrefix s p = (if HasPrefix s p then drop (length p) s else s)"

lemma HasPrefixD: "HasPrefix s p \<Longrightarrow> s = p @ TrimPrefix s p"
  by (simp add: HasPrefix_def TrimPrefix_def) (metis append_take_drop_id)

lemma HasSuffixD: "HasSuffix s p \<Longrightarrow> \<exists>u. s = u @ p"
  unfolding HasSuffix_def by (metis append_take_drop_id)

text \<open>\<^verbatim>\<open>strings.CutSuffix\<close>: the rest, and whether the suffix was there.\<close>

definition CutSuffix :: "string \<Rightarrow> string \<Rightarrow> string \<times> bool" where
  "CutSuffix s p = (if HasSuffix s p then (take (length s - length p) s, True) else (s, False))"

text \<open>\<^verbatim>\<open>strings.Trim(s, c)\<close> for a cutset of one character.\<close>

definition TrimChar :: "char \<Rightarrow> string \<Rightarrow> string" where
  "TrimChar c s = rev (dropWhile ((=) c) (rev (dropWhile ((=) c) s)))"

text \<open>\<^verbatim>\<open>strings.Split(s, c)\<close> for a separator of one character: never an empty list.\<close>

fun Split :: "char \<Rightarrow> string \<Rightarrow> string list" where
  "Split c [] = [[]]"
| "Split c (x # xs) =
     (if x = c then [] # Split c xs
      else (case Split c xs of [] \<Rightarrow> [[x]] | y # ys \<Rightarrow> (x # y) # ys))"

text \<open>\<^verbatim>\<open>strings.Cut(s, c)\<close>: before, after, found.\<close>

definition Cut :: "char \<Rightarrow> string \<Rightarrow> string \<times> string \<times> bool" where
  "Cut c s = (takeWhile ((\<noteq>) c) s, drop 1 (dropWhile ((\<noteq>) c) s), c \<in> set s)"

lemma Split_not_Nil [simp]: "Split c s \<noteq> []"
  by (induction s) (auto split: list.splits)

lemma Split_single: "c \<notin> set s \<Longrightarrow> Split c s = [s]"
  by (induction s) auto

lemma Split_append: "c \<notin> set s \<Longrightarrow> Split c (s @ c # t) = s # Split c t"
  by (induction s) auto

lemma Split_sep_free: "p \<in> set (Split c s) \<Longrightarrow> c \<notin> set p"
  by (induction s arbitrary: p) (fastforce split: list.splits if_splits)+

lemma Split_append_sep: "Split c (v @ c # t) = Split c v @ Split c t"
  by (induction v) (auto split: list.splits)

lemma Split_pair: "Split c s = [a, b] \<longleftrightarrow> s = a @ c # b \<and> c \<notin> set a \<and> c \<notin> set b"
proof
  assume l: "Split c s = [a, b]"
  then have "c \<notin> set a" "c \<notin> set b" using Split_sep_free [of _ c s] by auto
  moreover have "s = a @ c # b" using l
  proof (induction s arbitrary: a)
    case Nil
    then show ?case by simp
  next
    case (Cons x s)
    show ?case
    proof (cases "x = c")
      case True
      with Cons.prems have "a = []" "Split c s = [b]" by auto
      have "Split c s = [b] \<Longrightarrow> s = b"
        by (induction s arbitrary: b) (auto split: list.splits if_splits)
      with \<open>a = []\<close> \<open>Split c s = [b]\<close> True show ?thesis by simp
    next
      case False
      with Cons show ?thesis by (auto split: list.splits)
    qed
  qed
  ultimately show "s = a @ c # b \<and> c \<notin> set a \<and> c \<notin> set b" by simp
qed (auto simp: Split_append Split_single)

section \<open>Decimal integers\<close>

definition digit_char :: "char \<Rightarrow> bool" where
  "digit_char c \<longleftrightarrow> 48 \<le> byte c \<and> byte c \<le> 57"

definition digits_value :: "string \<Rightarrow> int" where
  "digits_value s = foldl (\<lambda>n c. 10 * n + (int (byte c) - 48)) 0 s"

text \<open>
  \<^verbatim>\<open>strconv.ParseInt(s, 10, 64)\<close>: an optional sign, at least one digit, and a value
  that an \<^verbatim>\<open>int64\<close> can hold; \<^term>\<open>None\<close> is the error return.
\<close>

definition ParseInt :: "string \<Rightarrow> int option" where
  "ParseInt s =
     (let neg = (s \<noteq> [] \<and> hd s = CHR ''-'');
          body = (if s \<noteq> [] \<and> (hd s = CHR ''-'' \<or> hd s = CHR ''+'') then tl s else s)
      in if body = [] \<or> \<not> list_all digit_char body then None
         else let n = (if neg then - digits_value body else digits_value body)
              in if - (2 ^ 63) \<le> n \<and> n < 2 ^ 63 then Some n else None)"

text \<open>\<^verbatim>\<open>strconv.FormatInt(n, 10)\<close>.\<close>

fun nat_digits :: "nat \<Rightarrow> string" where
  "nat_digits n = (if n < 10 then [char_of (48 + n)] else nat_digits (n div 10) @ [char_of (48 + n mod 10)])"

declare nat_digits.simps [simp del]

definition FormatInt :: "int \<Rightarrow> string" where
  "FormatInt n = (if n < 0 then CHR ''-'' # nat_digits (nat (- n)) else nat_digits (nat n))"

lemma byte_digit: "n < 10 \<Longrightarrow> byte (char_of (48 + n) :: char) = 48 + n"
  by simp

lemma nat_digits_not_Nil [simp]: "nat_digits n \<noteq> []"
  by (subst nat_digits.simps) simp

lemma nat_digits_digit: "list_all digit_char (nat_digits n)"
proof (induction n rule: nat_digits.induct)
  case (1 n)
  then show ?case
    by (subst nat_digits.simps) (auto simp: digit_char_def [of "char_of _"] byte_digit)
qed

lemma nat_digits_value: "digits_value (nat_digits n) = int n"
proof (induction n rule: nat_digits.induct)
  case (1 n)
  show ?case
  proof (cases "n < 10")
    case True
    then show ?thesis by (subst nat_digits.simps) (simp add: digits_value_def byte_digit)
  next
    case False
    with 1 have "digits_value (nat_digits (n div 10)) = int (n div 10)" by simp
    moreover have "10 * int (n div 10) + int (n mod 10) = int n"
      by (metis div_mult_mod_eq mult.commute of_nat_add of_nat_mult of_nat_numeral)
    ultimately show ?thesis using False
      by (subst nat_digits.simps) (simp add: digits_value_def byte_digit)
  qed
qed

lemma nat_digits_hd: "digit_char (hd (nat_digits n))"
  using nat_digits_digit [of n] by (cases "nat_digits n") auto

text \<open>Formatting an \<^verbatim>\<open>int64\<close> and parsing the result gives it back.\<close>

lemma ParseInt_FormatInt: "- (2 ^ 63) \<le> n \<Longrightarrow> n < 2 ^ 63 \<Longrightarrow> ParseInt (FormatInt n) = Some n"
proof (cases "n < 0")
  case True
  moreover assume "- (2 ^ 63) \<le> n"
  ultimately show ?thesis
    by (simp add: ParseInt_def FormatInt_def nat_digits_digit nat_digits_value)
next
  case False
  moreover assume "n < 2 ^ 63"
  moreover have "hd (nat_digits (nat n)) \<noteq> CHR ''-''" "hd (nat_digits (nat n)) \<noteq> CHR ''+''"
    using nat_digits_hd [of "nat n"] by (auto simp: digit_char_def)
  ultimately show ?thesis
    by (simp add: ParseInt_def FormatInt_def nat_digits_digit nat_digits_value)
qed

section \<open>Time\<close>

type_synonym gotime = int

text \<open>Go's zero \<^verbatim>\<open>time.Time\<close> is the first instant of year 1.\<close>

definition zero_time :: gotime where
  "zero_time = - 62135596800000000000"

abbreviation IsZero :: "gotime \<Rightarrow> bool" where
  "IsZero t \<equiv> t = zero_time"

text \<open>\<^verbatim>\<open>t.Unix()\<close> in seconds, rounding towards the past.\<close>

definition Unix :: "gotime \<Rightarrow> int" where
  "Unix t = t div 1000000000"

text \<open>\<^verbatim>\<open>time.Duration\<close> is an \<^verbatim>\<open>int64\<close> number of nanoseconds: multiplication wraps.\<close>

type_synonym duration = "64 word"

definition Second :: duration where "Second = 1000000000"
definition Minute :: duration where "Minute = 60000000000"

definition Add :: "gotime \<Rightarrow> duration \<Rightarrow> gotime" where
  "Add t d = t + sint d"

section \<open>Rows of a table\<close>

text \<open>
  Repository methods scan a slice for the first row that satisfies a condition, and
  return, overwrite or remove that row.
\<close>

primrec update_first :: "('a \<Rightarrow> bool) \<Rightarrow> ('a \<Rightarrow> 'a) \<Rightarrow> 'a list \<Rightarrow> 'a list" where
  "update_first P f [] = []"
| "update_first P f (x # xs) = (if P x then f x # xs else x # update_first P f xs)"

primrec delete_first :: "('a \<Rightarrow> bool) \<Rightarrow> 'a list \<Rightarrow> 'a list" where
  "delete_first P [] = []"
| "delete_first P (x # xs) = (if P x then xs else x # delete_first P xs)"

lemma find_SomeD: "find P xs = Some x \<Longrightarrow> x \<in> set xs \<and> P x"
  by (auto simp: find_Some_iff)

lemma find_None_not: "find P xs = None \<Longrightarrow> x \<in> set xs \<Longrightarrow> \<not> P x"
  by (auto simp: find_None_iff)

lemma find_append: "find P (xs @ ys) = (case find P xs of None \<Rightarrow> find P ys | Some x \<Rightarrow> Some x)"
  by (induction xs) auto

lemma update_first_None [simp]: "find P xs = None \<Longrightarrow> update_first P f xs = xs"
  by (induction xs) (auto split: if_splits)

lemma delete_first_None [simp]: "find P xs = None \<Longrightarrow> delete_first P xs = xs"
  by (induction xs) (auto split: if_splits)

lemma length_update_first [simp]: "length (update_first P f xs) = length xs"
  by (induction xs) auto

lemma find_update_first:
  "find P xs = Some x \<Longrightarrow> P (f x) \<Longrightarrow> find P (update_first P f xs) = Some (f x)"
  by (induction xs) (auto split: if_splits)

lemma find_update_first_other:
  assumes "\<And>y. P y \<Longrightarrow> \<not> Q y" and "\<And>y. P y \<Longrightarrow> \<not> Q (f y)"
  shows "find Q (update_first P f xs) = find Q xs"
  using assms by (induction xs) auto

lemma map_update_first [simp]:
  "(\<And>x. P x \<Longrightarrow> g (f x) = g x) \<Longrightarrow> map g (update_first P f xs) = map g xs"
  by (induction xs) auto

lemma set_update_first: "set (update_first P f xs) \<subseteq> set xs \<union> {f x |x. x \<in> set xs \<and> P x}"
  by (induction xs) auto

lemma ball_update_first:
  "\<forall>x \<in> set xs. P x \<Longrightarrow> (\<And>x. P x \<Longrightarrow> P (f x)) \<Longrightarrow> \<forall>x \<in> set (update_first Q f xs). P x"
  by (induction xs) auto

lemma set_delete_first: "set (delete_first P xs) \<subseteq> set xs"
  by (induction xs) auto

lemma subseq_delete_first: "subseq (delete_first P xs) xs"
  by (induction xs) auto

lemma distinct_map_delete_first:
  "distinct (map g xs) \<Longrightarrow> distinct (map g (delete_first P xs))"
proof (induction xs)
  case (Cons x xs)
  then show ?case using set_delete_first [of P xs] by auto
qed simp

text \<open>In a table whose key is unique, a row is found by its key.\<close>

lemma find_key:
  "distinct (map k xs) \<Longrightarrow> x \<in> set xs \<Longrightarrow> find (\<lambda>y. k y = k x) xs = Some x"
  by (induction xs) (auto simp: rev_image_eqI)

lemma find_key_delete:
  "distinct (map k xs) \<Longrightarrow> find (\<lambda>y. k y = i) (delete_first (\<lambda>y. k y = i) xs) = None"
proof (induction xs)
  case (Cons x xs)
  show ?case
  proof (cases "k x = i")
    case True
    with Cons.prems have "i \<notin> k ` set xs" by simp
    then have "\<forall>y \<in> set xs. k y \<noteq> i" by blast
    with True show ?thesis by (simp add: find_None_iff)
  next
    case False
    with Cons show ?thesis by simp
  qed
qed simp

lemma find_delete_other: "i \<noteq> j \<Longrightarrow>
  find (\<lambda>y. k y = j) (delete_first (\<lambda>y. k y = i) xs) = find (\<lambda>y. k y = j) xs"
  by (induction xs) auto

lemma update_first_const: "find P xs = Some x \<Longrightarrow> update_first P (\<lambda>_. f x) xs = update_first P f xs"
  by (induction xs) (auto split: if_splits)

section \<open>Results and HTTP responses\<close>

text \<open>
  The two sentinel errors of the repository package, and every other error with its
  message.
\<close>

datatype repo_error = ErrNotFound | ErrConflict | ErrMsg string

text \<open>
  \<^verbatim>\<open>httpx.JSON\<close> and \<^verbatim>\<open>httpx.Error\<close> write exactly one response: a status with data, or a
  status with an error code and message.
\<close>

datatype 'a http_response = JSON nat 'a | Error nat string string

fun status_of :: "'a http_response \<Rightarrow> nat" where
  "status_of (JSON n d) = n"
| "status_of (Error n c msg) = n"

end
