(* ===== verification/Models.thy ===== *)
theory Models
  imports Go_Prelude
begin

text \<open>
  The data model of the control plane, \<^verbatim>\<open>api/internal/models/models.go\<close>: one record per
  struct, its fields in the source's order under a short prefix of the struct. A pointer
  field is an option (\<^term>\<open>None\<close> is \<^verbatim>\<open>nil\<close>), a slice a list, a string type with named
  constants a string with the constants as abbreviations: JSON decoding lets any other
  string through, and so does the model.
\<close>

text \<open>
  The values of a \<^verbatim>\<open>map[string]any\<close>: the dynamic types the code stores in audit and
  connection-log metadata. A metadata map is an association list in the order of the
  source's composite literal; \<^term>\<open>None\<close> is the nil map.
\<close>

datatype any =
    AnyNil
  | AnyBool bool
  | AnyInt int
  | AnyString string
  | AnyStrings "string list"
  | AnyTime gotime

type_synonym metadata = "(string \<times> any) list option"

type_synonym UserStatus = string

abbreviation UserStatusActive :: UserStatus where "UserStatusActive \<equiv> ''active''"
abbreviation UserStatusDisabled :: UserStatus where "UserStatusDisabled \<equiv> ''disabled''"
abbreviation UserStatusLocked :: UserStatus where "UserStatusLocked \<equiv> ''locked''"

type_synonym DeviceStatus = string

abbreviation DeviceStatusOnline :: DeviceStatus where "DeviceStatusOnline \<equiv> ''online''"
abbreviation DeviceStatusOffline :: DeviceStatus where "DeviceStatusOffline \<equiv> ''offline''"
abbreviation DeviceStatusDisabled :: DeviceStatus where "DeviceStatusDisabled \<equiv> ''disabled''"

type_synonym BuildJobStatus = string

abbreviation BuildJobQueued :: BuildJobStatus where "BuildJobQueued \<equiv> ''queued''"
abbreviation BuildJobRunning :: BuildJobStatus where "BuildJobRunning \<equiv> ''running''"
abbreviation BuildJobSucceeded :: BuildJobStatus where "BuildJobSucceeded \<equiv> ''succeeded''"
abbreviation BuildJobFailed :: BuildJobStatus where "BuildJobFailed \<equiv> ''failed''"
abbreviation BuildJobCanceled :: BuildJobStatus where "BuildJobCanceled \<equiv> ''canceled''"

record User =
  user_ID :: int
  user_Email :: string
  user_Username :: string
  user_DisplayName :: string
  user_PasswordHash :: string
  user_Status :: UserStatus
  user_MFAEnabled :: bool
  user_Source :: string
  user_CreatedAt :: gotime
  user_UpdatedAt :: gotime
  user_LastLoginAt :: "gotime option"

record APIToken =
  tok_ID :: int
  tok_Name :: string
  tok_TokenHash :: string
  tok_ScopesJSON :: string
  tok_UserID :: "int option"
  tok_ExpiresAt :: "gotime option"
  tok_LastUsedAt :: "gotime option"
  tok_CreatedAt :: gotime
  tok_RevokedAt :: "gotime option"

record Session =
  ses_ID :: int
  ses_UserID :: int
  ses_TokenHash :: string
  ses_IP :: string
  ses_UserAgent :: string
  ses_ExpiresAt :: gotime
  ses_CreatedAt :: gotime
  ses_RevokedAt :: "gotime option"

record UserGroup =
  ug_ID :: int
  ug_Name :: string
  ug_Description :: string
  ug_MemberUserIDs :: "int list"
  ug_CreatedAt :: gotime
  ug_UpdatedAt :: gotime

record DeviceGroup =
  dg_ID :: int
  dg_Name :: string
  dg_Description :: string
  dg_MemberDeviceIDs :: "int list"
  dg_CreatedAt :: gotime
  dg_UpdatedAt :: gotime

record Device =
  dev_ID :: int
  dev_RustDeskID :: string
  dev_Name :: string
  dev_Alias :: string
  dev_OwnerUserID :: "int option"
  dev_Status :: DeviceStatus
  dev_Platform :: string
  dev_ClientVersion :: string
  dev_OpenDeskClientVersion :: string
  dev_LastIP :: string
  dev_LastSeenAt :: "gotime option"
  dev_RegisteredAt :: "gotime option"
  dev_CreatedAt :: gotime
  dev_UpdatedAt :: gotime

record AddressBookEntry =
  abe_ID :: int
  abe_AddressBookID :: int
  abe_DeviceID :: int
  abe_Alias :: string
  abe_CreatedAt :: gotime

record AddressBook =
  ab_ID :: int
  ab_Name :: string
  ab_Description :: string
  ab_OwnerUserID :: "int option"
  ab_Entries :: "AddressBookEntry list"
  ab_CreatedAt :: gotime
  ab_UpdatedAt :: gotime

record Relay =
  rel_ID :: int
  rel_Name :: string
  rel_Region :: string
  rel_Host :: string
  rel_Port :: int
  rel_WSPort :: int
  rel_PublicKeyFingerprint :: string
  rel_Status :: string
  rel_MaxBandwidthMbps :: "int option"
  rel_CurrentSessions :: int
  rel_LastHealthAt :: "gotime option"
  rel_CreatedAt :: gotime
  rel_UpdatedAt :: gotime

record RelayGrant =
  rg_ID :: int
  rg_GrantID :: string
  rg_UserID :: "int option"
  rg_ControllerDeviceID :: "int option"
  rg_TargetDeviceID :: "int option"
  rg_TargetRustDeskID :: string
  rg_RelayID :: "int option"
  rg_AllowedRelays :: "string list"
  rg_ExpiresAt :: gotime
  rg_Nonce :: string
  rg_Status :: string
  rg_CreatedAt :: gotime
  rg_UsedAt :: "gotime option"

record AuditEvent =
  ae_ID :: int
  ae_ActorUserID :: "int option"
  ae_ActorType :: string
  ae_Action :: string
  ae_ResourceType :: string
  ae_ResourceID :: "string option"
  ae_IP :: string
  ae_UserAgent :: string
  ae_Metadata :: metadata
  ae_CreatedAt :: gotime

record ConnectionLog =
  cl_ID :: int
  cl_SessionID :: "int option"
  cl_ControllerUserID :: "int option"
  cl_ControllerDeviceID :: "int option"
  cl_TargetDeviceID :: "int option"
  cl_ConnectionType :: string
  cl_RelayID :: "int option"
  cl_StartedAt :: gotime
  cl_EndedAt :: "gotime option"
  cl_Status :: string
  cl_DenyReason :: string
  cl_Metadata :: metadata

record FileTransferLog =
  ft_ID :: int
  ft_ConnectionLogID :: "int option"
  ft_Direction :: string
  ft_FilenameHash :: string
  ft_SizeBytes :: int
  ft_Status :: string
  ft_CreatedAt :: gotime

record LoginLog =
  ll_ID :: int
  ll_UserID :: int
  ll_Email :: string
  ll_Username :: string
  ll_DisplayName :: string
  ll_Status :: string
  ll_FailureReason :: string
  ll_IP :: string
  ll_UserAgent :: string
  ll_LastLoginAt :: "gotime option"
  ll_CreatedAt :: gotime

record SystemSetting =
  ss_Key :: string
  ss_ValueJSON :: string
  ss_UpdatedBy :: "int option"
  ss_UpdatedAt :: gotime

record AccessRule =
  ar_ID :: int
  ar_SubjectType :: string
  ar_SubjectID :: int
  ar_TargetType :: string
  ar_TargetID :: int
  ar_Effect :: string
  ar_Priority :: int
  ar_Enabled :: bool
  ar_CreatedAt :: gotime
  ar_UpdatedAt :: gotime

record ControlRolePermission =
  crp_ID :: int
  crp_RoleID :: int
  crp_PermissionKey :: string
  crp_Mode :: string

record ControlRole =
  cr_ID :: int
  cr_Name :: string
  cr_Description :: string
  cr_Enabled :: bool
  cr_Permissions :: "ControlRolePermission list"
  cr_CreatedAt :: gotime
  cr_UpdatedAt :: gotime

record StrategyAssignment =
  sa_ID :: int
  sa_StrategyID :: int
  sa_TargetType :: string
  sa_TargetID :: int
  sa_CreatedAt :: gotime

record Strategy =
  st_ID :: int
  st_Name :: string
  st_Description :: string
  st_Enabled :: bool
  st_SettingsJSON :: string
  st_Assignments :: "StrategyAssignment list"
  st_CreatedAt :: gotime
  st_UpdatedAt :: gotime

record BuildProfile =
  bp_ID :: int
  bp_Name :: string
  bp_AppName :: string
  bp_Vendor :: string
  bp_BundleID :: string
  bp_ProductName :: string
  bp_Description :: string
  bp_ServerConfigJSON :: string
  bp_BrandingJSON :: string
  bp_PolicyJSON :: string
  bp_PlatformsJSON :: string
  bp_SigningJSON :: string
  bp_SourceJSON :: string
  bp_CreatedBy :: int
  bp_CreatedAt :: gotime
  bp_UpdatedAt :: gotime

record BuildJob =
  bj_ID :: int
  bj_ProfileID :: int
  bj_Platform :: string
  bj_Status :: BuildJobStatus
  bj_Runner :: string
  bj_LogPath :: string
  bj_ErrorMessage :: string
  bj_CreatedAt :: gotime
  bj_StartedAt :: "gotime option"
  bj_FinishedAt :: "gotime option"

record BuildArtifact =
  ba_ID :: int
  ba_BuildJobID :: int
  ba_Platform :: string
  ba_Filename :: string
  ba_LocalPath :: string
  ba_SHA256 :: string
  ba_SizeBytes :: int
  ba_CreatedAt :: gotime
end
