(* ===== verification/Memory_Core.thy ===== *)
theory Memory_Core
  imports Models
begin

text \<open>
  The state of the in-memory repository (\<^verbatim>\<open>api/internal/repository/memory.go\<close>) and the
  helpers all its methods share. A method takes the mutex for its whole body, so it is one
  atomic step: a function from the state to a result and the next state. Results are
  \<open>repo_error + 'a\<close>, with \<^term>\<open>Inl\<close> for Go's non-nil error. \<^verbatim>\<open>time.Now()\<close> is the argument
  \<open>now\<close>. The clone functions of the source copy pointers and slices; on the values of the
  model a copy is the value itself, except \<open>cloneMetadata\<close>, which replaces the nil map.
\<close>

record Memory =
  nextID :: int
  users :: "User list"
  apiTokens :: "APIToken list"
  sessions :: "Session list"
  userGroups :: "UserGroup list"
  devices :: "Device list"
  deviceGroups :: "DeviceGroup list"
  addressBooks :: "AddressBook list"
  relays :: "Relay list"
  relayGrants :: "RelayGrant list"
  accessRules :: "AccessRule list"
  controlRoles :: "ControlRole list"
  strategies :: "Strategy list"
  auditEvents :: "AuditEvent list"
  loginLogs :: "LoginLog list"
  connectionLogs :: "ConnectionLog list"
  fileTransfers :: "FileTransferLog list"
  settings :: "(string \<times> SystemSetting) list"
  buildProfiles :: "BuildProfile list"
  buildJobs :: "BuildJob list"
  buildArtifacts :: "BuildArtifact list"

type_synonym 'a repo_result = "(repo_error + 'a) \<times> Memory"

section \<open>Construction\<close>

definition newMemoryWithUsersAndNext :: "gotime \<Rightarrow> User list \<Rightarrow> int \<Rightarrow> Memory" where
  "newMemoryWithUsersAndNext now us next =
     \<lparr> nextID = next, users = us, apiTokens = [], sessions = [], userGroups = [],
       devices =
         [\<lparr> dev_ID = 1, dev_RustDeskID = ''100000001'', dev_Name = ''Demo Windows Workstation'',
            dev_Alias = [], dev_OwnerUserID = None, dev_Status = DeviceStatusOffline,
            dev_Platform = ''windows'', dev_ClientVersion = [],
            dev_OpenDeskClientVersion = ''pending'', dev_LastIP = [], dev_LastSeenAt = None,
            dev_RegisteredAt = None, dev_CreatedAt = now, dev_UpdatedAt = now \<rparr>],
       deviceGroups = [], addressBooks = [],
       relays =
         [\<lparr> rel_ID = 1, rel_Name = ''hbbr-relay-a'', rel_Region = ''region-a'',
            rel_Host = ''remote.example.com'', rel_Port = 21117, rel_WSPort = 21119,
            rel_PublicKeyFingerprint = [], rel_Status = ''active'', rel_MaxBandwidthMbps = None,
            rel_CurrentSessions = 0, rel_LastHealthAt = None, rel_CreatedAt = now,
            rel_UpdatedAt = now \<rparr>],
       relayGrants = [], accessRules = [], controlRoles = [], strategies = [], auditEvents = [],
       loginLogs = [], connectionLogs = [], fileTransfers = [], settings = [],
       buildProfiles = [], buildJobs = [], buildArtifacts = [] \<rparr>"

definition NewMemoryWithoutInitialAdmin :: "gotime \<Rightarrow> Memory" where
  "NewMemoryWithoutInitialAdmin now = newMemoryWithUsersAndNext now [] 0"

definition NewMemoryWithInitialAdmin :: "gotime \<Rightarrow> string \<Rightarrow> string \<Rightarrow> Memory" where
  "NewMemoryWithInitialAdmin now email0 passwordHash =
     (let email1 = ToLower (TrimSpace email0);
          email = (if email1 = [] then ''admin@example.com'' else email1);
          username1 = fst (Cut CHR ''@'' email);
          username = (if username1 = [] then ''admin'' else username1)
      in newMemoryWithUsersAndNext now
           [\<lparr> user_ID = 1, user_Email = email, user_Username = username,
              user_DisplayName = ''Initial Admin'', user_PasswordHash = passwordHash,
              user_Status = UserStatusActive, user_MFAEnabled = False, user_Source = ''local'',
              user_CreatedAt = now, user_UpdatedAt = now, user_LastLoginAt = None \<rparr>] 100)"

definition NewMemory :: "gotime \<Rightarrow> Memory" where
  "NewMemory now = NewMemoryWithInitialAdmin now ''admin@example.com'' []"

section \<open>Shared helpers\<close>

text \<open>
  The loop \<open>for index := range rows { if no match { continue }; mutate; return row }\<close>:
  the first matching row is changed and returned, or there is none.
\<close>

definition update_row :: "('a \<Rightarrow> bool) \<Rightarrow> ('a \<Rightarrow> 'a) \<Rightarrow> 'a list \<Rightarrow> ('a \<times> 'a list) option" where
  "update_row P f xs =
     (case find P xs of None \<Rightarrow> None | Some x \<Rightarrow> Some (f x, update_first P f xs))"

text \<open>The loop that removes the first matching row: \<open>append(rows[:i], rows[i+1:]...)\<close>.\<close>

definition delete_row :: "('a \<Rightarrow> bool) \<Rightarrow> 'a list \<Rightarrow> 'a list option" where
  "delete_row P xs = (if find P xs = None then None else Some (delete_first P xs))"

fun positive_loop :: "int list \<Rightarrow> int list \<Rightarrow> int list" where
  "positive_loop seen [] = []"
| "positive_loop seen (i # ids) =
     (if i \<le> 0 \<or> i \<in> set seen then positive_loop seen ids
      else i # positive_loop (i # seen) ids)"

definition positiveIDs :: "int list \<Rightarrow> int list" where
  "positiveIDs ids = positive_loop [] ids"

fun containsInt64 :: "int list \<Rightarrow> int \<Rightarrow> bool" where
  "containsInt64 [] want = False"
| "containsInt64 (i # ids) want = (i = want \<or> containsInt64 ids want)"

fun removeInt64 :: "int list \<Rightarrow> int \<Rightarrow> int list" where
  "removeInt64 [] r = []"
| "removeInt64 (i # ids) r = (if i \<noteq> r then i # removeInt64 ids r else removeInt64 ids r)"

definition cloneMetadata :: "metadata \<Rightarrow> metadata" where
  "cloneMetadata md = (case md of None \<Rightarrow> Some [] | Some kvs \<Rightarrow> Some kvs)"

definition effectiveLimit :: "int \<Rightarrow> int" where
  "effectiveLimit limit = (if limit \<le> 0 \<or> limit > 500 then 500 else limit)"

definition effectiveOffset :: "int \<Rightarrow> int" where
  "effectiveOffset offset = (if offset < 0 then 0 else offset)"

definition paginate :: "'a list \<Rightarrow> int \<Rightarrow> int \<Rightarrow> 'a list" where
  "paginate items offset limit =
     (let start = effectiveOffset offset
      in if start \<ge> int (length items) then []
         else let end1 = start + effectiveLimit limit;
                  end2 = (if end1 > int (length items) then int (length items) else end1)
              in take (nat (end2 - start)) (drop (nat start) items))"

definition timeInRange :: "gotime \<Rightarrow> gotime option \<Rightarrow> gotime option \<Rightarrow> bool" where
  "timeInRange t from to =
     (if (case from of None \<Rightarrow> False | Some f \<Rightarrow> t < f) then False
      else if (case to of None \<Rightarrow> False | Some u \<Rightarrow> t > u) then False
      else True)"

definition validLoginStatus :: "string \<Rightarrow> bool" where
  "validLoginStatus s \<longleftrightarrow> s = ''succeeded'' \<or> s = ''failed'' \<or> s = ''denied''"

definition validConnectionType :: "string \<Rightarrow> bool" where
  "validConnectionType s \<longleftrightarrow> s = ''direct'' \<or> s = ''relay'' \<or> s = ''websocket''"

definition validConnectionStatus :: "string \<Rightarrow> bool" where
  "validConnectionStatus s \<longleftrightarrow> s = ''started'' \<or> s = ''ended'' \<or> s = ''failed'' \<or> s = ''denied''"

subsection \<open>Facts about the helpers\<close>

lemma update_row_None [simp]: "update_row P f xs = None \<longleftrightarrow> find P xs = None"
  by (auto simp: update_row_def split: option.splits)

lemma update_row_SomeD:
  "update_row P f xs = Some (y, ys) \<Longrightarrow>
     \<exists>x. find P xs = Some x \<and> y = f x \<and> ys = update_first P f xs"
  by (auto simp: update_row_def split: option.splits)

lemma delete_row_SomeD:
  "delete_row P xs = Some ys \<Longrightarrow> find P xs \<noteq> None \<and> ys = delete_first P xs"
  by (auto simp: delete_row_def split: if_splits)

lemma positive_loop_props:
  "distinct (positive_loop seen ids) \<and>
   set (positive_loop seen ids) = {i \<in> set ids. 0 < i} - set seen"
  by (induction ids arbitrary: seen) auto

lemma distinct_positiveIDs [simp]: "distinct (positiveIDs ids)"
  by (simp add: positiveIDs_def positive_loop_props)

lemma set_positiveIDs [simp]: "set (positiveIDs ids) = {i \<in> set ids. 0 < i}"
  by (simp add: positiveIDs_def positive_loop_props)

lemma containsInt64_iff [simp]: "containsInt64 ids i \<longleftrightarrow> i \<in> set ids"
  by (induction ids) auto

lemma removeInt64_filter [simp]: "removeInt64 ids r = filter (\<lambda>i. i \<noteq> r) ids"
  by (induction ids) auto

lemma paginate_take_drop:
  "paginate items offset limit =
     take (nat (effectiveLimit limit)) (drop (nat (effectiveOffset offset)) items)"
  by (auto simp: paginate_def Let_def effectiveOffset_def effectiveLimit_def nat_add_distrib)

lemma length_paginate: "length (paginate items offset limit) \<le> 500"
  by (auto simp: paginate_take_drop effectiveLimit_def)

end
