(* ===== verification/Memory_Relays.thy ===== *)
theory Memory_Relays
  imports Memory_Core
begin

text \<open>
  The relay part of the in-memory repository: relay nodes and relay grants
  (\<^verbatim>\<open>RelayRepository\<close> in \<^verbatim>\<open>interfaces.go\<close>). New grants go to the front of the table, so the
  newest of two grants with the same \<^verbatim>\<open>grant_id\<close> is the one every lookup sees.
\<close>

section \<open>Relay nodes\<close>

definition ListRelays :: "Memory \<Rightarrow> repo_error + Relay list" where
  "ListRelays m = Inr (relays m)"

definition CreateRelay :: "gotime \<Rightarrow> Relay \<Rightarrow> Memory \<Rightarrow> Relay repo_result" where
  "CreateRelay now relay m =
     (if rel_Name relay = [] \<or> rel_Region relay = [] \<or> rel_Host relay = []
      then (Inl (ErrMsg ''name, region, and host are required''), m)
      else let next = nextID m + 1;
               r = relay\<lparr> rel_ID := next,
                          rel_Port := (if rel_Port relay = 0 then 21117 else rel_Port relay),
                          rel_WSPort := (if rel_WSPort relay = 0 then 21119 else rel_WSPort relay),
                          rel_Status := (if rel_Status relay = [] then ''active'' else rel_Status relay),
                          rel_CreatedAt := now, rel_UpdatedAt := now \<rparr>
           in (Inr r, m\<lparr> nextID := next, relays := relays m @ [r] \<rparr>))"

definition UpdateRelay :: "gotime \<Rightarrow> int \<Rightarrow> Relay \<Rightarrow> Memory \<Rightarrow> Relay repo_result" where
  "UpdateRelay now i relay m =
     (if TrimSpace (rel_Name relay) = [] \<or> TrimSpace (rel_Region relay) = []
         \<or> TrimSpace (rel_Host relay) = []
      then (Inl (ErrMsg ''name, region, and host are required''), m)
      else (case update_row (\<lambda>r. rel_ID r = i)
              (\<lambda>r. r\<lparr> rel_Name := TrimSpace (rel_Name relay),
                      rel_Region := TrimSpace (rel_Region relay),
                      rel_Host := TrimSpace (rel_Host relay),
                      rel_Port := (if rel_Port relay = 0 then 21117 else rel_Port relay),
                      rel_WSPort := (if rel_WSPort relay = 0 then 21119 else rel_WSPort relay),
                      rel_PublicKeyFingerprint := TrimSpace (rel_PublicKeyFingerprint relay),
                      rel_Status := (if rel_Status relay = [] then rel_Status r else rel_Status relay),
                      rel_MaxBandwidthMbps := rel_MaxBandwidthMbps relay,
                      rel_UpdatedAt := now \<rparr>) (relays m) of
           None \<Rightarrow> (Inl ErrNotFound, m)
         | Some (r, rs) \<Rightarrow> (Inr r, m\<lparr> relays := rs \<rparr>)))"

definition RelayHeartbeat ::
    "gotime \<Rightarrow> int \<Rightarrow> int option \<Rightarrow> string \<Rightarrow> Memory \<Rightarrow> Relay repo_result" where
  "RelayHeartbeat now i currentSessions status m =
     (case update_row (\<lambda>r. rel_ID r = i)
             (\<lambda>r. r\<lparr> rel_CurrentSessions :=
                       (case currentSessions of None \<Rightarrow> rel_CurrentSessions r | Some n \<Rightarrow> n),
                     rel_Status := (if status \<noteq> [] then status else rel_Status r),
                     rel_LastHealthAt := Some now, rel_UpdatedAt := now \<rparr>) (relays m) of
        None \<Rightarrow> (Inl ErrNotFound, m)
      | Some (r, rs) \<Rightarrow> (Inr r, m\<lparr> relays := rs \<rparr>))"

definition DisableRelay :: "int \<Rightarrow> gotime \<Rightarrow> Memory \<Rightarrow> Relay repo_result" where
  "DisableRelay i at m =
     (case update_row (\<lambda>r. rel_ID r = i)
             (\<lambda>r. r\<lparr> rel_Status := ''disabled'', rel_UpdatedAt := at \<rparr>) (relays m) of
        None \<Rightarrow> (Inl ErrNotFound, m)
      | Some (r, rs) \<Rightarrow> (Inr r, m\<lparr> relays := rs \<rparr>))"

section \<open>Relay grants\<close>

definition CreateRelayGrant :: "gotime \<Rightarrow> RelayGrant \<Rightarrow> Memory \<Rightarrow> RelayGrant repo_result" where
  "CreateRelayGrant now g0 m =
     (if TrimSpace (rg_GrantID g0) = [] \<or> TrimSpace (rg_Nonce g0) = []
         \<or> IsZero (rg_ExpiresAt g0) \<or> rg_AllowedRelays g0 = []
      then (Inl (ErrMsg ''grant_id, nonce, expires_at, and allowed_relays are required''), m)
      else let next = nextID m + 1;
               g = g0\<lparr> rg_ID := next, rg_GrantID := TrimSpace (rg_GrantID g0),
                       rg_TargetRustDeskID := TrimSpace (rg_TargetRustDeskID g0),
                       rg_Nonce := TrimSpace (rg_Nonce g0),
                       rg_Status := (if rg_Status g0 = [] then ''issued'' else rg_Status g0),
                       rg_CreatedAt := now \<rparr>
           in (Inr g, m\<lparr> nextID := next, relayGrants := g # relayGrants m \<rparr>))"

definition FindRelayGrantByGrantID :: "string \<Rightarrow> Memory \<Rightarrow> repo_error + RelayGrant" where
  "FindRelayGrantByGrantID gid m =
     (case find (\<lambda>g. rg_GrantID g = TrimSpace gid) (relayGrants m) of
        Some g \<Rightarrow> Inr g
      | None \<Rightarrow> Inl ErrNotFound)"

definition UpdateRelayGrantStatus ::
    "string \<Rightarrow> string \<Rightarrow> gotime option \<Rightarrow> Memory \<Rightarrow> RelayGrant repo_result" where
  "UpdateRelayGrantStatus gid status usedAt m =
     (if TrimSpace status = [] then (Inl (ErrMsg ''status is required''), m)
      else (case update_row (\<lambda>g. rg_GrantID g = TrimSpace gid)
              (\<lambda>g. g\<lparr> rg_Status := TrimSpace status,
                      rg_UsedAt := (case usedAt of None \<Rightarrow> rg_UsedAt g | Some t \<Rightarrow> Some t) \<rparr>)
              (relayGrants m) of
           None \<Rightarrow> (Inl ErrNotFound, m)
         | Some (g, gs) \<Rightarrow> (Inr g, m\<lparr> relayGrants := gs \<rparr>)))"

end
