(* ===== verification/Grant_Store.thy ===== *)
theory Grant_Store
  imports Memory_Relays
begin

text \<open>
  The interface \<^verbatim>\<open>GrantStore\<close> of \<^verbatim>\<open>api/internal/relaygrant/service.go\<close>: its three operations
  as a record of functions over the state behind the store, the laws the service relies on
  as a locale, and the in-memory repository as a provider of them. An operation that reads
  the clock gets the reading as its first argument.
\<close>

record 's grant_store_ops =
  gs_CreateRelayGrant :: "gotime \<Rightarrow> RelayGrant \<Rightarrow> 's \<Rightarrow> (repo_error + RelayGrant) \<times> 's"
  gs_FindRelayGrantByGrantID :: "string \<Rightarrow> 's \<Rightarrow> repo_error + RelayGrant"
  gs_UpdateRelayGrantStatus ::
    "string \<Rightarrow> string \<Rightarrow> gotime option \<Rightarrow> 's \<Rightarrow> (repo_error + RelayGrant) \<times> 's"

text \<open>
  What a store promises. Identifiers that agree under \<open>norm\<close> are the same identifier; a created
  grant is found under its identifier and nothing else changes; a status update changes the
  status and the time of use of that grant only; an error changes no grant that can be found.
  An update to another status goes through when its time can be stored (\<open>storable\<close>).
\<close>

definition with_status :: "string \<Rightarrow> gotime option \<Rightarrow> RelayGrant \<Rightarrow> RelayGrant" where
  "with_status status usedAt g =
     g\<lparr> rg_Status := status, rg_UsedAt := (case usedAt of None \<Rightarrow> rg_UsedAt g | Some t \<Rightarrow> Some t) \<rparr>"

definition known_status :: "string \<Rightarrow> bool" where
  "known_status st \<longleftrightarrow> st \<in> {''issued'', ''used'', ''expired'', ''revoked''}"

locale grant_store =
  fixes create :: "gotime \<Rightarrow> RelayGrant \<Rightarrow> 's \<Rightarrow> (repo_error + RelayGrant) \<times> 's"
    and find_grant :: "string \<Rightarrow> 's \<Rightarrow> repo_error + RelayGrant"
    and update :: "string \<Rightarrow> string \<Rightarrow> gotime option \<Rightarrow> 's \<Rightarrow> (repo_error + RelayGrant) \<times> 's"
    and norm :: "string \<Rightarrow> string" and storable :: "gotime \<Rightarrow> bool"
  assumes norm_trim [simp]: "norm (TrimSpace k) = norm k"
    and find_norm: "norm k = norm k' \<Longrightarrow> find_grant k s = find_grant k' s"
    and create_key: "create now g s = (Inr g', s') \<Longrightarrow> norm (rg_GrantID g') = norm (rg_GrantID g)"
    and create_find: "create now g s = (Inr g', s') \<Longrightarrow>
          find_grant k s' = (if norm k = norm (rg_GrantID g') then Inr g' else find_grant k s)"
    and create_error: "create now g s = (Inl e, s') \<Longrightarrow>
          (find_grant k s' = Inr g') = (find_grant k s = Inr g')"
    and update_found: "find_grant k s = Inr g \<Longrightarrow> known_status st \<Longrightarrow> rg_Status g \<noteq> st \<Longrightarrow>
          (\<And>t. u = Some t \<Longrightarrow> storable t) \<Longrightarrow> \<exists>g' s'. update k st u s = (Inr g', s')"
    and update_Inr: "update k st u s = (Inr g', s') \<Longrightarrow> known_status st \<Longrightarrow>
          \<exists>g u'. find_grant k s = Inr g \<and> g' = with_status st u' g"
    and update_find: "update k st u s = (Inr g', s') \<Longrightarrow>
          find_grant k' s' = (if norm k' = norm k then Inr g' else find_grant k' s)"
    and update_error: "update k st u s = (Inl e, s') \<Longrightarrow>
          (find_grant k' s' = Inr g') = (find_grant k' s = Inr g')"

text \<open>A store that also gives back exactly what it was given, white space apart.\<close>

locale exact_grant_store = grant_store +
  assumes find_id: "find_grant k s = Inr g \<Longrightarrow> rg_GrantID g = TrimSpace k"
    and create_fields: "create now g s = (Inr g', s') \<Longrightarrow>
          rg_GrantID g' = TrimSpace (rg_GrantID g) \<and> rg_Nonce g' = TrimSpace (rg_Nonce g) \<and>
          rg_TargetRustDeskID g' = TrimSpace (rg_TargetRustDeskID g) \<and>
          rg_ExpiresAt g' = rg_ExpiresAt g \<and> rg_AllowedRelays g' = rg_AllowedRelays g \<and>
          rg_TargetDeviceID g' = rg_TargetDeviceID g \<and> rg_UsedAt g' = rg_UsedAt g \<and>
          (rg_Status g \<noteq> [] \<longrightarrow> rg_Status g' = rg_Status g)"

section \<open>The in-memory repository as a grant store\<close>

definition memory_grant_store :: "Memory grant_store_ops" where
  "memory_grant_store =
     \<lparr> gs_CreateRelayGrant = CreateRelayGrant,
       gs_FindRelayGrantByGrantID = FindRelayGrantByGrantID,
       gs_UpdateRelayGrantStatus = UpdateRelayGrantStatus \<rparr>"

lemma find_update_grant:
  "find (\<lambda>g. rg_GrantID g = TrimSpace k') (update_first (\<lambda>g. rg_GrantID g = TrimSpace k) f gs) =
     (if TrimSpace k' = TrimSpace k
      then map_option f (find (\<lambda>g. rg_GrantID g = TrimSpace k') gs)
      else find (\<lambda>g. rg_GrantID g = TrimSpace k') gs)"
  if "\<And>g. rg_GrantID (f g) = rg_GrantID g"
  using that by (induction gs) auto

lemma TrimSpace_known [simp]: "known_status st \<Longrightarrow> TrimSpace st = st \<and> st \<noteq> []"
  by (rule conjI; (rule TrimSpace_graph)?) (auto simp: known_status_def)

interpretation memory_grants:
  exact_grant_store CreateRelayGrant FindRelayGrantByGrantID UpdateRelayGrantStatus TrimSpace "\<lambda>_. True"
proof unfold_locales
  fix k k' st u g g' g'' e and s s' :: Memory
  show "TrimSpace (TrimSpace k) = TrimSpace k" by simp
  show "TrimSpace k = TrimSpace k' \<Longrightarrow> FindRelayGrantByGrantID k s = FindRelayGrantByGrantID k' s"
    by (simp add: FindRelayGrantByGrantID_def)
  show "\<exists>g' s'. UpdateRelayGrantStatus k st u s = (Inr g', s')"
    if "FindRelayGrantByGrantID k s = Inr g" "known_status st"
    using that by (simp add: FindRelayGrantByGrantID_def UpdateRelayGrantStatus_def update_row_def
        split: option.splits)
  show "\<exists>g u'. FindRelayGrantByGrantID k s = Inr g \<and> g' = with_status st u' g"
    if "UpdateRelayGrantStatus k st u s = (Inr g', s')" "known_status st"
    using that by (auto simp: FindRelayGrantByGrantID_def UpdateRelayGrantStatus_def update_row_def
        with_status_def split: option.splits if_splits)
  show "FindRelayGrantByGrantID k' s' = (if TrimSpace k' = TrimSpace k then Inr g' else FindRelayGrantByGrantID k' s)"
    if "UpdateRelayGrantStatus k st u s = (Inr g', s')"
    using that
    by (auto simp: FindRelayGrantByGrantID_def UpdateRelayGrantStatus_def update_row_def
        find_update_grant split: option.splits if_splits)
  show "(FindRelayGrantByGrantID k' s' = Inr g') = (FindRelayGrantByGrantID k' s = Inr g')"
    if "UpdateRelayGrantStatus k st u s = (Inl e, s')"
    using that by (auto simp: UpdateRelayGrantStatus_def split: option.splits if_splits)
  show "FindRelayGrantByGrantID k s = Inr g \<Longrightarrow> rg_GrantID g = TrimSpace k"
    by (auto simp: FindRelayGrantByGrantID_def split: option.splits dest: find_SomeD)
qed (auto simp: CreateRelayGrant_def FindRelayGrantByGrantID_def Let_def split: if_splits)

end
