(* ===== verification/Base64.thy ===== *)
theory Base64
  imports Go_Prelude
begin

text \<open>
  \<^verbatim>\<open>base64.RawURLEncoding\<close>: the URL-safe alphabet without padding, as the relay-grant and
  session tokens use it. The decoder is Go's: it skips carriage returns and newlines, refuses
  every other byte outside the alphabet and a single left-over digit, and ignores the unused
  low bits of a short last group.
\<close>

section \<open>Digits\<close>

definition b64_char :: "nat \<Rightarrow> char" where
  "b64_char v =
     char_of (if v < 26 then 65 + v else if v < 52 then 71 + v else if v < 62 then v - 4
              else if v = 62 then 45 else 95 :: nat)"

definition b64_value :: "char \<Rightarrow> nat option" where
  "b64_value c =
     (let n = byte c
      in if 65 \<le> n \<and> n \<le> 90 then Some (n - 65)
         else if 97 \<le> n \<and> n \<le> 122 then Some (n - 71)
         else if 48 \<le> n \<and> n \<le> 57 then Some (n + 4)
         else if n = 45 then Some 62
         else if n = 95 then Some 63
         else None)"

section \<open>Encoder and decoder\<close>

fun EncodeToString :: "string \<Rightarrow> string" where
  "EncodeToString [] = []"
| "EncodeToString [a] = [b64_char (byte a div 4), b64_char (byte a mod 4 * 16)]"
| "EncodeToString [a, b] =
     [b64_char (byte a div 4), b64_char (byte a mod 4 * 16 + byte b div 16),
      b64_char (byte b mod 16 * 4)]"
| "EncodeToString (a # b # c # s) =
     b64_char (byte a div 4) # b64_char (byte a mod 4 * 16 + byte b div 16)
     # b64_char (byte b mod 16 * 4 + byte c div 64) # b64_char (byte c mod 64)
     # EncodeToString s"

fun decode_digits :: "nat list \<Rightarrow> string option" where
  "decode_digits [] = Some []"
| "decode_digits [_] = None"
| "decode_digits [p, q] = Some [char_of (p * 4 + q div 16)]"
| "decode_digits [p, q, r] = Some [char_of (p * 4 + q div 16), char_of (q mod 16 * 16 + r div 4)]"
| "decode_digits (p # q # r # t # ds) =
     (case decode_digits ds of
        None \<Rightarrow> None
      | Some s \<Rightarrow> Some (char_of (p * 4 + q div 16) # char_of (q mod 16 * 16 + r div 4)
                       # char_of (r mod 4 * 64 + t) # s))"

fun digit_values :: "string \<Rightarrow> nat list option" where
  "digit_values [] = Some []"
| "digit_values (c # s) =
     (if c = CHR 0x0A \<or> c = CHR 0x0D then digit_values s
      else (case b64_value c of
              None \<Rightarrow> None
            | Some v \<Rightarrow> (case digit_values s of None \<Rightarrow> None | Some vs \<Rightarrow> Some (v # vs))))"

definition DecodeString :: "string \<Rightarrow> string option" where
  "DecodeString s = (case digit_values s of None \<Rightarrow> None | Some vs \<Rightarrow> decode_digits vs)"

section \<open>Facts\<close>

lemma byte_bound [simp]: "byte c < 256"
  by (metis nat_of_char_less_256)

lemma byte_b64_char: "v < 64 \<Longrightarrow>
  byte (b64_char v) = (if v < 26 then 65 + v else if v < 52 then 71 + v else if v < 62 then v - 4
                       else if v = 62 then 45 else 95)"
  by (auto simp: b64_char_def)

lemma b64_value_char [simp]: "v < 64 \<Longrightarrow> b64_value (b64_char v) = Some v"
  by (auto simp: b64_value_def byte_b64_char Let_def)

lemma byte_eq_iff: "c = d \<longleftrightarrow> byte c = byte d"
  by simp

lemma b64_char_neq [simp]:
  assumes "v < 64"
  shows "b64_char v \<noteq> CHR 0x0A" "b64_char v \<noteq> CHR 0x0D" "b64_char v \<noteq> CHR ''.''"
  unfolding byte_eq_iff byte_b64_char [OF assms] using assms by auto

lemma byte_groups [simp]:
  "byte a div 4 < 64" "byte a mod 4 * 16 < 64" "byte a mod 4 * 16 + byte b div 16 < 64"
  "byte b mod 16 * 4 < 64" "byte b mod 16 * 4 + byte c div 64 < 64" "byte c mod 64 < 64"
  using byte_bound [of a] byte_bound [of b] byte_bound [of c] by linarith+

lemma byte_high [simp]: "byte b div 16 < 16" "byte c div 64 < 4"
  using byte_bound [of b] byte_bound [of c] by linarith+

lemma regroup:
  "byte a + byte b div 16 div 16 = byte a"
  "byte b div 16 mod 16 * 16 + (byte b mod 16 + byte c div 64 div 4) = byte b"
  "byte b div 16 mod 16 * 16 + byte b mod 16 = byte b"
  "byte c div 64 mod 4 * 64 + byte c mod 64 = byte c"
  by (simp_all add: mod_less [OF byte_high(1)] mod_less [OF byte_high(2)]
       div_less [OF byte_high(1)] div_less [OF byte_high(2)])

lemma Decode_Encode [simp]: "DecodeString (EncodeToString s) = Some s"
proof (induction s rule: EncodeToString.induct)
  case (4 a b c s)
  then obtain vs where "digit_values (EncodeToString s) = Some vs" "decode_digits vs = Some s"
    by (auto simp: DecodeString_def split: option.splits)
  then show ?case by (simp add: DecodeString_def regroup)
qed (simp_all add: DecodeString_def regroup)

text \<open>An encoding never holds the separator of a token.\<close>

lemma Encode_no_dot [simp]: "CHR ''.'' \<notin> set (EncodeToString s)"
  by (induction s rule: EncodeToString.induct) (simp_all add: eq_commute [of "CHR ''.''"])

lemma Encode_not_Nil [simp]: "EncodeToString s = [] \<longleftrightarrow> s = []"
  by (cases s rule: EncodeToString.cases) simp_all

lemma Encode_graph: "c \<in> set (EncodeToString s) \<Longrightarrow> 32 < byte c \<and> byte c < 128"
proof -
  have *: "32 < byte (b64_char v) \<and> byte (b64_char v) < 128" if "v < 64" for v
    using that by (auto simp: byte_b64_char)
  show "c \<in> set (EncodeToString s) \<Longrightarrow> ?thesis"
    by (induction s rule: EncodeToString.induct) (auto simp: *)
qed

end
