(* ===== verification/Relay_Grant.thy ===== *)
theory Relay_Grant
  imports Grant_Store Base64
begin

text \<open>
  The relay-grant service (\<^verbatim>\<open>api/internal/relaygrant/service.go\<close>): issuing, validating and
  revoking the short-lived, signed, single-use tokens a relay accepts. The service keeps its
  grants in a store when one is configured and in its own map otherwise; both paths are
  modelled. JSON and HMAC-SHA-256 are arguments of the definitions (\<open>codec\<close>): nothing of
  them matters but that the code calls them on the same bytes. Readings of the clock and of
  \<^verbatim>\<open>crypto/rand\<close> are arguments too.
\<close>

section \<open>Data\<close>

type_synonym Status = string

abbreviation StatusIssued :: Status where "StatusIssued \<equiv> ''issued''"
abbreviation StatusUsed :: Status where "StatusUsed \<equiv> ''used''"
abbreviation StatusExpired :: Status where "StatusExpired \<equiv> ''expired''"
abbreviation StatusRevoked :: Status where "StatusRevoked \<equiv> ''revoked''"

datatype grant_error =
    ErrInvalidToken
  | ErrExpired
  | ErrRevoked
  | IssueError string
  | StoreError repo_error
  | MarshalError

record IssueRequest =
  ir_UserID :: "int option"
  ir_ControllerDeviceID :: "int option"
  ir_TargetDeviceID :: "int option"
  ir_TargetRustDeskID :: string
  ir_RelayID :: "int option"
  ir_AllowedRelays :: "string list"
  ir_TTLSeconds :: "64 word"
  ir_Authenticated :: bool

record IssueResponse =
  is_GrantID :: string
  is_Token :: string
  is_ExpiresAt :: gotime

record ValidateRequest =
  vr_Token :: string
  vr_Relay :: string
  vr_TargetDeviceID :: "int option"
  vr_TargetRustDeskID :: string

record ValidateResponse =
  vs_Valid :: bool
  vs_GrantID :: string
  vs_Status :: Status
  vs_ExpiresAt :: gotime
  vs_Reason :: string

record Grant =
  g_GrantID :: string
  g_UserID :: "int option"
  g_ControllerDeviceID :: "int option"
  g_TargetDeviceID :: "int option"
  g_TargetRustDeskID :: string
  g_RelayID :: "int option"
  g_AllowedRelays :: "string list"
  g_ExpiresAt :: gotime
  g_Nonce :: string
  g_Status :: Status
  g_CreatedAt :: gotime
  g_UsedAt :: "gotime option"

record tokenPayload =
  tp_GrantID :: string
  tp_UserID :: "int option"
  tp_ControllerDeviceID :: "int option"
  tp_TargetDeviceID :: "int option"
  tp_TargetRustDeskID :: string
  tp_RelayID :: "int option"
  tp_AllowedRelays :: "string list"
  tp_ExpiresAt :: int
  tp_Nonce :: string

record 's Service =
  svc_key :: string
  svc_defaultTTL :: duration
  svc_grants :: "string \<rightharpoonup> Grant"
  svc_store :: "'s grant_store_ops option"
  svc_db :: 's

text \<open>\<^verbatim>\<open>json.Marshal\<close> and \<^verbatim>\<open>json.Unmarshal\<close> at \<^verbatim>\<open>tokenPayload\<close>, and HMAC-SHA-256 of a key.\<close>

record codec =
  marshal :: "tokenPayload \<Rightarrow> string option"
  unmarshal :: "string \<Rightarrow> tokenPayload option"
  hmac :: "string \<Rightarrow> string \<Rightarrow> string"

section \<open>Helpers\<close>

definition NewService :: "string \<Rightarrow> duration \<Rightarrow> 's \<Rightarrow> 's Service" where
  "NewService key defaultTTL db =
     \<lparr> svc_key = key, svc_defaultTTL = (if defaultTTL = 0 then 2 * Minute else defaultTTL),
       svc_grants = Map.empty, svc_store = None, svc_db = db \<rparr>"

definition WithStore :: "'s grant_store_ops \<Rightarrow> 's Service \<Rightarrow> 's Service" where
  "WithStore store s = s\<lparr> svc_store := Some store \<rparr>"

definition modelFromGrant :: "Grant \<Rightarrow> RelayGrant" where
  "modelFromGrant g =
     \<lparr> rg_ID = 0, rg_GrantID = g_GrantID g, rg_UserID = g_UserID g,
       rg_ControllerDeviceID = g_ControllerDeviceID g, rg_TargetDeviceID = g_TargetDeviceID g,
       rg_TargetRustDeskID = g_TargetRustDeskID g, rg_RelayID = g_RelayID g,
       rg_AllowedRelays = g_AllowedRelays g, rg_ExpiresAt = g_ExpiresAt g,
       rg_Nonce = g_Nonce g, rg_Status = g_Status g, rg_CreatedAt = g_CreatedAt g,
       rg_UsedAt = g_UsedAt g \<rparr>"

definition grantFromModel :: "RelayGrant \<Rightarrow> Grant" where
  "grantFromModel m =
     \<lparr> g_GrantID = rg_GrantID m, g_UserID = rg_UserID m,
       g_ControllerDeviceID = rg_ControllerDeviceID m, g_TargetDeviceID = rg_TargetDeviceID m,
       g_TargetRustDeskID = rg_TargetRustDeskID m, g_RelayID = rg_RelayID m,
       g_AllowedRelays = rg_AllowedRelays m, g_ExpiresAt = rg_ExpiresAt m,
       g_Nonce = rg_Nonce m, g_Status = rg_Status m, g_CreatedAt = rg_CreatedAt m,
       g_UsedAt = rg_UsedAt m \<rparr>"

definition cloneGrant :: "Grant \<Rightarrow> Grant" where
  "cloneGrant g = grantFromModel (modelFromGrant g)"

definition randomID :: "string \<Rightarrow> string \<Rightarrow> string" where
  "randomID pre b = pre @ ''_'' @ EncodeToString b"

fun contains :: "string list \<Rightarrow> string \<Rightarrow> bool" where
  "contains [] want = False"
| "contains (v # vs) want = (v = want \<or> contains vs want)"

section \<open>Tokens\<close>

definition sign :: "codec \<Rightarrow> string \<Rightarrow> tokenPayload \<Rightarrow> grant_error + string" where
  "sign c key payload =
     (case marshal c payload of
        None \<Rightarrow> Inl MarshalError
      | Some raw \<Rightarrow>
          let encoded = EncodeToString raw;
              sig = EncodeToString (hmac c key encoded)
          in Inr (encoded @ ''.'' @ sig))"

definition parse :: "codec \<Rightarrow> string \<Rightarrow> string \<Rightarrow> grant_error + tokenPayload" where
  "parse c key token =
     (let parts = Split CHR ''.'' token
      in if length parts \<noteq> 2 then Inl ErrInvalidToken
         else let expected = hmac c key (parts ! 0)
              in (case DecodeString (parts ! 1) of
                    None \<Rightarrow> Inl ErrInvalidToken
                  | Some got \<Rightarrow>
                      if expected \<noteq> got then Inl ErrInvalidToken
                      else (case DecodeString (parts ! 0) of
                          None \<Rightarrow> Inl ErrInvalidToken
                        | Some raw \<Rightarrow>
                            (case unmarshal c raw of
                               None \<Rightarrow> Inl ErrInvalidToken
                             | Some payload \<Rightarrow>
                                 if TrimSpace (tp_GrantID payload) = []
                                    \<or> TrimSpace (tp_Nonce payload) = []
                                    \<or> tp_ExpiresAt payload \<le> 0
                                 then Inl ErrInvalidToken else Inr payload))))"

section \<open>The grant table behind the service\<close>

definition findGrant :: "string \<Rightarrow> 's Service \<Rightarrow> Grant option" where
  "findGrant gid s =
     (case svc_store s of
        Some store \<Rightarrow>
          (case gs_FindRelayGrantByGrantID store gid (svc_db s) of
             Inl e \<Rightarrow> None
           | Inr g \<Rightarrow> Some (grantFromModel g))
      | None \<Rightarrow> (case svc_grants s gid of None \<Rightarrow> None | Some g \<Rightarrow> Some (cloneGrant g)))"

definition set_status :: "Status \<Rightarrow> gotime option \<Rightarrow> Grant \<Rightarrow> Grant" where
  "set_status status usedAt g =
     g\<lparr> g_Status := status, g_UsedAt := (case usedAt of None \<Rightarrow> g_UsedAt g | Some t \<Rightarrow> Some t) \<rparr>"

text \<open>The part of \<^verbatim>\<open>updateGrantStatus\<close> after the store, under the mutex.\<close>

definition update_in_map :: "Grant \<Rightarrow> Status \<Rightarrow> gotime option \<Rightarrow> 's Service \<Rightarrow> Grant \<times> 's Service" where
  "update_in_map g status usedAt s =
     (case svc_grants s (g_GrantID g) of
        Some stored \<Rightarrow>
          let stored1 = set_status status usedAt stored
          in (cloneGrant stored1, s\<lparr> svc_grants := (svc_grants s)(g_GrantID g \<mapsto> stored1) \<rparr>)
      | None \<Rightarrow> (set_status status usedAt g, s))"

definition updateGrantStatus ::
    "Grant \<Rightarrow> Status \<Rightarrow> gotime option \<Rightarrow> 's Service \<Rightarrow> Grant \<times> 's Service" where
  "updateGrantStatus g status usedAt s =
     (case svc_store s of
        Some store \<Rightarrow>
          (case gs_UpdateRelayGrantStatus store (g_GrantID g) status usedAt (svc_db s) of
             (Inr updated, db) \<Rightarrow> (grantFromModel updated, s\<lparr> svc_db := db \<rparr>)
           | (Inl e, db) \<Rightarrow> update_in_map g status usedAt (s\<lparr> svc_db := db \<rparr>))
      | None \<Rightarrow> update_in_map g status usedAt s)"

text \<open>The end of \<^verbatim>\<open>IssueWithContext\<close>: the grant goes to the store or into the map.\<close>

definition storeGrant :: "gotime \<Rightarrow> Grant \<Rightarrow> 's Service \<Rightarrow> (grant_error + Grant) \<times> 's Service" where
  "storeGrant now g s =
     (case svc_store s of
        Some store \<Rightarrow>
          (case gs_CreateRelayGrant store now (modelFromGrant g) (svc_db s) of
             (Inl e, db) \<Rightarrow> (Inl (StoreError e), s\<lparr> svc_db := db \<rparr>)
           | (Inr created, db) \<Rightarrow> (Inr (grantFromModel created), s\<lparr> svc_db := db \<rparr>))
      | None \<Rightarrow> (Inr g, s\<lparr> svc_grants := (svc_grants s)(g_GrantID g \<mapsto> g) \<rparr>))"

section \<open>Issue\<close>

text \<open>\<^verbatim>\<open>time.Duration(req.TTLSeconds) * time.Second\<close> wraps at 64 bits; comparisons are signed.\<close>

definition request_ttl :: "duration \<Rightarrow> 64 word \<Rightarrow> duration" where
  "request_ttl defaultTTL ttlSeconds =
     (if 0 < sint ttlSeconds then ttlSeconds * Second else defaultTTL)"

definition new_grant :: "gotime \<Rightarrow> string \<Rightarrow> string \<Rightarrow> duration \<Rightarrow> IssueRequest \<Rightarrow> Grant" where
  "new_grant now rnd1 rnd2 ttl req =
     \<lparr> g_GrantID = randomID ''rg'' rnd1, g_UserID = ir_UserID req,
       g_ControllerDeviceID = ir_ControllerDeviceID req, g_TargetDeviceID = ir_TargetDeviceID req,
       g_TargetRustDeskID = ir_TargetRustDeskID req, g_RelayID = ir_RelayID req,
       g_AllowedRelays = ir_AllowedRelays req, g_ExpiresAt = Add now ttl,
       g_Nonce = randomID ''nonce'' rnd2, g_Status = StatusIssued, g_CreatedAt = now,
       g_UsedAt = None \<rparr>"

definition payload_of :: "Grant \<Rightarrow> tokenPayload" where
  "payload_of g =
     \<lparr> tp_GrantID = g_GrantID g, tp_UserID = g_UserID g,
       tp_ControllerDeviceID = g_ControllerDeviceID g, tp_TargetDeviceID = g_TargetDeviceID g,
       tp_TargetRustDeskID = g_TargetRustDeskID g, tp_RelayID = g_RelayID g,
       tp_AllowedRelays = g_AllowedRelays g, tp_ExpiresAt = Unix (g_ExpiresAt g),
       tp_Nonce = g_Nonce g \<rparr>"

definition IssueWithContext ::
    "codec \<Rightarrow> gotime \<Rightarrow> gotime \<Rightarrow> string \<Rightarrow> string \<Rightarrow> IssueRequest \<Rightarrow> 's Service \<Rightarrow>
       (grant_error + IssueResponse) \<times> 's Service" where
  "IssueWithContext c now now2 rnd1 rnd2 req0 s =
     (if ir_UserID req0 = None \<and> ir_ControllerDeviceID req0 = None \<and> \<not> ir_Authenticated req0
      then (Inl (IssueError ''relay grant requires user or managed device identity''), s)
      else
        let req = req0\<lparr> ir_TargetRustDeskID := TrimSpace (ir_TargetRustDeskID req0) \<rparr>
        in if ir_TargetDeviceID req = None \<and> ir_TargetRustDeskID req = []
           then (Inl (IssueError ''target_device_id or target_rustdesk_id is required''), s)
           else if ir_AllowedRelays req = []
           then (Inl (IssueError ''allowed_relays is required''), s)
           else
             let ttl = request_ttl (svc_defaultTTL s) (ir_TTLSeconds req)
             in if sint ttl < sint Minute \<or> sint ttl > sint (5 * Minute)
                then (Inl (IssueError ''ttl must be between 60 seconds and 5 minutes''), s)
                else
                  let g = new_grant now rnd1 rnd2 ttl req
                  in (case sign c (svc_key s) (payload_of g) of
                        Inl e \<Rightarrow> (Inl e, s)
                      | Inr token \<Rightarrow>
                          (case storeGrant now2 g s of
                             (Inl e, s1) \<Rightarrow> (Inl e, s1)
                           | (Inr g1, s1) \<Rightarrow>
                               (Inr \<lparr> is_GrantID = g_GrantID g1, is_Token = token,
                                      is_ExpiresAt = g_ExpiresAt g1 \<rparr>, s1))))"

definition Issue where
  "Issue c now now2 rnd1 rnd2 req s = IssueWithContext c now now2 rnd1 rnd2 req s"

section \<open>Validate\<close>

definition rejected :: "Grant \<Rightarrow> string \<Rightarrow> ValidateResponse" where
  "rejected g reason =
     \<lparr> vs_Valid = False, vs_GrantID = g_GrantID g, vs_Status = g_Status g,
       vs_ExpiresAt = zero_time, vs_Reason = reason \<rparr>"

definition unknown_grant :: "string \<Rightarrow> string \<Rightarrow> ValidateResponse" where
  "unknown_grant gid reason =
     \<lparr> vs_Valid = False, vs_GrantID = gid, vs_Status = [], vs_ExpiresAt = zero_time,
       vs_Reason = reason \<rparr>"

text \<open>
  Validation reads the grant, decides, and then writes the new status; the two store calls
  are separate critical sections, and the model keeps them apart: \<open>validate_decide\<close> is the
  part up to the write, \<open>validate_commit\<close> the write.
\<close>

datatype verdict =
    Reject ValidateResponse grant_error
  | Expire Grant
  | Accept Grant

definition validate_decide ::
    "codec \<Rightarrow> gotime \<Rightarrow> ValidateRequest \<Rightarrow> 's Service \<Rightarrow> verdict" where
  "validate_decide c now req s =
     (case parse c (svc_key s) (vr_Token req) of
        Inl e \<Rightarrow> Reject (unknown_grant [] ''invalid_relay_grant'') e
      | Inr payload \<Rightarrow>
          (case findGrant (tp_GrantID payload) s of
             None \<Rightarrow> Reject (unknown_grant (tp_GrantID payload) ''unknown_relay_grant'') ErrInvalidToken
           | Some g \<Rightarrow>
               if g_Nonce g \<noteq> tp_Nonce payload
               then Reject (rejected g ''invalid_relay_grant'') ErrInvalidToken
               else if g_Status g = StatusRevoked
               then Reject (rejected g ''revoked_relay_grant'') ErrRevoked
               else if g_Status g = StatusUsed
               then Reject (rejected g ''replayed_relay_grant'') ErrInvalidToken
               else if g_Status g = StatusExpired
               then Reject (rejected g ''expired_relay_grant'') ErrExpired
               else if now > g_ExpiresAt g then Expire g
               else if vr_TargetDeviceID req \<noteq> None \<and> g_TargetDeviceID g \<noteq> None
                       \<and> vr_TargetDeviceID req \<noteq> g_TargetDeviceID g
               then Reject (rejected g ''target_device_mismatch'') ErrInvalidToken
               else if vr_TargetRustDeskID req \<noteq> [] \<and> g_TargetRustDeskID g \<noteq> []
                       \<and> vr_TargetRustDeskID req \<noteq> g_TargetRustDeskID g
               then Reject (rejected g ''target_device_mismatch'') ErrInvalidToken
               else if vr_Relay req \<noteq> [] \<and> \<not> contains (g_AllowedRelays g) (vr_Relay req)
               then Reject (rejected g ''relay_not_allowed'') ErrInvalidToken
               else Accept g))"

fun validate_commit ::
    "gotime \<Rightarrow> verdict \<Rightarrow> 's Service \<Rightarrow> (ValidateResponse \<times> grant_error option) \<times> 's Service" where
  "validate_commit now2 (Reject resp e) s = ((resp, Some e), s)"
| "validate_commit now2 (Expire g) s =
     (case updateGrantStatus g StatusExpired None s of
        (g1, s1) \<Rightarrow> ((rejected g1 ''expired_relay_grant'', Some ErrExpired), s1))"
| "validate_commit now2 (Accept g) s =
     (case updateGrantStatus g StatusUsed (Some now2) s of
        (g1, s1) \<Rightarrow>
          ((\<lparr> vs_Valid = True, vs_GrantID = g_GrantID g1, vs_Status = g_Status g1,
              vs_ExpiresAt = g_ExpiresAt g1, vs_Reason = [] \<rparr>, None), s1))"

definition ValidateWithContext ::
    "codec \<Rightarrow> gotime \<Rightarrow> gotime \<Rightarrow> ValidateRequest \<Rightarrow> 's Service \<Rightarrow>
       (ValidateResponse \<times> grant_error option) \<times> 's Service" where
  "ValidateWithContext c now now2 req s = validate_commit now2 (validate_decide c now req s) s"

definition Validate where
  "Validate c now now2 req s = ValidateWithContext c now now2 req s"

section \<open>Revoke\<close>

definition RevokeWithContext :: "string \<Rightarrow> 's Service \<Rightarrow> bool \<times> 's Service" where
  "RevokeWithContext gid0 s =
     (let gid = TrimSpace gid0
      in if gid = [] then (False, s)
         else (case svc_store s of
             Some store \<Rightarrow>
               (case gs_UpdateRelayGrantStatus store gid StatusRevoked None (svc_db s) of
                  (Inl e, db) \<Rightarrow> (False, s\<lparr> svc_db := db \<rparr>)
                | (Inr g, db) \<Rightarrow> (True, s\<lparr> svc_db := db \<rparr>))
           | None \<Rightarrow>
               (case svc_grants s gid of
                  None \<Rightarrow> (False, s)
                | Some g \<Rightarrow>
                    (True, s\<lparr> svc_grants := (svc_grants s)(gid \<mapsto> g\<lparr> g_Status := StatusRevoked \<rparr>) \<rparr>))))"

definition Revoke where
  "Revoke gid s = RevokeWithContext gid s"

end
