(* ===== verification/Grant_Lifecycle.thy ===== *)
theory Grant_Lifecycle
  imports Relay_Grant
begin

text \<open>
  The life of a relay grant. The service is a state machine over its three operations and
  over anything else that leaves the grants alone; a grant that was used, revoked or found
  expired never becomes valid again. The proofs use the store only through the laws of the
  locale \<open>grant_store\<close>, and hold for the service's own map as well.
\<close>

section \<open>Identifiers are free of white space\<close>

lemma TrimSpace_randomID [simp]:
  "TrimSpace (randomID ''rg'' b) = randomID ''rg'' b"
  "TrimSpace (randomID ''nonce'' b) = randomID ''nonce'' b"
  by (rule TrimSpace_graph; auto simp: randomID_def dest: Encode_graph)+

lemma TrimSpace_status [simp]:
  "TrimSpace StatusUsed = StatusUsed" "TrimSpace StatusRevoked = StatusRevoked"
  "TrimSpace StatusExpired = StatusExpired" "TrimSpace StatusIssued = StatusIssued"
  by (rule TrimSpace_graph; force)+

lemma randomID_not_Nil [simp]: "randomID p b \<noteq> []"
  by (simp add: randomID_def)

section \<open>Tokens\<close>

lemma contains_iff [simp]: "contains vs w \<longleftrightarrow> w \<in> set vs"
  by (induction vs) auto

lemma parse_sign:
  assumes "sign c key p = Inr token" "\<And>raw. marshal c p = Some raw \<Longrightarrow> unmarshal c raw = Some p"
    and "TrimSpace (tp_GrantID p) \<noteq> []" "TrimSpace (tp_Nonce p) \<noteq> []" "0 < tp_ExpiresAt p"
  shows "parse c key token = Inr p"
proof -
  obtain raw where raw: "marshal c p = Some raw"
    and token: "token = EncodeToString raw @ CHR ''.'' # EncodeToString (hmac c key (EncodeToString raw))"
    using assms(1) by (auto simp: sign_def Let_def split: option.splits)
  then have "Split CHR ''.'' token = [EncodeToString raw, EncodeToString (hmac c key (EncodeToString raw))]"
    by (simp add: Split_pair)
  then show ?thesis using assms(2) [OF raw] assms(3-5) by (simp add: parse_def Let_def)
qed

lemma parse_InrD:
  assumes "parse c key token = Inr p"
  shows "\<exists>body sig raw. token = body @ CHR ''.'' # sig \<and>
           DecodeString sig = Some (hmac c key body) \<and>
           DecodeString body = Some raw \<and> unmarshal c raw = Some p \<and>
           TrimSpace (tp_GrantID p) \<noteq> [] \<and> TrimSpace (tp_Nonce p) \<noteq> [] \<and> 0 < tp_ExpiresAt p"
proof -
  have "length (Split CHR ''.'' token) = 2"
    using assms by (auto simp: parse_def Let_def split: if_splits)
  then obtain body sig where parts: "Split CHR ''.'' token = [body, sig]"
    by (auto simp: length_Suc_conv numeral_2_eq_2)
  moreover obtain raw where "DecodeString sig = Some (hmac c key body)"
    "DecodeString body = Some raw" "unmarshal c raw = Some p"
    "TrimSpace (tp_GrantID p) \<noteq> []" "TrimSpace (tp_Nonce p) \<noteq> []" "0 < tp_ExpiresAt p"
    using assms unfolding parse_def Let_def parts by (simp split: option.splits if_splits)
  moreover have "token = body @ CHR ''.'' # sig" using parts by (simp add: Split_pair)
  ultimately show ?thesis by blast
qed

section \<open>The grant table\<close>

definition grant_key :: "(string \<Rightarrow> string) \<Rightarrow> 's Service \<Rightarrow> string \<Rightarrow> string" where
  "grant_key norm s k = (if svc_store s = None then k else norm k)"

definition grants_keyed :: "(string \<Rightarrow> string) \<Rightarrow> 's Service \<Rightarrow> bool" where
  "grants_keyed norm s \<longleftrightarrow>
     (\<forall>k g. findGrant k s = Some g \<longrightarrow> grant_key norm s (g_GrantID g) = grant_key norm s k)"

definition serves :: "(string \<Rightarrow> string) \<Rightarrow> 's grant_store_ops \<Rightarrow> 's Service \<Rightarrow> bool" where
  "serves norm ops s \<longleftrightarrow> (svc_store s = None \<or> svc_store s = Some ops) \<and> grants_keyed norm s"

abbreviation served_by :: "'s grant_store_ops \<Rightarrow> 's Service \<Rightarrow> bool" where
  "served_by \<equiv> serves TrimSpace"

definition same_config :: "'s Service \<Rightarrow> 's Service \<Rightarrow> bool" where
  "same_config s s' \<longleftrightarrow> svc_key s' = svc_key s \<and> svc_store s' = svc_store s \<and>
     svc_defaultTTL s' = svc_defaultTTL s"

lemma same_config_key: "same_config s s' \<Longrightarrow> grant_key norm s' = grant_key norm s"
  by (auto simp: same_config_def grant_key_def fun_eq_iff)

lemma same_config_refl [simp]: "same_config s s"
  by (simp add: same_config_def)

lemma cloneGrant [simp]: "cloneGrant g = g"
  by (simp add: cloneGrant_def grantFromModel_def modelFromGrant_def)

lemma grantFromModel_GrantID [simp]: "g_GrantID (grantFromModel m) = rg_GrantID m"
  by (simp add: grantFromModel_def)

lemma grantFromModel_with_status:
  "grantFromModel (with_status st u m) = set_status st u (grantFromModel m)"
  by (cases u) (simp_all add: grantFromModel_def with_status_def set_status_def)

lemma set_status_fields [simp]:
  "g_GrantID (set_status st u g) = g_GrantID g" "g_Status (set_status st u g) = st"
  "g_Nonce (set_status st u g) = g_Nonce g" "g_ExpiresAt (set_status st u g) = g_ExpiresAt g"
  "g_AllowedRelays (set_status st u g) = g_AllowedRelays g"
  by (simp_all add: set_status_def)

text \<open>The grant a service lists under \<open>gid\<close> afterwards, in terms of before.\<close>

definition table_updated ::
    "(string \<Rightarrow> string) \<Rightarrow> 's Service \<Rightarrow> 's Service \<Rightarrow> string \<Rightarrow> Grant \<Rightarrow> bool" where
  "table_updated norm s s' key g \<longleftrightarrow>
     (\<forall>k. findGrant k s' = (if grant_key norm s k = key then Some g else findGrant k s))"

lemma known_statuses [simp]:
  "known_status StatusUsed" "known_status StatusRevoked" "known_status StatusExpired"
  by (simp_all add: known_status_def)

lemma keyed_updated:
  assumes "grants_keyed norm s" "table_updated norm s s' (grant_key norm s (g_GrantID g)) g"
    and "same_config s s'"
  shows "grants_keyed norm s'"
  using assms by (simp add: grants_keyed_def table_updated_def same_config_key)

lemma keyed_same:
  "grants_keyed norm s \<Longrightarrow> \<forall>k. findGrant k s' = findGrant k s \<Longrightarrow> same_config s s' \<Longrightarrow> grants_keyed norm s'"
  by (simp add: grants_keyed_def same_config_key)

lemma findGrant_db:
  assumes "svc_store s = Some ops" "svc_store s' = Some ops"
    and "\<And>g. (gs_FindRelayGrantByGrantID ops k (svc_db s') = Inr g) =
          (gs_FindRelayGrantByGrantID ops k (svc_db s) = Inr g)"
  shows "findGrant k s' = findGrant k s"
proof -
  have "\<forall>g. (gs_FindRelayGrantByGrantID ops k (svc_db s') = Inr g) =
          (gs_FindRelayGrantByGrantID ops k (svc_db s) = Inr g)"
    using assms(3) by blast
  then show ?thesis
    by (auto simp: findGrant_def assms(1,2) split: sum.splits)
qed

context grant_store
begin

abbreviation ops :: "'s grant_store_ops" where
  "ops \<equiv> \<lparr> gs_CreateRelayGrant = create, gs_FindRelayGrantByGrantID = find_grant,
           gs_UpdateRelayGrantStatus = update \<rparr>"

lemma found_key:
  "serves norm ops s \<Longrightarrow> findGrant k s = Some g \<Longrightarrow> grant_key norm s (g_GrantID g) = grant_key norm s k"
  by (simp add: serves_def grants_keyed_def)

lemma found_same_key:
  "serves norm ops s \<Longrightarrow> grant_key norm s k = grant_key norm s k' \<Longrightarrow> findGrant k s = findGrant k' s"
  using find_norm [of k k' "svc_db s"] by (auto simp: serves_def findGrant_def grant_key_def)

lemma serves_same:
  "serves norm ops s \<Longrightarrow> same_config s s' \<Longrightarrow> \<forall>k. findGrant k s' = findGrant k s \<Longrightarrow> serves norm ops s'"
  using keyed_same [of norm s s'] by (auto simp: serves_def same_config_def)

lemma serves_updated:
  "serves norm ops s \<Longrightarrow> same_config s s' \<Longrightarrow>
     table_updated norm s s' (grant_key norm s (g_GrantID g)) g \<Longrightarrow> serves norm ops s'"
  using keyed_updated [of norm s s' g] by (auto simp: serves_def same_config_def)

lemma serves_set_status:
  "serves norm ops s \<Longrightarrow> same_config s s' \<Longrightarrow>
     table_updated norm s s' (grant_key norm s (g_GrantID g)) (set_status st u g) \<Longrightarrow> serves norm ops s'"
  by (rule serves_updated [where g = "set_status st u g"]) simp_all

text \<open>One update of the store: it changes the one grant, or nothing that can be found.\<close>

lemma store_update:
  assumes s: "serves norm ops s" "svc_store s = Some ops" and st: "known_status st"
    and up: "update k st u (svc_db s) = (r, db)" and s': "svc_store s' = Some ops" "svc_db s' = db"
  shows "case r of
      Inl e \<Rightarrow> \<forall>k. findGrant k s' = findGrant k s
    | Inr m \<Rightarrow> \<exists>g u'. findGrant k s = Some g \<and> grantFromModel m = set_status st u' g \<and>
                table_updated norm s s' (grant_key norm s (g_GrantID g)) (set_status st u' g)"
proof (cases r)
  case (Inl e)
  then show ?thesis using findGrant_db [OF s(2) s'(1)] update_error [of k st u "svc_db s" e db] up s'(2)
    by simp
next
  case (Inr m)
  then obtain g u' where g: "find_grant k (svc_db s) = Inr g" "m = with_status st u' g"
    using update_Inr up st by blast
  have f: "findGrant k s = Some (grantFromModel g)" using s(2) g by (simp add: findGrant_def)
  have "findGrant k' s' = (if norm k' = norm k then Some (grantFromModel m) else findGrant k' s)" for k'
    using update_find [of k st u "svc_db s" m db k'] up s' s(2) Inr by (simp add: findGrant_def)
  then show ?thesis using f g(2) found_key [OF s(1) f] s(2) Inr
    by (auto simp: table_updated_def grant_key_def grantFromModel_with_status
        intro!: exI [of _ "grantFromModel g"] exI [of _ u'])
qed

lemma update_map_same:
  "svc_store s = Some ops \<Longrightarrow> update_in_map g st u s = (g1, s1) \<Longrightarrow>
     same_config s s1 \<and> svc_store s1 = Some ops \<and> svc_db s1 = svc_db s"
  by (auto simp: update_in_map_def same_config_def Let_def split: option.splits)

lemma update_in_own_map:
  assumes "svc_store s = None" "serves norm ops s" "findGrant k s = Some g"
  shows "\<exists>s'. updateGrantStatus g st u s = (set_status st u g, s') \<and> same_config s s' \<and>
     table_updated norm s s' (grant_key norm s (g_GrantID g)) (set_status st u g)"
proof -
  have "svc_grants s k = Some g" "g_GrantID g = k"
    using assms found_key [OF assms(2,3)] by (auto simp: findGrant_def grant_key_def split: option.splits)
  then show ?thesis using assms(1)
    by (auto simp: updateGrantStatus_def update_in_map_def table_updated_def findGrant_def
        grant_key_def same_config_def Let_def)
qed

lemma update_any:
  assumes s: "serves norm ops s" and g: "findGrant k s = Some g" and st: "known_status st"
    and u: "updateGrantStatus g st u s = (g1, s1)"
  shows "same_config s s1 \<and> serves norm ops s1 \<and>
    ((\<forall>k. findGrant k s1 = findGrant k s) \<or>
     (\<exists>u'. g1 = set_status st u' g \<and>
        table_updated norm s s1 (grant_key norm s (g_GrantID g)) (set_status st u' g)))"
proof (cases "svc_store s")
  case None
  obtain s' where "updateGrantStatus g st u s = (set_status st u g, s')" "same_config s s'"
    "table_updated norm s s' (grant_key norm s (g_GrantID g)) (set_status st u g)"
    using update_in_own_map [OF None s g, of st u] by blast
  then show ?thesis using u serves_set_status [OF s] by auto
next
  case (Some ops')
  then have so: "svc_store s = Some ops" using s by (auto simp: serves_def)
  obtain r db where up: "update (g_GrantID g) st u (svc_db s) = (r, db)" by fastforce
  have same: "findGrant (g_GrantID g) s = Some g"
    using found_same_key [OF s found_key [OF s g]] g by simp
  show ?thesis
  proof (cases r)
    case (Inl e)
    then have m: "update_in_map g st u (s\<lparr> svc_db := db \<rparr>) = (g1, s1)"
      using u so up by (simp add: updateGrantStatus_def)
    have c: "same_config s s1" "svc_store s1 = Some ops" "svc_db s1 = db"
      using update_map_same [OF _ m] so by (auto simp: same_config_def)
    have "\<forall>k. findGrant k s1 = findGrant k s"
      using store_update [OF s so st up c(2,3)] Inl by simp
    then show ?thesis using c(1) serves_same [OF s c(1)] by blast
  next
    case (Inr m)
    then have s1: "g1 = grantFromModel m" "s1 = s\<lparr> svc_db := db \<rparr>"
      using u so up by (auto simp: updateGrantStatus_def)
    have c: "same_config s s1" by (simp add: s1 same_config_def)
    obtain u' where "grantFromModel m = set_status st u' g"
      "table_updated norm s s1 (grant_key norm s (g_GrantID g)) (set_status st u' g)"
      using store_update [OF s so st up, of s1] Inr s1 so same by auto
    then show ?thesis using c s1(1) serves_set_status [OF s c] by blast
  qed
qed

lemma update_grant:
  assumes s: "serves norm ops s" and g: "findGrant k s = Some g"
    and st: "known_status st" "g_Status g \<noteq> st" and u: "\<And>t. u = Some t \<Longrightarrow> storable t"
  shows "\<exists>s' u'. updateGrantStatus g st u s = (set_status st u' g, s') \<and> serves norm ops s' \<and>
           same_config s s' \<and>
           table_updated norm s s' (grant_key norm s (g_GrantID g)) (set_status st u' g)"
proof (cases "svc_store s")
  case None
  obtain s' where "updateGrantStatus g st u s = (set_status st u g, s')" "same_config s s'"
    "table_updated norm s s' (grant_key norm s (g_GrantID g)) (set_status st u g)"
    using update_in_own_map [OF None s g, of st u] by blast
  then show ?thesis using serves_set_status [OF s] by blast
next
  case (Some ops')
  then have so: "svc_store s = Some ops" using s by (auto simp: serves_def)
  have same: "findGrant (g_GrantID g) s = Some g"
    using found_same_key [OF s found_key [OF s g]] g by simp
  then obtain m0 where m0: "find_grant (g_GrantID g) (svc_db s) = Inr m0" "g = grantFromModel m0"
    using so by (auto simp: findGrant_def split: sum.splits)
  then have "rg_Status m0 \<noteq> st" using st(2) by (simp add: grantFromModel_def)
  then obtain m db where up: "update (g_GrantID g) st u (svc_db s) = (Inr m, db)"
    using update_found [OF m0(1) st(1)] u by blast
  define s1 where "s1 = s\<lparr> svc_db := db \<rparr>"
  have c: "same_config s s1" by (simp add: s1_def same_config_def)
  obtain u' where "grantFromModel m = set_status st u' g"
    "table_updated norm s s1 (grant_key norm s (g_GrantID g)) (set_status st u' g)"
    using store_update [OF s so st(1) up, of s1] so same by (auto simp: s1_def)
  moreover have "updateGrantStatus g st u s = (grantFromModel m, s1)"
    using so up by (simp add: updateGrantStatus_def s1_def)
  ultimately show ?thesis using c serves_set_status [OF s c] by metis
qed

lemma store_grant:
  assumes s: "serves norm ops s" and g: "storeGrant now g s = (r, s')"
  shows "serves norm ops s' \<and> same_config s s' \<and>
    (case r of
       Inl e \<Rightarrow> (\<forall>k. findGrant k s' = findGrant k s)
     | Inr g' \<Rightarrow> grant_key norm s (g_GrantID g') = grant_key norm s (g_GrantID g) \<and>
                table_updated norm s s' (grant_key norm s (g_GrantID g')) g')"
proof -
  have c: "same_config s s'"
    using g by (auto simp: storeGrant_def same_config_def split: option.splits prod.splits sum.splits)
  have "case r of
       Inl e \<Rightarrow> (\<forall>k. findGrant k s' = findGrant k s)
     | Inr g' \<Rightarrow> grant_key norm s (g_GrantID g') = grant_key norm s (g_GrantID g) \<and>
                table_updated norm s s' (grant_key norm s (g_GrantID g')) g'"
  proof (cases "svc_store s")
    case None
    then show ?thesis using g
      by (auto simp: storeGrant_def table_updated_def findGrant_def grant_key_def)
  next
    case (Some ops')
    then have so: "svc_store s = Some ops" using s by (auto simp: serves_def)
    obtain r' db where cr: "create now (modelFromGrant g) (svc_db s) = (r', db)" by fastforce
    show ?thesis
    proof (cases r')
      case (Inl e)
      have s': "svc_store s' = Some ops" "svc_db s' = db" "r = Inl (StoreError e)"
        using g so cr Inl by (auto simp: storeGrant_def)
      have "findGrant k s' = findGrant k s" for k
        by (rule findGrant_db [OF so s'(1)])
           (use create_error [of now "modelFromGrant g" "svc_db s" e db] cr Inl s'(2) in simp)
      then show ?thesis by (simp add: s'(3))
    next
      case (Inr m)
      have cm: "create now (modelFromGrant g) (svc_db s) = (Inr m, db)" using cr Inr by simp
      show ?thesis using g so cm create_key [OF cm] create_find [OF cm]
        by (auto simp: storeGrant_def table_updated_def findGrant_def grant_key_def modelFromGrant_def)
    qed
  qed
  then show ?thesis using c serves_same [OF s c] serves_updated [OF s c] by (cases r) auto
qed

lemma revoke_grant:
  assumes s: "serves norm ops s" and r: "RevokeWithContext gid s = (ok, s')"
  shows "serves norm ops s' \<and> same_config s s' \<and>
    (if ok then \<exists>g u. findGrant (TrimSpace gid) s = Some g \<and>
                  table_updated norm s s' (grant_key norm s (TrimSpace gid)) (set_status StatusRevoked u g)
     else \<forall>k. findGrant k s' = findGrant k s)"
proof -
  have c: "same_config s s'"
    using r by (auto simp: RevokeWithContext_def same_config_def Let_def
        split: option.splits prod.splits sum.splits if_splits)
  have main: "if ok then \<exists>g u. findGrant (TrimSpace gid) s = Some g \<and>
                  table_updated norm s s' (grant_key norm s (g_GrantID g)) (set_status StatusRevoked u g)
     else \<forall>k. findGrant k s' = findGrant k s"
  proof (cases "svc_store s")
    case None
    show ?thesis
    proof (cases "svc_grants s (TrimSpace gid)")
      case (Some g)
      then have f: "findGrant (TrimSpace gid) s = Some g" using None by (simp add: findGrant_def)
      have "g_GrantID g = TrimSpace gid" using found_key [OF s f] None by (simp add: grant_key_def)
      moreover have "TrimSpace gid = [] \<and> \<not> ok \<and> s' = s \<or> TrimSpace gid \<noteq> [] \<and> ok \<and>
          s' = s\<lparr> svc_grants := (svc_grants s)(TrimSpace gid \<mapsto> set_status StatusRevoked None g) \<rparr>"
        using r by (auto simp: RevokeWithContext_def Let_def None Some set_status_def split: if_splits)
      ultimately show ?thesis using None f
        by (auto simp: table_updated_def findGrant_def grant_key_def intro!: exI [of _ None])
    qed (use r in \<open>auto simp: RevokeWithContext_def Let_def None split: if_splits\<close>)
  next
    case (Some ops')
    then have so: "svc_store s = Some ops" using s by (auto simp: serves_def)
    obtain r' db where up: "update (TrimSpace gid) StatusRevoked None (svc_db s) = (r', db)" by fastforce
    show ?thesis
    proof (cases "TrimSpace gid = []")
      case False
      have s': "s' = s\<lparr> svc_db := db \<rparr>" "ok = (\<exists>m. r' = Inr m)"
        using r so up False by (auto simp: RevokeWithContext_def split: sum.splits)
      show ?thesis using store_update [OF s so _ up, of s'] so s' by (cases r') auto
    qed (use r in \<open>simp add: RevokeWithContext_def\<close>)
  qed
  have "serves norm ops s'"
    using main serves_same [OF s c] serves_set_status [OF s c] by (auto split: if_splits)
  then show ?thesis using c main found_key [OF s, of "TrimSpace gid"] by (auto split: if_splits)
qed

end

section \<open>The service as a state machine\<close>

text \<open>
  The steps: the three operations with any arguments and clock readings, and any change of
  the store that leaves the grants as they are. \<open>crypto/rand\<close> never draws an identifier
  that is in use.
\<close>

inductive grant_step :: "codec \<Rightarrow> 's Service \<Rightarrow> 's Service \<Rightarrow> bool" for c where
  Issue: "findGrant (randomID ''rg'' r1) s = None \<Longrightarrow>
            grant_step c s (snd (IssueWithContext c now now2 r1 r2 req s))"
| Validate: "grant_step c s (snd (ValidateWithContext c now now2 req s))"
| Revoke: "grant_step c s (snd (RevokeWithContext gid s))"
| Other: "\<forall>k. findGrant k (s\<lparr> svc_db := db \<rparr>) = findGrant k s \<Longrightarrow>
            grant_step c s (s\<lparr> svc_db := db \<rparr>)"

inductive grant_steps :: "codec \<Rightarrow> 's Service \<Rightarrow> 's Service \<Rightarrow> bool" for c where
  refl: "grant_steps c s s"
| step: "grant_steps c s s' \<Longrightarrow> grant_step c s' s'' \<Longrightarrow> grant_steps c s s''"

definition dead :: "Status \<Rightarrow> bool" where
  "dead st \<longleftrightarrow> st = StatusUsed \<or> st = StatusExpired \<or> st = StatusRevoked"

definition grant_dead :: "string \<Rightarrow> 's Service \<Rightarrow> bool" where
  "grant_dead gid s \<longleftrightarrow> (\<exists>g. findGrant gid s = Some g \<and> dead (g_Status g))"

lemma dead_intros [simp]: "dead StatusUsed" "dead StatusExpired" "dead StatusRevoked"
  by (simp_all add: dead_def)

lemma grant_dead_same: "findGrant gid s' = findGrant gid s \<Longrightarrow> grant_dead gid s' = grant_dead gid s"
  by (simp add: grant_dead_def)

lemma table_updated_dead:
  "table_updated norm s s' key g \<Longrightarrow> dead (g_Status g) \<Longrightarrow> grant_dead gid s \<Longrightarrow> grant_dead gid s'"
  by (auto simp: table_updated_def grant_dead_def)

lemma decide_Reject: "validate_decide c now req s = Reject r e \<Longrightarrow> \<not> vs_Valid r"
  by (auto simp: validate_decide_def unknown_grant_def rejected_def
      split: sum.splits option.splits if_splits)

lemma decide_Expire:
  "validate_decide c now req s = Expire g \<Longrightarrow>
     \<exists>p. parse c (svc_key s) (vr_Token req) = Inr p \<and> findGrant (tp_GrantID p) s = Some g \<and>
         \<not> dead (g_Status g) \<and> now > g_ExpiresAt g"
  by (simp add: validate_decide_def dead_def split: sum.splits option.splits if_splits)

lemma decide_Accept:
  "validate_decide c now req s = Accept g \<Longrightarrow>
     \<exists>p. parse c (svc_key s) (vr_Token req) = Inr p \<and> findGrant (tp_GrantID p) s = Some g \<and>
         g_Nonce g = tp_Nonce p \<and> \<not> dead (g_Status g) \<and> now \<le> g_ExpiresAt g \<and>
         (vr_Relay req = [] \<or> vr_Relay req \<in> set (g_AllowedRelays g)) \<and>
         (vr_TargetDeviceID req = None \<or> g_TargetDeviceID g = None \<or>
            vr_TargetDeviceID req = g_TargetDeviceID g) \<and>
         (vr_TargetRustDeskID req = [] \<or> g_TargetRustDeskID g = [] \<or>
            vr_TargetRustDeskID req = g_TargetRustDeskID g)"
  by (simp add: validate_decide_def dead_def split: sum.splits option.splits if_splits)

context grant_store
begin

lemma validate_step:
  assumes s: "serves norm ops s" and v: "ValidateWithContext c now now2 req s = (r, s')"
  shows "serves norm ops s' \<and> same_config s s' \<and>
    ((\<forall>k. findGrant k s' = findGrant k s) \<and> (storable now2 \<longrightarrow> \<not> vs_Valid (fst r)) \<or>
     (\<exists>p g st u. parse c (svc_key s) (vr_Token req) = Inr p \<and> findGrant (tp_GrantID p) s = Some g \<and>
        \<not> dead (g_Status g) \<and> dead st \<and> vs_Valid (fst r) = (st = StatusUsed) \<and>
        vs_GrantID (fst r) = g_GrantID g \<and>
        table_updated norm s s' (grant_key norm s (g_GrantID g)) (set_status st u g)))"
proof (cases "validate_decide c now req s")
  case (Reject rr e)
  then show ?thesis using s v decide_Reject [OF Reject] by (auto simp: ValidateWithContext_def)
next
  case expire: (Expire g)
  then obtain p where p: "parse c (svc_key s) (vr_Token req) = Inr p"
    "findGrant (tp_GrantID p) s = Some g" "\<not> dead (g_Status g)"
    using decide_Expire by blast
  obtain g1 s1 where u: "updateGrantStatus g StatusExpired None s = (g1, s1)" by fastforce
  have r: "s' = s1" "\<not> vs_Valid (fst r)" "vs_GrantID (fst r) = g_GrantID g1"
    using v expire u by (auto simp: ValidateWithContext_def rejected_def)
  from update_any [OF s p(2) _ u] consider
      "same_config s s1" "serves norm ops s1" "\<forall>k. findGrant k s1 = findGrant k s"
    | u' where "same_config s s1" "serves norm ops s1" "g1 = set_status StatusExpired u' g"
        "table_updated norm s s1 (grant_key norm s (g_GrantID g)) (set_status StatusExpired u' g)"
    by auto
  then show ?thesis
  proof cases
    case 1
    then show ?thesis using r by simp
  next
    case 2
    show ?thesis
      by (intro conjI disjI2 exI [of _ p] exI [of _ g] exI [of _ StatusExpired] exI [of _ u'])
         (use r 2 p in auto)
  qed
next
  case accept: (Accept g)
  then obtain p where p: "parse c (svc_key s) (vr_Token req) = Inr p"
    "findGrant (tp_GrantID p) s = Some g" "\<not> dead (g_Status g)"
    using decide_Accept by blast
  obtain g1 s1 where u: "updateGrantStatus g StatusUsed (Some now2) s = (g1, s1)" by fastforce
  have r: "s' = s1" "vs_Valid (fst r)" "vs_GrantID (fst r) = g_GrantID g1"
    using v accept u by (auto simp: ValidateWithContext_def)
  have "g_Status g \<noteq> StatusUsed" using p(3) by (auto simp: dead_def)
  then have ok: "\<exists>u'. g1 = set_status StatusUsed u' g \<and>
      table_updated norm s s1 (grant_key norm s (g_GrantID g)) (set_status StatusUsed u' g)"
    if "storable now2"
    using update_grant [OF s p(2), of StatusUsed "Some now2"] that u by auto
  from update_any [OF s p(2) _ u] ok consider
      "same_config s s1" "serves norm ops s1" "\<forall>k. findGrant k s1 = findGrant k s" "\<not> storable now2"
    | u' where "same_config s s1" "serves norm ops s1" "g1 = set_status StatusUsed u' g"
        "table_updated norm s s1 (grant_key norm s (g_GrantID g)) (set_status StatusUsed u' g)"
    by auto
  then show ?thesis
  proof cases
    case 1
    then show ?thesis using r by simp
  next
    case 2
    show ?thesis
      by (intro conjI disjI2 exI [of _ p] exI [of _ g] exI [of _ StatusUsed] exI [of _ u'])
         (use r 2 p in auto)
  qed
qed

lemma issue_step:
  assumes s: "serves norm ops s" and i: "IssueWithContext c now now2 r1 r2 req s = (r, s')"
  shows "serves norm ops s' \<and> same_config s s' \<and>
    ((\<forall>k. findGrant k s' = findGrant k s) \<or>
     (\<exists>g. table_updated norm s s' (grant_key norm s (randomID ''rg'' r1)) g))"
proof (cases "s' = s")
  case False
  then obtain ttl req' r'' where st: "storeGrant now2 (new_grant now r1 r2 ttl req') s = (r'', s')"
    using i by (auto simp: IssueWithContext_def Let_def split: if_splits sum.splits prod.splits)
  show ?thesis using store_grant [OF s st] by (auto simp: new_grant_def split: sum.splits)
qed (use s in simp)

lemma dead_step:
  assumes "grant_step c s s'" "serves norm ops s"
  shows "serves norm ops s' \<and> same_config s s' \<and> (grant_dead gid s \<longrightarrow> grant_dead gid s')"
  using assms
proof (cases rule: grant_step.cases)
  case (Issue r1 now now2 r2 req)
  obtain r where i: "IssueWithContext c now now2 r1 r2 req s = (r, s')"
    using Issue by (metis surjective_pairing)
  have "findGrant gid s' = findGrant gid s" if "grant_dead gid s"
  proof -
    have "grant_key norm s gid \<noteq> grant_key norm s (randomID ''rg'' r1)"
      using found_same_key [OF assms(2), of gid "randomID ''rg'' r1"] that Issue
      by (auto simp: grant_dead_def)
    then show ?thesis using issue_step [OF assms(2) i] by (auto simp: table_updated_def)
  qed
  then show ?thesis using issue_step [OF assms(2) i] by (auto simp: grant_dead_def)
next
  case (Validate now now2 req)
  obtain r where v: "ValidateWithContext c now now2 req s = (r, s')"
    using Validate by (metis surjective_pairing)
  show ?thesis using validate_step [OF assms(2) v] table_updated_dead
    by (auto simp: grant_dead_def table_updated_def)
next
  case (Revoke k)
  obtain r where v: "RevokeWithContext k s = (r, s')"
    using Revoke by (metis surjective_pairing)
  show ?thesis
  proof (cases r)
    case True
    then obtain g u where "table_updated norm s s' (grant_key norm s (TrimSpace k)) (set_status StatusRevoked u g)"
      using revoke_grant [OF assms(2) v] by auto
    then show ?thesis using revoke_grant [OF assms(2) v] table_updated_dead [of norm s s'] by simp
  next
    case False
    then show ?thesis using revoke_grant [OF assms(2) v] by (simp add: grant_dead_def)
  qed
next
  case (Other db)
  then have "same_config s s'" "\<forall>k. findGrant k s' = findGrant k s" by (auto simp: same_config_def)
  then show ?thesis using serves_same [OF assms(2)] by (simp add: grant_dead_def)
qed

lemma dead_steps:
  assumes "grant_steps c s s'" "serves norm ops s"
  shows "serves norm ops s' \<and> same_config s s' \<and> (grant_dead gid s \<longrightarrow> grant_dead gid s')"
  using assms
proof (induction rule: grant_steps.induct)
  case (step s s' s'')
  then show ?case using dead_step [of c s' s'' gid] by (auto simp: same_config_def)
qed simp

lemma dead_not_valid:
  assumes "serves norm ops s" "parse c (svc_key s) (vr_Token req) = Inr p" "grant_dead (tp_GrantID p) s"
  shows "\<not> vs_Valid (fst (fst (ValidateWithContext c now now2 req s)))"
proof (cases "validate_decide c now req s")
  case (Accept g)
  then show ?thesis using decide_Accept [OF Accept] assms by (auto simp: grant_dead_def)
qed (auto simp: ValidateWithContext_def rejected_def split: prod.split dest: decide_Reject)

end

end
