(* ===== verification/Grant_Properties.thy ===== *)
theory Grant_Properties
  imports Grant_Lifecycle
begin

text \<open>
  What the relay-grant service promises to its callers, for a service whose grants are in
  its own map or in the in-memory repository (\<open>served_by memory_grant_store\<close>), and the
  concrete runs that show the promises apply.
\<close>

lemma memory_ops: "memory_grants.ops = memory_grant_store"
  by (simp add: memory_grant_store_def)

lemmas memory_laws =
  memory_grants.update_grant [unfolded memory_ops] memory_grants.store_grant [unfolded memory_ops]
  memory_grants.validate_step [unfolded memory_ops] memory_grants.issue_step [unfolded memory_ops]
  memory_grants.dead_steps [unfolded memory_ops] memory_grants.dead_not_valid [unfolded memory_ops]
  memory_grants.revoke_grant [unfolded memory_ops] memory_grants.found_key [unfolded memory_ops]
  memory_grants.found_same_key [unfolded memory_ops]

lemma served_new [simp]:
  "served_by memory_grant_store (NewService key ttl db)"
  "served_by memory_grant_store (WithStore memory_grant_store (NewService key ttl db))"
  by (auto simp: serves_def grants_keyed_def NewService_def WithStore_def findGrant_def grant_key_def
      memory_grant_store_def split: sum.splits dest: memory_grants.find_id)

section \<open>Facts about one call\<close>

lemma IssueD:
  assumes "IssueWithContext c now now2 r1 r2 req s = (Inr resp, s')"
  shows "\<exists>ttl g token.
     (ir_UserID req \<noteq> None \<or> ir_ControllerDeviceID req \<noteq> None \<or> ir_Authenticated req) \<and>
     ttl = request_ttl (svc_defaultTTL s) (ir_TTLSeconds req) \<and>
     sint Minute \<le> sint ttl \<and> sint ttl \<le> sint (5 * Minute) \<and>
     g = new_grant now r1 r2 ttl (req\<lparr> ir_TargetRustDeskID := TrimSpace (ir_TargetRustDeskID req) \<rparr>) \<and>
     sign c (svc_key s) (payload_of g) = Inr token \<and>
     (\<exists>g1. storeGrant now2 g s = (Inr g1, s') \<and>
       resp = \<lparr> is_GrantID = g_GrantID g1, is_Token = token, is_ExpiresAt = g_ExpiresAt g1 \<rparr>) \<and>
     ir_AllowedRelays req \<noteq> [] \<and>
     (ir_TargetDeviceID req \<noteq> None \<or> TrimSpace (ir_TargetRustDeskID req) \<noteq> [])"
  using assms
  by (auto simp: IssueWithContext_def Let_def split: if_splits sum.splits prod.splits)

lemma storeGrant_fields:
  assumes "served_by memory_grant_store s" "storeGrant now g s = (Inr g1, s')"
    and "TrimSpace (g_GrantID g) = g_GrantID g" "TrimSpace (g_Nonce g) = g_Nonce g"
    and "TrimSpace (g_TargetRustDeskID g) = g_TargetRustDeskID g" "g_Status g \<noteq> []"
  shows "g_GrantID g1 = g_GrantID g \<and> g_Nonce g1 = g_Nonce g \<and> g_Status g1 = g_Status g \<and>
    g_ExpiresAt g1 = g_ExpiresAt g \<and> g_AllowedRelays g1 = g_AllowedRelays g \<and>
    g_TargetDeviceID g1 = g_TargetDeviceID g \<and> g_TargetRustDeskID g1 = g_TargetRustDeskID g"
proof (cases "svc_store s")
  case None
  then show ?thesis using assms by (auto simp: storeGrant_def)
next
  case (Some ops)
  then have so: "svc_store s = Some memory_grant_store"
    using assms by (auto simp: serves_def)
  then obtain m db where cr: "CreateRelayGrant now (modelFromGrant g) (svc_db s) = (Inr m, db)"
    and g1: "g1 = grantFromModel m"
    using assms(2) by (auto simp: storeGrant_def memory_grant_store_def split: sum.splits prod.splits)
  show ?thesis using memory_grants.create_fields [OF cr] assms
    by (simp add: g1 grantFromModel_def modelFromGrant_def)
qed

lemma issued_grant:
  assumes s: "served_by memory_grant_store s"
    and i: "IssueWithContext c now now2 r1 r2 req s = (Inr resp, s')"
  shows "\<exists>g. findGrant (is_GrantID resp) s' = Some g \<and> g_Status g = StatusIssued \<and>
     g_GrantID g = is_GrantID resp \<and> is_GrantID resp = randomID ''rg'' r1 \<and>
     g_Nonce g = randomID ''nonce'' r2 \<and> g_ExpiresAt g = is_ExpiresAt resp \<and>
     is_ExpiresAt resp = Add now (request_ttl (svc_defaultTTL s) (ir_TTLSeconds req)) \<and>
     g_AllowedRelays g = ir_AllowedRelays req \<and> g_TargetDeviceID g = ir_TargetDeviceID req \<and>
     g_TargetRustDeskID g = TrimSpace (ir_TargetRustDeskID req) \<and>
     served_by memory_grant_store s' \<and> same_config s s'"
proof -
  define g where "g = new_grant now r1 r2 (request_ttl (svc_defaultTTL s) (ir_TTLSeconds req))
    (req\<lparr> ir_TargetRustDeskID := TrimSpace (ir_TargetRustDeskID req) \<rparr>)"
  obtain g1 token where st: "storeGrant now2 g s = (Inr g1, s')"
    and resp: "resp = \<lparr> is_GrantID = g_GrantID g1, is_Token = token, is_ExpiresAt = g_ExpiresAt g1 \<rparr>"
    using IssueD [OF i] by (auto simp: g_def)
  have f: "g_GrantID g1 = randomID ''rg'' r1 \<and> g_Nonce g1 = randomID ''nonce'' r2 \<and>
    g_Status g1 = StatusIssued \<and> g_ExpiresAt g1 = g_ExpiresAt g \<and>
    g_AllowedRelays g1 = ir_AllowedRelays req \<and> g_TargetDeviceID g1 = ir_TargetDeviceID req \<and>
    g_TargetRustDeskID g1 = TrimSpace (ir_TargetRustDeskID req)"
    using storeGrant_fields [OF s st] by (simp add: g_def new_grant_def)
  moreover have t: "served_by memory_grant_store s' \<and> same_config s s' \<and>
      table_updated TrimSpace s s' (grant_key TrimSpace s (g_GrantID g1)) g1"
    using memory_grants.store_grant [unfolded memory_ops, OF s st] by auto
  ultimately show ?thesis
    by (intro exI [of _ g1]) (simp add: resp g_def new_grant_def table_updated_def)
qed

section \<open>Runs the witnesses use\<close>

definition wit_codec :: "tokenPayload \<Rightarrow> codec" where
  "wit_codec p =
     \<lparr> marshal = (\<lambda>q. if q = p then Some ''{}'' else None), unmarshal = (\<lambda>_. Some p),
       hmac = (\<lambda>key msg. rev msg) \<rparr>"

definition wit_service :: "Memory Service" where
  "wit_service = WithStore memory_grant_store (NewService ''key'' 0 (NewMemory 0))"

definition wit_request :: IssueRequest where
  "wit_request =
     \<lparr> ir_UserID = Some 1, ir_ControllerDeviceID = None, ir_TargetDeviceID = Some 1,
       ir_TargetRustDeskID = '' 1001 '', ir_RelayID = None, ir_AllowedRelays = [''relay-a''],
       ir_TTLSeconds = 90, ir_Authenticated = False \<rparr>"

definition wit_grant :: Grant where
  "wit_grant = new_grant 1000000000 ''a'' ''b'' (request_ttl (2 * Minute) 90)
     (wit_request\<lparr> ir_TargetRustDeskID := TrimSpace (ir_TargetRustDeskID wit_request) \<rparr>)"

definition wit_c :: codec where
  "wit_c = wit_codec (payload_of wit_grant)"

definition wit_response :: IssueResponse where
  "wit_response = \<lparr> is_GrantID = randomID ''rg'' ''a'', is_Token = ''e30.MDNl'',
                    is_ExpiresAt = 91000000000 \<rparr>"

definition wit_issued :: "Memory Service" where
  "wit_issued = snd (IssueWithContext wit_c 1000000000 1000000001 ''a'' ''b'' wit_request wit_service)"

definition wit_validate :: ValidateRequest where
  "wit_validate = \<lparr> vr_Token = ''e30.MDNl'', vr_Relay = ''relay-a'', vr_TargetDeviceID = Some 1,
                    vr_TargetRustDeskID = [] \<rparr>"

lemma wit_issue_eq:
  "IssueWithContext wit_c 1000000000 1000000001 ''a'' ''b'' wit_request wit_service =
     (Inr wit_response, wit_issued)"
proof -
  have "fst (IssueWithContext wit_c 1000000000 1000000001 ''a'' ''b'' wit_request wit_service) =
     Inr wit_response" by code_simp
  then show ?thesis by (simp add: wit_issued_def prod_eq_iff)
qed

lemma wit_served: "served_by memory_grant_store wit_service"
  by (simp add: wit_service_def)

lemma wit_codec_roundtrip: "marshal wit_c (payload_of wit_grant) = Some raw \<Longrightarrow>
    unmarshal wit_c raw = Some (payload_of wit_grant)"
  by (simp add: wit_c_def wit_codec_def)

lemma wit_issued_served: "served_by memory_grant_store wit_issued"
  using issued_grant [OF wit_served wit_issue_eq] by blast

section \<open>Properties\<close>

text \<open>
  C1. An issued token validates: presented in time, for the target it was issued for and at
  one of its relays, the service answers that it is valid, marks the grant used, and answers
  the same token with a refusal from then on.
\<close>

theorem issue_then_validate_once:
  assumes s: "served_by memory_grant_store s"
    and i: "IssueWithContext c now now2 r1 r2 req s = (Inr resp, s1)"
    and rt: "\<And>raw. marshal c p = Some raw \<Longrightarrow> unmarshal c raw = Some p"
    and p: "p = payload_of (new_grant now r1 r2 (request_ttl (svc_defaultTTL s) (ir_TTLSeconds req))
              (req\<lparr> ir_TargetRustDeskID := TrimSpace (ir_TargetRustDeskID req) \<rparr>))"
    and pos: "0 < Unix (is_ExpiresAt resp)"
    and v: "vr_Token v = is_Token resp" "t \<le> is_ExpiresAt resp"
      "vr_Relay v = [] \<or> vr_Relay v \<in> set (ir_AllowedRelays req)"
      "vr_TargetDeviceID v = None \<or> vr_TargetDeviceID v = ir_TargetDeviceID req"
      "vr_TargetRustDeskID v = [] \<or> vr_TargetRustDeskID v = TrimSpace (ir_TargetRustDeskID req)"
  shows "\<exists>s2. ValidateWithContext c t t2 v s1 =
           ((\<lparr> vs_Valid = True, vs_GrantID = is_GrantID resp, vs_Status = StatusUsed,
               vs_ExpiresAt = is_ExpiresAt resp, vs_Reason = [] \<rparr>, None), s2) \<and>
         (\<forall>w t3 t4. vr_Token w = is_Token resp \<longrightarrow>
            \<not> vs_Valid (fst (fst (ValidateWithContext c t3 t4 w s2))))"
proof -
  obtain g where g: "findGrant (is_GrantID resp) s1 = Some g" "g_Status g = StatusIssued"
    "g_GrantID g = is_GrantID resp" "is_GrantID resp = randomID ''rg'' r1"
    "g_Nonce g = randomID ''nonce'' r2" "g_ExpiresAt g = is_ExpiresAt resp"
    "is_ExpiresAt resp = Add now (request_ttl (svc_defaultTTL s) (ir_TTLSeconds req))"
    "g_AllowedRelays g = ir_AllowedRelays req" "g_TargetDeviceID g = ir_TargetDeviceID req"
    "g_TargetRustDeskID g = TrimSpace (ir_TargetRustDeskID req)"
    and s1: "served_by memory_grant_store s1" "same_config s s1"
    using issued_grant [OF s i] by blast
  have pf: "tp_GrantID p = is_GrantID resp" "tp_Nonce p = g_Nonce g" "0 < tp_ExpiresAt p"
    using g pos by (simp_all add: p payload_of_def new_grant_def)
  have sg: "sign c (svc_key s) p = Inr (is_Token resp)"
    using IssueD [OF i] by (auto simp: p)
  have pa: "parse c (svc_key s1) (is_Token resp) = Inr p"
    using parse_sign [OF sg rt] pf g s1 by (simp add: same_config_def)
  have dec: "validate_decide c t v s1 = Accept g"
    using pa pf g v by (auto simp: validate_decide_def)
  obtain s2 u' where u: "updateGrantStatus g StatusUsed (Some t2) s1 = (set_status StatusUsed u' g, s2)"
    "served_by memory_grant_store s2" "same_config s1 s2"
    "table_updated TrimSpace s1 s2 (grant_key TrimSpace s1 (g_GrantID g)) (set_status StatusUsed u' g)"
    using memory_grants.update_grant [unfolded memory_ops, OF s1(1) g(1), of StatusUsed "Some t2"] g(2)
    by auto
  have "grant_dead (is_GrantID resp) s2"
    using u(4) g by (simp add: grant_dead_def table_updated_def)
  then have "\<not> vs_Valid (fst (fst (ValidateWithContext c t3 t4 w s2)))"
    if "vr_Token w = is_Token resp" for w t3 t4
    using memory_grants.dead_not_valid [unfolded memory_ops, OF u(2), of c w p] that pa pf u(3)
    by (simp add: same_config_def)
  then show ?thesis
    using dec u(1) g by (auto simp: ValidateWithContext_def)
qed

theorem issue_then_validate_once_witness:
  "\<exists>s2. ValidateWithContext wit_c 2000000000 2000000001 wit_validate wit_issued =
           ((\<lparr> vs_Valid = True, vs_GrantID = is_GrantID wit_response, vs_Status = StatusUsed,
               vs_ExpiresAt = is_ExpiresAt wit_response, vs_Reason = [] \<rparr>, None), s2)"
proof -
  have "payload_of wit_grant = payload_of (new_grant 1000000000 ''a'' ''b''
     (request_ttl (svc_defaultTTL wit_service) (ir_TTLSeconds wit_request))
     (wit_request\<lparr> ir_TargetRustDeskID := TrimSpace (ir_TargetRustDeskID wit_request) \<rparr>))"
    by code_simp
  moreover have "0 < Unix (is_ExpiresAt wit_response)" "2000000000 \<le> is_ExpiresAt wit_response"
    "vr_Token wit_validate = is_Token wit_response" "vr_TargetRustDeskID wit_validate = []"
    "vr_Relay wit_validate \<in> set (ir_AllowedRelays wit_request)"
    "vr_TargetDeviceID wit_validate = ir_TargetDeviceID wit_request"
    by (simp_all add: wit_response_def wit_validate_def wit_request_def Unix_def)
  ultimately show ?thesis
    using issue_then_validate_once [OF wit_served wit_issue_eq, of "payload_of wit_grant" wit_validate
       2000000000 2000000001] wit_codec_roundtrip by blast
qed

text \<open>
  C2. Single use: once a token has been found valid, no later validation, after any sequence
  of issues, validations, revocations and unrelated changes of the database, finds that token
  or any other token for the same grant valid.
\<close>

theorem grant_single_use:
  assumes s: "served_by memory_grant_store s"
    and v: "ValidateWithContext c t t' v s = ((r, e), s1)" "vs_Valid r"
    and steps: "grant_steps c s1 s2"
    and w: "vr_Token w = vr_Token v \<or>
       (\<exists>q. parse c (svc_key s) (vr_Token w) = Inr q \<and> tp_GrantID q = vs_GrantID r)"
  shows "\<not> vs_Valid (fst (fst (ValidateWithContext c t2 t2' w s2)))"
proof -
  obtain p g u where p: "parse c (svc_key s) (vr_Token v) = Inr p"
    and g: "findGrant (tp_GrantID p) s = Some g"
    and t: "table_updated TrimSpace s s1 (grant_key TrimSpace s (g_GrantID g)) (set_status StatusUsed u g)"
    and vg: "vs_GrantID r = g_GrantID g"
    and s1: "served_by memory_grant_store s1" "same_config s s1"
    using memory_grants.validate_step [unfolded memory_ops, OF s v(1)] v(2) by auto
  note key = memory_grants.found_key [unfolded memory_ops, OF s g]
  have dead1: "grant_dead k s1" if "k = tp_GrantID p \<or> k = g_GrantID g" for k
    using that t key by (auto simp: grant_dead_def table_updated_def)
  obtain q where q: "parse c (svc_key s) (vr_Token w) = Inr q" "tp_GrantID q = tp_GrantID p \<or> tp_GrantID q = g_GrantID g"
    using w p vg by auto
  have "served_by memory_grant_store s2" "same_config s1 s2" "grant_dead (tp_GrantID q) s2"
    using memory_grants.dead_steps [unfolded memory_ops, OF steps s1(1)] dead1 q by auto
  then show ?thesis
    using memory_grants.dead_not_valid [unfolded memory_ops, of s2 c w q] q s1
    by (simp add: same_config_def)
qed

definition wit_used :: "Memory Service" where
  "wit_used = snd (ValidateWithContext wit_c 2000000000 2000000001 wit_validate wit_issued)"

lemma wit_validated: "ValidateWithContext wit_c 2000000000 2000000001 wit_validate wit_issued =
   ((\<lparr> vs_Valid = True, vs_GrantID = randomID ''rg'' ''a'', vs_Status = StatusUsed,
       vs_ExpiresAt = 91000000000, vs_Reason = [] \<rparr>, None), wit_used)"
proof -
  have "fst (ValidateWithContext wit_c 2000000000 2000000001 wit_validate wit_issued) =
   (\<lparr> vs_Valid = True, vs_GrantID = randomID ''rg'' ''a'', vs_Status = StatusUsed,
       vs_ExpiresAt = 91000000000, vs_Reason = [] \<rparr>, None)" by code_simp
  then show ?thesis by (simp add: wit_used_def prod_eq_iff)
qed

theorem grant_single_use_witness:
  "\<not> vs_Valid (fst (fst (ValidateWithContext wit_c 3000000000 3000000001 wit_validate
      (snd (RevokeWithContext ''other'' wit_used)))))"
  by (rule grant_single_use [OF wit_issued_served wit_validated])
     (auto intro: grant_steps.intros grant_step.Revoke)

text \<open>
  C3. Revocation: after \<^verbatim>\<open>Revoke\<close> has answered true for a grant, no token for that grant is
  ever found valid, whatever happens in between.
\<close>

theorem revoked_grant_never_valid:
  assumes s: "served_by memory_grant_store s"
    and r: "RevokeWithContext gid s = (True, s1)"
    and steps: "grant_steps c s1 s2"
    and w: "parse c (svc_key s) (vr_Token w) = Inr q" "tp_GrantID q = TrimSpace gid"
  shows "\<not> vs_Valid (fst (fst (ValidateWithContext c t t' w s2)))"
proof -
  obtain g u where t: "table_updated TrimSpace s s1 (grant_key TrimSpace s (TrimSpace gid)) (set_status StatusRevoked u g)"
    and s1: "served_by memory_grant_store s1" "same_config s s1"
    using memory_grants.revoke_grant [unfolded memory_ops, OF s r] by auto
  then have "grant_dead (TrimSpace gid) s1"
    by (simp add: grant_dead_def table_updated_def)
  then have "served_by memory_grant_store s2" "same_config s1 s2" "grant_dead (tp_GrantID q) s2"
    using memory_grants.dead_steps [unfolded memory_ops, OF steps s1(1)] w by auto
  then show ?thesis
    using memory_grants.dead_not_valid [unfolded memory_ops, of s2 c w q] w s1
    by (simp add: same_config_def)
qed

definition wit_revoked :: "Memory Service" where
  "wit_revoked = snd (RevokeWithContext (randomID ''rg'' ''a'') wit_issued)"

theorem revoked_grant_never_valid_witness:
  "\<not> vs_Valid (fst (fst (ValidateWithContext wit_c 3000000000 3000000001 wit_validate wit_revoked)))"
proof (rule revoked_grant_never_valid [OF wit_issued_served])
  have e: "fst (RevokeWithContext (randomID ''rg'' ''a'') wit_issued) \<and>
      parse wit_c (svc_key wit_issued) (vr_Token wit_validate) = Inr (payload_of wit_grant) \<and>
      tp_GrantID (payload_of wit_grant) = TrimSpace (randomID ''rg'' ''a'')" by code_simp
  then show "RevokeWithContext (randomID ''rg'' ''a'') wit_issued = (True, wit_revoked)"
    by (simp add: wit_revoked_def prod_eq_iff)
  show "grant_steps wit_c wit_revoked wit_revoked" by (rule grant_steps.refl)
  show "parse wit_c (svc_key wit_issued) (vr_Token wit_validate) = Inr (payload_of wit_grant)"
    and "tp_GrantID (payload_of wit_grant) = TrimSpace (randomID ''rg'' ''a'')" using e by blast+
qed

text \<open>
  C5. Exactly when a validation says valid: the token carries a correct signature over a
  payload whose grant is on record with the same nonce, is not used, revoked or expired,
  has not run out at the time of the check, and matches the relay and the target the caller
  names.
\<close>

theorem validate_valid_iff:
  "vs_Valid (fst (fst (ValidateWithContext c now now2 req s))) \<longleftrightarrow>
     (\<exists>p g. parse c (svc_key s) (vr_Token req) = Inr p \<and> findGrant (tp_GrantID p) s = Some g \<and>
        g_Nonce g = tp_Nonce p \<and> g_Status g \<notin> {StatusUsed, StatusExpired, StatusRevoked} \<and>
        now \<le> g_ExpiresAt g \<and>
        (vr_Relay req = [] \<or> vr_Relay req \<in> set (g_AllowedRelays g)) \<and>
        (vr_TargetDeviceID req = None \<or> g_TargetDeviceID g = None \<or>
           vr_TargetDeviceID req = g_TargetDeviceID g) \<and>
        (vr_TargetRustDeskID req = [] \<or> g_TargetRustDeskID g = [] \<or>
           vr_TargetRustDeskID req = g_TargetRustDeskID g))"
  (is "?l \<longleftrightarrow> ?r")
proof
  assume ?l
  then obtain g where "validate_decide c now req s = Accept g"
    by (cases "validate_decide c now req s")
       (auto simp: ValidateWithContext_def rejected_def split: prod.splits dest: decide_Reject)
  then show ?r using decide_Accept [of c now req s g] by (auto simp: dead_def)
next
  assume ?r
  then obtain p g where "validate_decide c now req s = Accept g"
    by (auto simp: validate_decide_def)
  then show ?l by (simp add: ValidateWithContext_def split: prod.splits)
qed

text \<open>
  What an issued grant is: the request named an identity, a target and a relay; the
  grant is on record as issued with the request's relays and target; and it runs out between
  one and five minutes after the clock reading of the request.
\<close>

lemma issue_bounds:
  assumes s: "served_by memory_grant_store s"
    and i: "IssueWithContext c now now2 r1 r2 req s = (Inr resp, s')"
  shows "now + 60000000000 \<le> is_ExpiresAt resp \<and> is_ExpiresAt resp \<le> now + 300000000000 \<and>
     (ir_UserID req \<noteq> None \<or> ir_ControllerDeviceID req \<noteq> None \<or> ir_Authenticated req) \<and>
     ir_AllowedRelays req \<noteq> [] \<and>
     (ir_TargetDeviceID req \<noteq> None \<or> TrimSpace (ir_TargetRustDeskID req) \<noteq> []) \<and>
     (\<exists>g. findGrant (is_GrantID resp) s' = Some g \<and> g_Status g = StatusIssued \<and>
        g_ExpiresAt g = is_ExpiresAt resp \<and> g_AllowedRelays g = ir_AllowedRelays req \<and>
        g_TargetDeviceID g = ir_TargetDeviceID req \<and>
        g_TargetRustDeskID g = TrimSpace (ir_TargetRustDeskID req))"
proof -
  have m: "sint Minute = 60000000000" "sint (5 * Minute) = 300000000000"
    by (simp_all add: Minute_def)
  show ?thesis using IssueD [OF i] issued_grant [OF s i] by (auto simp: m Add_def)
qed

lemma issue_bounds_witness:
  "1000000000 + 60000000000 \<le> is_ExpiresAt wit_response \<and>
   is_ExpiresAt wit_response \<le> 1000000000 + 300000000000"
  using issue_bounds [OF wit_served wit_issue_eq] by blast

text \<open>
  C6. A token that parses carries the HMAC of its first part under the service's key, and the
  payload it stands for is the decoding of that part; every token the service signs parses
  back to its payload.
\<close>

theorem parse_authentic:
  "(parse c key token = Inr p \<longrightarrow>
      (\<exists>body sig raw. token = body @ ''.'' @ sig \<and> DecodeString sig = Some (hmac c key body) \<and>
         DecodeString body = Some raw \<and> unmarshal c raw = Some p)) \<and>
   (sign c key p = Inr token \<and> (\<forall>raw. marshal c p = Some raw \<longrightarrow> unmarshal c raw = Some p) \<and>
    TrimSpace (tp_GrantID p) \<noteq> [] \<and> TrimSpace (tp_Nonce p) \<noteq> [] \<and> 0 < tp_ExpiresAt p \<longrightarrow>
      parse c key token = Inr p)"
  using parse_InrD [of c key token p] parse_sign [of c key p token] by auto

theorem parse_authentic_witness:
  "parse wit_c ''key'' ''e30.MDNl'' = Inr (payload_of wit_grant)"
proof -
  have "sign wit_c ''key'' (payload_of wit_grant) = Inr ''e30.MDNl'' \<and>
    TrimSpace (tp_GrantID (payload_of wit_grant)) \<noteq> [] \<and>
    TrimSpace (tp_Nonce (payload_of wit_grant)) \<noteq> [] \<and> 0 < tp_ExpiresAt (payload_of wit_grant)"
    by code_simp
  then show ?thesis
    using parse_authentic [of wit_c "''key''" "''e30.MDNl''" "payload_of wit_grant"]
      wit_codec_roundtrip by blast
qed

section \<open>Where the service is weaker than its documentation\<close>

text \<open>
  C28. The read and the write of a validation are separate critical sections. When a second
  validation of the same token has read the grant before the first one has written it, both
  answer valid: single use holds for validations one after the other (C2), not for
  overlapping ones.
\<close>

theorem racing_validations_both_valid:
  assumes "vs_Valid (fst (fst (ValidateWithContext c t t1 v s)))"
  shows "vs_Valid (fst (fst (validate_commit t2 (validate_decide c t v s)
            (snd (ValidateWithContext c t t1 v s)))))"
proof -
  obtain g where "validate_decide c t v s = Accept g" using assms
    by (cases "validate_decide c t v s")
       (auto simp: ValidateWithContext_def rejected_def split: prod.splits dest: decide_Reject)
  then show ?thesis by (simp split: prod.splits)
qed

theorem racing_validations_both_valid_witness:
  "vs_Valid (fst (fst (validate_commit 2000000005
      (validate_decide wit_c 2000000000 wit_validate wit_issued) wit_used)))"
  using racing_validations_both_valid [of wit_c 2000000000 2000000001 wit_validate wit_issued 2000000005]
  by (simp add: wit_validated)

text \<open>
  \<^verbatim>\<open>updateGrantStatus\<close> falls back to the service's own map when the store fails. With a
  store that finds grants but cannot write them, a validation answers valid and records
  nothing, so the same token is valid again.
\<close>

lemma failing_store_allows_replay:
  assumes store: "svc_store s = Some ops" "svc_grants s = Map.empty"
    and fails: "\<And>k st u. \<exists>e. gs_UpdateRelayGrantStatus ops k st u (svc_db s) = (Inl e, svc_db s)"
    and v: "vs_Valid (fst (fst (ValidateWithContext c t t1 v s)))"
  shows "snd (ValidateWithContext c t t1 v s) = s \<and>
         vs_Valid (fst (fst (ValidateWithContext c t t2 v (snd (ValidateWithContext c t t1 v s)))))"
proof -
  obtain g where g: "validate_decide c t v s = Accept g" using v
    by (cases "validate_decide c t v s")
       (auto simp: ValidateWithContext_def rejected_def split: prod.splits dest: decide_Reject)
  obtain e where "gs_UpdateRelayGrantStatus ops (g_GrantID g) StatusUsed (Some t1) (svc_db s) = (Inl e, svc_db s)"
    using fails by blast
  then have s': "snd (ValidateWithContext c t t1 v s) = s"
    using g store by (simp add: ValidateWithContext_def updateGrantStatus_def update_in_map_def)
  show ?thesis unfolding s' using g by (simp add: ValidateWithContext_def split: prod.splits)
qed

definition wit_readonly_store :: "Memory grant_store_ops" where
  "wit_readonly_store = memory_grant_store\<lparr>
     gs_UpdateRelayGrantStatus := (\<lambda>k st u db. (Inl (ErrMsg ''read only''), db)) \<rparr>"

definition wit_readonly :: "Memory Service" where
  "wit_readonly = wit_issued\<lparr> svc_store := Some wit_readonly_store \<rparr>"

lemma failing_store_allows_replay_witness:
  "vs_Valid (fst (fst (ValidateWithContext wit_c 2000000000 2000000005 wit_validate
      (snd (ValidateWithContext wit_c 2000000000 2000000001 wit_validate wit_readonly)))))"
proof -
  have "vs_Valid (fst (fst (ValidateWithContext wit_c 2000000000 2000000001 wit_validate wit_readonly)))"
    by code_simp
  moreover have "svc_grants wit_readonly = Map.empty"
    by (simp add: wit_readonly_def wit_issued_def IssueWithContext_def storeGrant_def Let_def
        wit_service_def WithStore_def NewService_def split: sum.split prod.split)
  moreover have "svc_store wit_readonly = Some wit_readonly_store"
    by (simp add: wit_readonly_def)
  moreover have "\<exists>e. gs_UpdateRelayGrantStatus wit_readonly_store k st u db = (Inl e, db)" for k st u db
    by (simp add: wit_readonly_store_def)
  ultimately show ?thesis
    using failing_store_allows_replay [of wit_readonly wit_readonly_store wit_c 2000000000
       2000000001 wit_validate 2000000005] by blast
qed

text \<open>
  The requested lifetime is multiplied by a second in 64 bits before the bounds are
  checked: a request for \<open>2 ^ 55 + 60\<close> seconds wraps to one minute and is accepted.
\<close>

lemma request_ttl_wraps: "request_ttl d (2 ^ 55 + 60) = Minute"
  by (simp add: request_ttl_def Second_def Minute_def)

end
