(* ===== verification/Memory_Users.thy ===== *)
theory Memory_Users
  imports Memory_Core
begin

text \<open>
  The user part of the in-memory repository: users, API tokens, sessions, the login log
  and user groups (\<^verbatim>\<open>UserRepository\<close> in \<^verbatim>\<open>interfaces.go\<close>, implemented in \<^verbatim>\<open>memory.go\<close>).
\<close>

section \<open>Users\<close>

definition CountUsers :: "Memory \<Rightarrow> repo_error + int" where
  "CountUsers m = Inr (int (length (users m)))"

definition FindUserByEmail :: "string \<Rightarrow> Memory \<Rightarrow> repo_error + User" where
  "FindUserByEmail email0 m =
     (let email = ToLower (TrimSpace email0)
      in case find (\<lambda>u. EqualFold (user_Email u) email) (users m) of
           Some u \<Rightarrow> Inr u
         | None \<Rightarrow> Inl ErrNotFound)"

definition FindUserByID :: "int \<Rightarrow> Memory \<Rightarrow> repo_error + User" where
  "FindUserByID i m =
     (case find (\<lambda>u. user_ID u = i) (users m) of
        Some u \<Rightarrow> Inr u
      | None \<Rightarrow> Inl ErrNotFound)"

definition UpdateUser :: "gotime \<Rightarrow> int \<Rightarrow> User \<Rightarrow> Memory \<Rightarrow> User repo_result" where
  "UpdateUser now i user m =
     (if TrimSpace (user_Email user) = [] \<or> TrimSpace (user_Username user) = []
      then (Inl (ErrMsg ''email and username are required''), m)
      else (case update_row (\<lambda>u. user_ID u = i)
              (\<lambda>u. let username = TrimSpace (user_Username user);
                       display = TrimSpace (user_DisplayName user)
                   in u\<lparr> user_Email := ToLower (TrimSpace (user_Email user)),
                         user_Username := username,
                         user_DisplayName := (if display = [] then username else display),
                         user_Status := (if user_Status user \<noteq> [] then user_Status user else user_Status u),
                         user_MFAEnabled := user_MFAEnabled user,
                         user_Source := (if TrimSpace (user_Source user) \<noteq> []
                                         then TrimSpace (user_Source user) else user_Source u),
                         user_UpdatedAt := now \<rparr>) (users m) of
           None \<Rightarrow> (Inl ErrNotFound, m)
         | Some (u, us) \<Rightarrow> (Inr u, m\<lparr> users := us \<rparr>)))"

definition DisableUser :: "int \<Rightarrow> gotime \<Rightarrow> Memory \<Rightarrow> User repo_result" where
  "DisableUser i at m =
     (case update_row (\<lambda>u. user_ID u = i)
             (\<lambda>u. u\<lparr> user_Status := UserStatusDisabled, user_UpdatedAt := at \<rparr>) (users m) of
        None \<Rightarrow> (Inl ErrNotFound, m)
      | Some (u, us) \<Rightarrow> (Inr u, m\<lparr> users := us \<rparr>))"

definition RecordUserLogin :: "int \<Rightarrow> gotime \<Rightarrow> Memory \<Rightarrow> User repo_result" where
  "RecordUserLogin i at m =
     (case update_row (\<lambda>u. user_ID u = i)
             (\<lambda>u. u\<lparr> user_LastLoginAt := Some at, user_UpdatedAt := at \<rparr>) (users m) of
        None \<Rightarrow> (Inl ErrNotFound, m)
      | Some (u, us) \<Rightarrow> (Inr u, m\<lparr> users := us \<rparr>))"

definition ListUsers :: "Memory \<Rightarrow> repo_error + User list" where
  "ListUsers m = Inr (users m)"

definition CreateUser :: "gotime \<Rightarrow> User \<Rightarrow> Memory \<Rightarrow> User repo_result" where
  "CreateUser now user m =
     (if user_Email user = [] \<or> user_Username user = []
      then (Inl (ErrMsg ''email and username are required''), m)
      else let next = nextID m + 1;
               u = user\<lparr> user_ID := next, user_Status := UserStatusActive,
                         user_Source := ''local'', user_CreatedAt := now, user_UpdatedAt := now \<rparr>
           in (Inr u, m\<lparr> nextID := next, users := users m @ [u] \<rparr>))"

section \<open>API tokens\<close>

definition ListAPITokens :: "Memory \<Rightarrow> repo_error + APIToken list" where
  "ListAPITokens m = Inr (apiTokens m)"

definition CreateAPIToken :: "gotime \<Rightarrow> APIToken \<Rightarrow> Memory \<Rightarrow> APIToken repo_result" where
  "CreateAPIToken now token m =
     (if TrimSpace (tok_Name token) = [] \<or> TrimSpace (tok_TokenHash token) = []
         \<or> TrimSpace (tok_ScopesJSON token) = []
      then (Inl (ErrMsg ''name, token_hash, and scopes_json are required''), m)
      else let next = nextID m + 1;
               t = token\<lparr> tok_ID := next, tok_CreatedAt := now \<rparr>
           in (Inr t, m\<lparr> nextID := next, apiTokens := t # apiTokens m \<rparr>))"

definition FindAPITokenByHash :: "string \<Rightarrow> Memory \<Rightarrow> repo_error + APIToken" where
  "FindAPITokenByHash h m =
     (case find (\<lambda>t. tok_TokenHash t = TrimSpace h) (apiTokens m) of
        Some t \<Rightarrow> Inr t
      | None \<Rightarrow> Inl ErrNotFound)"

definition RevokeAPIToken :: "int \<Rightarrow> gotime \<Rightarrow> Memory \<Rightarrow> APIToken repo_result" where
  "RevokeAPIToken i at m =
     (case update_row (\<lambda>t. tok_ID t = i) (\<lambda>t. t\<lparr> tok_RevokedAt := Some at \<rparr>) (apiTokens m) of
        None \<Rightarrow> (Inl ErrNotFound, m)
      | Some (t, ts) \<Rightarrow> (Inr t, m\<lparr> apiTokens := ts \<rparr>))"

definition RecordAPITokenUsed :: "int \<Rightarrow> gotime \<Rightarrow> Memory \<Rightarrow> APIToken repo_result" where
  "RecordAPITokenUsed i at m =
     (case update_row (\<lambda>t. tok_ID t = i) (\<lambda>t. t\<lparr> tok_LastUsedAt := Some at \<rparr>) (apiTokens m) of
        None \<Rightarrow> (Inl ErrNotFound, m)
      | Some (t, ts) \<Rightarrow> (Inr t, m\<lparr> apiTokens := ts \<rparr>))"

section \<open>Sessions\<close>

definition CreateSession :: "gotime \<Rightarrow> Session \<Rightarrow> Memory \<Rightarrow> Session repo_result" where
  "CreateSession now session m =
     (if ses_UserID session \<le> 0 \<or> TrimSpace (ses_TokenHash session) = []
         \<or> IsZero (ses_ExpiresAt session)
      then (Inl (ErrMsg ''user_id, token_hash, and expires_at are required''), m)
      else let next = nextID m + 1;
               s = session\<lparr> ses_ID := next, ses_TokenHash := TrimSpace (ses_TokenHash session),
                            ses_IP := TrimSpace (ses_IP session),
                            ses_UserAgent := TrimSpace (ses_UserAgent session),
                            ses_CreatedAt := now \<rparr>
           in (Inr s, m\<lparr> nextID := next, sessions := s # sessions m \<rparr>))"

definition FindSessionByTokenHash :: "string \<Rightarrow> Memory \<Rightarrow> repo_error + Session" where
  "FindSessionByTokenHash h m =
     (case find (\<lambda>s. ses_TokenHash s = TrimSpace h) (sessions m) of
        Some s \<Rightarrow> Inr s
      | None \<Rightarrow> Inl ErrNotFound)"

definition RevokeSession :: "string \<Rightarrow> gotime \<Rightarrow> Memory \<Rightarrow> Session repo_result" where
  "RevokeSession h at m =
     (case update_row (\<lambda>s. ses_TokenHash s = TrimSpace h)
             (\<lambda>s. if ses_RevokedAt s = None then s\<lparr> ses_RevokedAt := Some at \<rparr> else s)
             (sessions m) of
        None \<Rightarrow> (Inl ErrNotFound, m)
      | Some (s, ss) \<Rightarrow> (Inr s, m\<lparr> sessions := ss \<rparr>))"

section \<open>Login log\<close>

definition CreateLoginLog :: "gotime \<Rightarrow> LoginLog \<Rightarrow> Memory \<Rightarrow> LoginLog repo_result" where
  "CreateLoginLog now log m =
     (if TrimSpace (ll_Email log) = [] then (Inl (ErrMsg ''email is required''), m)
      else if \<not> validLoginStatus (ll_Status log)
      then (Inl (ErrMsg ''login status must be succeeded, failed, or denied''), m)
      else let next = nextID m + 1;
               created = (if IsZero (ll_CreatedAt log) then now else ll_CreatedAt log);
               l = log\<lparr> ll_ID := next,
                        ll_Email := ToLower (TrimSpace (ll_Email log)),
                        ll_Username := TrimSpace (ll_Username log),
                        ll_DisplayName := TrimSpace (ll_DisplayName log),
                        ll_FailureReason := TrimSpace (ll_FailureReason log),
                        ll_IP := TrimSpace (ll_IP log),
                        ll_UserAgent := TrimSpace (ll_UserAgent log),
                        ll_CreatedAt := created,
                        ll_LastLoginAt :=
                          (if ll_Status log = ''succeeded'' \<and> ll_LastLoginAt log = None
                           then Some created else ll_LastLoginAt log) \<rparr>
           in (Inr l, m\<lparr> nextID := next, loginLogs := l # loginLogs m \<rparr>))"

section \<open>User groups\<close>

definition ListUserGroups :: "Memory \<Rightarrow> repo_error + UserGroup list" where
  "ListUserGroups m = Inr (userGroups m)"

definition CreateUserGroup :: "gotime \<Rightarrow> UserGroup \<Rightarrow> Memory \<Rightarrow> UserGroup repo_result" where
  "CreateUserGroup now grp m =
     (if TrimSpace (ug_Name grp) = [] then (Inl (ErrMsg ''name is required''), m)
      else let next = nextID m + 1;
               g = grp\<lparr> ug_ID := next, ug_Name := TrimSpace (ug_Name grp),
                          ug_Description := TrimSpace (ug_Description grp),
                          ug_MemberUserIDs := positiveIDs (ug_MemberUserIDs grp),
                          ug_CreatedAt := now, ug_UpdatedAt := now \<rparr>
           in (Inr g, m\<lparr> nextID := next, userGroups := userGroups m @ [g] \<rparr>))"

definition ListUserGroupMembers :: "int \<Rightarrow> Memory \<Rightarrow> repo_error + int list" where
  "ListUserGroupMembers gid m =
     (case find (\<lambda>g. ug_ID g = gid) (userGroups m) of
        Some g \<Rightarrow> Inr (ug_MemberUserIDs g)
      | None \<Rightarrow> Inl ErrNotFound)"

definition AddUserGroupMember :: "gotime \<Rightarrow> int \<Rightarrow> int \<Rightarrow> Memory \<Rightarrow> UserGroup repo_result" where
  "AddUserGroupMember now gid uid m =
     (if gid \<le> 0 \<or> uid \<le> 0 then (Inl (ErrMsg ''group_id and user_id must be positive''), m)
      else (case update_row (\<lambda>g. ug_ID g = gid)
              (\<lambda>g. if containsInt64 (ug_MemberUserIDs g) uid then g
                   else g\<lparr> ug_MemberUserIDs := sort (ug_MemberUserIDs g @ [uid]),
                           ug_UpdatedAt := now \<rparr>) (userGroups m) of
           None \<Rightarrow> (Inl ErrNotFound, m)
         | Some (g, gs) \<Rightarrow> (Inr g, m\<lparr> userGroups := gs \<rparr>)))"

definition RemoveUserGroupMember :: "gotime \<Rightarrow> int \<Rightarrow> int \<Rightarrow> Memory \<Rightarrow> UserGroup repo_result" where
  "RemoveUserGroupMember now gid uid m =
     (if gid \<le> 0 \<or> uid \<le> 0 then (Inl (ErrMsg ''group_id and user_id must be positive''), m)
      else (case update_row (\<lambda>g. ug_ID g = gid)
              (\<lambda>g. g\<lparr> ug_MemberUserIDs := removeInt64 (ug_MemberUserIDs g) uid,
                      ug_UpdatedAt := now \<rparr>) (userGroups m) of
           None \<Rightarrow> (Inl ErrNotFound, m)
         | Some (g, gs) \<Rightarrow> (Inr g, m\<lparr> userGroups := gs \<rparr>)))"

end
