(* ===== verification/Tokens.thy ===== *)
theory Tokens
  imports Base64
begin

text \<open>
  \<^verbatim>\<open>api/internal/tokens/hash.go\<close>, and the shape session tokens have: a base64 body and its
  base64 HMAC. HMAC-SHA-256 is an argument.
\<close>

section \<open>Token hashes\<close>

definition hex_digit :: "nat \<Rightarrow> char" where
  "hex_digit n = char_of (if n < 10 then 48 + n else 87 + n)"

definition hex_encode :: "string \<Rightarrow> string" where
  "hex_encode s = concat (map (\<lambda>c. [hex_digit (byte c div 16), hex_digit (byte c mod 16)]) s)"

definition HashToken :: "(string \<Rightarrow> string \<Rightarrow> string) \<Rightarrow> string \<Rightarrow> string \<Rightarrow> string" where
  "HashToken hm secret token = hex_encode (hm secret token)"

definition EqualHash :: "string \<Rightarrow> string \<Rightarrow> bool" where
  "EqualHash a b \<longleftrightarrow> a = b"

section \<open>Signed tokens\<close>

definition seal :: "(string \<Rightarrow> string \<Rightarrow> string) \<Rightarrow> string \<Rightarrow> string \<Rightarrow> string" where
  "seal hm key raw =
     (let encoded = EncodeToString raw
      in encoded @ ''.'' @ EncodeToString (hm key encoded))"

definition unseal :: "(string \<Rightarrow> string \<Rightarrow> string) \<Rightarrow> string \<Rightarrow> string \<Rightarrow> string option" where
  "unseal hm key token =
     (let parts = Split CHR ''.'' token
      in if length parts \<noteq> 2 then None
         else (case DecodeString (parts ! 1) of
             None \<Rightarrow> None
           | Some got \<Rightarrow> if hm key (parts ! 0) \<noteq> got then None else DecodeString (parts ! 0)))"

lemma unseal_seal [simp]: "unseal hm key (seal hm key raw) = Some raw"
proof -
  have "Split CHR ''.'' (seal hm key raw) =
      [EncodeToString raw, EncodeToString (hm key (EncodeToString raw))]"
    by (simp add: seal_def Let_def Split_pair)
  then show ?thesis by (simp add: unseal_def)
qed

lemma unseal_SomeD:
  "unseal hm key token = Some raw \<Longrightarrow>
     \<exists>body sig. token = body @ ''.'' @ sig \<and> DecodeString sig = Some (hm key body) \<and>
                DecodeString body = Some raw"
proof -
  assume u: "unseal hm key token = Some raw"
  then have "length (Split CHR ''.'' token) = 2" by (auto simp: unseal_def Let_def split: if_splits)
  then obtain body sig where parts: "Split CHR ''.'' token = [body, sig]"
    by (auto simp: length_Suc_conv numeral_2_eq_2)
  then have "DecodeString sig = Some (hm key body) \<and> DecodeString body = Some raw"
    using u unfolding unseal_def Let_def parts by (simp split: option.splits if_splits)
  moreover have "token = body @ ''.'' @ sig" using parts by (simp add: Split_pair)
  ultimately show ?thesis by blast
qed

lemma hex_digit_graph: "n < 16 \<Longrightarrow> 32 < byte (hex_digit n) \<and> byte (hex_digit n) < 128"
  by (auto simp: hex_digit_def)

lemma hex_encode_graph: "c \<in> set (hex_encode s) \<Longrightarrow> 32 < byte c \<and> byte c < 128"
  using hex_digit_graph by (auto simp: hex_encode_def)

text \<open>The two digits of a byte, read off its bits: an equation for evaluation.\<close>

fun hex_nibble :: "bool \<Rightarrow> bool \<Rightarrow> bool \<Rightarrow> bool \<Rightarrow> char" where
  "hex_nibble False False False False = CHR ''0''"
| "hex_nibble False False False True = CHR ''1''"
| "hex_nibble False False True False = CHR ''2''"
| "hex_nibble False False True True = CHR ''3''"
| "hex_nibble False True False False = CHR ''4''"
| "hex_nibble False True False True = CHR ''5''"
| "hex_nibble False True True False = CHR ''6''"
| "hex_nibble False True True True = CHR ''7''"
| "hex_nibble True False False False = CHR ''8''"
| "hex_nibble True False False True = CHR ''9''"
| "hex_nibble True False True False = CHR ''a''"
| "hex_nibble True False True True = CHR ''b''"
| "hex_nibble True True False False = CHR ''c''"
| "hex_nibble True True False True = CHR ''d''"
| "hex_nibble True True True False = CHR ''e''"
| "hex_nibble True True True True = CHR ''f''"

lemma hex_digit_nibble:
  "hex_digit (of_bool a * 8 + of_bool b * 4 + of_bool c * 2 + of_bool d) = hex_nibble a b c d"
  by (cases a; cases b; cases c; cases d) (simp_all add: hex_digit_def char_of_def bit_simps)

lemma byte_nibbles:
  "byte (Char a b c d e f g h) =
     (of_bool h * 8 + of_bool g * 4 + of_bool f * 2 + of_bool e) * 16 +
     (of_bool d * 8 + of_bool c * 4 + of_bool b * 2 + of_bool a)"
  by simp

lemma nibble_less: "of_bool a * 8 + of_bool b * 4 + of_bool c * 2 + of_bool d < (16::nat)"
  by (cases a; cases b; cases c; cases d; simp)

lemma nibbles_div_mod:
  fixes x y :: nat
  assumes "y < 16"
  shows "(x * 16 + y) div 16 = x" "(x * 16 + y) mod 16 = y"
  using assms by simp_all

lemma hex_encode_code [code]:
  "hex_encode [] = []"
  "hex_encode (Char a b c d e f g h # s) = hex_nibble h g f e # hex_nibble d c b a # hex_encode s"
  by (simp_all only: hex_encode_def list.map concat.simps byte_nibbles nibbles_div_mod [OF nibble_less]
    hex_digit_nibble append_Cons append_Nil)

end
