(* ===== verification/Http.thy ===== *)
theory Http
  imports Go_Prelude
begin

text \<open>
  Requests and responses as the handlers see them (\<^verbatim>\<open>net/http\<close>, \<^verbatim>\<open>api/internal/httpx\<close>). A
  request is its method, path, remote address, headers, cookies and query parameters, and
  the value the authentication middleware put into its context. The body of a request is
  what \<^verbatim>\<open>httpx.DecodeJSON\<close> makes of it: handlers take it as an option, \<^term>\<open>None\<close> for a body
  that does not decode. A handler writes one response (\<^typ>\<open>'a http_response\<close>).
\<close>

record 'c http_request =
  Method :: string
  Path :: string
  RemoteAddr :: string
  Headers :: "(string \<times> string) list"
  Cookies :: "(string \<times> string) list"
  Query :: "(string \<times> string) list"
  Context :: "'c option"

text \<open>\<^verbatim>\<open>r.Header.Get\<close> and \<^verbatim>\<open>r.URL.Query().Get\<close>: the first value, or the empty string.\<close>

definition HeaderGet :: "string \<Rightarrow> 'c http_request \<Rightarrow> string" where
  "HeaderGet k r = (case map_of (Headers r) k of None \<Rightarrow> [] | Some v \<Rightarrow> v)"

definition QueryGet :: "string \<Rightarrow> 'c http_request \<Rightarrow> string" where
  "QueryGet k r = (case map_of (Query r) k of None \<Rightarrow> [] | Some v \<Rightarrow> v)"

definition Cookie :: "string \<Rightarrow> 'c http_request \<Rightarrow> string option" where
  "Cookie k r = map_of (Cookies r) k"

abbreviation MethodGet :: string where "MethodGet \<equiv> ''GET''"
abbreviation MethodPost :: string where "MethodPost \<equiv> ''POST''"
abbreviation MethodPut :: string where "MethodPut \<equiv> ''PUT''"
abbreviation MethodDelete :: string where "MethodDelete \<equiv> ''DELETE''"
abbreviation MethodOptions :: string where "MethodOptions \<equiv> ''OPTIONS''"

abbreviation StatusOK :: nat where "StatusOK \<equiv> 200"
abbreviation StatusCreated :: nat where "StatusCreated \<equiv> 201"
abbreviation StatusAccepted :: nat where "StatusAccepted \<equiv> 202"
abbreviation StatusBadRequest :: nat where "StatusBadRequest \<equiv> 400"
abbreviation StatusUnauthorized :: nat where "StatusUnauthorized \<equiv> 401"
abbreviation StatusForbidden :: nat where "StatusForbidden \<equiv> 403"
abbreviation StatusNotFound :: nat where "StatusNotFound \<equiv> 404"
abbreviation StatusMethodNotAllowed :: nat where "StatusMethodNotAllowed \<equiv> 405"
abbreviation StatusConflict :: nat where "StatusConflict \<equiv> 409"
abbreviation StatusTooManyRequests :: nat where "StatusTooManyRequests \<equiv> 429"
abbreviation StatusInternalServerError :: nat where "StatusInternalServerError \<equiv> 500"

section \<open>Responses\<close>

text \<open>
  \<^verbatim>\<open>httpx.Method\<close>: the request goes on (\<^term>\<open>None\<close>) when it has the method, and is answered
  otherwise.
\<close>

definition method_not_allowed :: "'a http_response" where
  "method_not_allowed = Error StatusMethodNotAllowed ''METHOD_NOT_ALLOWED'' ''method not allowed''"

definition require_method :: "string \<Rightarrow> 'c http_request \<Rightarrow> 'a http_response option" where
  "require_method method r = (if Method r = method then None else Some method_not_allowed)"

lemma status_method_not_allowed [simp]: "status_of method_not_allowed = 405"
  by (simp add: method_not_allowed_def)

section \<open>Words of a header and host of an address\<close>

text \<open>\<^verbatim>\<open>strings.Fields\<close>.\<close>

fun word_len :: "string \<Rightarrow> nat" where
  "word_len [] = 0"
| "word_len (c # s) = (if space_width (c # s) > 0 then 0 else Suc (word_len s))"

lemma trim_left_length: "length (trim_left s) \<le> length s"
proof (induction s rule: trim_left.induct)
  case (1 s)
  then show ?case
    by (cases "space_width s = 0") (use trim_left.simps [of s] in auto)
qed

lemma word_len_pos: "s \<noteq> [] \<Longrightarrow> space_width s = 0 \<Longrightarrow> 0 < word_len s"
  by (cases s) auto

function Fields :: "string \<Rightarrow> string list" where
  "Fields s =
     (let t = trim_left s
      in if t = [] then [] else take (word_len t) t # Fields (drop (word_len t) t))"
  by pat_completeness auto
termination
proof (relation "measure length")
  fix s t :: string
  assume "t = trim_left s" "t \<noteq> []"
  then show "(drop (word_len t) t, s) \<in> measure length"
    using trim_left_length [of s] word_len_pos [of t] by (cases "length s") auto
qed simp

declare Fields.simps [simp del]

text \<open>\<^verbatim>\<open>strings.Index\<close> and \<^verbatim>\<open>strings.LastIndex\<close> of one character.\<close>

fun index_of :: "char \<Rightarrow> string \<Rightarrow> nat option" where
  "index_of c [] = None"
| "index_of c (x # s) = (if x = c then Some 0 else map_option Suc (index_of c s))"

definition last_index_of :: "char \<Rightarrow> string \<Rightarrow> nat option" where
  "last_index_of c s = map_option (\<lambda>i. length s - 1 - i) (index_of c (rev s))"

text \<open>The host \<^verbatim>\<open>net.SplitHostPort\<close> returns; \<^term>\<open>None\<close> is its error.\<close>

definition SplitHost :: "string \<Rightarrow> string option" where
  "SplitHost hostport =
     (case last_index_of CHR '':'' hostport of
        None \<Rightarrow> None
      | Some i \<Rightarrow>
          if hd hostport = CHR ''[''
          then (case index_of CHR '']'' hostport of
              None \<Rightarrow> None
            | Some end \<Rightarrow>
                if end + 1 \<noteq> i then None
                else if CHR ''['' \<in> set (drop 1 hostport) \<or> CHR '']'' \<in> set (drop (end + 1) hostport)
                then None
                else Some (take (end - 1) (drop 1 hostport)))
          else let host = take i hostport
               in if CHR '':'' \<in> set host \<or> CHR ''['' \<in> set hostport \<or> CHR '']'' \<in> set hostport
                  then None else Some host)"

end
