(* ===== verification/Auth_Service.thy ===== *)
theory Auth_Service
  imports Memory_Users Tokens Http
begin

text \<open>
  Sessions and logins (\<^verbatim>\<open>api/internal/auth/service.go\<close>). The repository behind the service is
  its interface \<^verbatim>\<open>UserStore\<close>, a record of functions over the state of the store; bcrypt,
  HMAC-SHA-256 and JSON at \<^verbatim>\<open>Claims\<close> are arguments (\<open>auth_prims\<close>). \<open>clk i\<close> is the reading of
  the clock with number \<open>i\<close>: 0 is \<^verbatim>\<open>RecordUserLogin\<close>, 1 \<^verbatim>\<open>IssueToken\<close> and \<^verbatim>\<open>ParseToken\<close>, 2 the
  row of \<^verbatim>\<open>CreateSession\<close>, the expiry check and \<^verbatim>\<open>RevokeSession\<close>, 3 the login log, 4 the row of
  \<^verbatim>\<open>CreateLoginLog\<close>, 5 the API-token check.
\<close>

section \<open>Data\<close>

abbreviation SessionCookieName :: string where "SessionCookieName \<equiv> ''opendesk_session''"

datatype auth_error =
    ErrInvalidCredentials
  | ErrInvalidSessionToken
  | ErrExpiredToken
  | ErrDisabledUser
  | AuthStoreError repo_error
  | ClaimsMarshalError

record 's user_store_ops =
  us_FindUserByEmail :: "string \<Rightarrow> 's \<Rightarrow> repo_error + User"
  us_FindUserByID :: "int \<Rightarrow> 's \<Rightarrow> repo_error + User"
  us_RecordUserLogin :: "int \<Rightarrow> gotime \<Rightarrow> 's \<Rightarrow> (repo_error + User) \<times> 's"
  us_FindAPITokenByHash :: "string \<Rightarrow> 's \<Rightarrow> repo_error + APIToken"
  us_RecordAPITokenUsed :: "int \<Rightarrow> gotime \<Rightarrow> 's \<Rightarrow> (repo_error + APIToken) \<times> 's"
  us_CreateSession :: "gotime \<Rightarrow> Session \<Rightarrow> 's \<Rightarrow> (repo_error + Session) \<times> 's"
  us_FindSessionByTokenHash :: "string \<Rightarrow> 's \<Rightarrow> repo_error + Session"
  us_RevokeSession :: "string \<Rightarrow> gotime \<Rightarrow> 's \<Rightarrow> (repo_error + Session) \<times> 's"
  us_CreateLoginLog :: "gotime \<Rightarrow> LoginLog \<Rightarrow> 's \<Rightarrow> (repo_error + LoginLog) \<times> 's"

definition memory_user_store :: "Memory user_store_ops" where
  "memory_user_store =
     \<lparr> us_FindUserByEmail = FindUserByEmail, us_FindUserByID = FindUserByID,
       us_RecordUserLogin = RecordUserLogin, us_FindAPITokenByHash = FindAPITokenByHash,
       us_RecordAPITokenUsed = RecordAPITokenUsed, us_CreateSession = CreateSession,
       us_FindSessionByTokenHash = FindSessionByTokenHash, us_RevokeSession = RevokeSession,
       us_CreateLoginLog = CreateLoginLog \<rparr>"

record Claims =
  clm_UserID :: int
  clm_Email :: string
  clm_Role :: string
  clm_IssuedAt :: int
  clm_ExpiresAt :: int
  clm_Nonce :: string

record auth_prims =
  ap_bcrypt :: "string \<Rightarrow> string \<Rightarrow> bool"
  ap_hmac :: "string \<Rightarrow> string \<Rightarrow> string"
  ap_marshal :: "Claims \<Rightarrow> string option"
  ap_unmarshal :: "string \<Rightarrow> Claims option"

record AuthConfig =
  cfg_SigningKey :: string
  cfg_TokenTTL :: duration

record 's AuthService =
  as_store :: "'s user_store_ops"
  as_key :: string
  as_ttl :: duration

record LoginRequest =
  lr_Email :: string
  lr_Password :: string
  lr_IP :: string
  lr_UserAgent :: string

record LoginResponse =
  lp_User :: User
  lp_AccessToken :: string
  lp_ExpiresAt :: gotime

record AuthSession =
  asn_ID :: int
  asn_User :: User
  asn_Claims :: Claims
  asn_Token :: string
  asn_ExpiresAt :: gotime
  asn_ActorType :: string
  asn_APIToken :: "APIToken option"

definition no_claims :: Claims where
  "no_claims = \<lparr> clm_UserID = 0, clm_Email = [], clm_Role = [], clm_IssuedAt = 0,
                 clm_ExpiresAt = 0, clm_Nonce = [] \<rparr>"

definition NewAuthService :: "'s user_store_ops \<Rightarrow> AuthConfig \<Rightarrow> 's AuthService" where
  "NewAuthService store cfg =
     \<lparr> as_store = store,
       as_key = (if cfg_SigningKey cfg = [] then ''dev-only-opendesk-session-signing-key-change-me''
                 else cfg_SigningKey cfg),
       as_ttl = (if cfg_TokenTTL cfg = 0 then 15 * Minute else cfg_TokenTTL cfg) \<rparr>"

section \<open>Helpers\<close>

definition VerifyPassword :: "auth_prims \<Rightarrow> string \<Rightarrow> string \<Rightarrow> bool" where
  "VerifyPassword pr h password = ap_bcrypt pr h password"

definition sessionID :: "string \<Rightarrow> string" where
  "sessionID b = ''sess_'' @ EncodeToString b"

definition zeroOrTime :: "gotime option \<Rightarrow> gotime" where
  "zeroOrTime v = (case v of None \<Rightarrow> zero_time | Some t \<Rightarrow> t)"

definition emailOrUnknown :: "string \<Rightarrow> string" where
  "emailOrUnknown email = (if TrimSpace email = [] then ''unknown'' else email)"

definition hashToken :: "auth_prims \<Rightarrow> 's AuthService \<Rightarrow> string \<Rightarrow> string" where
  "hashToken pr svc token = HashToken (ap_hmac pr) (as_key svc) token"

definition bearerToken :: "string \<Rightarrow> string" where
  "bearerToken v =
     (let parts = Fields (TrimSpace v)
      in if length parts = 2 \<and> EqualFold (parts ! 0) ''Bearer'' then parts ! 1 else [])"

definition empty_login_log :: LoginLog where
  "empty_login_log =
     \<lparr> ll_ID = 0, ll_UserID = 0, ll_Email = [], ll_Username = [], ll_DisplayName = [],
       ll_Status = [], ll_FailureReason = [], ll_IP = [], ll_UserAgent = [],
       ll_LastLoginAt = None, ll_CreatedAt = zero_time \<rparr>"

definition anonymous_log :: "string \<Rightarrow> LoginRequest \<Rightarrow> gotime \<Rightarrow> LoginLog" where
  "anonymous_log email req at =
     empty_login_log\<lparr> ll_Email := email, ll_Status := ''failed'',
       ll_FailureReason := ''invalid_credentials'', ll_IP := lr_IP req,
       ll_UserAgent := lr_UserAgent req, ll_CreatedAt := at \<rparr>"

definition loginLogForUser ::
    "User \<Rightarrow> string \<Rightarrow> string \<Rightarrow> LoginRequest \<Rightarrow> gotime \<Rightarrow> LoginLog" where
  "loginLogForUser user status reason req at =
     empty_login_log\<lparr> ll_UserID := user_ID user, ll_Email := user_Email user,
       ll_Username := user_Username user, ll_DisplayName := user_DisplayName user,
       ll_Status := status, ll_FailureReason := reason, ll_IP := lr_IP req,
       ll_UserAgent := lr_UserAgent req, ll_CreatedAt := at,
       ll_LastLoginAt := (if status = ''succeeded'' then Some at else None) \<rparr>"

text \<open>The error of the store is dropped.\<close>

definition recordLoginLog :: "'s AuthService \<Rightarrow> (nat \<Rightarrow> gotime) \<Rightarrow> LoginLog \<Rightarrow> 's \<Rightarrow> 's" where
  "recordLoginLog svc clk log db =
     (let log1 = (if TrimSpace (ll_Email log) = [] then log\<lparr> ll_Email := ''unknown'' \<rparr> else log);
          log2 = (if IsZero (ll_CreatedAt log1) then log1\<lparr> ll_CreatedAt := clk 3 \<rparr> else log1)
      in snd (us_CreateLoginLog (as_store svc) (clk 4) log2 db))"

section \<open>Tokens\<close>

definition token_claims :: "'s AuthService \<Rightarrow> gotime \<Rightarrow> string \<Rightarrow> User \<Rightarrow> Claims" where
  "token_claims svc now rnd user =
     \<lparr> clm_UserID = user_ID user, clm_Email = user_Email user, clm_Role = ''admin'',
       clm_IssuedAt = Unix now, clm_ExpiresAt = Unix (Add now (as_ttl svc)),
       clm_Nonce = sessionID rnd \<rparr>"

definition IssueToken ::
    "auth_prims \<Rightarrow> 's AuthService \<Rightarrow> gotime \<Rightarrow> string \<Rightarrow> User \<Rightarrow> auth_error + (string \<times> gotime)" where
  "IssueToken pr svc now rnd user =
     (let expiresAt = Add now (as_ttl svc)
      in (case ap_marshal pr (token_claims svc now rnd user) of
            None \<Rightarrow> Inl ClaimsMarshalError
          | Some raw \<Rightarrow> Inr (seal (ap_hmac pr) (as_key svc) raw, expiresAt)))"

definition ParseToken ::
    "auth_prims \<Rightarrow> 's AuthService \<Rightarrow> gotime \<Rightarrow> string \<Rightarrow> auth_error + Claims" where
  "ParseToken pr svc now token =
     (case unseal (ap_hmac pr) (as_key svc) token of
        None \<Rightarrow> Inl ErrInvalidSessionToken
      | Some raw \<Rightarrow>
          (case ap_unmarshal pr raw of
             None \<Rightarrow> Inl ErrInvalidSessionToken
           | Some claims \<Rightarrow>
               if clm_UserID claims \<le> 0 \<or> clm_ExpiresAt claims \<le> 0 then Inl ErrInvalidSessionToken
               else if Unix now > clm_ExpiresAt claims then Inl ErrExpiredToken
               else Inr claims))"

section \<open>Login and logout\<close>

text \<open>The end of \<^verbatim>\<open>Login\<close>, once the password and the status of the user are checked.\<close>

definition start_session ::
    "auth_prims \<Rightarrow> 's AuthService \<Rightarrow> (nat \<Rightarrow> gotime) \<Rightarrow> string \<Rightarrow> LoginRequest \<Rightarrow> User \<Rightarrow> 's \<Rightarrow>
       (auth_error + LoginResponse) \<times> 's" where
  "start_session pr svc clk rnd req user db =
     (case IssueToken pr svc (clk 1) rnd user of
        Inl e \<Rightarrow> (Inl e, db)
      | Inr (token, expiresAt) \<Rightarrow>
          (case us_CreateSession (as_store svc) (clk 2)
                  \<lparr> ses_ID = 0, ses_UserID = user_ID user, ses_TokenHash = hashToken pr svc token,
                    ses_IP = lr_IP req, ses_UserAgent = lr_UserAgent req,
                    ses_ExpiresAt = expiresAt, ses_CreatedAt = zero_time,
                    ses_RevokedAt = None \<rparr> db of
             (Inl e, db1) \<Rightarrow>
               (Inl (AuthStoreError e),
                recordLoginLog svc clk
                  (loginLogForUser user ''failed'' ''session_create_failed'' req (clk 3)) db1)
           | (Inr created, db1) \<Rightarrow>
               (Inr \<lparr> lp_User = user, lp_AccessToken = token, lp_ExpiresAt = expiresAt \<rparr>,
                recordLoginLog svc clk (loginLogForUser user ''succeeded'' [] req (clk 3)) db1)))"

definition Login ::
    "auth_prims \<Rightarrow> 's AuthService \<Rightarrow> (nat \<Rightarrow> gotime) \<Rightarrow> string \<Rightarrow> LoginRequest \<Rightarrow> 's \<Rightarrow>
       (auth_error + LoginResponse) \<times> 's" where
  "Login pr svc clk rnd req db =
     (let email = ToLower (TrimSpace (lr_Email req))
      in if email = [] \<or> lr_Password req = []
         then (Inl ErrInvalidCredentials,
               recordLoginLog svc clk (anonymous_log (emailOrUnknown email) req (clk 3)) db)
         else (case us_FindUserByEmail (as_store svc) email db of
             Inl ErrNotFound \<Rightarrow>
               (Inl ErrInvalidCredentials,
                recordLoginLog svc clk (anonymous_log email req (clk 3)) db)
           | Inl e \<Rightarrow> (Inl (AuthStoreError e), db)
           | Inr user \<Rightarrow>
               if \<not> VerifyPassword pr (user_PasswordHash user) (lr_Password req)
               then (Inl ErrInvalidCredentials,
                     recordLoginLog svc clk
                       (loginLogForUser user ''failed'' ''invalid_credentials'' req (clk 3)) db)
               else if user_Status user \<noteq> UserStatusActive
               then (Inl ErrDisabledUser,
                     recordLoginLog svc clk
                       (loginLogForUser user ''denied'' ''user_not_active'' req (clk 3)) db)
               else (case us_RecordUserLogin (as_store svc) (user_ID user) (clk 0) db of
                       (Inr updated, db1) \<Rightarrow> start_session pr svc clk rnd req updated db1
                     | (Inl e, db1) \<Rightarrow> start_session pr svc clk rnd req user db1)))"

definition Logout ::
    "auth_prims \<Rightarrow> 's AuthService \<Rightarrow> (nat \<Rightarrow> gotime) \<Rightarrow> string \<Rightarrow> 's \<Rightarrow> auth_error option \<times> 's" where
  "Logout pr svc clk token0 db =
     (let token = TrimSpace token0
      in if token = [] then (None, db)
         else (case ParseToken pr svc (clk 1) token of
             Inl e \<Rightarrow> (None, db)
           | Inr claims \<Rightarrow>
               (case us_RevokeSession (as_store svc) (hashToken pr svc token) (clk 2) db of
                  (Inl ErrNotFound, db1) \<Rightarrow> (None, db1)
                | (Inl e, db1) \<Rightarrow> (Some (AuthStoreError e), db1)
                | (Inr s, db1) \<Rightarrow> (None, db1))))"

section \<open>Authentication of requests\<close>

definition authenticateSessionToken ::
    "auth_prims \<Rightarrow> 's AuthService \<Rightarrow> (nat \<Rightarrow> gotime) \<Rightarrow> string \<Rightarrow> 's \<Rightarrow> auth_error + AuthSession" where
  "authenticateSessionToken pr svc clk token db =
     (case ParseToken pr svc (clk 1) token of
        Inl e \<Rightarrow> Inl e
      | Inr claims \<Rightarrow>
          (case us_FindSessionByTokenHash (as_store svc) (hashToken pr svc token) db of
             Inl ErrNotFound \<Rightarrow> Inl ErrInvalidSessionToken
           | Inl e \<Rightarrow> Inl (AuthStoreError e)
           | Inr stored \<Rightarrow>
               if ses_UserID stored \<noteq> clm_UserID claims then Inl ErrInvalidSessionToken
               else if ses_RevokedAt stored \<noteq> None then Inl ErrInvalidSessionToken
               else if \<not> ses_ExpiresAt stored > clk 2 then Inl ErrExpiredToken
               else (case us_FindUserByID (as_store svc) (clm_UserID claims) db of
                   Inl e \<Rightarrow> Inl ErrInvalidSessionToken
                 | Inr user \<Rightarrow>
                     if user_Status user \<noteq> UserStatusActive then Inl ErrDisabledUser
                     else Inr \<lparr> asn_ID = ses_ID stored, asn_User = user, asn_Claims = claims,
                                asn_Token = token, asn_ExpiresAt = ses_ExpiresAt stored,
                                asn_ActorType = ''user'', asn_APIToken = None \<rparr>)))"

definition authenticateAPIToken ::
    "auth_prims \<Rightarrow> 's AuthService \<Rightarrow> (nat \<Rightarrow> gotime) \<Rightarrow> string \<Rightarrow> 's \<Rightarrow>
       (auth_error + AuthSession) \<times> 's" where
  "authenticateAPIToken pr svc clk raw db =
     (case us_FindAPITokenByHash (as_store svc) (HashToken (ap_hmac pr) (as_key svc) raw) db of
        Inl ErrNotFound \<Rightarrow> (Inl ErrInvalidSessionToken, db)
      | Inl e \<Rightarrow> (Inl (AuthStoreError e), db)
      | Inr t \<Rightarrow>
          if tok_RevokedAt t \<noteq> None then (Inl ErrInvalidSessionToken, db)
          else if (case tok_ExpiresAt t of None \<Rightarrow> False | Some x \<Rightarrow> \<not> x > clk 5)
          then (Inl ErrExpiredToken, db)
          else (case tok_UserID t of
              None \<Rightarrow> (Inl ErrInvalidSessionToken, db)
            | Some uid \<Rightarrow>
                (case us_FindUserByID (as_store svc) uid db of
                   Inl e \<Rightarrow> (Inl ErrInvalidSessionToken, db)
                 | Inr user \<Rightarrow>
                     if user_Status user \<noteq> UserStatusActive then (Inl ErrDisabledUser, db)
                     else (case us_RecordAPITokenUsed (as_store svc) (tok_ID t) (clk 5) db of
                         (r, db1) \<Rightarrow>
                           let t1 = (case r of Inr updated \<Rightarrow> updated | Inl e \<Rightarrow> t)
                           in (Inr \<lparr> asn_ID = 0, asn_User = user, asn_Claims = no_claims,
                                     asn_Token = raw, asn_ExpiresAt = zeroOrTime (tok_ExpiresAt t1),
                                     asn_ActorType = ''api_token'', asn_APIToken = Some t1 \<rparr>, db1)))))"

definition AuthenticateRequest ::
    "auth_prims \<Rightarrow> 's AuthService \<Rightarrow> (nat \<Rightarrow> gotime) \<Rightarrow> 'c http_request \<Rightarrow> 's \<Rightarrow>
       (auth_error + AuthSession) \<times> 's" where
  "AuthenticateRequest pr svc clk r db =
     (let token = bearerToken (HeaderGet ''Authorization'' r)
      in if token \<noteq> []
         then (case authenticateSessionToken pr svc clk token db of
             Inr session \<Rightarrow> (Inr session, db)
           | Inl e \<Rightarrow>
               (case authenticateAPIToken pr svc clk token db of
                  (Inr session, db1) \<Rightarrow> (Inr session, db1)
                | (Inl e2, db1) \<Rightarrow> (Inl e, db1)))
         else (case Cookie SessionCookieName r of
             None \<Rightarrow> (Inl ErrInvalidSessionToken, db)
           | Some v \<Rightarrow>
               if TrimSpace v = [] then (Inl ErrInvalidSessionToken, db)
               else (authenticateSessionToken pr svc clk (TrimSpace v) db, db)))"

definition SessionFromContext :: "AuthSession http_request \<Rightarrow> AuthSession option" where
  "SessionFromContext r = Context r"

definition WithSession :: "AuthSession http_request \<Rightarrow> AuthSession \<Rightarrow> AuthSession http_request" where
  "WithSession r session = r\<lparr> Context := Some session \<rparr>"

definition ActorType :: "AuthSession \<Rightarrow> string" where
  "ActorType session = (if asn_ActorType session \<noteq> [] then asn_ActorType session else ''user'')"

text \<open>
  \<^verbatim>\<open>Require\<close>: a request goes on to \<open>nxt\<close> as it is when it is public, with its session when
  it authenticates, and is answered 401 otherwise.
\<close>

definition Require ::
    "auth_prims \<Rightarrow> 's AuthService \<Rightarrow> (nat \<Rightarrow> gotime) \<Rightarrow> (AuthSession http_request \<Rightarrow> bool) option \<Rightarrow>
       (AuthSession http_request \<Rightarrow> 's \<Rightarrow> 'a http_response \<times> 's) \<Rightarrow>
       AuthSession http_request \<Rightarrow> 's \<Rightarrow> 'a http_response \<times> 's" where
  "Require pr svc clk allowPublic nxt r db =
     (if Method r = MethodOptions \<or> (case allowPublic of None \<Rightarrow> False | Some f \<Rightarrow> f r)
      then nxt r db
      else (case AuthenticateRequest pr svc clk r db of
          (Inl e, db1) \<Rightarrow>
            (Error StatusUnauthorized ''UNAUTHENTICATED'' ''authentication is required'', db1)
        | (Inr session, db1) \<Rightarrow> nxt (WithSession r session) db1))"

end
