(* ===== verification/Auth_Lifecycle.thy ===== *)
theory Auth_Lifecycle
  imports Auth_Service
begin

text \<open>
  What the authentication service needs of its store, as the locale \<open>user_store\<close>, the proof
  that the in-memory repository provides it, and the facts about logins and sessions that
  follow from the laws alone.
\<close>

text \<open>
  \<open>wf\<close> is an invariant of the store. A store may keep a coarser time (\<open>stamp\<close>), may not be able
  to keep every time (\<open>storable\<close>), and may answer \<^verbatim>\<open>ErrNotFound\<close> to an update that changes
  nothing: the service goes on after an error of \<^verbatim>\<open>RecordUserLogin\<close> and takes \<^verbatim>\<open>ErrNotFound\<close> of
  \<^verbatim>\<open>RevokeSession\<close> for success.
\<close>

locale user_store =
  fixes ops :: "'s user_store_ops" and wf :: "'s \<Rightarrow> bool"
    and stamp :: "gotime \<Rightarrow> gotime" and storable :: "gotime \<Rightarrow> bool"
  assumes by_email: "wf db \<Longrightarrow> us_FindUserByEmail ops e db = Inr u \<Longrightarrow>
        us_FindUserByID ops (user_ID u) db = Inr u \<and> 0 < user_ID u"
    and record_login: "wf db \<Longrightarrow> us_FindUserByID ops i db = Inr u \<Longrightarrow>
        us_RecordUserLogin ops i at db = (r, db') \<Longrightarrow>
        wf db' \<and> (\<exists>u'. us_FindUserByID ops i db' = Inr u' \<and> user_ID u' = user_ID u \<and>
          user_Status u' = user_Status u \<and> user_Email u' = user_Email u \<and>
          (case r of Inr v \<Rightarrow> v = u' | Inl err \<Rightarrow> u' = u))"
    and create_session: "us_CreateSession ops now s db = (Inr s', db') \<Longrightarrow> wf db \<Longrightarrow>
          wf db' \<and> us_FindSessionByTokenHash ops (ses_TokenHash s) db' = Inr s' \<and>
          ses_UserID s' = ses_UserID s \<and> ses_ExpiresAt s' = stamp (ses_ExpiresAt s) \<and>
          (ses_RevokedAt s = None \<longrightarrow> ses_RevokedAt s' = None) \<and>
          (\<forall>i. us_FindUserByID ops i db' = us_FindUserByID ops i db)"
    and create_log: "us_CreateLoginLog ops now l db = (r', db') \<Longrightarrow> wf db \<Longrightarrow>
        wf db' \<and> (\<forall>i. us_FindUserByID ops i db' = us_FindUserByID ops i db) \<and>
        (\<forall>h. us_FindSessionByTokenHash ops h db' = us_FindSessionByTokenHash ops h db)"
    and revoke_session: "us_FindSessionByTokenHash ops h db = Inr s \<Longrightarrow> storable at \<Longrightarrow>
        us_RevokeSession ops h at db = (r'', db') \<Longrightarrow>
        \<exists>s'. us_FindSessionByTokenHash ops h db' = Inr s' \<and> ses_RevokedAt s' \<noteq> None \<and>
          (r'' = Inr s' \<or> r'' = Inl ErrNotFound)"

text \<open>A store that opens every session it is asked to open.\<close>

locale total_user_store = user_store +
  assumes create_session_total: "0 < ses_UserID s \<Longrightarrow> TrimSpace (ses_TokenHash s) \<noteq> [] \<Longrightarrow>
        \<not> IsZero (ses_ExpiresAt s) \<Longrightarrow> \<exists>s' db'. us_CreateSession ops now s db = (Inr s', db')"

section \<open>The in-memory repository provides it\<close>

definition users_wf :: "Memory \<Rightarrow> bool" where
  "users_wf m \<longleftrightarrow> distinct (map user_ID (users m)) \<and> (\<forall>u \<in> set (users m). 0 < user_ID u)"

lemma find_update_key:
  "find (\<lambda>x. k x = i) xs = Some x \<Longrightarrow> k (f x) = i \<Longrightarrow>
     find (\<lambda>x. k x = i) (update_first (\<lambda>x. k x = i) f xs) = Some (f x)"
  by (rule find_update_first)

lemma users_wf_RecordUserLogin: "users_wf m \<Longrightarrow> users_wf (snd (RecordUserLogin i at m))"
proof -
  assume wf: "users_wf m"
  have "map user_ID (update_first (\<lambda>u. user_ID u = i)
          (\<lambda>u. u\<lparr> user_LastLoginAt := Some at, user_UpdatedAt := at \<rparr>) (users m)) = map user_ID (users m)"
    by (rule map_update_first) simp
  moreover have "\<forall>u \<in> set (update_first (\<lambda>u. user_ID u = i)
          (\<lambda>u. u\<lparr> user_LastLoginAt := Some at, user_UpdatedAt := at \<rparr>) (users m)). 0 < user_ID u"
    by (rule ball_update_first) (use wf in \<open>auto simp: users_wf_def\<close>)
  ultimately show ?thesis using wf
    by (simp add: users_wf_def RecordUserLogin_def update_row_def split: option.split)
qed

interpretation memory_users:
  total_user_store memory_user_store users_wf "\<lambda>t. t" "\<lambda>_. True"
proof unfold_locales
  fix db db' :: Memory and e i u s s' h at now l r r' r''
  show "us_FindUserByID memory_user_store (user_ID u) db = Inr u \<and> 0 < user_ID u"
    if "users_wf db" "us_FindUserByEmail memory_user_store e db = Inr u"
  proof -
    have "u \<in> set (users db)"
      using that by (auto simp: memory_user_store_def FindUserByEmail_def Let_def
          split: option.splits dest: find_SomeD)
    then show ?thesis using that find_key [of user_ID "users db" u]
      by (auto simp: memory_user_store_def FindUserByID_def users_wf_def)
  qed
  show "users_wf db' \<and> (\<exists>u'. us_FindUserByID memory_user_store i db' = Inr u' \<and>
          user_ID u' = user_ID u \<and> user_Status u' = user_Status u \<and> user_Email u' = user_Email u \<and>
          (case r of Inr v \<Rightarrow> v = u' | Inl err \<Rightarrow> u' = u))"
    if "users_wf db" "us_FindUserByID memory_user_store i db = Inr u"
      "us_RecordUserLogin memory_user_store i at db = (r, db')"
  proof -
    have f: "find (\<lambda>u. user_ID u = i) (users db) = Some u"
      using that by (auto simp: memory_user_store_def FindUserByID_def split: option.splits)
    have "users_wf db'"
      using users_wf_RecordUserLogin [OF that(1), of i at] that(3) by (simp add: memory_user_store_def)
    then show ?thesis using find_SomeD [OF f] f that(3)
      by (auto simp: memory_user_store_def RecordUserLogin_def update_row_def FindUserByID_def
          find_update_key)
  qed
  show "users_wf db' \<and> us_FindSessionByTokenHash memory_user_store (ses_TokenHash s) db' = Inr s' \<and>
          ses_UserID s' = ses_UserID s \<and> ses_ExpiresAt s' = ses_ExpiresAt s \<and>
          (ses_RevokedAt s = None \<longrightarrow> ses_RevokedAt s' = None) \<and>
          (\<forall>i. us_FindUserByID memory_user_store i db' = us_FindUserByID memory_user_store i db)"
    if "us_CreateSession memory_user_store now s db = (Inr s', db')" "users_wf db"
    using that by (auto simp: memory_user_store_def CreateSession_def Let_def users_wf_def
        FindSessionByTokenHash_def FindUserByID_def split: if_splits)
  show "\<exists>s' db'. us_CreateSession memory_user_store now s db = (Inr s', db')"
    if "0 < ses_UserID s" "TrimSpace (ses_TokenHash s) \<noteq> []" "\<not> IsZero (ses_ExpiresAt s)"
    using that by (simp add: memory_user_store_def CreateSession_def Let_def)
  show "users_wf db' \<and>
        (\<forall>i. us_FindUserByID memory_user_store i db' = us_FindUserByID memory_user_store i db) \<and>
        (\<forall>h. us_FindSessionByTokenHash memory_user_store h db' =
              us_FindSessionByTokenHash memory_user_store h db)"
    if "us_CreateLoginLog memory_user_store now l db = (r', db')" "users_wf db"
    using that by (auto simp: memory_user_store_def CreateLoginLog_def Let_def users_wf_def
        FindSessionByTokenHash_def FindUserByID_def split: if_splits)
  show "\<exists>s'. us_FindSessionByTokenHash memory_user_store h db' = Inr s' \<and>
          ses_RevokedAt s' \<noteq> None \<and> (r'' = Inr s' \<or> r'' = Inl ErrNotFound)"
    if "us_FindSessionByTokenHash memory_user_store h db = Inr s"
      "us_RevokeSession memory_user_store h at db = (r'', db')"
  proof -
    have f: "find (\<lambda>s. ses_TokenHash s = TrimSpace h) (sessions db) = Some s"
      using that by (auto simp: memory_user_store_def FindSessionByTokenHash_def split: option.splits)
    show ?thesis using find_SomeD [OF f] f that(2)
      by (auto simp: memory_user_store_def RevokeSession_def update_row_def
          FindSessionByTokenHash_def find_update_key)
  qed
qed

section \<open>Tokens\<close>

lemma HashToken_trim [simp]: "TrimSpace (HashToken hm key t) = HashToken hm key t"
  by (rule TrimSpace_graph) (simp add: HashToken_def hex_encode_graph)

lemma hex_encode_Nil [simp]: "hex_encode s = [] \<longleftrightarrow> s = []"
  by (auto simp: hex_encode_def)

lemma IssueToken_parse:
  assumes "IssueToken pr svc now rnd user = Inr (token, expiresAt)"
    and rt: "\<And>raw. ap_marshal pr (token_claims svc now rnd user) = Some raw \<Longrightarrow>
          ap_unmarshal pr raw = Some (token_claims svc now rnd user)"
    and "0 < user_ID user" "Unix now' \<le> Unix expiresAt" "0 < Unix expiresAt"
  shows "\<exists>c. ParseToken pr svc now' token = Inr c \<and> clm_UserID c = user_ID user \<and>
             clm_ExpiresAt c = Unix expiresAt"
  using assms by (auto simp: IssueToken_def Let_def ParseToken_def token_claims_def
      split: option.splits dest!: rt)

lemma ParseToken_InrD:
  assumes "ParseToken pr svc now token = Inr c"
  shows "\<exists>body sig raw. token = body @ ''.'' @ sig \<and>
     DecodeString sig = Some (ap_hmac pr (as_key svc) body) \<and> DecodeString body = Some raw \<and>
     ap_unmarshal pr raw = Some c \<and> 0 < clm_UserID c \<and> Unix now \<le> clm_ExpiresAt c"
proof -
  obtain raw where "unseal (ap_hmac pr) (as_key svc) token = Some raw" "ap_unmarshal pr raw = Some c"
    "0 < clm_UserID c" "Unix now \<le> clm_ExpiresAt c"
    using assms unfolding ParseToken_def by (auto split: option.splits if_splits)
  then show ?thesis using unseal_SomeD [of "ap_hmac pr" "as_key svc" token raw] by blast
qed

section \<open>Bearer headers\<close>

lemma word_len_graph:
  "(\<And>c. c \<in> set s \<Longrightarrow> 32 < byte c \<and> byte c < 128) \<Longrightarrow> word_len s = length s"
proof (induction s)
  case (Cons c s)
  have "32 < byte c \<and> byte c < 128" using Cons.prems by simp
  then have "space_width (c # s) = 0"
    by (auto simp: ascii_space_def space2_def space3_def split: list.split)
  with Cons show ?case by simp
qed simp

lemma space_width_graph: "32 < byte c \<Longrightarrow> byte c < 128 \<Longrightarrow> space_width (c # s) = 0"
  by (auto simp: ascii_space_def space2_def space3_def split: list.split)

lemma rspace_width_graph: "32 < byte c \<Longrightarrow> byte c < 128 \<Longrightarrow> rspace_width (c # s) = 0"
  by (auto simp: ascii_space_def space2_def space3_def split: list.split)

lemma bearerToken_header:
  assumes g: "\<And>c. c \<in> set t \<Longrightarrow> 32 < byte c \<and> byte c < 128" and "t \<noteq> []"
  shows "bearerToken (''Bearer '' @ t) = t"
proof -
  obtain a u where t: "t = u @ [a]" using assms(2) by (metis rev_exhaust)
  obtain b v where t': "t = b # v" using assms(2) by (cases t) auto
  define h where "h = ''Bearer '' @ t"
  have s: "space_width h = 0"
    by (simp add: h_def ascii_space_def space2_def space3_def)
  have "rspace_width (rev h) = 0"
    using g [of a] by (simp add: h_def t rspace_width_graph del: rspace_width.simps)
  then have trim: "TrimSpace h = h"
    using s by (simp add: TrimSpace_def trim_left_id trim_right_def rtrim_id)
  have "word_len h = 6"
    by (simp add: h_def ascii_space_def space2_def space3_def split: list.split)
  moreover have "h \<noteq> []" by (simp add: h_def)
  ultimately have f1: "Fields h = take 6 h # Fields (drop 6 h)"
    using trim_left_id [OF s] by (subst Fields.simps) simp
  have "trim_left t = t" using g [of b] by (simp add: t' trim_left_id space_width_graph del: space_width.simps)
  then have "trim_left (CHR '' '' # t) = t" by (subst trim_left.simps) (simp add: ascii_space_def)
  moreover have "Fields [] = []" by (subst Fields.simps) simp
  ultimately have "Fields (CHR '' '' # t) = [t]"
    using word_len_graph [OF g] assms(2) by (subst Fields.simps) simp
  then have "Fields h = [''Bearer'', t]" using f1 by (simp add: h_def)
  then show ?thesis using trim by (simp add: bearerToken_def h_def)
qed

lemma seal_graph: "c \<in> set (seal hm key raw) \<Longrightarrow> 32 < byte c \<and> byte c < 128"
  by (auto simp: seal_def Let_def dest: Encode_graph)

lemma seal_not_Nil [simp]: "seal hm key raw \<noteq> []"
  by (simp add: seal_def Let_def)

section \<open>Sessions\<close>

lemma start_session_InrD:
  assumes "start_session pr svc clk rnd req user db = (Inr resp, db')"
  shows "lp_User resp = user \<and>
     IssueToken pr svc (clk 1) rnd user = Inr (lp_AccessToken resp, lp_ExpiresAt resp) \<and>
     (\<exists>s db1. us_CreateSession (as_store svc) (clk 2)
        \<lparr> ses_ID = 0, ses_UserID = user_ID user,
          ses_TokenHash = hashToken pr svc (lp_AccessToken resp),
          ses_IP = lr_IP req, ses_UserAgent = lr_UserAgent req,
          ses_ExpiresAt = lp_ExpiresAt resp, ses_CreatedAt = zero_time, ses_RevokedAt = None \<rparr> db
          = (Inr s, db1) \<and>
        db' = recordLoginLog svc clk (loginLogForUser user ''succeeded'' [] req (clk 3)) db1)"
  using assms by (auto simp: start_session_def split: sum.splits prod.splits)

lemma Login_InrD:
  assumes "Login pr svc clk rnd req db = (Inr resp, db')"
  shows "\<exists>u r db1 u'. ToLower (TrimSpace (lr_Email req)) \<noteq> [] \<and> lr_Password req \<noteq> [] \<and>
     us_FindUserByEmail (as_store svc) (ToLower (TrimSpace (lr_Email req))) db = Inr u \<and>
     VerifyPassword pr (user_PasswordHash u) (lr_Password req) \<and>
     user_Status u = UserStatusActive \<and>
     us_RecordUserLogin (as_store svc) (user_ID u) (clk 0) db = (r, db1) \<and>
     (case r of Inr updated \<Rightarrow> u' = updated | Inl e \<Rightarrow> u' = u) \<and>
     start_session pr svc clk rnd req u' db1 = (Inr resp, db')"
  using assms
  by (auto simp: Login_def Let_def split: if_splits sum.splits prod.splits repo_error.splits)

context user_store
begin

lemma recordLoginLog_keeps:
  assumes "as_store svc = ops" "wf db"
  shows "wf (recordLoginLog svc clk l db) \<and>
     (\<forall>i. us_FindUserByID ops i (recordLoginLog svc clk l db) = us_FindUserByID ops i db) \<and>
     (\<forall>h. us_FindSessionByTokenHash ops h (recordLoginLog svc clk l db) =
          us_FindSessionByTokenHash ops h db)"
  using create_log [OF surjective_pairing assms(2)]
  by (simp add: recordLoginLog_def Let_def assms(1))

lemma login_session:
  assumes svc: "as_store svc = ops" and wf: "wf db"
    and l: "Login pr svc clk rnd req db = (Inr resp, db')"
  shows "wf db' \<and> 0 < user_ID (lp_User resp) \<and> user_Status (lp_User resp) = UserStatusActive \<and>
     us_FindUserByID ops (user_ID (lp_User resp)) db' = Inr (lp_User resp) \<and>
     IssueToken pr svc (clk 1) rnd (lp_User resp) = Inr (lp_AccessToken resp, lp_ExpiresAt resp) \<and>
     (\<exists>s. us_FindSessionByTokenHash ops (hashToken pr svc (lp_AccessToken resp)) db' = Inr s \<and>
        ses_UserID s = user_ID (lp_User resp) \<and> ses_ExpiresAt s = stamp (lp_ExpiresAt resp) \<and>
        ses_RevokedAt s = None)"
proof -
  obtain u r db1 u' where u: "us_FindUserByEmail ops (ToLower (TrimSpace (lr_Email req))) db = Inr u"
    "user_Status u = UserStatusActive"
    "us_RecordUserLogin ops (user_ID u) (clk 0) db = (r, db1)"
    and u': "case r of Inr updated \<Rightarrow> u' = updated | Inl e \<Rightarrow> u' = u"
    and st: "start_session pr svc clk rnd req u' db1 = (Inr resp, db')"
    using Login_InrD [OF l] svc by auto
  have id: "us_FindUserByID ops (user_ID u) db = Inr u" "0 < user_ID u" using by_email [OF wf u(1)] by auto
  have d1: "wf db1" "us_FindUserByID ops (user_ID u) db1 = Inr u'" "user_ID u' = user_ID u"
    "user_Status u' = UserStatusActive"
    using record_login [OF wf id(1) u(3)] u(2) u' by (auto split: sum.splits)
  from start_session_InrD [OF st] svc obtain s db2 where
    c: "us_CreateSession ops (clk 2)
        \<lparr> ses_ID = 0, ses_UserID = user_ID u', ses_TokenHash = hashToken pr svc (lp_AccessToken resp),
          ses_IP = lr_IP req, ses_UserAgent = lr_UserAgent req, ses_ExpiresAt = lp_ExpiresAt resp,
          ses_CreatedAt = zero_time, ses_RevokedAt = None \<rparr> db1 = (Inr s, db2)"
    and db': "db' = recordLoginLog svc clk (loginLogForUser u' ''succeeded'' [] req (clk 3)) db2"
    and r: "lp_User resp = u'"
      "IssueToken pr svc (clk 1) rnd u' = Inr (lp_AccessToken resp, lp_ExpiresAt resp)"
    by auto
  show ?thesis
    using create_session [OF c d1(1)] recordLoginLog_keeps [OF svc, of db2] d1 id(2) r
    by (simp add: db')
qed

lemma login_authenticates:
  assumes svc: "as_store svc = ops" and wf: "wf db"
    and l: "Login pr svc clk rnd req db = (Inr resp, db')"
    and rt: "\<And>raw. ap_marshal pr (token_claims svc (clk 1) rnd (lp_User resp)) = Some raw \<Longrightarrow>
          ap_unmarshal pr raw = Some (token_claims svc (clk 1) rnd (lp_User resp))"
    and t: "0 < Unix (lp_ExpiresAt resp)" "Unix (clk' 1) \<le> Unix (lp_ExpiresAt resp)"
      "clk' 2 < stamp (lp_ExpiresAt resp)"
  shows "\<exists>sess. authenticateSessionToken pr svc clk' (lp_AccessToken resp) db' = Inr sess \<and>
     asn_User sess = lp_User resp \<and> asn_ExpiresAt sess = stamp (lp_ExpiresAt resp) \<and>
     asn_ActorType sess = ''user''"
proof -
  note s = login_session [OF svc wf l]
  obtain c where "ParseToken pr svc (clk' 1) (lp_AccessToken resp) = Inr c"
    "clm_UserID c = user_ID (lp_User resp)"
    using IssueToken_parse [of pr svc "clk 1" rnd "lp_User resp" "lp_AccessToken resp"
        "lp_ExpiresAt resp" "clk' 1", OF _ rt] s t by blast
  then show ?thesis using s t svc by (auto simp: authenticateSessionToken_def)
qed

lemma logout_rejects:
  assumes svc: "as_store svc = ops" and "Logout pr svc clk token db = (e, db')"
    and "TrimSpace token = token" "ParseToken pr svc (clk 1) token = Inr c"
    and "us_FindSessionByTokenHash ops (hashToken pr svc token) db = Inr s" and "token \<noteq> []"
    and "storable (clk 2)"
  shows "e = None \<and> (\<exists>err. authenticateSessionToken pr svc clk' token db' = Inl err)"
proof -
  obtain r db1 where r: "us_RevokeSession ops (hashToken pr svc token) (clk 2) db = (r, db1)"
    by fastforce
  obtain s' where "r = Inr s' \<or> r = Inl ErrNotFound" "ses_RevokedAt s' \<noteq> None"
    "us_FindSessionByTokenHash ops (hashToken pr svc token) db1 = Inr s'"
    using revoke_session [OF assms(5,7) r] by blast
  then show ?thesis using assms r
    by (auto simp: Logout_def authenticateSessionToken_def split: sum.splits)
qed

end

end
