(* ===== verification/Access_Evaluator.thy ===== *)
theory Access_Evaluator
  imports Go_Prelude "HOL-Library.Product_Lexorder"
begin

text \<open>
  The access-rule evaluator (\<^verbatim>\<open>api/internal/access/evaluator.go\<close>): who may connect to which
  device. A deny rule beats every allow rule; among rules of the same effect the more
  specific one, then the one with the higher priority, then the earlier one is reported.
\<close>

section \<open>Data\<close>

record AccessUser =
  acu_ID :: int
  acu_Status :: string
  acu_GroupIDs :: "int list"

record AccessDevice =
  acd_ID :: int
  acd_Status :: string
  acd_GroupIDs :: "int list"

record Rule =
  rule_ID :: int
  rule_SubjectType :: string
  rule_SubjectID :: int
  rule_TargetType :: string
  rule_TargetID :: int
  rule_Effect :: string
  rule_Priority :: int
  rule_Enabled :: bool

record Decision =
  dec_Allowed :: bool
  dec_Reason :: string
  dec_MatchedRule :: "Rule option"

section \<open>Evaluation\<close>

fun contains_id :: "int list \<Rightarrow> int \<Rightarrow> bool" where
  "contains_id [] want = False"
| "contains_id (v # vs) want = (v = want \<or> contains_id vs want)"

definition ruleMatches :: "Rule \<Rightarrow> AccessUser \<Rightarrow> AccessDevice \<Rightarrow> bool" where
  "ruleMatches rule user target =
     (let subject =
            (if rule_SubjectType rule = ''user'' then rule_SubjectID rule = acu_ID user
             else if rule_SubjectType rule = ''user_group''
             then contains_id (acu_GroupIDs user) (rule_SubjectID rule)
             else False);
          targetMatch =
            (if rule_TargetType rule = ''device'' then rule_TargetID rule = acd_ID target
             else if rule_TargetType rule = ''device_group''
             then contains_id (acd_GroupIDs target) (rule_TargetID rule)
             else False)
      in subject \<and> targetMatch)"

definition rank :: "Rule \<Rightarrow> int" where
  "rank rule =
     (let k = rule_SubjectType rule @ '':'' @ rule_TargetType rule
      in if k = ''user:device'' then 4
         else if k = ''user_group:device'' then 3
         else if k = ''user:device_group'' then 2
         else if k = ''user_group:device_group'' then 1
         else 0)"

definition rule_less :: "Rule \<Rightarrow> Rule \<Rightarrow> bool" where
  "rule_less a b =
     (if rule_Effect a \<noteq> rule_Effect b then rule_Effect a = ''deny''
      else if rank a \<noteq> rank b then rank a > rank b
      else rule_Priority a > rule_Priority b)"

text \<open>
  \<^verbatim>\<open>sort.SliceStable\<close> sorts blocks of 20 elements by insertion, moving an element to the left
  while it is less than its neighbour, and merges blocks stably; \<open>insert_left\<close> is the inner
  loop on the reversed prefix. For an order like \<open>rule_less\<close> on allow and deny rules every
  stable sort gives this result.
\<close>

fun insert_left :: "('a \<Rightarrow> 'a \<Rightarrow> bool) \<Rightarrow> 'a \<Rightarrow> 'a list \<Rightarrow> 'a list" where
  "insert_left lt x [] = [x]"
| "insert_left lt x (y # ys) = (if lt x y then y # insert_left lt x ys else x # y # ys)"

definition SliceStable :: "('a \<Rightarrow> 'a \<Rightarrow> bool) \<Rightarrow> 'a list \<Rightarrow> 'a list" where
  "SliceStable lt xs = rev (foldl (\<lambda>acc x. insert_left lt x acc) [] xs)"

definition Evaluate :: "Rule list \<Rightarrow> AccessUser \<Rightarrow> AccessDevice \<Rightarrow> Decision" where
  "Evaluate rules user target =
     (if acu_Status user = ''disabled'' \<or> acu_Status user = ''locked''
      then \<lparr> dec_Allowed = False, dec_Reason = ''user_not_active'', dec_MatchedRule = None \<rparr>
      else if acd_Status target = ''disabled''
      then \<lparr> dec_Allowed = False, dec_Reason = ''target_device_disabled'', dec_MatchedRule = None \<rparr>
      else
        let matches = filter (\<lambda>r. rule_Enabled r \<and> ruleMatches r user target) rules
        in if matches = []
           then \<lparr> dec_Allowed = False, dec_Reason = ''default_deny'', dec_MatchedRule = None \<rparr>
           else let rule = hd (SliceStable rule_less matches)
                in if rule_Effect rule = ''allow''
                   then \<lparr> dec_Allowed = True, dec_Reason = ''matched_allow_rule'',
                          dec_MatchedRule = Some rule \<rparr>
                   else \<lparr> dec_Allowed = False, dec_Reason = ''matched_deny_rule'',
                          dec_MatchedRule = Some rule \<rparr>)"

section \<open>The first element of a stable sort\<close>

definition weak_order_on :: "'a set \<Rightarrow> ('a \<Rightarrow> 'a \<Rightarrow> bool) \<Rightarrow> bool" where
  "weak_order_on A lt \<longleftrightarrow>
     (\<forall>x \<in> A. \<not> lt x x) \<and>
     (\<forall>x \<in> A. \<forall>y \<in> A. \<forall>z \<in> A. lt x y \<longrightarrow> lt y z \<longrightarrow> lt x z) \<and>
     (\<forall>x \<in> A. \<forall>y \<in> A. \<forall>z \<in> A. lt x z \<longrightarrow> lt x y \<or> lt y z)"

lemma insert_left_not_Nil [simp]: "insert_left lt x ys \<noteq> []"
  by (cases ys) auto

lemma set_insert_left [simp]: "set (insert_left lt x ys) = insert x (set ys)"
  by (induction ys) auto

lemma sorted_insert_left:
  assumes "weak_order_on A lt" "set ys \<subseteq> A" "x \<in> A" "sorted_wrt (\<lambda>a b. \<not> lt a b) ys"
  shows "sorted_wrt (\<lambda>a b. \<not> lt a b) (insert_left lt x ys)"
  using assms(2,4)
proof (induction ys)
  case (Cons y ys)
  have tr: "\<not> lt y x" if "lt x y"
    using assms(1,3) Cons.prems that unfolding weak_order_on_def by (metis list.set_intros(1) subsetD)
  have "\<not> lt x z" if "\<not> lt x y" "z \<in> set ys" for z
    using assms(1,3) Cons.prems that unfolding weak_order_on_def
    by (metis list.set_intros(1,2) sorted_wrt.simps(2) subsetD)
  then show ?case using Cons tr by auto
qed simp

lemma last_insert_left:
  assumes "weak_order_on A lt" "set ys \<subseteq> A" "x \<in> A" "sorted_wrt (\<lambda>a b. \<not> lt a b) ys" "ys \<noteq> []"
  shows "last (insert_left lt x ys) = (if lt x (last ys) then x else last ys)"
  using assms(2,4,5)
proof (induction ys)
  case (Cons y ys)
  show ?case
  proof (cases "ys = []")
    case False
    have "\<not> lt y (last ys)" "last ys \<in> A" using Cons.prems False by auto
    then have "lt x (last ys) \<longrightarrow> lt x y"
      using assms(1,3) Cons.prems unfolding weak_order_on_def by (metis list.set_intros(1) subsetD)
    then show ?thesis using Cons False by auto
  qed simp
qed simp

text \<open>
  The first element of the sorted slice: no later element is less, and it is less than every
  earlier one.
\<close>

lemma SliceStable_hd:
  assumes "weak_order_on (set xs) lt" "xs \<noteq> []"
  shows "\<exists>ys zs. xs = ys @ hd (SliceStable lt xs) # zs \<and>
           (\<forall>y \<in> set ys. lt (hd (SliceStable lt xs)) y) \<and>
           (\<forall>z \<in> set zs. \<not> lt z (hd (SliceStable lt xs)))"
proof -
  define f where "f = foldl (\<lambda>acc x. insert_left lt x acc) []"
  have "set (f us) = set us \<and> sorted_wrt (\<lambda>a b. \<not> lt a b) (f us) \<and>
    (us \<noteq> [] \<longrightarrow> f us \<noteq> [] \<and> (\<exists>ys zs. us = ys @ last (f us) # zs \<and> (\<forall>y \<in> set ys. lt (last (f us)) y) \<and>
       (\<forall>z \<in> set zs. \<not> lt z (last (f us)))))" if "set us \<subseteq> set xs" for us
    using that
  proof (induction us rule: rev_induct)
    case (snoc x us)
    let ?b = "last (f us)"
    have fx: "f (us @ [x]) = insert_left lt x (f us)" by (simp add: f_def)
    have IH: "set (f us) = set us" "sorted_wrt (\<lambda>a b. \<not> lt a b) (f us)" using snoc by auto
    have srt: "sorted_wrt (\<lambda>a b. \<not> lt a b) (f (us @ [x]))"
      unfolding fx by (rule sorted_insert_left [OF assms(1)]) (use IH snoc.prems in auto)
    show ?case
    proof (cases "us = []")
      case True
      then show ?thesis by (auto simp: f_def intro: exI [of _ "[]"])
    next
      case False
      then obtain ys zs where us: "us = ys @ ?b # zs" and y: "\<forall>y \<in> set ys. lt ?b y"
        and z: "\<forall>z \<in> set zs. \<not> lt z ?b" and ne: "f us \<noteq> []" using snoc by auto
      have l: "last (f (us @ [x])) = (if lt x ?b then x else ?b)"
        unfolding fx by (rule last_insert_left [OF assms(1)]) (use IH snoc.prems ne in auto)
      show ?thesis
      proof (cases "lt x ?b")
        case True
        have b: "?b \<in> set us" by (subst us) simp
        have "lt x y" if "y \<in> set us" for y
        proof -
          have "y \<in> set ys \<or> y = ?b \<or> y \<in> set zs" using that by (subst (asm) us) auto
          moreover have "y \<in> set xs" "?b \<in> set xs" "x \<in> set xs" using that b snoc.prems by auto
          ultimately show ?thesis
            using True y z assms(1) unfolding weak_order_on_def by blast
        qed
        then have "us @ [x] = us @ x # [] \<and> (\<forall>y \<in> set us. lt x y) \<and> (\<forall>z \<in> set []. \<not> lt z x)"
          by simp
        moreover have "last (f (us @ [x])) = x" using l True by simp
        moreover have "set (f (us @ [x])) = set (us @ [x]) \<and> f (us @ [x]) \<noteq> []"
          using IH fx by simp
        ultimately show ?thesis using srt by metis
      next
        case False
        have "us @ [x] = ys @ ?b # (zs @ [x])" by (subst us) simp
        moreover have "\<forall>w \<in> set (zs @ [x]). \<not> lt w ?b" using z False by auto
        moreover have "set (f (us @ [x])) = set (us @ [x]) \<and> f (us @ [x]) \<noteq> []"
          using IH fx by simp
        moreover have "last (f (us @ [x])) = ?b" using l False by simp
        ultimately show ?thesis using y srt by metis
      qed
    qed
  qed (simp add: f_def)
  from this [of xs] assms(2) have "f xs \<noteq> []" "\<exists>ys zs. xs = ys @ last (f xs) # zs \<and>
      (\<forall>y \<in> set ys. lt (last (f xs)) y) \<and> (\<forall>z \<in> set zs. \<not> lt z (last (f xs)))" by auto
  moreover have "hd (SliceStable lt xs) = last (f xs)"
    using calculation(1) by (simp add: SliceStable_def f_def hd_rev)
  ultimately show ?thesis by simp
qed

section \<open>Rules\<close>

lemma contains_id_iff [simp]: "contains_id vs w \<longleftrightarrow> w \<in> set vs"
  by (induction vs) auto

definition allow_deny :: "Rule \<Rightarrow> bool" where
  "allow_deny r \<longleftrightarrow> rule_Effect r = ''allow'' \<or> rule_Effect r = ''deny''"

lemma rule_less_iff:
  "allow_deny a \<Longrightarrow> allow_deny b \<Longrightarrow>
     rule_less a b \<longleftrightarrow> rule_Effect a = ''deny'' \<and> rule_Effect b = ''allow'' \<or>
       rule_Effect a = rule_Effect b \<and>
         (rank b < rank a \<or> rank a = rank b \<and> rule_Priority b < rule_Priority a)"
  unfolding allow_deny_def by (elim disjE) (auto simp: rule_less_def)

definition rule_key :: "Rule \<Rightarrow> int \<times> int \<times> int" where
  "rule_key r = (if rule_Effect r = ''deny'' then 0 else 1, - rank r, - rule_Priority r)"

text \<open>On allow and deny rules the comparison is the lexicographic order of a key.\<close>

lemma rule_less_key: "allow_deny a \<Longrightarrow> allow_deny b \<Longrightarrow> rule_less a b \<longleftrightarrow> rule_key a < rule_key b"
  unfolding allow_deny_def
  by (elim disjE) (auto simp: rule_less_def rule_key_def less_prod_def less_eq_prod_def)

lemma rule_less_weak_order:
  assumes "\<forall>r \<in> A. allow_deny r"
  shows "weak_order_on A rule_less"
proof -
  have k: "rule_less x y \<longleftrightarrow> rule_key x < rule_key y" if "x \<in> A" "y \<in> A" for x y
    using assms that by (simp add: rule_less_key)
  have tri: "p < q \<or> q < r" if "p < r" for p q r :: "int \<times> int \<times> int"
    using that by (metis less_trans not_less_iff_gr_or_eq)
  show ?thesis
    unfolding weak_order_on_def
    by (intro conjI ballI impI) (simp add: k, simp add: k, simp add: k tri)
qed

definition applicable :: "Rule list \<Rightarrow> AccessUser \<Rightarrow> AccessDevice \<Rightarrow> Rule list" where
  "applicable rules user target = filter (\<lambda>r. rule_Enabled r \<and> ruleMatches r user target) rules"

lemma applicable_hd:
  assumes "\<forall>r \<in> set rules. allow_deny r" "applicable rules user target \<noteq> []"
  shows "\<exists>ys zs. applicable rules user target =
             ys @ hd (SliceStable rule_less (applicable rules user target)) # zs \<and>
           (\<forall>y \<in> set ys. rule_less (hd (SliceStable rule_less (applicable rules user target))) y) \<and>
           (\<forall>z \<in> set zs. \<not> rule_less z (hd (SliceStable rule_less (applicable rules user target))))"
  by (rule SliceStable_hd [OF rule_less_weak_order assms(2)]) (use assms(1) in \<open>auto simp: applicable_def\<close>)

lemma Evaluate_applicable:
  "Evaluate rules user target =
     (if acu_Status user = ''disabled'' \<or> acu_Status user = ''locked''
      then \<lparr> dec_Allowed = False, dec_Reason = ''user_not_active'', dec_MatchedRule = None \<rparr>
      else if acd_Status target = ''disabled''
      then \<lparr> dec_Allowed = False, dec_Reason = ''target_device_disabled'', dec_MatchedRule = None \<rparr>
      else if applicable rules user target = []
      then \<lparr> dec_Allowed = False, dec_Reason = ''default_deny'', dec_MatchedRule = None \<rparr>
      else let r = hd (SliceStable rule_less (applicable rules user target))
           in \<lparr> dec_Allowed = (rule_Effect r = ''allow''),
                dec_Reason = (if rule_Effect r = ''allow'' then ''matched_allow_rule'' else ''matched_deny_rule''),
                dec_MatchedRule = Some r \<rparr>)"
  by (simp add: Evaluate_def applicable_def Let_def)

lemma Evaluate_deny_overrides:
  assumes "\<forall>r \<in> set rules. allow_deny r"
  shows "dec_Allowed (Evaluate rules user target) \<longleftrightarrow>
     acu_Status user \<notin> {''disabled'', ''locked''} \<and> acd_Status target \<noteq> ''disabled'' \<and>
     (\<exists>r \<in> set rules. rule_Enabled r \<and> ruleMatches r user target \<and> rule_Effect r = ''allow'') \<and>
     \<not> (\<exists>r \<in> set rules. rule_Enabled r \<and> ruleMatches r user target \<and> rule_Effect r = ''deny'')"
proof (cases "applicable rules user target = []")
  case True
  then show ?thesis by (auto simp: Evaluate_applicable) (auto simp: applicable_def filter_empty_conv)
next
  case False
  define b where "b = hd (SliceStable rule_less (applicable rules user target))"
  obtain ys zs where yz: "applicable rules user target = ys @ b # zs"
    "\<forall>y \<in> set ys. rule_less b y" "\<forall>z \<in> set zs. \<not> rule_less z b"
    using applicable_hd [OF assms False] unfolding b_def by blast
  have ap: "set (applicable rules user target) =
      {r \<in> set rules. rule_Enabled r \<and> ruleMatches r user target}" by (simp add: applicable_def)
  have b: "b \<in> set (applicable rules user target)" using yz(1) by simp
  have "rule_Effect r = ''allow''" if "rule_Effect b = ''allow''" "r \<in> set (applicable rules user target)" for r
    using that yz(2,3) assms ap unfolding yz(1)
    by (auto simp: rule_less_def allow_deny_def split: if_splits)
  moreover have "rule_Effect b = ''allow'' \<or> rule_Effect b = ''deny''"
    using b ap assms by (auto simp: allow_deny_def)
  ultimately have "(rule_Effect b = ''allow'') =
      ((\<exists>r \<in> set (applicable rules user target). rule_Effect r = ''allow'') \<and>
       \<not> (\<exists>r \<in> set (applicable rules user target). rule_Effect r = ''deny''))"
    using b by force
  then show ?thesis using False by (auto simp: Evaluate_applicable Let_def b_def [symmetric] ap)
qed

section \<open>Properties\<close>

text \<open>
  C11. Deny overrides, and nothing is allowed by default: with allow and deny rules only, a
  connection is allowed exactly when the user is neither disabled nor locked, the device is
  not disabled, some enabled rule for the pair allows it and no enabled rule for the pair
  denies it, whatever the ranks and priorities.
\<close>

theorem access_deny_overrides:
  assumes "\<forall>r \<in> set rules. allow_deny r"
  shows "dec_Allowed (Evaluate rules user target) \<longleftrightarrow>
     acu_Status user \<notin> {''disabled'', ''locked''} \<and> acd_Status target \<noteq> ''disabled'' \<and>
     (\<exists>r \<in> set rules. rule_Enabled r \<and> ruleMatches r user target \<and> rule_Effect r = ''allow'') \<and>
     \<not> (\<exists>r \<in> set rules. rule_Enabled r \<and> ruleMatches r user target \<and> rule_Effect r = ''deny'')"
  by (rule Evaluate_deny_overrides [OF assms])

definition wit_rule :: "int \<Rightarrow> string \<Rightarrow> int \<Rightarrow> Rule" where
  "wit_rule i e p = \<lparr> rule_ID = i, rule_SubjectType = ''user'', rule_SubjectID = 7,
     rule_TargetType = ''device'', rule_TargetID = 9, rule_Effect = e, rule_Priority = p,
     rule_Enabled = True \<rparr>"

definition wit_acu :: AccessUser where
  "wit_acu = \<lparr> acu_ID = 7, acu_Status = ''active'', acu_GroupIDs = [] \<rparr>"

definition wit_acd :: AccessDevice where
  "wit_acd = \<lparr> acd_ID = 9, acd_Status = ''online'', acd_GroupIDs = [] \<rparr>"

theorem access_deny_overrides_witness:
  "\<not> dec_Allowed (Evaluate [wit_rule 1 ''allow'' 100, wit_rule 2 ''deny'' 0] wit_acu wit_acd) \<and>
   dec_Allowed (Evaluate [wit_rule 1 ''allow'' 100] wit_acu wit_acd)"
  using access_deny_overrides [of "[wit_rule 1 ''allow'' 100, wit_rule 2 ''deny'' 0]" wit_acu wit_acd]
    access_deny_overrides [of "[wit_rule 1 ''allow'' 100]" wit_acu wit_acd]
  by (simp add: allow_deny_def wit_rule_def ruleMatches_def wit_acu_def wit_acd_def)

text \<open>
  C25. The reported rule is the strongest one: the matched rule applies to the pair, an allow
  rule is reported only when every applicable rule allows, and among the applicable rules of
  its effect it has the highest rank, then the highest priority, and is the first such rule.
\<close>

theorem access_matched_rule:
  assumes "\<forall>r \<in> set rules. allow_deny r"
    and "dec_MatchedRule (Evaluate rules user target) = Some b"
  shows "dec_Allowed (Evaluate rules user target) = (rule_Effect b = ''allow'') \<and>
     (\<exists>ys zs. filter (\<lambda>r. rule_Enabled r \<and> ruleMatches r user target) rules = ys @ b # zs \<and>
        (\<forall>r \<in> set (ys @ zs). rule_Effect r = rule_Effect b \<or> rule_Effect b = ''deny'') \<and>
        (\<forall>r \<in> set ys. rule_Effect r = rule_Effect b \<longrightarrow>
           rank r < rank b \<or> rank r = rank b \<and> rule_Priority r < rule_Priority b) \<and>
        (\<forall>r \<in> set zs. rule_Effect r = rule_Effect b \<longrightarrow>
           rank r < rank b \<or> rank r = rank b \<and> rule_Priority r \<le> rule_Priority b))"
proof -
  have ne: "applicable rules user target \<noteq> []"
    and b: "b = hd (SliceStable rule_less (applicable rules user target))"
    and al: "dec_Allowed (Evaluate rules user target) = (rule_Effect b = ''allow'')"
    using assms(2) by (auto simp: Evaluate_applicable Let_def split: if_splits)
  obtain ys zs where yz: "applicable rules user target = ys @ b # zs"
    "\<forall>y \<in> set ys. rule_less b y" "\<forall>z \<in> set zs. \<not> rule_less z b"
    using applicable_hd [OF assms(1) ne] unfolding b by blast
  have ad: "allow_deny r" if "r \<in> set ys \<union> set zs \<union> {b}" for r
  proof -
    have "r \<in> set (applicable rules user target)" using that yz(1) by auto
    then show ?thesis using assms(1) by (auto simp: applicable_def)
  qed
  have lt: "rule_Effect r = rule_Effect b \<or> rule_Effect b = ''deny''"
    "rule_Effect r = rule_Effect b \<longrightarrow> rank r < rank b \<or> rank r = rank b \<and> rule_Priority r < rule_Priority b"
    if "r \<in> set ys" for r
  proof -
    have "rule_less b r" "allow_deny r" "allow_deny b" using yz(2) that ad by auto
    then show "rule_Effect r = rule_Effect b \<or> rule_Effect b = ''deny''"
      "rule_Effect r = rule_Effect b \<longrightarrow> rank r < rank b \<or> rank r = rank b \<and> rule_Priority r < rule_Priority b"
      by (auto simp: rule_less_iff)
  qed
  have le: "rule_Effect r = rule_Effect b \<or> rule_Effect b = ''deny''"
    "rule_Effect r = rule_Effect b \<longrightarrow> rank r < rank b \<or> rank r = rank b \<and> rule_Priority r \<le> rule_Priority b"
    if "r \<in> set zs" for r
  proof -
    have "\<not> rule_less r b" "allow_deny r" "allow_deny b" using yz(3) that ad by auto
    then show "rule_Effect r = rule_Effect b \<or> rule_Effect b = ''deny''"
      "rule_Effect r = rule_Effect b \<longrightarrow> rank r < rank b \<or> rank r = rank b \<and> rule_Priority r \<le> rule_Priority b"
      by (auto simp: rule_less_iff) (auto simp: allow_deny_def)
  qed
  show ?thesis
    by (intro conjI exI [of _ ys] exI [of _ zs])
       (use al yz(1) lt le in \<open>auto simp: applicable_def\<close>)
qed

theorem access_matched_rule_witness:
  "dec_MatchedRule (Evaluate [wit_rule 1 ''allow'' 5, wit_rule 2 ''allow'' 8, wit_rule 3 ''allow'' 8]
     wit_acu wit_acd) = Some (wit_rule 2 ''allow'' 8) \<and>
   dec_Allowed (Evaluate [wit_rule 1 ''allow'' 5, wit_rule 2 ''allow'' 8, wit_rule 3 ''allow'' 8] wit_acu wit_acd)"
proof -
  have m: "dec_MatchedRule (Evaluate [wit_rule 1 ''allow'' 5, wit_rule 2 ''allow'' 8, wit_rule 3 ''allow'' 8]
     wit_acu wit_acd) = Some (wit_rule 2 ''allow'' 8)" by code_simp
  then show ?thesis
    using access_matched_rule [OF _ m] by (simp add: allow_deny_def wit_rule_def)
qed

end
