(* ===== verification/Control_Role.thy ===== *)
theory Control_Role
  imports Go_Prelude
begin

text \<open>
  Control roles (\<^verbatim>\<open>api/internal/controlrole/evaluator.go\<close>): the permissions a session gets
  from the roles of a user. A Go map of permissions is a list of pairs with distinct keys, in
  the order the loop happens to visit them; the result is a map.
\<close>

type_synonym Mode = string

abbreviation UseClientSettings :: Mode where "UseClientSettings \<equiv> ''use_client_settings''"
abbreviation Enable :: Mode where "Enable \<equiv> ''enable''"
abbreviation Disable :: Mode where "Disable \<equiv> ''disable''"

definition PermissionKeys :: "string list" where
  "PermissionKeys =
     [''keyboard_mouse'', ''remote_printer'', ''clipboard'', ''file_transfer'', ''audio'',
      ''camera'', ''terminal'', ''tcp_tunnel'', ''remote_restart'', ''recording_session'',
      ''block_user_input'', ''remote_config_modification'']"

record Role =
  role_Name :: string
  role_Enabled :: bool
  role_Permissions :: "(string \<times> Mode) list"

fun isKnown_loop :: "string list \<Rightarrow> string \<Rightarrow> bool" where
  "isKnown_loop [] key = False"
| "isKnown_loop (known # rest) key = (known = key \<or> isKnown_loop rest key)"

definition isKnown :: "string \<Rightarrow> bool" where
  "isKnown key = isKnown_loop PermissionKeys key"

definition DefaultPermissions :: "string \<rightharpoonup> Mode" where
  "DefaultPermissions =
     (foldl (\<lambda>out key. out(key \<mapsto> UseClientSettings)) Map.empty PermissionKeys)
       (''terminal'' \<mapsto> Disable, ''tcp_tunnel'' \<mapsto> Disable, ''remote_config_modification'' \<mapsto> Disable)"

definition apply_permission :: "(string \<rightharpoonup> Mode) \<Rightarrow> string \<times> Mode \<Rightarrow> (string \<rightharpoonup> Mode)" where
  "apply_permission out p = (if isKnown (fst p) then out(fst p \<mapsto> snd p) else out)"

definition apply_role :: "(string \<rightharpoonup> Mode) \<Rightarrow> Role \<Rightarrow> (string \<rightharpoonup> Mode)" where
  "apply_role out role =
     (if \<not> role_Enabled role then out else foldl apply_permission out (role_Permissions role))"

definition EvaluateRoles :: "Role list \<Rightarrow> (string \<rightharpoonup> Mode)" where
  "EvaluateRoles roles = foldl apply_role DefaultPermissions roles"

section \<open>Facts\<close>

lemma isKnown_iff [simp]: "isKnown key \<longleftrightarrow> key \<in> set PermissionKeys"
proof -
  have "isKnown_loop ks key \<longleftrightarrow> key \<in> set ks" for ks by (induction ks) auto
  then show ?thesis by (simp add: isKnown_def)
qed

lemma foldl_const_upd:
  "foldl (\<lambda>out key. out(key \<mapsto> v)) m ks k = (if k \<in> set ks then Some v else m k)"
  by (induction ks arbitrary: m) auto

lemma DefaultPermissions_apply:
  "DefaultPermissions k =
     (if k \<notin> set PermissionKeys then None
      else if k \<in> {''terminal'', ''tcp_tunnel'', ''remote_config_modification''} then Some Disable
      else Some UseClientSettings)"
  by (simp add: DefaultPermissions_def foldl_const_upd PermissionKeys_def)

text \<open>What one role says about a permission.\<close>

definition role_mode :: "Role \<Rightarrow> string \<Rightarrow> Mode option" where
  "role_mode role k = (if role_Enabled role then map_of (role_Permissions role) k else None)"

lemma apply_role_apply:
  assumes "distinct (map fst (role_Permissions role))"
  shows "apply_role out role k =
           (if k \<in> set PermissionKeys \<and> role_mode role k \<noteq> None then role_mode role k else out k)"
proof -
  have l: "foldl apply_permission out ps k =
      (if k \<in> set PermissionKeys \<and> map_of ps k \<noteq> None then map_of ps k else out k)"
    if "distinct (map fst ps)" for ps :: "(string \<times> Mode) list" and out
    using that
  proof (induction ps arbitrary: out)
    case (Cons p ps)
    have "map_of ps (fst p) = None" using Cons.prems by (simp add: map_of_eq_None_iff)
    with Cons show ?case by (cases p) (auto simp: apply_permission_def)
  qed simp
  show ?thesis
    by (cases "role_Enabled role") (simp_all only: apply_role_def role_mode_def l [OF assms] not_True_eq_False
        not_False_eq_True if_True if_False simp_thms)
qed

section \<open>Properties\<close>

text \<open>
  C27. The evaluated permissions cover exactly the known keys; each has the mode that the
  last enabled role naming it gives it, and the default when no enabled role names it. The
  order in which Go visits the map of a role does not matter.
\<close>

theorem evaluate_roles_last_wins:
  assumes "\<forall>role \<in> set roles. distinct (map fst (role_Permissions role))"
  shows "dom (EvaluateRoles roles) = set PermissionKeys \<and>
     (\<forall>k \<in> set PermissionKeys. EvaluateRoles roles k =
        (case find (\<lambda>role. role_mode role k \<noteq> None) (rev roles) of
           Some role \<Rightarrow> role_mode role k
         | None \<Rightarrow> DefaultPermissions k))"
proof -
  have "EvaluateRoles roles k =
      (if k \<notin> set PermissionKeys then None
       else case find (\<lambda>role. role_mode role k \<noteq> None) (rev roles) of
           Some role \<Rightarrow> role_mode role k
         | None \<Rightarrow> DefaultPermissions k)" for k
    using assms
  proof (induction roles rule: rev_induct)
    case (snoc role roles)
    then show ?case by (simp add: EvaluateRoles_def apply_role_apply)
  qed (simp add: EvaluateRoles_def DefaultPermissions_apply)
  moreover have "(case find (\<lambda>role. role_mode role k \<noteq> None) (rev roles) of
           Some role \<Rightarrow> role_mode role k | None \<Rightarrow> DefaultPermissions k) \<noteq> None"
    if "k \<in> set PermissionKeys" for k
    using that by (auto simp: DefaultPermissions_apply split: option.split dest: find_SomeD)
  ultimately show ?thesis by (auto simp: dom_def split: if_splits)
qed

definition wit_role :: "bool \<Rightarrow> Mode \<Rightarrow> Role" where
  "wit_role e m = \<lparr> role_Name = ''r'', role_Enabled = e, role_Permissions = [(''audio'', m), (''x'', m)] \<rparr>"

theorem evaluate_roles_last_wins_witness:
  "EvaluateRoles [wit_role True Enable, wit_role True Disable, wit_role False Enable] ''audio'' = Some Disable"
  using evaluate_roles_last_wins [of "[wit_role True Enable, wit_role True Disable, wit_role False Enable]"]
  by (simp add: wit_role_def role_mode_def PermissionKeys_def)

text \<open>
  Sensitive permissions are off unless a role turns them on: terminal, tunnel and remote
  configuration are disabled for every list of roles in which no enabled role names them.
\<close>

lemma sensitive_disabled_by_default:
  assumes "k \<in> {''terminal'', ''tcp_tunnel'', ''remote_config_modification''}"
    and "\<forall>role \<in> set roles. distinct (map fst (role_Permissions role)) \<and> role_mode role k = None"
  shows "EvaluateRoles roles k = Some Disable"
proof -
  have "EvaluateRoles roles k = DefaultPermissions k" using assms(2)
    by (induction roles rule: rev_induct) (simp_all add: EvaluateRoles_def apply_role_apply)
  then show ?thesis using assms(1) by (auto simp: DefaultPermissions_apply PermissionKeys_def)
qed

lemma sensitive_disabled_by_default_witness:
  "EvaluateRoles [wit_role True Enable] ''terminal'' = Some Disable"
  by (rule sensitive_disabled_by_default) (simp_all add: wit_role_def role_mode_def)

end
