(* ===== verification/Strategy_Resolver.thy ===== *)
theory Strategy_Resolver
  imports Go_Prelude
begin

text \<open>
  Strategies (\<^verbatim>\<open>api/internal/strategy/resolver.go\<close>): the client settings of a device, merged
  from the default strategy and from the strategies assigned to its groups, to its user and
  to the device itself, the later ones over the earlier ones.
\<close>

type_synonym TargetType = string

abbreviation TargetDefault :: TargetType where "TargetDefault \<equiv> ''default''"
abbreviation TargetDevice :: TargetType where "TargetDevice \<equiv> ''device''"
abbreviation TargetUser :: TargetType where "TargetUser \<equiv> ''user''"
abbreviation TargetDeviceGroup :: TargetType where "TargetDeviceGroup \<equiv> ''device_group''"

record RStrategy =
  rs_ID :: int
  rs_Name :: string
  rs_Enabled :: bool
  rs_Settings :: "string \<rightharpoonup> string"

record Assignment =
  asg_StrategyID :: int
  asg_TargetType :: TargetType
  asg_TargetID :: int

record ResolveContext =
  ctx_DeviceID :: int
  ctx_UserID :: "int option"
  ctx_DeviceGroupIDs :: "int list"

record Result =
  res_Settings :: "string \<rightharpoonup> string"
  res_AppliedStrategy :: "int list"

record Resolver =
  rv_Strategies :: "RStrategy list"
  rv_Assignments :: "Assignment list"
  rv_Default :: RStrategy

definition merge :: "(string \<rightharpoonup> string) \<Rightarrow> (string \<rightharpoonup> string) \<Rightarrow> (string \<rightharpoonup> string)" where
  "merge dst src = dst ++ src"

definition assignmentMatches :: "Assignment \<Rightarrow> ResolveContext \<Rightarrow> bool" where
  "assignmentMatches a ctx =
     (if asg_TargetType a = TargetDevice then asg_TargetID a = ctx_DeviceID ctx
      else if asg_TargetType a = TargetUser
      then (case ctx_UserID ctx of None \<Rightarrow> False | Some u \<Rightarrow> asg_TargetID a = u)
      else if asg_TargetType a = TargetDeviceGroup
      then list_ex (\<lambda>i. asg_TargetID a = i) (ctx_DeviceGroupIDs ctx)
      else False)"

definition find_strategy :: "Resolver \<Rightarrow> int \<Rightarrow> RStrategy option" where
  "find_strategy r i = find (\<lambda>s. rs_ID s = i) (rv_Strategies r)"

definition resolve_step ::
    "Resolver \<Rightarrow> ResolveContext \<Rightarrow> TargetType \<Rightarrow> Result \<Rightarrow> Assignment \<Rightarrow> Result" where
  "resolve_step r ctx target acc a =
     (if asg_TargetType a = target \<and> assignmentMatches a ctx
      then (case find_strategy r (asg_StrategyID a) of
          None \<Rightarrow> acc
        | Some s \<Rightarrow>
            if rs_Enabled s
            then \<lparr> res_Settings = merge (res_Settings acc) (rs_Settings s),
                   res_AppliedStrategy = res_AppliedStrategy acc @ [rs_ID s] \<rparr>
            else acc)
      else acc)"

definition Resolve :: "Resolver \<Rightarrow> ResolveContext \<Rightarrow> Result" where
  "Resolve r ctx =
     (let acc0 = \<lparr> res_Settings = Map.empty, res_AppliedStrategy = [] \<rparr>;
          acc1 = (if rs_Enabled (rv_Default r)
                  then \<lparr> res_Settings = merge (res_Settings acc0) (rs_Settings (rv_Default r)),
                         res_AppliedStrategy = res_AppliedStrategy acc0 @ [rs_ID (rv_Default r)] \<rparr>
                  else acc0)
      in foldl (\<lambda>acc target. foldl (resolve_step r ctx target) acc (rv_Assignments r)) acc1
           [TargetDeviceGroup, TargetUser, TargetDevice])"

section \<open>The strategies that apply\<close>

definition strategies_for :: "Resolver \<Rightarrow> ResolveContext \<Rightarrow> TargetType \<Rightarrow> RStrategy list" where
  "strategies_for r ctx target =
     concat (map (\<lambda>a. if asg_TargetType a = target \<and> assignmentMatches a ctx
                      then (case find_strategy r (asg_StrategyID a) of
                              None \<Rightarrow> [] | Some s \<Rightarrow> if rs_Enabled s then [s] else [])
                      else []) (rv_Assignments r))"

definition layers :: "Resolver \<Rightarrow> ResolveContext \<Rightarrow> RStrategy list" where
  "layers r ctx = (if rs_Enabled (rv_Default r) then [rv_Default r] else []) @
     strategies_for r ctx TargetDeviceGroup @ strategies_for r ctx TargetUser @
     strategies_for r ctx TargetDevice"

definition add_layer :: "Result \<Rightarrow> RStrategy \<Rightarrow> Result" where
  "add_layer acc s = \<lparr> res_Settings = merge (res_Settings acc) (rs_Settings s),
                       res_AppliedStrategy = res_AppliedStrategy acc @ [rs_ID s] \<rparr>"

lemma foldl_resolve_step:
  "foldl (resolve_step r ctx target) acc as =
     foldl add_layer acc
       (concat (map (\<lambda>a. if asg_TargetType a = target \<and> assignmentMatches a ctx
                         then (case find_strategy r (asg_StrategyID a) of
                                 None \<Rightarrow> [] | Some s \<Rightarrow> if rs_Enabled s then [s] else [])
                         else []) as))"
  by (induction as arbitrary: acc)
     (auto simp: resolve_step_def add_layer_def split: option.split)

lemma Resolve_layers:
  "Resolve r ctx = foldl add_layer \<lparr> res_Settings = Map.empty, res_AppliedStrategy = [] \<rparr> (layers r ctx)"
  by (simp add: Resolve_def layers_def foldl_resolve_step strategies_for_def add_layer_def)

text \<open>The value the last of some strategies that has one gives a setting.\<close>

fun last_value :: "RStrategy list \<Rightarrow> string \<Rightarrow> string option" where
  "last_value [] k = None"
| "last_value (s # ss) k =
     (case last_value ss k of Some v \<Rightarrow> Some v | None \<Rightarrow> rs_Settings s k)"

lemma last_value_append:
  "last_value (ss @ ts) k = (case last_value ts k of Some v \<Rightarrow> Some v | None \<Rightarrow> last_value ss k)"
  by (induction ss) (auto split: option.split)

lemma add_layer_Settings:
  "res_Settings (add_layer acc s) k =
     (case rs_Settings s k of Some v \<Rightarrow> Some v | None \<Rightarrow> res_Settings acc k)"
  by (simp add: add_layer_def merge_def map_add_def)

lemma add_layers_Settings:
  "res_Settings (foldl add_layer acc ss) k =
     (case last_value ss k of Some v \<Rightarrow> Some v | None \<Rightarrow> res_Settings acc k)"
  by (induction ss arbitrary: acc) (auto simp: add_layer_Settings split: option.split)

lemma add_layers_Applied:
  "res_AppliedStrategy (foldl add_layer acc ss) = res_AppliedStrategy acc @ map rs_ID ss"
  by (induction ss rule: rev_induct) (auto simp: add_layer_def)

section \<open>Properties\<close>

text \<open>
  Precedence of strategies: a setting has the value that the last enabled strategy
  assigned to the device gives it; when none does, the last one assigned to the user; then to
  one of the device's groups; then the enabled default; and it is unset otherwise. The
  applied strategies are listed in the order default, groups, user, device.
\<close>

lemma resolve_precedence:
  "res_Settings (Resolve r ctx) k =
     (if last_value (strategies_for r ctx TargetDevice) k \<noteq> None
      then last_value (strategies_for r ctx TargetDevice) k
      else if last_value (strategies_for r ctx TargetUser) k \<noteq> None
      then last_value (strategies_for r ctx TargetUser) k
      else if last_value (strategies_for r ctx TargetDeviceGroup) k \<noteq> None
      then last_value (strategies_for r ctx TargetDeviceGroup) k
      else if rs_Enabled (rv_Default r) then rs_Settings (rv_Default r) k else None) \<and>
   res_AppliedStrategy (Resolve r ctx) =
     (if rs_Enabled (rv_Default r) then [rs_ID (rv_Default r)] else []) @
     map rs_ID (strategies_for r ctx TargetDeviceGroup) @
     map rs_ID (strategies_for r ctx TargetUser) @ map rs_ID (strategies_for r ctx TargetDevice)"
proof
  show "res_AppliedStrategy (Resolve r ctx) =
     (if rs_Enabled (rv_Default r) then [rs_ID (rv_Default r)] else []) @
     map rs_ID (strategies_for r ctx TargetDeviceGroup) @
     map rs_ID (strategies_for r ctx TargetUser) @ map rs_ID (strategies_for r ctx TargetDevice)"
    by (simp add: Resolve_layers add_layers_Applied layers_def)
  have "res_Settings (Resolve r ctx) k = last_value (layers r ctx) k"
    by (simp add: Resolve_layers add_layers_Settings split: option.split)
  then show "res_Settings (Resolve r ctx) k =
     (if last_value (strategies_for r ctx TargetDevice) k \<noteq> None
      then last_value (strategies_for r ctx TargetDevice) k
      else if last_value (strategies_for r ctx TargetUser) k \<noteq> None
      then last_value (strategies_for r ctx TargetUser) k
      else if last_value (strategies_for r ctx TargetDeviceGroup) k \<noteq> None
      then last_value (strategies_for r ctx TargetDeviceGroup) k
      else if rs_Enabled (rv_Default r) then rs_Settings (rv_Default r) k else None)"
    by (auto simp: layers_def last_value_append split: option.split)
qed

end
