(* ===== verification/Rate_Limit.thy ===== *)
theory Rate_Limit
  imports Http Tokens "HOL-Library.AList"
begin

text \<open>
  The rate limiter and the other wrappers of \<^verbatim>\<open>api/internal/middleware/middleware.go\<close>. The
  limiter counts the requests of each client in windows of a fixed length; its map is a list
  of pairs with distinct keys. \<^verbatim>\<open>allow\<close> runs under a mutex; the clock reading is an argument.
\<close>

section \<open>State\<close>

record RateLimitConfig =
  rlc_Enabled :: bool
  rlc_Requests :: int
  rlc_Window :: duration

record rateBucket =
  rb_resetAt :: gotime
  rb_used :: int

record memoryRateLimiter =
  rl_limit :: int
  rl_window :: duration
  rl_requests :: "(string \<times> rateBucket) list"

definition newMemoryRateLimiter :: "int \<Rightarrow> duration \<Rightarrow> memoryRateLimiter" where
  "newMemoryRateLimiter limit window = \<lparr> rl_limit = limit, rl_window = window, rl_requests = [] \<rparr>"

section \<open>Operations\<close>

definition cleanup :: "gotime \<Rightarrow> (string \<times> rateBucket) list \<Rightarrow> (string \<times> rateBucket) list" where
  "cleanup now reqs = filter (\<lambda>(k, b). now < rb_resetAt b) reqs"

text \<open>\<^verbatim>\<open>time.Time.Sub\<close> saturates at the ends of the 64-bit range.\<close>

definition Sub :: "gotime \<Rightarrow> gotime \<Rightarrow> duration" where
  "Sub t u = (let d = t - u
              in if d > 2 ^ 63 - 1 then of_int (2 ^ 63 - 1)
                 else if d < - (2 ^ 63) then of_int (- (2 ^ 63)) else of_int d)"

definition allow :: "string \<Rightarrow> gotime \<Rightarrow> memoryRateLimiter \<Rightarrow>
    (bool \<times> int \<times> duration) \<times> memoryRateLimiter" where
  "allow key now l =
     (let fresh = \<lparr> rb_resetAt = Add now (rl_window l), rb_used = 0 \<rparr>;
          bucket0 = (case map_of (rl_requests l) key of
                       None \<Rightarrow> fresh
                     | Some b \<Rightarrow> if \<not> now < rb_resetAt b then fresh else b);
          bucket = bucket0\<lparr> rb_used := rb_used bucket0 + 1 \<rparr>;
          reqs = AList.update key bucket (rl_requests l);
          reqs1 = (if length reqs > 4096 then cleanup now reqs else reqs);
          l1 = l\<lparr> rl_requests := reqs1 \<rparr>;
          remaining0 = rl_limit l - rb_used bucket;
          remaining = (if remaining0 < 0 then 0 else remaining0)
      in if rb_used bucket > rl_limit l
         then ((False, remaining, Sub (rb_resetAt bucket) now), l1)
         else ((True, remaining, 0), l1))"

definition rateLimitKey :: "'c http_request \<Rightarrow> string" where
  "rateLimitKey r =
     (let forwardedFor = TrimSpace (HeaderGet ''X-Forwarded-For'' r);
          trimmed = TrimSpace (fst (Cut CHR '','' forwardedFor));
          realIP = TrimSpace (HeaderGet ''X-Real-Ip'' r)
      in if forwardedFor \<noteq> [] \<and> trimmed \<noteq> [] then trimmed
         else if realIP \<noteq> [] then realIP
         else (case SplitHost (RemoteAddr r) of
                 Some host \<Rightarrow> if host \<noteq> [] then host
                              else if TrimSpace (RemoteAddr r) \<noteq> [] then RemoteAddr r else ''unknown''
               | None \<Rightarrow> if TrimSpace (RemoteAddr r) \<noteq> [] then RemoteAddr r else ''unknown''))"

definition retryAfterSeconds :: "duration \<Rightarrow> int" where
  "retryAfterSeconds d =
     (if sint d \<le> 0 then 1
      else let seconds0 = sint d div sint Second;
               seconds = (if sint d mod sint Second \<noteq> 0 then seconds0 + 1 else seconds0)
           in if seconds < 1 then 1 else seconds)"

text \<open>
  What the wrapper makes of a request: it goes on as it is, it goes on with the two limit
  headers, or it is answered 429 with the number of seconds to wait.
\<close>

datatype rate_answer =
    Unlimited
  | Passed int int
  | Limited int int int

definition RateLimit :: "RateLimitConfig \<Rightarrow> 'c http_request \<Rightarrow> gotime \<Rightarrow> memoryRateLimiter \<Rightarrow>
    rate_answer \<times> memoryRateLimiter" where
  "RateLimit cfg r now l =
     (if \<not> rlc_Enabled cfg \<or> rlc_Requests cfg \<le> 0 \<or> sint (rlc_Window cfg) \<le> 0 then (Unlimited, l)
      else (case allow (rateLimitKey r) now l of
          ((allowed, remaining, retryAfter), l1) \<Rightarrow>
            (if \<not> allowed
             then (Limited (rlc_Requests cfg) remaining (retryAfterSeconds retryAfter), l1)
             else (Passed (rlc_Requests cfg) remaining, l1))))"

section \<open>The other wrappers\<close>

text \<open>
  \<^verbatim>\<open>RequestID\<close> keeps the caller's identifier or draws 16 bytes; \<open>SecurityHeaders\<close> are set on every
  response; \<open>CORS\<close> gives the headers it sets and whether it answers the request itself (204).
\<close>

definition RequestID :: "string \<Rightarrow> 'c http_request \<Rightarrow> string" where
  "RequestID rnd r =
     (let i = HeaderGet ''X-Request-Id'' r in if i = [] then hex_encode rnd else i)"

definition SecurityHeaders :: "(string \<times> string) list" where
  "SecurityHeaders =
     [(''X-Content-Type-Options'', ''nosniff''), (''X-Frame-Options'', ''DENY''),
      (''Referrer-Policy'', ''no-referrer'')]"

definition CORS :: "string list \<Rightarrow> 'c http_request \<Rightarrow> (string \<times> string) list \<times> bool" where
  "CORS allowedOrigins r =
     (let origin = HeaderGet ''Origin'' r;
          headers = (if origin \<noteq> [] \<and> List.member allowedOrigins origin
            then [(''Access-Control-Allow-Origin'', origin), (''Vary'', ''Origin''),
                  (''Access-Control-Allow-Headers'', ''Authorization, Content-Type, X-Request-ID''),
                  (''Access-Control-Allow-Methods'', ''GET, POST, PUT, DELETE, OPTIONS''),
                  (''Access-Control-Allow-Credentials'', ''true'')]
            else [])
      in (headers, Method r = MethodOptions))"

section \<open>One client alone\<close>

text \<open>
  The reference: the bucket of one client, with no map and no cleaning up.
\<close>

definition current :: "gotime \<Rightarrow> rateBucket option \<Rightarrow> rateBucket option" where
  "current now b = (case b of None \<Rightarrow> None | Some x \<Rightarrow> if now < rb_resetAt x then Some x else None)"

definition count_in :: "duration \<Rightarrow> gotime \<Rightarrow> rateBucket option \<Rightarrow> rateBucket" where
  "count_in window now b =
     (case current now b of
        None \<Rightarrow> \<lparr> rb_resetAt = Add now window, rb_used = 1 \<rparr>
      | Some x \<Rightarrow> x\<lparr> rb_used := rb_used x + 1 \<rparr>)"

fun client_run :: "int \<Rightarrow> duration \<Rightarrow> rateBucket option \<Rightarrow> gotime list \<Rightarrow> (gotime \<times> bool) list" where
  "client_run limit window b [] = []"
| "client_run limit window b (t # ts) =
     (let x = count_in window t b
      in (t, rb_used x \<le> limit) # client_run limit window (Some x) ts)"

fun limiter_run :: "memoryRateLimiter \<Rightarrow> (string \<times> gotime) list \<Rightarrow> (string \<times> gotime \<times> bool) list" where
  "limiter_run l [] = []"
| "limiter_run l ((k, t) # xs) =
     (case allow k t l of ((ok, rest), l1) \<Rightarrow> (k, t, ok) # limiter_run l1 xs)"

text \<open>The bucket a limiter has for a client that is still running at a time.\<close>

definition live :: "memoryRateLimiter \<Rightarrow> string \<Rightarrow> gotime \<Rightarrow> rateBucket option" where
  "live l k now = current now (map_of (rl_requests l) k)"

lemma current_current: "t \<le> now \<Longrightarrow> current now (current t b) = current now b"
  by (auto simp: current_def split: option.splits)

lemma map_of_cleanup:
  "distinct (map fst xs) \<Longrightarrow> map_of (cleanup now xs) k = current now (map_of xs k)"
  by (induction xs) (auto simp: cleanup_def current_def map_of_eq_None_iff split: option.splits)

lemma distinct_cleanup: "distinct (map fst xs) \<Longrightarrow> distinct (map fst (cleanup now xs))"
  by (simp add: cleanup_def distinct_map_filter)

lemma allow_answer:
  "fst (fst (allow k t l)) \<longleftrightarrow> rb_used (count_in (rl_window l) t (map_of (rl_requests l) k)) \<le> rl_limit l"
  by (auto simp: allow_def count_in_def current_def Let_def split: option.split)

definition limiter_ok :: "memoryRateLimiter \<Rightarrow> bool" where
  "limiter_ok l \<longleftrightarrow> distinct (map fst (rl_requests l))"

lemma allow_state:
  assumes "limiter_ok l" "t \<le> now"
  shows "limiter_ok (snd (allow k t l)) \<and> rl_limit (snd (allow k t l)) = rl_limit l \<and>
     rl_window (snd (allow k t l)) = rl_window l \<and>
     live (snd (allow k t l)) k' now =
       (if k' = k then current now (Some (count_in (rl_window l) t (map_of (rl_requests l) k)))
        else live l k' now)"
proof -
  define x where "x = count_in (rl_window l) t (map_of (rl_requests l) k)"
  define reqs where "reqs = AList.update k x (rl_requests l)"
  have d: "distinct (map fst reqs)"
    using assms(1) by (simp add: reqs_def limiter_ok_def distinct_update)
  have "snd (allow k t l) = l\<lparr> rl_requests := (if length reqs > 4096 then cleanup t reqs else reqs) \<rparr>"
    by (simp add: allow_def reqs_def x_def count_in_def current_def Let_def split: option.split)
  then show ?thesis using d assms(2)
    by (simp add: live_def limiter_ok_def map_of_cleanup distinct_cleanup current_current
        x_def [symmetric]) (simp add: reqs_def update_conv')
qed

section \<open>The limiter keeps the clients apart\<close>

lemma count_in_cong: "current t b = current t b' \<Longrightarrow> count_in w t b = count_in w t b'"
  by (simp add: count_in_def)

lemma limiter_run_client:
  assumes "limiter_ok l" "sorted (map snd xs)" "\<forall>x \<in> set xs. t0 \<le> snd x"
    and "\<And>now. t0 \<le> now \<Longrightarrow> live l k now = current now b"
  shows "map snd (filter (\<lambda>x. fst x = k) (limiter_run l xs)) =
     client_run (rl_limit l) (rl_window l) b (map snd (filter (\<lambda>x. fst x = k) xs))"
  using assms
proof (induction xs arbitrary: l b t0)
  case Nil
  then show ?case by simp
next
  case (Cons x xs)
  obtain k' t where x: "x = (k', t)" by fastforce
  obtain ok rest l1 where a: "allow k' t l = ((ok, rest), l1)" by (metis surjective_pairing)
  have t0: "t0 \<le> t" using Cons.prems(3) x by simp
  have st: "limiter_ok l1 \<and> rl_limit l1 = rl_limit l \<and> rl_window l1 = rl_window l \<and>
      live l1 k now = (if k = k'
         then current now (Some (count_in (rl_window l) t (map_of (rl_requests l) k')))
         else live l k now)" if "t \<le> now" for now
    using allow_state [OF Cons.prems(1) that, of k' k] a by simp
  have c: "count_in (rl_window l) t (map_of (rl_requests l) k) = count_in (rl_window l) t b"
    using Cons.prems(4) [OF t0] by (intro count_in_cong) (simp add: live_def)
  have ok: "ok \<longleftrightarrow> rb_used (count_in (rl_window l) t (map_of (rl_requests l) k')) \<le> rl_limit l"
    using allow_answer [of k' t l] a by simp
  have rest: "sorted (map snd xs)" "\<forall>x \<in> set xs. t \<le> snd x" using Cons.prems(2) x by auto
  show ?case
  proof (cases "k' = k")
    case True
    have "live l1 k now = current now (Some (count_in (rl_window l) t b))" if "t \<le> now" for now
      using st [OF that] True c by simp
    from Cons.IH [OF _ rest this] st [of t] show ?thesis
      using True c ok a by (simp add: x Let_def)
  next
    case False
    have "live l1 k now = current now b" if "t \<le> now" for now
      using st [OF that] False Cons.prems(4) [of now] t0 that by simp
    from Cons.IH [OF _ rest this] st [of t] show ?thesis
      using False by (simp add: x a)
  qed
qed

lemma fresh_limiter_client:
  assumes "sorted (map snd xs)"
  shows "map snd (filter (\<lambda>x. fst x = k) (limiter_run (newMemoryRateLimiter limit window) xs)) =
     client_run limit window None (map snd (filter (\<lambda>x. fst x = k) xs))"
proof (cases xs)
  case (Cons x ys)
  have "\<forall>y \<in> set xs. snd x \<le> snd y" using assms Cons by auto
  from limiter_run_client [OF _ assms this, of "newMemoryRateLimiter limit window" k None] show ?thesis
    by (simp add: newMemoryRateLimiter_def limiter_ok_def live_def current_def)
qed simp

section \<open>Bounds for one client\<close>

definition passed_before :: "gotime \<Rightarrow> (gotime \<times> bool) list \<Rightarrow> nat" where
  "passed_before e xs = length (filter (\<lambda>(t, ok). ok \<and> t < e) xs)"

definition passed_in :: "gotime \<Rightarrow> gotime \<Rightarrow> (gotime \<times> bool) list \<Rightarrow> nat" where
  "passed_in a e xs = length (filter (\<lambda>(t, ok). ok \<and> a \<le> t \<and> t < e) xs)"

lemma passed_Nil [simp]: "passed_before e [] = 0" "passed_in a e [] = 0"
  by (simp_all add: passed_before_def passed_in_def)

lemma passed_Cons [simp]:
  "passed_before e ((t, ok) # xs) = (if ok \<and> t < e then 1 else 0) + passed_before e xs"
  "passed_in a e ((t, ok) # xs) = (if ok \<and> a \<le> t \<and> t < e then 1 else 0) + passed_in a e xs"
  by (simp_all add: passed_before_def passed_in_def)

lemma client_run_times: "map fst (client_run limit w b ts) = ts"
  by (induction ts arbitrary: b) (simp_all add: Let_def)

lemma passed_before_late:
  assumes "\<forall>t \<in> set ts. e \<le> t"
  shows "passed_before e (client_run limit w b ts) = 0"
proof -
  have "fst x \<in> set ts" if "x \<in> set (client_run limit w b ts)" for x
    using that client_run_times [of limit w b ts] by (metis image_eqI list.set_map)
  then show ?thesis using assms by (fastforce simp: passed_before_def filter_empty_conv)
qed

text \<open>As long as a bucket runs, at most what is left of the limit passes.\<close>

lemma passed_in_bucket:
  assumes "sorted ts" "e \<le> r" "0 \<le> limit"
  shows "passed_before e (client_run limit w (Some \<lparr> rb_resetAt = r, rb_used = u \<rparr>) ts) \<le> nat (limit - u)"
  using assms
proof (induction ts arbitrary: u)
  case Nil
  then show ?case by simp
next
  case (Cons t ts)
  show ?case
  proof (cases "t < e")
    case True
    then have c: "count_in w t (Some \<lparr> rb_resetAt = r, rb_used = u \<rparr>) = \<lparr> rb_resetAt = r, rb_used = u + 1 \<rparr>"
      using Cons.prems by (simp add: count_in_def current_def)
    show ?thesis using Cons.IH [of "u + 1"] Cons.prems True
      by (auto simp: c Let_def)
  next
    case False
    then have "\<forall>x \<in> set (t # ts). e \<le> x" using Cons.prems by auto
    then show ?thesis by (simp only: passed_before_late)
  qed
qed

lemma count_in_new:
  "current t b = None \<Longrightarrow> count_in w t b = \<lparr> rb_resetAt = Add t w, rb_used = 1 \<rparr>"
  by (simp add: count_in_def)

text \<open>A stretch of time as long as the window meets at most two buckets.\<close>

lemma passed_two_buckets:
  assumes "sorted ts" "\<forall>t \<in> set ts. a \<le> t" "0 < sint w" "0 < limit"
  shows "passed_before (a + sint w) (client_run limit w (Some x) ts) \<le> nat (limit - rb_used x) + nat limit"
  using assms
proof (induction ts arbitrary: x)
  case Nil
  then show ?case by simp
next
  case (Cons t ts)
  show ?case
  proof (cases "t < rb_resetAt x")
    case True
    then have c: "count_in w t (Some x) = x\<lparr> rb_used := rb_used x + 1 \<rparr>"
      by (simp add: count_in_def current_def)
    show ?thesis using Cons.IH [of "x\<lparr> rb_used := rb_used x + 1 \<rparr>"] Cons.prems
      by (auto simp: c Let_def)
  next
    case False
    then have c: "count_in w t (Some x) = \<lparr> rb_resetAt = Add t w, rb_used = 1 \<rparr>"
      by (simp add: count_in_def current_def)
    have "passed_before (a + sint w) (client_run limit w (Some \<lparr> rb_resetAt = Add t w, rb_used = 1 \<rparr>) ts)
        \<le> nat (limit - 1)"
      using Cons.prems by (intro passed_in_bucket) (auto simp: Add_def)
    then show ?thesis using Cons.prems by (auto simp: c Let_def)
  qed
qed

lemma client_bound:
  assumes "sorted ts" "0 < sint w" "0 < limit" "\<forall>x. b = Some x \<longrightarrow> 0 \<le> rb_used x"
  shows "passed_in a (a + sint w) (client_run limit w b ts) \<le> 2 * nat limit"
  using assms
proof (induction ts arbitrary: b)
  case Nil
  then show ?case by simp
next
  case (Cons t ts)
  show ?case
  proof (cases "t < a")
    case True
    moreover have "0 \<le> rb_used (count_in w t b)"
      using Cons.prems(4) by (auto simp: count_in_def current_def split: option.splits)
    ultimately show ?thesis using Cons by (simp add: Let_def)
  next
    case False
    then have late: "\<forall>x \<in> set (t # ts). a \<le> x" using Cons.prems by auto
    have "fst x \<in> set (t # ts)" if "x \<in> set (client_run limit w b (t # ts))" for x
      using that client_run_times [of limit w b "t # ts"] by (metis image_eqI list.set_map)
    then have "passed_in a (a + sint w) (client_run limit w b (t # ts)) =
        passed_before (a + sint w) (client_run limit w b (t # ts))"
      unfolding passed_in_def passed_before_def
      using late by (intro arg_cong [of _ _ length] filter_cong) fastforce+
    also have "\<dots> \<le> 2 * nat limit"
    proof (cases "current t b")
      case None
      have "passed_before (a + sint w) (client_run limit w (Some \<lparr> rb_resetAt = Add t w, rb_used = 1 \<rparr>) ts)
          \<le> nat (limit - 1) + nat limit"
        using passed_two_buckets [of ts a w limit "\<lparr> rb_resetAt = Add t w, rb_used = 1 \<rparr>"]
          Cons.prems late by simp
      then show ?thesis using Cons.prems by (auto simp: count_in_new [OF None] Let_def)
    next
      case (Some x)
      then have b: "b = Some x" by (auto simp: current_def split: option.splits if_splits)
      then have "nat (limit - rb_used x) \<le> nat limit" using Cons.prems(4) by simp
      moreover have "passed_before (a + sint w) (client_run limit w (Some x) (t # ts))
          \<le> nat (limit - rb_used x) + nat limit"
        by (rule passed_two_buckets [OF Cons.prems(1) late Cons.prems(2,3)])
      ultimately show ?thesis by (simp add: b)
    qed
    finally show ?thesis .
  qed
qed

section \<open>A refused client has used its limit\<close>

lemma client_fair:
  assumes "last (client_run limit w b (ts @ [t])) = (t, False)" "sorted (ts @ [t])"
    and "case b of None \<Rightarrow> True
       | Some x \<Rightarrow> rb_used x \<le> int (length (filter (\<lambda>s. rb_resetAt x - sint w \<le> s) h)) \<and>
                 (\<forall>s \<in> set ts. rb_resetAt x - sint w \<le> s)"
    and "0 < sint w"
  shows "limit \<le> int (length (filter (\<lambda>s. t - sint w < s) (h @ ts)))"
  using assms
proof (induction ts arbitrary: b h)
  case Nil
  then have used: "limit < rb_used (count_in w t b)" by (simp add: Let_def)
  show ?case
  proof (cases "current t b")
    case None
    then show ?thesis using used by (simp add: count_in_new)
  next
    case (Some x)
    then have b: "b = Some x" "t < rb_resetAt x"
      by (auto simp: current_def split: option.splits if_splits)
    then have "limit \<le> int (length (filter (\<lambda>s. rb_resetAt x - sint w \<le> s) h))"
      using used Some Nil.prems(3) by (simp add: count_in_def)
    also have "\<dots> \<le> int (length (filter (\<lambda>s. t - sint w < s) h))"
      using b by (induction h) auto
    finally show ?thesis by simp
  qed
next
  case (Cons s ts)
  have "client_run limit w y (ts @ [t]) \<noteq> []" for y by (cases ts) (simp_all add: Let_def)
  then have l: "last (client_run limit w (Some (count_in w s b)) (ts @ [t])) = (t, False)"
    using Cons.prems(1) by (simp add: Let_def)
  have "case Some (count_in w s b) of None \<Rightarrow> True
     | Some x \<Rightarrow> rb_used x \<le> int (length (filter (\<lambda>s. rb_resetAt x - sint w \<le> s) (h @ [s]))) \<and>
               (\<forall>s \<in> set ts. rb_resetAt x - sint w \<le> s)"
    using Cons.prems(2,3)
    by (cases "current s b")
       (auto simp: count_in_def Add_def current_def split: option.splits if_splits)
  from Cons.IH [OF l _ this] Cons.prems(2,4) show ?case by simp
qed

lemma map_last_filter:
  "xs \<noteq> [] \<Longrightarrow> P (last xs) \<Longrightarrow> last (map f (filter P xs)) = f (last xs)"
  by (induction xs rule: rev_induct) simp_all

lemma limiter_run_keys: "map (\<lambda>x. (fst x, fst (snd x))) (limiter_run l xs) = xs"
  by (induction l xs rule: limiter_run.induct) (auto split: prod.splits)

section \<open>Properties\<close>

text \<open>
  C29. Clients do not disturb each other: whatever other clients send, and although the
  limiter drops old buckets when its table grows beyond 4096 entries, each client gets the
  answers it would get from a limiter of its own. The requests come in the order of their clock readings.
\<close>

theorem rate_limit_isolated:
  assumes "sorted (map snd xs)"
  shows "map snd (filter (\<lambda>x. fst x = k) (limiter_run (newMemoryRateLimiter limit window) xs)) =
     map snd (limiter_run (newMemoryRateLimiter limit window) (filter (\<lambda>x. fst x = k) xs))"
proof -
  have "sorted (map snd (filter (\<lambda>x. fst x = k) xs))" using assms by (rule sorted_filter)
  from fresh_limiter_client [OF this, of k] have
    "map snd (filter (\<lambda>x. fst x = k) (limiter_run (newMemoryRateLimiter limit window)
        (filter (\<lambda>x. fst x = k) xs))) =
     client_run limit window None (map snd (filter (\<lambda>x. fst x = k) xs))" by simp
  moreover have "filter (\<lambda>x. fst x = k) (limiter_run l (filter (\<lambda>x. fst x = k) xs)) =
      limiter_run l (filter (\<lambda>x. fst x = k) xs)" for l
  proof (rule filter_True, rule ballI)
    fix x assume x: "x \<in> set (limiter_run l (filter (\<lambda>x. fst x = k) xs))"
    then have "(fst x, fst (snd x)) \<in> set (filter (\<lambda>x. fst x = k) xs)"
      using limiter_run_keys [of l "filter (\<lambda>x. fst x = k) xs"] by (metis (no_types, lifting) image_eqI list.set_map)
    then show "fst x = k" by simp
  qed
  ultimately show ?thesis using fresh_limiter_client [OF assms, of k] by simp
qed

definition wit_traffic :: "(string \<times> gotime) list" where
  "wit_traffic = [(''a'', 0), (''b'', 1), (''a'', 2), (''a'', 70), (''b'', 71)]"

definition wit_limiter :: memoryRateLimiter where
  "wit_limiter = newMemoryRateLimiter 1 60"

theorem rate_limit_isolated_witness:
  "map snd (filter (\<lambda>x. fst x = ''a'') (limiter_run wit_limiter wit_traffic)) =
     map snd (limiter_run wit_limiter (filter (\<lambda>x. fst x = ''a'') wit_traffic)) \<and>
   limiter_run wit_limiter wit_traffic =
     [(''a'', 0, True), (''b'', 1, True), (''a'', 2, False), (''a'', 70, True), (''b'', 71, True)]"
proof -
  have "sorted (map snd wit_traffic)" by (simp add: wit_traffic_def)
  moreover have "limiter_run wit_limiter wit_traffic =
     [(''a'', 0, True), (''b'', 1, True), (''a'', 2, False), (''a'', 70, True), (''b'', 71, True)]"
    by code_simp
  ultimately show ?thesis
    using rate_limit_isolated [of wit_traffic "''a''" 1 60] by (simp add: wit_limiter_def)
qed

text \<open>
  C30. The limit holds: in no stretch of time as long as the window do more than twice the
  limit of a client's requests pass (a stretch can meet two windows), whatever is sent.
\<close>

theorem rate_limit_bound:
  assumes "sorted (map snd xs)" "0 < sint window" "0 < limit"
  shows "length (filter (\<lambda>(k', t, ok). k' = k \<and> ok \<and> a \<le> t \<and> t < a + sint window)
           (limiter_run (newMemoryRateLimiter limit window) xs)) \<le> 2 * nat limit"
proof -
  let ?r = "limiter_run (newMemoryRateLimiter limit window) xs"
  have "length (filter (\<lambda>(k', t, ok). k' = k \<and> ok \<and> a \<le> t \<and> t < a + sint window) ys) =
      passed_in a (a + sint window) (map snd (filter (\<lambda>x. fst x = k) ys))"
    for ys :: "(string \<times> gotime \<times> bool) list"
    by (induction ys) (auto split: if_splits)
  then show ?thesis
    using client_bound [OF sorted_filter [OF assms(1), of "\<lambda>x. fst x = k"] assms(2,3), of None a]
    by (simp add: fresh_limiter_client [OF assms(1)])
qed

theorem rate_limit_bound_witness:
  "length (filter (\<lambda>(k', t, ok). k' = ''a'' \<and> ok \<and> 1 \<le> t \<and> t < 1 + 60)
     (limiter_run wit_limiter wit_traffic)) \<le> 2"
proof -
  have "sorted (map snd wit_traffic)" by (simp add: wit_traffic_def)
  then show ?thesis
    using rate_limit_bound [of wit_traffic 60 1 "''a''" 1] by (simp add: wit_limiter_def)
qed

text \<open>
  Nobody is limited without cause: a refused request comes after at least as many
  requests of the same client within the window before it as the limit allows.
\<close>

lemma rate_limit_fair:
  assumes "sorted (map snd (xs @ [(k, t)]))" "0 < sint window"
    and "last (limiter_run (newMemoryRateLimiter limit window) (xs @ [(k, t)])) = (k, t, False)"
  shows "limit \<le> int (length (filter (\<lambda>(k', s). k' = k \<and> t - sint window < s) xs))"
proof -
  let ?r = "limiter_run (newMemoryRateLimiter limit window) (xs @ [(k, t)])"
  have "?r \<noteq> []" using limiter_run_keys [of "newMemoryRateLimiter limit window" "xs @ [(k, t)]"] by force
  then have "last (map snd (filter (\<lambda>x. fst x = k) ?r)) = (t, False)"
    using assms(3) by (simp add: map_last_filter)
  then have l: "last (client_run limit window None (map snd (filter (\<lambda>x. fst x = k) xs) @ [t])) = (t, False)"
    using fresh_limiter_client [OF assms(1), of k] by simp
  have "sorted (map snd (filter (\<lambda>x. fst x = k) (xs @ [(k, t)])))"
    by (rule sorted_filter [OF assms(1)])
  then have "limit \<le> int (length (filter (\<lambda>s. t - sint window < s)
      ([] @ map snd (filter (\<lambda>x. fst x = k) xs))))"
    by (intro client_fair [OF l]) (simp_all add: assms(2))
  also have "length (filter (\<lambda>s. t - sint window < s) ([] @ map snd (filter (\<lambda>x. fst x = k) xs))) =
      length (filter (\<lambda>(k', s). k' = k \<and> t - sint window < s) xs)"
    by (induction xs) auto
  finally show ?thesis .
qed

lemma rate_limit_fair_witness:
  "last (limiter_run wit_limiter ([(''a'', 0), (''b'', 1)] @ [(''a'', 2)])) = (''a'', 2, False) \<and>
   1 \<le> int (length (filter (\<lambda>(k', s). k' = ''a'' \<and> 2 - 60 < s) [(''a'', 0 :: gotime), (''b'', 1)]))"
proof -
  have l: "last (limiter_run wit_limiter ([(''a'', 0), (''b'', 1)] @ [(''a'', 2)])) = (''a'', 2, False)"
    by code_simp
  then show ?thesis
    using rate_limit_fair [of "[(''a'', 0), (''b'', 1)]" "''a''" 2 60 1] by (simp add: wit_limiter_def)
qed

end
