(* ===== verification/Memory_Logs.thy ===== *)
theory Memory_Logs
  imports Memory_Core "HOL-Library.AList" "HOL-Library.Char_ord" "HOL-Library.List_Lexorder"
begin

text \<open>
  The log and settings part of the in-memory repository: audit events, connection logs,
  file-transfer logs, the filtered listings with pagination, and system settings
  (\<^verbatim>\<open>LogsRepository\<close> and \<^verbatim>\<open>SettingsRepository\<close> in \<^verbatim>\<open>interfaces.go\<close>). New log rows go to the
  front of their table.
\<close>

section \<open>Filters\<close>

record AuditLogFilter =
  alf_ActorType :: string
  alf_Action :: string
  alf_ResourceType :: string
  alf_ResourceID :: string
  alf_From :: "gotime option"
  alf_To :: "gotime option"
  alf_Limit :: int
  alf_Offset :: int

record ConnectionLogFilter =
  clf_Status :: string
  clf_ConnectionType :: string
  clf_From :: "gotime option"
  clf_To :: "gotime option"
  clf_Limit :: int
  clf_Offset :: int

record FileTransferLogFilter =
  ftf_Direction :: string
  ftf_Status :: string
  ftf_From :: "gotime option"
  ftf_To :: "gotime option"
  ftf_Limit :: int
  ftf_Offset :: int

record LoginLogFilter =
  llf_Email :: string
  llf_Status :: string
  llf_From :: "gotime option"
  llf_To :: "gotime option"
  llf_Limit :: int
  llf_Offset :: int

section \<open>Audit events\<close>

definition CreateAuditEvent :: "gotime \<Rightarrow> AuditEvent \<Rightarrow> Memory \<Rightarrow> AuditEvent repo_result" where
  "CreateAuditEvent now event m =
     (let next = nextID m + 1;
          e = event\<lparr> ae_ID := next,
                     ae_CreatedAt := (if IsZero (ae_CreatedAt event) then now else ae_CreatedAt event),
                     ae_Metadata := cloneMetadata (ae_Metadata event) \<rparr>
      in (Inr e, m\<lparr> nextID := next, auditEvents := e # auditEvents m \<rparr>))"

definition audit_selected :: "AuditLogFilter \<Rightarrow> AuditEvent \<Rightarrow> bool" where
  "audit_selected f e =
     (if alf_ActorType f \<noteq> [] \<and> ae_ActorType e \<noteq> alf_ActorType f then False
      else if alf_Action f \<noteq> [] \<and> ae_Action e \<noteq> alf_Action f then False
      else if alf_ResourceType f \<noteq> [] \<and> ae_ResourceType e \<noteq> alf_ResourceType f then False
      else if alf_ResourceID f \<noteq> [] \<and>
        (case ae_ResourceID e of None \<Rightarrow> True | Some r \<Rightarrow> r \<noteq> alf_ResourceID f) then False
      else timeInRange (ae_CreatedAt e) (alf_From f) (alf_To f))"

definition ListAuditEvents :: "AuditLogFilter \<Rightarrow> Memory \<Rightarrow> repo_error + AuditEvent list" where
  "ListAuditEvents f m =
     Inr (paginate (filter (audit_selected f) (auditEvents m)) (alf_Offset f) (alf_Limit f))"

section \<open>Connection, file-transfer and login logs\<close>

definition CreateConnectionLog :: "gotime \<Rightarrow> ConnectionLog \<Rightarrow> Memory \<Rightarrow> ConnectionLog repo_result" where
  "CreateConnectionLog now log m =
     (if \<not> validConnectionType (cl_ConnectionType log)
      then (Inl (ErrMsg ''connection_type must be direct, relay, or websocket''), m)
      else if \<not> validConnectionStatus (cl_Status log)
      then (Inl (ErrMsg ''status must be started, ended, failed, or denied''), m)
      else let next = nextID m + 1;
               l = log\<lparr> cl_ID := next,
                        cl_StartedAt := (if IsZero (cl_StartedAt log) then now else cl_StartedAt log),
                        cl_Metadata := cloneMetadata (cl_Metadata log) \<rparr>
           in (Inr l, m\<lparr> nextID := next, connectionLogs := l # connectionLogs m \<rparr>))"

definition connection_selected :: "ConnectionLogFilter \<Rightarrow> ConnectionLog \<Rightarrow> bool" where
  "connection_selected f l =
     (if clf_Status f \<noteq> [] \<and> cl_Status l \<noteq> clf_Status f then False
      else if clf_ConnectionType f \<noteq> [] \<and> cl_ConnectionType l \<noteq> clf_ConnectionType f then False
      else timeInRange (cl_StartedAt l) (clf_From f) (clf_To f))"

definition ListConnectionLogs :: "ConnectionLogFilter \<Rightarrow> Memory \<Rightarrow> repo_error + ConnectionLog list" where
  "ListConnectionLogs f m =
     Inr (paginate (filter (connection_selected f) (connectionLogs m)) (clf_Offset f) (clf_Limit f))"

definition file_transfer_selected :: "FileTransferLogFilter \<Rightarrow> FileTransferLog \<Rightarrow> bool" where
  "file_transfer_selected f l =
     (if ftf_Direction f \<noteq> [] \<and> ft_Direction l \<noteq> ftf_Direction f then False
      else if ftf_Status f \<noteq> [] \<and> ft_Status l \<noteq> ftf_Status f then False
      else timeInRange (ft_CreatedAt l) (ftf_From f) (ftf_To f))"

definition ListFileTransferLogs ::
    "FileTransferLogFilter \<Rightarrow> Memory \<Rightarrow> repo_error + FileTransferLog list" where
  "ListFileTransferLogs f m =
     Inr (paginate (filter (file_transfer_selected f) (fileTransfers m)) (ftf_Offset f) (ftf_Limit f))"

definition login_selected :: "LoginLogFilter \<Rightarrow> LoginLog \<Rightarrow> bool" where
  "login_selected f l =
     (if llf_Email f \<noteq> [] \<and> \<not> EqualFold (ll_Email l) (llf_Email f) then False
      else if llf_Status f \<noteq> [] \<and> ll_Status l \<noteq> llf_Status f then False
      else timeInRange (ll_CreatedAt l) (llf_From f) (llf_To f))"

text \<open>
  \<^verbatim>\<open>sort.Slice\<close> puts the newest row first; it does not fix the order of rows with the same
  time, and the model keeps their table order.
\<close>

definition ListLoginLogs :: "LoginLogFilter \<Rightarrow> Memory \<Rightarrow> repo_error + LoginLog list" where
  "ListLoginLogs f m =
     Inr (paginate (sort_key (\<lambda>l. - ll_CreatedAt l) (filter (login_selected f) (loginLogs m)))
            (llf_Offset f) (llf_Limit f))"

section \<open>System settings\<close>

definition ListSystemSettings :: "Memory \<Rightarrow> repo_error + SystemSetting list" where
  "ListSystemSettings m = Inr (sort_key ss_Key (map snd (settings m)))"

text \<open>
  The loop of \<^verbatim>\<open>UpsertSystemSettings\<close> returns at the first invalid setting; the settings
  before it are stored by then.
\<close>

fun UpsertSystemSettings :: "gotime \<Rightarrow> SystemSetting list \<Rightarrow> int \<Rightarrow> Memory \<Rightarrow> unit repo_result" where
  "UpsertSystemSettings now [] updatedBy m = (Inr (), m)"
| "UpsertSystemSettings now (s # ss) updatedBy m =
     (let key = TrimSpace (ss_Key s)
      in if key = [] \<or> TrimSpace (ss_ValueJSON s) = []
         then (Inl (ErrMsg ''setting key and value_json are required''), m)
         else let s1 = s\<lparr> ss_Key := key, ss_UpdatedAt := now,
                          ss_UpdatedBy := (if updatedBy > 0 then Some updatedBy else ss_UpdatedBy s) \<rparr>
              in UpsertSystemSettings now ss updatedBy (m\<lparr> settings := AList.update key s1 (settings m) \<rparr>))"

end
