(* ===== verification/Handler_Core.thy ===== *)
theory Handler_Core
  imports Auth_Service Memory_Logs
begin

text \<open>
  What all HTTP handlers share: the address of the caller, and the audit event every change
  writes (\<^verbatim>\<open>requestIP\<close> and \<^verbatim>\<open>writeAudit\<close>, repeated in each handler package, and
  \<^verbatim>\<open>api/internal/audit/audit.go\<close>). A handler is a function from the request, the decoded
  body and the repository to the response and the repository; \<open>clk 0\<close> is the clock reading of
  the repository operation, \<open>clk 1\<close> that of the audit row.
\<close>

type_synonym request = "AuthSession http_request"

type_synonym 'a handler_result = "'a http_response \<times> Memory"

section \<open>Caller\<close>

definition requestIP :: "'c http_request \<Rightarrow> string" where
  "requestIP r =
     (let forwarded = TrimSpace (HeaderGet ''X-Forwarded-For'' r);
          realIP = TrimSpace (HeaderGet ''X-Real-Ip'' r)
      in if forwarded \<noteq> [] then TrimSpace (fst (Cut CHR '','' forwarded))
         else if realIP \<noteq> [] then realIP
         else (case SplitHost (RemoteAddr r) of Some host \<Rightarrow> host | None \<Rightarrow> RemoteAddr r))"

definition UserAgent :: "'c http_request \<Rightarrow> string" where
  "UserAgent r = HeaderGet ''User-Agent'' r"

section \<open>Audit\<close>

record Event =
  ev_ActorUserID :: "int option"
  ev_ActorType :: string
  ev_Action :: string
  ev_ResourceType :: string
  ev_ResourceID :: string
  ev_IP :: string
  ev_UserAgent :: string
  ev_Metadata :: metadata
  ev_CreatedAt :: gotime

definition event :: "string \<Rightarrow> string \<Rightarrow> string \<Rightarrow> metadata \<Rightarrow> Event" where
  "event action resourceType resourceID md =
     \<lparr> ev_ActorUserID = None, ev_ActorType = [], ev_Action = action,
       ev_ResourceType = resourceType, ev_ResourceID = resourceID, ev_IP = [],
       ev_UserAgent = [], ev_Metadata = md, ev_CreatedAt = zero_time \<rparr>"

definition ToModel :: "Event \<Rightarrow> AuditEvent" where
  "ToModel e =
     \<lparr> ae_ID = 0, ae_ActorUserID = ev_ActorUserID e, ae_ActorType = ev_ActorType e,
       ae_Action = ev_Action e, ae_ResourceType = ev_ResourceType e,
       ae_ResourceID = (if ev_ResourceID e \<noteq> [] then Some (ev_ResourceID e) else None),
       ae_IP = ev_IP e, ae_UserAgent = ev_UserAgent e,
       ae_Metadata = cloneMetadata (ev_Metadata e), ae_CreatedAt = ev_CreatedAt e \<rparr>"

definition RepositoryWrite :: "gotime \<Rightarrow> Event \<Rightarrow> Memory \<Rightarrow> repo_error option \<times> Memory" where
  "RepositoryWrite now e m =
     (case CreateAuditEvent now (ToModel e) m of
        (Inl err, m1) \<Rightarrow> (Some err, m1)
      | (Inr row, m1) \<Rightarrow> (None, m1))"

definition writeAudit :: "gotime \<Rightarrow> request \<Rightarrow> Event \<Rightarrow> Memory \<Rightarrow> repo_error option \<times> Memory" where
  "writeAudit now r e0 m =
     (let e1 = e0\<lparr> ev_ActorType := ''system'' \<rparr>;
          e2 = (case SessionFromContext r of
                  Some s \<Rightarrow> e1\<lparr> ev_ActorType := ActorType s, ev_ActorUserID := Some (user_ID (asn_User s)) \<rparr>
                | None \<Rightarrow> e1);
          e3 = e2\<lparr> ev_IP := requestIP r, ev_UserAgent := UserAgent r \<rparr>
      in RepositoryWrite now e3 m)"

text \<open>The end of every changing handler: write the event, then answer.\<close>

definition audited ::
    "gotime \<Rightarrow> request \<Rightarrow> Event \<Rightarrow> string \<Rightarrow> 'a http_response \<Rightarrow> Memory \<Rightarrow> 'a handler_result" where
  "audited now r e failure ok m =
     (case writeAudit now r e m of
        (Some err, m1) \<Rightarrow> (Error StatusInternalServerError ''AUDIT_WRITE_FAILED'' failure, m1)
      | (None, m1) \<Rightarrow> (ok, m1))"

section \<open>The steps of a handler\<close>

text \<open>
  The early returns the handlers share, in the order they take them: the body has to decode
  (\<open>decoded\<close>), a validation may answer 400 (\<open>checked\<close>), and a repository call either fails,
  which is answered at once, or its result goes on (\<open>respond\<close>). \<open>not_found_as\<close> is the
  \<^verbatim>\<open>errors.Is(err, repository.ErrNotFound)\<close> test in front of the other error answers.
\<close>

definition invalid_json :: "'a http_response" where
  "invalid_json = Error StatusBadRequest ''INVALID_JSON'' ''invalid JSON body''"

definition decoded :: "'b option \<Rightarrow> Memory \<Rightarrow> ('b \<Rightarrow> 'a handler_result) \<Rightarrow> 'a handler_result" where
  "decoded body m k = (case body of None \<Rightarrow> (invalid_json, m) | Some b \<Rightarrow> k b)"

definition checked :: "string option \<Rightarrow> string \<Rightarrow> Memory \<Rightarrow> 'a handler_result \<Rightarrow> 'a handler_result" where
  "checked problem code m k =
     (case problem of Some msg \<Rightarrow> (Error StatusBadRequest code msg, m) | None \<Rightarrow> k)"

definition respond ::
    "'b repo_result \<Rightarrow> (repo_error \<Rightarrow> 'a http_response) \<Rightarrow> ('b \<Rightarrow> Memory \<Rightarrow> 'a handler_result) \<Rightarrow>
       'a handler_result" where
  "respond res err k = (case res of (Inl e, m1) \<Rightarrow> (err e, m1) | (Inr x, m1) \<Rightarrow> k x m1)"

definition listed ::
    "(repo_error + 'b) \<Rightarrow> string \<Rightarrow> string \<Rightarrow> ('b \<Rightarrow> 'a) \<Rightarrow> Memory \<Rightarrow> 'a handler_result" where
  "listed res code msg f m =
     (case res of Inl e \<Rightarrow> (Error StatusInternalServerError code msg, m)
                | Inr x \<Rightarrow> (JSON StatusOK (f x), m))"

definition with_method :: "string \<Rightarrow> request \<Rightarrow> Memory \<Rightarrow> 'a handler_result \<Rightarrow> 'a handler_result" where
  "with_method method r m k =
     (case require_method method r of Some resp \<Rightarrow> (resp, m) | None \<Rightarrow> k)"

section \<open>Errors\<close>

fun error_text :: "repo_error \<Rightarrow> string" where
  "error_text ErrNotFound = ''not found''"
| "error_text ErrConflict = ''conflict''"
| "error_text (ErrMsg msg) = msg"

definition bad_request :: "string \<Rightarrow> repo_error \<Rightarrow> 'a http_response" where
  "bad_request code e = Error StatusBadRequest code (error_text e)"

definition server_error :: "string \<Rightarrow> string \<Rightarrow> repo_error \<Rightarrow> 'a http_response" where
  "server_error code msg e = Error StatusInternalServerError code msg"

definition not_found_as ::
    "string \<Rightarrow> string \<Rightarrow> (repo_error \<Rightarrow> 'a http_response) \<Rightarrow> repo_error \<Rightarrow> 'a http_response" where
  "not_found_as code msg other e =
     (if e = ErrNotFound then Error StatusNotFound code msg else other e)"

definition defaultTrue :: "bool option \<Rightarrow> bool" where
  "defaultTrue v = (case v of None \<Rightarrow> True | Some b \<Rightarrow> b)"

fun oneOf :: "string \<Rightarrow> string list \<Rightarrow> bool" where
  "oneOf v [] = False"
| "oneOf v (x # xs) = (v = x \<or> oneOf v xs)"

lemma oneOf_iff [simp]: "oneOf v xs \<longleftrightarrow> v \<in> set xs"
  by (induction xs) auto

section \<open>Facts\<close>

text \<open>The row a request with a given context leaves in the audit log.\<close>

definition audit_row :: "gotime \<Rightarrow> request \<Rightarrow> Event \<Rightarrow> int \<Rightarrow> AuditEvent" where
  "audit_row now r e i =
     (ToModel (e\<lparr> ev_ActorType := (case Context r of None \<Rightarrow> ''system'' | Some s \<Rightarrow> ActorType s),
                 ev_ActorUserID := (case Context r of None \<Rightarrow> ev_ActorUserID e
                                    | Some s \<Rightarrow> Some (user_ID (asn_User s))),
                 ev_IP := requestIP r, ev_UserAgent := UserAgent r \<rparr>))
       \<lparr> ae_ID := i, ae_CreatedAt := (if IsZero (ev_CreatedAt e) then now else ev_CreatedAt e) \<rparr>"

lemma cloneMetadata_idem [simp]: "cloneMetadata (cloneMetadata md) = cloneMetadata md"
  by (simp add: cloneMetadata_def split: option.split)

lemma writeAudit_eq:
  "writeAudit now r e m =
     (None, m\<lparr> nextID := nextID m + 1, auditEvents := audit_row now r e (nextID m + 1) # auditEvents m \<rparr>)"
  by (simp add: writeAudit_def RepositoryWrite_def CreateAuditEvent_def Let_def ToModel_def
      audit_row_def SessionFromContext_def split: option.split)

lemma audited_eq:
  "audited now r e failure ok m =
     (ok, m\<lparr> nextID := nextID m + 1, auditEvents := audit_row now r e (nextID m + 1) # auditEvents m \<rparr>)"
  by (simp add: audited_def writeAudit_eq)

lemma audit_row_fields [simp]:
  "ae_Action (audit_row now r (event a t i md) n) = a"
  "ae_ResourceType (audit_row now r (event a t i md) n) = t"
  "ae_ActorUserID (audit_row now r (event a t i md) n) = map_option (\<lambda>s. user_ID (asn_User s)) (Context r)"
  "ae_IP (audit_row now r (event a t i md) n) = requestIP r"
  by (simp_all add: audit_row_def ToModel_def event_def split: option.split)

text \<open>
  The contract of a handler: an error answer leaves the repository as it is, and any other
  answer either leaves it as it is or adds exactly one audit row, which names the session's
  user and the caller's address.
\<close>

definition accounted :: "request \<Rightarrow> Memory \<Rightarrow> 'a handler_result \<Rightarrow> bool" where
  "accounted r m res \<longleftrightarrow>
     snd res = m \<or>
     status_of (fst res) < 400 \<and>
       (\<exists>e. auditEvents (snd res) = e # auditEvents m \<and>
            ae_ActorUserID e = map_option (\<lambda>s. user_ID (asn_User s)) (Context r) \<and>
            ae_IP e = requestIP r)"

lemma accounted_same [simp, intro]: "accounted r m (resp, m)"
  by (simp add: accounted_def)

lemma accounted_audited [intro]:
  "auditEvents m1 = auditEvents m \<Longrightarrow> status_of ok < 400 \<Longrightarrow>
     accounted r m (audited now r (event a t i md) failure ok m1)"
  by (auto simp: accounted_def audited_eq)

text \<open>
  A repository operation as the handlers rely on it: an error leaves the repository as it is,
  and a success does not touch the audit log.
\<close>

definition clean_op :: "Memory \<Rightarrow> 'b repo_result \<Rightarrow> bool" where
  "clean_op m res \<longleftrightarrow>
     (case fst res of Inl e \<Rightarrow> snd res = m | Inr x \<Rightarrow> auditEvents (snd res) = auditEvents m)"

lemma accounted_decoded [intro]:
  "(\<And>b. body = Some b \<Longrightarrow> accounted r m (k b)) \<Longrightarrow> accounted r m (decoded body m k)"
  by (cases body) (auto simp: decoded_def)

lemma accounted_checked [intro]:
  "accounted r m k \<Longrightarrow> accounted r m (checked problem code m k)"
  by (cases problem) (auto simp: checked_def)

lemma accounted_listed [simp, intro]: "accounted r m (listed res code msg f m)"
  by (cases res) (auto simp: listed_def)

lemma accounted_method [intro]:
  "accounted r m k \<Longrightarrow> accounted r m (with_method method r' m k)"
  by (cases "require_method method r' :: 'a http_response option")
     (auto simp: with_method_def)

lemma accounted_respond [intro]:
  assumes "clean_op m res"
    and "\<And>x m1. auditEvents m1 = auditEvents m \<Longrightarrow> accounted r m (k x m1)"
  shows "accounted r m (respond res err k)"
proof (cases res)
  case (Pair x m1)
  then show ?thesis using assms by (cases x) (auto simp: clean_op_def respond_def)
qed

lemma accounted_if [intro]:
  "accounted r m a \<Longrightarrow> accounted r m b \<Longrightarrow> accounted r m (if c then a else b)"
  by simp

lemmas accounted_intros =
  accounted_same accounted_audited accounted_decoded accounted_checked accounted_listed
  accounted_method accounted_respond accounted_if

text \<open>From the kind of a result to its value, for results known only by evaluation.\<close>

lemma JSON_result:
  "(case fst x of JSON n p \<Rightarrow> n = k | Error n c msg \<Rightarrow> False) \<Longrightarrow> \<exists>p. x = (JSON k p, snd x)"
  by (cases x) (auto split: http_response.splits)

lemma Inr_result: "isl (fst x) = False \<Longrightarrow> \<exists>s. x = (Inr s, snd x)"
  by (cases x; cases "fst x") auto

end
