(* ===== verification/Memory_Devices.thy ===== *)
theory Memory_Devices
  imports Memory_Core
begin

text \<open>
  The device part of the in-memory repository: devices, device groups and address books
  (\<^verbatim>\<open>DeviceRepository\<close> and \<^verbatim>\<open>AddressBookRepository\<close> in \<^verbatim>\<open>interfaces.go\<close>).
\<close>

section \<open>Devices\<close>

definition ListDevices :: "Memory \<Rightarrow> repo_error + Device list" where
  "ListDevices m = Inr (devices m)"

definition CreateDevice :: "gotime \<Rightarrow> Device \<Rightarrow> Memory \<Rightarrow> Device repo_result" where
  "CreateDevice now device m =
     (if dev_RustDeskID device = [] \<or> dev_Name device = []
      then (Inl (ErrMsg ''rustdesk_id and name are required''), m)
      else let next = nextID m + 1;
               d = device\<lparr> dev_ID := next,
                           dev_Status := (if dev_Status device = [] then DeviceStatusOffline
                                          else dev_Status device),
                           dev_CreatedAt := now, dev_UpdatedAt := now \<rparr>
           in (Inr d, m\<lparr> nextID := next, devices := devices m @ [d] \<rparr>))"

definition FindDeviceByID :: "int \<Rightarrow> Memory \<Rightarrow> repo_error + Device" where
  "FindDeviceByID i m =
     (case find (\<lambda>d. dev_ID d = i) (devices m) of
        Some d \<Rightarrow> Inr d
      | None \<Rightarrow> Inl ErrNotFound)"

definition UpdateDevice :: "gotime \<Rightarrow> int \<Rightarrow> Device \<Rightarrow> Memory \<Rightarrow> Device repo_result" where
  "UpdateDevice now i device m =
     (if TrimSpace (dev_RustDeskID device) = [] \<or> TrimSpace (dev_Name device) = []
      then (Inl (ErrMsg ''rustdesk_id and name are required''), m)
      else (case update_row (\<lambda>d. dev_ID d = i)
              (\<lambda>d. d\<lparr> dev_RustDeskID := TrimSpace (dev_RustDeskID device),
                      dev_Name := TrimSpace (dev_Name device),
                      dev_Alias := TrimSpace (dev_Alias device),
                      dev_OwnerUserID := dev_OwnerUserID device,
                      dev_Status := (if dev_Status device \<noteq> [] then dev_Status device
                                     else dev_Status d),
                      dev_Platform := TrimSpace (dev_Platform device),
                      dev_ClientVersion := TrimSpace (dev_ClientVersion device),
                      dev_OpenDeskClientVersion := TrimSpace (dev_OpenDeskClientVersion device),
                      dev_LastIP := TrimSpace (dev_LastIP device),
                      dev_UpdatedAt := now \<rparr>) (devices m) of
           None \<Rightarrow> (Inl ErrNotFound, m)
         | Some (d, ds) \<Rightarrow> (Inr d, m\<lparr> devices := ds \<rparr>)))"

definition DisableDevice :: "int \<Rightarrow> gotime \<Rightarrow> Memory \<Rightarrow> Device repo_result" where
  "DisableDevice i at m =
     (case update_row (\<lambda>d. dev_ID d = i)
             (\<lambda>d. d\<lparr> dev_Status := DeviceStatusDisabled, dev_UpdatedAt := at \<rparr>) (devices m) of
        None \<Rightarrow> (Inl ErrNotFound, m)
      | Some (d, ds) \<Rightarrow> (Inr d, m\<lparr> devices := ds \<rparr>))"

section \<open>Device groups\<close>

definition ListDeviceGroups :: "Memory \<Rightarrow> repo_error + DeviceGroup list" where
  "ListDeviceGroups m = Inr (deviceGroups m)"

definition CreateDeviceGroup :: "gotime \<Rightarrow> DeviceGroup \<Rightarrow> Memory \<Rightarrow> DeviceGroup repo_result" where
  "CreateDeviceGroup now grp m =
     (if TrimSpace (dg_Name grp) = [] then (Inl (ErrMsg ''name is required''), m)
      else let next = nextID m + 1;
               g = grp\<lparr> dg_ID := next, dg_Name := TrimSpace (dg_Name grp),
                          dg_Description := TrimSpace (dg_Description grp),
                          dg_MemberDeviceIDs := positiveIDs (dg_MemberDeviceIDs grp),
                          dg_CreatedAt := now, dg_UpdatedAt := now \<rparr>
           in (Inr g, m\<lparr> nextID := next, deviceGroups := deviceGroups m @ [g] \<rparr>))"

definition ListDeviceGroupMembers :: "int \<Rightarrow> Memory \<Rightarrow> repo_error + int list" where
  "ListDeviceGroupMembers gid m =
     (case find (\<lambda>g. dg_ID g = gid) (deviceGroups m) of
        Some g \<Rightarrow> Inr (dg_MemberDeviceIDs g)
      | None \<Rightarrow> Inl ErrNotFound)"

definition AddDeviceGroupMember :: "gotime \<Rightarrow> int \<Rightarrow> int \<Rightarrow> Memory \<Rightarrow> DeviceGroup repo_result" where
  "AddDeviceGroupMember now gid did m =
     (if gid \<le> 0 \<or> did \<le> 0 then (Inl (ErrMsg ''group_id and device_id must be positive''), m)
      else (case update_row (\<lambda>g. dg_ID g = gid)
              (\<lambda>g. if containsInt64 (dg_MemberDeviceIDs g) did then g
                   else g\<lparr> dg_MemberDeviceIDs := sort (dg_MemberDeviceIDs g @ [did]),
                           dg_UpdatedAt := now \<rparr>) (deviceGroups m) of
           None \<Rightarrow> (Inl ErrNotFound, m)
         | Some (g, gs) \<Rightarrow> (Inr g, m\<lparr> deviceGroups := gs \<rparr>)))"

definition RemoveDeviceGroupMember :: "gotime \<Rightarrow> int \<Rightarrow> int \<Rightarrow> Memory \<Rightarrow> DeviceGroup repo_result" where
  "RemoveDeviceGroupMember now gid did m =
     (if gid \<le> 0 \<or> did \<le> 0 then (Inl (ErrMsg ''group_id and device_id must be positive''), m)
      else (case update_row (\<lambda>g. dg_ID g = gid)
              (\<lambda>g. g\<lparr> dg_MemberDeviceIDs := removeInt64 (dg_MemberDeviceIDs g) did,
                      dg_UpdatedAt := now \<rparr>) (deviceGroups m) of
           None \<Rightarrow> (Inl ErrNotFound, m)
         | Some (g, gs) \<Rightarrow> (Inr g, m\<lparr> deviceGroups := gs \<rparr>)))"

section \<open>Address books\<close>

definition ListAddressBooks :: "Memory \<Rightarrow> repo_error + AddressBook list" where
  "ListAddressBooks m = Inr (addressBooks m)"

text \<open>The loop over \<^verbatim>\<open>book.Entries\<close>: each entry takes the next identifier.\<close>

fun number_entries :: "gotime \<Rightarrow> int \<Rightarrow> int \<Rightarrow> AddressBookEntry list \<Rightarrow> AddressBookEntry list \<times> int" where
  "number_entries now bid next [] = ([], next)"
| "number_entries now bid next (e # es) =
     (let next1 = next + 1;
          e1 = e\<lparr> abe_ID := next1, abe_AddressBookID := bid, abe_Alias := TrimSpace (abe_Alias e),
                  abe_CreatedAt := now \<rparr>;
          (es1, next2) = number_entries now bid next1 es
      in (e1 # es1, next2))"

definition CreateAddressBook :: "gotime \<Rightarrow> AddressBook \<Rightarrow> Memory \<Rightarrow> AddressBook repo_result" where
  "CreateAddressBook now book m =
     (if TrimSpace (ab_Name book) = [] then (Inl (ErrMsg ''name is required''), m)
      else if list_ex (\<lambda>e. abe_DeviceID e \<le> 0) (ab_Entries book)
      then (Inl (ErrMsg ''entry device_id must be positive''), m)
      else let next = nextID m + 1;
               (es, next2) = number_entries now next next (ab_Entries book);
               b = book\<lparr> ab_ID := next, ab_Name := TrimSpace (ab_Name book),
                         ab_Description := TrimSpace (ab_Description book),
                         ab_Entries := es, ab_CreatedAt := now, ab_UpdatedAt := now \<rparr>
           in (Inr b, m\<lparr> nextID := next2, addressBooks := addressBooks m @ [b] \<rparr>))"

definition ListAddressBookEntries :: "int \<Rightarrow> Memory \<Rightarrow> repo_error + AddressBookEntry list" where
  "ListAddressBookEntries bid m =
     (case find (\<lambda>b. ab_ID b = bid) (addressBooks m) of
        Some b \<Rightarrow> Inr (ab_Entries b)
      | None \<Rightarrow> Inl ErrNotFound)"

definition AddAddressBookEntry ::
    "gotime \<Rightarrow> int \<Rightarrow> AddressBookEntry \<Rightarrow> Memory \<Rightarrow> AddressBook repo_result" where
  "AddAddressBookEntry now bid entry m =
     (if bid \<le> 0 \<or> abe_DeviceID entry \<le> 0
      then (Inl (ErrMsg ''book_id and device_id must be positive''), m)
      else (case find (\<lambda>b. ab_ID b = bid) (addressBooks m) of
          None \<Rightarrow> (Inl ErrNotFound, m)
        | Some b \<Rightarrow>
            if list_ex (\<lambda>e. abe_DeviceID e = abe_DeviceID entry) (ab_Entries b)
            then (Inl (ErrMsg ''address book entry already exists''), m)
            else let next = nextID m + 1;
                     e = entry\<lparr> abe_ID := next, abe_AddressBookID := bid,
                                abe_Alias := TrimSpace (abe_Alias entry), abe_CreatedAt := now \<rparr>;
                     b1 = b\<lparr> ab_Entries := ab_Entries b @ [e], ab_UpdatedAt := now \<rparr>
                 in (Inr b1, m\<lparr> nextID := next,
                               addressBooks := update_first (\<lambda>b. ab_ID b = bid) (\<lambda>_. b1)
                                                 (addressBooks m) \<rparr>)))"

definition RemoveAddressBookEntry :: "gotime \<Rightarrow> int \<Rightarrow> int \<Rightarrow> Memory \<Rightarrow> AddressBook repo_result" where
  "RemoveAddressBookEntry now bid eid m =
     (if bid \<le> 0 \<or> eid \<le> 0 then (Inl (ErrMsg ''book_id and entry_id must be positive''), m)
      else (case find (\<lambda>b. ab_ID b = bid) (addressBooks m) of
          None \<Rightarrow> (Inl ErrNotFound, m)
        | Some b \<Rightarrow>
            if \<not> list_ex (\<lambda>e. abe_ID e = eid) (ab_Entries b) then (Inl ErrNotFound, m)
            else let b1 = b\<lparr> ab_Entries := filter (\<lambda>e. abe_ID e \<noteq> eid) (ab_Entries b),
                             ab_UpdatedAt := now \<rparr>
                 in (Inr b1, m\<lparr> addressBooks := update_first (\<lambda>b. ab_ID b = bid) (\<lambda>_. b1)
                                                  (addressBooks m) \<rparr>)))"

end
