(* ===== verification/Memory_Policies.thy ===== *)
theory Memory_Policies
  imports Memory_Core
begin

text \<open>
  The policy part of the in-memory repository: access rules, control roles and strategies
  (\<^verbatim>\<open>PolicyRepository\<close> in \<^verbatim>\<open>interfaces.go\<close>).
\<close>

section \<open>Access rules\<close>

definition ListAccessRules :: "Memory \<Rightarrow> repo_error + AccessRule list" where
  "ListAccessRules m = Inr (accessRules m)"

definition CreateAccessRule :: "gotime \<Rightarrow> AccessRule \<Rightarrow> Memory \<Rightarrow> AccessRule repo_result" where
  "CreateAccessRule now rule m =
     (if ar_SubjectType rule = [] \<or> ar_SubjectID rule \<le> 0 \<or> ar_TargetType rule = []
         \<or> ar_TargetID rule \<le> 0 \<or> ar_Effect rule = []
      then (Inl (ErrMsg ''subject_type, subject_id, target_type, target_id, and effect are required''), m)
      else let next = nextID m + 1;
               r = rule\<lparr> ar_ID := next, ar_CreatedAt := now, ar_UpdatedAt := now \<rparr>
           in (Inr r, m\<lparr> nextID := next, accessRules := accessRules m @ [r] \<rparr>))"

definition UpdateAccessRule :: "gotime \<Rightarrow> int \<Rightarrow> AccessRule \<Rightarrow> Memory \<Rightarrow> AccessRule repo_result" where
  "UpdateAccessRule now i rule m =
     (if ar_SubjectType rule = [] \<or> ar_SubjectID rule \<le> 0 \<or> ar_TargetType rule = []
         \<or> ar_TargetID rule \<le> 0 \<or> ar_Effect rule = []
      then (Inl (ErrMsg ''subject_type, subject_id, target_type, target_id, and effect are required''), m)
      else (case update_row (\<lambda>r. ar_ID r = i)
              (\<lambda>r. rule\<lparr> ar_ID := i, ar_CreatedAt := ar_CreatedAt r, ar_UpdatedAt := now \<rparr>)
              (accessRules m) of
           None \<Rightarrow> (Inl ErrNotFound, m)
         | Some (r, rs) \<Rightarrow> (Inr r, m\<lparr> accessRules := rs \<rparr>)))"

definition DeleteAccessRule :: "int \<Rightarrow> Memory \<Rightarrow> unit repo_result" where
  "DeleteAccessRule i m =
     (case delete_row (\<lambda>r. ar_ID r = i) (accessRules m) of
        None \<Rightarrow> (Inl ErrNotFound, m)
      | Some rs \<Rightarrow> (Inr (), m\<lparr> accessRules := rs \<rparr>))"

section \<open>Control roles\<close>

definition ListControlRoles :: "Memory \<Rightarrow> repo_error + ControlRole list" where
  "ListControlRoles m = Inr (controlRoles m)"

text \<open>The loop over \<^verbatim>\<open>role.Permissions\<close>: each permission takes the next identifier.\<close>

fun number_permissions ::
    "int \<Rightarrow> int \<Rightarrow> ControlRolePermission list \<Rightarrow> ControlRolePermission list \<times> int" where
  "number_permissions rid next [] = ([], next)"
| "number_permissions rid next (p # ps) =
     (let next1 = next + 1;
          p1 = p\<lparr> crp_ID := next1, crp_RoleID := rid \<rparr>;
          (ps1, next2) = number_permissions rid next1 ps
      in (p1 # ps1, next2))"

definition CreateControlRole :: "gotime \<Rightarrow> ControlRole \<Rightarrow> Memory \<Rightarrow> ControlRole repo_result" where
  "CreateControlRole now role m =
     (if TrimSpace (cr_Name role) = [] then (Inl (ErrMsg ''name is required''), m)
      else let next = nextID m + 1;
               (ps, next2) = number_permissions next next (cr_Permissions role);
               r = role\<lparr> cr_ID := next, cr_CreatedAt := now, cr_UpdatedAt := now,
                         cr_Permissions := ps \<rparr>
           in (Inr r, m\<lparr> nextID := next2, controlRoles := controlRoles m @ [r] \<rparr>))"

definition UpdateControlRole :: "gotime \<Rightarrow> int \<Rightarrow> ControlRole \<Rightarrow> Memory \<Rightarrow> ControlRole repo_result" where
  "UpdateControlRole now i role m =
     (if TrimSpace (cr_Name role) = [] then (Inl (ErrMsg ''name is required''), m)
      else let (ps, next2) = number_permissions i (nextID m) (cr_Permissions role)
           in (case update_row (\<lambda>r. cr_ID r = i)
                 (\<lambda>r. role\<lparr> cr_ID := i, cr_CreatedAt := cr_CreatedAt r, cr_UpdatedAt := now,
                            cr_Permissions := ps \<rparr>) (controlRoles m) of
              None \<Rightarrow> (Inl ErrNotFound, m)
            | Some (r, rs) \<Rightarrow> (Inr r, m\<lparr> nextID := next2, controlRoles := rs \<rparr>)))"

definition DeleteControlRole :: "int \<Rightarrow> Memory \<Rightarrow> unit repo_result" where
  "DeleteControlRole i m =
     (case delete_row (\<lambda>r. cr_ID r = i) (controlRoles m) of
        None \<Rightarrow> (Inl ErrNotFound, m)
      | Some rs \<Rightarrow> (Inr (), m\<lparr> controlRoles := rs \<rparr>))"

section \<open>Strategies\<close>

definition ListStrategies :: "Memory \<Rightarrow> repo_error + Strategy list" where
  "ListStrategies m = Inr (strategies m)"

fun number_assignments ::
    "gotime \<Rightarrow> int \<Rightarrow> int \<Rightarrow> StrategyAssignment list \<Rightarrow> StrategyAssignment list \<times> int" where
  "number_assignments now sid next [] = ([], next)"
| "number_assignments now sid next (a # as) =
     (let next1 = next + 1;
          a1 = a\<lparr> sa_ID := next1, sa_StrategyID := sid, sa_CreatedAt := now \<rparr>;
          (as1, next2) = number_assignments now sid next1 as
      in (a1 # as1, next2))"

definition CreateStrategy :: "gotime \<Rightarrow> Strategy \<Rightarrow> Memory \<Rightarrow> Strategy repo_result" where
  "CreateStrategy now strategy m =
     (if TrimSpace (st_Name strategy) = [] \<or> TrimSpace (st_SettingsJSON strategy) = []
      then (Inl (ErrMsg ''name and settings_json are required''), m)
      else let next = nextID m + 1;
               (as, next2) = number_assignments now next next (st_Assignments strategy);
               s = strategy\<lparr> st_ID := next, st_CreatedAt := now, st_UpdatedAt := now,
                             st_Assignments := as \<rparr>
           in (Inr s, m\<lparr> nextID := next2, strategies := strategies m @ [s] \<rparr>))"

definition UpdateStrategy :: "gotime \<Rightarrow> int \<Rightarrow> Strategy \<Rightarrow> Memory \<Rightarrow> Strategy repo_result" where
  "UpdateStrategy now i strategy m =
     (if TrimSpace (st_Name strategy) = [] \<or> TrimSpace (st_SettingsJSON strategy) = []
      then (Inl (ErrMsg ''name and settings_json are required''), m)
      else let (as, next2) = number_assignments now i (nextID m) (st_Assignments strategy)
           in (case update_row (\<lambda>s. st_ID s = i)
                 (\<lambda>s. strategy\<lparr> st_ID := i, st_CreatedAt := st_CreatedAt s, st_UpdatedAt := now,
                                st_Assignments := as \<rparr>) (strategies m) of
              None \<Rightarrow> (Inl ErrNotFound, m)
            | Some (s, ss) \<Rightarrow> (Inr s, m\<lparr> nextID := next2, strategies := ss \<rparr>)))"

definition DeleteStrategy :: "int \<Rightarrow> Memory \<Rightarrow> unit repo_result" where
  "DeleteStrategy i m =
     (case delete_row (\<lambda>s. st_ID s = i) (strategies m) of
        None \<Rightarrow> (Inl ErrNotFound, m)
      | Some ss \<Rightarrow> (Inr (), m\<lparr> strategies := ss \<rparr>))"

definition AddStrategyAssignment ::
    "gotime \<Rightarrow> int \<Rightarrow> StrategyAssignment \<Rightarrow> Memory \<Rightarrow> Strategy repo_result" where
  "AddStrategyAssignment now sid a m =
     (if sa_TargetType a = [] \<or> sa_TargetID a \<le> 0
      then (Inl (ErrMsg ''target_type and target_id are required''), m)
      else let next = nextID m + 1;
               a1 = a\<lparr> sa_ID := next, sa_StrategyID := sid, sa_CreatedAt := now \<rparr>
           in (case update_row (\<lambda>s. st_ID s = sid)
                 (\<lambda>s. s\<lparr> st_Assignments := st_Assignments s @ [a1] \<rparr>) (strategies m) of
              None \<Rightarrow> (Inl ErrNotFound, m)
            | Some (s, ss) \<Rightarrow> (Inr s, m\<lparr> nextID := next, strategies := ss \<rparr>)))"

definition RemoveStrategyAssignment :: "int \<Rightarrow> int \<Rightarrow> Memory \<Rightarrow> Strategy repo_result" where
  "RemoveStrategyAssignment sid aid m =
     (case find (\<lambda>s. st_ID s = sid) (strategies m) of
        None \<Rightarrow> (Inl ErrNotFound, m)
      | Some s \<Rightarrow>
          (case delete_row (\<lambda>a. sa_ID a = aid) (st_Assignments s) of
             None \<Rightarrow> (Inl ErrNotFound, m)
           | Some as \<Rightarrow>
               let s1 = s\<lparr> st_Assignments := as \<rparr>
               in (Inr s1, m\<lparr> strategies := update_first (\<lambda>s. st_ID s = sid) (\<lambda>_. s1)
                                              (strategies m) \<rparr>)))"

end
