(* ===== verification/Memory_Builds.thy ===== *)
theory Memory_Builds
  imports Memory_Core
begin

text \<open>
  The build part of the in-memory repository: build profiles, build jobs and artifacts
  (\<^verbatim>\<open>BuildRepository\<close> in \<^verbatim>\<open>interfaces.go\<close>).
\<close>

section \<open>Build profiles\<close>

definition ListBuildProfiles :: "Memory \<Rightarrow> repo_error + BuildProfile list" where
  "ListBuildProfiles m = Inr (buildProfiles m)"

definition CreateBuildProfile :: "gotime \<Rightarrow> BuildProfile \<Rightarrow> Memory \<Rightarrow> BuildProfile repo_result" where
  "CreateBuildProfile now profile m =
     (if bp_Name profile = [] \<or> bp_AppName profile = [] \<or> bp_BundleID profile = []
      then (Inl (ErrMsg ''name, app_name, and bundle_id are required''), m)
      else let next = nextID m + 1;
               p = profile\<lparr> bp_ID := next, bp_CreatedAt := now, bp_UpdatedAt := now \<rparr>
           in (Inr p, m\<lparr> nextID := next, buildProfiles := buildProfiles m @ [p] \<rparr>))"

definition FindBuildProfileByID :: "int \<Rightarrow> Memory \<Rightarrow> repo_error + BuildProfile" where
  "FindBuildProfileByID i m =
     (case find (\<lambda>p. bp_ID p = i) (buildProfiles m) of
        Some p \<Rightarrow> Inr p
      | None \<Rightarrow> Inl ErrNotFound)"

definition UpdateBuildProfile :: "gotime \<Rightarrow> int \<Rightarrow> BuildProfile \<Rightarrow> Memory \<Rightarrow> BuildProfile repo_result" where
  "UpdateBuildProfile now i profile m =
     (if bp_Name profile = [] \<or> bp_AppName profile = [] \<or> bp_BundleID profile = []
      then (Inl (ErrMsg ''name, app_name, and bundle_id are required''), m)
      else (case update_row (\<lambda>p. bp_ID p = i)
              (\<lambda>p. profile\<lparr> bp_ID := i, bp_CreatedBy := bp_CreatedBy p,
                            bp_CreatedAt := bp_CreatedAt p, bp_UpdatedAt := now \<rparr>)
              (buildProfiles m) of
           None \<Rightarrow> (Inl ErrNotFound, m)
         | Some (p, ps) \<Rightarrow> (Inr p, m\<lparr> buildProfiles := ps \<rparr>)))"

definition DeleteBuildProfile :: "int \<Rightarrow> Memory \<Rightarrow> unit repo_result" where
  "DeleteBuildProfile i m =
     (if list_ex (\<lambda>j. bj_ProfileID j = i) (buildJobs m) then (Inl ErrConflict, m)
      else (case delete_row (\<lambda>p. bp_ID p = i) (buildProfiles m) of
              None \<Rightarrow> (Inl ErrNotFound, m)
            | Some ps \<Rightarrow> (Inr (), m\<lparr> buildProfiles := ps \<rparr>)))"

section \<open>Build jobs\<close>

definition ListBuildJobs :: "Memory \<Rightarrow> repo_error + BuildJob list" where
  "ListBuildJobs m = Inr (buildJobs m)"

definition CreateBuildJob :: "gotime \<Rightarrow> BuildJob \<Rightarrow> Memory \<Rightarrow> BuildJob repo_result" where
  "CreateBuildJob now job m =
     (if bj_ProfileID job \<le> 0 \<or> bj_Platform job = []
      then (Inl (ErrMsg ''profile_id and platform are required''), m)
      else let next = nextID m + 1;
               j = job\<lparr> bj_ID := next,
                        bj_Status := (if bj_Status job = [] then BuildJobQueued else bj_Status job),
                        bj_CreatedAt := now \<rparr>
           in (Inr j, m\<lparr> nextID := next, buildJobs := buildJobs m @ [j] \<rparr>))"

definition FindBuildJobByID :: "int \<Rightarrow> Memory \<Rightarrow> repo_error + BuildJob" where
  "FindBuildJobByID i m =
     (case find (\<lambda>j. bj_ID j = i) (buildJobs m) of
        Some j \<Rightarrow> Inr j
      | None \<Rightarrow> Inl ErrNotFound)"

definition ClaimNextBuildJob :: "string \<Rightarrow> gotime \<Rightarrow> Memory \<Rightarrow> BuildJob repo_result" where
  "ClaimNextBuildJob runner at m =
     (case update_row (\<lambda>j. bj_Status j = BuildJobQueued)
             (\<lambda>j. j\<lparr> bj_Status := BuildJobRunning, bj_Runner := runner, bj_StartedAt := Some at \<rparr>)
             (buildJobs m) of
        None \<Rightarrow> (Inl ErrNotFound, m)
      | Some (j, js) \<Rightarrow> (Inr j, m\<lparr> buildJobs := js \<rparr>))"

definition finishBuildJob ::
    "int \<Rightarrow> BuildJobStatus \<Rightarrow> string \<Rightarrow> string \<Rightarrow> gotime \<Rightarrow> Memory \<Rightarrow> BuildJob repo_result" where
  "finishBuildJob i status logPath message at m =
     (case update_row (\<lambda>j. bj_ID j = i)
             (\<lambda>j. j\<lparr> bj_Status := status, bj_LogPath := logPath, bj_ErrorMessage := message,
                     bj_FinishedAt := Some at \<rparr>) (buildJobs m) of
        None \<Rightarrow> (Inl ErrNotFound, m)
      | Some (j, js) \<Rightarrow> (Inr j, m\<lparr> buildJobs := js \<rparr>))"

definition CompleteBuildJob :: "int \<Rightarrow> string \<Rightarrow> gotime \<Rightarrow> Memory \<Rightarrow> BuildJob repo_result" where
  "CompleteBuildJob i logPath at m = finishBuildJob i BuildJobSucceeded logPath [] at m"

definition FailBuildJob :: "int \<Rightarrow> string \<Rightarrow> string \<Rightarrow> gotime \<Rightarrow> Memory \<Rightarrow> BuildJob repo_result" where
  "FailBuildJob i logPath message at m = finishBuildJob i BuildJobFailed logPath message at m"

definition CancelBuildJob :: "int \<Rightarrow> string \<Rightarrow> gotime \<Rightarrow> Memory \<Rightarrow> BuildJob repo_result" where
  "CancelBuildJob i message at m = finishBuildJob i BuildJobCanceled [] message at m"

section \<open>Build artifacts\<close>

definition CreateBuildArtifact :: "gotime \<Rightarrow> BuildArtifact \<Rightarrow> Memory \<Rightarrow> BuildArtifact repo_result" where
  "CreateBuildArtifact now artifact m =
     (if ba_BuildJobID artifact \<le> 0 \<or> ba_Platform artifact = [] \<or> ba_Filename artifact = []
      then (Inl (ErrMsg ''build_job_id, platform, and filename are required''), m)
      else let next = nextID m + 1;
               a = artifact\<lparr> ba_ID := next, ba_CreatedAt := now \<rparr>
           in (Inr a, m\<lparr> nextID := next, buildArtifacts := buildArtifacts m @ [a] \<rparr>))"

definition ListBuildArtifacts :: "int \<Rightarrow> Memory \<Rightarrow> repo_error + BuildArtifact list" where
  "ListBuildArtifacts jid m = Inr (filter (\<lambda>a. ba_BuildJobID a = jid) (buildArtifacts m))"

definition FindBuildArtifactByID :: "int \<Rightarrow> Memory \<Rightarrow> repo_error + BuildArtifact" where
  "FindBuildArtifactByID i m =
     (case find (\<lambda>a. ba_ID a = i) (buildArtifacts m) of
        Some a \<Rightarrow> Inr a
      | None \<Rightarrow> Inl ErrNotFound)"

end
