(* ===== verification/Memory_Steps.thy ===== *)
theory Memory_Steps
  imports Memory_Users Memory_Devices Memory_Relays Memory_Policies Memory_Logs Memory_Builds
begin

text \<open>
  The in-memory repository as a state machine: one step per call of a mutating method, in
  any order and with any arguments, and the invariants every reachable state has.
\<close>

section \<open>Steps\<close>

inductive mem_step :: "Memory \<Rightarrow> Memory \<Rightarrow> bool" where
  CreateUser: "mem_step m (snd (CreateUser now u m))"
| UpdateUser: "mem_step m (snd (UpdateUser now i u m))"
| DisableUser: "mem_step m (snd (DisableUser i now m))"
| RecordUserLogin: "mem_step m (snd (RecordUserLogin i now m))"
| CreateAPIToken: "mem_step m (snd (CreateAPIToken now t m))"
| RevokeAPIToken: "mem_step m (snd (RevokeAPIToken i now m))"
| RecordAPITokenUsed: "mem_step m (snd (RecordAPITokenUsed i now m))"
| CreateSession: "mem_step m (snd (CreateSession now s m))"
| RevokeSession: "mem_step m (snd (RevokeSession h now m))"
| CreateLoginLog: "mem_step m (snd (CreateLoginLog now l m))"
| CreateUserGroup: "mem_step m (snd (CreateUserGroup now ug m))"
| AddUserGroupMember: "mem_step m (snd (AddUserGroupMember now i j m))"
| RemoveUserGroupMember: "mem_step m (snd (RemoveUserGroupMember now i j m))"
| CreateDevice: "mem_step m (snd (CreateDevice now d m))"
| UpdateDevice: "mem_step m (snd (UpdateDevice now i d m))"
| DisableDevice: "mem_step m (snd (DisableDevice i now m))"
| CreateDeviceGroup: "mem_step m (snd (CreateDeviceGroup now dg m))"
| AddDeviceGroupMember: "mem_step m (snd (AddDeviceGroupMember now i j m))"
| RemoveDeviceGroupMember: "mem_step m (snd (RemoveDeviceGroupMember now i j m))"
| CreateAddressBook: "mem_step m (snd (CreateAddressBook now ab m))"
| AddAddressBookEntry: "mem_step m (snd (AddAddressBookEntry now i e m))"
| RemoveAddressBookEntry: "mem_step m (snd (RemoveAddressBookEntry now i j m))"
| CreateRelay: "mem_step m (snd (CreateRelay now r m))"
| UpdateRelay: "mem_step m (snd (UpdateRelay now i r m))"
| RelayHeartbeat: "mem_step m (snd (RelayHeartbeat now i cs status m))"
| DisableRelay: "mem_step m (snd (DisableRelay i now m))"
| CreateRelayGrant: "mem_step m (snd (CreateRelayGrant now g m))"
| UpdateRelayGrantStatus: "mem_step m (snd (UpdateRelayGrantStatus gid status usedAt m))"
| CreateAccessRule: "mem_step m (snd (CreateAccessRule now ar m))"
| UpdateAccessRule: "mem_step m (snd (UpdateAccessRule now i ar m))"
| DeleteAccessRule: "mem_step m (snd (DeleteAccessRule i m))"
| CreateControlRole: "mem_step m (snd (CreateControlRole now cr m))"
| UpdateControlRole: "mem_step m (snd (UpdateControlRole now i cr m))"
| DeleteControlRole: "mem_step m (snd (DeleteControlRole i m))"
| CreateStrategy: "mem_step m (snd (CreateStrategy now st m))"
| UpdateStrategy: "mem_step m (snd (UpdateStrategy now i st m))"
| DeleteStrategy: "mem_step m (snd (DeleteStrategy i m))"
| AddStrategyAssignment: "mem_step m (snd (AddStrategyAssignment now i sa m))"
| RemoveStrategyAssignment: "mem_step m (snd (RemoveStrategyAssignment i j m))"
| CreateAuditEvent: "mem_step m (snd (CreateAuditEvent now ae m))"
| CreateConnectionLog: "mem_step m (snd (CreateConnectionLog now cl m))"
| UpsertSystemSettings: "mem_step m (snd (UpsertSystemSettings now ss by m))"
| CreateBuildProfile: "mem_step m (snd (CreateBuildProfile now bp m))"
| UpdateBuildProfile: "mem_step m (snd (UpdateBuildProfile now i bp m))"
| DeleteBuildProfile: "mem_step m (snd (DeleteBuildProfile i m))"
| CreateBuildJob: "mem_step m (snd (CreateBuildJob now bj m))"
| ClaimNextBuildJob: "mem_step m (snd (ClaimNextBuildJob runner now m))"
| CompleteBuildJob: "mem_step m (snd (CompleteBuildJob i path now m))"
| FailBuildJob: "mem_step m (snd (FailBuildJob i path msg now m))"
| CancelBuildJob: "mem_step m (snd (CancelBuildJob i msg now m))"
| CreateBuildArtifact: "mem_step m (snd (CreateBuildArtifact now ba m))"

lemmas user_op_defs =
  CreateUser_def UpdateUser_def DisableUser_def RecordUserLogin_def CreateAPIToken_def
  RevokeAPIToken_def RecordAPITokenUsed_def CreateSession_def RevokeSession_def
  CreateLoginLog_def CreateUserGroup_def AddUserGroupMember_def RemoveUserGroupMember_def

lemmas device_op_defs =
  CreateDevice_def UpdateDevice_def DisableDevice_def CreateDeviceGroup_def
  AddDeviceGroupMember_def RemoveDeviceGroupMember_def CreateAddressBook_def
  AddAddressBookEntry_def RemoveAddressBookEntry_def

lemmas relay_op_defs =
  CreateRelay_def UpdateRelay_def RelayHeartbeat_def DisableRelay_def CreateRelayGrant_def
  UpdateRelayGrantStatus_def

lemmas policy_op_defs =
  CreateAccessRule_def UpdateAccessRule_def DeleteAccessRule_def CreateControlRole_def
  UpdateControlRole_def DeleteControlRole_def CreateStrategy_def UpdateStrategy_def
  DeleteStrategy_def AddStrategyAssignment_def RemoveStrategyAssignment_def

lemmas log_op_defs = CreateAuditEvent_def CreateConnectionLog_def

lemmas build_op_defs =
  CreateBuildProfile_def UpdateBuildProfile_def DeleteBuildProfile_def CreateBuildJob_def
  ClaimNextBuildJob_def CompleteBuildJob_def FailBuildJob_def CancelBuildJob_def
  finishBuildJob_def CreateBuildArtifact_def

lemmas repo_op_defs =
  user_op_defs device_op_defs relay_op_defs policy_op_defs log_op_defs build_op_defs

lemmas repo_op_splits = if_splits option.splits prod.splits

text \<open>The settings loop changes nothing but the settings.\<close>

lemma UpsertSystemSettings_frame:
  "\<exists>s. snd (UpsertSystemSettings now ss by m) = m\<lparr> settings := s \<rparr>"
proof (induction now ss "by" m rule: UpsertSystemSettings.induct)
  case (1 now updatedBy m)
  show ?case by (rule exI [of _ "settings m"]) simp
next
  case (2 now s ss updatedBy m)
  show ?case
  proof (cases "TrimSpace (ss_Key s) = [] \<or> TrimSpace (ss_ValueJSON s) = []")
    case True
    then show ?thesis by (intro exI [of _ "settings m"]) (auto simp: Let_def)
  next
    case False
    then show ?thesis using 2 [OF refl] by (auto simp: Let_def)
  qed
qed

section \<open>Reachable states\<close>

inductive mem_reach :: "Memory \<Rightarrow> Memory \<Rightarrow> bool" for m0 where
  start: "mem_reach m0 m0"
| step: "mem_reach m0 m \<Longrightarrow> mem_step m m' \<Longrightarrow> mem_reach m0 m'"

lemma mem_reach_trans: "mem_reach b c \<Longrightarrow> mem_reach a b \<Longrightarrow> mem_reach a c"
  by (induction rule: mem_reach.induct) (auto intro: mem_reach.step)

section \<open>Identifiers\<close>

definition ids_ok :: "int \<Rightarrow> int list \<Rightarrow> bool" where
  "ids_ok n is \<longleftrightarrow> distinct is \<and> (\<forall>i \<in> set is. 0 < i \<and> i \<le> n)"

definition table_ids :: "Memory \<Rightarrow> int list list" where
  "table_ids m =
     [map user_ID (users m), map tok_ID (apiTokens m), map ses_ID (sessions m),
      map ug_ID (userGroups m), map dev_ID (devices m), map dg_ID (deviceGroups m),
      map ab_ID (addressBooks m), map rel_ID (relays m), map rg_ID (relayGrants m),
      map ar_ID (accessRules m), map cr_ID (controlRoles m), map st_ID (strategies m),
      map ae_ID (auditEvents m), map ll_ID (loginLogs m), map cl_ID (connectionLogs m),
      map bp_ID (buildProfiles m), map bj_ID (buildJobs m), map ba_ID (buildArtifacts m)]"

definition ids_inv :: "Memory \<Rightarrow> bool" where
  "ids_inv m \<longleftrightarrow> 0 \<le> nextID m \<and> list_all (ids_ok (nextID m)) (table_ids m)"

lemma ids_ok_Nil [simp]: "ids_ok n []"
  by (simp add: ids_ok_def)

lemma ids_ok_mono: "ids_ok n is \<Longrightarrow> n \<le> k \<Longrightarrow> ids_ok k is"
  by (auto simp: ids_ok_def)

lemma ids_ok_Suc [simp]: "ids_ok n is \<Longrightarrow> ids_ok (n + 1) is"
  by (rule ids_ok_mono) auto

lemma ids_ok_snoc [simp]: "0 \<le> n \<Longrightarrow> ids_ok n is \<Longrightarrow> ids_ok (n + 1) (is @ [n + 1])"
  by (force simp: ids_ok_def)

lemma ids_ok_Cons [simp]: "0 \<le> n \<Longrightarrow> ids_ok n is \<Longrightarrow> ids_ok (n + 1) ((n + 1) # is)"
  by (force simp: ids_ok_def)

lemma ids_ok_delete [simp]: "ids_ok n (map k xs) \<Longrightarrow> ids_ok n (map k (delete_first P xs))"
  using set_delete_first [of P xs] by (auto simp: ids_ok_def distinct_map_delete_first)

lemma ids_ok_snoc_mono:
  "0 \<le> n \<Longrightarrow> ids_ok n is \<Longrightarrow> n + 1 \<le> k \<Longrightarrow> ids_ok k (is @ [n + 1])"
  by (rule ids_ok_mono [OF ids_ok_snoc])

lemma number_entries_mono: "number_entries now b n es = (es', n') \<Longrightarrow> n \<le> n'"
  by (induction now b n es arbitrary: es' n' rule: number_entries.induct)
     (fastforce simp: Let_def split: prod.splits)+

lemma number_permissions_mono: "number_permissions r n ps = (ps', n') \<Longrightarrow> n \<le> n'"
  by (induction r n ps arbitrary: ps' n' rule: number_permissions.induct)
     (fastforce simp: Let_def split: prod.splits)+

lemma number_assignments_mono: "number_assignments now s n as = (as', n') \<Longrightarrow> n \<le> n'"
  by (induction now s n as arbitrary: as' n' rule: number_assignments.induct)
     (fastforce simp: Let_def split: prod.splits)+

lemmas numbering_mono =
  number_entries_mono number_permissions_mono number_assignments_mono

lemma number_entries_snd [simp]: "snd (number_entries now b n es) = n + int (length es)"
  by (induction now b n es rule: number_entries.induct) (simp_all add: Let_def case_prod_beta)

lemma number_permissions_snd [simp]: "snd (number_permissions r n ps) = n + int (length ps)"
  by (induction r n ps rule: number_permissions.induct) (simp_all add: Let_def case_prod_beta)

lemma number_assignments_snd [simp]: "snd (number_assignments now s n as) = n + int (length as)"
  by (induction now s n as rule: number_assignments.induct) (simp_all add: Let_def case_prod_beta)

lemma map_key_update_first [simp]:
  "(\<And>x. k (f x) = i) \<Longrightarrow> map k (update_first (\<lambda>x. k x = i) f xs) = map k xs"
  by (rule map_update_first) simp

lemma map_update_first_const [simp]:
  "find P xs = Some b \<Longrightarrow> k y = k b \<Longrightarrow> map k (update_first P (\<lambda>_. y) xs) = map k xs"
  by (induction xs) (auto split: if_splits)

lemma ids_inv_later: "ids_inv m \<Longrightarrow> nextID m \<le> k \<Longrightarrow> list_all (ids_ok k) (table_ids m)"
  by (auto simp: ids_inv_def list_all_iff intro: ids_ok_mono)

lemmas step_simps = repo_op_defs update_row_def delete_row_def Let_def case_prod_beta

lemmas ids_step_defs = step_simps ids_inv_def table_ids_def

lemma mem_step_ids: "mem_step m m' \<Longrightarrow> ids_inv m \<Longrightarrow> ids_inv m' \<and> nextID m \<le> nextID m'"
proof (induction rule: mem_step.induct)
  case (UpsertSystemSettings m now ss by')
  then show ?case
    using UpsertSystemSettings_frame [of now ss by' m] by (auto simp: ids_inv_def table_ids_def)
next
  case (CreateControlRole m now cr)
  then show ?case
    using ids_inv_later [OF CreateControlRole, of "nextID m + 1 + int (length (cr_Permissions cr))"]
    by (simp add: ids_step_defs ids_ok_snoc_mono)
next
  case (CreateAddressBook m now ab)
  then show ?case
    using ids_inv_later [OF CreateAddressBook, of "nextID m + 1 + int (length (ab_Entries ab))"]
    by (simp add: ids_step_defs ids_ok_snoc_mono)
next
  case (CreateStrategy m now st)
  then show ?case
    using ids_inv_later [OF CreateStrategy, of "nextID m + 1 + int (length (st_Assignments st))"]
    by (simp add: ids_step_defs ids_ok_snoc_mono)
next
  case (UpdateStrategy m now i st)
  then show ?case
    using ids_inv_later [OF UpdateStrategy, of "nextID m + int (length (st_Assignments st))"]
    by (simp add: ids_step_defs split: option.split)
next
  case (UpdateControlRole m now i cr)
  then show ?case
    using ids_inv_later [OF UpdateControlRole, of "nextID m + int (length (cr_Permissions cr))"]
    by (simp add: ids_step_defs split: option.split)
qed (simp_all add: ids_step_defs split: option.split)

lemma mem_reach_ids: "mem_reach m0 m \<Longrightarrow> ids_inv m0 \<Longrightarrow> ids_inv m \<and> nextID m0 \<le> nextID m"
  by (induction rule: mem_reach.induct) (use mem_step_ids order_trans in blast)+

lemma ids_inv_initial: "ids_inv (NewMemoryWithInitialAdmin now email h)"
  by (simp add: ids_inv_def table_ids_def ids_ok_def NewMemoryWithInitialAdmin_def Let_def
      newMemoryWithUsersAndNext_def)

section \<open>Append-only tables\<close>

definition logs_extend :: "Memory \<Rightarrow> Memory \<Rightarrow> bool" where
  "logs_extend m m' \<longleftrightarrow>
     suffix (auditEvents m) (auditEvents m') \<and> suffix (loginLogs m) (loginLogs m') \<and>
     suffix (connectionLogs m) (connectionLogs m') \<and> fileTransfers m' = fileTransfers m"

lemma logs_extend_refl [simp]: "logs_extend m m"
  by (simp add: logs_extend_def)

lemma logs_extend_trans: "logs_extend a b \<Longrightarrow> logs_extend b c \<Longrightarrow> logs_extend a c"
  by (auto simp: logs_extend_def intro: suffix_order.trans)

lemma mem_step_logs: "mem_step m m' \<Longrightarrow> logs_extend m m'"
proof (induction rule: mem_step.induct)
  case (UpsertSystemSettings m now ss by')
  then show ?case
    using UpsertSystemSettings_frame [of now ss by' m] by (auto simp: logs_extend_def)
qed (simp_all add: step_simps logs_extend_def suffix_ConsI split: option.split)

lemma mem_reach_logs: "mem_reach m0 m \<Longrightarrow> logs_extend m0 m"
  by (induction rule: mem_reach.induct) (use mem_step_logs logs_extend_trans in auto)

section \<open>Revocation is permanent\<close>

definition revoked_kept :: "Memory \<Rightarrow> Memory \<Rightarrow> bool" where
  "revoked_kept m m' \<longleftrightarrow>
     (\<forall>s \<in> set (sessions m). ses_RevokedAt s \<noteq> None \<longrightarrow> s \<in> set (sessions m')) \<and>
     (\<forall>t \<in> set (apiTokens m). tok_RevokedAt t \<noteq> None \<longrightarrow>
        (\<exists>t' \<in> set (apiTokens m'). tok_ID t' = tok_ID t \<and> tok_TokenHash t' = tok_TokenHash t \<and>
                                 tok_RevokedAt t' \<noteq> None))"

lemma update_first_same: "x \<in> set xs \<Longrightarrow> (P x \<Longrightarrow> f x = x) \<Longrightarrow> x \<in> set (update_first P f xs)"
  by (induction xs) auto

lemma update_first_keeps:
  "x \<in> set xs \<Longrightarrow> Q x \<Longrightarrow> (\<And>y. P y \<Longrightarrow> Q y \<Longrightarrow> Q (f y)) \<Longrightarrow> \<exists>y \<in> set (update_first P f xs). Q y"
  by (induction xs) auto

lemma revoked_kept_refl [simp]: "revoked_kept m m"
  by (auto simp: revoked_kept_def)

lemma revoked_kept_trans: "revoked_kept a b \<Longrightarrow> revoked_kept b c \<Longrightarrow> revoked_kept a c"
  unfolding revoked_kept_def by (metis (no_types, lifting))

lemma revoked_kept_same:
  "sessions m' = sessions m \<Longrightarrow> apiTokens m' = apiTokens m \<Longrightarrow> revoked_kept m m'"
  by (auto simp: revoked_kept_def)

lemma revoked_kept_update:
  assumes "\<And>t. tok_ID (f t) = tok_ID t" "\<And>t. tok_TokenHash (f t) = tok_TokenHash t"
    and "\<And>t. tok_RevokedAt t \<noteq> None \<Longrightarrow> tok_RevokedAt (f t) \<noteq> None"
  shows "revoked_kept m (m\<lparr> apiTokens := update_first P f (apiTokens m) \<rparr>)"
proof -
  have "\<exists>t' \<in> set (update_first P f (apiTokens m)). tok_ID t' = tok_ID t \<and>
          tok_TokenHash t' = tok_TokenHash t \<and> tok_RevokedAt t' \<noteq> None"
    if "t \<in> set (apiTokens m)" "tok_RevokedAt t \<noteq> None" for t
    by (rule update_first_keeps [OF that(1)]) (use assms that in auto)
  then show ?thesis by (simp add: revoked_kept_def)
qed

lemma mem_step_revoked: "mem_step m m' \<Longrightarrow> revoked_kept m m'"
proof (induction rule: mem_step.induct)
  case (UpsertSystemSettings m now ss by')
  then show ?case
    using UpsertSystemSettings_frame [of now ss by' m] by (auto simp: revoked_kept_def)
next
  case (RevokeSession m h now)
  show ?case
    by (auto simp: RevokeSession_def update_row_def revoked_kept_def split: option.split
        intro!: update_first_same)
next
  case (RevokeAPIToken m i now)
  show ?case unfolding RevokeAPIToken_def update_row_def
    by (simp add: revoked_kept_update split: option.split)
next
  case (RecordAPITokenUsed m i now)
  show ?case unfolding RecordAPITokenUsed_def update_row_def
    by (simp add: revoked_kept_update split: option.split)
next
  case (CreateSession m now s)
  show ?case by (auto simp: CreateSession_def Let_def revoked_kept_def)
next
  case (CreateAPIToken m now t)
  show ?case by (auto simp: CreateAPIToken_def Let_def revoked_kept_def)
qed (rule revoked_kept_same; simp add: step_simps split: option.split)+

lemma mem_reach_revoked: "mem_reach m0 m \<Longrightarrow> revoked_kept m0 m"
  by (induction rule: mem_reach.induct) (use mem_step_revoked revoked_kept_trans in auto)

section \<open>Group members\<close>

definition groups_inv :: "Memory \<Rightarrow> bool" where
  "groups_inv m \<longleftrightarrow>
     list_all (\<lambda>g. distinct (ug_MemberUserIDs g) \<and> list_all ((<) 0) (ug_MemberUserIDs g)) (userGroups m) \<and>
     list_all (\<lambda>g. distinct (dg_MemberDeviceIDs g) \<and> list_all ((<) 0) (dg_MemberDeviceIDs g)) (deviceGroups m)"

lemma list_all_update_first:
  "list_all Q xs \<Longrightarrow> (\<And>x. P x \<Longrightarrow> Q x \<Longrightarrow> Q (f x)) \<Longrightarrow> list_all Q (update_first P f xs)"
  by (induction xs) auto

lemma groups_inv_same:
  "userGroups m' = userGroups m \<Longrightarrow> deviceGroups m' = deviceGroups m \<Longrightarrow> groups_inv m \<Longrightarrow> groups_inv m'"
  by (simp add: groups_inv_def)

lemma mem_step_groups: "mem_step m m' \<Longrightarrow> groups_inv m \<Longrightarrow> groups_inv m'"
proof (induction rule: mem_step.induct)
  case (UpsertSystemSettings m now ss by')
  then show ?case
    using UpsertSystemSettings_frame [of now ss by' m] by (auto simp: groups_inv_def)
next
  case (CreateUserGroup m now ug)
  then show ?case
    by (simp add: CreateUserGroup_def Let_def groups_inv_def) (simp add: list_all_iff)
next
  case (CreateDeviceGroup m now ug)
  then show ?case
    by (simp add: CreateDeviceGroup_def Let_def groups_inv_def) (simp add: list_all_iff)
next
  case (AddUserGroupMember m now i j)
  then show ?case
    by (simp add: AddUserGroupMember_def update_row_def groups_inv_def split: option.split)
       (intro impI allI list_all_update_first; auto simp: list_all_iff)
next
  case (AddDeviceGroupMember m now i j)
  then show ?case
    by (simp add: AddDeviceGroupMember_def update_row_def groups_inv_def split: option.split)
       (intro impI allI list_all_update_first; auto simp: list_all_iff)
next
  case (RemoveUserGroupMember m now i j)
  then show ?case
    by (simp add: RemoveUserGroupMember_def update_row_def groups_inv_def split: option.split)
       (intro impI allI list_all_update_first; auto simp: list_all_iff)
next
  case (RemoveDeviceGroupMember m now i j)
  then show ?case
    by (simp add: RemoveDeviceGroupMember_def update_row_def groups_inv_def split: option.split)
       (intro impI allI list_all_update_first; auto simp: list_all_iff)
qed (erule groups_inv_same [rotated 2]; simp add: step_simps split: option.split)+

lemma mem_reach_groups: "mem_reach m0 m \<Longrightarrow> groups_inv m0 \<Longrightarrow> groups_inv m"
  by (induction rule: mem_reach.induct) (use mem_step_groups in auto)

end
