(* ===== verification/Memory_Properties.thy ===== *)
theory Memory_Properties
  imports Memory_Steps
begin

text \<open>
  What holds of every state of the in-memory repository that the program can reach from its
  start, whatever the handlers call and in whatever order; paging through the logs; and the
  build queue.
\<close>

section \<open>Paging\<close>

lemma pages_cover:
  assumes "0 < n" "length xs \<le> n * k"
  shows "concat (map (\<lambda>i. take n (drop (n * i) xs)) [0..<k]) = xs"
proof -
  have "concat (map (\<lambda>i. take n (drop (n * i) xs)) [0..<j]) = take (n * j) xs" for j
    by (induction j) (simp_all add: take_add [symmetric] add.commute)
  then show ?thesis using assms(2) by simp
qed

lemma paginate_page:
  "0 < n \<Longrightarrow> n \<le> 500 \<Longrightarrow>
     paginate xs (int (n * i)) (int n) = take n (drop (n * i) xs)"
  by (simp add: paginate_take_drop effectiveLimit_def effectiveOffset_def del: of_nat_mult)

section \<open>Build queue\<close>

definition job_taken :: "int \<Rightarrow> Memory \<Rightarrow> bool" where
  "job_taken i m \<longleftrightarrow> list_ex (\<lambda>j. bj_ID j = i \<and> bj_Status j \<noteq> BuildJobQueued) (buildJobs m)"

lemma list_ex_update_first:
  "list_ex Q xs \<Longrightarrow> (\<And>y. P y \<Longrightarrow> Q y \<Longrightarrow> Q (f y)) \<Longrightarrow> list_ex Q (update_first P f xs)"
  by (induction xs) auto

lemma job_taken_same: "buildJobs m' = buildJobs m \<Longrightarrow> job_taken i m' = job_taken i m"
  by (simp add: job_taken_def)

lemma taken_finish: "job_taken i m \<Longrightarrow> st \<noteq> BuildJobQueued \<Longrightarrow>
    job_taken i (snd (finishBuildJob k st p msg at m))"
  by (auto simp: job_taken_def finishBuildJob_def update_row_def split: option.split
      intro: list_ex_update_first)

lemma job_taken_step: "mem_step m m' \<Longrightarrow> job_taken i m \<Longrightarrow> job_taken i m'"
proof (induction rule: mem_step.induct)
  case (UpsertSystemSettings m now ss by')
  then show ?case
    using UpsertSystemSettings_frame [of now ss by' m] by (auto simp: job_taken_def)
next
  case (ClaimNextBuildJob m runner now)
  then show ?case
    by (auto simp: job_taken_def ClaimNextBuildJob_def update_row_def split: option.split
        intro: list_ex_update_first)
next
  case (CompleteBuildJob m k path now)
  then show ?case by (simp add: CompleteBuildJob_def taken_finish)
next
  case (FailBuildJob m k path msg now)
  then show ?case by (simp add: FailBuildJob_def taken_finish)
next
  case (CancelBuildJob m k msg now)
  then show ?case by (simp add: CancelBuildJob_def taken_finish)
qed (simp_all add: step_simps job_taken_def split: option.split)

lemma job_taken_reach: "mem_reach m0 m \<Longrightarrow> job_taken i m0 \<Longrightarrow> job_taken i m"
  by (induction rule: mem_reach.induct) (use job_taken_step in auto)

lemma claimD:
  assumes "ClaimNextBuildJob r t m = (Inr j, m1)"
  shows "\<exists>j0 pre post. buildJobs m = pre @ j0 # post \<and> list_all (\<lambda>x. bj_Status x \<noteq> BuildJobQueued) pre \<and>
     bj_Status j0 = BuildJobQueued \<and>
     j = j0\<lparr> bj_Status := BuildJobRunning, bj_Runner := r, bj_StartedAt := Some t \<rparr> \<and>
     m1 = m\<lparr> buildJobs := pre @ j # post \<rparr>"
proof -
  have split: "\<exists>pre post. xs = pre @ x # post \<and> list_all (\<lambda>x. \<not> P x) pre \<and> P x \<and>
      update_first P f xs = pre @ f x # post" if "find P xs = Some x" for P f x and xs :: "'z list"
    using that
  proof (induction xs)
    case (Cons y ys)
    show ?case
    proof (cases "P y")
      case True
      then show ?thesis using Cons.prems by (intro exI [of _ "[]"] exI [of _ ys]) auto
    next
      case False
      then obtain pre post where "ys = pre @ x # post" "list_all (\<lambda>x. \<not> P x) pre" "P x"
        "update_first P f ys = pre @ f x # post" using Cons by auto
      then show ?thesis using False by (intro exI [of _ "y # pre"] exI [of _ post]) auto
    qed
  qed simp
  obtain j0 where "find (\<lambda>j. bj_Status j = BuildJobQueued) (buildJobs m) = Some j0"
    and j: "j = j0\<lparr> bj_Status := BuildJobRunning, bj_Runner := r, bj_StartedAt := Some t \<rparr>"
    and m1: "m1 = m\<lparr> buildJobs := update_first (\<lambda>j. bj_Status j = BuildJobQueued)
      (\<lambda>j. j\<lparr> bj_Status := BuildJobRunning, bj_Runner := r, bj_StartedAt := Some t \<rparr>) (buildJobs m) \<rparr>"
    using assms by (auto simp: ClaimNextBuildJob_def update_row_def split: option.splits)
  from split [OF this(1), of "\<lambda>j. j\<lparr> bj_Status := BuildJobRunning, bj_Runner := r, bj_StartedAt := Some t \<rparr>"]
  show ?thesis unfolding m1 j by (elim exE conjE, intro exI conjI) (assumption | simp)+
qed

lemma reach_ids:
  "mem_reach (NewMemoryWithInitialAdmin t email h) m \<Longrightarrow> ids_inv m"
  using mem_reach_ids ids_inv_initial by blast

lemma distinct_jobs: "ids_inv m \<Longrightarrow> distinct (map bj_ID (buildJobs m))"
  by (simp add: ids_inv_def table_ids_def ids_ok_def)

lemma not_taken_queued:
  assumes "distinct (map bj_ID (buildJobs m))" "j \<in> set (buildJobs m)" "bj_Status j = BuildJobQueued"
  shows "\<not> job_taken (bj_ID j) m"
  using assms by (auto simp: job_taken_def list_ex_iff distinct_map inj_on_def)

section \<open>A run the witnesses use\<close>

definition wit_start :: Memory where
  "wit_start = NewMemoryWithInitialAdmin 7 '' Root@Example.org '' ''h''"

definition wit_group :: UserGroup where
  "wit_group = \<lparr> ug_ID = 0, ug_Name = ''ops'', ug_Description = [], ug_MemberUserIDs = [1, 0, 1],
                 ug_CreatedAt = 0, ug_UpdatedAt = 0 \<rparr>"

definition wit_job :: BuildJob where
  "wit_job = \<lparr> bj_ID = 0, bj_ProfileID = 1, bj_Platform = ''windows_x64'', bj_Status = [],
               bj_Runner = [], bj_LogPath = [], bj_ErrorMessage = [], bj_CreatedAt = 0,
               bj_StartedAt = None, bj_FinishedAt = None \<rparr>"

definition wit_event :: AuditEvent where
  "wit_event = \<lparr> ae_ID = 0, ae_ActorUserID = Some 1, ae_ActorType = ''user'', ae_Action = ''test'',
                 ae_ResourceType = ''none'', ae_ResourceID = None, ae_IP = [], ae_UserAgent = [],
                 ae_Metadata = None, ae_CreatedAt = 0 \<rparr>"

definition wit_filter :: AuditLogFilter where
  "wit_filter = \<lparr> alf_ActorType = [], alf_Action = ''test'', alf_ResourceType = [], alf_ResourceID = [],
                  alf_From = None, alf_To = None, alf_Limit = 0, alf_Offset = 0 \<rparr>"

definition wit_grouped :: Memory where
  "wit_grouped = snd (CreateUserGroup 8 wit_group wit_start)"

definition wit_queued :: Memory where
  "wit_queued = snd (CreateBuildJob 10 wit_job (snd (CreateBuildJob 9 wit_job wit_start)))"

definition wit_logged :: Memory where
  "wit_logged = snd (CreateAuditEvent 12 wit_event (snd (CreateAuditEvent 11 wit_event wit_start)))"

lemma wit_reach:
  "mem_reach wit_start wit_grouped" "mem_reach wit_start wit_queued" "mem_reach wit_start wit_logged"
  unfolding wit_grouped_def wit_queued_def wit_logged_def
  by (meson mem_reach.intros mem_step.intros)+

section \<open>Properties\<close>



text \<open>
  The logs are append-only: no sequence of repository calls changes or removes an audit,
  login or connection log row, or touches the file-transfer rows.
\<close>

lemma logs_append_only:
  assumes "mem_reach m0 m"
  shows "suffix (auditEvents m0) (auditEvents m) \<and> suffix (loginLogs m0) (loginLogs m) \<and>
     suffix (connectionLogs m0) (connectionLogs m) \<and> fileTransfers m = fileTransfers m0"
  using mem_reach_logs [OF assms] by (simp add: logs_extend_def)

lemma logs_append_only_witness:
  "suffix (auditEvents wit_start) (auditEvents wit_logged) \<and> length (auditEvents wit_logged) = 2"
proof -
  have "length (auditEvents wit_logged) = 2" by code_simp
  then show ?thesis using logs_append_only [OF wit_reach(3)] by simp
qed

text \<open>
  Groups are sets: in every reachable state the member lists of user and device groups
  have no duplicates and only positive identifiers.
\<close>

lemma reachable_groups_sets:
  assumes "mem_reach (NewMemoryWithInitialAdmin t email h) m"
  shows "list_all (\<lambda>g. distinct (ug_MemberUserIDs g) \<and> list_all ((<) 0) (ug_MemberUserIDs g)) (userGroups m) \<and>
     list_all (\<lambda>g. distinct (dg_MemberDeviceIDs g) \<and> list_all ((<) 0) (dg_MemberDeviceIDs g)) (deviceGroups m)"
proof -
  have "groups_inv (NewMemoryWithInitialAdmin t email h)"
    by (simp add: groups_inv_def NewMemoryWithInitialAdmin_def Let_def newMemoryWithUsersAndNext_def)
  then show ?thesis using mem_reach_groups [OF assms] by (simp add: groups_inv_def)
qed

lemma reachable_groups_sets_witness:
  "map ug_MemberUserIDs (userGroups wit_grouped) = [[1]] \<and>
   list_all (\<lambda>g. distinct (ug_MemberUserIDs g)) (userGroups wit_grouped)"
proof -
  have "map ug_MemberUserIDs (userGroups wit_grouped) = [[1]]" by code_simp
  then show ?thesis
    using reachable_groups_sets [OF wit_reach(1) [unfolded wit_start_def]]
    by (simp add: list_all_iff)
qed

text \<open>
  Paging loses nothing: with a page size between 1 and 500, the pages of the audit log
  one after the other are exactly the rows the filter selects, newest first.
\<close>

lemma audit_pages_cover:
  assumes "0 < n" "n \<le> 500" "length (auditEvents m) \<le> n * k"
  shows "concat (map (\<lambda>i. case ListAuditEvents (f\<lparr> alf_Limit := int n, alf_Offset := int (n * i) \<rparr>) m of
                       Inr es \<Rightarrow> es | Inl e \<Rightarrow> []) [0..<k])
       = filter (audit_selected f) (auditEvents m)"
proof -
  have sel: "audit_selected (f\<lparr> alf_Limit := a, alf_Offset := b \<rparr>) = audit_selected f" for a b
    by (simp add: audit_selected_def fun_eq_iff cong: option.case_cong)
  have "length (filter (audit_selected f) (auditEvents m)) \<le> n * k"
    using assms(3) length_filter_le le_trans by blast
  from pages_cover [OF assms(1) this] show ?thesis
    by (simp add: ListAuditEvents_def sel paginate_page [OF assms(1,2)] del: of_nat_mult)
qed



text \<open>
  A cancelled build job can still end as succeeded: the repository finishes a job
  whatever its status is, so the worker's completion overwrites the cancellation.
\<close>

lemma cancelled_job_completes:
  assumes "FindBuildJobByID i m = Inr j"
  shows "\<exists>m1 m2 j1 j2. CancelBuildJob i msg t1 m = (Inr j1, m1) \<and> bj_Status j1 = BuildJobCanceled \<and>
     CompleteBuildJob i path t2 m1 = (Inr j2, m2) \<and> bj_Status j2 = BuildJobSucceeded \<and>
     FindBuildJobByID i m2 = Inr j2"
proof -
  have f: "find (\<lambda>j. bj_ID j = i) (buildJobs m) = Some j"
    using assms by (auto simp: FindBuildJobByID_def split: option.splits)
  have fu: "find (\<lambda>j. bj_ID j = i) (update_first (\<lambda>j. bj_ID j = i) g xs) = Some (g x)"
    if "find (\<lambda>j. bj_ID j = i) xs = Some x" "\<And>j. bj_ID (g j) = bj_ID j" for g x xs
    using that by (induction xs) (auto split: if_splits)
  show ?thesis
    by (simp add: CancelBuildJob_def CompleteBuildJob_def finishBuildJob_def update_row_def f fu
        FindBuildJobByID_def)
qed

lemma cancelled_job_completes_witness:
  "\<exists>m1 m2 j1 j2. CancelBuildJob 101 ''stop'' 30 wit_queued = (Inr j1, m1) \<and>
     bj_Status j1 = BuildJobCanceled \<and> CompleteBuildJob 101 ''log'' 31 m1 = (Inr j2, m2) \<and>
     bj_Status j2 = BuildJobSucceeded"
proof -
  have "\<exists>j. FindBuildJobByID 101 wit_queued = Inr j"
    by (simp add: wit_queued_def CreateBuildJob_def FindBuildJobByID_def wit_job_def
        wit_start_def NewMemoryWithInitialAdmin_def newMemoryWithUsersAndNext_def Let_def)
  then show ?thesis using cancelled_job_completes by meson
qed

text \<open>
  Without the initial administrator the first identifiers collide: the counter starts at
  0 although the demonstration device and relay have identifier 1, so the first device that is
  created gets identifier 1 as well and looking it up finds the demonstration device.
\<close>

lemma first_device_shadowed:
  assumes "CreateDevice t d (NewMemoryWithoutInitialAdmin t0) = (Inr d', m)"
  shows "dev_ID d' = 1 \<and> d' \<in> set (devices m) \<and> \<not> distinct (map dev_ID (devices m)) \<and>
     (\<exists>e. FindDeviceByID 1 m = Inr e \<and> dev_RustDeskID e = ''100000001'')"
  using assms
  by (auto simp: CreateDevice_def NewMemoryWithoutInitialAdmin_def newMemoryWithUsersAndNext_def
      FindDeviceByID_def Let_def split: if_splits option.splits)

definition wit_device :: Device where
  "wit_device = (hd (devices wit_start))\<lparr> dev_RustDeskID := ''200'', dev_Name := ''second'' \<rparr>"

lemma first_device_shadowed_witness:
  "\<exists>d' m. CreateDevice 5 wit_device (NewMemoryWithoutInitialAdmin 4) = (Inr d', m) \<and>
     dev_RustDeskID d' = ''200'' \<and> dev_ID d' = 1 \<and>
     (\<exists>e. FindDeviceByID 1 m = Inr e \<and> dev_RustDeskID e = ''100000001'')"
proof -
  obtain d' m where c: "CreateDevice 5 wit_device (NewMemoryWithoutInitialAdmin 4) = (Inr d', m)"
    and "dev_RustDeskID d' = ''200''"
    by (simp add: CreateDevice_def wit_device_def Let_def)
  then show ?thesis using first_device_shadowed [OF c] by auto
qed

end
