(* ===== verification/Handler_Invariant.thy ===== *)
theory Handler_Invariant
  imports Handler_Core Memory_Properties
begin

text \<open>
  Predicates of the repository that the audit log cannot break pass through the steps handlers
  are made of: the lemmas of the locale reduce a handler to its repository calls. Reachability is
  the first instance: what a handler leaves is reachable by repository calls.
\<close>

locale handler_invariant =
  fixes P :: "Memory \<Rightarrow> bool"
  assumes audit: "P m \<Longrightarrow> P (snd (CreateAuditEvent now e m))"
begin

lemma same: "P m \<Longrightarrow> P (snd (resp, m))"
  by simp

lemma audited: "P m \<Longrightarrow> P (snd (audited now r e failure ok m))"
proof -
  assume "P m"
  have "snd (writeAudit now r e m) = snd (CreateAuditEvent now
     (ToModel (e\<lparr> ev_ActorType := (case Context r of None \<Rightarrow> ''system'' | Some s \<Rightarrow> ActorType s),
                 ev_ActorUserID := (case Context r of None \<Rightarrow> ev_ActorUserID e
                                    | Some s \<Rightarrow> Some (user_ID (asn_User s))),
                 ev_IP := requestIP r, ev_UserAgent := UserAgent r \<rparr>)) m)"
    by (simp add: writeAudit_def RepositoryWrite_def SessionFromContext_def Let_def
        split: option.split prod.split sum.split)
  then have "P (snd (writeAudit now r e m))" using audit [OF \<open>P m\<close>] by simp
  moreover have "snd (audited now r e failure ok m) = snd (writeAudit now r e m)"
    by (simp add: audited_def split: prod.split option.split)
  ultimately show ?thesis by simp
qed

lemma decoded: "P m \<Longrightarrow> (\<And>b. body = Some b \<Longrightarrow> P (snd (k b))) \<Longrightarrow> P (snd (decoded body m k))"
  by (cases body) (simp_all add: decoded_def)

lemma checked: "P m \<Longrightarrow> (problem = None \<Longrightarrow> P (snd k)) \<Longrightarrow> P (snd (checked problem code m k))"
  by (cases problem) (simp_all add: checked_def)

lemma listed: "P m \<Longrightarrow> P (snd (listed res code msg f m))"
  by (cases res) (simp_all add: listed_def)

lemma with_method: "P m \<Longrightarrow> P (snd k) \<Longrightarrow> P (snd (with_method method r m k))"
  by (simp add: with_method_def split: option.split)

lemma respond:
  "P (snd res) \<Longrightarrow> (\<And>x m1. res = (Inr x, m1) \<Longrightarrow> P m1 \<Longrightarrow> P (snd (k x m1))) \<Longrightarrow>
     P (snd (respond res err k))"
  by (cases res; cases "fst res") (simp_all add: respond_def)

lemma cond: "(c \<Longrightarrow> P (snd a)) \<Longrightarrow> (\<not> c \<Longrightarrow> P (snd b)) \<Longrightarrow> P (snd (if c then a else b))"
  by simp

lemmas steps = audited decoded checked listed with_method respond cond

end

lemma mem_reach_audit: "mem_reach m0 m \<Longrightarrow> mem_reach m0 (snd (CreateAuditEvent now e m))"
  using mem_reach.step mem_step.CreateAuditEvent by blast

interpretation reach: handler_invariant "mem_reach m0" for m0
  by unfold_locales (rule mem_reach_audit)

text \<open>A handler that makes one repository call.\<close>

lemma reach_op: "mem_reach m0 m \<Longrightarrow> mem_step m (snd res) \<Longrightarrow> mem_reach m0 (snd res)"
  by (rule mem_reach.step)

end
