(* ===== verification/Relay_Handler.thy ===== *)
theory Relay_Handler
  imports Handler_Core Memory_Relays
begin

text \<open>
  The HTTP handlers of relay nodes (\<^verbatim>\<open>api/internal/relays/handler.go\<close>) and the routes that are
  open without authentication (\<^verbatim>\<open>publicRoute\<close> in \<^verbatim>\<open>api/internal/app/router.go\<close>).
\<close>

section \<open>Routes\<close>

definition publicRoute :: "'c http_request \<Rightarrow> bool" where
  "publicRoute r \<longleftrightarrow>
     (if Path r = ''/api/v1/health'' \<or> Path r = ''/api/v1/ready'' \<or> Path r = ''/api/v1/version''
         \<or> Path r = ''/api/v1/auth/login'' \<or> Path r = ''/api/v1/auth/logout''
         \<or> Path r = ''/api/v1/relay-grants/validate'' \<or> Path r = ''/api/v1/setup/status''
         \<or> Path r = ''/api/v1/setup/admin'' then True
      else HasPrefix (Path r) ''/api/v1/relays/'' \<and> HasSuffix (Path r) ''/heartbeat'')"

definition parseRelayPath :: "string \<Rightarrow> (int \<times> string) option" where
  "parseRelayPath path =
     (let rest = TrimPrefix path ''/api/v1/relays/'';
          parts = Split CHR ''/'' (TrimChar CHR ''/'' rest)
      in if length parts \<noteq> 1 \<and> length parts \<noteq> 2 then None
         else (case ParseInt (parts ! 0) of
             None \<Rightarrow> None
           | Some i \<Rightarrow> if i \<le> 0 then None
                      else if length parts = 1 then Some (i, []) else Some (i, parts ! 1)))"

section \<open>Validation\<close>

definition allowedRelayStatus :: "string \<Rightarrow> bool" where
  "allowedRelayStatus s \<longleftrightarrow> s = ''active'' \<or> s = ''degraded'' \<or> s = ''offline'' \<or> s = ''disabled''"

definition allowedHeartbeatStatus :: "string \<Rightarrow> bool" where
  "allowedHeartbeatStatus s \<longleftrightarrow> s = ''active'' \<or> s = ''degraded'' \<or> s = ''offline''"

definition validateRelayUpdate :: "Relay \<Rightarrow> string option" where
  "validateRelayUpdate relay =
     (if TrimSpace (rel_Name relay) = [] \<or> TrimSpace (rel_Region relay) = [] \<or> TrimSpace (rel_Host relay) = []
      then Some ''name, region, and host are required''
      else if rel_Port relay < 0 \<or> rel_WSPort relay < 0
      then Some ''port and ws_port cannot be negative''
      else if (case rel_MaxBandwidthMbps relay of None \<Rightarrow> False | Some b \<Rightarrow> b < 0)
      then Some ''max_bandwidth_mbps cannot be negative''
      else if rel_Status relay \<noteq> [] \<and> \<not> allowedRelayStatus (rel_Status relay)
      then Some ''status must be active, degraded, offline, or disabled''
      else None)"

section \<open>Handlers\<close>

datatype relay_payload = RelayList "Relay list" | RelayItem Relay

record HeartbeatRequest =
  hb_CurrentSessions :: "int option"
  hb_Status :: string

definition relay_metadata :: "Relay \<Rightarrow> metadata" where
  "relay_metadata r = Some
     [(''name'', AnyString (rel_Name r)), (''region'', AnyString (rel_Region r)),
      (''host'', AnyString (rel_Host r)), (''port'', AnyInt (rel_Port r)),
      (''ws_port'', AnyInt (rel_WSPort r)), (''status'', AnyString (rel_Status r))]"

definition relays_Collection ::
    "(nat \<Rightarrow> gotime) \<Rightarrow> request \<Rightarrow> Relay option \<Rightarrow> Memory \<Rightarrow> relay_payload handler_result" where
  "relays_Collection clk r body m =
     (if Method r = MethodGet
      then listed (ListRelays m) ''LIST_RELAYS_FAILED'' ''list relays failed'' RelayList m
      else if Method r = MethodPost
      then decoded body m (\<lambda>relay.
             respond (CreateRelay (clk 0) relay m) (bad_request ''INVALID_RELAY'') (\<lambda>created m1.
               audited (clk 1) r
                 (event ''create_relay'' ''relay'' (FormatInt (rel_ID created)) (relay_metadata created))
                 ''failed to record relay creation''
                 (JSON StatusCreated (RelayItem created)) m1))
      else (method_not_allowed, m))"

definition relays_update ::
    "(nat \<Rightarrow> gotime) \<Rightarrow> request \<Rightarrow> int \<Rightarrow> Relay option \<Rightarrow> Memory \<Rightarrow> relay_payload handler_result" where
  "relays_update clk r i body m =
     decoded body m (\<lambda>relay.
       checked (validateRelayUpdate relay) ''INVALID_RELAY'' m
         (respond (UpdateRelay (clk 0) i relay m)
            (not_found_as ''RELAY_NOT_FOUND'' ''relay not found'' (bad_request ''INVALID_RELAY''))
            (\<lambda>updated m1.
               audited (clk 1) r
                 (event ''update_relay'' ''relay'' (FormatInt (rel_ID updated)) (relay_metadata updated))
                 ''failed to record relay update'' (JSON StatusOK (RelayItem updated)) m1)))"

definition heartbeat_problem :: "HeartbeatRequest \<Rightarrow> string option" where
  "heartbeat_problem req =
     (if (case hb_CurrentSessions req of None \<Rightarrow> False | Some n \<Rightarrow> n < 0)
      then Some ''current_sessions cannot be negative''
      else if hb_Status req \<noteq> [] \<and> \<not> allowedHeartbeatStatus (hb_Status req)
      then Some ''status must be active, degraded, or offline''
      else None)"

definition relays_heartbeat ::
    "(nat \<Rightarrow> gotime) \<Rightarrow> request \<Rightarrow> int \<Rightarrow> HeartbeatRequest option \<Rightarrow> Memory \<Rightarrow>
       relay_payload handler_result" where
  "relays_heartbeat clk r i body m =
     decoded body m (\<lambda>req.
       checked (heartbeat_problem req) ''INVALID_RELAY_HEARTBEAT'' m
         (respond (RelayHeartbeat (clk 0) i (hb_CurrentSessions req) (hb_Status req) m)
            (not_found_as ''RELAY_NOT_FOUND'' ''relay not found''
               (server_error ''RELAY_HEARTBEAT_FAILED'' ''relay heartbeat failed''))
            (\<lambda>relay m1.
               audited (clk 1) r
                 (event ''relay_heartbeat'' ''relay'' (FormatInt (rel_ID relay))
                    (Some [(''name'', AnyString (rel_Name relay)), (''region'', AnyString (rel_Region relay)),
                           (''status'', AnyString (rel_Status relay)),
                           (''current_sessions'', AnyInt (rel_CurrentSessions relay))]))
                 ''failed to record relay heartbeat'' (JSON StatusOK (RelayItem relay)) m1)))"

definition relays_disable ::
    "(nat \<Rightarrow> gotime) \<Rightarrow> request \<Rightarrow> int \<Rightarrow> Memory \<Rightarrow> relay_payload handler_result" where
  "relays_disable clk r i m =
     respond (DisableRelay i (clk 0) m)
       (not_found_as ''RELAY_NOT_FOUND'' ''relay not found''
          (server_error ''DISABLE_RELAY_FAILED'' ''disable relay failed''))
       (\<lambda>relay m1.
          audited (clk 1) r
            (event ''disable_relay'' ''relay'' (FormatInt (rel_ID relay))
               (Some [(''name'', AnyString (rel_Name relay)), (''region'', AnyString (rel_Region relay)),
                      (''host'', AnyString (rel_Host relay)), (''status'', AnyString (rel_Status relay))]))
            ''failed to record relay disable'' (JSON StatusOK (RelayItem relay)) m1)"

text \<open>\<open>body\<close> and \<open>hb\<close> are the decodings of the body at \<^verbatim>\<open>models.Relay\<close> and \<^verbatim>\<open>HeartbeatRequest\<close>.\<close>

definition relays_Item ::
    "(nat \<Rightarrow> gotime) \<Rightarrow> request \<Rightarrow> Relay option \<Rightarrow> HeartbeatRequest option \<Rightarrow> Memory \<Rightarrow>
       relay_payload handler_result" where
  "relays_Item clk r body hb m =
     (case parseRelayPath (Path r) of
        None \<Rightarrow> (Error StatusNotFound ''NOT_FOUND'' ''relay route not found'', m)
      | Some (i, action) \<Rightarrow>
          if action = [] then with_method MethodPut r m (relays_update clk r i body m)
          else with_method MethodPost r m
            (if action = ''heartbeat'' then relays_heartbeat clk r i hb m
             else if action = ''disable'' then relays_disable clk r i m
             else (Error StatusNotFound ''NOT_FOUND'' ''relay route not found'', m)))"

section \<open>Facts\<close>

lemma relay_ops_clean [simp]:
  "clean_op m (CreateRelay now relay m)" "clean_op m (UpdateRelay now i relay m)"
  "clean_op m (RelayHeartbeat now i cs status m)" "clean_op m (DisableRelay i now m)"
  by (auto simp: clean_op_def CreateRelay_def UpdateRelay_def RelayHeartbeat_def DisableRelay_def
      Let_def split: option.split)

lemma relays_parts_accounted:
  "accounted r m (relays_update clk r i body m)"
  "accounted r m (relays_heartbeat clk r i hb m)"
  "accounted r m (relays_disable clk r i m)"
  unfolding relays_update_def relays_heartbeat_def relays_disable_def
  by (intro accounted_intros relay_ops_clean; simp)+

section \<open>Public routes\<close>

lemma heartbeat_suffix:
  assumes "HasSuffix (''/api/v1/relays/'' @ rest) ''/heartbeat''"
  shows "rest = ''heartbeat'' \<or> (\<exists>v. rest = v @ ''/heartbeat'')"
proof -
  obtain u where u: "''/api/v1/relays/'' @ rest = u @ ''/heartbeat''"
    using HasSuffixD [OF assms] by blast
  then consider w where "rest = w @ ''/heartbeat''"
    | w where "u @ w = ''/api/v1/relays/''" "w @ rest = ''/heartbeat''"
    unfolding append_eq_append_conv2 by metis
  then show ?thesis
  proof cases
    case (2 w)
    have "w = [] \<or> last w = CHR ''/''"
    proof (cases w rule: rev_cases)
      case (snoc w' a)
      then have "last (u @ w) = a" by simp
      then show ?thesis using 2(1) snoc by simp
    qed simp
    moreover have "w = [] \<or> w = ''/'' \<or> last w \<noteq> CHR ''/''"
      using 2(2) by (auto simp: append_eq_Cons_conv)
    ultimately show ?thesis using 2(2) by auto
  qed blast
qed

lemma TrimChar_last:
  assumes "dropWhile ((=) c) s = t" "t \<noteq> []" "last t \<noteq> c"
  shows "TrimChar c s = t"
  using assms by (cases t rule: rev_cases) (auto simp: TrimChar_def)

lemma TrimChar_heartbeat:
  "TrimChar CHR ''/'' (v @ ''/heartbeat'') = ''heartbeat'' \<or>
   (\<exists>v'. TrimChar CHR ''/'' (v @ ''/heartbeat'') = v' @ ''/heartbeat'')"
proof (cases "\<exists>x \<in> set v. x \<noteq> CHR ''/''")
  case True
  then obtain x where "x \<in> set v" "\<not> CHR ''/'' = x" by auto
  then have "dropWhile ((=) CHR ''/'') (v @ ''/heartbeat'') = dropWhile ((=) CHR ''/'') v @ ''/heartbeat''"
    by (rule dropWhile_append1)
  from TrimChar_last [OF this] show ?thesis by auto
next
  case False
  then have "dropWhile ((=) CHR ''/'') (v @ ''/heartbeat'') = dropWhile ((=) CHR ''/'') ''/heartbeat''"
    by (intro dropWhile_append2) auto
  then have "dropWhile ((=) CHR ''/'') (v @ ''/heartbeat'') = ''heartbeat''" by simp
  from TrimChar_last [OF this] show ?thesis by simp
qed

lemma TrimChar_heartbeat_word: "TrimChar CHR ''/'' ''heartbeat'' = ''heartbeat''"
  by (rule TrimChar_last) simp_all

lemma parse_heartbeat_path:
  assumes "HasPrefix path ''/api/v1/relays/''" "HasSuffix path ''/heartbeat''"
    and "parseRelayPath path = Some (i, action)"
  shows "action = ''heartbeat''"
proof -
  define rest where "rest = TrimPrefix path ''/api/v1/relays/''"
  have path: "path = ''/api/v1/relays/'' @ rest"
    unfolding rest_def by (rule HasPrefixD [OF assms(1)])
  define s where "s = TrimChar CHR ''/'' rest"
  have "s = ''heartbeat'' \<or> (\<exists>v. s = v @ ''/heartbeat'')"
    using heartbeat_suffix [OF assms(2) [unfolded path]] TrimChar_heartbeat TrimChar_heartbeat_word
    unfolding s_def by blast
  moreover have "ParseInt ''heartbeat'' = None"
    by (simp add: ParseInt_def digit_char_def)
  moreover have "Split CHR ''/'' ''heartbeat'' = [''heartbeat'']" by simp
  ultimately obtain v where "s = v @ ''/heartbeat''" 
    using assms(3) by (auto simp: parseRelayPath_def rest_def [symmetric] s_def [symmetric] Let_def)
  then have "Split CHR ''/'' s = Split CHR ''/'' v @ [''heartbeat'']"
    by (simp add: Split_append_sep)
  moreover have "Split CHR ''/'' v \<noteq> []" by simp
  ultimately show ?thesis using assms(3)
    by (cases "Split CHR ''/'' v") (auto simp: parseRelayPath_def rest_def [symmetric] s_def [symmetric]
        Let_def split: option.splits if_splits)
qed

lemma heartbeat_effect:
  assumes "relays_heartbeat clk r i hb m = (resp, m')"
  shows "m' = m \<or>
    (\<exists>cs st row m1. RelayHeartbeat (clk 0) i cs st m = (Inr row, m1) \<and>
       st \<in> {[], ''active'', ''degraded'', ''offline''} \<and>
       m' = m1\<lparr> nextID := nextID m', auditEvents := auditEvents m' \<rparr>)"
proof (cases hb)
  case None
  then show ?thesis using assms by (simp add: relays_heartbeat_def decoded_def)
next
  case (Some req)
  obtain res m1 where o: "RelayHeartbeat (clk 0) i (hb_CurrentSessions req) (hb_Status req) m = (res, m1)"
    by fastforce
  show ?thesis
  proof (cases "heartbeat_problem req")
    case None
    then have st: "hb_Status req \<in> {[], ''active'', ''degraded'', ''offline''}"
      by (auto simp: heartbeat_problem_def allowedHeartbeatStatus_def split: if_splits)
    show ?thesis
    proof (cases res)
      case (Inl e)
      have "clean_op m (res, m1)" unfolding o [symmetric] by simp
      then have "m1 = m" using Inl by (simp add: clean_op_def)
      then show ?thesis using assms Some None o Inl
        by (simp add: relays_heartbeat_def decoded_def checked_def respond_def)
    next
      case (Inr row)
      then have "m' = m1\<lparr> nextID := nextID m', auditEvents := auditEvents m' \<rparr>"
        using assms Some None o
        by (auto simp: relays_heartbeat_def decoded_def checked_def respond_def audited_eq)
      then show ?thesis using o Inr st by blast
    qed
  qed (use assms Some in \<open>simp add: relays_heartbeat_def decoded_def checked_def\<close>)
qed

section \<open>Properties\<close>

text \<open>
  Every change of a relay over HTTP is on record: the relay handlers answer an error
  without changing anything, or change the relay and add exactly one audit row naming the
  session's user and the caller's address.
\<close>

lemma relay_handlers_accounted:
  "accounted r m (relays_Collection clk r body m) \<and> accounted r m (relays_Item clk r body hb m)"
proof
  show "accounted r m (relays_Collection clk r body m)"
    unfolding relays_Collection_def by (intro accounted_intros relay_ops_clean; simp)
  show "accounted r m (relays_Item clk r body hb m)"
    unfolding relays_Item_def
    by (auto split: option.split prod.split intro!: accounted_intros relays_parts_accounted)
qed

text \<open>
  The open relay route reaches nothing but the heartbeat: a request that skips
  authentication because of its \<^verbatim>\<open>/api/v1/relays/ ... /heartbeat\<close> path changes at most the
  load, the status (to active, degraded or offline) and the health time of one relay, and the
  audit log.
\<close>

lemma public_relay_request_only_heartbeats:
  assumes "publicRoute r" "HasPrefix (Path r) ''/api/v1/relays/''"
    and "relays_Item clk r body hb m = (resp, m')"
  shows "m' = m \<or>
    (\<exists>i cs st row m1. RelayHeartbeat (clk 0) i cs st m = (Inr row, m1) \<and>
       st \<in> {[], ''active'', ''degraded'', ''offline''} \<and>
       m' = m1\<lparr> nextID := nextID m' , auditEvents := auditEvents m' \<rparr>)"
proof -
  have suf: "HasSuffix (Path r) ''/heartbeat''"
    using assms(1,2) by (auto simp: publicRoute_def HasPrefix_def split: if_splits)
  show ?thesis
  proof (cases "parseRelayPath (Path r)")
    case None
    then show ?thesis using assms(3) by (simp add: relays_Item_def)
  next
    case (Some p)
    then obtain i action where p: "parseRelayPath (Path r) = Some (i, action)" by fastforce
    have a: "action = ''heartbeat''" by (rule parse_heartbeat_path [OF assms(2) suf p])
    have "m' = m \<or> relays_heartbeat clk r i hb m = (resp, m')"
      using assms(3) p a by (auto simp: relays_Item_def with_method_def split: option.splits)
    then show ?thesis using heartbeat_effect by blast
  qed
qed

definition wit_heartbeat_request :: request where
  "wit_heartbeat_request =
     \<lparr> Method = ''POST'', Path = ''/api/v1/relays/1/heartbeat'', RemoteAddr = [], Headers = [],
       Cookies = [], Query = [], Context = None \<rparr>"

definition wit_heartbeat :: HeartbeatRequest where
  "wit_heartbeat = \<lparr> hb_CurrentSessions = None, hb_Status = ''active'' \<rparr>"

lemma wit_heartbeat_route:
  "publicRoute wit_heartbeat_request" "HasPrefix (Path wit_heartbeat_request) ''/api/v1/relays/''"
  "parseRelayPath (Path wit_heartbeat_request) = Some (1, ''heartbeat'')"
  by code_simp+

lemma public_relay_request_only_heartbeats_witness:
  "\<exists>m'. relays_Item (\<lambda>_. 5) wit_heartbeat_request None (Some wit_heartbeat) (NewMemory 0) =
          (fst (relays_Item (\<lambda>_. 5) wit_heartbeat_request None (Some wit_heartbeat) (NewMemory 0)), m') \<and>
        (m' = NewMemory 0 \<or>
         (\<exists>i cs st row m1. RelayHeartbeat 5 i cs st (NewMemory 0) = (Inr row, m1) \<and>
            m' = m1\<lparr> nextID := nextID m', auditEvents := auditEvents m' \<rparr>))"
  using public_relay_request_only_heartbeats [OF wit_heartbeat_route(1,2) surjective_pairing,
      of "\<lambda>_. 5" None "Some wit_heartbeat" "NewMemory 0"]
  by (metis surjective_pairing)

text \<open>
  Disabling a relay does not hold: the heartbeat, which needs no authentication, accepts
  the status active for a disabled relay, so anyone who can reach the API can put a relay an
  administrator has disabled back into service.
\<close>

lemma heartbeat_reenables_disabled_relay:
  assumes "find (\<lambda>x. rel_ID x = i) (relays m) = Some relay" "rel_Status relay = ''disabled''"
    and "parseRelayPath (Path r) = Some (i, ''heartbeat'')" "Method r = MethodPost" "Context r = None"
  shows "\<exists>relay' m'. relays_Item clk r body (Some wit_heartbeat) m = (JSON 200 (RelayItem relay'), m') \<and>
           rel_ID relay' = i \<and> rel_Status relay' = ''active'' \<and>
           find (\<lambda>x. rel_ID x = i) (relays m') = Some relay'"
proof -
  have "rel_ID relay = i" using find_SomeD [OF assms(1)] by simp
  then show ?thesis using assms
    by (simp add: relays_Item_def with_method_def require_method_def relays_heartbeat_def
        decoded_def checked_def respond_def heartbeat_problem_def wit_heartbeat_def
        allowedHeartbeatStatus_def RelayHeartbeat_def update_row_def audited_eq find_update_first)
qed

lemma heartbeat_reenables_disabled_relay_witness:
  "\<exists>relay' m'. relays_Item (\<lambda>_. 5) wit_heartbeat_request None (Some wit_heartbeat)
       (snd (DisableRelay 1 3 (NewMemory 0))) = (JSON 200 (RelayItem relay'), m') \<and>
     rel_Status relay' = ''active''"
proof -
  define relay where "relay = hd (relays (snd (DisableRelay 1 3 (NewMemory 0))))"
  have "find (\<lambda>x. rel_ID x = 1) (relays (snd (DisableRelay 1 3 (NewMemory 0)))) = Some relay"
    "rel_Status relay = ''disabled''"
    by (simp_all add: relay_def DisableRelay_def update_row_def NewMemory_def
        NewMemoryWithInitialAdmin_def newMemoryWithUsersAndNext_def Let_def)
  moreover have "Method wit_heartbeat_request = MethodPost" "Context wit_heartbeat_request = None"
    by (simp_all add: wit_heartbeat_request_def)
  ultimately show ?thesis
    using heartbeat_reenables_disabled_relay [OF _ _ wit_heartbeat_route(3)] by blast
qed

end
