(* ===== verification/Grant_Handler.thy ===== *)
theory Grant_Handler
  imports Grant_Properties Handler_Core
begin

text \<open>
  The HTTP handlers of relay grants (\<^verbatim>\<open>api/internal/relaygrant/handler.go\<close>) as the router
  assembles them: the service is backed by the repository, the audit writer and the
  connection-log writer are the repository too. The service's \<open>svc_db\<close> is the repository.
  Readings of the clock: \<open>clk 0\<close> and \<open>clk 1\<close> for the service call, \<open>clk 2\<close> for the audit row,
  \<open>clk 3\<close> and \<open>clk 4\<close> for the connection log.
\<close>

type_synonym grant_service = "Memory Service"

datatype grant_payload =
    Issued IssueResponse
  | Validated ValidateResponse
  | Revoked

text \<open>Continue on the repository behind the service.\<close>

definition audited_service ::
    "gotime \<Rightarrow> request \<Rightarrow> Event \<Rightarrow> string \<Rightarrow> 'a http_response \<Rightarrow> grant_service \<Rightarrow>
       'a http_response \<times> grant_service" where
  "audited_service now r e failure ok s =
     (case audited now r e failure ok (svc_db s) of (resp, m) \<Rightarrow> (resp, s\<lparr> svc_db := m \<rparr>))"

fun grant_error_text :: "grant_error \<Rightarrow> string" where
  "grant_error_text ErrInvalidToken = ''invalid relay grant''"
| "grant_error_text ErrExpired = ''relay grant expired''"
| "grant_error_text ErrRevoked = ''relay grant revoked''"
| "grant_error_text (IssueError msg) = msg"
| "grant_error_text (StoreError e) = error_text e"
| "grant_error_text MarshalError = ''json: error calling MarshalJSON''"

definition opt_int :: "int option \<Rightarrow> any" where
  "opt_int v = (case v of None \<Rightarrow> AnyNil | Some i \<Rightarrow> AnyInt i)"

section \<open>Issue\<close>

text \<open>\<^verbatim>\<open>Authenticated\<close> has the JSON tag \<open>-\<close>: a decoded body never sets it.\<close>

definition with_identity :: "request \<Rightarrow> IssueRequest \<Rightarrow> IssueRequest" where
  "with_identity r req =
     (case SessionFromContext r of
        None \<Rightarrow> req
      | Some session \<Rightarrow>
          req\<lparr> ir_Authenticated := True,
               ir_UserID := (case ir_UserID req of None \<Rightarrow> Some (user_ID (asn_User session))
                             | Some u \<Rightarrow> Some u) \<rparr>)"

definition grants_Issue ::
    "codec \<Rightarrow> (nat \<Rightarrow> gotime) \<Rightarrow> string \<Rightarrow> string \<Rightarrow> request \<Rightarrow> IssueRequest option \<Rightarrow> grant_service \<Rightarrow>
       grant_payload http_response \<times> grant_service" where
  "grants_Issue c clk r1 r2 r body s =
     (case require_method MethodPost r of
        Some resp \<Rightarrow> (resp, s)
      | None \<Rightarrow>
          (case body of
             None \<Rightarrow> (invalid_json, s)
           | Some req0 \<Rightarrow>
               let req = with_identity r (req0\<lparr> ir_Authenticated := False \<rparr>)
               in (case IssueWithContext c (clk 0) (clk 1) r1 r2 req s of
                     (Inl e, s1) \<Rightarrow>
                       (Error StatusBadRequest ''INVALID_RELAY_GRANT_REQUEST'' (grant_error_text e), s1)
                   | (Inr resp, s1) \<Rightarrow>
                       audited_service (clk 2) r
                         (event ''issue_relay_grant'' ''relay_grant'' (is_GrantID resp)
                            (Some [(''controller_device_id'', opt_int (ir_ControllerDeviceID req)),
                                   (''target_device_id'', opt_int (ir_TargetDeviceID req)),
                                   (''target_rustdesk_id'', AnyString (ir_TargetRustDeskID req)),
                                   (''relay_id'', opt_int (ir_RelayID req)),
                                   (''allowed_relays'', AnyStrings (ir_AllowedRelays req)),
                                   (''expires_at'', AnyTime (is_ExpiresAt resp))]))
                         ''failed to record relay grant issue''
                         (JSON StatusCreated (Issued resp)) s1)))"

section \<open>Validate\<close>

definition denied_log :: "gotime \<Rightarrow> ValidateRequest \<Rightarrow> ValidateResponse \<Rightarrow> ConnectionLog" where
  "denied_log started req resp =
     (let denyReason = (if vs_Reason resp = ''relay_auth_required'' then ''relay_auth_required''
                        else ''invalid_relay_grant'')
      in \<lparr> cl_ID = 0, cl_SessionID = None, cl_ControllerUserID = None,
           cl_ControllerDeviceID = None, cl_TargetDeviceID = vr_TargetDeviceID req,
           cl_ConnectionType = ''relay'', cl_RelayID = None, cl_StartedAt = started,
           cl_EndedAt = None, cl_Status = ''denied'', cl_DenyReason = denyReason,
           cl_Metadata = Some [(''grant_id'', AnyString (vs_GrantID resp)),
             (''reason'', AnyString (vs_Reason resp)), (''relay'', AnyString (vr_Relay req)),
             (''target_rustdesk_id'', AnyString (vr_TargetRustDeskID req))] \<rparr>)"

definition writeDeniedConnectionLog ::
    "(nat \<Rightarrow> gotime) \<Rightarrow> ValidateRequest \<Rightarrow> ValidateResponse \<Rightarrow> Memory \<Rightarrow> repo_error option \<times> Memory" where
  "writeDeniedConnectionLog clk req resp m =
     (case CreateConnectionLog (clk 4) (denied_log (clk 3) req resp) m of
        (Inl e, m1) \<Rightarrow> (Some e, m1)
      | (Inr log, m1) \<Rightarrow> (None, m1))"

definition grants_Validate ::
    "codec \<Rightarrow> (nat \<Rightarrow> gotime) \<Rightarrow> request \<Rightarrow> ValidateRequest option \<Rightarrow> grant_service \<Rightarrow>
       grant_payload http_response \<times> grant_service" where
  "grants_Validate c clk r body s =
     (case require_method MethodPost r of
        Some resp \<Rightarrow> (resp, s)
      | None \<Rightarrow>
          (case body of
             None \<Rightarrow> (invalid_json, s)
           | Some req \<Rightarrow>
               (case ValidateWithContext c (clk 0) (clk 1) req s of
                  ((resp, None), s1) \<Rightarrow> (JSON StatusOK (Validated resp), s1)
                | ((resp0, Some e), s1) \<Rightarrow>
                    let resp = (if TrimSpace (vr_Token req) = []
                                then resp0\<lparr> vs_Reason := ''relay_auth_required'' \<rparr> else resp0)
                    in (case writeAudit (clk 2) r
                           (event ''validate_relay_grant_failed'' ''relay_grant'' (vs_GrantID resp)
                              (Some [(''reason'', AnyString (vs_Reason resp)),
                                     (''status'', AnyString (vs_Status resp)),
                                     (''relay'', AnyString (vr_Relay req)),
                                     (''target_device_id'', opt_int (vr_TargetDeviceID req)),
                                     (''target_rustdesk_id'', AnyString (vr_TargetRustDeskID req))]))
                           (svc_db s1) of
                          (Some err, m1) \<Rightarrow>
                            (Error StatusInternalServerError ''AUDIT_WRITE_FAILED''
                               ''failed to record relay grant validation failure'', s1\<lparr> svc_db := m1 \<rparr>)
                        | (None, m1) \<Rightarrow>
                            (case writeDeniedConnectionLog clk req resp m1 of
                               (Some err, m2) \<Rightarrow>
                                 (Error StatusInternalServerError ''CONNECTION_LOG_WRITE_FAILED''
                                    ''failed to record relay denial'', s1\<lparr> svc_db := m2 \<rparr>)
                             | (None, m2) \<Rightarrow>
                                 (JSON StatusUnauthorized (Validated resp), s1\<lparr> svc_db := m2 \<rparr>))))))"

section \<open>Revoke\<close>

definition revoke_and_record ::
    "(nat \<Rightarrow> gotime) \<Rightarrow> request \<Rightarrow> string \<Rightarrow> grant_service \<Rightarrow> grant_payload http_response \<times> grant_service" where
  "revoke_and_record clk r gid s =
     (case RevokeWithContext gid s of
        (False, s1) \<Rightarrow> (Error StatusNotFound ''RELAY_GRANT_NOT_FOUND'' ''relay grant not found'', s1)
      | (True, s1) \<Rightarrow>
          audited_service (clk 2) r (event ''revoke_relay_grant'' ''relay_grant'' gid None)
            ''failed to record relay grant revoke'' (JSON StatusOK Revoked) s1)"

definition grants_RevokeByPath ::
    "(nat \<Rightarrow> gotime) \<Rightarrow> request \<Rightarrow> grant_service \<Rightarrow> grant_payload http_response \<times> grant_service" where
  "grants_RevokeByPath clk r s =
     (case require_method MethodPost r of
        Some resp \<Rightarrow> (resp, s)
      | None \<Rightarrow>
          let path = TrimPrefix (Path r) ''/api/v1/relay-grants/'';
              (gid, ok) = CutSuffix path ''/revoke''
          in if \<not> ok \<or> TrimSpace gid = []
             then (Error StatusNotFound ''NOT_FOUND'' ''relay grant route not found'', s)
             else revoke_and_record clk r gid s)"

definition grants_Revoke ::
    "(nat \<Rightarrow> gotime) \<Rightarrow> request \<Rightarrow> string option \<Rightarrow> grant_service \<Rightarrow>
       grant_payload http_response \<times> grant_service" where
  "grants_Revoke clk r body s =
     (case require_method MethodPost r of
        Some resp \<Rightarrow> (resp, s)
      | None \<Rightarrow>
          (case body of
             None \<Rightarrow> (invalid_json, s)
           | Some gid \<Rightarrow> revoke_and_record clk r gid s))"


section \<open>Facts about one call\<close>

text \<open>A store update of one grant touches no log, whichever table the grant is in.\<close>

definition logs_kept :: "grant_service \<Rightarrow> grant_service \<Rightarrow> bool" where
  "logs_kept s s' \<longleftrightarrow> auditEvents (svc_db s') = auditEvents (svc_db s) \<and>
     connectionLogs (svc_db s') = connectionLogs (svc_db s) \<and> svc_store s' = svc_store s"

lemma logs_kept_refl [simp]: "logs_kept s s"
  by (simp add: logs_kept_def)

lemma update_in_map_logs: "update_in_map g st u s = (g', s') \<Longrightarrow> logs_kept s s'"
  by (auto simp: update_in_map_def logs_kept_def Let_def split: option.splits)

lemma UpdateRelayGrantStatus_logs:
  "UpdateRelayGrantStatus k st u m = (x, m') \<Longrightarrow>
     auditEvents m' = auditEvents m \<and> connectionLogs m' = connectionLogs m"
  by (auto simp: UpdateRelayGrantStatus_def split: option.splits if_splits)

lemma updateGrantStatus_logs:
  assumes "updateGrantStatus g st u s = (g', s')"
    and "svc_store s = None \<or> svc_store s = Some memory_grant_store"
  shows "logs_kept s s'"
proof (cases "svc_store s")
  case None
  then show ?thesis using assms(1) by (auto simp: updateGrantStatus_def dest: update_in_map_logs)
next
  case (Some ops)
  then have so: "svc_store s = Some memory_grant_store" using assms(2) by simp
  obtain x m where u: "UpdateRelayGrantStatus (g_GrantID g) st u (svc_db s) = (x, m)" by fastforce
  have m: "logs_kept s (s\<lparr> svc_db := m \<rparr>)"
    using UpdateRelayGrantStatus_logs [OF u] by (simp add: logs_kept_def)
  show ?thesis
  proof (cases x)
    case (Inl e)
    then have "logs_kept (s\<lparr> svc_db := m \<rparr>) s'"
      using assms(1) so u by (auto simp: updateGrantStatus_def memory_grant_store_def intro: update_in_map_logs)
    then show ?thesis using m by (simp add: logs_kept_def)
  next
    case (Inr g1)
    then show ?thesis using assms(1) so u m
      by (auto simp: updateGrantStatus_def memory_grant_store_def)
  qed
qed

lemma ValidateWithContext_logs:
  assumes "ValidateWithContext c now now2 req s = ((resp, e), s')"
    and "svc_store s = None \<or> svc_store s = Some memory_grant_store"
  shows "logs_kept s s' \<and> (e = None \<longleftrightarrow> vs_Valid resp)"
proof (cases "validate_decide c now req s")
  case (Reject resp' e')
  then show ?thesis using assms(1) decide_Reject [OF Reject] by (auto simp: ValidateWithContext_def)
qed (use assms in \<open>auto simp: ValidateWithContext_def rejected_def split: prod.splits
       dest: updateGrantStatus_logs\<close>)

lemma denied_log_fields [simp]:
  "cl_ConnectionType (denied_log t req resp) = ''relay''"
  "cl_Status (denied_log t req resp) = ''denied''"
  "cl_TargetDeviceID (denied_log t req resp) = vr_TargetDeviceID req"
  "vs_Reason resp = ''relay_auth_required'' \<Longrightarrow>
     cl_DenyReason (denied_log t req resp) = ''relay_auth_required''"
  by (simp_all add: denied_log_def)

lemma CreateConnectionLog_ok:
  assumes "validConnectionType (cl_ConnectionType log)" "validConnectionStatus (cl_Status log)"
  shows "\<exists>l. CreateConnectionLog now log m =
     (Inr l, m\<lparr> nextID := nextID m + 1, connectionLogs := l # connectionLogs m \<rparr>) \<and>
     cl_Status l = cl_Status log \<and> cl_TargetDeviceID l = cl_TargetDeviceID log \<and>
     cl_DenyReason l = cl_DenyReason log"
  by (rule exI [of _ "log\<lparr> cl_ID := nextID m + 1,
        cl_StartedAt := (if IsZero (cl_StartedAt log) then now else cl_StartedAt log),
        cl_Metadata := cloneMetadata (cl_Metadata log) \<rparr>"])
     (use assms in \<open>simp add: CreateConnectionLog_def Let_def\<close>)

lemma writeDeniedConnectionLog_eq:
  "\<exists>l. writeDeniedConnectionLog clk req resp m =
     (None, m\<lparr> nextID := nextID m + 1, connectionLogs := l # connectionLogs m \<rparr>) \<and>
     cl_Status l = ''denied'' \<and> cl_TargetDeviceID l = vr_TargetDeviceID req \<and>
     cl_DenyReason l = cl_DenyReason (denied_log (clk 3) req resp)"
proof -
  have "validConnectionType ''relay''" "validConnectionStatus ''denied''"
    by (simp_all add: validConnectionType_def validConnectionStatus_def)
  then show ?thesis
    using CreateConnectionLog_ok [of "denied_log (clk 3) req resp" "clk 4" m]
    by (auto simp: writeDeniedConnectionLog_def)
qed

section \<open>Properties\<close>

text \<open>
  C23. No denial goes unrecorded: a relay's request to validate a token is either answered
  200 with a valid grant, leaving the logs as they are, or answered 401, and then exactly one
  audit row with the grant and exactly one denied connection log have been added; the log
  says \<open>relay_auth_required\<close> when the token was blank.
\<close>

theorem denied_validation_recorded:
  assumes "svc_store s = None \<or> svc_store s = Some memory_grant_store"
    and "Method r = MethodPost"
    and "grants_Validate c clk r (Some req) s = (ans, s')"
  shows "(\<exists>resp. ans = JSON StatusOK (Validated resp) \<and> vs_Valid resp \<and> logs_kept s s') \<or>
     (\<exists>resp a l. ans = JSON StatusUnauthorized (Validated resp) \<and> \<not> vs_Valid resp \<and>
        auditEvents (svc_db s') = a # auditEvents (svc_db s) \<and>
        ae_Action a = ''validate_relay_grant_failed'' \<and> ae_IP a = requestIP r \<and>
        ae_ResourceID a = (if vs_GrantID resp = [] then None else Some (vs_GrantID resp)) \<and>
        connectionLogs (svc_db s') = l # connectionLogs (svc_db s) \<and>
        cl_Status l = ''denied'' \<and> cl_TargetDeviceID l = vr_TargetDeviceID req \<and>
        (TrimSpace (vr_Token req) = [] \<longrightarrow> cl_DenyReason l = ''relay_auth_required''))"
proof -
  obtain resp e s1 where v: "ValidateWithContext c (clk 0) (clk 1) req s = ((resp, e), s1)"
    by (metis surjective_pairing)
  have k: "logs_kept s s1" "e = None \<longleftrightarrow> vs_Valid resp"
    using ValidateWithContext_logs [OF v assms(1)] by auto
  show ?thesis
  proof (cases e)
    case None
    then show ?thesis using assms(2,3) v k by (auto simp: grants_Validate_def require_method_def)
  next
    case (Some err)
    define resp1 where "resp1 = (if TrimSpace (vr_Token req) = []
      then resp\<lparr> vs_Reason := ''relay_auth_required'' \<rparr> else resp)"
    define md where "md = Some [(''reason'', AnyString (vs_Reason resp1)),
      (''status'', AnyString (vs_Status resp1)), (''relay'', AnyString (vr_Relay req)),
      (''target_device_id'', opt_int (vr_TargetDeviceID req)),
      (''target_rustdesk_id'', AnyString (vr_TargetRustDeskID req))]"
    define a where "a = audit_row (clk 2) r
      (event ''validate_relay_grant_failed'' ''relay_grant'' (vs_GrantID resp1) md)
      (nextID (svc_db s1) + 1)"
    define m1 where "m1 = (svc_db s1)\<lparr> nextID := nextID (svc_db s1) + 1,
      auditEvents := a # auditEvents (svc_db s1) \<rparr>"
    obtain l where l: "writeDeniedConnectionLog clk req resp1 m1 =
        (None, m1\<lparr> nextID := nextID m1 + 1, connectionLogs := l # connectionLogs m1 \<rparr>)"
      "cl_Status l = ''denied''" "cl_TargetDeviceID l = vr_TargetDeviceID req"
      "cl_DenyReason l = cl_DenyReason (denied_log (clk 3) req resp1)"
      using writeDeniedConnectionLog_eq by blast
    have res: "ans = JSON StatusUnauthorized (Validated resp1)"
      "s' = s1\<lparr> svc_db := m1\<lparr> nextID := nextID m1 + 1, connectionLogs := l # connectionLogs m1 \<rparr> \<rparr>"
      using assms(2,3) v Some l(1)
      by (simp_all add: grants_Validate_def require_method_def resp1_def [symmetric]
          md_def [symmetric] writeAudit_eq a_def [symmetric] m1_def [symmetric])
    have r: "ae_ResourceID a = (if vs_GrantID resp1 = [] then None else Some (vs_GrantID resp1))"
      by (simp add: a_def audit_row_def ToModel_def event_def)
    have "\<not> vs_Valid resp1" "TrimSpace (vr_Token req) = [] \<longrightarrow> vs_Reason resp1 = ''relay_auth_required''"
      using k(2) Some by (auto simp: resp1_def)
    then show ?thesis using k(1) l r
      by (intro disjI2 exI [of _ resp1] exI [of _ a] exI [of _ l])
         (simp add: res m1_def logs_kept_def a_def)
  qed
qed

definition wit_validate_request :: request where
  "wit_validate_request =
     \<lparr> Method = MethodPost, Path = ''/api/v1/relay-grants/validate'', RemoteAddr = ''10.0.0.9:4040'',
       Headers = [], Cookies = [], Query = [], Context = None \<rparr>"

theorem denied_validation_recorded_witness:
  "\<exists>s' resp a l.
     grants_Validate wit_c (\<lambda>n. 5) wit_validate_request (Some (wit_validate\<lparr> vr_Token := '' '' \<rparr>)) wit_service
       = (JSON StatusUnauthorized (Validated resp), s') \<and>
     auditEvents (svc_db s') = a # auditEvents (svc_db wit_service) \<and>
     connectionLogs (svc_db s') = l # connectionLogs (svc_db wit_service) \<and>
     cl_DenyReason l = ''relay_auth_required''"
proof -
  let ?res = "grants_Validate wit_c (\<lambda>n. 5) wit_validate_request
    (Some (wit_validate\<lparr> vr_Token := '' '' \<rparr>)) wit_service"
  have "status_of (fst ?res) = 401" by code_simp
  moreover have "svc_store wit_service = None \<or> svc_store wit_service = Some memory_grant_store"
    by (simp add: wit_service_def WithStore_def)
  moreover have "Method wit_validate_request = MethodPost"
    by (simp add: wit_validate_request_def)
  moreover have "TrimSpace (vr_Token (wit_validate\<lparr> vr_Token := '' '' \<rparr>)) = []"
    by code_simp
  ultimately show ?thesis
    using denied_validation_recorded [OF _ _ surjective_pairing [of ?res]]
    by (auto simp: prod_eq_iff)
qed

end
