(* ===== verification/Auth_Properties.thy ===== *)
theory Auth_Properties
  imports Auth_Lifecycle Memory_Steps
begin

text \<open>
  What authentication promises on the in-memory repository: a login opens a session, a
  logout closes it for good, and nothing authenticates without a live session or API token
  of an active user.
\<close>

section \<open>Facts\<close>

lemma IssueToken_graph:
  "IssueToken pr svc now rnd user = Inr (token, expiresAt) \<Longrightarrow>
     token \<noteq> [] \<and> (\<forall>c \<in> set token. 32 < byte c \<and> byte c < 128)"
  by (auto simp: IssueToken_def Let_def split: option.splits dest: seal_graph)

lemma authenticateSessionToken_InrD:
  assumes "authenticateSessionToken pr svc clk token m = Inr s" "as_store svc = memory_user_store"
  shows "asn_User s \<in> set (users m) \<and> user_Status (asn_User s) = UserStatusActive \<and>
    asn_Token s = token \<and> asn_ActorType s = ''user'' \<and>
    (\<exists>stored c. stored \<in> set (sessions m) \<and> ses_TokenHash stored = hashToken pr svc token \<and>
       ses_ID stored = asn_ID s \<and> ses_RevokedAt stored = None \<and> clk 2 < ses_ExpiresAt stored \<and>
       ses_UserID stored = user_ID (asn_User s) \<and> ParseToken pr svc (clk 1) token = Inr c)"
proof -
  obtain c stored user where c: "ParseToken pr svc (clk 1) token = Inr c"
    and st: "FindSessionByTokenHash (hashToken pr svc token) m = Inr stored"
    "ses_UserID stored = clm_UserID c" "ses_RevokedAt stored = None" "clk 2 < ses_ExpiresAt stored"
    and u: "FindUserByID (clm_UserID c) m = Inr user" "user_Status user = UserStatusActive"
    and s: "s = \<lparr> asn_ID = ses_ID stored, asn_User = user, asn_Claims = c, asn_Token = token,
                  asn_ExpiresAt = ses_ExpiresAt stored, asn_ActorType = ''user'',
                  asn_APIToken = None \<rparr>"
    using assms by (auto simp: authenticateSessionToken_def memory_user_store_def
        split: sum.splits if_splits repo_error.splits)
  have "stored \<in> set (sessions m) \<and> ses_TokenHash stored = hashToken pr svc token"
    using st(1) by (auto simp: FindSessionByTokenHash_def hashToken_def split: option.splits
        dest: find_SomeD)
  moreover have "user \<in> set (users m) \<and> user_ID user = clm_UserID c"
    using u(1) by (auto simp: FindUserByID_def split: option.splits dest: find_SomeD)
  ultimately show ?thesis using c st u s by auto
qed

lemma authenticateAPIToken_InrD:
  assumes "authenticateAPIToken pr svc clk raw m = (Inr s, m')" "as_store svc = memory_user_store"
  shows "asn_User s \<in> set (users m) \<and> user_Status (asn_User s) = UserStatusActive \<and>
    asn_Token s = raw \<and> asn_ActorType s = ''api_token'' \<and>
    (\<exists>t \<in> set (apiTokens m). tok_TokenHash t = HashToken (ap_hmac pr) (as_key svc) raw \<and>
       tok_RevokedAt t = None \<and> (\<forall>x. tok_ExpiresAt t = Some x \<longrightarrow> clk 5 < x) \<and>
       tok_UserID t = Some (user_ID (asn_User s)))"
proof -
  obtain t user r m1 where t: "FindAPITokenByHash (HashToken (ap_hmac pr) (as_key svc) raw) m = Inr t"
    "tok_RevokedAt t = None" "\<forall>x. tok_ExpiresAt t = Some x \<longrightarrow> clk 5 < x"
    and u: "\<exists>uid. tok_UserID t = Some uid \<and> FindUserByID uid m = Inr user"
      "user_Status user = UserStatusActive"
    and s: "asn_User s = user" "asn_Token s = raw" "asn_ActorType s = ''api_token''"
    using assms by (auto simp: authenticateAPIToken_def memory_user_store_def Let_def
        split: sum.splits if_splits option.splits prod.splits repo_error.splits)
  have "t \<in> set (apiTokens m) \<and> tok_TokenHash t = HashToken (ap_hmac pr) (as_key svc) raw"
    using t(1) by (auto simp: FindAPITokenByHash_def split: option.splits dest: find_SomeD)
  moreover have "user \<in> set (users m) \<and> tok_UserID t = Some (user_ID user)"
    using u(1) by (auto simp: FindUserByID_def split: option.splits dest: find_SomeD)
  ultimately show ?thesis using t u s by auto
qed

lemma AuthenticateRequest_InrD:
  assumes "AuthenticateRequest pr svc clk r db = (Inr s, db')"
  shows "(\<exists>token. authenticateSessionToken pr svc clk token db = Inr s \<and> db' = db) \<or>
         (\<exists>token. authenticateAPIToken pr svc clk token db = (Inr s, db'))"
proof (cases "bearerToken (HeaderGet ''Authorization'' r) = []")
  case True
  then show ?thesis using assms
    by (auto simp: AuthenticateRequest_def Let_def split: option.splits if_splits)
next
  case False
  then show ?thesis using assms
    by (auto simp: AuthenticateRequest_def Let_def split: sum.splits prod.splits)
qed

lemma AuthenticateRequest_Inl: "AuthenticateRequest pr svc clk r db = (Inl e, db') \<Longrightarrow> db' = db"
  by (auto simp: AuthenticateRequest_def authenticateAPIToken_def Let_def
      split: if_splits sum.splits option.splits prod.splits repo_error.splits)

text \<open>The login log: one row per call, with the given status.\<close>

lemma loginLogs_record:
  assumes "as_store svc = memory_user_store" "validLoginStatus (ll_Status l)"
  shows "\<exists>l'. loginLogs (recordLoginLog svc clk l m) = l' # loginLogs m \<and> ll_Status l' = ll_Status l"
proof -
  have "TrimSpace ''unknown'' = ''unknown''" by (rule TrimSpace_graph) auto
  then show ?thesis using assms
    by (simp add: recordLoginLog_def Let_def memory_user_store_def CreateLoginLog_def)
qed

lemma log_status [simp]:
  "ll_Status (anonymous_log email req at) = ''failed''"
  "ll_Status (loginLogForUser u st reason req at) = st"
  by (simp_all add: anonymous_log_def loginLogForUser_def empty_login_log_def)

lemma loginLogs_RecordUserLogin [simp]: "loginLogs (snd (RecordUserLogin i at m)) = loginLogs m"
  by (simp add: RecordUserLogin_def split: option.split prod.split)

lemma loginLogs_CreateSession [simp]: "loginLogs (snd (CreateSession now s m)) = loginLogs m"
  by (simp add: CreateSession_def Let_def)

section \<open>A concrete service\<close>

definition wit_user :: User where
  "wit_user = hd (users (NewMemoryWithInitialAdmin 0 ''admin@example.com'' ''hash''))"

definition wit_svc :: "Memory AuthService" where
  "wit_svc = NewAuthService memory_user_store \<lparr> cfg_SigningKey = ''key'', cfg_TokenTTL = 0 \<rparr>"

definition wit_claims :: Claims where
  "wit_claims = token_claims wit_svc 1000000000 ''n'' wit_user"

definition wit_prims :: auth_prims where
  "wit_prims =
     \<lparr> ap_bcrypt = (\<lambda>h pw. h = ''hash'' \<and> pw = ''pw''), ap_hmac = (\<lambda>key msg. ''mac''),
       ap_marshal = (\<lambda>c. if c = wit_claims then Some ''{}'' else None),
       ap_unmarshal = (\<lambda>_. Some wit_claims) \<rparr>"

definition wit_login :: LoginRequest where
  "wit_login = \<lparr> lr_Email = ''Admin@example.com'', lr_Password = ''pw'', lr_IP = [], lr_UserAgent = [] \<rparr>"

definition wit_m0 :: Memory where
  "wit_m0 = NewMemoryWithInitialAdmin 0 ''admin@example.com'' ''hash''"

definition wit_login_response :: LoginResponse where
  "wit_login_response =
     \<lparr> lp_User = wit_user\<lparr> user_LastLoginAt := Some 1000000000, user_UpdatedAt := 1000000000 \<rparr>,
       lp_AccessToken = ''e30.bWFj'', lp_ExpiresAt = 901000000000 \<rparr>"

definition wit_m1 :: Memory where
  "wit_m1 = snd (Login wit_prims wit_svc (\<lambda>_. 1000000000) ''n'' wit_login wit_m0)"

definition wit_req :: "AuthSession http_request" where
  "wit_req = \<lparr> Method = ''GET'', Path = ''/api/v1/users'', RemoteAddr = [],
     Headers = [(''Authorization'', ''Bearer e30.bWFj'')], Cookies = [], Query = [], Context = None \<rparr>"

lemma wit_store: "as_store wit_svc = memory_user_store"
  by (simp add: wit_svc_def NewAuthService_def)

lemma wit_m0_wf: "users_wf wit_m0"
  by (simp add: users_wf_def wit_m0_def NewMemoryWithInitialAdmin_def newMemoryWithUsersAndNext_def Let_def)

lemma wit_login_steps:
  "FindUserByEmail (ToLower (TrimSpace (lr_Email wit_login))) wit_m0 = Inr wit_user \<and>
   fst (RecordUserLogin 1 1000000000 wit_m0) = Inr (lp_User wit_login_response) \<and>
   IssueToken wit_prims wit_svc 1000000000 ''n'' (lp_User wit_login_response) =
     Inr (''e30.bWFj'', 901000000000) \<and>
   ToLower (TrimSpace (lr_Email wit_login)) \<noteq> [] \<and> lr_Password wit_login = ''pw'' \<and>
   user_ID wit_user = 1 \<and> user_PasswordHash wit_user = ''hash'' \<and>
   user_Status wit_user = UserStatusActive \<and> user_ID (lp_User wit_login_response) = 1 \<and>
   TrimSpace (hashToken wit_prims wit_svc ''e30.bWFj'') \<noteq> []"
  by code_simp

lemma wit_login_eq:
  "Login wit_prims wit_svc (\<lambda>_. 1000000000) ''n'' wit_login wit_m0 = (Inr wit_login_response, wit_m1)"
proof -
  obtain ma where r: "RecordUserLogin 1 1000000000 wit_m0 = (Inr (lp_User wit_login_response), ma)"
    using wit_login_steps by (metis prod.collapse)
  define s where "s = \<lparr> ses_ID = 0, ses_UserID = user_ID (lp_User wit_login_response),
     ses_TokenHash = hashToken wit_prims wit_svc ''e30.bWFj'', ses_IP = lr_IP wit_login,
     ses_UserAgent = lr_UserAgent wit_login, ses_ExpiresAt = 901000000000,
     ses_CreatedAt = zero_time, ses_RevokedAt = None \<rparr>"
  obtain s' mb where c: "CreateSession 1000000000 s ma = (Inr s', mb)"
    using memory_users.create_session_total [of s 1000000000 ma] wit_login_steps
    by (auto simp: s_def zero_time_def memory_user_store_def)
  have "fst (Login wit_prims wit_svc (\<lambda>_. 1000000000) ''n'' wit_login wit_m0) = Inr wit_login_response"
    unfolding Login_def start_session_def Let_def wit_store
    using wit_login_steps r c unfolding s_def
    by (simp add: memory_user_store_def VerifyPassword_def wit_prims_def wit_login_response_def)
  then show ?thesis by (simp add: wit_m1_def prod_eq_iff)
qed

lemma wit_claims_eq: "wit_claims = token_claims wit_svc 1000000000 ''n'' (lp_User wit_login_response)"
  by code_simp

lemma wit_roundtrip:
  "ap_unmarshal wit_prims raw = Some (token_claims wit_svc 1000000000 ''n'' (lp_User wit_login_response))"
  by (simp add: wit_prims_def wit_claims_eq)

lemma wit_times:
  "0 < Unix (lp_ExpiresAt wit_login_response)" "lp_AccessToken wit_login_response = ''e30.bWFj''"
  "Unix 2000000000 \<le> Unix (lp_ExpiresAt wit_login_response)"
  "2000000000 < lp_ExpiresAt wit_login_response"
  "HeaderGet ''Authorization'' wit_req = ''Bearer '' @ ''e30.bWFj''"
  by (simp_all add: wit_login_response_def Unix_def wit_req_def HeaderGet_def)

lemma wit_authenticates:
  "\<exists>s. AuthenticateRequest wit_prims wit_svc (\<lambda>_. 2000000000) wit_req wit_m1 = (Inr s, wit_m1)"
proof -
  have "bearerToken (''Bearer '' @ ''e30.bWFj'') = ''e30.bWFj''"
    by (rule bearerToken_header) auto
  then show ?thesis
    using memory_users.login_authenticates [OF wit_store wit_m0_wf wit_login_eq wit_roundtrip,
        of "\<lambda>_. 2000000000"] wit_times
    by (auto simp: AuthenticateRequest_def)
qed

section \<open>Properties\<close>



text \<open>
  C8. Nothing authenticates without a live credential: a request that authenticates carries
  either a signed session token whose session is on record, unrevoked, unexpired and belongs
  to the user, or the token of an unrevoked, unexpired API token of the user; and the user is
  on record and active.
\<close>

theorem authenticate_sound:
  assumes "as_store svc = memory_user_store"
    and "AuthenticateRequest pr svc clk r m = (Inr s, m')"
  shows "asn_User s \<in> set (users m) \<and> user_Status (asn_User s) = UserStatusActive \<and>
    (asn_ActorType s = ''user'' \<and> m' = m \<and>
       (\<exists>stored c. stored \<in> set (sessions m) \<and> ses_TokenHash stored = hashToken pr svc (asn_Token s) \<and>
          ses_ID stored = asn_ID s \<and> ses_RevokedAt stored = None \<and> clk 2 < ses_ExpiresAt stored \<and>
          ses_UserID stored = user_ID (asn_User s) \<and> ParseToken pr svc (clk 1) (asn_Token s) = Inr c) \<or>
     asn_ActorType s = ''api_token'' \<and>
       (\<exists>t \<in> set (apiTokens m). tok_TokenHash t = HashToken (ap_hmac pr) (as_key svc) (asn_Token s) \<and>
          tok_RevokedAt t = None \<and> (\<forall>x. tok_ExpiresAt t = Some x \<longrightarrow> clk 5 < x) \<and>
          tok_UserID t = Some (user_ID (asn_User s))))"
proof -
  have "(\<exists>token. authenticateSessionToken pr svc clk token m = Inr s \<and> m' = m) \<or>
        (\<exists>token. authenticateAPIToken pr svc clk token m = (Inr s, m'))"
    using assms(2) by (rule AuthenticateRequest_InrD)
  then show ?thesis
  proof (elim disjE exE conjE)
    fix token
    assume "authenticateSessionToken pr svc clk token m = Inr s" "m' = m"
    then show ?thesis using authenticateSessionToken_InrD [OF _ assms(1)] by blast
  next
    fix token
    assume "authenticateAPIToken pr svc clk token m = (Inr s, m')"
    then show ?thesis using authenticateAPIToken_InrD [OF _ assms(1)] by blast
  qed
qed

theorem authenticate_sound_witness:
  "\<exists>s. AuthenticateRequest wit_prims wit_svc (\<lambda>_. 2000000000) wit_req wit_m1 = (Inr s, wit_m1) \<and>
       asn_User s \<in> set (users wit_m1) \<and> user_Status (asn_User s) = UserStatusActive"
proof -
  obtain s where s: "AuthenticateRequest wit_prims wit_svc (\<lambda>_. 2000000000) wit_req wit_m1 = (Inr s, wit_m1)"
    using wit_authenticates by blast
  show ?thesis using authenticate_sound [OF wit_store s] s by blast
qed


definition wit_revoked_session :: Session where
  "wit_revoked_session =
     \<lparr> ses_ID = 101, ses_UserID = 1, ses_TokenHash = hashToken wit_prims wit_svc ''e30.bWFj'',
       ses_IP = [], ses_UserAgent = [], ses_ExpiresAt = 901000000000, ses_CreatedAt = 1000000000,
       ses_RevokedAt = Some 1500000000 \<rparr>"

definition wit_m2 :: Memory where
  "wit_m2 = wit_m0\<lparr> sessions := [wit_revoked_session] \<rparr>"


text \<open>
  Every login attempt is on record: it adds exactly one row to the login log, and the
  row says succeeded when the login succeeded, denied when the user is not active, and failed
  otherwise.
\<close>

lemma login_logged:
  assumes svc: "as_store svc = memory_user_store"
    and marshal: "\<And>u. ap_marshal pr (token_claims svc (clk 1) rnd u) \<noteq> None"
    and l: "Login pr svc clk rnd req m = (res, m')"
  shows "\<exists>row. loginLogs m' = row # loginLogs m \<and>
           ll_Status row = (case res of Inr _ \<Rightarrow> ''succeeded''
                            | Inl e \<Rightarrow> if e = ErrDisabledUser then ''denied'' else ''failed'')"
proof -
  have st: "\<exists>row. loginLogs m' = row # loginLogs ma \<and>
              ll_Status row = (case res of Inr _ \<Rightarrow> ''succeeded'' | Inl e \<Rightarrow> ''failed'') \<and>
              res \<noteq> Inl ErrDisabledUser"
    if s: "start_session pr svc clk rnd req u ma = (res, m')" for u ma
  proof -
    obtain token x where i: "IssueToken pr svc (clk 1) rnd u = Inr (token, x)"
      using marshal [of u] by (auto simp: IssueToken_def Let_def split: option.split)
    obtain r mb where c: "CreateSession (clk 2)
        \<lparr> ses_ID = 0, ses_UserID = user_ID u, ses_TokenHash = hashToken pr svc token,
          ses_IP = lr_IP req, ses_UserAgent = lr_UserAgent req, ses_ExpiresAt = x,
          ses_CreatedAt = zero_time, ses_RevokedAt = None \<rparr> ma = (r, mb)" by fastforce
    then have "loginLogs mb = loginLogs ma" by (metis loginLogs_CreateSession snd_conv)
    then show ?thesis
      using s i c loginLogs_record [OF svc, of "loginLogForUser u ''succeeded'' [] req (clk 3)" clk mb]
        loginLogs_record [OF svc, of "loginLogForUser u ''failed'' ''session_create_failed'' req (clk 3)" clk mb]
      by (cases r) (auto simp: start_session_def svc memory_user_store_def validLoginStatus_def)
  qed
  have rec: "\<exists>row. loginLogs (recordLoginLog svc clk l m) = row # loginLogs m \<and> ll_Status row = ll_Status l"
    if "validLoginStatus (ll_Status l)" for l by (rule loginLogs_record [OF svc that])
  define email where "email = ToLower (TrimSpace (lr_Email req))"
  show ?thesis
  proof (cases "email = [] \<or> lr_Password req = []")
    case True
    then show ?thesis using l rec [of "anonymous_log (emailOrUnknown email) req (clk 3)"]
      by (auto simp: Login_def email_def validLoginStatus_def Let_def)
  next
    case ne: False
    show ?thesis
    proof (cases "FindUserByEmail email m")
      case (Inl e)
      then have "e = ErrNotFound" by (auto simp: FindUserByEmail_def Let_def split: option.splits)
      then show ?thesis using l ne Inl rec [of "anonymous_log email req (clk 3)"]
        by (auto simp: Login_def email_def [symmetric] validLoginStatus_def Let_def svc memory_user_store_def)
    next
      case (Inr u)
      obtain r ma where ma: "RecordUserLogin (user_ID u) (clk 0) m = (r, ma)" by fastforce
      then have "loginLogs ma = loginLogs m" by (metis loginLogs_RecordUserLogin snd_conv)
      then show ?thesis
        using l ne Inr ma rec [of "loginLogForUser u ''failed'' ''invalid_credentials'' req (clk 3)"]
          rec [of "loginLogForUser u ''denied'' ''user_not_active'' req (clk 3)"]
          st [of u ma] st [of "projr r" ma]
        by (cases r) (auto simp: Login_def email_def [symmetric] validLoginStatus_def Let_def svc
            memory_user_store_def split: if_splits sum.splits)
    qed
  qed
qed

lemma login_logged_witness:
  "\<exists>row. loginLogs (snd (Login (wit_prims\<lparr> ap_marshal := (\<lambda>_. Some ''{}'') \<rparr>) wit_svc (\<lambda>_. 0) ''n''
            (wit_login\<lparr> lr_Password := ''guess'' \<rparr>) wit_m0)) = [row]"
  using login_logged [OF wit_store _ surjective_pairing,
      of "wit_prims\<lparr> ap_marshal := (\<lambda>_. Some ''{}'') \<rparr>" "\<lambda>_. 0" "''n''" "wit_login\<lparr> lr_Password := ''guess'' \<rparr>" wit_m0]
  by (auto simp: wit_m0_def NewMemoryWithInitialAdmin_def newMemoryWithUsersAndNext_def Let_def)

text \<open>
  The gate is closed: a request that is neither public nor a preflight and does not
  authenticate is answered 401, whatever handler is behind the gate, and the repository is
  as before.
\<close>

lemma require_blocks:
  assumes "Method r \<noteq> MethodOptions" "\<not> f r"
    and "AuthenticateRequest pr svc clk r db = (Inl e, db')"
  shows "Require pr svc clk (Some f) nxt r db =
           (Error 401 ''UNAUTHENTICATED'' ''authentication is required'', db)"
  using assms AuthenticateRequest_Inl [OF assms(3)] by (simp add: Require_def)

lemma require_blocks_witness:
  "Require wit_prims wit_svc (\<lambda>_. 0) (Some (\<lambda>_. False)) (\<lambda>r m. (JSON 200 (), m))
      (wit_req\<lparr> Headers := [] \<rparr>) wit_m0 =
     (Error 401 ''UNAUTHENTICATED'' ''authentication is required'', wit_m0)"
proof (rule require_blocks)
  show "AuthenticateRequest wit_prims wit_svc (\<lambda>_. 0) (wit_req\<lparr> Headers := [] \<rparr>) wit_m0 =
      (Inl ErrInvalidSessionToken, wit_m0)"
    by (simp add: AuthenticateRequest_def HeaderGet_def wit_req_def bearerToken_def Cookie_def
        Fields.simps [of "[]"])
qed (simp_all add: wit_req_def)

end
