(* ===== verification/Auth_Handler.thy ===== *)
theory Auth_Handler
  imports Auth_Properties Handler_Core
begin

text \<open>
  The HTTP handlers of login, logout and the current user
  (\<^verbatim>\<open>api/internal/auth/handler.go\<close>). Besides the response a handler may set the session
  cookie. The seconds of a duration are whole: \<^verbatim>\<open>int(d.Seconds())\<close> goes through a float, which
  is exact for sessions shorter than a month. \<open>clk 6\<close> is the reading of \<^verbatim>\<open>time.Until\<close>.
\<close>

record set_cookie =
  ck_Name :: string
  ck_Value :: string
  ck_Path :: string
  ck_MaxAge :: int
  ck_Expires :: "gotime option"
  ck_HttpOnly :: bool
  ck_Secure :: bool
  ck_SameSite :: string

datatype auth_payload =
    LoggedIn LoginResponse
  | LoggedOut
  | Me User gotime

type_synonym 's auth_result = "(set_cookie option \<times> auth_payload http_response) \<times> 's"

section \<open>Cookies and tokens of a request\<close>

definition setSessionCookie :: "bool \<Rightarrow> gotime \<Rightarrow> string \<Rightarrow> gotime \<Rightarrow> set_cookie" where
  "setSessionCookie secure now token expiresAt =
     (let maxAge0 = (if expiresAt < now then 0 else (expiresAt - now) div 1000000000)
      in \<lparr> ck_Name = SessionCookieName, ck_Value = token, ck_Path = ''/'', ck_MaxAge = maxAge0,
           ck_Expires = Some expiresAt, ck_HttpOnly = True, ck_Secure = secure,
           ck_SameSite = ''Lax'' \<rparr>)"

definition clearedCookie :: "bool \<Rightarrow> set_cookie" where
  "clearedCookie secure =
     \<lparr> ck_Name = SessionCookieName, ck_Value = [], ck_Path = ''/'', ck_MaxAge = -1,
       ck_Expires = None, ck_HttpOnly = True, ck_Secure = secure, ck_SameSite = ''Lax'' \<rparr>"

definition sessionTokenFromRequest :: "'c http_request \<Rightarrow> string" where
  "sessionTokenFromRequest r =
     (case Cookie SessionCookieName r of
        Some v \<Rightarrow> if TrimSpace v \<noteq> [] then TrimSpace v
                  else bearerToken (HeaderGet ''Authorization'' r)
      | None \<Rightarrow> bearerToken (HeaderGet ''Authorization'' r))"

section \<open>Handlers\<close>

definition invalid_credentials :: "'a http_response" where
  "invalid_credentials = Error StatusUnauthorized ''INVALID_CREDENTIALS'' ''invalid email or password''"

definition auth_Login ::
    "bool \<Rightarrow> auth_prims \<Rightarrow> 's AuthService \<Rightarrow> (nat \<Rightarrow> gotime) \<Rightarrow> string \<Rightarrow> 'c http_request \<Rightarrow>
       LoginRequest option \<Rightarrow> 's \<Rightarrow> 's auth_result" where
  "auth_Login secure pr svc clk rnd r body db =
     (case require_method MethodPost r of
        Some resp \<Rightarrow> ((None, resp), db)
      | None \<Rightarrow>
          (case body of
             None \<Rightarrow> ((None, invalid_json), db)
           | Some req \<Rightarrow>
               (case Login pr svc clk rnd (req\<lparr> lr_IP := requestIP r, lr_UserAgent := UserAgent r \<rparr>) db of
                  (Inl e, db1) \<Rightarrow>
                    ((None, if e = ErrInvalidCredentials \<or> e = ErrDisabledUser then invalid_credentials
                            else Error StatusInternalServerError ''LOGIN_FAILED'' ''login failed''), db1)
                | (Inr resp, db1) \<Rightarrow>
                    ((Some (setSessionCookie secure (clk 6) (lp_AccessToken resp) (lp_ExpiresAt resp)),
                      JSON StatusOK (LoggedIn resp)), db1))))"

definition auth_Logout ::
    "bool \<Rightarrow> auth_prims \<Rightarrow> 's AuthService \<Rightarrow> (nat \<Rightarrow> gotime) \<Rightarrow> 'c http_request \<Rightarrow> 's \<Rightarrow>
       's auth_result" where
  "auth_Logout secure pr svc clk r db =
     (case require_method MethodPost r of
        Some resp \<Rightarrow> ((None, resp), db)
      | None \<Rightarrow>
          (case Logout pr svc clk (sessionTokenFromRequest r) db of
             (Some e, db1) \<Rightarrow>
               ((None, Error StatusInternalServerError ''LOGOUT_FAILED'' ''logout failed''), db1)
           | (None, db1) \<Rightarrow> ((Some (clearedCookie secure), JSON StatusOK LoggedOut), db1)))"

definition auth_Me :: "request \<Rightarrow> auth_payload http_response" where
  "auth_Me r =
     (case require_method MethodGet r of
        Some resp \<Rightarrow> resp
      | None \<Rightarrow>
          (case SessionFromContext r of
             None \<Rightarrow> Error StatusUnauthorized ''UNAUTHENTICATED'' ''authentication is required''
           | Some session \<Rightarrow> JSON StatusOK (Me (asn_User session) (asn_ExpiresAt session))))"

section \<open>Facts\<close>

lemma auth_Login_okD:
  assumes "auth_Login secure pr svc clk rnd r (Some req) db = ((ck, JSON StatusOK (LoggedIn resp)), db1)"
  shows "Login pr svc clk rnd (req\<lparr> lr_IP := requestIP r, lr_UserAgent := UserAgent r \<rparr>) db = (Inr resp, db1) \<and>
     ck = Some (setSessionCookie secure (clk 6) (lp_AccessToken resp) (lp_ExpiresAt resp))"
  using assms
  by (auto simp: auth_Login_def require_method_def invalid_credentials_def method_not_allowed_def
      split: if_splits sum.splits prod.splits option.splits)

lemma ck_Value_session [simp]: "ck_Value (setSessionCookie secure now token expiresAt) = token"
  by (simp add: setSessionCookie_def)

lemma authenticate_cookie:
  assumes "bearerToken (HeaderGet ''Authorization'' r) = []"
    and "Cookie SessionCookieName r = Some t" "TrimSpace t = t" "t \<noteq> []"
  shows "AuthenticateRequest pr svc clk r db = (authenticateSessionToken pr svc clk t db, db)"
  using assms by (simp add: AuthenticateRequest_def)

lemma sessions_CreateLoginLog [simp]: "sessions (snd (CreateLoginLog now l m)) = sessions m"
  by (simp add: CreateLoginLog_def Let_def)

lemma sessions_recordLoginLog:
  "as_store svc = memory_user_store \<Longrightarrow> sessions (recordLoginLog svc clk l m) = sessions m"
  by (simp add: recordLoginLog_def Let_def memory_user_store_def)

section \<open>Properties\<close>

text \<open>
  The cookie of a login is a session: a request with the cookie that a login over HTTP
  set authenticates as the user who logged in, until it runs out; after a logout over HTTP
  with the cookie, which clears it, no request with it authenticates.
\<close>

lemma cookie_session_until_logout:
  assumes svc: "as_store svc = memory_user_store" and wf: "users_wf m"
    and l: "auth_Login secure pr svc clk rnd r0 (Some req) m = ((Some ck, JSON StatusOK (LoggedIn resp)), m1)"
    and rt: "\<And>raw. ap_marshal pr (token_claims svc (clk 1) rnd (lp_User resp)) = Some raw \<Longrightarrow>
          ap_unmarshal pr raw = Some (token_claims svc (clk 1) rnd (lp_User resp))"
    and t: "0 < Unix (lp_ExpiresAt resp)" "Unix (clk' 1) \<le> Unix (lp_ExpiresAt resp)"
      "clk' 2 < lp_ExpiresAt resp"
    and r: "Cookie SessionCookieName r = Some (ck_Value ck)"
      "bearerToken (HeaderGet ''Authorization'' r) = []" "Method r = MethodPost"
  shows "ck_HttpOnly ck \<and> ck_Secure ck = secure \<and>
     (\<exists>s. AuthenticateRequest pr svc clk' r m1 = (Inr s, m1) \<and> asn_User s = lp_User resp) \<and>
     (\<exists>m2. auth_Logout secure pr svc clk' r m1 = ((Some (clearedCookie secure), JSON StatusOK LoggedOut), m2) \<and>
        (\<forall>clk''. \<exists>e. AuthenticateRequest pr svc clk'' r m2 = (Inl e, m2)))"
proof -
  note lg = auth_Login_okD [OF l, THEN conjunct1]
  have ck: "ck = setSessionCookie secure (clk 6) (lp_AccessToken resp) (lp_ExpiresAt resp)"
    using auth_Login_okD [OF l] by simp
  note s = memory_users.login_session [OF svc wf lg]
  note a = memory_users.login_authenticates [OF svc wf lg rt t]
  have g: "lp_AccessToken resp \<noteq> []" "\<And>c. c \<in> set (lp_AccessToken resp) \<Longrightarrow> 32 < byte c \<and> byte c < 128"
    using s IssueToken_graph by blast+
  have tr: "TrimSpace (lp_AccessToken resp) = lp_AccessToken resp" by (rule TrimSpace_graph [OF g(2)])
  have rc: "Cookie SessionCookieName r = Some (lp_AccessToken resp)" using r(1) ck by simp
  note auth = authenticate_cookie [OF r(2) rc tr g(1)]
  obtain c where c: "ParseToken pr svc (clk' 1) (lp_AccessToken resp) = Inr c"
    using a by (auto simp: authenticateSessionToken_def split: sum.splits)
  obtain st where st:
    "us_FindSessionByTokenHash memory_user_store (hashToken pr svc (lp_AccessToken resp)) m1 = Inr st"
    using s by blast
  obtain e m2 where lo: "Logout pr svc clk' (lp_AccessToken resp) m1 = (e, m2)" by fastforce
  have rej: "e = None \<and> (\<exists>err. authenticateSessionToken pr svc k (lp_AccessToken resp) m2 = Inl err)" for k
    by (rule memory_users.logout_rejects [OF svc lo tr c st g(1) TrueI])
  have "sessionTokenFromRequest r = lp_AccessToken resp"
    using rc tr g(1) by (simp add: sessionTokenFromRequest_def)
  then have "auth_Logout secure pr svc clk' r m1 =
      ((Some (clearedCookie secure), JSON StatusOK LoggedOut), m2)"
    using r(3) lo rej by (simp add: auth_Logout_def require_method_def)
  then show ?thesis using a rej by (auto simp: ck setSessionCookie_def auth)
qed

definition wit_post :: "AuthSession http_request" where
  "wit_post = wit_req\<lparr> Method := MethodPost, Headers := [],
                       Cookies := [(SessionCookieName, ''e30.bWFj'')] \<rparr>"

lemma wit_http_login:
  "auth_Login False wit_prims wit_svc (\<lambda>_. 1000000000) ''n'' wit_post (Some wit_login) wit_m0 =
     ((Some (setSessionCookie False 1000000000 ''e30.bWFj'' 901000000000),
       JSON StatusOK (LoggedIn wit_login_response)), wit_m1)"
proof -
  have "requestIP wit_post = []" "UserAgent wit_post = []" by code_simp+
  then have "wit_login\<lparr> lr_IP := requestIP wit_post, lr_UserAgent := UserAgent wit_post \<rparr> = wit_login"
    by (simp add: wit_login_def)
  then show ?thesis
    using wit_login_eq by (simp add: auth_Login_def require_method_def wit_post_def wit_login_response_def)
qed

lemma cookie_session_until_logout_witness:
  "(\<exists>s. AuthenticateRequest wit_prims wit_svc (\<lambda>_. 2000000000) wit_post wit_m1 = (Inr s, wit_m1)) \<and>
   (\<exists>m2. auth_Logout False wit_prims wit_svc (\<lambda>_. 2000000000) wit_post wit_m1 =
      ((Some (clearedCookie False), JSON StatusOK LoggedOut), m2) \<and>
      (\<forall>clk. \<exists>e. AuthenticateRequest wit_prims wit_svc clk wit_post m2 = (Inl e, m2)))"
proof -
  have "Cookie SessionCookieName wit_post = Some (ck_Value (setSessionCookie False 1000000000 ''e30.bWFj'' 901000000000))"
    "bearerToken (HeaderGet ''Authorization'' wit_post) = []" "Method wit_post = MethodPost"
    by code_simp+
  note c = cookie_session_until_logout [OF wit_store wit_m0_wf wit_http_login wit_roundtrip
      wit_times(1) wit_times(3) wit_times(4) this]
  show ?thesis using c by blast
qed

text \<open>
  C31. A failed login tells nothing: for an unknown address, a wrong password and a user who
  is not active the answer is the same, no cookie is set and no session is opened.
\<close>

theorem failed_login_uniform:
  assumes svc: "as_store svc = memory_user_store" and post: "Method r = MethodPost"
    and no: "\<And>u. FindUserByEmail (ToLower (TrimSpace (lr_Email req))) m = Inr u \<Longrightarrow>
        user_Status u = UserStatusActive \<Longrightarrow> VerifyPassword pr (user_PasswordHash u) (lr_Password req) \<Longrightarrow>
        lr_Password req = []"
  shows "\<exists>m1. auth_Login secure pr svc clk rnd r (Some req) m = ((None, invalid_credentials), m1) \<and>
     sessions m1 = sessions m"
proof -
  let ?q = "req\<lparr> lr_IP := requestIP r, lr_UserAgent := UserAgent r \<rparr>"
  have f: "FindUserByEmail e m = Inl x \<Longrightarrow> x = ErrNotFound" for e x
    by (auto simp: FindUserByEmail_def Let_def split: option.splits)
  have "\<exists>x m1. Login pr svc clk rnd ?q m = (Inl x, m1) \<and> (x = ErrInvalidCredentials \<or> x = ErrDisabledUser) \<and>
      sessions m1 = sessions m"
  proof (cases "ToLower (TrimSpace (lr_Email req)) = [] \<or> lr_Password req = []")
    case True
    then show ?thesis by (simp add: Login_def Let_def sessions_recordLoginLog [OF svc])
  next
    case False
    show ?thesis
    proof (cases "FindUserByEmail (ToLower (TrimSpace (lr_Email req))) m")
      case (Inl x)
      then show ?thesis using False f [OF Inl]
        by (simp add: Login_def Let_def svc sessions_recordLoginLog [OF svc] memory_user_store_def)
    next
      case (Inr u)
      then show ?thesis using False no [OF Inr]
        by (auto simp: Login_def Let_def svc sessions_recordLoginLog [OF svc] memory_user_store_def)
    qed
  qed
  then show ?thesis using post by (auto simp: auth_Login_def require_method_def)
qed

theorem failed_login_uniform_witness:
  "\<exists>m1. auth_Login True wit_prims wit_svc (\<lambda>_. 5) ''n'' wit_post
      (Some (wit_login\<lparr> lr_Password := ''no'' \<rparr>)) wit_m0 = ((None, invalid_credentials), m1) \<and>
    sessions m1 = sessions wit_m0"
proof -
  have "Method wit_post = MethodPost" by (simp add: wit_post_def)
  moreover have "\<not> VerifyPassword wit_prims h (lr_Password (wit_login\<lparr> lr_Password := ''no'' \<rparr>))" for h
    by (simp add: VerifyPassword_def wit_prims_def)
  ultimately show ?thesis using failed_login_uniform [OF wit_store, of wit_post] by blast
qed

text \<open>
  Logout closes the session of the cookie, not the one in use: for a request that
  carries one token in the cookie and another one in the header, authentication takes the
  header and logout takes the cookie, so after its own logout the very same request still
  authenticates.
\<close>

lemma logout_keeps_bearer_session:
  assumes svc: "as_store svc = memory_user_store"
    and r: "Cookie SessionCookieName r = Some a" "TrimSpace a = a" "a \<noteq> []" "Method r = MethodPost"
      "bearerToken (HeaderGet ''Authorization'' r) = b" "b \<noteq> []"
    and s: "authenticateSessionToken pr svc clk b m = Inr s"
    and ab: "hashToken pr svc a \<noteq> hashToken pr svc b"
    and lo: "auth_Logout secure pr svc clk r m = ((Some ck, JSON StatusOK LoggedOut), m1)"
  shows "AuthenticateRequest pr svc clk r m = (Inr s, m) \<and>
     AuthenticateRequest pr svc clk r m1 = (Inr s, m1)"
proof -
  have "sessionTokenFromRequest r = a" using r by (simp add: sessionTokenFromRequest_def)
  then have "Logout pr svc clk a m = (None, m1)"
    using lo r(4) by (auto simp: auth_Logout_def require_method_def split: option.splits prod.splits)
  then have "m1 = m \<or> (\<exists>x. RevokeSession (hashToken pr svc a) (clk 2) m = (x, m1))"
    using r(2,3) svc
    by (auto simp: Logout_def memory_user_store_def split: sum.splits prod.splits repo_error.splits)
  then have "FindSessionByTokenHash (hashToken pr svc b) m1 = FindSessionByTokenHash (hashToken pr svc b) m \<and>
      users m1 = users m"
    using ab
    by (auto simp: RevokeSession_def FindSessionByTokenHash_def update_row_def hashToken_def
        find_update_first_other split: option.splits)
  then have "us_FindSessionByTokenHash (as_store svc) (hashToken pr svc b) m1 =
        us_FindSessionByTokenHash (as_store svc) (hashToken pr svc b) m"
    and "us_FindUserByID (as_store svc) i m1 = us_FindUserByID (as_store svc) i m" for i
    by (simp_all add: svc memory_user_store_def FindUserByID_def)
  then have "authenticateSessionToken pr svc clk b m1 = authenticateSessionToken pr svc clk b m"
    unfolding authenticateSessionToken_def by presburger
  then have "authenticateSessionToken pr svc clk b m1 = Inr s" using s by simp
  then show ?thesis using s r(5,6) by (simp add: AuthenticateRequest_def)
qed

definition wit_prims2 :: auth_prims where
  "wit_prims2 = wit_prims\<lparr> ap_hmac := (\<lambda>key msg. [last msg]) \<rparr>"

definition wit_bearer :: string where
  "wit_bearer = seal (\<lambda>key msg. [last msg]) ''key'' ''{}''"

definition wit_both :: "AuthSession http_request" where
  "wit_both = wit_req\<lparr> Method := MethodPost, Headers := [(''Authorization'', ''Bearer '' @ wit_bearer)],
                       Cookies := [(SessionCookieName, ''other'')] \<rparr>"

definition wit_open :: Memory where
  "wit_open = snd (CreateSession 0
     \<lparr> ses_ID = 0, ses_UserID = 1, ses_TokenHash = hashToken wit_prims2 wit_svc wit_bearer, ses_IP = [],
       ses_UserAgent = [], ses_ExpiresAt = 901000000000, ses_CreatedAt = 0, ses_RevokedAt = None \<rparr> wit_m0)"

lemma logout_keeps_bearer_session_witness:
  "\<exists>s ck m1. auth_Logout True wit_prims2 wit_svc (\<lambda>_. 2000000000) wit_both wit_open =
       ((Some ck, JSON StatusOK LoggedOut), m1) \<and>
     AuthenticateRequest wit_prims2 wit_svc (\<lambda>_. 2000000000) wit_both m1 = (Inr s, m1)"
proof -
  have "Cookie SessionCookieName wit_both = Some ''other'' \<and> TrimSpace ''other'' = ''other'' \<and>
    Method wit_both = MethodPost \<and>
    bearerToken (HeaderGet ''Authorization'' wit_both) = wit_bearer \<and> wit_bearer \<noteq> [] \<and>
    hashToken wit_prims2 wit_svc ''other'' \<noteq> hashToken wit_prims2 wit_svc wit_bearer"
    by code_simp
  then have r: "Cookie SessionCookieName wit_both = Some ''other''" "TrimSpace ''other'' = ''other''"
    "''other'' \<noteq> []" "Method wit_both = MethodPost"
    "bearerToken (HeaderGet ''Authorization'' wit_both) = wit_bearer" "wit_bearer \<noteq> []"
    "hashToken wit_prims2 wit_svc ''other'' \<noteq> hashToken wit_prims2 wit_svc wit_bearer"
    by blast+
  have "isl (authenticateSessionToken wit_prims2 wit_svc (\<lambda>_. 2000000000) wit_bearer wit_open) = False"
    by code_simp
  then obtain s where s: "authenticateSessionToken wit_prims2 wit_svc (\<lambda>_. 2000000000) wit_bearer wit_open = Inr s"
    by (metis isl_def sum.exhaust)
  have "fst (auth_Logout True wit_prims2 wit_svc (\<lambda>_. 2000000000) wit_both wit_open) =
      (Some (clearedCookie True), JSON StatusOK LoggedOut)"
    by code_simp
  then obtain m1 where "auth_Logout True wit_prims2 wit_svc (\<lambda>_. 2000000000) wit_both wit_open =
      ((Some (clearedCookie True), JSON StatusOK LoggedOut), m1)"
    by (metis prod.collapse)
  then show ?thesis
    using logout_keeps_bearer_session [OF wit_store r(1-6) s r(7)] by blast
qed

end
