(* ===== verification/Setup_Handler.thy ===== *)
theory Setup_Handler
  imports Handler_Core Memory_Properties Auth_Properties
begin

text \<open>
  First set-up (\<^verbatim>\<open>api/internal/setup/handler.go\<close>): while there is no user, a caller on the same
  machine or with the set-up token creates the first administrator. Arguments are \<open>loopback\<close>
  (\<^verbatim>\<open>net.ParseIP(s).IsLoopback()\<close> on the text of an address) and \<open>bcrypt_hash\<close>, which may fail
  (\<^verbatim>\<open>auth.HashPassword\<close>, a call of bcrypt).
\<close>

record CreateAdminRequest =
  sar_Email :: string
  sar_Username :: string
  sar_DisplayName :: string
  sar_Password :: string
  sar_SetupToken :: string

datatype setup_payload =
    SetupStatus bool int
  | SetupUser User

section \<open>Who may set up\<close>

definition isLoopbackRequest :: "(string \<Rightarrow> bool) \<Rightarrow> request \<Rightarrow> bool" where
  "isLoopbackRequest loopback r =
     (let host = (case SplitHost (RemoteAddr r) of Some h \<Rightarrow> h | None \<Rightarrow> RemoteAddr r)
      in loopback (TrimSpace host))"

definition setupTokenFromRequest :: "request \<Rightarrow> string \<Rightarrow> string" where
  "setupTokenFromRequest r bodyToken =
     (let token = TrimSpace bodyToken
      in if token \<noteq> [] then token
         else let token2 = TrimSpace (HeaderGet ''X-Opendesk-Setup-Token'' r)
              in if token2 \<noteq> [] then token2
                 else let authHeader = TrimSpace (HeaderGet ''Authorization'' r)
                      in if HasPrefix (ToLower authHeader) ''bearer '' then TrimSpace (drop 7 authHeader)
                         else [])"

definition constantTimeEqual :: "string \<Rightarrow> string \<Rightarrow> bool" where
  "constantTimeEqual expected got = (if expected = [] \<or> got = [] then False else expected = got)"

definition setupAllowed :: "string \<Rightarrow> (string \<Rightarrow> bool) \<Rightarrow> request \<Rightarrow> string \<Rightarrow> bool" where
  "setupAllowed configured loopback r bodyToken =
     (if isLoopbackRequest loopback r then True
      else let expected = TrimSpace configured
           in if expected = [] then False
              else constantTimeEqual expected (setupTokenFromRequest r bodyToken))"

section \<open>Validation\<close>

definition weakPassword :: "string \<Rightarrow> bool" where
  "weakPassword value =
     (let trimmed = TrimSpace (ToLower value)
      in if trimmed \<in> set [[], ''admin'', ''password'', ''test1234'', ''change-this-in-production'']
         then True else length trimmed < 12)"

definition validateCreateAdmin :: "CreateAdminRequest \<Rightarrow> string option" where
  "validateCreateAdmin req =
     (if TrimSpace (sar_Email req) = [] then Some ''email is required''
      else if weakPassword (sar_Password req)
      then Some ''password must be at least 12 characters and not a known placeholder''
      else None)"

definition setup_username :: "CreateAdminRequest \<Rightarrow> string" where
  "setup_username req =
     (let username = TrimSpace (sar_Username req);
          username1 = (if username = [] then fst (Cut CHR ''@'' (TrimSpace (sar_Email req))) else username)
      in if username1 = [] then ''admin'' else username1)"

definition setup_display_name :: "CreateAdminRequest \<Rightarrow> string" where
  "setup_display_name req =
     (let displayName = TrimSpace (sar_DisplayName req)
      in if displayName = [] then ''Initial Admin'' else displayName)"

section \<open>Handlers\<close>

definition setup_Status :: "request \<Rightarrow> Memory \<Rightarrow> setup_payload handler_result" where
  "setup_Status r m =
     with_method MethodGet r m
       (case CountUsers m of
          Inl e \<Rightarrow> (server_error ''SETUP_STATUS_FAILED'' ''setup status failed'' e, m)
        | Inr count \<Rightarrow> (JSON StatusOK (SetupStatus (count = 0) count), m))"

definition setup_user :: "CreateAdminRequest \<Rightarrow> string \<Rightarrow> User" where
  "setup_user req passwordHash =
     \<lparr> user_ID = 0, user_Email = TrimSpace (sar_Email req), user_Username = setup_username req,
       user_DisplayName = setup_display_name req, user_PasswordHash = passwordHash,
       user_Status = UserStatusActive, user_MFAEnabled = False, user_Source = ''local'',
       user_CreatedAt = zero_time, user_UpdatedAt = zero_time, user_LastLoginAt = None \<rparr>"

definition setup_event :: "request \<Rightarrow> User \<Rightarrow> Event" where
  "setup_event r created =
     (event ''setup_initial_admin'' ''user'' (FormatInt (user_ID created))
        (Some [(''email'', AnyString (user_Email created)),
               (''username'', AnyString (user_Username created)),
               (''source'', AnyString ''setup_endpoint'')]))
       \<lparr> ev_ActorType := ''system'', ev_IP := requestIP r, ev_UserAgent := UserAgent r \<rparr>"

definition setup_Admin ::
    "string \<Rightarrow> (string \<Rightarrow> bool) \<Rightarrow> (string \<Rightarrow> string option) \<Rightarrow> (nat \<Rightarrow> gotime) \<Rightarrow> request \<Rightarrow>
       CreateAdminRequest option \<Rightarrow> Memory \<Rightarrow> setup_payload handler_result" where
  "setup_Admin configured loopback bcrypt_hash clk r body m =
     with_method MethodPost r m
       (decoded body m (\<lambda>req.
          if \<not> setupAllowed configured loopback r (sar_SetupToken req)
          then (Error StatusForbidden ''SETUP_NOT_ALLOWED''
                  ''setup requires a loopback request or a valid setup token'', m)
          else (case CountUsers m of
              Inl e \<Rightarrow> (server_error ''SETUP_STATUS_FAILED'' ''setup status failed'' e, m)
            | Inr count \<Rightarrow>
                if count > 0
                then (Error StatusConflict ''SETUP_ALREADY_COMPLETE''
                        ''initial administrator already exists'', m)
                else checked (validateCreateAdmin req) ''INVALID_SETUP_ADMIN'' m
                  (case bcrypt_hash (sar_Password req) of
                     None \<Rightarrow> (Error StatusInternalServerError ''PASSWORD_HASH_FAILED''
                                ''password hash failed'', m)
                   | Some passwordHash \<Rightarrow>
                       respond (CreateUser (clk 0) (setup_user req passwordHash) m)
                         (bad_request ''CREATE_SETUP_ADMIN_FAILED'')
                         (\<lambda>created m1.
                            (case RepositoryWrite (clk 1) (setup_event r created) m1 of
                               (Some err, m2) \<Rightarrow> (Error StatusInternalServerError ''AUDIT_WRITE_FAILED''
                                                   ''failed to record setup'', m2)
                             | (None, m2) \<Rightarrow> (JSON StatusCreated (SetupUser created), m2)))))))"

section \<open>Facts\<close>

lemma RepositoryWrite_eq:
  "RepositoryWrite now e m =
     (None, snd (CreateAuditEvent now (ToModel e) m))"
  by (simp add: RepositoryWrite_def CreateAuditEvent_def Let_def)

lemma setup_Admin_JSON_D:
  assumes "setup_Admin configured loopback bcrypt_hash clk r (Some req) m = (JSON StatusCreated (SetupUser u), m1)"
  shows "setupAllowed configured loopback r (sar_SetupToken req) \<and> users m = [] \<and>
    \<not> weakPassword (sar_Password req) \<and> user_ID u = nextID m + 1 \<and>
    user_Email u = TrimSpace (sar_Email req) \<and> user_Status u = UserStatusActive \<and>
    bcrypt_hash (sar_Password req) = Some (user_PasswordHash u) \<and> users m1 = [u] \<and>
    TrimSpace (sar_Email req) \<noteq> []"
  using assms
  by (auto simp: setup_Admin_def with_method_def require_method_def method_not_allowed_def decoded_def
      checked_def CountUsers_def respond_def CreateUser_def RepositoryWrite_eq CreateAuditEvent_def Let_def
      bad_request_def setup_user_def validateCreateAdmin_def split: option.splits if_splits)

lemma setup_handlers_accounted:
  assumes "Context r = None"
  shows "accounted r m (setup_Status r m) \<and> accounted r m (setup_Admin configured loopback bcrypt_hash clk r body m)"
  using assms
  by (auto simp: accounted_def setup_Status_def setup_Admin_def with_method_def decoded_def checked_def
      respond_def CreateUser_def CountUsers_def RepositoryWrite_eq CreateAuditEvent_def Let_def
      setup_event_def event_def ToModel_def split: option.split)

lemma setup_Admin_refused:
  assumes "users m \<noteq> []"
  shows "\<exists>n code msg. setup_Admin configured loopback bcrypt_hash clk r body m = (Error n code msg, m)"
  using assms
  by (auto simp: setup_Admin_def with_method_def require_method_def method_not_allowed_def decoded_def
      invalid_json_def CountUsers_def split: option.splits)

lemma update_first_Nil [simp]: "update_first P f xs = [] \<longleftrightarrow> xs = []"
  by (cases xs) simp_all

lemma mem_step_users: "mem_step m m' \<Longrightarrow> users m \<noteq> [] \<Longrightarrow> users m' \<noteq> []"
proof (induction rule: mem_step.induct)
  case (UpsertSystemSettings m now ss by')
  then show ?case using UpsertSystemSettings_frame [of now ss by' m] by auto
qed (simp_all add: step_simps split: option.split)

lemma mem_reach_users: "mem_reach m m' \<Longrightarrow> users m \<noteq> [] \<Longrightarrow> users m' \<noteq> []"
  by (induction rule: mem_reach.induct) (use mem_step_users in blast)+

text \<open>A login with the right password of an active user succeeds.\<close>

lemma login_succeeds:
  assumes svc: "as_store svc = memory_user_store"
    and u: "FindUserByEmail (ToLower (TrimSpace (lr_Email req))) m = Inr u" "0 < user_ID u"
      "user_Status u = UserStatusActive" "VerifyPassword pr (user_PasswordHash u) (lr_Password req)"
      "ToLower (TrimSpace (lr_Email req)) \<noteq> []" "lr_Password req \<noteq> []"
    and pr: "\<And>x. ap_marshal pr x \<noteq> None" "\<And>key s. ap_hmac pr key s \<noteq> []"
    and ttl: "\<not> IsZero (Add (clk 1) (as_ttl svc))"
  shows "\<exists>resp m'. Login pr svc clk rnd req m = (Inr resp, m') \<and> user_ID (lp_User resp) = user_ID u"
proof -
  have st: "\<exists>resp m'. start_session pr svc clk rnd req v ma = (Inr resp, m') \<and> lp_User resp = v"
    if "0 < user_ID v" for v ma
  proof -
    obtain raw where raw: "ap_marshal pr (token_claims svc (clk 1) rnd v) = Some raw" using pr(1) by blast
    have "hashToken pr svc (seal (ap_hmac pr) (as_key svc) raw) \<noteq> []"
      using pr(2) by (simp add: hashToken_def HashToken_def)
    moreover have "TrimSpace (hashToken pr svc t) = hashToken pr svc t" for t by (simp add: hashToken_def)
    ultimately show ?thesis using raw ttl that
      by (simp add: start_session_def IssueToken_def svc memory_user_store_def CreateSession_def Let_def)
  qed
  obtain r ma where r: "RecordUserLogin (user_ID u) (clk 0) m = (r, ma)" by fastforce
  have "case r of Inr v \<Rightarrow> user_ID v = user_ID u | Inl e \<Rightarrow> True"
    using r by (auto simp: RecordUserLogin_def update_row_def split: option.splits dest: find_SomeD)
  then have "0 < user_ID (case r of Inr v \<Rightarrow> v | Inl e \<Rightarrow> u)"
      "user_ID (case r of Inr v \<Rightarrow> v | Inl e \<Rightarrow> u) = user_ID u"
    using u(2) by (auto split: sum.splits)
  from st [OF this(1), of ma] this(2) show ?thesis using u r
    by (cases r) (auto simp: Login_def Let_def svc memory_user_store_def)
qed

section \<open>Properties\<close>

text \<open>
  C21. The first administrator, once: a set-up that is answered 201 came from this machine or
  with the token, found no user, and made one who can log in at once with the address and the
  password given; and no later set-up, whatever happened in between, creates another.
\<close>

theorem setup_once_then_login:
  assumes "as_store svc = memory_user_store"
    and "setup_Admin configured loopback bcrypt_hash clk r (Some req) m = (JSON StatusCreated (SetupUser u), m1)"
    and "0 \<le> nextID m" "\<And>c. c \<in> set (sar_Email req) \<Longrightarrow> 32 < byte c \<and> byte c < 128"
    and "\<And>pw hash. bcrypt_hash pw = Some hash \<Longrightarrow> ap_bcrypt pr hash pw"
    and "\<And>x. ap_marshal pr x \<noteq> None" "\<And>key s. ap_hmac pr key s \<noteq> []"
    and "\<not> IsZero (Add (clk' 1) (as_ttl svc))"
  shows "users m = [] \<and> setupAllowed configured loopback r (sar_SetupToken req) \<and>
    (\<exists>resp m'. Login pr svc clk' rnd \<lparr> lr_Email = sar_Email req, lr_Password = sar_Password req,
         lr_IP = ip, lr_UserAgent = ua \<rparr> m1 = (Inr resp, m') \<and> user_ID (lp_User resp) = user_ID u) \<and>
    (\<forall>m2 clk2 r2 body2. mem_reach m1 m2 \<longrightarrow>
       (\<exists>n code msg. setup_Admin configured loopback bcrypt_hash clk2 r2 body2 m2 = (Error n code msg, m2)))"
proof -
  note d = setup_Admin_JSON_D [OF assms(2)]
  have e: "TrimSpace (sar_Email req) = sar_Email req" by (rule TrimSpace_graph) (rule assms(4))
  have low: "TrimSpace (ToLower (sar_Email req)) = ToLower (sar_Email req)"
  proof (rule TrimSpace_graph)
    fix c assume "c \<in> set (ToLower (sar_Email req))"
    then obtain c' where "c' \<in> set (sar_Email req)" "c = lower_char c'" by (auto simp: ToLower_def)
    then show "32 < byte c \<and> byte c < 128" using assms(4) [of c'] by (auto simp: lower_char_def)
  qed
  have "sar_Password req \<noteq> []" using d by (auto simp: weakPassword_def Let_def)
  moreover have "FindUserByEmail (ToLower (sar_Email req)) m1 = Inr u"
    using d e low by (simp add: FindUserByEmail_def EqualFold_def)
  ultimately have "\<exists>resp m'. Login pr svc clk' rnd \<lparr> lr_Email = sar_Email req, lr_Password = sar_Password req,
         lr_IP = ip, lr_UserAgent = ua \<rparr> m1 = (Inr resp, m') \<and> user_ID (lp_User resp) = user_ID u"
    using d e assms(3,5)
    by (intro login_succeeds) (simp_all add: VerifyPassword_def assms(1,6,7) assms(8) [simplified])
  moreover have "\<exists>n code msg. setup_Admin configured loopback bcrypt_hash clk2 r2 body2 m2 = (Error n code msg, m2)"
    if "mem_reach m1 m2" for m2 clk2 r2 body2
    using setup_Admin_refused [OF mem_reach_users [OF that]] d by simp
  ultimately show ?thesis using d by blast
qed

definition wit_empty :: Memory where
  "wit_empty = NewMemoryWithoutInitialAdmin 0"

definition wit_bcrypt :: "string \<Rightarrow> string option" where
  "wit_bcrypt pw = Some (rev pw)"

definition wit_setup_prims :: auth_prims where
  "wit_setup_prims =
     \<lparr> ap_bcrypt = (\<lambda>h pw. h = rev pw), ap_hmac = (\<lambda>key msg. ''a''), ap_marshal = (\<lambda>c. Some ''{}''),
       ap_unmarshal = (\<lambda>_. None) \<rparr>"

definition wit_setup :: request where
  "wit_setup = wit_req\<lparr> Method := MethodPost, Headers := [] \<rparr>"

definition wit_admin_request :: CreateAdminRequest where
  "wit_admin_request = \<lparr> sar_Email = ''a@b'', sar_Username = [], sar_DisplayName = [],
     sar_Password = ''correct horse'', sar_SetupToken = ''t'' \<rparr>"

definition wit_set_up :: "setup_payload handler_result" where
  "wit_set_up = setup_Admin '' t'' (\<lambda>_. False) wit_bcrypt (\<lambda>_. 1) wit_setup (Some wit_admin_request) wit_empty"

theorem setup_once_then_login_witness:
  "\<exists>u. fst wit_set_up = JSON StatusCreated (SetupUser u) \<and>
     (\<exists>resp m'. Login wit_setup_prims wit_svc (\<lambda>_. 9) ''n'' \<lparr> lr_Email = sar_Email wit_admin_request,
         lr_Password = sar_Password wit_admin_request, lr_IP = [], lr_UserAgent = [] \<rparr> (snd wit_set_up) =
         (Inr resp, m') \<and> user_ID (lp_User resp) = user_ID u)"
proof -
  have "case fst wit_set_up of Error n c msg \<Rightarrow> False
      | JSON n p \<Rightarrow> n = 201 \<and> (case p of SetupUser u \<Rightarrow> True | _ \<Rightarrow> False)" by code_simp
  then obtain u where u: "fst wit_set_up = JSON StatusCreated (SetupUser u)"
    by (auto split: http_response.splits setup_payload.splits)
  then have "wit_set_up = (JSON StatusCreated (SetupUser u), snd wit_set_up)" by (metis prod.collapse)
  note s = this [unfolded wit_set_up_def]
  have n: "0 \<le> nextID wit_empty" by code_simp
  have g: "32 < byte c \<and> byte c < 128" if "c \<in> set (sar_Email wit_admin_request)" for c
    using that by (auto simp: wit_admin_request_def)
  have b: "ap_bcrypt wit_setup_prims hash pw" if "wit_bcrypt pw = Some hash" for pw hash
    using that by (simp add: wit_bcrypt_def wit_setup_prims_def)
  have p: "ap_marshal wit_setup_prims x \<noteq> None" "ap_hmac wit_setup_prims key t \<noteq> []" for x key t
    by (simp_all add: wit_setup_prims_def)
  have z: "\<not> IsZero (Add ((\<lambda>_. 9) (1::nat)) (as_ttl wit_svc))" by code_simp
  note t = setup_once_then_login [OF wit_store s n g b p z, folded wit_set_up_def]
  show ?thesis using t u by blast
qed

end
