(* ===== verification/Public_Routes.thy ===== *)
theory Public_Routes
  imports Handler_Invariant Relay_Handler Grant_Handler Auth_Handler Setup_Handler
begin

text \<open>
  What the routes that need no authentication do to the repository. The locale lists the calls they
  make: a predicate these calls keep passes through login, logout, heartbeat and grant validation.
  One instance is that everything but sessions, logs, the state of grants and of relays stays as
  it was.
\<close>

text \<open>A relay-grant service over the repository, with a predicate of the repository.\<close>

definition over :: "(Memory \<Rightarrow> bool) \<Rightarrow> grant_service \<Rightarrow> bool" where
  "over P s \<longleftrightarrow> svc_store s = Some memory_grant_store \<and> P (svc_db s)"

lemma over_db: "over P s \<Longrightarrow> P m \<Longrightarrow> over P (s\<lparr> svc_db := m \<rparr>)"
  by (simp add: over_def)

locale public_invariant = handler_invariant P for P :: "Memory \<Rightarrow> bool" +
  assumes login_log: "P m \<Longrightarrow> P (snd (CreateLoginLog now l m))"
    and new_session: "P m \<Longrightarrow> P (snd (CreateSession now s m))"
    and session_revoked: "P m \<Longrightarrow> P (snd (RevokeSession h now m))"
    and user_login: "P m \<Longrightarrow> P (snd (RecordUserLogin i now m))"
    and health: "P m \<Longrightarrow> P (snd (RelayHeartbeat now i cs status m))"
    and grant_status: "P m \<Longrightarrow> P (snd (UpdateRelayGrantStatus gid status usedAt m))"
    and connection_log: "P m \<Longrightarrow> P (snd (CreateConnectionLog now cl m))"
begin

lemma writeAudit_keeps: "P m \<Longrightarrow> P (snd (writeAudit now r e m))"
  using audited [of m now r e failure "Error 0 [] []"]
  by (simp add: audited_def split: prod.splits option.splits)

lemma recordLoginLog_keeps: "as_store svc = memory_user_store \<Longrightarrow> P m \<Longrightarrow> P (recordLoginLog svc clk log m)"
  by (simp add: recordLoginLog_def memory_user_store_def Let_def login_log)

lemma start_session_keeps:
  assumes "as_store svc = memory_user_store" "P m"
  shows "P (snd (start_session pr svc clk rnd req user m))"
proof -
  have "P m1" if "CreateSession t x m = (res, m1)" for t x res m1
    using new_session [OF assms(2)] that by (metis snd_conv)
  then show ?thesis using assms recordLoginLog_keeps [OF assms(1)]
    by (auto simp: start_session_def memory_user_store_def split: sum.split prod.split)
qed

lemma Login_keeps:
  assumes "as_store svc = memory_user_store" "P m"
  shows "P (snd (Login pr svc clk rnd req m))"
proof -
  have "P m1" if "RecordUserLogin i t m = (res, m1)" for i t res m1
    using user_login [OF assms(2)] that by (metis snd_conv)
  then show ?thesis using assms recordLoginLog_keeps [OF assms] start_session_keeps [OF assms(1)]
    by (auto simp: Login_def memory_user_store_def Let_def split: sum.split prod.split repo_error.split)
qed

lemma Logout_keeps:
  assumes "as_store svc = memory_user_store" "P m"
  shows "P (snd (Logout pr svc clk token m))"
proof -
  have "P m1" if "RevokeSession h t m = (res, m1)" for h t res m1
    using session_revoked [OF assms(2)] that by (metis snd_conv)
  then show ?thesis using assms
    by (auto simp: Logout_def memory_user_store_def Let_def split: sum.split prod.split repo_error.split)
qed

lemma auth_handlers_keep:
  assumes "as_store svc = memory_user_store" "P m"
  shows "P (snd (auth_Login secure pr svc clk rnd r body m))"
    and "P (snd (auth_Logout secure pr svc clk r m))"
proof -
  have "P m1" if "Login pr svc clk rnd req m = (res, m1)" for req res m1
    using Login_keeps [OF assms, of pr clk rnd req] that by simp
  then show "P (snd (auth_Login secure pr svc clk rnd r body m))"
    using assms(2) by (auto simp: auth_Login_def split: option.split sum.split prod.split)
  have "P m1" if "Logout pr svc clk t m = (res, m1)" for t res m1
    using Logout_keeps [OF assms, of pr clk t] that by simp
  then show "P (snd (auth_Logout secure pr svc clk r m))"
    using assms(2) by (auto simp: auth_Logout_def split: option.split prod.split)
qed

lemma heartbeat_keeps: "P m \<Longrightarrow> P (snd (relays_heartbeat clk r i hb m))"
  unfolding relays_heartbeat_def by (intro steps health same; assumption)+

lemma updateGrantStatus_keeps: "over P s \<Longrightarrow> over P (snd (updateGrantStatus g st u s))"
proof -
  assume o: "over P s"
  have "P m1" if "UpdateRelayGrantStatus i x y (svc_db s) = (res, m1)" for i x y res m1
    using grant_status o that by (metis over_def snd_conv)
  then show ?thesis using o
    by (auto simp: updateGrantStatus_def over_def memory_grant_store_def update_in_map_def Let_def
        split: sum.split prod.split option.split)
qed

lemma ValidateWithContext_keeps: "over P s \<Longrightarrow> over P (snd (ValidateWithContext c now now2 vreq s))"
proof -
  assume o: "over P s"
  have up: "over P s1" if "updateGrantStatus g t u s = (g1, s1)" for g t u g1 s1
    using updateGrantStatus_keeps [OF o, of g t u] that by simp
  show ?thesis using o
    by (cases "validate_decide c now vreq s") (auto simp: ValidateWithContext_def split: prod.split dest: up)
qed

lemma grants_Validate_keeps: "over P s \<Longrightarrow> over P (snd (grants_Validate c clk r body s))"
proof -
  assume o: "over P s"
  have v: "over P s1" if "ValidateWithContext c t t2 req s = (res, s1)" for t t2 req res s1
    using ValidateWithContext_keeps [OF o, of c t t2 req] that by simp
  have w: "P m1" if "writeAudit t r e (svc_db s1) = (x, m1)" "over P s1" for t e x m1 s1
    using writeAudit_keeps [of "svc_db s1" t r e] that by (simp add: over_def)
  have d: "P m2" if "writeDeniedConnectionLog clk req resp m1 = (x, m2)" "P m1" for req resp m1 x m2
    using that connection_log [OF that(2)]
    by (auto simp: writeDeniedConnectionLog_def split: prod.splits sum.splits) (metis snd_conv)+
  show ?thesis using o
    by (auto simp: grants_Validate_def Let_def split: option.split sum.split prod.split
        intro!: over_db) (metis v w d)+
qed

end

interpretation reaches: public_invariant "mem_reach m0" for m0
  by unfold_locales (rule mem_reach.step, assumption, rule mem_step.intros)+

section \<open>What they leave alone\<close>

text \<open>
  \<open>kept m0 m\<close>: users differ at most in the time of their last login; of the other tables only
  sessions, relays, relay grants, and the audit, login and connection logs may differ.
\<close>

definition user_core :: "User \<Rightarrow> User" where
  "user_core u = u\<lparr> user_LastLoginAt := None, user_UpdatedAt := 0 \<rparr>"

definition kept_tables :: "Memory \<Rightarrow> Memory \<Rightarrow> bool" where
  "kept_tables m0 m \<longleftrightarrow>
     apiTokens m = apiTokens m0 \<and> userGroups m = userGroups m0 \<and> devices m = devices m0 \<and>
     deviceGroups m = deviceGroups m0 \<and> addressBooks m = addressBooks m0 \<and>
     accessRules m = accessRules m0 \<and> controlRoles m = controlRoles m0 \<and> strategies m = strategies m0 \<and>
     settings m = settings m0 \<and> fileTransfers m = fileTransfers m0 \<and> buildProfiles m = buildProfiles m0 \<and>
     buildJobs m = buildJobs m0 \<and> buildArtifacts m = buildArtifacts m0"

definition kept :: "Memory \<Rightarrow> Memory \<Rightarrow> bool" where
  "kept m0 m \<longleftrightarrow> kept_tables m0 m \<and> map user_core (users m) = map user_core (users m0)"

lemma map_update_first_core:
  "(\<And>x. f (g x) = f x) \<Longrightarrow> map f (update_first P g xs) = map f xs"
  by (induction xs) auto

interpretation keeps: public_invariant "kept m0" for m0
proof unfold_locales
  show "kept m0 m \<Longrightarrow> kept m0 (snd (RecordUserLogin i now m))" for m i now
    by (auto simp: kept_def kept_tables_def RecordUserLogin_def update_row_def user_core_def
        map_update_first_core split: option.split)
qed (auto simp: kept_def kept_tables_def step_simps split: option.split)

lemma kept_refl [simp]: "kept m m"
  by (simp add: kept_def kept_tables_def)

end
