(* ===== verification/User_Handler.thy ===== *)
theory User_Handler
  imports Auth_Properties Handler_Core
begin

text \<open>
  The HTTP handlers of users and user groups (\<^verbatim>\<open>api/internal/users/handler.go\<close>). A body at
  \<^verbatim>\<open>models.User\<close> decodes without a password hash: the field has the JSON tag \<open>-\<close>
  (\<open>decoded_user\<close>).
\<close>

datatype user_payload =
    UserList "User list"
  | UserItem User
  | UserGroupList "UserGroup list"
  | UserGroupItem UserGroup
  | MemberList "int list"

record CreateUserGroupRequest =
  cug_Name :: string
  cug_Description :: string
  cug_MemberUserIDs :: "int list"

section \<open>Paths and validation\<close>

definition parseUserPath :: "string \<Rightarrow> int option" where
  "parseUserPath path =
     (let rest = TrimChar CHR ''/'' (TrimPrefix path ''/api/v1/users/'')
      in if rest = [] \<or> List.member rest CHR ''/'' then None
         else (case ParseInt rest of None \<Rightarrow> None | Some i \<Rightarrow> if 0 < i then Some i else None))"

definition parseUserGroupMemberPath :: "string \<Rightarrow> (int \<times> int option) option" where
  "parseUserGroupMemberPath path =
     (let rest = TrimPrefix path ''/api/v1/user-groups/'';
          parts = Split CHR ''/'' (TrimChar CHR ''/'' rest)
      in if length parts \<noteq> 2 \<and> length parts \<noteq> 3 then None
         else if parts ! 1 \<noteq> ''members'' then None
         else (case ParseInt (parts ! 0) of
             None \<Rightarrow> None
           | Some gid \<Rightarrow>
               if gid \<le> 0 then None
               else if length parts = 2 then Some (gid, None)
               else (case ParseInt (parts ! 2) of
                   None \<Rightarrow> None
                 | Some uid \<Rightarrow> if uid \<le> 0 then None else Some (gid, Some uid))))"

definition validateUser :: "User \<Rightarrow> string option" where
  "validateUser user =
     (if TrimSpace (user_Email user) = [] \<or> TrimSpace (user_Username user) = []
      then Some ''email and username are required''
      else if user_Status user \<noteq> [] \<and>
              \<not> oneOf (user_Status user) [UserStatusActive, UserStatusDisabled, UserStatusLocked]
      then Some ''status must be active, disabled, or locked''
      else if TrimSpace (user_Source user) \<noteq> [] \<and>
              \<not> oneOf (TrimSpace (user_Source user)) [''local'', ''oidc'', ''ldap'']
      then Some ''source must be local, oidc, or ldap''
      else None)"

definition decoded_user :: "User \<Rightarrow> User" where
  "decoded_user user = user\<lparr> user_PasswordHash := [] \<rparr>"

section \<open>Users\<close>

definition user_metadata :: "User \<Rightarrow> (string \<times> any) list" where
  "user_metadata u =
     [(''email'', AnyString (user_Email u)), (''username'', AnyString (user_Username u)),
      (''display_name'', AnyString (user_DisplayName u)), (''status'', AnyString (user_Status u)),
      (''source'', AnyString (user_Source u))]"

definition users_Collection ::
    "(nat \<Rightarrow> gotime) \<Rightarrow> request \<Rightarrow> User option \<Rightarrow> Memory \<Rightarrow> user_payload handler_result" where
  "users_Collection clk r body m =
     (if Method r = MethodGet
      then listed (ListUsers m) ''LIST_USERS_FAILED'' ''list users failed'' UserList m
      else if Method r = MethodPost
      then decoded body m (\<lambda>user.
             respond (CreateUser (clk 0) (decoded_user user) m) (bad_request ''INVALID_USER'') (\<lambda>created m1.
               audited (clk 1) r
                 (event ''create_user'' ''user'' (FormatInt (user_ID created)) (Some (user_metadata created)))
                 ''failed to record user creation''
                 (JSON StatusCreated (UserItem created)) m1))
      else (method_not_allowed, m))"

definition updateUser ::
    "(nat \<Rightarrow> gotime) \<Rightarrow> request \<Rightarrow> int \<Rightarrow> User option \<Rightarrow> Memory \<Rightarrow> user_payload handler_result" where
  "updateUser clk r i body m =
     decoded body m (\<lambda>user.
       checked (validateUser (decoded_user user)) ''INVALID_USER'' m
         (respond (UpdateUser (clk 0) i (decoded_user user) m)
            (not_found_as ''USER_NOT_FOUND'' ''user not found'' (bad_request ''INVALID_USER''))
            (\<lambda>updated m1.
               audited (clk 1) r
                 (event ''update_user'' ''user'' (FormatInt (user_ID updated))
                    (Some (user_metadata updated @ [(''mfa_enabled'', AnyBool (user_MFAEnabled updated))])))
                 ''failed to record user update'' (JSON StatusOK (UserItem updated)) m1)))"

definition disableUser ::
    "(nat \<Rightarrow> gotime) \<Rightarrow> request \<Rightarrow> int \<Rightarrow> Memory \<Rightarrow> user_payload handler_result" where
  "disableUser clk r i m =
     respond (DisableUser i (clk 0) m)
       (not_found_as ''USER_NOT_FOUND'' ''user not found''
          (server_error ''DISABLE_USER_FAILED'' ''disable user failed''))
       (\<lambda>disabled m1.
          audited (clk 1) r
            (event ''disable_user'' ''user'' (FormatInt (user_ID disabled))
               (Some [(''email'', AnyString (user_Email disabled)),
                      (''username'', AnyString (user_Username disabled)),
                      (''status'', AnyString (user_Status disabled))]))
            ''failed to record user disable'' (JSON StatusOK (UserItem disabled)) m1)"

definition users_Item ::
    "(nat \<Rightarrow> gotime) \<Rightarrow> request \<Rightarrow> User option \<Rightarrow> Memory \<Rightarrow> user_payload handler_result" where
  "users_Item clk r body m =
     (case parseUserPath (Path r) of
        None \<Rightarrow> (Error StatusNotFound ''NOT_FOUND'' ''user route not found'', m)
      | Some i \<Rightarrow>
          if Method r = MethodGet
          then (case FindUserByID i m of
                  Inl e \<Rightarrow> (not_found_as ''USER_NOT_FOUND'' ''user not found''
                              (server_error ''LOAD_USER_FAILED'' ''load user failed'') e, m)
                | Inr user \<Rightarrow> (JSON StatusOK (UserItem user), m))
          else if Method r = MethodPut then updateUser clk r i body m
          else if Method r = MethodDelete then disableUser clk r i m
          else (method_not_allowed, m))"

section \<open>User groups\<close>

definition users_Groups ::
    "(nat \<Rightarrow> gotime) \<Rightarrow> request \<Rightarrow> CreateUserGroupRequest option \<Rightarrow> Memory \<Rightarrow>
       user_payload handler_result" where
  "users_Groups clk r body m =
     (if Method r = MethodGet
      then listed (ListUserGroups m) ''LIST_USER_GROUPS_FAILED'' ''list user groups failed''
             UserGroupList m
      else if Method r = MethodPost
      then decoded body m (\<lambda>req.
             checked (if TrimSpace (cug_Name req) = [] then Some ''name is required'' else None)
               ''INVALID_USER_GROUP'' m
               (respond (CreateUserGroup (clk 0)
                    \<lparr> ug_ID = 0, ug_Name = TrimSpace (cug_Name req),
                      ug_Description = TrimSpace (cug_Description req),
                      ug_MemberUserIDs = cug_MemberUserIDs req, ug_CreatedAt = zero_time,
                      ug_UpdatedAt = zero_time \<rparr> m)
                  (bad_request ''INVALID_USER_GROUP'')
                  (\<lambda>created m1.
                     audited (clk 1) r
                       (event ''create_user_group'' ''user_group'' (FormatInt (ug_ID created))
                          (Some [(''name'', AnyString (ug_Name created)),
                                 (''member_count'', AnyInt (int (length (ug_MemberUserIDs created))))]))
                       ''failed to record user group creation''
                       (JSON StatusCreated (UserGroupItem created)) m1)))
      else (method_not_allowed, m))"

definition addUserGroupMember ::
    "(nat \<Rightarrow> gotime) \<Rightarrow> request \<Rightarrow> int \<Rightarrow> int option \<Rightarrow> Memory \<Rightarrow> user_payload handler_result" where
  "addUserGroupMember clk r gid body m =
     decoded body m (\<lambda>uid.
       checked (if uid \<le> 0 then Some ''user_id must be positive'' else None)
         ''INVALID_USER_GROUP_MEMBER'' m
         (respond (AddUserGroupMember (clk 0) gid uid m)
            (not_found_as ''USER_GROUP_NOT_FOUND'' ''user group not found''
               (bad_request ''INVALID_USER_GROUP_MEMBER''))
            (\<lambda>grp m1.
               audited (clk 1) r
                 (event ''add_user_group_member'' ''user_group'' (FormatInt (ug_ID grp))
                    (Some [(''group_name'', AnyString (ug_Name grp)), (''user_id'', AnyInt uid)]))
                 ''failed to record user group membership change''
                 (JSON StatusCreated (UserGroupItem grp)) m1)))"

definition removeUserGroupMember ::
    "(nat \<Rightarrow> gotime) \<Rightarrow> request \<Rightarrow> int \<Rightarrow> int \<Rightarrow> Memory \<Rightarrow> user_payload handler_result" where
  "removeUserGroupMember clk r gid uid m =
     respond (RemoveUserGroupMember (clk 0) gid uid m)
       (not_found_as ''USER_GROUP_NOT_FOUND'' ''user group not found''
          (bad_request ''INVALID_USER_GROUP_MEMBER''))
       (\<lambda>grp m1.
          audited (clk 1) r
            (event ''remove_user_group_member'' ''user_group'' (FormatInt (ug_ID grp))
               (Some [(''group_name'', AnyString (ug_Name grp)), (''user_id'', AnyInt uid)]))
            ''failed to record user group membership change''
            (JSON StatusOK (UserGroupItem grp)) m1)"

text \<open>\<open>body\<close> is the decoded \<^verbatim>\<open>AddUserGroupMemberRequest\<close>, its one field.\<close>

definition users_GroupItem ::
    "(nat \<Rightarrow> gotime) \<Rightarrow> request \<Rightarrow> int option \<Rightarrow> Memory \<Rightarrow> user_payload handler_result" where
  "users_GroupItem clk r body m =
     (case parseUserGroupMemberPath (Path r) of
        None \<Rightarrow> (Error StatusNotFound ''NOT_FOUND'' ''user group route not found'', m)
      | Some (gid, uid) \<Rightarrow>
          if uid = None \<and> Method r = MethodGet
          then (case ListUserGroupMembers gid m of
                  Inl e \<Rightarrow> (not_found_as ''USER_GROUP_NOT_FOUND'' ''user group not found''
                     (server_error ''LIST_USER_GROUP_MEMBERS_FAILED'' ''list user group members failed'') e, m)
                | Inr members \<Rightarrow> (JSON StatusOK (MemberList members), m))
          else if uid = None \<and> Method r = MethodPost then addUserGroupMember clk r gid body m
          else if uid \<noteq> None \<and> Method r = MethodDelete
          then removeUserGroupMember clk r gid (the uid) m
          else (method_not_allowed, m))"

section \<open>Facts\<close>

lemma user_ops_clean [simp]:
  "clean_op m (CreateUser now u m)" "clean_op m (UpdateUser now i u m)"
  "clean_op m (DisableUser i now m)" "clean_op m (CreateUserGroup now g m)"
  "clean_op m (AddUserGroupMember now i j m)" "clean_op m (RemoveUserGroupMember now i j m)"
  by (simp_all add: clean_op_def step_simps split: option.split)

lemma user_handlers_accounted:
  "accounted r m (users_Collection clk r user m) \<and> accounted r m (users_Item clk r user m) \<and>
   accounted r m (users_Groups clk r gbody m) \<and> accounted r m (users_GroupItem clk r mbody m)"
proof (intro conjI)
  show "accounted r m (users_Collection clk r user m)"
    unfolding users_Collection_def by (intro accounted_intros user_ops_clean; simp)
  have "accounted r m (updateUser clk r i user m)" "accounted r m (disableUser clk r i m)" for i
    unfolding updateUser_def disableUser_def by (intro accounted_intros user_ops_clean; simp)+
  then show "accounted r m (users_Item clk r user m)"
    unfolding users_Item_def by (auto split: option.split sum.split)
  show "accounted r m (users_Groups clk r gbody m)"
    unfolding users_Groups_def by (intro accounted_intros user_ops_clean; simp)
  have "accounted r m (addUserGroupMember clk r i mbody m)"
    "accounted r m (removeUserGroupMember clk r i j m)" for i j
    unfolding addUserGroupMember_def removeUserGroupMember_def
    by (intro accounted_intros user_ops_clean; simp)+
  then show "accounted r m (users_GroupItem clk r mbody m)"
    unfolding users_GroupItem_def by (auto split: option.split sum.split)
qed

text \<open>A row set by its key: no other row has that key.\<close>

lemma update_first_key:
  assumes "distinct (map k xs)" "\<And>x. k x = i \<Longrightarrow> k (f x) = i"
    and "y \<in> set (update_first (\<lambda>x. k x = i) f xs)" "k y = i"
  shows "\<exists>x \<in> set xs. k x = i \<and> y = f x"
  using assms
proof (induction xs)
  case (Cons x xs)
  show ?case
  proof (cases "k x = i")
    case True
    then have "i \<notin> k ` set xs" using Cons.prems(1) by auto
    then show ?thesis using Cons.prems(3,4) True by auto
  next
    case False
    then show ?thesis using Cons by auto
  qed
qed simp

lemma disableUser_users:
  assumes "disableUser clk r i m = (JSON StatusOK p, m1)"
  shows "users m1 = update_first (\<lambda>u. user_ID u = i)
           (\<lambda>u. u\<lparr> user_Status := UserStatusDisabled, user_UpdatedAt := clk 0 \<rparr>) (users m)"
  using assms
  by (auto simp: disableUser_def respond_def DisableUser_def update_row_def audited_eq
      not_found_as_def split: option.splits if_splits)

lemma authenticated_user:
  assumes "as_store svc = memory_user_store" "AuthenticateRequest pr svc clk r m = (Inr s, m')"
  shows "asn_User s \<in> set (users m) \<and> user_Status (asn_User s) = UserStatusActive"
  using AuthenticateRequest_InrD [OF assms(2)]
  by (auto dest: authenticateSessionToken_InrD [OF _ assms(1)] authenticateAPIToken_InrD [OF _ assms(1)])

section \<open>Properties\<close>


definition wit_prims3 :: auth_prims where
  "wit_prims3 = wit_prims\<lparr> ap_hmac := (\<lambda>key msg. ''a'') \<rparr>"

definition wit_two :: Memory where
  "wit_two = snd (CreateUser 3 wit_user (snd (CreateSession 0
     \<lparr> ses_ID = 0, ses_UserID = 1, ses_TokenHash = hashToken wit_prims3 wit_svc ''.YQ'', ses_IP = [],
       ses_UserAgent = [], ses_ExpiresAt = 901000000000, ses_CreatedAt = 0, ses_RevokedAt = None \<rparr> wit_m0)))"

definition wit_bearer3 :: request where
  "wit_bearer3 = wit_req\<lparr> Headers := [(''Authorization'', ''Bearer .YQ'')] \<rparr>"

definition wit_delete :: request where
  "wit_delete = wit_req\<lparr> Method := MethodDelete, Path := ''/api/v1/users/102'' \<rparr>"


end
