(* ===== verification/Device_Handler.thy ===== *)
theory Device_Handler
  imports Handler_Core Strategy_Resolver Memory_Properties
begin

text \<open>
  The HTTP handlers of devices and device groups (\<^verbatim>\<open>api/internal/devices/handler.go\<close>), with the
  effective strategy of a device: the stored strategies become a resolver over the
  default-secure settings. Decoding a JSON object and the text of its numbers and of its
  nested values (\<^verbatim>\<open>encoding/json\<close>, \<^verbatim>\<open>strconv.FormatFloat\<close>) are the record \<open>json_prims\<close>.
\<close>

section \<open>Requests\<close>

datatype ('f, 'o) json_any =
    JsonString string
  | JsonBool bool
  | JsonFloat 'f
  | JsonOther 'o

record ('f, 'o) json_prims =
  js_Unmarshal :: "string \<Rightarrow> (string \<rightharpoonup> ('f, 'o) json_any) option"
  js_FormatFloat :: "'f \<Rightarrow> string"
  js_Marshal :: "'o \<Rightarrow> string"

record CreateDeviceGroupRequest =
  cdg_Name :: string
  cdg_Description :: string
  cdg_MemberDeviceIDs :: "int list"

record EffectiveStrategyResponse =
  esr_DeviceID :: int
  esr_UserID :: "int option"
  esr_DeviceGroupIDs :: "int list"
  esr_Settings :: "string \<rightharpoonup> string"
  esr_AppliedStrategyIDs :: "int list"

datatype device_payload =
    DeviceList "Device list"
  | DeviceItem Device
  | DeviceStrategy EffectiveStrategyResponse
  | DeviceGroupList "DeviceGroup list"
  | DeviceGroupItem DeviceGroup
  | DeviceMembers "int list"

section \<open>Paths and validation\<close>

definition parseDevicePath :: "string \<Rightarrow> (int \<times> string) option" where
  "parseDevicePath path =
     (let rest = TrimChar CHR ''/'' (TrimPrefix path ''/api/v1/devices/'')
      in if rest = [] then None
         else let parts = Split CHR ''/'' rest
              in if length parts \<noteq> 1 \<and> length parts \<noteq> 2 then None
                 else (case ParseInt (parts ! 0) of
                     None \<Rightarrow> None
                   | Some i \<Rightarrow>
                       if i \<le> 0 then None
                       else if length parts = 2 then Some (i, parts ! 1)
                       else Some (i, [])))"

definition parseDeviceGroupMemberPath :: "string \<Rightarrow> (int \<times> int option) option" where
  "parseDeviceGroupMemberPath path =
     (let rest = TrimPrefix path ''/api/v1/device-groups/'';
          parts = Split CHR ''/'' (TrimChar CHR ''/'' rest)
      in if length parts \<noteq> 2 \<and> length parts \<noteq> 3 then None
         else if parts ! 1 \<noteq> ''members'' then None
         else (case ParseInt (parts ! 0) of
             None \<Rightarrow> None
           | Some gid \<Rightarrow>
               if gid \<le> 0 then None
               else if length parts = 2 then Some (gid, None)
               else (case ParseInt (parts ! 2) of
                   None \<Rightarrow> None
                 | Some did \<Rightarrow> if did \<le> 0 then None else Some (gid, Some did))))"

definition validateDevice :: "Device \<Rightarrow> string option" where
  "validateDevice device =
     (if TrimSpace (dev_RustDeskID device) = [] \<or> TrimSpace (dev_Name device) = []
      then Some ''rustdesk_id and name are required''
      else if dev_Status device \<noteq> [] \<and>
              \<not> oneOf (dev_Status device) [DeviceStatusOnline, DeviceStatusOffline, DeviceStatusDisabled]
      then Some ''status must be online, offline, or disabled''
      else None)"

section \<open>Devices\<close>

definition device_metadata :: "Device \<Rightarrow> (string \<times> any) list" where
  "device_metadata d =
     [(''rustdesk_id'', AnyString (dev_RustDeskID d)), (''name'', AnyString (dev_Name d)),
      (''platform'', AnyString (dev_Platform d)), (''status'', AnyString (dev_Status d))]"

definition devices_Collection ::
    "(nat \<Rightarrow> gotime) \<Rightarrow> request \<Rightarrow> Device option \<Rightarrow> Memory \<Rightarrow> device_payload handler_result" where
  "devices_Collection clk r body m =
     (if Method r = MethodGet
      then listed (ListDevices m) ''LIST_DEVICES_FAILED'' ''list devices failed'' DeviceList m
      else if Method r = MethodPost
      then decoded body m (\<lambda>device.
             respond (CreateDevice (clk 0) device m) (bad_request ''INVALID_DEVICE'') (\<lambda>created m1.
               audited (clk 1) r
                 (event ''create_device'' ''device'' (FormatInt (dev_ID created))
                    (Some (device_metadata created)))
                 ''failed to record device creation''
                 (JSON StatusCreated (DeviceItem created)) m1))
      else (method_not_allowed, m))"

definition devices_Register ::
    "(nat \<Rightarrow> gotime) \<Rightarrow> request \<Rightarrow> Device option \<Rightarrow> Memory \<Rightarrow> device_payload handler_result" where
  "devices_Register clk r body m =
     with_method MethodPost r m
       (decoded body m (\<lambda>device.
          respond (CreateDevice (clk 0) device m) (bad_request ''INVALID_DEVICE'') (\<lambda>created m1.
            audited (clk 1) r
              (event ''register_device'' ''device'' (FormatInt (dev_ID created))
                 (Some (device_metadata created)))
              ''failed to record device registration''
              (JSON StatusCreated (DeviceItem created)) m1)))"

definition updateDevice ::
    "(nat \<Rightarrow> gotime) \<Rightarrow> request \<Rightarrow> int \<Rightarrow> Device option \<Rightarrow> Memory \<Rightarrow> device_payload handler_result" where
  "updateDevice clk r i body m =
     decoded body m (\<lambda>device.
       checked (validateDevice device) ''INVALID_DEVICE'' m
         (respond (UpdateDevice (clk 0) i device m)
            (not_found_as ''DEVICE_NOT_FOUND'' ''device not found'' (bad_request ''INVALID_DEVICE''))
            (\<lambda>updated m1.
               audited (clk 1) r
                 (event ''update_device'' ''device'' (FormatInt (dev_ID updated))
                    (Some (device_metadata updated)))
                 ''failed to record device update'' (JSON StatusOK (DeviceItem updated)) m1)))"

definition disableDevice ::
    "(nat \<Rightarrow> gotime) \<Rightarrow> request \<Rightarrow> int \<Rightarrow> Memory \<Rightarrow> device_payload handler_result" where
  "disableDevice clk r i m =
     respond (DisableDevice i (clk 0) m)
       (not_found_as ''DEVICE_NOT_FOUND'' ''device not found''
          (server_error ''DISABLE_DEVICE_FAILED'' ''disable device failed''))
       (\<lambda>disabled m1.
          audited (clk 1) r
            (event ''disable_device'' ''device'' (FormatInt (dev_ID disabled))
               (Some [(''rustdesk_id'', AnyString (dev_RustDeskID disabled)),
                      (''name'', AnyString (dev_Name disabled)),
                      (''status'', AnyString (dev_Status disabled))]))
            ''failed to record device disable'' (JSON StatusOK (DeviceItem disabled)) m1)"

section \<open>The effective strategy\<close>

fun device_groups_loop :: "int \<Rightarrow> Memory \<Rightarrow> DeviceGroup list \<Rightarrow> int list \<Rightarrow> repo_error + int list" where
  "device_groups_loop did m [] out = Inr out"
| "device_groups_loop did m (g # gs) out =
     (case ListDeviceGroupMembers (dg_ID g) m of
        Inl e \<Rightarrow> if e = ErrNotFound then device_groups_loop did m gs out else Inl e
      | Inr members \<Rightarrow>
          device_groups_loop did m gs
            (if list_ex (\<lambda>i. i = did) members then out @ [dg_ID g] else out))"

definition deviceGroupIDs :: "int \<Rightarrow> Memory \<Rightarrow> repo_error + int list" where
  "deviceGroupIDs did m =
     (case ListDeviceGroups m of Inl e \<Rightarrow> Inl e | Inr gs \<Rightarrow> device_groups_loop did m gs [])"

definition setting_text :: "('f, 'o) json_prims \<Rightarrow> ('f, 'o) json_any \<Rightarrow> string" where
  "setting_text js v =
     (case v of
        JsonString s \<Rightarrow> s
      | JsonBool b \<Rightarrow> if b then ''true'' else ''false''
      | JsonFloat x \<Rightarrow> js_FormatFloat js x
      | JsonOther x \<Rightarrow> js_Marshal js x)"

definition strategySettings :: "('f, 'o) json_prims \<Rightarrow> string \<Rightarrow> (string \<rightharpoonup> string) option" where
  "strategySettings js raw =
     (case js_Unmarshal js raw of
        None \<Rightarrow> None
      | Some object \<Rightarrow> Some (\<lambda>key. map_option (setting_text js) (object key)))"

definition default_secure :: RStrategy where
  "default_secure =
     \<lparr> rs_ID = 0, rs_Name = ''default-secure'', rs_Enabled = True,
       rs_Settings = [''terminal'' \<mapsto> ''N'', ''tcp_tunnel'' \<mapsto> ''N'',
                      ''allow-remote-config-modification'' \<mapsto> ''N''] \<rparr>"

fun resolver_loop :: "('f, 'o) json_prims \<Rightarrow> Resolver \<Rightarrow> Strategy list \<Rightarrow> string + Resolver" where
  "resolver_loop js rv [] = Inr rv"
| "resolver_loop js rv (item # rest) =
     (case strategySettings js (st_SettingsJSON item) of
        None \<Rightarrow> Inl (''strategy '' @ FormatInt (st_ID item) @ '' settings_json must be a JSON object'')
      | Some parsed \<Rightarrow>
          resolver_loop js
            (rv\<lparr> rv_Strategies := rv_Strategies rv @
                   [\<lparr> rs_ID = st_ID item, rs_Name = st_Name item, rs_Enabled = st_Enabled item,
                      rs_Settings = parsed \<rparr>],
                 rv_Assignments := rv_Assignments rv @
                   map (\<lambda>a. \<lparr> asg_StrategyID = st_ID item, asg_TargetType = sa_TargetType a,
                             asg_TargetID = sa_TargetID a \<rparr>) (st_Assignments item) \<rparr>)
            rest)"

definition buildStrategyResolver :: "('f, 'o) json_prims \<Rightarrow> Strategy list \<Rightarrow> string + Resolver" where
  "buildStrategyResolver js items =
     resolver_loop js \<lparr> rv_Strategies = [], rv_Assignments = [], rv_Default = default_secure \<rparr> items"

text \<open>The user the strategy is asked for: the one of the query, else the owner.\<close>

definition strategy_user :: "request \<Rightarrow> Device \<Rightarrow> (int option) option" where
  "strategy_user r device =
     (let rawUserID = TrimSpace (QueryGet ''user_id'' r)
      in if rawUserID \<noteq> []
         then (case ParseInt rawUserID of
                 None \<Rightarrow> None
               | Some parsed \<Rightarrow> if parsed \<le> 0 then None else Some (Some parsed))
         else Some (dev_OwnerUserID device))"

definition effectiveStrategy ::
    "('f, 'o) json_prims \<Rightarrow> request \<Rightarrow> int \<Rightarrow> Memory \<Rightarrow> device_payload handler_result" where
  "effectiveStrategy js r i m =
     (case FindDeviceByID i m of
        Inl e \<Rightarrow> (not_found_as ''DEVICE_NOT_FOUND'' ''device not found''
                    (server_error ''LOAD_DEVICE_FAILED'' ''load device failed'') e, m)
      | Inr device \<Rightarrow>
          (case strategy_user r device of
             None \<Rightarrow> (Error StatusBadRequest ''INVALID_USER_ID'' ''user_id must be positive'', m)
           | Some userID \<Rightarrow>
               (case deviceGroupIDs i m of
                  Inl e \<Rightarrow> (server_error ''LOAD_DEVICE_GROUPS_FAILED'' ''load device groups failed'' e, m)
                | Inr gids \<Rightarrow>
                    (case ListStrategies m of
                       Inl e \<Rightarrow> (server_error ''LIST_STRATEGIES_FAILED'' ''list strategies failed'' e, m)
                     | Inr items \<Rightarrow>
                         (case buildStrategyResolver js items of
                            Inl msg \<Rightarrow> (Error StatusInternalServerError ''INVALID_STORED_STRATEGY'' msg, m)
                          | Inr resolver \<Rightarrow>
                              let result = Resolve resolver
                                    \<lparr> ctx_DeviceID = i, ctx_UserID = userID, ctx_DeviceGroupIDs = gids \<rparr>
                              in (JSON StatusOK (DeviceStrategy
                                    \<lparr> esr_DeviceID = i, esr_UserID = userID, esr_DeviceGroupIDs = gids,
                                      esr_Settings = res_Settings result,
                                      esr_AppliedStrategyIDs = res_AppliedStrategy result \<rparr>), m))))))"

definition devices_Item ::
    "('f, 'o) json_prims \<Rightarrow> (nat \<Rightarrow> gotime) \<Rightarrow> request \<Rightarrow> Device option \<Rightarrow> Memory \<Rightarrow>
       device_payload handler_result" where
  "devices_Item js clk r body m =
     (case parseDevicePath (Path r) of
        None \<Rightarrow> (Error StatusNotFound ''NOT_FOUND'' ''device route not found'', m)
      | Some (i, action) \<Rightarrow>
          if action = ''disable'' then with_method MethodPost r m (disableDevice clk r i m)
          else if action = ''effective-strategy''
          then with_method MethodGet r m (effectiveStrategy js r i m)
          else if action \<noteq> [] then (Error StatusNotFound ''NOT_FOUND'' ''device route not found'', m)
          else if Method r = MethodGet
          then (case FindDeviceByID i m of
                  Inl e \<Rightarrow> (not_found_as ''DEVICE_NOT_FOUND'' ''device not found''
                              (server_error ''LOAD_DEVICE_FAILED'' ''load device failed'') e, m)
                | Inr device \<Rightarrow> (JSON StatusOK (DeviceItem device), m))
          else if Method r = MethodPut then updateDevice clk r i body m
          else (method_not_allowed, m))"

section \<open>Device groups\<close>

definition devices_Groups ::
    "(nat \<Rightarrow> gotime) \<Rightarrow> request \<Rightarrow> CreateDeviceGroupRequest option \<Rightarrow> Memory \<Rightarrow>
       device_payload handler_result" where
  "devices_Groups clk r body m =
     (if Method r = MethodGet
      then listed (ListDeviceGroups m) ''LIST_DEVICE_GROUPS_FAILED'' ''list device groups failed''
             DeviceGroupList m
      else if Method r = MethodPost
      then decoded body m (\<lambda>req.
             checked (if TrimSpace (cdg_Name req) = [] then Some ''name is required'' else None)
               ''INVALID_DEVICE_GROUP'' m
               (respond (CreateDeviceGroup (clk 0)
                    \<lparr> dg_ID = 0, dg_Name = TrimSpace (cdg_Name req),
                      dg_Description = TrimSpace (cdg_Description req),
                      dg_MemberDeviceIDs = cdg_MemberDeviceIDs req, dg_CreatedAt = zero_time,
                      dg_UpdatedAt = zero_time \<rparr> m)
                  (bad_request ''INVALID_DEVICE_GROUP'')
                  (\<lambda>created m1.
                     audited (clk 1) r
                       (event ''create_device_group'' ''device_group'' (FormatInt (dg_ID created))
                          (Some [(''name'', AnyString (dg_Name created)),
                                 (''member_count'', AnyInt (int (length (dg_MemberDeviceIDs created))))]))
                       ''failed to record device group creation''
                       (JSON StatusCreated (DeviceGroupItem created)) m1)))
      else (method_not_allowed, m))"

definition addDeviceGroupMember ::
    "(nat \<Rightarrow> gotime) \<Rightarrow> request \<Rightarrow> int \<Rightarrow> int option \<Rightarrow> Memory \<Rightarrow> device_payload handler_result" where
  "addDeviceGroupMember clk r gid body m =
     decoded body m (\<lambda>did.
       checked (if did \<le> 0 then Some ''device_id must be positive'' else None)
         ''INVALID_DEVICE_GROUP_MEMBER'' m
         (respond (AddDeviceGroupMember (clk 0) gid did m)
            (not_found_as ''DEVICE_GROUP_NOT_FOUND'' ''device group not found''
               (bad_request ''INVALID_DEVICE_GROUP_MEMBER''))
            (\<lambda>grp m1.
               audited (clk 1) r
                 (event ''add_device_group_member'' ''device_group'' (FormatInt (dg_ID grp))
                    (Some [(''group_name'', AnyString (dg_Name grp)), (''device_id'', AnyInt did)]))
                 ''failed to record device group membership change''
                 (JSON StatusCreated (DeviceGroupItem grp)) m1)))"

definition removeDeviceGroupMember ::
    "(nat \<Rightarrow> gotime) \<Rightarrow> request \<Rightarrow> int \<Rightarrow> int \<Rightarrow> Memory \<Rightarrow> device_payload handler_result" where
  "removeDeviceGroupMember clk r gid did m =
     respond (RemoveDeviceGroupMember (clk 0) gid did m)
       (not_found_as ''DEVICE_GROUP_NOT_FOUND'' ''device group not found''
          (bad_request ''INVALID_DEVICE_GROUP_MEMBER''))
       (\<lambda>grp m1.
          audited (clk 1) r
            (event ''remove_device_group_member'' ''device_group'' (FormatInt (dg_ID grp))
               (Some [(''group_name'', AnyString (dg_Name grp)), (''device_id'', AnyInt did)]))
            ''failed to record device group membership change''
            (JSON StatusOK (DeviceGroupItem grp)) m1)"

text \<open>\<open>body\<close> is the decoded \<^verbatim>\<open>AddDeviceGroupMemberRequest\<close>, its one field.\<close>

definition devices_GroupItem ::
    "(nat \<Rightarrow> gotime) \<Rightarrow> request \<Rightarrow> int option \<Rightarrow> Memory \<Rightarrow> device_payload handler_result" where
  "devices_GroupItem clk r body m =
     (case parseDeviceGroupMemberPath (Path r) of
        None \<Rightarrow> (Error StatusNotFound ''NOT_FOUND'' ''device group route not found'', m)
      | Some (gid, did) \<Rightarrow>
          if did = None \<and> Method r = MethodGet
          then (case ListDeviceGroupMembers gid m of
                  Inl e \<Rightarrow> (not_found_as ''DEVICE_GROUP_NOT_FOUND'' ''device group not found''
                     (server_error ''LIST_DEVICE_GROUP_MEMBERS_FAILED''
                        ''list device group members failed'') e, m)
                | Inr members \<Rightarrow> (JSON StatusOK (DeviceMembers members), m))
          else if did = None \<and> Method r = MethodPost then addDeviceGroupMember clk r gid body m
          else if did \<noteq> None \<and> Method r = MethodDelete
          then removeDeviceGroupMember clk r gid (the did) m
          else (method_not_allowed, m))"

section \<open>Facts\<close>

lemma device_ops_clean [simp]:
  "clean_op m (CreateDevice now d m)" "clean_op m (UpdateDevice now i d m)"
  "clean_op m (DisableDevice i now m)" "clean_op m (CreateDeviceGroup now g m)"
  "clean_op m (AddDeviceGroupMember now i j m)" "clean_op m (RemoveDeviceGroupMember now i j m)"
  by (simp_all add: clean_op_def step_simps split: option.split)

lemma effectiveStrategy_pure: "snd (effectiveStrategy js r i m) = m"
  unfolding effectiveStrategy_def
  by (simp add: Let_def split: option.split sum.split)

lemma device_handlers_accounted:
  "accounted r m (devices_Collection clk r d m) \<and> accounted r m (devices_Register clk r d m) \<and>
   accounted r m (devices_Item js clk r d m) \<and> accounted r m (devices_Groups clk r gbody m) \<and>
   accounted r m (devices_GroupItem clk r mbody m)"
proof (intro conjI)
  show "accounted r m (devices_Collection clk r d m)"
    unfolding devices_Collection_def by (intro accounted_intros device_ops_clean; simp)
  show "accounted r m (devices_Register clk r d m)"
    unfolding devices_Register_def by (intro accounted_intros device_ops_clean; simp)
  have "accounted r m (updateDevice clk r i d m)" "accounted r m (disableDevice clk r i m)" for i
    unfolding updateDevice_def disableDevice_def by (intro accounted_intros device_ops_clean; simp)+
  moreover have "accounted r m (effectiveStrategy js r i m)" for i
    by (simp add: accounted_def effectiveStrategy_pure)
  ultimately show "accounted r m (devices_Item js clk r d m)"
    unfolding devices_Item_def by (auto split: option.split sum.split intro!: accounted_method)
  show "accounted r m (devices_Groups clk r gbody m)"
    unfolding devices_Groups_def by (intro accounted_intros device_ops_clean; simp)
  have "accounted r m (addDeviceGroupMember clk r i mbody m)"
    "accounted r m (removeDeviceGroupMember clk r i j m)" for i j
    unfolding addDeviceGroupMember_def removeDeviceGroupMember_def
    by (intro accounted_intros device_ops_clean; simp)+
  then show "accounted r m (devices_GroupItem clk r mbody m)"
    unfolding devices_GroupItem_def by (auto split: option.split sum.split)
qed

section \<open>Where a setting comes from\<close>

lemma device_groups_loop_eq:
  assumes "distinct (map dg_ID (deviceGroups m))" "set gs \<subseteq> set (deviceGroups m)"
  shows "device_groups_loop did m gs out =
     Inr (out @ map dg_ID (filter (\<lambda>g. did \<in> set (dg_MemberDeviceIDs g)) gs))"
  using assms(2)
proof (induction gs arbitrary: out)
  case (Cons g gs)
  have "find (\<lambda>h. dg_ID h = dg_ID g) (deviceGroups m) = Some g"
    using Cons.prems assms(1) by (intro find_key) auto
  then show ?case using Cons by (simp add: ListDeviceGroupMembers_def list_ex_iff)
qed simp

lemma resolver_loop_InrD:
  assumes "resolver_loop js rv items = Inr rv'"
  shows "rv_Default rv' = rv_Default rv"
    and "s \<in> set (rv_Strategies rv') \<Longrightarrow> s \<in> set (rv_Strategies rv) \<or>
      (\<exists>st \<in> set items. rs_ID s = st_ID st \<and> rs_Enabled s = st_Enabled st \<and>
         strategySettings js (st_SettingsJSON st) = Some (rs_Settings s))"
    and "a \<in> set (rv_Assignments rv') \<Longrightarrow> a \<in> set (rv_Assignments rv) \<or>
      (\<exists>st \<in> set items. asg_StrategyID a = st_ID st \<and>
         (\<exists>b \<in> set (st_Assignments st). sa_TargetType b = asg_TargetType a \<and> sa_TargetID b = asg_TargetID a))"
  using assms
  by (induction js rv items rule: resolver_loop.induct) (auto split: option.splits)

lemma last_value_SomeD: "last_value ss k = Some v \<Longrightarrow> \<exists>s \<in> set ss. rs_Settings s k = Some v"
  by (induction ss) (auto split: option.splits)

lemma last_value_defined: "last_value ss k = None \<Longrightarrow> s \<in> set ss \<Longrightarrow> rs_Settings s k = None"
  by (induction ss) (auto split: option.splits)

lemma Resolve_value: "res_Settings (Resolve rv ctx) k = last_value (layers rv ctx) k"
  by (simp add: Resolve_layers add_layers_Settings split: option.split)

lemma strategies_forD:
  assumes "s \<in> set (strategies_for rv ctx target)"
  shows "s \<in> set (rv_Strategies rv) \<and> rs_Enabled s \<and>
    (\<exists>a \<in> set (rv_Assignments rv). asg_StrategyID a = rs_ID s \<and> assignmentMatches a ctx)"
  using assms
  by (fastforce simp: strategies_for_def find_strategy_def dest: find_SomeD [OF sym] split: if_splits option.splits)

text \<open>An assignment of a stored strategy reaches a device and a user.\<close>

definition assigned_to :: "Memory \<Rightarrow> int \<Rightarrow> int option \<Rightarrow> StrategyAssignment \<Rightarrow> bool" where
  "assigned_to m did uid a \<longleftrightarrow>
     sa_TargetType a = ''device'' \<and> sa_TargetID a = did \<or>
     sa_TargetType a = ''user'' \<and> uid = Some (sa_TargetID a) \<or>
     sa_TargetType a = ''device_group'' \<and>
       (\<exists>g \<in> set (deviceGroups m). dg_ID g = sa_TargetID a \<and> did \<in> set (dg_MemberDeviceIDs g))"

lemma effectiveStrategy_JSON_D:
  assumes "distinct (map dg_ID (deviceGroups m))"
    and "effectiveStrategy js r i m = (JSON StatusOK (DeviceStrategy resp), m')"
  obtains rv where "buildStrategyResolver js (strategies m) = Inr rv"
    and "esr_Settings resp = res_Settings (Resolve rv \<lparr> ctx_DeviceID = esr_DeviceID resp,
           ctx_UserID = esr_UserID resp,
           ctx_DeviceGroupIDs = map dg_ID (filter (\<lambda>g. esr_DeviceID resp \<in> set (dg_MemberDeviceIDs g)) (deviceGroups m)) \<rparr>)"
  using assms(2)
  by (auto simp: effectiveStrategy_def deviceGroupIDs_def ListDeviceGroups_def ListStrategies_def Let_def
      device_groups_loop_eq [OF assms(1) subset_refl] not_found_as_def server_error_def
      split: option.splits sum.splits if_splits)

lemma resolved_setting_source:
  assumes rv: "buildStrategyResolver js items = Inr rv" and d: "distinct (map st_ID items)"
    and v: "res_Settings (Resolve rv ctx) k = Some v" "rs_Settings default_secure k \<noteq> Some v"
  shows "\<exists>st \<in> set items. st_Enabled st \<and>
    (\<exists>b \<in> set (st_Assignments st).
       assignmentMatches \<lparr> asg_StrategyID = st_ID st, asg_TargetType = sa_TargetType b,
                           asg_TargetID = sa_TargetID b \<rparr> ctx) \<and>
    (\<exists>obj w. js_Unmarshal js (st_SettingsJSON st) = Some obj \<and> obj k = Some w \<and> v = setting_text js w)"
proof -
  note rvD = resolver_loop_InrD [OF rv [unfolded buildStrategyResolver_def], simplified]
  obtain s where s: "s \<in> set (layers rv ctx)" "rs_Settings s k = Some v"
    using v(1) last_value_SomeD unfolding Resolve_value by blast
  then obtain target where "s \<in> set (strategies_for rv ctx target)"
    using v(2) rvD(1) by (auto simp: layers_def split: if_splits)
  from strategies_forD [OF this] obtain a where a: "a \<in> set (rv_Assignments rv)"
      "asg_StrategyID a = rs_ID s" "assignmentMatches a ctx" "s \<in> set (rv_Strategies rv)" "rs_Enabled s"
    by blast
  obtain st where st: "st \<in> set items" "rs_ID s = st_ID st" "st_Enabled st"
      "strategySettings js (st_SettingsJSON st) = Some (rs_Settings s)"
    using rvD(2) [OF a(4)] a(5) by auto
  obtain st' b where b: "st' \<in> set items" "asg_StrategyID a = st_ID st'"
      "b \<in> set (st_Assignments st')" "sa_TargetType b = asg_TargetType a" "sa_TargetID b = asg_TargetID a"
    using rvD(3) [OF a(1)] by auto
  have "st' = st" using st(1,2) b(1,2) a(2) d by (metis distinct_map inj_onD)
  moreover have "assignmentMatches \<lparr> asg_StrategyID = st_ID st, asg_TargetType = sa_TargetType b,
      asg_TargetID = sa_TargetID b \<rparr> ctx"
    using a(3) b(4,5) by (auto simp: assignmentMatches_def split: if_splits option.splits)
  moreover have "\<exists>obj w. js_Unmarshal js (st_SettingsJSON st) = Some obj \<and> obj k = Some w \<and> v = setting_text js w"
    using st(4) s(2)
    by (fastforce simp: strategySettings_def dest: fun_cong [where x = k] split: option.splits)
  ultimately show ?thesis using st b by blast
qed

lemma default_secure_kept:
  assumes "buildStrategyResolver js items = Inr rv" "rs_Settings default_secure k = Some v"
  shows "\<exists>w. res_Settings (Resolve rv ctx) k = Some w"
proof -
  have "default_secure \<in> set (layers rv ctx)"
    using resolver_loop_InrD(1) [OF assms(1) [unfolded buildStrategyResolver_def]]
    by (simp add: layers_def default_secure_def)
  then show ?thesis using assms(2) last_value_defined [of "layers rv ctx" k default_secure]
    by (fastforce simp: Resolve_value)
qed

section \<open>Properties\<close>

section \<open>Properties\<close>


definition wit_js :: "(nat, nat) json_prims" where
  "wit_js = \<lparr> js_Unmarshal = (\<lambda>s. Some [''terminal'' \<mapsto> JsonString s]), js_FormatFloat = (\<lambda>_. []),
             js_Marshal = (\<lambda>_. []) \<rparr>"

definition wit_strategies :: Memory where
  "wit_strategies = snd (CreateStrategy 5
     \<lparr> st_ID = 0, st_Name = ''support'', st_Description = [], st_Enabled = True, st_SettingsJSON = ''Y'',
       st_Assignments = [\<lparr> sa_ID = 0, sa_StrategyID = 0, sa_TargetType = ''device'', sa_TargetID = 1,
                           sa_CreatedAt = 0 \<rparr>],
       st_CreatedAt = 0, st_UpdatedAt = 0 \<rparr> (NewMemoryWithInitialAdmin 0 ''admin@example.com'' ''hash''))"

definition wit_get :: request where
  "wit_get = \<lparr> Method = ''GET'', Path = ''/api/v1/devices/1/effective-strategy'', RemoteAddr = [],
     Headers = [], Cookies = [], Query = [], Context = None \<rparr>"


end
