(* ===== verification/Token_Handler.thy ===== *)
theory Token_Handler
  imports Handler_Core Memory_Properties Auth_Properties
begin

text \<open>
  The HTTP handlers of API tokens (\<^verbatim>\<open>api/internal/apitokens/handler.go\<close>). The scopes are stored
  as JSON; encoding and decoding a list of strings (\<^verbatim>\<open>encoding/json\<close>) is the record
  \<open>scope_prims\<close>. \<open>clk 2\<close> is the clock reading of the handler itself, \<open>rnd\<close> the bytes of
  \<^verbatim>\<open>crypto/rand\<close>, or none. The audit row is written under the session that was checked, which
  is the one of the request context.
\<close>

section \<open>Requests\<close>

record scope_prims =
  sp_Marshal :: "string list \<Rightarrow> string option"
  sp_Unmarshal :: "string \<Rightarrow> string list option"

record CreateTokenRequest =
  ctr_Name :: string
  ctr_Scopes :: "string list"
  ctr_ExpiresAt :: "gotime option"

record TokenResponse =
  tr_ID :: int
  tr_Name :: string
  tr_Scopes :: "string list"
  tr_UserID :: "int option"
  tr_ExpiresAt :: "gotime option"
  tr_LastUsedAt :: "gotime option"
  tr_CreatedAt :: gotime
  tr_RevokedAt :: "gotime option"

datatype token_payload =
    TokenList "TokenResponse list"
  | TokenItem TokenResponse
  | TokenCreated TokenResponse string

definition tokenResponse :: "scope_prims \<Rightarrow> APIToken \<Rightarrow> TokenResponse option" where
  "tokenResponse sp token =
     (case sp_Unmarshal sp (tok_ScopesJSON token) of
        None \<Rightarrow> None
      | Some scopes \<Rightarrow> Some
          \<lparr> tr_ID = tok_ID token, tr_Name = tok_Name token, tr_Scopes = scopes,
            tr_UserID = tok_UserID token, tr_ExpiresAt = tok_ExpiresAt token,
            tr_LastUsedAt = tok_LastUsedAt token, tr_CreatedAt = tok_CreatedAt token,
            tr_RevokedAt = tok_RevokedAt token \<rparr>)"

fun token_responses :: "scope_prims \<Rightarrow> APIToken list \<Rightarrow> TokenResponse list option" where
  "token_responses sp [] = Some []"
| "token_responses sp (t # ts) =
     (case tokenResponse sp t of
        None \<Rightarrow> None
      | Some x \<Rightarrow> (case token_responses sp ts of None \<Rightarrow> None | Some xs \<Rightarrow> Some (x # xs)))"

fun scopes_loop :: "string list \<Rightarrow> string list \<Rightarrow> string list" where
  "scopes_loop [] out = out"
| "scopes_loop (scope # rest) out =
     (let s = TrimSpace scope
      in if s = [] \<or> s \<in> set out then scopes_loop rest out else scopes_loop rest (out @ [s]))"

definition normalizedScopes :: "string list \<Rightarrow> string list" where
  "normalizedScopes xs = scopes_loop xs []"

definition generateToken :: "string option \<Rightarrow> string option" where
  "generateToken rnd = (case rnd of None \<Rightarrow> None | Some b \<Rightarrow> Some (''odrt_'' @ EncodeToString b))"

definition parseTokenPath :: "string \<Rightarrow> (int \<times> string) option" where
  "parseTokenPath path =
     (let rest = TrimPrefix path ''/api/v1/api-tokens/'';
          parts = Split CHR ''/'' (TrimChar CHR ''/'' rest)
      in if length parts \<noteq> 2 then None
         else (case ParseInt (parts ! 0) of
             None \<Rightarrow> None
           | Some i \<Rightarrow> if i \<le> 0 then None else Some (i, parts ! 1)))"

section \<open>Handlers\<close>

definition unauthenticated :: "'a http_response" where
  "unauthenticated = Error StatusUnauthorized ''UNAUTHENTICATED'' ''authentication is required''"

definition invalid_token_state :: "'a http_response" where
  "invalid_token_state =
     Error StatusInternalServerError ''INVALID_API_TOKEN_STATE'' ''stored API token has invalid scopes''"

definition token_problem :: "gotime \<Rightarrow> CreateTokenRequest \<Rightarrow> string option" where
  "token_problem now req =
     (if TrimSpace (ctr_Name req) = [] then Some ''name is required''
      else if normalizedScopes (ctr_Scopes req) = [] then Some ''at least one scope is required''
      else (case ctr_ExpiresAt req of
              None \<Rightarrow> None
            | Some x \<Rightarrow> if \<not> x > now then Some ''expires_at must be in the future'' else None))"

definition new_token :: "(string \<Rightarrow> string \<Rightarrow> string) \<Rightarrow> string \<Rightarrow> string \<Rightarrow> string \<Rightarrow> int \<Rightarrow>
    CreateTokenRequest \<Rightarrow> APIToken" where
  "new_token hm secret raw scopesJSON uid req =
     \<lparr> tok_ID = 0, tok_Name = TrimSpace (ctr_Name req), tok_TokenHash = HashToken hm secret raw,
       tok_ScopesJSON = scopesJSON, tok_UserID = Some uid, tok_ExpiresAt = ctr_ExpiresAt req,
       tok_LastUsedAt = None, tok_CreatedAt = zero_time, tok_RevokedAt = None \<rparr>"

definition tokens_create ::
    "scope_prims \<Rightarrow> (string \<Rightarrow> string \<Rightarrow> string) \<Rightarrow> string \<Rightarrow> (nat \<Rightarrow> gotime) \<Rightarrow> string option \<Rightarrow>
       request \<Rightarrow> CreateTokenRequest option \<Rightarrow> Memory \<Rightarrow> token_payload handler_result" where
  "tokens_create sp hm secret clk rnd r body m =
     decoded body m (\<lambda>req.
       case SessionFromContext r of
         None \<Rightarrow> (unauthenticated, m)
       | Some session \<Rightarrow>
           checked (token_problem (clk 2) req) ''INVALID_API_TOKEN'' m
             (case generateToken rnd of
                None \<Rightarrow> (Error StatusInternalServerError ''API_TOKEN_GENERATION_FAILED''
                           ''generate API token failed'', m)
              | Some rawToken \<Rightarrow>
                  (case sp_Marshal sp (normalizedScopes (ctr_Scopes req)) of
                     None \<Rightarrow> (Error StatusBadRequest ''INVALID_API_TOKEN'' ''invalid scopes'', m)
                   | Some scopesJSON \<Rightarrow>
                       respond (CreateAPIToken (clk 0)
                           (new_token hm secret rawToken scopesJSON (user_ID (asn_User session)) req) m)
                         (bad_request ''INVALID_API_TOKEN'')
                         (\<lambda>created m1.
                            audited (clk 1) r
                              (event ''create_api_token'' ''api_token'' (FormatInt (tok_ID created))
                                 (Some [(''name'', AnyString (tok_Name created)),
                                        (''scopes'', AnyStrings (normalizedScopes (ctr_Scopes req))),
                                        (''expires_at'', case tok_ExpiresAt created of
                                                           None \<Rightarrow> AnyNil | Some x \<Rightarrow> AnyTime x)]))
                              ''failed to record API token creation''
                              (case tokenResponse sp created of
                                 None \<Rightarrow> invalid_token_state
                               | Some resp \<Rightarrow> JSON StatusCreated (TokenCreated resp rawToken)) m1))))"

definition tokens_Collection ::
    "scope_prims \<Rightarrow> (string \<Rightarrow> string \<Rightarrow> string) \<Rightarrow> string \<Rightarrow> (nat \<Rightarrow> gotime) \<Rightarrow> string option \<Rightarrow>
       request \<Rightarrow> CreateTokenRequest option \<Rightarrow> Memory \<Rightarrow> token_payload handler_result" where
  "tokens_Collection sp hm secret clk rnd r body m =
     (if Method r = MethodGet
      then (case ListAPITokens m of
              Inl e \<Rightarrow> (server_error ''LIST_API_TOKENS_FAILED'' ''list API tokens failed'' e, m)
            | Inr ts \<Rightarrow>
                (case token_responses sp ts of
                   None \<Rightarrow> (invalid_token_state, m)
                 | Some out \<Rightarrow> (JSON StatusOK (TokenList out), m)))
      else if Method r = MethodPost then tokens_create sp hm secret clk rnd r body m
      else (method_not_allowed, m))"

definition tokens_Item ::
    "scope_prims \<Rightarrow> (nat \<Rightarrow> gotime) \<Rightarrow> request \<Rightarrow> Memory \<Rightarrow> token_payload handler_result" where
  "tokens_Item sp clk r m =
     (case (case parseTokenPath (Path r) of
              None \<Rightarrow> None | Some (i, action) \<Rightarrow> if action \<noteq> ''revoke'' then None else Some i) of
        None \<Rightarrow> (Error StatusNotFound ''NOT_FOUND'' ''API token route not found'', m)
      | Some i \<Rightarrow>
          with_method MethodPost r m
            (case SessionFromContext r of
               None \<Rightarrow> (unauthenticated, m)
             | Some session \<Rightarrow>
                 respond (RevokeAPIToken i (clk 2) m)
                   (not_found_as ''API_TOKEN_NOT_FOUND'' ''API token not found''
                      (server_error ''REVOKE_API_TOKEN_FAILED'' ''revoke API token failed''))
                   (\<lambda>revoked m1.
                      audited (clk 1) r
                        (event ''revoke_api_token'' ''api_token'' (FormatInt (tok_ID revoked))
                           (Some [(''name'', AnyString (tok_Name revoked))]))
                        ''failed to record API token revoke''
                        (case tokenResponse sp revoked of
                           None \<Rightarrow> invalid_token_state
                         | Some resp \<Rightarrow> JSON StatusOK (TokenItem resp)) m1)))"

section \<open>Facts\<close>

lemma scopes_loop_props:
  "distinct out \<Longrightarrow> distinct (scopes_loop xs out) \<and>
     set (scopes_loop xs out) = set out \<union> (TrimSpace ` set xs - {[]})"
  by (induction xs out rule: scopes_loop.induct) (auto simp: Let_def)

text \<open>The scopes of a token: the trimmed ones that are not empty, each once.\<close>

lemma normalizedScopes_set:
  "distinct (normalizedScopes xs) \<and> set (normalizedScopes xs) = TrimSpace ` set xs - {[]}"
  using scopes_loop_props [of "[]" xs] by (simp add: normalizedScopes_def)

lemma generateToken_SomeD:
  assumes "generateToken rnd = Some raw"
  shows "raw \<noteq> []" and "c \<in> set raw \<Longrightarrow> 32 < byte c \<and> byte c < 128" and "CHR ''.'' \<notin> set raw"
  using assms by (auto simp: generateToken_def split: option.splits dest: Encode_graph)

lemma token_ops_clean [simp]:
  "clean_op m (CreateAPIToken now t m)" "clean_op m (RevokeAPIToken i at m)"
  by (simp_all add: clean_op_def step_simps split: option.split)

lemma tokens_create_JSON_D:
  assumes "tokens_create sp hm secret clk rnd r body m = (JSON StatusCreated (TokenCreated resp raw), m1)"
  shows "generateToken rnd = Some raw \<and>
    (\<exists>s t. Context r = Some s \<and> tok_TokenHash t = HashToken hm secret raw \<and>
       tok_UserID t = Some (user_ID (asn_User s)) \<and>
       tok_ExpiresAt t = tr_ExpiresAt resp \<and> tok_RevokedAt t = None \<and> tok_ID t = tr_ID resp \<and>
       apiTokens m1 = t # apiTokens m) \<and> users m1 = users m"
  using assms
  by (auto simp: tokens_create_def decoded_def checked_def respond_def CreateAPIToken_def Let_def
      SessionFromContext_def new_token_def tokenResponse_def invalid_token_state_def bad_request_def
      unauthenticated_def invalid_json_def audited_eq split: option.splits if_splits)

lemma tokens_Item_JSON_D:
  assumes "tokens_Item sp clk r m = (JSON StatusOK p, m1)" "parseTokenPath (Path r) = Some (i, ''revoke'')"
  shows "apiTokens m1 = update_first (\<lambda>t. tok_ID t = i) (\<lambda>t. t\<lparr> tok_RevokedAt := Some (clk 2) \<rparr>) (apiTokens m)"
  using assms
  by (auto simp: tokens_Item_def with_method_def respond_def RevokeAPIToken_def update_row_def audited_eq
      unauthenticated_def not_found_as_def server_error_def require_method_def method_not_allowed_def
      invalid_token_state_def split: option.splits if_splits)

lemma not_session_token:
  assumes "CHR ''.'' \<notin> set token"
  shows "\<exists>e. authenticateSessionToken pr svc clk token db = Inl e"
proof (cases "ParseToken pr svc (clk 1) token")
  case (Inr c)
  then show ?thesis using ParseToken_InrD [OF Inr] assms by auto
qed (simp add: authenticateSessionToken_def)

lemma api_token_request:
  assumes "CHR ''.'' \<notin> set token" "token \<noteq> []" "bearerToken (HeaderGet ''Authorization'' r) = token"
  shows "(case fst (AuthenticateRequest pr svc clk r db) of
            Inl e \<Rightarrow> isl (fst (authenticateAPIToken pr svc clk token db))
          | Inr s \<Rightarrow> fst (authenticateAPIToken pr svc clk token db) = Inr s)"
  using not_session_token [OF assms(1), of pr svc clk db] assms(2,3)
  by (auto simp: AuthenticateRequest_def split: sum.split prod.split)

lemma accounted_respond_result:
  assumes "clean_op m res"
    and "\<And>x m1. res = (Inr x, m1) \<Longrightarrow> auditEvents m1 = auditEvents m \<Longrightarrow> accounted r m (k x m1)"
  shows "accounted r m (respond res err k)"
proof (cases res)
  case (Pair x m1)
  then show ?thesis using assms by (cases x) (auto simp: clean_op_def respond_def)
qed

lemma tokenResponse_None: "tokenResponse sp t = None \<longleftrightarrow> sp_Unmarshal sp (tok_ScopesJSON t) = None"
  by (simp add: tokenResponse_def split: option.split)

lemma token_handlers_accounted:
  assumes sp: "\<And>xs j. sp_Marshal sp xs = Some j \<Longrightarrow> sp_Unmarshal sp j \<noteq> None"
    and stored: "\<forall>t \<in> set (apiTokens m). sp_Unmarshal sp (tok_ScopesJSON t) \<noteq> None"
  shows "accounted r m (tokens_Collection sp hm secret clk rnd r body m) \<and> accounted r m (tokens_Item sp clk r m)"
proof
  have new: "tok_ScopesJSON t = j" if "CreateAPIToken now (new_token hm secret raw j uid req) m = (Inr t, m1)"
    for now raw j uid req t m1
    using that by (auto simp: CreateAPIToken_def new_token_def Let_def split: if_splits)
  have "accounted r m (tokens_create sp hm secret clk rnd r body m)"
    unfolding tokens_create_def
    by (auto split: option.split intro!: accounted_decoded accounted_checked accounted_respond_result
        accounted_audited simp: tokenResponse_None dest!: new sp)
  then show "accounted r m (tokens_Collection sp hm secret clk rnd r body m)"
    by (simp add: tokens_Collection_def ListAPITokens_def split: option.split)
  have upd: "sp_Unmarshal sp (tok_ScopesJSON t) \<noteq> None"
    if "RevokeAPIToken i at m = (Inr t, m1)" for i at t m1
    using that stored by (auto simp: RevokeAPIToken_def update_row_def split: option.splits dest: find_SomeD)
  show "accounted r m (tokens_Item sp clk r m)"
    unfolding tokens_Item_def
    by (auto split: option.split intro!: accounted_method accounted_respond_result accounted_audited
        simp: tokenResponse_None dest: upd)
qed

section \<open>Properties\<close>

text \<open>
  The life of an API token: the token a create over HTTP answers with authenticates
  requests as its user, in time and while the user is active, under the key that the server
  gives to both components; once the token is revoked over HTTP it authenticates none.
\<close>

lemma api_token_until_revoked:
  assumes "as_store svc = memory_user_store"
    and "tokens_create sp (ap_hmac pr) (as_key svc) clk rnd r body m =
           (JSON StatusCreated (TokenCreated resp token), m1)"
    and "Context r = Some s" "FindUserByID (user_ID (asn_User s)) m = Inr u" "user_Status u = UserStatusActive"
    and "HeaderGet ''Authorization'' r' = ''Bearer '' @ token"
  shows "((case tr_ExpiresAt resp of None \<Rightarrow> True | Some x \<Rightarrow> clk' 5 < x) \<longrightarrow>
           (\<exists>s'. fst (AuthenticateRequest pr svc clk' r' m1) = Inr s' \<and> asn_User s' = u \<and>
                 ActorType s' = ''api_token'')) \<and>
         (parseTokenPath (Path r2) = Some (tr_ID resp, ''revoke'') \<and>
          tokens_Item sp clk2 r2 m1 = (JSON StatusOK p, m2) \<longrightarrow>
           (\<exists>e. fst (AuthenticateRequest pr svc clk' r' m2) = Inl e))"
proof -
  obtain t where t: "generateToken rnd = Some token" "tok_TokenHash t = HashToken (ap_hmac pr) (as_key svc) token"
      "tok_UserID t = Some (user_ID (asn_User s))" "tok_ExpiresAt t = tr_ExpiresAt resp"
      "tok_RevokedAt t = None" "tok_ID t = tr_ID resp" "apiTokens m1 = t # apiTokens m" "users m1 = users m"
    using tokens_create_JSON_D [OF assms(2)] assms(3) by auto
  note g = generateToken_SomeD [OF t(1)]
  have b: "bearerToken (HeaderGet ''Authorization'' r') = token"
    unfolding assms(6) by (rule bearerToken_header [OF g(2,1)])
  note a = api_token_request [OF g(3,1) b, of pr svc clk']
  have u: "FindUserByID (user_ID (asn_User s)) m1 = Inr u"
    using assms(4) t(8) by (simp add: FindUserByID_def)
  have live: "\<exists>s'. fst (authenticateAPIToken pr svc clk' token m1) = Inr s' \<and> asn_User s' = u \<and>
      ActorType s' = ''api_token''"
    if "case tr_ExpiresAt resp of None \<Rightarrow> True | Some x \<Rightarrow> clk' 5 < x"
    using that t assms(1,5) u
    by (auto simp: authenticateAPIToken_def memory_user_store_def FindAPITokenByHash_def ActorType_def
        Let_def split: option.splits prod.split)
  have dead: "\<exists>e. fst (authenticateAPIToken pr svc clk' token m2) = Inl e"
    if "parseTokenPath (Path r2) = Some (tr_ID resp, ''revoke'')" "tokens_Item sp clk2 r2 m1 = (JSON StatusOK p, m2)"
    using tokens_Item_JSON_D [OF that(2,1)] t assms(1)
    by (simp add: authenticateAPIToken_def memory_user_store_def FindAPITokenByHash_def)
  show ?thesis
    using a [of m1] a [of m2] live dead by (auto split: sum.splits)
qed

definition wit_scopes :: scope_prims where
  "wit_scopes = \<lparr> sp_Marshal = (\<lambda>_. Some ''[]''), sp_Unmarshal = (\<lambda>_. Some []) \<rparr>"

definition wit_hmac :: auth_prims where
  "wit_hmac = wit_prims\<lparr> ap_hmac := (\<lambda>key msg. ''a'') \<rparr>"

definition wit_admin :: AuthSession where
  "wit_admin = \<lparr> asn_ID = 1, asn_User = wit_user, asn_Claims = no_claims, asn_Token = [], asn_ExpiresAt = 9,
     asn_ActorType = ''user'', asn_APIToken = None \<rparr>"

definition wit_create :: request where
  "wit_create = wit_req\<lparr> Method := MethodPost, Headers := [], Context := Some wit_admin \<rparr>"

definition wit_revoke :: request where
  "wit_revoke = wit_create\<lparr> Path := ''/api/v1/api-tokens/101/revoke'' \<rparr>"

definition wit_use :: request where
  "wit_use = wit_req\<lparr> Headers := [(''Authorization'', ''Bearer odrt_YQ'')] \<rparr>"

definition wit_created :: "token_payload handler_result" where
  "wit_created = tokens_create wit_scopes (ap_hmac wit_hmac) (as_key wit_svc) (\<lambda>_. 3) (Some ''a'') wit_create
     (Some \<lparr> ctr_Name = ''ci'', ctr_Scopes = ['' a'', ''a''], ctr_ExpiresAt = None \<rparr>) wit_m0"

lemma api_token_until_revoked_witness:
  "(\<exists>s'. fst (AuthenticateRequest wit_hmac wit_svc (\<lambda>_. 4) wit_use (snd wit_created)) = Inr s' \<and> asn_User s' = wit_user) \<and>
   (\<exists>e. fst (AuthenticateRequest wit_hmac wit_svc (\<lambda>_. 4) wit_use
            (snd (tokens_Item wit_scopes (\<lambda>_. 3) wit_revoke (snd wit_created)))) = Inl e)"
proof -
  have "case fst wit_created of Error n c msg \<Rightarrow> False
      | JSON n p \<Rightarrow> n = 201 \<and> (case p of TokenCreated resp tok \<Rightarrow> tok = ''odrt_YQ'' \<and>
          tr_ExpiresAt resp = None \<and> tr_ID resp = 101 | _ \<Rightarrow> False)"
    by code_simp
  then obtain resp where "fst wit_created = JSON StatusCreated (TokenCreated resp ''odrt_YQ'')"
      and c': "tr_ExpiresAt resp = None" "tr_ID resp = 101"
    by (auto split: http_response.splits token_payload.splits)
  then have c: "wit_created = (JSON StatusCreated (TokenCreated resp ''odrt_YQ''), snd wit_created)"
    by (metis prod.collapse)
  have "case fst (tokens_Item wit_scopes (\<lambda>_. 3) wit_revoke (snd wit_created)) of
      JSON n p \<Rightarrow> n = 200 | Error n c msg \<Rightarrow> False" by code_simp
  then obtain p where r: "tokens_Item wit_scopes (\<lambda>_. 3) wit_revoke (snd wit_created) =
      (JSON StatusOK p, snd (tokens_Item wit_scopes (\<lambda>_. 3) wit_revoke (snd wit_created)))"
    using JSON_result by blast
  have path: "parseTokenPath (Path wit_revoke) = Some (101, ''revoke'')" by code_simp
  have u: "Context wit_create = Some wit_admin"
      "FindUserByID (user_ID (asn_User wit_admin)) wit_m0 = Inr wit_user" "user_Status wit_user = UserStatusActive"
      "HeaderGet ''Authorization'' wit_use = ''Bearer '' @ ''odrt_YQ''"
    by (simp_all add: wit_create_def wit_admin_def wit_use_def wit_req_def HeaderGet_def FindUserByID_def
        wit_m0_def wit_user_def NewMemoryWithInitialAdmin_def newMemoryWithUsersAndNext_def Let_def)
  note t = api_token_until_revoked [OF wit_store c [unfolded wit_created_def] u, where clk' = "\<lambda>_. 4",
      folded wit_created_def]
  show ?thesis
  proof
    show "\<exists>s'. fst (AuthenticateRequest wit_hmac wit_svc (\<lambda>_. 4) wit_use (snd wit_created)) = Inr s' \<and>
        asn_User s' = wit_user"
      using t [THEN conjunct1] c'(1) by auto
    show "\<exists>e. fst (AuthenticateRequest wit_hmac wit_svc (\<lambda>_. 4) wit_use
        (snd (tokens_Item wit_scopes (\<lambda>_. 3) wit_revoke (snd wit_created)))) = Inl e"
      using t [THEN conjunct2, rule_format, OF conjI [OF _ r]] path c'(2) by simp
  qed
qed

end
