(* ===== verification/Log_Handler.thy ===== *)
theory Log_Handler
  imports Handler_Core Memory_Properties
begin

text \<open>
  The HTTP handlers of the logs (\<^verbatim>\<open>api/internal/opslogs/handler.go\<close>): the query becomes a
  filter or an error message, and the filter selects a page of the log. Reading an RFC 3339
  timestamp (\<^verbatim>\<open>time.Parse\<close>) is the argument \<open>parse_time\<close>.
\<close>

text \<open>Go on with the value, or return the error as it is.\<close>

definition and_then :: "'e + 'a \<Rightarrow> ('a \<Rightarrow> 'e + 'b) \<Rightarrow> 'e + 'b" where
  "and_then x f = (case x of Inl e \<Rightarrow> Inl e | Inr a \<Rightarrow> f a)"

lemma and_then_Inr: "and_then x f = Inr b \<longleftrightarrow> (\<exists>a. x = Inr a \<and> f a = Inr b)"
  by (simp add: and_then_def split: sum.split)

section \<open>Parameters\<close>

definition queryString :: "request \<Rightarrow> string \<Rightarrow> string" where
  "queryString r key = TrimSpace (QueryGet key r)"

definition limitParam :: "request \<Rightarrow> string + int" where
  "limitParam r =
     (let raw = TrimSpace (QueryGet ''limit'' r)
      in if raw = [] then Inr 500
         else (case ParseInt raw of
             None \<Rightarrow> Inl ''limit must be between 1 and 500''
           | Some limit \<Rightarrow>
               if limit \<le> 0 \<or> limit > 500 then Inl ''limit must be between 1 and 500'' else Inr limit))"

definition offsetParam :: "request \<Rightarrow> string + int" where
  "offsetParam r =
     (let raw = TrimSpace (QueryGet ''offset'' r)
      in if raw = [] then Inr 0
         else (case ParseInt raw of
             None \<Rightarrow> Inl ''offset must be zero or positive''
           | Some offset \<Rightarrow>
               if offset < 0 then Inl ''offset must be zero or positive'' else Inr offset))"

definition optionalTimeParam :: "(string \<Rightarrow> gotime option) \<Rightarrow> request \<Rightarrow> string \<Rightarrow> string + gotime option" where
  "optionalTimeParam parse_time r key =
     (let raw = TrimSpace (QueryGet key r)
      in if raw = [] then Inr None
         else (case parse_time raw of
             None \<Rightarrow> Inl (key @ '' must be an RFC3339 timestamp'')
           | Some parsed \<Rightarrow> Inr (Some parsed)))"

definition timeRangeParams ::
    "(string \<Rightarrow> gotime option) \<Rightarrow> request \<Rightarrow> string + gotime option \<times> gotime option" where
  "timeRangeParams parse_time r =
     and_then (optionalTimeParam parse_time r ''from'') (\<lambda>from.
     and_then (optionalTimeParam parse_time r ''to'') (\<lambda>to.
       if (case from of None \<Rightarrow> False | Some f \<Rightarrow> (case to of None \<Rightarrow> False | Some t \<Rightarrow> f > t))
       then Inl ''from must be before or equal to to'' else Inr (from, to)))"

section \<open>Filters\<close>

definition auditFilter :: "(string \<Rightarrow> gotime option) \<Rightarrow> request \<Rightarrow> string + AuditLogFilter" where
  "auditFilter parse_time r =
     and_then (limitParam r) (\<lambda>limit.
     and_then (offsetParam r) (\<lambda>offset.
     and_then (timeRangeParams parse_time r) (\<lambda>(from, to).
       Inr \<lparr> alf_ActorType = queryString r ''actor_type'', alf_Action = queryString r ''action'',
             alf_ResourceType = queryString r ''resource_type'',
             alf_ResourceID = queryString r ''resource_id'', alf_From = from, alf_To = to,
             alf_Limit = limit, alf_Offset = offset \<rparr>)))"

definition connectionFilter :: "(string \<Rightarrow> gotime option) \<Rightarrow> request \<Rightarrow> string + ConnectionLogFilter" where
  "connectionFilter parse_time r =
     and_then (limitParam r) (\<lambda>limit.
       let status = queryString r ''status'';
           connectionType = queryString r ''connection_type''
       in if status \<noteq> [] \<and> \<not> oneOf status [''started'', ''ended'', ''failed'', ''denied'']
          then Inl ''status must be started, ended, failed, or denied''
          else if connectionType \<noteq> [] \<and> \<not> oneOf connectionType [''direct'', ''relay'', ''websocket'']
          then Inl ''connection_type must be direct, relay, or websocket''
          else and_then (offsetParam r) (\<lambda>offset.
               and_then (timeRangeParams parse_time r) (\<lambda>(from, to).
                 Inr \<lparr> clf_Status = status, clf_ConnectionType = connectionType, clf_From = from,
                       clf_To = to, clf_Limit = limit, clf_Offset = offset \<rparr>)))"

definition fileTransferFilter ::
    "(string \<Rightarrow> gotime option) \<Rightarrow> request \<Rightarrow> string + FileTransferLogFilter" where
  "fileTransferFilter parse_time r =
     and_then (limitParam r) (\<lambda>limit.
       let direction = queryString r ''direction''
       in if direction \<noteq> [] \<and> \<not> oneOf direction [''upload'', ''download'']
          then Inl ''direction must be upload or download''
          else and_then (offsetParam r) (\<lambda>offset.
               and_then (timeRangeParams parse_time r) (\<lambda>(from, to).
                 Inr \<lparr> ftf_Direction = direction, ftf_Status = queryString r ''status'',
                       ftf_From = from, ftf_To = to, ftf_Limit = limit, ftf_Offset = offset \<rparr>)))"

definition loginFilter :: "(string \<Rightarrow> gotime option) \<Rightarrow> request \<Rightarrow> string + LoginLogFilter" where
  "loginFilter parse_time r =
     and_then (limitParam r) (\<lambda>limit.
       let status = queryString r ''status''
       in if status \<noteq> [] \<and> \<not> oneOf status [''succeeded'', ''failed'', ''denied'']
          then Inl ''status must be succeeded, failed, or denied''
          else and_then (offsetParam r) (\<lambda>offset.
               and_then (timeRangeParams parse_time r) (\<lambda>(from, to).
                 Inr \<lparr> llf_Email = ToLower (queryString r ''email''), llf_Status = status,
                       llf_From = from, llf_To = to, llf_Limit = limit, llf_Offset = offset \<rparr>)))"

section \<open>Handlers\<close>

datatype log_payload =
    AuditLogs "AuditEvent list"
  | ConnectionLogs "ConnectionLog list"
  | FileTransferLogs "FileTransferLog list"
  | LoginLogs "LoginLog list"

text \<open>The shape the four handlers share: method, filter, listing.\<close>

definition log_listing ::
    "request \<Rightarrow> string + 'f \<Rightarrow> ('f \<Rightarrow> Memory \<Rightarrow> repo_error + 'b) \<Rightarrow> string \<Rightarrow> string \<Rightarrow> ('b \<Rightarrow> log_payload) \<Rightarrow>
       Memory \<Rightarrow> log_payload handler_result" where
  "log_listing r flt list_op code msg f m =
     with_method MethodGet r m
       (case flt of
          Inl problem \<Rightarrow> (Error StatusBadRequest ''INVALID_LOG_FILTER'' problem, m)
        | Inr x \<Rightarrow> listed (list_op x m) code msg f m)"

definition logs_Audit :: "(string \<Rightarrow> gotime option) \<Rightarrow> request \<Rightarrow> Memory \<Rightarrow> log_payload handler_result" where
  "logs_Audit parse_time r m =
     log_listing r (auditFilter parse_time r) ListAuditEvents
       ''LIST_AUDIT_LOGS_FAILED'' ''list audit logs failed'' AuditLogs m"

definition logs_Connections ::
    "(string \<Rightarrow> gotime option) \<Rightarrow> request \<Rightarrow> Memory \<Rightarrow> log_payload handler_result" where
  "logs_Connections parse_time r m =
     log_listing r (connectionFilter parse_time r) ListConnectionLogs
       ''LIST_CONNECTION_LOGS_FAILED'' ''list connection logs failed'' ConnectionLogs m"

definition logs_FileTransfers ::
    "(string \<Rightarrow> gotime option) \<Rightarrow> request \<Rightarrow> Memory \<Rightarrow> log_payload handler_result" where
  "logs_FileTransfers parse_time r m =
     log_listing r (fileTransferFilter parse_time r) ListFileTransferLogs
       ''LIST_FILE_TRANSFER_LOGS_FAILED'' ''list file transfer logs failed'' FileTransferLogs m"

definition logs_Logins :: "(string \<Rightarrow> gotime option) \<Rightarrow> request \<Rightarrow> Memory \<Rightarrow> log_payload handler_result" where
  "logs_Logins parse_time r m =
     log_listing r (loginFilter parse_time r) ListLoginLogs
       ''LIST_LOGIN_LOGS_FAILED'' ''list login logs failed'' LoginLogs m"

section \<open>Facts\<close>

lemma limitParam_InrD: "limitParam r = Inr limit \<Longrightarrow> 0 < limit \<and> limit \<le> 500"
  by (auto simp: limitParam_def Let_def split: if_splits option.splits)

lemma offsetParam_InrD: "offsetParam r = Inr offset \<Longrightarrow> 0 \<le> offset"
  by (auto simp: offsetParam_def Let_def split: if_splits option.splits)

lemma timeRangeParams_InrD:
  "timeRangeParams parse_time r = Inr (from, to) \<Longrightarrow> from = Some f \<Longrightarrow> to = Some t \<Longrightarrow> f \<le> t"
  by (auto simp: timeRangeParams_def and_then_Inr split: if_splits option.splits)

lemma log_handlers_pure:
  "snd (logs_Audit parse_time r m) = m" "snd (logs_Connections parse_time r m) = m"
  "snd (logs_FileTransfers parse_time r m) = m" "snd (logs_Logins parse_time r m) = m"
  by (simp_all add: logs_Audit_def logs_Connections_def logs_FileTransfers_def logs_Logins_def
      log_listing_def with_method_def listed_def split: sum.split option.split)

lemma log_handlers_accounted:
  "accounted r m (logs_Audit parse_time r m) \<and> accounted r m (logs_Connections parse_time r m) \<and>
   accounted r m (logs_FileTransfers parse_time r m) \<and> accounted r m (logs_Logins parse_time r m)"
  by (simp add: accounted_def log_handlers_pure)

lemma auditFilter_Inr:
  "auditFilter parse_time r = Inr f \<longleftrightarrow>
     limitParam r = Inr (alf_Limit f) \<and> offsetParam r = Inr (alf_Offset f) \<and>
     timeRangeParams parse_time r = Inr (alf_From f, alf_To f) \<and>
     alf_ActorType f = queryString r ''actor_type'' \<and> alf_Action f = queryString r ''action'' \<and>
     alf_ResourceType f = queryString r ''resource_type'' \<and> alf_ResourceID f = queryString r ''resource_id''"
  by (cases f) (auto simp: auditFilter_def and_then_Inr)

lemma audit_request:
  "logs_Audit parse_time r m = (JSON StatusOK (AuditLogs out), m') \<longleftrightarrow>
     Method r = MethodGet \<and> m' = m \<and>
     (\<exists>f. auditFilter parse_time r = Inr f \<and>
          out = paginate (filter (audit_selected f) (auditEvents m)) (alf_Offset f) (alf_Limit f))"
  by (auto simp: logs_Audit_def log_listing_def with_method_def require_method_def method_not_allowed_def
      listed_def ListAuditEvents_def split: sum.split)

lemma FormatInt_nat: "0 \<le> n \<Longrightarrow> FormatInt n = nat_digits (nat n)"
  by (simp add: FormatInt_def)

lemma FormatInt_param:
  assumes "0 \<le> n" "n < 2 ^ 63"
  shows "TrimSpace (FormatInt n) = FormatInt n" "FormatInt n \<noteq> []" "ParseInt (FormatInt n) = Some n"
proof -
  show "ParseInt (FormatInt n) = Some n" using assms by (intro ParseInt_FormatInt) auto
  have "32 < byte c \<and> byte c < 128" if "c \<in> set (nat_digits (nat n))" for c
    using nat_digits_digit [of "nat n"] that by (auto simp: list_all_iff digit_char_def)
  then show "TrimSpace (FormatInt n) = FormatInt n"
    unfolding FormatInt_nat [OF assms(1)] by (rule TrimSpace_graph)
  show "FormatInt n \<noteq> []"
    unfolding FormatInt_nat [OF assms(1)] by (subst nat_digits.simps) simp
qed

text \<open>The request for page \<open>i\<close> of a listing, \<open>n\<close> rows to a page.\<close>

definition page_request :: "request \<Rightarrow> int \<Rightarrow> int \<Rightarrow> request" where
  "page_request r n i =
     r\<lparr> Query := (''limit'', FormatInt n) # (''offset'', FormatInt (n * i)) # Query r \<rparr>"

lemma page_request_filter:
  assumes "0 < n" "n \<le> 500" "0 \<le> i" "n * i < 2 ^ 63"
    and "auditFilter parse_time (page_request r n 0) = Inr f"
  shows "auditFilter parse_time (page_request r n i) = Inr (f\<lparr> alf_Limit := n, alf_Offset := n * i \<rparr>)"
proof -
  note l = FormatInt_param [of n] and o = FormatInt_param [of "n * i"]
  have same: "QueryGet k (page_request r n i) = QueryGet k (page_request r n 0)"
    if "k \<noteq> ''limit''" "k \<noteq> ''offset''" for k
    using that by (simp add: page_request_def QueryGet_def)
  have "timeRangeParams parse_time (page_request r n i) = timeRangeParams parse_time (page_request r n 0)"
    by (simp add: timeRangeParams_def optionalTimeParam_def same)
  moreover have "limitParam (page_request r n i) = Inr n"
    using l assms(1,2) by (simp add: limitParam_def page_request_def QueryGet_def)
  moreover have "offsetParam (page_request r n i) = Inr (n * i)"
    using o assms(1,3,4) mult_nonneg_nonneg [of n i] by (simp add: not_less offsetParam_def page_request_def QueryGet_def)
  ultimately show ?thesis using assms(5) same by (simp add: auditFilter_Inr queryString_def)
qed

section \<open>Properties\<close>

text \<open>
  Paging over HTTP loses nothing: when the filter of a query is accepted, the requests for
  its pages, with a page size between 1 and 500, are all answered 200, and the pages one after
  the other are exactly the rows of the audit log that the filter selects, newest first.
\<close>

lemma audit_pages_over_http:
  assumes "0 < n" "n \<le> 500" "length (auditEvents m) \<le> n * k" "int (n * k) < 2 ^ 63"
    and "Method r = MethodGet" "auditFilter parse_time (page_request r (int n) 0) = Inr f"
  shows "\<exists>pages. map (\<lambda>i. logs_Audit parse_time (page_request r (int n) (int i)) m) [0..<k] =
             map (\<lambda>es. (JSON StatusOK (AuditLogs es), m)) pages \<and>
           concat pages = filter (audit_selected f) (auditEvents m)"
proof -
  define page where "page i = (case ListAuditEvents (f\<lparr> alf_Limit := int n, alf_Offset := int (n * i) \<rparr>) m of
      Inr es \<Rightarrow> es | Inl e \<Rightarrow> [])" for i
  have "logs_Audit parse_time (page_request r (int n) (int i)) m = (JSON StatusOK (AuditLogs (page i)), m)"
    if "i < k" for i
  proof -
    have "int (n * i) \<le> int (n * k)" using that by (intro of_nat_mono mult_le_mono2) simp
    then have "int n * int i < 2 ^ 63" using assms(4) by simp
    from page_request_filter [OF _ _ _ this assms(6)]
    show ?thesis using assms(1,2,5)
      by (simp add: audit_request page_def ListAuditEvents_def) (simp add: page_request_def)
  qed
  then have "map (\<lambda>i. logs_Audit parse_time (page_request r (int n) (int i)) m) [0..<k] =
      map (\<lambda>es. (JSON StatusOK (AuditLogs es), m)) (map page [0..<k])" by simp
  moreover have "concat (map page [0..<k]) = filter (audit_selected f) (auditEvents m)"
    unfolding page_def by (rule audit_pages_cover [OF assms(1-3)])
  ultimately show ?thesis by blast
qed

definition wit_logs_get :: request where
  "wit_logs_get = \<lparr> Method = ''GET'', Path = ''/api/v1/logs/audit'', RemoteAddr = [],
     Headers = [], Cookies = [], Query = [(''action'', ''test'')], Context = None \<rparr>"

lemma audit_pages_over_http_witness:
  "\<exists>pages f. map (\<lambda>i. logs_Audit (\<lambda>_. None) (page_request wit_logs_get 1 (int i)) wit_logged) [0..<2] =
       map (\<lambda>es. (JSON StatusOK (AuditLogs es), wit_logged)) pages \<and>
     concat pages = filter (audit_selected f) (auditEvents wit_logged) \<and>
     map ae_ID (concat pages) = [102, 101]"
proof -
  let ?f = "wit_filter\<lparr> alf_Limit := 1, alf_Offset := 0 \<rparr>"
  have a: "length (auditEvents wit_logged) \<le> 1 * 2" by code_simp
  have b: "auditFilter (\<lambda>_. None) (page_request wit_logs_get (int 1) 0) = Inr ?f" by code_simp
  have c: "map ae_ID (filter (audit_selected ?f) (auditEvents wit_logged)) = [102, 101]" by code_simp
  have "Method wit_logs_get = MethodGet" by (simp add: wit_logs_get_def)
  from audit_pages_over_http [OF _ _ a _ this b] obtain pages where
    "map (\<lambda>i. logs_Audit (\<lambda>_. None) (page_request wit_logs_get 1 (int i)) wit_logged) [0..<2] =
       map (\<lambda>es. (JSON StatusOK (AuditLogs es), wit_logged)) pages"
    "concat pages = filter (audit_selected ?f) (auditEvents wit_logged)"
    by (auto simp del: upt_conv_Cons upt_rec_numeral)
  with c show ?thesis by metis
qed

end
