(* ===== verification/Book_Handler.thy ===== *)
theory Book_Handler
  imports Handler_Core Memory_Properties
begin

text \<open>
  The HTTP handlers of address books (\<^verbatim>\<open>api/internal/addressbooks/handler.go\<close>). Unlike the other
  handlers they write no audit rows.
\<close>

record CreateAddressBookRequest =
  cab_Name :: string
  cab_Description :: string
  cab_OwnerUserID :: "int option"
  cab_Entries :: "AddressBookEntry list"

record AddAddressBookEntryRequest =
  aae_DeviceID :: int
  aae_Alias :: string

datatype book_payload =
    BookList "AddressBook list"
  | BookItem AddressBook
  | BookEntries "AddressBookEntry list"

definition new_entry :: "int \<Rightarrow> string \<Rightarrow> AddressBookEntry" where
  "new_entry did alias =
     \<lparr> abe_ID = 0, abe_AddressBookID = 0, abe_DeviceID = did, abe_Alias = TrimSpace alias,
       abe_CreatedAt = zero_time \<rparr>"

definition normalizedEntries :: "AddressBookEntry list \<Rightarrow> AddressBookEntry list" where
  "normalizedEntries es = map (\<lambda>e. new_entry (abe_DeviceID e) (abe_Alias e)) es"

definition parseAddressBookEntryPath :: "string \<Rightarrow> (int \<times> int option) option" where
  "parseAddressBookEntryPath path =
     (let rest = TrimPrefix path ''/api/v1/address-books/'';
          parts = Split CHR ''/'' (TrimChar CHR ''/'' rest)
      in if length parts \<noteq> 2 \<and> length parts \<noteq> 3 then None
         else if parts ! 1 \<noteq> ''entries'' then None
         else (case ParseInt (parts ! 0) of
             None \<Rightarrow> None
           | Some bid \<Rightarrow>
               if bid \<le> 0 then None
               else if length parts = 2 then Some (bid, None)
               else (case ParseInt (parts ! 2) of
                   None \<Rightarrow> None
                 | Some eid \<Rightarrow> if eid \<le> 0 then None else Some (bid, Some eid))))"

definition books_Collection ::
    "(nat \<Rightarrow> gotime) \<Rightarrow> request \<Rightarrow> CreateAddressBookRequest option \<Rightarrow> Memory \<Rightarrow>
       book_payload handler_result" where
  "books_Collection clk r body m =
     (if Method r = MethodGet
      then listed (ListAddressBooks m) ''LIST_ADDRESS_BOOKS_FAILED'' ''list address books failed'' BookList m
      else if Method r = MethodPost
      then decoded body m (\<lambda>req.
             checked (if TrimSpace (cab_Name req) = [] then Some ''name is required''
                      else if list_ex (\<lambda>e. abe_DeviceID e \<le> 0) (cab_Entries req)
                      then Some ''entry device_id must be positive'' else None)
               ''INVALID_ADDRESS_BOOK'' m
               (respond (CreateAddressBook (clk 0)
                    \<lparr> ab_ID = 0, ab_Name = TrimSpace (cab_Name req),
                      ab_Description = TrimSpace (cab_Description req),
                      ab_OwnerUserID = cab_OwnerUserID req,
                      ab_Entries = normalizedEntries (cab_Entries req), ab_CreatedAt = zero_time,
                      ab_UpdatedAt = zero_time \<rparr> m)
                  (bad_request ''INVALID_ADDRESS_BOOK'')
                  (\<lambda>created m1. (JSON StatusCreated (BookItem created), m1))))
      else (method_not_allowed, m))"

definition addBookEntry ::
    "(nat \<Rightarrow> gotime) \<Rightarrow> int \<Rightarrow> AddAddressBookEntryRequest option \<Rightarrow> Memory \<Rightarrow> book_payload handler_result" where
  "addBookEntry clk bid body m =
     decoded body m (\<lambda>req.
       checked (if aae_DeviceID req \<le> 0 then Some ''device_id must be positive'' else None)
         ''INVALID_ADDRESS_BOOK_ENTRY'' m
         (respond (AddAddressBookEntry (clk 0) bid (new_entry (aae_DeviceID req) (aae_Alias req)) m)
            (not_found_as ''ADDRESS_BOOK_NOT_FOUND'' ''address book not found''
               (bad_request ''INVALID_ADDRESS_BOOK_ENTRY''))
            (\<lambda>book m1. (JSON StatusCreated (BookItem book), m1))))"

definition removeBookEntry ::
    "(nat \<Rightarrow> gotime) \<Rightarrow> int \<Rightarrow> int \<Rightarrow> Memory \<Rightarrow> book_payload handler_result" where
  "removeBookEntry clk bid eid m =
     respond (RemoveAddressBookEntry (clk 0) bid eid m)
       (not_found_as ''ADDRESS_BOOK_ENTRY_NOT_FOUND'' ''address book entry not found''
          (bad_request ''INVALID_ADDRESS_BOOK_ENTRY''))
       (\<lambda>book m1. (JSON StatusOK (BookItem book), m1))"

definition books_Item ::
    "(nat \<Rightarrow> gotime) \<Rightarrow> request \<Rightarrow> AddAddressBookEntryRequest option \<Rightarrow> Memory \<Rightarrow>
       book_payload handler_result" where
  "books_Item clk r body m =
     (case parseAddressBookEntryPath (Path r) of
        None \<Rightarrow> (Error StatusNotFound ''NOT_FOUND'' ''address book route not found'', m)
      | Some (bid, eid) \<Rightarrow>
          if eid = None \<and> Method r = MethodGet
          then (case ListAddressBookEntries bid m of
                  Inl e \<Rightarrow> (not_found_as ''ADDRESS_BOOK_NOT_FOUND'' ''address book not found''
                     (server_error ''LIST_ADDRESS_BOOK_ENTRIES_FAILED''
                        ''list address book entries failed'') e, m)
                | Inr es \<Rightarrow> (JSON StatusOK (BookEntries es), m))
          else if eid = None \<and> Method r = MethodPost then addBookEntry clk bid body m
          else if eid \<noteq> None \<and> Method r = MethodDelete then removeBookEntry clk bid (the eid) m
          else (method_not_allowed, m))"

section \<open>Facts\<close>

text \<open>Identifiers of the entries are passed by the counter, in every book.\<close>

definition entries_ok :: "int \<Rightarrow> AddressBook \<Rightarrow> bool" where
  "entries_ok n b \<longleftrightarrow> (\<forall>e \<in> set (ab_Entries b). abe_ID e \<le> n)"

definition entries_inv :: "Memory \<Rightarrow> bool" where
  "entries_inv m \<longleftrightarrow> list_all (entries_ok (nextID m)) (addressBooks m)"

lemma entries_ok_mono: "entries_ok n b \<Longrightarrow> n \<le> k \<Longrightarrow> entries_ok k b"
  by (auto simp: entries_ok_def)

lemma entries_all_mono: "list_all (entries_ok n) bs \<Longrightarrow> n \<le> k \<Longrightarrow> list_all (entries_ok k) bs"
  by (auto simp: list_all_iff intro: entries_ok_mono)

lemma number_entries_ids:
  "number_entries now bid n es = (es', n') \<Longrightarrow> n \<le> n' \<and> (\<forall>e \<in> set es'. abe_ID e \<le> n')"
  by (induction now bid n es arbitrary: es' n' rule: number_entries.induct)
     (fastforce simp: Let_def split: prod.splits)+

lemma entries_later [simp]: "0 \<le> k \<Longrightarrow> list_all (entries_ok n) bs \<Longrightarrow> list_all (entries_ok (n + k)) bs"
  using entries_all_mono [of n bs "n + k"] by simp

lemma entries_update:
  "list_all (entries_ok n) bs \<Longrightarrow> entries_ok n b \<Longrightarrow> list_all (entries_ok n) (update_first P (\<lambda>_. b) bs)"
  by (induction bs) auto

lemma mem_step_entries: "mem_step m m' \<Longrightarrow> entries_inv m \<Longrightarrow> entries_inv m'"
proof (induction rule: mem_step.induct)
  case (UpsertSystemSettings m now ss by')
  then show ?case using UpsertSystemSettings_frame [of now ss by' m] by (auto simp: entries_inv_def)
next
  case (CreateAddressBook m now ab)
  obtain es n where n: "number_entries now (nextID m + 1) (nextID m + 1) (ab_Entries ab) = (es, n)" by fastforce
  from number_entries_ids [OF n] CreateAddressBook entries_all_mono [of "nextID m" "addressBooks m" n]
  show ?case by (simp add: entries_inv_def CreateAddressBook_def Let_def n entries_ok_def)
next
  case (AddAddressBookEntry m now i e)
  show ?case
  proof (cases "find (\<lambda>b. ab_ID b = i) (addressBooks m)")
    case (Some b)
    then have "entries_ok (nextID m) b"
      using AddAddressBookEntry find_SomeD [OF Some] by (auto simp: entries_inv_def list_all_iff)
    then have "\<forall>e \<in> set (ab_Entries b). abe_ID e \<le> nextID m + 1" by (force simp: entries_ok_def)
    then show ?thesis using AddAddressBookEntry Some
      by (auto simp: entries_inv_def AddAddressBookEntry_def Let_def entries_ok_def intro!: entries_update)
  qed (use AddAddressBookEntry in \<open>simp add: entries_inv_def AddAddressBookEntry_def\<close>)
next
  case (RemoveAddressBookEntry m now i j)
  show ?case
  proof (cases "find (\<lambda>b. ab_ID b = i) (addressBooks m)")
    case (Some b)
    then have "entries_ok (nextID m) b"
      using RemoveAddressBookEntry find_SomeD [OF Some] by (auto simp: entries_inv_def list_all_iff)
    then show ?thesis using RemoveAddressBookEntry Some
      by (auto simp: entries_inv_def RemoveAddressBookEntry_def Let_def entries_ok_def intro!: entries_update)
  qed (use RemoveAddressBookEntry in \<open>simp add: entries_inv_def RemoveAddressBookEntry_def\<close>)
qed (simp_all add: step_simps entries_inv_def split: option.split)

lemma mem_reach_entries: "mem_reach m0 m \<Longrightarrow> entries_inv m0 \<Longrightarrow> entries_inv m"
  by (induction rule: mem_reach.induct) (use mem_step_entries in blast)+

lemma addBookEntry_JSON_D:
  assumes "addBookEntry clk bid body m = (JSON StatusCreated (BookItem b), m1)"
  shows "\<exists>b0 e. find (\<lambda>b. ab_ID b = bid) (addressBooks m) = Some b0 \<and> ab_Entries b = ab_Entries b0 @ [e] \<and>
     abe_ID e = nextID m + 1 \<and> abe_AddressBookID e = bid \<and> ab_ID b = bid \<and>
     addressBooks m1 = update_first (\<lambda>b. ab_ID b = bid) (\<lambda>_. b) (addressBooks m) \<and>
     list_all (\<lambda>x. abe_DeviceID x \<noteq> abe_DeviceID e) (ab_Entries b0)"
  using assms
  by (auto simp: addBookEntry_def decoded_def checked_def respond_def AddAddressBookEntry_def Let_def
      invalid_json_def not_found_as_def bad_request_def list_ex_iff list_all_iff
      split: option.splits if_splits dest: find_SomeD)

lemma removeBookEntry_JSON_D:
  assumes "removeBookEntry clk bid eid m = (JSON StatusOK p, m1)"
    and "find (\<lambda>b. ab_ID b = bid) (addressBooks m) = Some b"
  shows "\<exists>b'. p = BookItem b' \<and> ab_Entries b' = filter (\<lambda>e. abe_ID e \<noteq> eid) (ab_Entries b) \<and>
     find (\<lambda>b. ab_ID b = bid) (addressBooks m1) = Some b'"
  using assms find_update_first [of "\<lambda>b. ab_ID b = bid" "addressBooks m" b]
  by (auto simp: removeBookEntry_def respond_def RemoveAddressBookEntry_def Let_def not_found_as_def
      bad_request_def split: option.splits if_splits dest: find_SomeD)

section \<open>Properties\<close>

text \<open>
  An address-book entry comes and goes: a device added to a book over HTTP is its last
  entry, under a fresh identifier and once only, and when the entry is removed the book has
  the entries it had before.
\<close>

lemma address_book_add_remove:
  assumes "mem_reach (NewMemoryWithInitialAdmin t email h) m"
    and "parseAddressBookEntryPath (Path r) = Some (bid, None)" "Method r = MethodPost"
    and "books_Item clk r body m = (JSON StatusCreated (BookItem b), m1)"
    and "parseAddressBookEntryPath (Path r') = Some (bid, Some (abe_ID (last (ab_Entries b))))"
    and "Method r' = MethodDelete"
    and "books_Item clk' r' body' m1 = (JSON StatusOK p, m2)"
  shows "\<exists>b' es. p = BookItem b' \<and> ListAddressBookEntries bid m = Inr es \<and>
     ListAddressBookEntries bid m2 = Inr es \<and>
     ab_Entries b = es @ [last (ab_Entries b)] \<and>
     list_all (\<lambda>x. abe_DeviceID x \<noteq> abe_DeviceID (last (ab_Entries b))) es"
proof -
  have "entries_inv (NewMemoryWithInitialAdmin t email h)"
    by (simp add: entries_inv_def NewMemoryWithInitialAdmin_def newMemoryWithUsersAndNext_def Let_def)
  then have inv: "entries_inv m" by (rule mem_reach_entries [OF assms(1)])
  have "addBookEntry clk bid body m = (JSON StatusCreated (BookItem b), m1)"
    using assms(2-4) by (simp add: books_Item_def)
  from addBookEntry_JSON_D [OF this] obtain b0 e where
    b0: "find (\<lambda>b. ab_ID b = bid) (addressBooks m) = Some b0" and b: "ab_Entries b = ab_Entries b0 @ [e]"
    and e: "abe_ID e = nextID m + 1" and i: "ab_ID b = bid"
    and m1: "addressBooks m1 = update_first (\<lambda>b. ab_ID b = bid) (\<lambda>_. b) (addressBooks m)"
    and new: "list_all (\<lambda>x. abe_DeviceID x \<noteq> abe_DeviceID e) (ab_Entries b0)" by blast
  have old: "\<forall>x \<in> set (ab_Entries b0). abe_ID x \<le> nextID m"
    using inv find_SomeD [OF b0] by (auto simp: entries_inv_def entries_ok_def list_all_iff)
  have f1: "find (\<lambda>b. ab_ID b = bid) (addressBooks m1) = Some b"
    unfolding m1 using i by (intro find_update_first [OF b0])
  have "removeBookEntry clk' bid (abe_ID e) m1 = (JSON StatusOK p, m2)"
    using assms(5-7) b by (simp add: books_Item_def)
  moreover have "filter (\<lambda>x. abe_ID x \<noteq> abe_ID e) (ab_Entries b) = ab_Entries b0"
    using old by (force simp: b e filter_id_conv)
  ultimately show ?thesis
    using removeBookEntry_JSON_D [OF _ f1] b0 b new by (force simp: ListAddressBookEntries_def)
qed

definition wit_books :: Memory where
  "wit_books = snd (CreateAddressBook 1
     \<lparr> ab_ID = 0, ab_Name = ''lab'', ab_Description = [], ab_OwnerUserID = None, ab_Entries = [],
       ab_CreatedAt = 0, ab_UpdatedAt = 0 \<rparr> (NewMemoryWithInitialAdmin 0 ''admin@example.com'' ''hash''))"

definition wit_add :: request where
  "wit_add = \<lparr> Method = ''POST'', Path = ''/api/v1/address-books/101/entries'', RemoteAddr = [],
     Headers = [], Cookies = [], Query = [], Context = None \<rparr>"

definition wit_remove :: request where
  "wit_remove = wit_add\<lparr> Method := ''DELETE'', Path := ''/api/v1/address-books/101/entries/102'' \<rparr>"

definition wit_added :: "book_payload handler_result" where
  "wit_added = books_Item (\<lambda>_. 2) wit_add (Some \<lparr> aae_DeviceID = 7, aae_Alias = ''pc'' \<rparr>) wit_books"

definition wit_removed :: "book_payload handler_result" where
  "wit_removed = books_Item (\<lambda>_. 3) wit_remove None (snd wit_added)"

lemma address_book_add_remove_witness:
  "\<exists>b b'. fst wit_added = JSON StatusCreated (BookItem b) \<and> map abe_ID (ab_Entries b) = [102] \<and>
     fst wit_removed = JSON StatusOK (BookItem b') \<and>
     ListAddressBookEntries 101 (snd wit_removed) = ListAddressBookEntries 101 wit_books"
proof -
  have "case fst wit_added of Error n c msg \<Rightarrow> False
      | JSON n p \<Rightarrow> n = 201 \<and> (case p of BookItem b \<Rightarrow> map abe_ID (ab_Entries b) = [102] | _ \<Rightarrow> False)"
    by code_simp
  then obtain b where b: "fst wit_added = JSON StatusCreated (BookItem b)" "map abe_ID (ab_Entries b) = [102]"
    by (auto split: http_response.splits book_payload.splits)
  have "case fst wit_removed of JSON n p \<Rightarrow> n = 200 | Error n c msg \<Rightarrow> False" by code_simp
  then obtain p where r: "wit_removed = (JSON StatusOK p, snd wit_removed)" using JSON_result by blast
  have reach: "mem_reach (NewMemoryWithInitialAdmin 0 ''admin@example.com'' ''hash'') wit_books"
    unfolding wit_books_def by (meson mem_reach.intros mem_step.intros)
  have path: "parseAddressBookEntryPath (Path wit_add) = Some (101, None)" "Method wit_add = MethodPost"
      "parseAddressBookEntryPath (Path wit_remove) = Some (101, Some 102)" "Method wit_remove = MethodDelete"
    by code_simp+
  have last: "abe_ID (last (ab_Entries b)) = 102" using b(2) by (cases "ab_Entries b") auto
  have a: "wit_added = (JSON StatusCreated (BookItem b), snd wit_added)" using b(1) by (metis prod.collapse)
  note t = address_book_add_remove [OF reach path(1,2) a [unfolded wit_added_def], folded wit_added_def,
      OF _ path(4) r [unfolded wit_removed_def], folded wit_removed_def]
  obtain b' where "p = BookItem b'"
      "ListAddressBookEntries 101 (snd wit_removed) = ListAddressBookEntries 101 wit_books"
    using t path(3) last by auto
  moreover have "fst wit_removed = JSON StatusOK p" using r by (metis fst_conv)
  ultimately show ?thesis using b by metis
qed

end
