(* ===== verification/Settings_Handler.thy ===== *)
theory Settings_Handler
  imports Handler_Core Memory_Properties
begin

text \<open>
  System settings (\<^verbatim>\<open>api/internal/settings/handler.go\<close>): the defaults of a section with the stored
  values over them. \<open>'v\<close> are the decoded JSON values; decoding and encoding them, with the
  text of an error, and the kind of a value (\<^verbatim>\<open>encoding/json\<close>) are the record \<open>value_prims\<close>. A Go
  map of updates is the list of its pairs in the order in which \<^verbatim>\<open>range\<close> takes them.
\<close>

datatype json_kind = KindBool | KindNumber | KindString | KindArray | KindObject | KindNull

record 'v value_prims =
  vp_Unmarshal :: "string \<Rightarrow> string + 'v"
  vp_Marshal :: "'v \<Rightarrow> string + string"
  vp_Kind :: "'v \<Rightarrow> json_kind"

record 'v SettingResponse =
  sr_Key :: string
  sr_Value :: 'v
  sr_ValueJSON :: string
  sr_Section :: string
  sr_Source :: string
  sr_UpdatedBy :: "int option"
  sr_UpdatedAt :: "gotime option"

record sectionDefinition =
  sd_Name :: string
  sd_Prefix :: string
  sd_Defaults :: "(string \<times> string) list"

datatype 'v settings_payload = SettingList "'v SettingResponse list"

section \<open>Sections\<close>

definition baseDefaults :: "(string \<times> string) list" where
  "baseDefaults =
     [(''audit_retention_days'', ''180''), (''connection_log_retention_days'', ''90''),
      (''file_transfer_enabled_default'', ''true''), (''public_rustdesk_fallback'', ''false''),
      (''relay_auth_required'', ''true''), (''terminal_enabled_default'', ''false''),
      (''web_client_enabled'', ''false'')]"

definition general_section :: sectionDefinition where
  "general_section = \<lparr> sd_Name = ''general'', sd_Prefix = [], sd_Defaults = baseDefaults \<rparr>"

text \<open>A JSON string literal, in its quotes.\<close>

definition quoted :: "string \<Rightarrow> string" where
  "quoted s = [CHR 0x22] @ s @ [CHR 0x22]"

definition sections :: "(string \<times> sectionDefinition) list" where
  "sections =
     [(''oidc'', \<lparr> sd_Name = ''oidc'', sd_Prefix = ''oidc.'',
         sd_Defaults = [(''enabled'', ''false''), (''issuer_url'', quoted []), (''client_id'', quoted []),
                        (''scopes'', quoted ''openid profile email''), (''auto_create_users'', ''false'')] \<rparr>),
      (''ldap'', \<lparr> sd_Name = ''ldap'', sd_Prefix = ''ldap.'',
         sd_Defaults = [(''enabled'', ''false''), (''url'', quoted []), (''base_dn'', quoted []),
                        (''bind_dn'', quoted []), (''user_filter'', quoted ''(uid={username})''),
                        (''group_filter'', quoted []), (''start_tls'', ''true'')] \<rparr>),
      (''smtp'', \<lparr> sd_Name = ''smtp'', sd_Prefix = ''smtp.'',
         sd_Defaults = [(''enabled'', ''false''), (''host'', quoted []), (''port'', ''587''),
                        (''username'', quoted []), (''from_address'', quoted []), (''tls'', ''true'')] \<rparr>)]"

section \<open>Listing\<close>

definition responseKeyForStored :: "string \<Rightarrow> sectionDefinition \<Rightarrow> string option" where
  "responseKeyForStored storedKey d =
     (if sd_Prefix d = []
      then (case map_of (sd_Defaults d) storedKey of None \<Rightarrow> None | Some x \<Rightarrow> Some storedKey)
      else if \<not> HasPrefix storedKey (sd_Prefix d) then None
      else let key = TrimPrefix storedKey (sd_Prefix d)
           in (case map_of (sd_Defaults d) key of None \<Rightarrow> None | Some x \<Rightarrow> Some key))"

fun defaults_loop ::
    "'v value_prims \<Rightarrow> sectionDefinition \<Rightarrow> (string \<times> string) list \<Rightarrow>
       (string \<times> 'v SettingResponse) list \<Rightarrow> string + (string \<times> 'v SettingResponse) list" where
  "defaults_loop vp d [] merged = Inr merged"
| "defaults_loop vp d ((key, raw) # rest) merged =
     (case vp_Unmarshal vp raw of
        Inl e \<Rightarrow> Inl e
      | Inr v \<Rightarrow>
          defaults_loop vp d rest (AList.update key
            \<lparr> sr_Key = key, sr_Value = v, sr_ValueJSON = raw, sr_Section = sd_Name d,
              sr_Source = ''default'', sr_UpdatedBy = None, sr_UpdatedAt = None \<rparr> merged))"

definition stored_response :: "sectionDefinition \<Rightarrow> string \<Rightarrow> 'v \<Rightarrow> SystemSetting \<Rightarrow> 'v SettingResponse" where
  "stored_response d key v s =
     \<lparr> sr_Key = key, sr_Value = v, sr_ValueJSON = ss_ValueJSON s, sr_Section = sd_Name d,
       sr_Source = ''stored'', sr_UpdatedBy = ss_UpdatedBy s, sr_UpdatedAt = Some (ss_UpdatedAt s) \<rparr>"

fun stored_loop ::
    "'v value_prims \<Rightarrow> sectionDefinition \<Rightarrow> SystemSetting list \<Rightarrow>
       (string \<times> 'v SettingResponse) list \<Rightarrow> string + (string \<times> 'v SettingResponse) list" where
  "stored_loop vp d [] merged = Inr merged"
| "stored_loop vp d (s # rest) merged =
     (case responseKeyForStored (ss_Key s) d of
        None \<Rightarrow> stored_loop vp d rest merged
      | Some key \<Rightarrow>
          (case vp_Unmarshal vp (ss_ValueJSON s) of
             Inl e \<Rightarrow> Inl e
           | Inr v \<Rightarrow> stored_loop vp d rest (AList.update key (stored_response d key v s) merged)))"

definition mergedSettings ::
    "'v value_prims \<Rightarrow> sectionDefinition \<Rightarrow> Memory \<Rightarrow> string + 'v SettingResponse list" where
  "mergedSettings vp d m =
     (case ListSystemSettings m of
        Inl e \<Rightarrow> Inl (error_text e)
      | Inr stored \<Rightarrow>
          (case defaults_loop vp d (sd_Defaults d) [] of
             Inl e \<Rightarrow> Inl e
           | Inr merged0 \<Rightarrow>
               (case stored_loop vp d stored merged0 of
                  Inl e \<Rightarrow> Inl e
                | Inr merged \<Rightarrow> Inr (sort_key sr_Key (map snd merged)))))"

section \<open>Updates\<close>

definition sameJSONKind :: "'v value_prims \<Rightarrow> 'v \<Rightarrow> 'v \<Rightarrow> bool" where
  "sameJSONKind vp v defaultValue =
     (case vp_Kind vp defaultValue of
        KindBool \<Rightarrow> vp_Kind vp v = KindBool
      | KindNumber \<Rightarrow> vp_Kind vp v = KindNumber
      | KindString \<Rightarrow> vp_Kind vp v = KindString
      | KindArray \<Rightarrow> vp_Kind vp v = KindArray
      | KindObject \<Rightarrow> vp_Kind vp v = KindObject
      | KindNull \<Rightarrow> vp_Kind vp v = KindNull)"

definition normalizeJSON :: "'v value_prims \<Rightarrow> string \<Rightarrow> string \<Rightarrow> string \<Rightarrow> string + string" where
  "normalizeJSON vp raw defaultRaw key =
     (if raw = [] then Inl ''setting value is required''
      else (case vp_Unmarshal vp raw of
          Inl e \<Rightarrow> Inl ''setting value must be valid JSON''
        | Inr v \<Rightarrow>
            (case vp_Unmarshal vp defaultRaw of
               Inl e \<Rightarrow> Inl e
             | Inr defaultValue \<Rightarrow>
                 if \<not> sameJSONKind vp v defaultValue then Inl (key @ '' has invalid value type'')
                 else vp_Marshal vp v)))"

fun updates_loop ::
    "'v value_prims \<Rightarrow> sectionDefinition \<Rightarrow> (string \<times> string) list \<Rightarrow> SystemSetting list \<Rightarrow>
       string + SystemSetting list" where
  "updates_loop vp d [] out = Inr out"
| "updates_loop vp d ((key0, raw) # rest) out =
     (let key = TrimSpace key0
      in if key = [] then Inl ''setting key is required''
         else (case map_of (sd_Defaults d) key of
             None \<Rightarrow> Inl (''unknown setting key: '' @ key)
           | Some defaultRaw \<Rightarrow>
               (case normalizeJSON vp raw defaultRaw key of
                  Inl e \<Rightarrow> Inl e
                | Inr normalized \<Rightarrow>
                    updates_loop vp d rest (out @
                      [\<lparr> ss_Key = sd_Prefix d @ key, ss_ValueJSON = normalized, ss_UpdatedBy = None,
                         ss_UpdatedAt = zero_time \<rparr>]))))"

definition normalizeUpdates ::
    "'v value_prims \<Rightarrow> sectionDefinition \<Rightarrow> (string \<times> string) list \<Rightarrow> string + SystemSetting list" where
  "normalizeUpdates vp d ups =
     (if ups = [] then Inl ''settings object is required''
      else (case updates_loop vp d ups [] of
          Inl e \<Rightarrow> Inl e
        | Inr out \<Rightarrow> Inr (sort_key ss_Key out)))"

definition settingKeys :: "SystemSetting list \<Rightarrow> string list" where
  "settingKeys ss = sort (map ss_Key ss)"

section \<open>Handlers\<close>

text \<open>The body of \<^verbatim>\<open>Collection\<close> and of \<^verbatim>\<open>section\<close>, once the definition is known.\<close>

definition settings_requests ::
    "'v value_prims \<Rightarrow> sectionDefinition \<Rightarrow> (nat \<Rightarrow> gotime) \<Rightarrow> request \<Rightarrow> (string \<times> string) list option \<Rightarrow>
       Memory \<Rightarrow> 'v settings_payload handler_result" where
  "settings_requests vp d clk r body m =
     (if Method r = MethodGet
      then (case mergedSettings vp d m of
              Inl e \<Rightarrow> (Error StatusInternalServerError ''LIST_SETTINGS_FAILED'' ''list settings failed'', m)
            | Inr out \<Rightarrow> (JSON StatusOK (SettingList out), m))
      else if Method r = MethodPut
      then decoded body m (\<lambda>ups.
             case normalizeUpdates vp d ups of
               Inl e \<Rightarrow> (Error StatusBadRequest ''INVALID_SETTINGS'' e, m)
             | Inr updates \<Rightarrow>
                 (case SessionFromContext r of
                    None \<Rightarrow> (Error StatusUnauthorized ''UNAUTHENTICATED'' ''authentication is required'', m)
                  | Some session \<Rightarrow>
                      respond (UpsertSystemSettings (clk 0) updates (user_ID (asn_User session)) m)
                        (bad_request ''UPDATE_SETTINGS_FAILED'')
                        (\<lambda>u m1.
                           (case writeAudit (clk 1) r
                                  (event ''update_system_settings'' ''settings'' (sd_Name d)
                                     (Some [(''section'', AnyString (sd_Name d)),
                                            (''keys'', AnyStrings (settingKeys updates))])) m1 of
                              (Some err, m2) \<Rightarrow>
                                (Error StatusInternalServerError ''AUDIT_WRITE_FAILED''
                                   ''failed to record settings update'', m2)
                            | (None, m2) \<Rightarrow>
                                (case mergedSettings vp d m2 of
                                   Inl e \<Rightarrow> (Error StatusInternalServerError ''LIST_SETTINGS_FAILED''
                                              ''list settings failed'', m2)
                                 | Inr out \<Rightarrow> (JSON StatusOK (SettingList out), m2))))))
      else (method_not_allowed, m))"

definition settings_Collection ::
    "'v value_prims \<Rightarrow> (nat \<Rightarrow> gotime) \<Rightarrow> request \<Rightarrow> (string \<times> string) list option \<Rightarrow> Memory \<Rightarrow>
       'v settings_payload handler_result" where
  "settings_Collection vp clk r body m = settings_requests vp general_section clk r body m"

definition settings_section ::
    "'v value_prims \<Rightarrow> string \<Rightarrow> (nat \<Rightarrow> gotime) \<Rightarrow> request \<Rightarrow> (string \<times> string) list option \<Rightarrow> Memory \<Rightarrow>
       'v settings_payload handler_result" where
  "settings_section vp name clk r body m =
     (case map_of sections name of
        None \<Rightarrow> (Error StatusNotFound ''SETTINGS_SECTION_NOT_FOUND'' ''settings section not found'', m)
      | Some d \<Rightarrow> settings_requests vp d clk r body m)"

definition settings_OIDC where "settings_OIDC vp = settings_section vp ''oidc''"

definition settings_LDAP where "settings_LDAP vp = settings_section vp ''ldap''"

definition settings_SMTP where "settings_SMTP vp = settings_section vp ''smtp''"

section \<open>The settings table\<close>

text \<open>A table whose keys are unique and whose rows know their key, as a Go map of structs is.\<close>

definition keyed :: "('a \<Rightarrow> string) \<Rightarrow> (string \<times> 'a) list \<Rightarrow> bool" where
  "keyed key al \<longleftrightarrow> distinct (map fst al) \<and> (\<forall>k s. map_of al k = Some s \<longrightarrow> key s = k)"

lemma keyed_Nil [simp]: "keyed key []"
  by (simp add: keyed_def)

lemma keyed_update: "keyed key al \<Longrightarrow> key s = k \<Longrightarrow> keyed key (AList.update k s al)"
  by (simp add: keyed_def distinct_update update_conv')

lemma keyed_in: "keyed key al \<Longrightarrow> (k, s) \<in> set al \<longleftrightarrow> map_of al k = Some s"
  by (simp add: keyed_def)

lemma keyed_rows:
  assumes "keyed key al"
  shows "s \<in> set (map snd al) \<longleftrightarrow> map_of al (key s) = Some s"
proof
  assume "s \<in> set (map snd al)"
  then obtain k where "(k, s) \<in> set al" by auto
  then show "map_of al (key s) = Some s" using assms keyed_in [OF assms] by (auto simp: keyed_def)
next
  assume "map_of al (key s) = Some s"
  then show "s \<in> set (map snd al)" using map_of_SomeD by force
qed

lemma keyed_distinct: "keyed key al \<Longrightarrow> distinct (map key (map snd al))"
proof -
  assume k: "keyed key al"
  have "key (snd p) = fst p" if "p \<in> set al" for p
    using keyed_in [OF k, of "fst p" "snd p"] k that unfolding keyed_def by simp
  then have "map key (map snd al) = map fst al" by simp
  then show ?thesis using k by (simp only: keyed_def)
qed

lemma filter_update:
  "(\<And>v. (k, v) \<in> set al \<Longrightarrow> \<not> P v) \<Longrightarrow> \<not> P s \<Longrightarrow>
     filter P (map snd (AList.update k s al)) = filter P (map snd al)"
  by (induction al) auto

definition settings_inv :: "Memory \<Rightarrow> bool" where
  "settings_inv m \<longleftrightarrow> keyed ss_Key (settings m)"

definition stamped :: "gotime \<Rightarrow> int \<Rightarrow> SystemSetting \<Rightarrow> SystemSetting" where
  "stamped now updatedBy s = s\<lparr> ss_Key := TrimSpace (ss_Key s), ss_UpdatedAt := now,
     ss_UpdatedBy := (if updatedBy > 0 then Some updatedBy else ss_UpdatedBy s) \<rparr>"

definition put_row :: "SystemSetting \<Rightarrow> Memory \<Rightarrow> Memory" where
  "put_row s m = m\<lparr> settings := AList.update (ss_Key s) s (settings m) \<rparr>"

lemma stamped_simps [simp]:
  "ss_Key (stamped now updatedBy s) = TrimSpace (ss_Key s)"
  "ss_ValueJSON (stamped now updatedBy s) = ss_ValueJSON s"
  "0 < updatedBy \<Longrightarrow> ss_UpdatedBy (stamped now updatedBy s) = Some updatedBy"
  by (simp_all add: stamped_def)

lemma upsert_Cons:
  "UpsertSystemSettings now (s # ss) updatedBy m =
     (if TrimSpace (ss_Key s) = [] \<or> TrimSpace (ss_ValueJSON s) = []
      then (Inl (ErrMsg ''setting key and value_json are required''), m)
      else UpsertSystemSettings now ss updatedBy (put_row (stamped now updatedBy s) m))"
  by (simp add: Let_def stamped_def put_row_def)

lemma put_row_inv: "settings_inv m \<Longrightarrow> settings_inv (put_row s m)"
  by (simp add: put_row_def settings_inv_def keyed_update)

lemma put_row_map: "map_of (settings (put_row s m)) = (map_of (settings m))(ss_Key s \<mapsto> s)"
  by (simp add: put_row_def update_conv')

lemma upsert_inv: "settings_inv m \<Longrightarrow> settings_inv (snd (UpsertSystemSettings now ss updatedBy m))"
  by (induction ss arbitrary: m)
     (simp_all add: upsert_Cons put_row_inv del: UpsertSystemSettings.simps(2))

lemma mem_step_settings: "mem_step m m' \<Longrightarrow> settings_inv m \<Longrightarrow> settings_inv m'"
proof (induction rule: mem_step.induct)
  case (UpsertSystemSettings m now ss by')
  then show ?case by (rule upsert_inv)
qed (simp_all add: step_simps settings_inv_def split: option.split)

lemma mem_reach_settings: "mem_reach m0 m \<Longrightarrow> settings_inv m0 \<Longrightarrow> settings_inv m"
  by (induction rule: mem_reach.induct) (use mem_step_settings in blast)+

lemma put_row_other:
  assumes "settings_inv m" "\<And>x. ss_Key x = ss_Key s \<Longrightarrow> \<not> P x"
  shows "filter P (map snd (settings (put_row s m))) = filter P (map snd (settings m))"
proof -
  have "ss_Key v = ss_Key s" if "(ss_Key s, v) \<in> set (settings m)" for v
    using assms(1) that by (simp add: settings_inv_def keyed_def)
  then show ?thesis using assms(2) by (simp add: put_row_def filter_update del: filter_map)
qed

text \<open>What a run of \<^verbatim>\<open>UpsertSystemSettings\<close> that returns no error leaves.\<close>

lemma upsert_other:
  assumes "UpsertSystemSettings now ss updatedBy m = (Inr (), m')" "settings_inv m"
    and "\<And>x. ss_Key x \<in> (\<lambda>s. TrimSpace (ss_Key s)) ` set ss \<Longrightarrow> \<not> P x"
  shows "filter P (map snd (settings m')) = filter P (map snd (settings m))"
  using assms
proof (induction ss arbitrary: m)
  case (Cons s ss)
  have run: "UpsertSystemSettings now ss updatedBy (put_row (stamped now updatedBy s) m) = (Inr (), m')"
    using Cons.prems(1) by (simp only: upsert_Cons split: if_splits) simp_all
  have "filter P (map snd (settings m')) = filter P (map snd (settings (put_row (stamped now updatedBy s) m)))"
    using Cons.prems(2,3) by (intro Cons.IH [OF run] put_row_inv) simp_all
  also have "\<dots> = filter P (map snd (settings m))"
    using Cons.prems(2,3) by (intro put_row_other) simp_all
  finally show ?case .
qed simp

lemma upsert_keeps:
  assumes "UpsertSystemSettings now ss updatedBy m = (Inr (), m')" "k \<notin> (\<lambda>s. TrimSpace (ss_Key s)) ` set ss"
  shows "map_of (settings m') k = map_of (settings m) k"
  using assms
proof (induction ss arbitrary: m)
  case (Cons s ss)
  have "UpsertSystemSettings now ss updatedBy (put_row (stamped now updatedBy s) m) = (Inr (), m')"
    using Cons.prems(1) by (simp only: upsert_Cons split: if_splits) simp_all
  then show ?case using Cons by (simp add: put_row_map)
qed simp

lemma upsert_sets:
  assumes "UpsertSystemSettings now ss updatedBy m = (Inr (), m')"
    and "distinct (map (\<lambda>s. TrimSpace (ss_Key s)) ss)" "s \<in> set ss"
  shows "map_of (settings m') (TrimSpace (ss_Key s)) = Some (stamped now updatedBy s)"
  using assms
proof (induction ss arbitrary: m)
  case (Cons a ss)
  have run: "UpsertSystemSettings now ss updatedBy (put_row (stamped now updatedBy a) m) = (Inr (), m')"
    using Cons.prems(1) by (simp only: upsert_Cons split: if_splits) simp_all
  show ?case
  proof (cases "s = a")
    case True
    then show ?thesis using upsert_keeps [OF run] Cons.prems(2) by (simp add: put_row_map)
  next
    case False
    then show ?thesis using Cons.IH [OF run] Cons.prems by simp
  qed
qed simp

section \<open>The listing of a section\<close>

lemma defaults_loop_InrD:
  assumes "defaults_loop vp d defs acc = Inr merged" "keyed sr_Key acc"
  shows "keyed sr_Key merged"
  using assms
  by (induction vp d defs acc rule: defaults_loop.induct) (auto simp: keyed_update split: sum.splits)

lemma stored_loop_keyed:
  assumes "stored_loop vp d rows acc = Inr merged" "keyed sr_Key acc"
  shows "keyed sr_Key merged"
  using assms
  by (induction vp d rows acc rule: stored_loop.induct)
     (auto simp: keyed_update stored_response_def split: sum.splits option.splits)

lemma responseKey_Some:
  "responseKeyForStored s d = Some k \<Longrightarrow> s = sd_Prefix d @ k \<and> map_of (sd_Defaults d) k \<noteq> None"
  by (auto simp: responseKeyForStored_def Let_def dest: HasPrefixD split: if_splits option.splits)

lemma responseKey_prefix:
  "map_of (sd_Defaults d) k \<noteq> None \<Longrightarrow> responseKeyForStored (sd_Prefix d @ k) d = Some k"
  by (auto simp: responseKeyForStored_def Let_def HasPrefix_def TrimPrefix_def split: option.splits)

lemma stored_loop_other:
  assumes "stored_loop vp d rows acc = Inr merged"
    and "\<forall>s \<in> set rows. responseKeyForStored (ss_Key s) d \<noteq> Some k"
  shows "map_of merged k = map_of acc k"
  using assms
  by (induction vp d rows acc rule: stored_loop.induct)
     (auto simp: update_conv' split: sum.splits option.splits)

lemma stored_loop_row:
  assumes "stored_loop vp d rows acc = Inr merged" "distinct (map ss_Key rows)"
    and "s \<in> set rows" "responseKeyForStored (ss_Key s) d = Some k"
  shows "\<exists>v. vp_Unmarshal vp (ss_ValueJSON s) = Inr v \<and> map_of merged k = Some (stored_response d k v s)"
  using assms
proof (induction vp d rows acc rule: stored_loop.induct)
  case (2 vp d a rest acc)
  show ?case
  proof (cases "s = a")
    case True
    then obtain v where v: "vp_Unmarshal vp (ss_ValueJSON s) = Inr v"
        "stored_loop vp d rest (AList.update k (stored_response d k v s) acc) = Inr merged"
      using 2(3,6) by (auto split: sum.splits)
    have "\<forall>x \<in> set rest. responseKeyForStored (ss_Key x) d \<noteq> Some k"
    proof
      fix x assume "x \<in> set rest"
      then have "ss_Key x \<noteq> ss_Key s" using 2(4) True by (metis distinct.simps(2) image_eqI list.set_map list.simps(9))
      then show "responseKeyForStored (ss_Key x) d \<noteq> Some k" using responseKey_Some 2(6) by metis
    qed
    from stored_loop_other [OF v(2) this] v(1) show ?thesis by (simp add: update_conv')
  next
    case False
    then show ?thesis using 2 by (auto split: sum.splits option.splits)
  qed
qed simp

text \<open>Rows of other sections do not count.\<close>

lemma stored_loop_filter:
  "stored_loop vp d rows acc = stored_loop vp d (filter (\<lambda>s. responseKeyForStored (ss_Key s) d \<noteq> None) rows) acc"
  by (induction vp d rows acc rule: stored_loop.induct) (auto split: sum.splits option.splits)

lemma mergedSettings_cong:
  assumes "filter (\<lambda>s. responseKeyForStored (ss_Key s) d \<noteq> None) (map snd (settings m')) =
     filter (\<lambda>s. responseKeyForStored (ss_Key s) d \<noteq> None) (map snd (settings m))"
  shows "mergedSettings vp d m' = mergedSettings vp d m"
proof -
  have "stored_loop vp d (sort_key ss_Key (map snd (settings m'))) acc =
      stored_loop vp d (sort_key ss_Key (map snd (settings m))) acc" for acc
    using assms stored_loop_filter [of vp d _ acc] by (metis (no_types, lifting) filter_sort)
  then show ?thesis by (simp add: mergedSettings_def ListSystemSettings_def split: sum.split)
qed

lemma mergedSettings_row:
  assumes "mergedSettings vp d m = Inr out" "settings_inv m"
    and "map_of (settings m) (sd_Prefix d @ k) = Some s" "map_of (sd_Defaults d) k \<noteq> None"
  shows "\<exists>v. stored_response d k v s \<in> set out"
proof -
  obtain acc merged where l: "defaults_loop vp d (sd_Defaults d) [] = Inr acc"
      "stored_loop vp d (sort_key ss_Key (map snd (settings m))) acc = Inr merged"
      "out = sort_key sr_Key (map snd merged)"
    using assms(1) by (auto simp: mergedSettings_def ListSystemSettings_def split: sum.splits)
  have k: "ss_Key s = sd_Prefix d @ k" using assms(2,3) by (simp add: settings_inv_def keyed_def)
  have "s \<in> set (map snd (settings m))"
    using keyed_rows [of ss_Key "settings m" s] assms(2,3) k by (simp add: settings_inv_def)
  moreover have "distinct (map ss_Key (sort_key ss_Key (map snd (settings m))))"
    using keyed_distinct [of ss_Key "settings m"] assms(2)
    by (simp add: settings_inv_def distinct_map del: map_map)
  ultimately obtain v where "map_of merged k = Some (stored_response d k v s)"
    using stored_loop_row [OF l(2), of s k] responseKey_prefix [OF assms(4)] k by auto
  then show ?thesis unfolding l(3) using map_of_SomeD by force
qed

section \<open>Accepted updates\<close>

definition all_sections :: "sectionDefinition list" where
  "all_sections = general_section # map snd sections"

lemma sections_keys:
  "list_all (\<lambda>d. list_all (\<lambda>(k, x). TrimSpace (sd_Prefix d @ k) = sd_Prefix d @ k) (sd_Defaults d)) all_sections"
  by code_simp

lemma sections_apart:
  "list_all (\<lambda>d. list_all (\<lambda>d'. d' = d \<or> list_all (\<lambda>(k, x). responseKeyForStored (sd_Prefix d @ k) d' = None)
     (sd_Defaults d)) all_sections) all_sections"
  by code_simp

lemma normalizeJSON_InrD:
  "normalizeJSON vp raw dr key = Inr j \<Longrightarrow> \<exists>v. vp_Unmarshal vp raw = Inr v \<and> vp_Marshal vp v = Inr j"
  by (auto simp: normalizeJSON_def split: if_splits sum.splits)

lemma updates_loop_InrD:
  assumes "updates_loop vp d ups out = Inr ss"
  shows "map ss_Key ss = map ss_Key out @ map (\<lambda>u. sd_Prefix d @ TrimSpace (fst u)) ups \<and> set out \<subseteq> set ss \<and>
    (\<forall>(k, raw) \<in> set ups. map_of (sd_Defaults d) (TrimSpace k) \<noteq> None \<and>
       (\<exists>v x. vp_Unmarshal vp raw = Inr v \<and> x \<in> set ss \<and> ss_Key x = sd_Prefix d @ TrimSpace k \<and>
          vp_Marshal vp v = Inr (ss_ValueJSON x)))"
  using assms
proof (induction vp d ups out rule: updates_loop.induct)
  case (2 vp d key0 raw rest out)
  obtain dr j where j: "TrimSpace key0 \<noteq> []" "map_of (sd_Defaults d) (TrimSpace key0) = Some dr"
      "normalizeJSON vp raw dr (TrimSpace key0) = Inr j"
      "updates_loop vp d rest (out @ [\<lparr> ss_Key = sd_Prefix d @ TrimSpace key0, ss_ValueJSON = j,
         ss_UpdatedBy = None, ss_UpdatedAt = zero_time \<rparr>]) = Inr ss"
    using 2(2) by (auto simp: Let_def split: if_splits option.splits sum.splits)
  note ih = 2(1) [OF refl j(1,2,3,4)]
  obtain v where v: "vp_Unmarshal vp raw = Inr v" "vp_Marshal vp v = Inr j"
    using normalizeJSON_InrD [OF j(3)] by blast
  have "\<exists>x. x \<in> set ss \<and> ss_Key x = sd_Prefix d @ TrimSpace key0 \<and> ss_ValueJSON x = j"
    using ih by fastforce
  then show ?case using ih v j(2) by auto
qed simp

lemma updates_loop_member:
  assumes "updates_loop vp d ups [] = Inr ss" "(k, raw) \<in> set ups"
  shows "\<exists>v x y. vp_Unmarshal vp raw = Inr v \<and> x \<in> set ss \<and> ss_Key x = sd_Prefix d @ TrimSpace k \<and>
     vp_Marshal vp v = Inr (ss_ValueJSON x) \<and> map_of (sd_Defaults d) (TrimSpace k) = Some y"
  using updates_loop_InrD [OF assms(1), THEN conjunct2, THEN conjunct2, THEN bspec, OF assms(2)] by auto

lemma section_key_trim:
  "d \<in> set all_sections \<Longrightarrow> map_of (sd_Defaults d) k = Some x \<Longrightarrow>
     TrimSpace (sd_Prefix d @ k) = sd_Prefix d @ k"
  using sections_keys by (auto simp: list_all_iff dest!: map_of_SomeD bspec)

lemma section_key_foreign:
  assumes "d \<in> set all_sections" "d' \<in> set all_sections" "d' \<noteq> d" "map_of (sd_Defaults d) k = Some x"
  shows "responseKeyForStored (sd_Prefix d @ k) d' = None"
proof -
  have "list_all (\<lambda>(k, x). responseKeyForStored (sd_Prefix d @ k) d' = None) (sd_Defaults d)"
    using sections_apart assms(1-3) unfolding list_all_iff by blast
  then show ?thesis using map_of_SomeD [OF assms(4)] by (auto simp: list_all_iff)
qed

lemma update_key:
  assumes "updates_loop vp d ups [] = Inr ss" "x \<in> set ss"
  shows "\<exists>k y. ss_Key x = sd_Prefix d @ k \<and> map_of (sd_Defaults d) k = Some y"
proof -
  note u = updates_loop_InrD [OF assms(1)]
  have "ss_Key x \<in> set (map ss_Key ss)" using assms(2) by simp
  then obtain kr where "kr \<in> set ups" "ss_Key x = sd_Prefix d @ TrimSpace (fst kr)" using u by auto
  then show ?thesis using updates_loop_member [OF assms(1), of "fst kr" "snd kr"] by auto
qed

lemma update_keys_distinct:
  assumes "updates_loop vp d ups [] = Inr ss" "d \<in> set all_sections"
    and "distinct (map (\<lambda>u. TrimSpace (fst u)) ups)"
  shows "distinct (map (\<lambda>s. TrimSpace (ss_Key s)) (sort_key ss_Key ss))"
proof -
  have "map (\<lambda>s. TrimSpace (ss_Key s)) ss = map ss_Key ss"
    using update_key [OF assms(1)] section_key_trim [OF assms(2)] by fastforce
  also have "\<dots> = map (\<lambda>k. sd_Prefix d @ k) (map (\<lambda>u. TrimSpace (fst u)) ups)"
    using updates_loop_InrD [OF assms(1)] by simp
  finally have "distinct (map (\<lambda>s. TrimSpace (ss_Key s)) ss)"
    using assms(3) by (simp add: distinct_map inj_on_def)
  then show ?thesis by (simp add: distinct_map)
qed

lemma settings_put_InrD:
  assumes "settings_requests vp d clk r (Some ups) m = (JSON StatusOK (SettingList out), m1)"
    and "Method r = MethodPut" "Context r = Some s"
  obtains ss m0 where "updates_loop vp d ups [] = Inr ss"
    and "UpsertSystemSettings (clk 0) (sort_key ss_Key ss) (user_ID (asn_User s)) m = (Inr (), m0)"
    and "settings m1 = settings m0" "mergedSettings vp d m1 = Inr out"
  using assms
  by (auto simp: settings_requests_def decoded_def normalizeUpdates_def respond_def SessionFromContext_def
      bad_request_def writeAudit_eq split: sum.splits if_splits prod.splits)

section \<open>Properties\<close>

text \<open>
  Settings are what was put: when an update of a section is answered 200, the answer shows
  every updated key with the normalised value, as stored and by the session's user, it is the
  listing of the section from then on, and the listing of every other section is unchanged.
\<close>

lemma settings_put_get:
  assumes "mem_reach (NewMemoryWithInitialAdmin t email h) m" "d \<in> set all_sections"
    and "Method r = MethodPut" "Context r = Some s" "0 < user_ID (asn_User s)"
    and "distinct (map (\<lambda>u. TrimSpace (fst u)) ups)"
    and "settings_requests vp d clk r (Some ups) m = (JSON StatusOK (SettingList out), m1)"
  shows "(\<forall>(k, raw) \<in> set ups. \<exists>v j x. vp_Unmarshal vp raw = Inr v \<and> vp_Marshal vp v = Inr j \<and>
       x \<in> set out \<and> sr_Key x = TrimSpace k \<and> sr_ValueJSON x = j \<and> sr_Source x = ''stored'' \<and>
       sr_UpdatedBy x = Some (user_ID (asn_User s))) \<and>
    mergedSettings vp d m1 = Inr out \<and>
    (\<forall>d' \<in> set all_sections. d' \<noteq> d \<longrightarrow> mergedSettings vp d' m1 = mergedSettings vp d' m)"
proof -
  let ?uid = "user_ID (asn_User s)"
  have "settings_inv (NewMemoryWithInitialAdmin t email h)"
    by (simp add: settings_inv_def NewMemoryWithInitialAdmin_def newMemoryWithUsersAndNext_def Let_def)
  then have inv: "settings_inv m" by (rule mem_reach_settings [OF assms(1)])
  obtain ss m0 where ss: "updates_loop vp d ups [] = Inr ss"
      "UpsertSystemSettings (clk 0) (sort_key ss_Key ss) ?uid m = (Inr (), m0)"
      "settings m1 = settings m0" "mergedSettings vp d m1 = Inr out"
    using settings_put_InrD [OF assms(7,3,4)] by blast
  have inv1: "settings_inv m1" using upsert_inv [OF inv, of "clk 0" "sort_key ss_Key ss" ?uid] ss(2,3)
    by (simp add: settings_inv_def)
  note trim = section_key_trim [OF assms(2)]
  have "mergedSettings vp d' m1 = mergedSettings vp d' m" if d': "d' \<in> set all_sections" "d' \<noteq> d" for d'
  proof -
    have "\<not> responseKeyForStored (ss_Key y) d' \<noteq> None"
      if "ss_Key y \<in> (\<lambda>s. TrimSpace (ss_Key s)) ` set (sort_key ss_Key ss)" for y
      using that update_key [OF ss(1)] trim section_key_foreign [OF assms(2) d'] by fastforce
    from upsert_other [OF ss(2) inv this] show ?thesis
      by (intro mergedSettings_cong) (simp only: ss(3))
  qed
  moreover have "\<exists>v j x. vp_Unmarshal vp raw = Inr v \<and> vp_Marshal vp v = Inr j \<and> x \<in> set out \<and>
       sr_Key x = TrimSpace k \<and> sr_ValueJSON x = j \<and> sr_Source x = ''stored'' \<and> sr_UpdatedBy x = Some ?uid"
    if kr: "(k, raw) \<in> set ups" for k raw
  proof -
    obtain v x dv where v: "vp_Unmarshal vp raw = Inr v" "x \<in> set ss"
        "ss_Key x = sd_Prefix d @ TrimSpace k" "vp_Marshal vp v = Inr (ss_ValueJSON x)"
        "map_of (sd_Defaults d) (TrimSpace k) = Some dv"
      using updates_loop_member [OF ss(1) kr] by blast
    have "map_of (settings m1) (ss_Key x) = Some (stamped (clk 0) ?uid x)"
      using upsert_sets [OF ss(2) update_keys_distinct [OF ss(1) assms(2,6)], of x] v(2,3) trim [OF v(5)] ss(3)
      by simp
    then obtain w where w: "stored_response d (TrimSpace k) w (stamped (clk 0) ?uid x) \<in> set out"
      using mergedSettings_row [OF ss(4) inv1, of "TrimSpace k"] v(3,5) by auto
    let ?y = "stored_response d (TrimSpace k) w (stamped (clk 0) ?uid x)"
    have "sr_Key ?y = TrimSpace k \<and> sr_ValueJSON ?y = ss_ValueJSON x \<and> sr_Source ?y = ''stored'' \<and>
        sr_UpdatedBy ?y = Some ?uid" using assms(5) by (simp add: stored_response_def)
    with v(1,4) w show ?thesis by blast
  qed
  ultimately show ?thesis using ss(4) by blast
qed

definition wit_values :: "string value_prims" where
  "wit_values = \<lparr> vp_Unmarshal = Inr, vp_Marshal = Inr, vp_Kind = (\<lambda>_. KindBool) \<rparr>"

definition wit_put :: request where
  "wit_put = \<lparr> Method = ''PUT'', Path = ''/api/v1/settings'', RemoteAddr = [], Headers = [], Cookies = [],
     Query = [], Context = Some \<lparr> asn_ID = 1, asn_User = hd (users (NewMemoryWithInitialAdmin 0 ''a@b'' ''h'')),
       asn_Claims = no_claims, asn_Token = [], asn_ExpiresAt = 9, asn_ActorType = ''user'', asn_APIToken = None \<rparr> \<rparr>"

definition wit_put_result :: "string settings_payload handler_result" where
  "wit_put_result = settings_requests wit_values general_section (\<lambda>_. 5) wit_put
     (Some [('' relay_auth_required'', ''false'')]) (NewMemoryWithInitialAdmin 0 ''a@b'' ''h'')"

lemma settings_put_get_witness:
  "\<exists>out x. fst wit_put_result = JSON StatusOK (SettingList out) \<and> x \<in> set out \<and>
     sr_Key x = ''relay_auth_required'' \<and> sr_ValueJSON x = ''false'' \<and>
     mergedSettings wit_values general_section (snd wit_put_result) = Inr out"
proof -
  have "case fst wit_put_result of JSON n p \<Rightarrow> n = 200 | Error n c msg \<Rightarrow> False" by code_simp
  then obtain p where "wit_put_result = (JSON StatusOK p, snd wit_put_result)" using JSON_result by blast
  moreover obtain out where "p = SettingList out" by (cases p) simp
  ultimately have r: "wit_put_result = (JSON StatusOK (SettingList out), snd wit_put_result)" by simp
  have m: "Method wit_put = MethodPut" "Context wit_put = Some (the (Context wit_put))"
    by (simp_all add: wit_put_def)
  have u: "0 < user_ID (asn_User (the (Context wit_put)))" by code_simp
  have trim: "TrimSpace '' relay_auth_required'' = ''relay_auth_required''" by code_simp
  have d: "distinct (map (\<lambda>u. TrimSpace (fst u)) [('' relay_auth_required'', ''false'')])" by simp
  have g: "general_section \<in> set all_sections" by (simp add: all_sections_def)
  note t = settings_put_get [OF mem_reach.start g m u d r [unfolded wit_put_result_def], folded wit_put_result_def]
  obtain x where "x \<in> set out" "sr_Key x = ''relay_auth_required''" "sr_ValueJSON x = ''false''"
    using t [THEN conjunct1] trim by (auto simp: wit_values_def)
  moreover have "fst wit_put_result = JSON StatusOK (SettingList out)" using r by (metis fst_conv)
  ultimately show ?thesis using t [THEN conjunct2, THEN conjunct1] by blast
qed

text \<open>
  Two keys that differ in blanks only are one setting, and \<^verbatim>\<open>range\<close> takes the pairs of a map in any
  order: which of the two values is stored is then left to chance.
\<close>

lemma settings_order_matters:
  "normalizeUpdates wit_values general_section [(''web_client_enabled'', ''true''), ('' web_client_enabled'', ''false'')] \<noteq>
   normalizeUpdates wit_values general_section [('' web_client_enabled'', ''false''), (''web_client_enabled'', ''true'')]"
  by code_simp

end
