(* ===== verification/Policy_Handler.thy ===== *)
theory Policy_Handler
  imports Handler_Core Memory_Policies Access_Evaluator Control_Role
begin

text \<open>
  The HTTP handlers of access rules, control roles and strategies
  (\<^verbatim>\<open>api/internal/policies/handler.go\<close>). Re-encoding a JSON object (\<^verbatim>\<open>json.Unmarshal\<close> into a
  \<^verbatim>\<open>map[string]any\<close> and \<^verbatim>\<open>json.Marshal\<close> of it) is the argument \<open>reencode\<close>, \<^term>\<open>None\<close> when the
  text is no object.
\<close>

section \<open>Requests\<close>

record CreateAccessRuleRequest =
  car_SubjectType :: string
  car_SubjectID :: int
  car_TargetType :: string
  car_TargetID :: int
  car_Effect :: string
  car_Priority :: int
  car_Enabled :: "bool option"

record CreateControlRoleRequest =
  ccr_Name :: string
  ccr_Description :: string
  ccr_Enabled :: "bool option"
  ccr_Permissions :: "ControlRolePermission list"

record CreateStrategyRequest =
  csr_Name :: string
  csr_Description :: string
  csr_Enabled :: "bool option"
  csr_SettingsJSON :: string
  csr_Assignments :: "StrategyAssignment list"

record StrategyAssignmentRequest =
  sar_TargetType :: string
  sar_TargetID :: int

record EvaluateAccessRequest =
  ear_User :: AccessUser
  ear_Target :: AccessDevice

datatype policy_payload =
    PRules "AccessRule list"
  | PRule AccessRule
  | PRoles "ControlRole list"
  | PRole ControlRole
  | PStrategies "Strategy list"
  | PStrategy Strategy
  | PDecision Decision
  | PDeleted

section \<open>Validation\<close>

definition validateAccessRule :: "CreateAccessRuleRequest \<Rightarrow> string option" where
  "validateAccessRule req =
     (if \<not> oneOf (car_SubjectType req) [''user'', ''user_group'']
      then Some ''subject_type must be user or user_group''
      else if car_SubjectID req \<le> 0 then Some ''subject_id must be positive''
      else if \<not> oneOf (car_TargetType req) [''device'', ''device_group'']
      then Some ''target_type must be device or device_group''
      else if car_TargetID req \<le> 0 then Some ''target_id must be positive''
      else if \<not> oneOf (car_Effect req) [''allow'', ''deny'']
      then Some ''effect must be allow or deny''
      else None)"

fun knownPermission_loop :: "string list \<Rightarrow> string \<Rightarrow> bool" where
  "knownPermission_loop [] key = False"
| "knownPermission_loop (known # rest) key = (known = key \<or> knownPermission_loop rest key)"

definition knownPermission :: "string \<Rightarrow> bool" where
  "knownPermission key = knownPermission_loop PermissionKeys key"

fun validatePermissions :: "ControlRolePermission list \<Rightarrow> string option" where
  "validatePermissions [] = None"
| "validatePermissions (p # ps) =
     (if \<not> knownPermission (crp_PermissionKey p)
      then Some (''unknown permission key: '' @ crp_PermissionKey p)
      else if \<not> oneOf (crp_Mode p) [UseClientSettings, Enable, Disable]
      then Some ''permission mode must be use_client_settings, enable, or disable''
      else validatePermissions ps)"

definition validateControlRole :: "CreateControlRoleRequest \<Rightarrow> string option" where
  "validateControlRole req =
     (if TrimSpace (ccr_Name req) = [] then Some ''name is required''
      else validatePermissions (ccr_Permissions req))"

definition validateStrategyAssignment :: "string \<Rightarrow> int \<Rightarrow> string option" where
  "validateStrategyAssignment targetType targetID =
     (if \<not> oneOf targetType [''device'', ''user'', ''device_group'']
      then Some ''assignment target_type must be device, user, or device_group''
      else if targetID \<le> 0 then Some ''assignment target_id must be positive''
      else None)"

fun validateAssignments :: "StrategyAssignment list \<Rightarrow> string option" where
  "validateAssignments [] = None"
| "validateAssignments (a # as) =
     (case validateStrategyAssignment (sa_TargetType a) (sa_TargetID a) of
        Some msg \<Rightarrow> Some msg
      | None \<Rightarrow> validateAssignments as)"

definition validateStrategy :: "CreateStrategyRequest \<Rightarrow> string \<Rightarrow> string option" where
  "validateStrategy req sj =
     (if TrimSpace (csr_Name req) = [] then Some ''name is required''
      else if sj = [] then Some ''settings_json is required''
      else validateAssignments (csr_Assignments req))"

definition normalizeSettings :: "(string \<Rightarrow> string option) \<Rightarrow> string \<Rightarrow> string + string" where
  "normalizeSettings reencode raw =
     (if raw = [] \<or> TrimSpace raw = ''null'' then Inr ''{}''
      else (case reencode raw of
          None \<Rightarrow> Inl ''settings_json must be a JSON object''
        | Some normalized \<Rightarrow> Inr normalized))"

definition normalizedPermissions :: "ControlRolePermission list \<Rightarrow> ControlRolePermission list" where
  "normalizedPermissions ps =
     map (\<lambda>p. \<lparr> crp_ID = 0, crp_RoleID = 0, crp_PermissionKey = TrimSpace (crp_PermissionKey p),
                crp_Mode = TrimSpace (crp_Mode p) \<rparr>) ps"

definition normalizedAssignments :: "StrategyAssignment list \<Rightarrow> StrategyAssignment list" where
  "normalizedAssignments as =
     map (\<lambda>a. \<lparr> sa_ID = 0, sa_StrategyID = 0, sa_TargetType = TrimSpace (sa_TargetType a),
                sa_TargetID = sa_TargetID a, sa_CreatedAt = zero_time \<rparr>) as"

definition normalizedPermissionKeys :: "ControlRolePermission list \<Rightarrow> string list" where
  "normalizedPermissionKeys ps = map crp_PermissionKey ps"

section \<open>Paths\<close>

definition parsePolicyItemPath :: "string \<Rightarrow> string \<Rightarrow> int option" where
  "parsePolicyItemPath path pre =
     (let rest = TrimPrefix path pre;
          parts = Split CHR ''/'' (TrimChar CHR ''/'' rest)
      in if length parts \<noteq> 1 then None
         else (case ParseInt (parts ! 0) of
             None \<Rightarrow> None
           | Some i \<Rightarrow> if i \<le> 0 then None else Some i))"

definition parseAccessRulePath :: "string \<Rightarrow> int option" where
  "parseAccessRulePath path = parsePolicyItemPath path ''/api/v1/access-rules/''"

definition parseStrategyPath :: "string \<Rightarrow> (int \<times> int option \<times> string) option" where
  "parseStrategyPath path =
     (let rest = TrimPrefix path ''/api/v1/strategies/'';
          parts = Split CHR ''/'' (TrimChar CHR ''/'' rest)
      in if length parts \<noteq> 1 \<and> length parts \<noteq> 2 \<and> length parts \<noteq> 3 then None
         else (case ParseInt (parts ! 0) of
             None \<Rightarrow> None
           | Some sid \<Rightarrow>
               if sid \<le> 0 then None
               else if length parts = 1 then Some (sid, None, [])
               else if parts ! 1 \<noteq> ''assignments'' then None
               else if length parts = 2 then Some (sid, None, ''assignments'')
               else (case ParseInt (parts ! 2) of
                   None \<Rightarrow> None
                 | Some aid \<Rightarrow> if aid \<le> 0 then None else Some (sid, Some aid, ''assignments''))))"

section \<open>Access rules\<close>

definition access_rule_of :: "CreateAccessRuleRequest \<Rightarrow> AccessRule" where
  "access_rule_of req =
     \<lparr> ar_ID = 0, ar_SubjectType = car_SubjectType req, ar_SubjectID = car_SubjectID req,
       ar_TargetType = car_TargetType req, ar_TargetID = car_TargetID req,
       ar_Effect = car_Effect req, ar_Priority = car_Priority req,
       ar_Enabled = defaultTrue (car_Enabled req), ar_CreatedAt = zero_time,
       ar_UpdatedAt = zero_time \<rparr>"

definition access_rule_metadata :: "AccessRule \<Rightarrow> metadata" where
  "access_rule_metadata rule = Some
     [(''subject_type'', AnyString (ar_SubjectType rule)), (''subject_id'', AnyInt (ar_SubjectID rule)),
      (''target_type'', AnyString (ar_TargetType rule)), (''target_id'', AnyInt (ar_TargetID rule)),
      (''effect'', AnyString (ar_Effect rule)), (''priority'', AnyInt (ar_Priority rule)),
      (''enabled'', AnyBool (ar_Enabled rule))]"

definition AccessRules ::
    "(nat \<Rightarrow> gotime) \<Rightarrow> request \<Rightarrow> CreateAccessRuleRequest option \<Rightarrow> Memory \<Rightarrow>
       policy_payload handler_result" where
  "AccessRules clk r body m =
     (if Method r = MethodGet
      then listed (ListAccessRules m) ''LIST_ACCESS_RULES_FAILED'' ''list access rules failed'' PRules m
      else if Method r = MethodPost
      then decoded body m (\<lambda>req.
             checked (validateAccessRule req) ''INVALID_ACCESS_RULE'' m
               (respond (CreateAccessRule (clk 0) (access_rule_of req) m)
                  (bad_request ''INVALID_ACCESS_RULE'')
                  (\<lambda>rule m1.
                     audited (clk 1) r
                       (event ''create_access_rule'' ''access_rule'' (FormatInt (ar_ID rule))
                          (access_rule_metadata rule))
                       ''failed to record access rule creation''
                       (JSON StatusCreated (PRule rule)) m1)))
      else (method_not_allowed, m))"

definition updateAccessRule ::
    "(nat \<Rightarrow> gotime) \<Rightarrow> request \<Rightarrow> int \<Rightarrow> CreateAccessRuleRequest option \<Rightarrow> Memory \<Rightarrow>
       policy_payload handler_result" where
  "updateAccessRule clk r i body m =
     decoded body m (\<lambda>req.
       checked (validateAccessRule req) ''INVALID_ACCESS_RULE'' m
         (respond (UpdateAccessRule (clk 0) i (access_rule_of req) m)
            (not_found_as ''ACCESS_RULE_NOT_FOUND'' ''access rule not found''
               (bad_request ''INVALID_ACCESS_RULE''))
            (\<lambda>rule m1.
               audited (clk 1) r
                 (event ''update_access_rule'' ''access_rule'' (FormatInt (ar_ID rule))
                    (access_rule_metadata rule))
                 ''failed to record access rule update'' (JSON StatusOK (PRule rule)) m1)))"

definition deleteAccessRule ::
    "(nat \<Rightarrow> gotime) \<Rightarrow> request \<Rightarrow> int \<Rightarrow> Memory \<Rightarrow> policy_payload handler_result" where
  "deleteAccessRule clk r i m =
     respond (DeleteAccessRule i m)
       (not_found_as ''ACCESS_RULE_NOT_FOUND'' ''access rule not found''
          (server_error ''DELETE_ACCESS_RULE_FAILED'' ''delete access rule failed''))
       (\<lambda>u m1.
          audited (clk 1) r (event ''delete_access_rule'' ''access_rule'' (FormatInt i) None)
            ''failed to record access rule deletion'' (JSON StatusOK PDeleted) m1)"

definition AccessRuleItem ::
    "(nat \<Rightarrow> gotime) \<Rightarrow> request \<Rightarrow> CreateAccessRuleRequest option \<Rightarrow> Memory \<Rightarrow>
       policy_payload handler_result" where
  "AccessRuleItem clk r body m =
     (case parseAccessRulePath (Path r) of
        None \<Rightarrow> (Error StatusNotFound ''NOT_FOUND'' ''access rule route not found'', m)
      | Some i \<Rightarrow>
          if Method r = MethodPut then updateAccessRule clk r i body m
          else if Method r = MethodDelete then deleteAccessRule clk r i m
          else (method_not_allowed, m))"

definition evaluator_rules :: "AccessRule list \<Rightarrow> Rule list" where
  "evaluator_rules rules =
     map (\<lambda>r. \<lparr> rule_ID = ar_ID r, rule_SubjectType = ar_SubjectType r,
                rule_SubjectID = ar_SubjectID r, rule_TargetType = ar_TargetType r,
                rule_TargetID = ar_TargetID r, rule_Effect = ar_Effect r,
                rule_Priority = ar_Priority r, rule_Enabled = ar_Enabled r \<rparr>) rules"

definition EvaluateAccess ::
    "request \<Rightarrow> EvaluateAccessRequest option \<Rightarrow> Memory \<Rightarrow> policy_payload handler_result" where
  "EvaluateAccess r body m =
     with_method MethodPost r m
       (decoded body m (\<lambda>req.
          if acu_ID (ear_User req) \<le> 0 \<or> acd_ID (ear_Target req) \<le> 0
          then (Error StatusBadRequest ''INVALID_ACCESS_EVALUATION''
                  ''user.id and target.id are required'', m)
          else
            let user = (if TrimSpace (acu_Status (ear_User req)) = []
                        then (ear_User req)\<lparr> acu_Status := ''active'' \<rparr> else ear_User req);
                target = (if TrimSpace (acd_Status (ear_Target req)) = []
                          then (ear_Target req)\<lparr> acd_Status := ''online'' \<rparr> else ear_Target req)
            in (case ListAccessRules m of
                  Inl e \<Rightarrow> (Error StatusInternalServerError ''LIST_ACCESS_RULES_FAILED''
                              ''list access rules failed'', m)
                | Inr rules \<Rightarrow>
                    (JSON StatusOK (PDecision (Evaluate (evaluator_rules rules) user target)), m))))"

section \<open>Control roles\<close>

definition control_role_of :: "CreateControlRoleRequest \<Rightarrow> ControlRole" where
  "control_role_of req =
     \<lparr> cr_ID = 0, cr_Name = TrimSpace (ccr_Name req), cr_Description = TrimSpace (ccr_Description req),
       cr_Enabled = defaultTrue (ccr_Enabled req),
       cr_Permissions = normalizedPermissions (ccr_Permissions req),
       cr_CreatedAt = zero_time, cr_UpdatedAt = zero_time \<rparr>"

definition ControlRoles ::
    "(nat \<Rightarrow> gotime) \<Rightarrow> request \<Rightarrow> CreateControlRoleRequest option \<Rightarrow> Memory \<Rightarrow>
       policy_payload handler_result" where
  "ControlRoles clk r body m =
     (if Method r = MethodGet
      then listed (ListControlRoles m) ''LIST_CONTROL_ROLES_FAILED'' ''list control roles failed'' PRoles m
      else if Method r = MethodPost
      then decoded body m (\<lambda>req.
             checked (validateControlRole req) ''INVALID_CONTROL_ROLE'' m
               (respond (CreateControlRole (clk 0) (control_role_of req) m)
                  (bad_request ''INVALID_CONTROL_ROLE'')
                  (\<lambda>role m1.
                     audited (clk 1) r
                       (event ''create_control_role'' ''control_role'' (FormatInt (cr_ID role))
                          (Some [(''name'', AnyString (cr_Name role)), (''enabled'', AnyBool (cr_Enabled role)),
                                 (''permission_count'', AnyInt (int (length (cr_Permissions role)))),
                                 (''default_sensitive'',
                                    AnyString ''terminal,tcp_tunnel,remote_config_modification''),
                                 (''created_permission'',
                                    AnyStrings (normalizedPermissionKeys (cr_Permissions role)))]))
                       ''failed to record control role creation''
                       (JSON StatusCreated (PRole role)) m1)))
      else (method_not_allowed, m))"

definition updateControlRole ::
    "(nat \<Rightarrow> gotime) \<Rightarrow> request \<Rightarrow> int \<Rightarrow> CreateControlRoleRequest option \<Rightarrow> Memory \<Rightarrow>
       policy_payload handler_result" where
  "updateControlRole clk r i body m =
     decoded body m (\<lambda>req.
       checked (validateControlRole req) ''INVALID_CONTROL_ROLE'' m
         (respond (UpdateControlRole (clk 0) i (control_role_of req) m)
            (not_found_as ''CONTROL_ROLE_NOT_FOUND'' ''control role not found''
               (bad_request ''INVALID_CONTROL_ROLE''))
            (\<lambda>role m1.
               audited (clk 1) r
                 (event ''update_control_role'' ''control_role'' (FormatInt (cr_ID role))
                    (Some [(''name'', AnyString (cr_Name role)), (''enabled'', AnyBool (cr_Enabled role)),
                           (''permission_count'', AnyInt (int (length (cr_Permissions role)))),
                           (''permissions'', AnyStrings (normalizedPermissionKeys (cr_Permissions role)))]))
                 ''failed to record control role update'' (JSON StatusOK (PRole role)) m1)))"

definition deleteControlRole ::
    "(nat \<Rightarrow> gotime) \<Rightarrow> request \<Rightarrow> int \<Rightarrow> Memory \<Rightarrow> policy_payload handler_result" where
  "deleteControlRole clk r i m =
     respond (DeleteControlRole i m)
       (not_found_as ''CONTROL_ROLE_NOT_FOUND'' ''control role not found''
          (server_error ''DELETE_CONTROL_ROLE_FAILED'' ''delete control role failed''))
       (\<lambda>u m1.
          audited (clk 1) r (event ''delete_control_role'' ''control_role'' (FormatInt i) None)
            ''failed to record control role deletion'' (JSON StatusOK PDeleted) m1)"

definition ControlRoleItem ::
    "(nat \<Rightarrow> gotime) \<Rightarrow> request \<Rightarrow> CreateControlRoleRequest option \<Rightarrow> Memory \<Rightarrow>
       policy_payload handler_result" where
  "ControlRoleItem clk r body m =
     (case parsePolicyItemPath (Path r) ''/api/v1/control-roles/'' of
        None \<Rightarrow> (Error StatusNotFound ''NOT_FOUND'' ''control role route not found'', m)
      | Some i \<Rightarrow>
          if Method r = MethodPut then updateControlRole clk r i body m
          else if Method r = MethodDelete then deleteControlRole clk r i m
          else (method_not_allowed, m))"

section \<open>Strategies\<close>

definition strategy_of :: "CreateStrategyRequest \<Rightarrow> string \<Rightarrow> Strategy" where
  "strategy_of req sj =
     \<lparr> st_ID = 0, st_Name = TrimSpace (csr_Name req), st_Description = TrimSpace (csr_Description req),
       st_Enabled = defaultTrue (csr_Enabled req), st_SettingsJSON = sj,
       st_Assignments = normalizedAssignments (csr_Assignments req),
       st_CreatedAt = zero_time, st_UpdatedAt = zero_time \<rparr>"

definition strategy_metadata :: "Strategy \<Rightarrow> metadata" where
  "strategy_metadata s = Some
     [(''name'', AnyString (st_Name s)), (''enabled'', AnyBool (st_Enabled s)),
      (''assignment_count'', AnyInt (int (length (st_Assignments s))))]"

text \<open>The settings are normalised before anything else is checked.\<close>

definition with_settings ::
    "string + string \<Rightarrow> Memory \<Rightarrow> (string \<Rightarrow> 'a handler_result) \<Rightarrow> 'a handler_result" where
  "with_settings res m k =
     (case res of Inl msg \<Rightarrow> (Error StatusBadRequest ''INVALID_STRATEGY'' msg, m) | Inr sj \<Rightarrow> k sj)"

definition Strategies ::
    "(string \<Rightarrow> string option) \<Rightarrow> (nat \<Rightarrow> gotime) \<Rightarrow> request \<Rightarrow> CreateStrategyRequest option \<Rightarrow>
       Memory \<Rightarrow> policy_payload handler_result" where
  "Strategies reencode clk r body m =
     (if Method r = MethodGet
      then listed (ListStrategies m) ''LIST_STRATEGIES_FAILED'' ''list strategies failed'' PStrategies m
      else if Method r = MethodPost
      then decoded body m (\<lambda>req.
             with_settings (normalizeSettings reencode (csr_SettingsJSON req)) m (\<lambda>sj.
               checked (validateStrategy req sj) ''INVALID_STRATEGY'' m
                 (respond (CreateStrategy (clk 0) (strategy_of req sj) m)
                    (bad_request ''INVALID_STRATEGY'')
                    (\<lambda>strategy m1.
                       audited (clk 1) r
                         (event ''create_strategy'' ''strategy'' (FormatInt (st_ID strategy))
                            (strategy_metadata strategy))
                         ''failed to record strategy creation''
                         (JSON StatusCreated (PStrategy strategy)) m1))))
      else (method_not_allowed, m))"

definition updateStrategy ::
    "(string \<Rightarrow> string option) \<Rightarrow> (nat \<Rightarrow> gotime) \<Rightarrow> request \<Rightarrow> int \<Rightarrow> CreateStrategyRequest option \<Rightarrow>
       Memory \<Rightarrow> policy_payload handler_result" where
  "updateStrategy reencode clk r i body m =
     decoded body m (\<lambda>req.
       with_settings (normalizeSettings reencode (csr_SettingsJSON req)) m (\<lambda>sj.
         checked (validateStrategy req sj) ''INVALID_STRATEGY'' m
           (respond (UpdateStrategy (clk 0) i (strategy_of req sj) m)
              (not_found_as ''STRATEGY_NOT_FOUND'' ''strategy not found'' (bad_request ''INVALID_STRATEGY''))
              (\<lambda>strategy m1.
                 audited (clk 1) r
                   (event ''update_strategy'' ''strategy'' (FormatInt (st_ID strategy))
                      (strategy_metadata strategy))
                   ''failed to record strategy update'' (JSON StatusOK (PStrategy strategy)) m1))))"

definition addStrategyAssignment ::
    "(nat \<Rightarrow> gotime) \<Rightarrow> request \<Rightarrow> int \<Rightarrow> StrategyAssignmentRequest option \<Rightarrow> Memory \<Rightarrow>
       policy_payload handler_result" where
  "addStrategyAssignment clk r i body m =
     decoded body m (\<lambda>req.
       checked (validateStrategyAssignment (sar_TargetType req) (sar_TargetID req))
         ''INVALID_STRATEGY_ASSIGNMENT'' m
         (respond (AddStrategyAssignment (clk 0) i
              \<lparr> sa_ID = 0, sa_StrategyID = 0, sa_TargetType = sar_TargetType req,
                sa_TargetID = sar_TargetID req, sa_CreatedAt = zero_time \<rparr> m)
            (not_found_as ''STRATEGY_NOT_FOUND'' ''strategy not found''
               (bad_request ''INVALID_STRATEGY_ASSIGNMENT''))
            (\<lambda>strategy m1.
               audited (clk 1) r
                 (event ''assign_strategy'' ''strategy'' (FormatInt (st_ID strategy))
                    (Some [(''target_type'', AnyString (sar_TargetType req)),
                           (''target_id'', AnyInt (sar_TargetID req)),
                           (''assignment_count'', AnyInt (int (length (st_Assignments strategy))))]))
                 ''failed to record strategy assignment''
                 (JSON StatusCreated (PStrategy strategy)) m1)))"

definition deleteStrategyAssignment ::
    "(nat \<Rightarrow> gotime) \<Rightarrow> request \<Rightarrow> int \<Rightarrow> int \<Rightarrow> Memory \<Rightarrow> policy_payload handler_result" where
  "deleteStrategyAssignment clk r i aid m =
     respond (RemoveStrategyAssignment i aid m)
       (not_found_as ''STRATEGY_ASSIGNMENT_NOT_FOUND'' ''strategy assignment not found''
          (server_error ''DELETE_STRATEGY_ASSIGNMENT_FAILED'' ''delete strategy assignment failed''))
       (\<lambda>strategy m1.
          audited (clk 1) r
            (event ''delete_strategy_assignment'' ''strategy'' (FormatInt (st_ID strategy))
               (Some [(''assignment_id'', AnyInt aid),
                      (''assignment_count'', AnyInt (int (length (st_Assignments strategy))))]))
            ''failed to record strategy assignment deletion''
            (JSON StatusOK (PStrategy strategy)) m1)"

definition deleteStrategy ::
    "(nat \<Rightarrow> gotime) \<Rightarrow> request \<Rightarrow> int \<Rightarrow> Memory \<Rightarrow> policy_payload handler_result" where
  "deleteStrategy clk r i m =
     respond (DeleteStrategy i m)
       (not_found_as ''STRATEGY_NOT_FOUND'' ''strategy not found''
          (server_error ''DELETE_STRATEGY_FAILED'' ''delete strategy failed''))
       (\<lambda>u m1.
          audited (clk 1) r (event ''delete_strategy'' ''strategy'' (FormatInt i) None)
            ''failed to record strategy deletion'' (JSON StatusOK PDeleted) m1)"

text \<open>\<open>body\<close> and \<open>assign\<close> are the decodings of the body at the two request types.\<close>

definition StrategyItem ::
    "(string \<Rightarrow> string option) \<Rightarrow> (nat \<Rightarrow> gotime) \<Rightarrow> request \<Rightarrow> CreateStrategyRequest option \<Rightarrow>
       StrategyAssignmentRequest option \<Rightarrow> Memory \<Rightarrow> policy_payload handler_result" where
  "StrategyItem reencode clk r body assign m =
     (case parseStrategyPath (Path r) of
        None \<Rightarrow> (Error StatusNotFound ''NOT_FOUND'' ''strategy route not found'', m)
      | Some (i, aid, action) \<Rightarrow>
          if action = ''assignments''
          then (case aid of
              None \<Rightarrow>
                if Method r = MethodPost then addStrategyAssignment clk r i assign m
                else (method_not_allowed, m)
            | Some a \<Rightarrow>
                if Method r = MethodDelete then deleteStrategyAssignment clk r i a m
                else (method_not_allowed, m))
          else if action \<noteq> []
          then (Error StatusNotFound ''NOT_FOUND'' ''strategy route not found'', m)
          else if Method r = MethodPut then updateStrategy reencode clk r i body m
          else if Method r = MethodDelete then deleteStrategy clk r i m
          else (method_not_allowed, m))"

section \<open>Facts\<close>

lemma policy_ops_clean [simp]:
  "clean_op m (CreateAccessRule now rule m)" "clean_op m (UpdateAccessRule now i rule m)"
  "clean_op m (DeleteAccessRule i m)"
  "clean_op m (CreateControlRole now role m)" "clean_op m (UpdateControlRole now i role m)"
  "clean_op m (DeleteControlRole i m)"
  "clean_op m (CreateStrategy now s m)" "clean_op m (UpdateStrategy now i s m)"
  "clean_op m (DeleteStrategy i m)" "clean_op m (AddStrategyAssignment now i a m)"
  "clean_op m (RemoveStrategyAssignment i j m)"
  by (simp_all add: clean_op_def CreateAccessRule_def UpdateAccessRule_def DeleteAccessRule_def
      CreateControlRole_def UpdateControlRole_def DeleteControlRole_def CreateStrategy_def
      UpdateStrategy_def DeleteStrategy_def AddStrategyAssignment_def RemoveStrategyAssignment_def
      update_row_def Let_def case_prod_beta split: option.split)

lemma accounted_with_settings [intro]:
  "(\<And>sj. accounted r m (k sj)) \<Longrightarrow> accounted r m (with_settings res m k)"
  by (cases res) (auto simp: with_settings_def)

lemmas policy_handler_defs =
  AccessRules_def updateAccessRule_def deleteAccessRule_def AccessRuleItem_def
  ControlRoles_def updateControlRole_def deleteControlRole_def ControlRoleItem_def
  Strategies_def updateStrategy_def addStrategyAssignment_def deleteStrategyAssignment_def
  deleteStrategy_def

lemma policy_parts_accounted:
  "accounted r m (updateAccessRule clk r i arb m)" "accounted r m (deleteAccessRule clk r i m)"
  "accounted r m (updateControlRole clk r i crb m)" "accounted r m (deleteControlRole clk r i m)"
  "accounted r m (updateStrategy f clk r i stb m)" "accounted r m (deleteStrategy clk r i m)"
  "accounted r m (addStrategyAssignment clk r i sab m)"
  "accounted r m (deleteStrategyAssignment clk r i j m)"
  unfolding policy_handler_defs
  by (intro accounted_intros accounted_with_settings policy_ops_clean; simp)+

section \<open>Properties\<close>

text \<open>
  Every change of an access rule, a control role or a strategy over HTTP is on record:
  the policy handlers answer an error without changing anything, or make the change and add
  exactly one audit row naming the session's user and the caller's address.
\<close>

lemma policy_handlers_accounted:
  "accounted r m (AccessRules clk r arb m) \<and> accounted r m (AccessRuleItem clk r arb m) \<and>
   accounted r m (ControlRoles clk r crb m) \<and> accounted r m (ControlRoleItem clk r crb m) \<and>
   accounted r m (Strategies f clk r stb m) \<and> accounted r m (StrategyItem f clk r stb sab m) \<and>
   snd (EvaluateAccess r eab m) = m"
proof (intro conjI)
  show "accounted r m (AccessRules clk r arb m)" "accounted r m (ControlRoles clk r crb m)"
    "accounted r m (Strategies f clk r stb m)"
    unfolding policy_handler_defs
    by (intro accounted_intros accounted_with_settings policy_ops_clean; simp)+
  show "accounted r m (AccessRuleItem clk r arb m)" "accounted r m (ControlRoleItem clk r crb m)"
    "accounted r m (StrategyItem f clk r stb sab m)"
    unfolding AccessRuleItem_def ControlRoleItem_def StrategyItem_def
    by (auto split: option.split prod.split intro!: accounted_if policy_parts_accounted)
  show "snd (EvaluateAccess r eab m) = m"
    by (simp add: EvaluateAccess_def with_method_def decoded_def Let_def ListAccessRules_def
        split: option.split)
qed

definition rule_valid :: "AccessRule \<Rightarrow> bool" where
  "rule_valid r \<longleftrightarrow>
     ar_SubjectType r \<in> {''user'', ''user_group''} \<and> 0 < ar_SubjectID r \<and>
     ar_TargetType r \<in> {''device'', ''device_group''} \<and> 0 < ar_TargetID r \<and>
     ar_Effect r \<in> {''allow'', ''deny''}"

definition rules_valid :: "Memory \<Rightarrow> bool" where
  "rules_valid m \<longleftrightarrow> (\<forall>r \<in> set (accessRules m). rule_valid r)"

lemma validateAccessRule_valid:
  "validateAccessRule req = None \<Longrightarrow> rule_valid (access_rule_of req)"
  by (auto simp: validateAccessRule_def rule_valid_def access_rule_of_def split: if_splits)

lemma rule_valid_stamp [simp]:
  "rule_valid (r\<lparr> ar_ID := i, ar_CreatedAt := t, ar_UpdatedAt := u \<rparr>) = rule_valid r"
  by (simp add: rule_valid_def)

lemma rules_valid_ops:
  "rules_valid m \<Longrightarrow> rule_valid rule \<Longrightarrow> rules_valid (snd (CreateAccessRule now rule m))"
  "rules_valid m \<Longrightarrow> rule_valid rule \<Longrightarrow> rules_valid (snd (UpdateAccessRule now i rule m))"
  "rules_valid m \<Longrightarrow> rules_valid (snd (DeleteAccessRule i m))"
proof -
  assume m: "rules_valid m"
  show "rule_valid rule \<Longrightarrow> rules_valid (snd (CreateAccessRule now rule m))"
    using m by (auto simp: CreateAccessRule_def rules_valid_def Let_def)
  have "rule_valid rule \<Longrightarrow> \<forall>r \<in> set (update_first (\<lambda>r. ar_ID r = i)
      (\<lambda>r. rule\<lparr> ar_ID := i, ar_CreatedAt := ar_CreatedAt r, ar_UpdatedAt := now \<rparr>) (accessRules m)). rule_valid r"
    by (rule ball_update_first) (use m in \<open>auto simp: rules_valid_def\<close>)
  then show "rule_valid rule \<Longrightarrow> rules_valid (snd (UpdateAccessRule now i rule m))"
    using m by (auto simp: UpdateAccessRule_def update_row_def rules_valid_def split: option.split)
  show "rules_valid (snd (DeleteAccessRule i m))"
    using m set_delete_first [of "\<lambda>r. ar_ID r = i" "accessRules m"]
    by (auto simp: DeleteAccessRule_def delete_row_def rules_valid_def)
qed

lemma rules_valid_audited [simp]:
  "rules_valid (snd (audited now r e failure ok m)) = rules_valid m"
  by (simp add: audited_eq rules_valid_def)

lemma rules_valid_respond:
  "rules_valid (snd res) \<Longrightarrow> (\<And>x m1. rules_valid m1 \<Longrightarrow> rules_valid (snd (k x m1))) \<Longrightarrow>
     rules_valid (snd (respond res err k))"
  by (auto simp: respond_def split: prod.split sum.split)

lemma updateAccessRule_valid: "rules_valid m \<Longrightarrow> rules_valid (snd (updateAccessRule clk r i body m))"
  by (auto simp: updateAccessRule_def decoded_def checked_def split: option.split
      intro!: rules_valid_respond rules_valid_ops validateAccessRule_valid)

lemma deleteAccessRule_valid: "rules_valid m \<Longrightarrow> rules_valid (snd (deleteAccessRule clk r i m))"
  by (auto simp: deleteAccessRule_def intro!: rules_valid_respond rules_valid_ops)

text \<open>
  Only well-formed access rules get in: if every stored rule names a user or user group,
  a device or device group, positive identifiers and the effect allow or deny, then so does
  every stored rule after any request to the access-rule handlers.
\<close>

lemma access_rules_stay_valid:
  assumes "rules_valid m"
  shows "rules_valid (snd (AccessRules clk r body m)) \<and> rules_valid (snd (AccessRuleItem clk r body m))"
proof
  show "rules_valid (snd (AccessRules clk r body m))" using assms
    by (auto simp: AccessRules_def decoded_def checked_def listed_def ListAccessRules_def
        split: option.split intro!: rules_valid_respond rules_valid_ops validateAccessRule_valid)
  show "rules_valid (snd (AccessRuleItem clk r body m))" using assms
    by (auto simp: AccessRuleItem_def updateAccessRule_valid deleteAccessRule_valid split: option.split)
qed

definition wit_policy_request :: request where
  "wit_policy_request = \<lparr> Method = ''POST'', Path = ''/api/v1/access-rules'', RemoteAddr = [],
     Headers = [], Cookies = [], Query = [], Context = None \<rparr>"

definition wit_rule_body :: CreateAccessRuleRequest where
  "wit_rule_body = \<lparr> car_SubjectType = ''user'', car_SubjectID = 1, car_TargetType = ''device'',
     car_TargetID = 1, car_Effect = ''allow'', car_Priority = 0, car_Enabled = None \<rparr>"

lemma access_rules_stay_valid_witness:
  "rules_valid (snd (AccessRules (\<lambda>_. 1) wit_policy_request (Some wit_rule_body) (NewMemory 0)))"
  by (rule conjunct1 [OF access_rules_stay_valid])
     (simp add: rules_valid_def NewMemory_def NewMemoryWithInitialAdmin_def
       newMemoryWithUsersAndNext_def Let_def)


definition wit_stored_rule :: AccessRule where
  "wit_stored_rule = access_rule_of wit_rule_body"

definition wit_evaluation :: EvaluateAccessRequest where
  "wit_evaluation = \<lparr> ear_User = \<lparr> acu_ID = 1, acu_Status = [], acu_GroupIDs = [] \<rparr>,
     ear_Target = \<lparr> acd_ID = 1, acd_Status = [], acd_GroupIDs = [] \<rparr> \<rparr>"


end
