(* ===== verification/Build_Spec.thy ===== *)
theory Build_Spec
  imports Go_Prelude
begin

text \<open>
  Build specifications of the custom client and the registry of runners
  (\<^verbatim>\<open>api/internal/builder/buildspec.go\<close>, \<^verbatim>\<open>api/internal/builder/job.go\<close>). A runner is a function
  from the specification and the job to an artifact or an error; clock readings are arguments.
\<close>

section \<open>Specifications\<close>

record AppSpec =
  app_Name :: string
  app_Vendor :: string
  app_BundleID :: string
  app_WindowsProductName :: string
  app_Description :: string

record BrandingSpec =
  br_LogoPNG :: string
  br_IconICO :: string
  br_IconICNS :: string
  br_AndroidAdaptiveIcon :: string
  br_IOSAppIcon :: string
  br_TrayIcon :: string
  br_InstallerBanner :: string

record ServerSpec =
  srv_IDServer :: string
  srv_RelayServer :: string
  srv_RelayName :: string
  srv_APIServer :: string
  srv_Key :: string
  srv_WebSocket :: bool
  srv_RelayGrantRequired :: "bool option"

record PolicySpec =
  ps_Profile :: string
  ps_OverrideSettings :: "(string \<rightharpoonup> string) option"
  ps_DefaultSettings :: "(string \<rightharpoonup> string) option"

record PlatformSpec =
  pf_WindowsX64 :: bool
  pf_MacOSX64 :: bool
  pf_MacOSARM64 :: bool
  pf_AndroidARM64 :: bool
  pf_IOSARM64 :: bool

record SigningSpec =
  sig_Windows :: string
  sig_MacOS :: string
  sig_Android :: string
  sig_IOS :: string

record SourceSpec =
  src_RustDeskRef :: string
  src_RustDeskTag :: string
  src_OpenDeskPatchset :: string

record BuildSpec =
  spec_App :: AppSpec
  spec_Branding :: BrandingSpec
  spec_Server :: ServerSpec
  spec_Policy :: PolicySpec
  spec_Platforms :: PlatformSpec
  spec_Signing :: SigningSpec
  spec_Source :: SourceSpec

section \<open>Bundle identifiers\<close>

definition letter :: "char \<Rightarrow> bool" where
  "letter c \<longleftrightarrow> (65 \<le> byte c \<and> byte c \<le> 90) \<or> (97 \<le> byte c \<and> byte c \<le> 122)"

definition alnum :: "char \<Rightarrow> bool" where
  "alnum c \<longleftrightarrow> letter c \<or> digit_char c"

definition bundle_head :: "string \<Rightarrow> bool" where
  "bundle_head p \<longleftrightarrow> p \<noteq> [] \<and> letter (hd p) \<and> list_all alnum (tl p)"

definition bundle_segment :: "string \<Rightarrow> bool" where
  "bundle_segment p \<longleftrightarrow> p \<noteq> [] \<and> letter (hd p) \<and> list_all (\<lambda>c. alnum c \<or> c = CHR ''-'') (tl p)"

text \<open>
  The pattern \<^verbatim>\<open>^[A-Za-z][A-Za-z0-9]*(\.[A-Za-z][A-Za-z0-9-]*)+$\<close>: none of its classes contains
  a dot, so a match cuts the string at its dots.
\<close>

definition bundleIDPattern :: "string \<Rightarrow> bool" where
  "bundleIDPattern s =
     (case Split CHR ''.'' s of [] \<Rightarrow> False
      | p # ps \<Rightarrow> bundle_head p \<and> ps \<noteq> [] \<and> list_all bundle_segment ps)"

section \<open>Validation\<close>

definition RelayGrantRequired :: "BuildSpec \<Rightarrow> bool" where
  "RelayGrantRequired s =
     (case srv_RelayGrantRequired (spec_Server s) of None \<Rightarrow> True | Some b \<Rightarrow> b)"

definition Ref :: "SourceSpec \<Rightarrow> string" where
  "Ref s = (if src_RustDeskRef s \<noteq> [] then src_RustDeskRef s else src_RustDeskTag s)"

definition Any :: "PlatformSpec \<Rightarrow> bool" where
  "Any p \<longleftrightarrow> pf_WindowsX64 p \<or> pf_MacOSX64 p \<or> pf_MacOSARM64 p \<or> pf_AndroidARM64 p \<or> pf_IOSARM64 p"

definition Ordered :: "PlatformSpec \<Rightarrow> string list" where
  "Ordered p =
     (if pf_WindowsX64 p then [''windows_x64''] else []) @
     (if pf_MacOSX64 p then [''macos_x64''] else []) @
     (if pf_MacOSARM64 p then [''macos_arm64''] else []) @
     (if pf_AndroidARM64 p then [''android_arm64''] else []) @
     (if pf_IOSARM64 p then [''ios_arm64''] else [])"

definition spec_Validate :: "BuildSpec \<Rightarrow> string option" where
  "spec_Validate s =
     (let app = spec_App s; server = spec_Server s
      in if app_Name app = [] then Some ''app.name is required''
         else if app_Name app = ''RustDesk'' then Some ''app.name must not use RustDesk trademark''
         else if \<not> bundleIDPattern (app_BundleID app)
         then Some ''app.bundle_id must be a valid reverse-DNS identifier''
         else if srv_IDServer server = [] \<or> srv_RelayServer server = [] \<or> srv_APIServer server = [] \<or>
                 srv_Key server = []
         then Some ''server id_server, relay_server, api_server, and key are required''
         else if RelayGrantRequired s \<and> srv_RelayName server = []
         then Some ''server.relay_name is required when relay grants are required''
         else if \<not> Any (spec_Platforms s) then Some ''at least one platform must be enabled''
         else if pf_IOSARM64 (spec_Platforms s) \<and> sig_IOS (spec_Signing s) = []
         then Some ''ios signing mode is required when ios_arm64 is enabled''
         else None)"

section \<open>Runner registry\<close>

record RegistryJob =
  rj_ID :: int
  rj_ProfileID :: int
  rj_Platform :: string
  rj_Status :: string
  rj_Runner :: string
  rj_LogPath :: string
  rj_ErrorMessage :: string
  rj_CreatedAt :: gotime
  rj_StartedAt :: "gotime option"
  rj_FinishedAt :: "gotime option"

record Artifact =
  art_Platform :: string
  art_Filename :: string
  art_LocalPath :: string
  art_SHA256 :: string
  art_SizeBytes :: int

record Runner =
  run_Platform :: string
  run_Run :: "BuildSpec \<Rightarrow> RegistryJob \<Rightarrow> string + Artifact"

type_synonym RunnerRegistry = "string \<rightharpoonup> Runner"

definition NewRunnerRegistry :: "Runner list \<Rightarrow> RunnerRegistry" where
  "NewRunnerRegistry runners = foldl (\<lambda>registry runner. registry(run_Platform runner \<mapsto> runner)) Map.empty runners"

definition registry_Run ::
    "gotime \<Rightarrow> gotime \<Rightarrow> RunnerRegistry \<Rightarrow> BuildSpec \<Rightarrow> RegistryJob \<Rightarrow> RegistryJob \<times> Artifact option" where
  "registry_Run now finished registry spec job =
     (let started = job\<lparr> rj_StartedAt := Some now, rj_Status := ''running'' \<rparr>
      in case registry (rj_Platform job) of
           None \<Rightarrow>
             (started\<lparr> rj_Status := ''failed'', rj_FinishedAt := Some finished,
                       rj_ErrorMessage := ''runner not configured for platform: '' @ rj_Platform job \<rparr>, None)
         | Some runner \<Rightarrow>
             (case run_Run runner spec started of
                Inl e \<Rightarrow> (started\<lparr> rj_FinishedAt := Some finished, rj_Status := ''failed'',
                                 rj_ErrorMessage := e \<rparr>, None)
              | Inr artifact \<Rightarrow>
                  (started\<lparr> rj_FinishedAt := Some finished, rj_Status := ''succeeded'' \<rparr>, Some artifact)))"

definition NotConfiguredRunner :: "string \<Rightarrow> Runner" where
  "NotConfiguredRunner name =
     \<lparr> run_Platform = name, run_Run = (\<lambda>spec job. Inl (''runner not configured for platform: '' @ name)) \<rparr>"

section \<open>Facts\<close>

lemma if_single_Nil: "(if b then [x] else []) = [] \<longleftrightarrow> \<not> b"
  by simp

lemma Any_Ordered: "Any p \<longleftrightarrow> Ordered p \<noteq> []"
  unfolding Any_def Ordered_def append_is_Nil_conv if_single_Nil by blast

text \<open>The strings the pattern describes: a head followed by one or more dotted segments.\<close>

lemma alnum_not_dot: "\<not> alnum CHR ''.''"
  by (simp add: alnum_def letter_def digit_char_def)

lemma bundle_no_dot: "bundle_head p \<or> bundle_segment p \<Longrightarrow> CHR ''.'' \<notin> set p"
proof -
  assume p: "bundle_head p \<or> bundle_segment p"
  then obtain c t where c: "p = c # t" by (cases p) (auto simp: bundle_head_def bundle_segment_def)
  with p have "alnum c" "\<forall>d \<in> set t. alnum d \<or> d = CHR ''-''"
    by (auto simp: bundle_head_def bundle_segment_def list_all_iff alnum_def)
  then show ?thesis using c by (auto simp: alnum_not_dot)
qed

lemma Split_dotted:
  "CHR ''.'' \<notin> set p \<Longrightarrow> \<forall>q \<in> set ps. CHR ''.'' \<notin> set q \<Longrightarrow>
     Split CHR ''.'' (p @ concat (map (\<lambda>q. CHR ''.'' # q) ps)) = p # ps"
  by (induction ps arbitrary: p) (simp_all add: Split_single Split_append)

lemma Split_dotted_inverse:
  "Split CHR ''.'' s = p # ps \<Longrightarrow> s = p @ concat (map (\<lambda>q. CHR ''.'' # q) ps)"
  by (induction s arbitrary: p ps) (fastforce split: list.splits if_splits)+

lemma bundleIDPattern_iff:
  "bundleIDPattern s \<longleftrightarrow>
     (\<exists>p ps. s = p @ concat (map (\<lambda>q. CHR ''.'' # q) ps) \<and> ps \<noteq> [] \<and> bundle_head p \<and>
             (\<forall>q \<in> set ps. bundle_segment q))"
proof
  assume "bundleIDPattern s"
  then show "\<exists>p ps. s = p @ concat (map (\<lambda>q. CHR ''.'' # q) ps) \<and> ps \<noteq> [] \<and> bundle_head p \<and>
             (\<forall>q \<in> set ps. bundle_segment q)"
    using Split_dotted_inverse
    by (auto simp: bundleIDPattern_def list_all_iff split: list.splits) blast
next
  assume "\<exists>p ps. s = p @ concat (map (\<lambda>q. CHR ''.'' # q) ps) \<and> ps \<noteq> [] \<and> bundle_head p \<and>
             (\<forall>q \<in> set ps. bundle_segment q)"
  then show "bundleIDPattern s"
    using Split_dotted bundle_no_dot by (auto simp: bundleIDPattern_def list_all_iff)
qed

text \<open>
  A run of the registry always ends the job: it succeeds exactly when the runner of its platform,
  the last one registered for it, produces an artifact.
\<close>

lemma NewRunnerRegistry_last:
  "NewRunnerRegistry (rs @ [r]) = (NewRunnerRegistry rs)(run_Platform r \<mapsto> r)"
  by (simp add: NewRunnerRegistry_def)

lemma registry_Run_ends:
  assumes "registry_Run now finished registry spec job = (job', artifact)"
  shows "rj_FinishedAt job' = Some finished \<and> rj_ID job' = rj_ID job \<and>
         (rj_Status job' = ''succeeded'' \<and> artifact \<noteq> None \<or>
          rj_Status job' = ''failed'' \<and> artifact = None)"
  using assms by (auto simp: registry_Run_def Let_def split: option.splits sum.splits)

end
