(* ===== verification/Paths.thy ===== *)
theory Paths
  imports Go_Prelude
begin

text \<open>
  The part of Go's \<^verbatim>\<open>path/filepath\<close> (Unix rules) that asset storage and the build worker use:
  \<^verbatim>\<open>Clean\<close>, \<^verbatim>\<open>Join\<close>, \<^verbatim>\<open>Abs\<close>, \<^verbatim>\<open>Base\<close> and \<^verbatim>\<open>Ext\<close>, all purely lexical. The working directory
  \<^verbatim>\<open>Abs\<close> reads is an argument. The lemmas describe clean absolute paths by their components.
\<close>

section \<open>Definitions\<close>

text \<open>The files of the machine: contents by path.\<close>

type_synonym files = "string \<rightharpoonup> string"

abbreviation slash :: char where "slash \<equiv> CHR ''/''"
abbreviation dot :: string where "dot \<equiv> ''.''"
abbreviation dotdot :: string where "dotdot \<equiv> ''..''"

text \<open>\<^verbatim>\<open>strings.Join\<close> with a slash.\<close>

fun join_slash :: "string list \<Rightarrow> string" where
  "join_slash [] = []"
| "join_slash [p] = p"
| "join_slash (p # q # ps) = p @ slash # join_slash (q # ps)"

text \<open>
  One component of a path against the components kept so far, the last one first: empty
  components and dots vanish, two dots remove the component in front of them, and cannot
  leave the root of an absolute path.
\<close>

definition clean_step :: "bool \<Rightarrow> string list \<Rightarrow> string \<Rightarrow> string list" where
  "clean_step rooted kept p =
     (if p = [] \<or> p = dot then kept
      else if p = dotdot
      then (case kept of
              [] \<Rightarrow> if rooted then [] else [dotdot]
            | q # qs \<Rightarrow> if q = dotdot then dotdot # kept else qs)
      else p # kept)"

definition clean_parts :: "bool \<Rightarrow> string list \<Rightarrow> string list" where
  "clean_parts rooted ps = rev (foldl (clean_step rooted) [] ps)"

definition IsAbs :: "string \<Rightarrow> bool" where
  "IsAbs path \<longleftrightarrow> HasPrefix path [slash]"

definition Clean :: "string \<Rightarrow> string" where
  "Clean path =
     (let body = join_slash (clean_parts (IsAbs path) (Split slash path))
      in if IsAbs path then slash # body else if body = [] then dot else body)"

definition Join :: "string list \<Rightarrow> string" where
  "Join elems =
     (case dropWhile (\<lambda>e. e = []) elems of [] \<Rightarrow> [] | rest \<Rightarrow> Clean (join_slash rest))"

text \<open>\<^verbatim>\<open>filepath.Abs\<close>; \<open>cwd\<close> is what \<^verbatim>\<open>os.Getwd\<close> returns, \<^term>\<open>Inl e\<close> its error.\<close>

definition Abs :: "string + string \<Rightarrow> string \<Rightarrow> string + string" where
  "Abs cwd path =
     (if IsAbs path then Inr (Clean path)
      else (case cwd of Inl e \<Rightarrow> Inl e | Inr w \<Rightarrow> Inr (Join [w, path])))"

definition Base :: "string \<Rightarrow> string" where
  "Base path =
     (if path = [] then dot
      else let body = rev (dropWhile ((=) slash) (rev path))
           in if body = [] then [slash] else last (Split slash body))"

text \<open>\<^verbatim>\<open>filepath.Ext\<close>: from the last dot of the last component on.\<close>

definition Ext :: "string \<Rightarrow> string" where
  "Ext path =
     (let name = last (Split slash path)
      in if CHR ''.'' \<in> set name
         then CHR ''.'' # rev (takeWhile ((\<noteq>) CHR ''.'') (rev name)) else [])"

section \<open>Components\<close>

text \<open>A name: a component that \<^verbatim>\<open>Clean\<close> leaves alone.\<close>

definition plain_name :: "string \<Rightarrow> bool" where
  "plain_name p \<longleftrightarrow> p \<noteq> [] \<and> p \<noteq> dot \<and> p \<noteq> dotdot \<and> slash \<notin> set p"

text \<open>The components of an absolute path, and the absolute path of some components.\<close>

definition components :: "string \<Rightarrow> string list" where
  "components path = filter (\<lambda>p. p \<noteq> []) (Split slash path)"

definition abs_path :: "string list \<Rightarrow> string" where
  "abs_path ps = slash # join_slash ps"

lemma IsAbs_Cons [simp]: "IsAbs (slash # s)"
  by (simp add: IsAbs_def HasPrefix_def)

lemma IsAbsE: "IsAbs s \<Longrightarrow> \<exists>t. s = slash # t"
  by (cases s) (auto simp: IsAbs_def HasPrefix_def)

lemma IsAbs_append [simp]: "IsAbs s \<Longrightarrow> IsAbs (s @ t)"
  by (auto dest!: IsAbsE)

lemma IsAbs_abs_path [simp]: "IsAbs (abs_path ps)"
  by (simp add: abs_path_def)

lemma Split_join_slash:
  "\<forall>p \<in> set ps. slash \<notin> set p \<Longrightarrow> ps \<noteq> [] \<Longrightarrow> Split slash (join_slash ps) = ps"
  by (induction ps rule: join_slash.induct) (auto simp: Split_single Split_append)

lemma join_slash_append:
  "ps \<noteq> [] \<Longrightarrow> qs \<noteq> [] \<Longrightarrow> join_slash (ps @ qs) = join_slash ps @ slash # join_slash qs"
  by (induction ps rule: join_slash.induct) (auto simp: neq_Nil_conv)

lemma plain_no_slash: "\<forall>p \<in> set ps. plain_name p \<Longrightarrow> \<forall>p \<in> set ps. slash \<notin> set p"
  by (simp add: plain_name_def)

lemma components_abs_path [simp]:
  assumes "\<forall>p \<in> set ps. plain_name p" shows "components (abs_path ps) = ps"
proof (cases "ps = []")
  case True
  then show ?thesis by (simp add: components_def abs_path_def)
next
  case False
  with assms have "Split slash (abs_path ps) = [] # ps"
    by (simp add: abs_path_def Split_join_slash plain_no_slash)
  moreover have "filter (\<lambda>p. p \<noteq> []) ps = ps" using assms by (simp add: filter_id_conv plain_name_def)
  ultimately show ?thesis by (simp add: components_def)
qed

section \<open>Clean absolute paths\<close>

lemma clean_step_plain:
  "\<forall>p \<in> set kept. plain_name p \<Longrightarrow> slash \<notin> set p \<Longrightarrow> \<forall>p \<in> set (clean_step True kept p). plain_name p"
  by (cases kept) (simp_all add: clean_step_def plain_name_def)

lemma clean_fold_plain:
  "\<forall>p \<in> set kept. plain_name p \<Longrightarrow> \<forall>p \<in> set ps. slash \<notin> set p \<Longrightarrow>
     \<forall>p \<in> set (foldl (clean_step True) kept ps). plain_name p"
proof (induction ps arbitrary: kept)
  case (Cons p ps)
  have "\<forall>q \<in> set (clean_step True kept p). plain_name q"
    by (rule clean_step_plain) (use Cons.prems in auto)
  moreover have "\<forall>q \<in> set ps. slash \<notin> set q" using Cons.prems(2) by auto
  ultimately show ?case using Cons.IH by simp
qed simp

lemma clean_fold_names:
  "\<forall>p \<in> set ps. plain_name p \<Longrightarrow> foldl (clean_step rooted) kept ps = rev ps @ kept"
  by (induction ps arbitrary: kept) (auto simp: clean_step_def plain_name_def)

lemma clean_parts_plain:
  "\<forall>p \<in> set ps. slash \<notin> set p \<Longrightarrow> \<forall>p \<in> set (clean_parts True ps). plain_name p"
  using clean_fold_plain [of "[]" ps] by (simp add: clean_parts_def)

lemma Split_slash_free: "\<forall>p \<in> set (Split slash s). slash \<notin> set p"
  using Split_sep_free by blast

lemma Clean_abs:
  "IsAbs s \<Longrightarrow> Clean s = abs_path (clean_parts True (Split slash s))"
  by (simp add: Clean_def abs_path_def Let_def)

lemma Clean_absE:
  assumes "IsAbs s"
  shows "\<exists>ps. Clean s = abs_path ps \<and> (\<forall>p \<in> set ps. plain_name p)"
  using Clean_abs [OF assms] clean_parts_plain [OF Split_slash_free] by blast

lemma clean_parts_names:
  assumes "\<forall>p \<in> set ps. plain_name p" shows "clean_parts rooted ([] # ps) = ps"
  using clean_fold_names [OF assms] by (simp add: clean_parts_def clean_step_def)

lemma Clean_abs_path [simp]:
  assumes "\<forall>p \<in> set ps. plain_name p" shows "Clean (abs_path ps) = abs_path ps"
proof (cases "ps = []")
  case True
  have "Clean (abs_path []) = abs_path []" by code_simp
  with True show ?thesis by simp
next
  case False
  with assms have "Split slash (abs_path ps) = [] # ps"
    by (simp add: abs_path_def Split_join_slash plain_no_slash)
  then show ?thesis by (simp add: Clean_abs clean_parts_names assms)
qed

text \<open>Cleaning twice is cleaning once, on absolute paths.\<close>

lemma Clean_idem: "IsAbs s \<Longrightarrow> Clean (Clean s) = Clean s"
  using Clean_absE [of s] by auto

text \<open>The components of a path below another one extend the components of the latter.\<close>

lemma abs_path_below:
  assumes "HasPrefix (abs_path qs) (abs_path ps @ [slash])"
    and "\<forall>p \<in> set ps. plain_name p" "\<forall>p \<in> set qs. plain_name p"
  shows "\<exists>rest. qs = ps @ rest \<and> rest \<noteq> []"
proof -
  obtain t where t: "abs_path qs = abs_path ps @ slash # t"
    using HasPrefixD [OF assms(1)] by auto
  have ne: "qs \<noteq> []" using t by (auto simp: abs_path_def)
  show ?thesis
  proof (cases "ps = []")
    case True
    then show ?thesis using ne by simp
  next
    case False
    have "join_slash qs = join_slash ps @ slash # t" using t by (simp add: abs_path_def)
    then have "Split slash (join_slash qs) = Split slash (join_slash ps) @ Split slash t"
      by (simp add: Split_append_sep)
    then have "qs = ps @ Split slash t"
      using False ne assms(2,3) by (simp add: Split_join_slash plain_no_slash)
    then show ?thesis by auto
  qed
qed

lemma abs_path_append:
  "ps \<noteq> [] \<Longrightarrow> rest \<noteq> [] \<Longrightarrow> abs_path (ps @ rest) = abs_path ps @ slash # join_slash rest"
  by (simp add: abs_path_def join_slash_append)

lemma Base_no_slash: "slash \<notin> set (Base s) \<or> Base s = [slash]"
proof -
  have "slash \<notin> set (last (Split slash b))" for b
    using Split_slash_free [of b] last_in_set [of "Split slash b"] by auto
  then show ?thesis by (auto simp: Base_def Let_def)
qed

end
