(* ===== verification/Config.thy ===== *)
theory Config
  imports Go_Prelude
begin

text \<open>
  The configuration of the server (\<^verbatim>\<open>api/internal/config/config.go\<close>): the environment after
  \<^verbatim>\<open>.env\<close>, the readers with their defaults, and validation. The environment is a map, the lines of
  \<^verbatim>\<open>.env\<close> are a list (\<^term>\<open>None\<close> when the file does not open), and \<^verbatim>\<open>time.ParseDuration\<close>, whose
  fractions are computed in floating point, is an argument.
\<close>

section \<open>Environment\<close>

type_synonym env = "string \<rightharpoonup> string"

definition Getenv :: "env \<Rightarrow> string \<Rightarrow> string" where
  "Getenv env name = (case env name of None \<Rightarrow> [] | Some v \<Rightarrow> v)"

text \<open>\<^verbatim>\<open>os.Setenv\<close>, with the errors the code ignores.\<close>

definition Setenv :: "string \<Rightarrow> string \<Rightarrow> env \<Rightarrow> env" where
  "Setenv key value env =
     (if key = [] \<or> CHR ''='' \<in> set key \<or> CHR 0x00 \<in> set key \<or> CHR 0x00 \<in> set value then env
      else env(key \<mapsto> value))"

text \<open>\<^verbatim>\<open>strings.Trim(s, `"'`)\<close>.\<close>

definition quote_char :: "char \<Rightarrow> bool" where
  "quote_char c \<longleftrightarrow> byte c = 34 \<or> byte c = 39"

definition trim_quotes :: "string \<Rightarrow> string" where
  "trim_quotes s = rev (dropWhile quote_char (rev (dropWhile quote_char s)))"

definition dotenv_line :: "string \<Rightarrow> env \<Rightarrow> env" where
  "dotenv_line text env =
     (let line = TrimSpace text
      in if line = [] \<or> HasPrefix line ''#'' then env
         else (case Cut CHR ''='' line of
             (key0, value0, ok) \<Rightarrow>
               if \<not> ok \<or> TrimSpace key0 = [] then env
               else let key = TrimSpace key0
                    in if Getenv env key \<noteq> [] then env
                       else Setenv key (trim_quotes (TrimSpace value0)) env))"

definition loadDotEnv :: "string list option \<Rightarrow> env \<Rightarrow> env" where
  "loadDotEnv lines env =
     (case lines of None \<Rightarrow> env | Some ls \<Rightarrow> foldl (\<lambda>e l. dotenv_line l e) env ls)"

section \<open>Readers\<close>

definition stringEnv :: "env \<Rightarrow> string \<Rightarrow> string \<Rightarrow> string" where
  "stringEnv env name fallback =
     (let value = TrimSpace (Getenv env name) in if value \<noteq> [] then value else fallback)"

definition boolEnv :: "env \<Rightarrow> string \<Rightarrow> bool \<Rightarrow> bool" where
  "boolEnv env name fallback =
     (let value = TrimSpace (ToLower (Getenv env name))
      in if value = [] then fallback
         else value = ''1'' \<or> value = ''true'' \<or> value = ''yes'' \<or> value = ''on'')"

definition durationEnv :: "(string \<Rightarrow> duration option) \<Rightarrow> env \<Rightarrow> string \<Rightarrow> duration \<Rightarrow> duration" where
  "durationEnv parse env name fallback =
     (let value = TrimSpace (Getenv env name)
      in if value = [] then fallback
         else (case parse value of None \<Rightarrow> fallback | Some d \<Rightarrow> d))"

definition int64Env :: "env \<Rightarrow> string \<Rightarrow> int \<Rightarrow> int" where
  "int64Env env name fallback =
     (let value = TrimSpace (Getenv env name)
      in if value = [] then fallback
         else (case ParseInt value of None \<Rightarrow> fallback | Some n \<Rightarrow> n))"

text \<open>\<^verbatim>\<open>strconv.Atoi\<close> on a 64-bit machine is \<^verbatim>\<open>ParseInt\<close> in base ten.\<close>

definition intEnv :: "env \<Rightarrow> string \<Rightarrow> int \<Rightarrow> int" where
  "intEnv env name fallback =
     (let value = TrimSpace (Getenv env name)
      in if value = [] then fallback
         else (case ParseInt value of None \<Rightarrow> fallback | Some n \<Rightarrow> n))"

definition csvEnv :: "env \<Rightarrow> string \<Rightarrow> string \<Rightarrow> string list" where
  "csvEnv env name fallback =
     filter (\<lambda>p. p \<noteq> []) (map TrimSpace (Split CHR '','' (stringEnv env name fallback)))"

section \<open>Configuration\<close>

record AppConfig =
  cfg_Env :: string
  cfg_HTTPAddr :: string
  cfg_PublicURL :: string
  cfg_APIURL :: string
  cfg_MySQLDSN :: string
  cfg_RedisAddr :: string
  cfg_RedisPassword :: string
  cfg_StorageDriver :: string
  cfg_StorageLocalPath :: string
  cfg_JWTSecret :: string
  cfg_RelayGrantSigningKey :: string
  cfg_RelayAuthRequired :: bool
  cfg_InitialAdminEmail :: string
  cfg_InitialAdminPassword :: string
  cfg_SetupToken :: string
  cfg_BrandDefaultName :: string
  cfg_AuthTokenTTL :: duration
  cfg_RelayGrantTTL :: duration
  cfg_AllowedCORSOrigins :: "string list"
  cfg_BrandingAssetMaxBytes :: int
  cfg_RateLimitEnabled :: bool
  cfg_RateLimitRequests :: int
  cfg_RateLimitWindow :: duration
  cfg_BuilderBinary :: string
  cfg_BuilderWorkDir :: string
  cfg_BuilderSourceDir :: string
  cfg_BuilderWindowsCommand :: string
  cfg_BuilderArtifactGlob :: string
  cfg_BuilderDryRun :: bool
  cfg_BuilderTimeout :: duration

definition Contains :: "string \<Rightarrow> string \<Rightarrow> bool" where
  "Contains s sub \<longleftrightarrow> sublist sub s"

definition weakSecret :: "string \<Rightarrow> bool" where
  "weakSecret value =
     (let trimmed = TrimSpace value
      in length trimmed < 32 \<or> Contains trimmed ''change-this'' \<or> Contains trimmed ''dev-only'')"

definition config_weakPassword :: "string \<Rightarrow> bool" where
  "config_weakPassword value =
     (let trimmed = TrimSpace (ToLower value)
      in if trimmed \<in> set [[], ''admin'', ''password'', ''test1234'', ''change-this-in-production'']
         then True else length trimmed < 12)"

definition config_Validate :: "AppConfig \<Rightarrow> string option" where
  "config_Validate c =
     (if cfg_StorageDriver c \<noteq> ''local''
      then Some ''only OPENDESK_STORAGE_DRIVER=local is supported in the first version''
      else if cfg_RelayAuthRequired c \<and> TrimSpace (cfg_RelayGrantSigningKey c) = []
      then Some ''OPENDESK_RELAY_GRANT_SIGNING_KEY is required when relay auth is enabled''
      else if cfg_RateLimitEnabled c \<and> cfg_RateLimitRequests c \<le> 0
      then Some ''OPENDESK_RATE_LIMIT_REQUESTS must be positive when rate limit is enabled''
      else if cfg_RateLimitEnabled c \<and> sint (cfg_RateLimitWindow c) \<le> 0
      then Some ''OPENDESK_RATE_LIMIT_WINDOW must be positive when rate limit is enabled''
      else if TrimSpace (cfg_InitialAdminEmail c) = [] \<and> TrimSpace (cfg_InitialAdminPassword c) \<noteq> []
      then Some ''OPENDESK_INITIAL_ADMIN_EMAIL is required when OPENDESK_INITIAL_ADMIN_PASSWORD is set''
      else if TrimSpace (cfg_InitialAdminEmail c) \<noteq> [] \<and> TrimSpace (cfg_InitialAdminPassword c) = []
      then Some ''OPENDESK_INITIAL_ADMIN_PASSWORD is required when OPENDESK_INITIAL_ADMIN_EMAIL is set''
      else if TrimSpace (cfg_InitialAdminPassword c) \<noteq> [] \<and> config_weakPassword (cfg_InitialAdminPassword c)
      then Some ''weak initial admin password is not allowed''
      else if TrimSpace (cfg_SetupToken c) \<noteq> [] \<and> weakSecret (cfg_SetupToken c)
      then Some ''weak OPENDESK_SETUP_TOKEN is not allowed''
      else if cfg_Env c = ''production'' \<and> TrimSpace (cfg_MySQLDSN c) = []
      then Some ''OPENDESK_MYSQL_DSN is required in production''
      else if cfg_Env c = ''production'' \<and> weakSecret (cfg_JWTSecret c)
      then Some ''strong OPENDESK_JWT_SECRET is required in production''
      else None)"

definition config_from_env :: "(string \<Rightarrow> duration option) \<Rightarrow> env \<Rightarrow> AppConfig" where
  "config_from_env parse env =
     \<lparr> cfg_Env = stringEnv env ''OPENDESK_ENV'' ''development'',
       cfg_HTTPAddr = stringEnv env ''OPENDESK_HTTP_ADDR'' '':21114'',
       cfg_PublicURL = stringEnv env ''OPENDESK_PUBLIC_URL'' ''http://localhost:21114'',
       cfg_APIURL = stringEnv env ''OPENDESK_API_URL'' ''http://localhost:21114'',
       cfg_MySQLDSN = Getenv env ''OPENDESK_MYSQL_DSN'',
       cfg_RedisAddr = stringEnv env ''OPENDESK_REDIS_ADDR'' ''127.0.0.1:6379'',
       cfg_RedisPassword = Getenv env ''OPENDESK_REDIS_PASSWORD'',
       cfg_StorageDriver = stringEnv env ''OPENDESK_STORAGE_DRIVER'' ''local'',
       cfg_StorageLocalPath = stringEnv env ''OPENDESK_STORAGE_LOCAL_PATH'' ''./storage'',
       cfg_JWTSecret = stringEnv env ''OPENDESK_JWT_SECRET'' ''dev-only-opendesk-session-signing-key-change-me'',
       cfg_RelayGrantSigningKey = Getenv env ''OPENDESK_RELAY_GRANT_SIGNING_KEY'',
       cfg_RelayAuthRequired = boolEnv env ''OPENDESK_RELAY_AUTH_REQUIRED'' True,
       cfg_InitialAdminEmail = Getenv env ''OPENDESK_INITIAL_ADMIN_EMAIL'',
       cfg_InitialAdminPassword = Getenv env ''OPENDESK_INITIAL_ADMIN_PASSWORD'',
       cfg_SetupToken = Getenv env ''OPENDESK_SETUP_TOKEN'',
       cfg_BrandDefaultName = stringEnv env ''OPENDESK_BRAND_DEFAULT_NAME'' ''OpenDesk Remote'',
       cfg_AuthTokenTTL = durationEnv parse env ''OPENDESK_AUTH_TOKEN_TTL'' (15 * Minute),
       cfg_RelayGrantTTL = durationEnv parse env ''OPENDESK_RELAY_GRANT_TTL'' (2 * Minute),
       cfg_AllowedCORSOrigins = csvEnv env ''OPENDESK_CORS_ORIGINS'' ''http://localhost:5173,http://127.0.0.1:5173'',
       cfg_BrandingAssetMaxBytes = int64Env env ''OPENDESK_BRANDING_ASSET_MAX_BYTES'' (5 * 1024 * 1024),
       cfg_RateLimitEnabled = boolEnv env ''OPENDESK_RATE_LIMIT_ENABLED'' True,
       cfg_RateLimitRequests = intEnv env ''OPENDESK_RATE_LIMIT_REQUESTS'' 300,
       cfg_RateLimitWindow = durationEnv parse env ''OPENDESK_RATE_LIMIT_WINDOW'' Minute,
       cfg_BuilderBinary = stringEnv env ''OPENDESK_BUILDER_BIN'' ''opendesk-builder'',
       cfg_BuilderWorkDir = stringEnv env ''OPENDESK_BUILDER_WORK_DIR'' ''.run/build-worker'',
       cfg_BuilderSourceDir = stringEnv env ''OPENDESK_BUILDER_SOURCE_DIR'' ''.upstream/rustdesk-client'',
       cfg_BuilderWindowsCommand = Getenv env ''OPENDESK_BUILDER_WINDOWS_COMMAND'',
       cfg_BuilderArtifactGlob = Getenv env ''OPENDESK_BUILDER_WINDOWS_ARTIFACT_GLOB'',
       cfg_BuilderDryRun = boolEnv env ''OPENDESK_BUILDER_DRY_RUN'' True,
       cfg_BuilderTimeout = durationEnv parse env ''OPENDESK_BUILDER_TIMEOUT'' (120 * Minute) \<rparr>"

text \<open>\<^verbatim>\<open>Load\<close>: the configuration, and the error of \<^verbatim>\<open>Validate\<close>.\<close>

definition Load ::
    "(string \<Rightarrow> duration option) \<Rightarrow> string list option \<Rightarrow> env \<Rightarrow> AppConfig \<times> string option" where
  "Load parse dotenv env0 =
     (let cfg = config_from_env parse (loadDotEnv dotenv env0) in (cfg, config_Validate cfg))"

section \<open>Facts\<close>

text \<open>The \<^verbatim>\<open>.env\<close> file never overrides a variable the environment already has.\<close>

lemma dotenv_line_keeps: "Getenv env k \<noteq> [] \<Longrightarrow> dotenv_line l env k = env k"
  by (auto simp: dotenv_line_def Setenv_def Let_def split: prod.splits)

lemma loadDotEnv_keeps: "Getenv env k \<noteq> [] \<Longrightarrow> loadDotEnv dotenv env k = env k"
proof (cases dotenv)
  case (Some ls)
  assume "Getenv env k \<noteq> []"
  then have "foldl (\<lambda>e l. dotenv_line l e) env ls k = env k"
  proof (induction ls arbitrary: env)
    case (Cons l ls)
    then have "dotenv_line l env k = env k" by (simp add: dotenv_line_keeps)
    moreover then have "Getenv (dotenv_line l env) k \<noteq> []" using Cons.prems by (simp add: Getenv_def)
    ultimately show ?case using Cons.IH by simp
  qed simp
  then show ?thesis using Some by (simp add: loadDotEnv_def)
qed (simp add: loadDotEnv_def)

lemma stringEnv_trimmed: "TrimSpace fallback = fallback \<Longrightarrow> TrimSpace (stringEnv env name fallback) = stringEnv env name fallback"
  by (simp add: stringEnv_def Let_def)

end
