(* ===== verification/Build_Worker.thy ===== *)
theory Build_Worker
  imports Paths Config Memory_Properties Handler_Core
begin

text \<open>
  The build worker (\<^verbatim>\<open>api/internal/buildworker\<close>): one run claims the first queued job, writes its
  build specification, calls the builder program and records how it ended. The builder program
  (\<^verbatim>\<open>Executor\<close>), the answers of the operating system and JSON are arguments; the builder sees the
  files and may change them. A run that panics is \<^term>\<open>None\<close>.
\<close>

section \<open>Text of durations\<close>

text \<open>\<^verbatim>\<open>time.Duration.String\<close>: the fraction without trailing zeros, then the larger units.\<close>

definition pad_zeros :: "nat \<Rightarrow> string \<Rightarrow> string" where
  "pad_zeros w s = replicate (w - length s) CHR ''0'' @ s"

definition fraction_text :: "nat \<Rightarrow> int \<Rightarrow> string" where
  "fraction_text prec v =
     (if v = 0 then []
      else CHR ''.'' # rev (dropWhile ((=) CHR ''0'') (rev (pad_zeros prec (FormatInt v)))))"

definition fixed_text :: "nat \<Rightarrow> int \<Rightarrow> int \<Rightarrow> string" where
  "fixed_text prec scale u = FormatInt (u div scale) @ fraction_text prec (u mod scale)"

definition duration_text :: "int \<Rightarrow> string" where
  "duration_text u =
     (if u = 0 then ''0s''
      else if u < 1000 then FormatInt u @ ''ns''
      else if u < 1000000 then fixed_text 3 1000 u @ [CHR 0xC2, CHR 0xB5, CHR ''s'']
      else if u < 1000000000 then fixed_text 6 1000000 u @ ''ms''
      else let secs = u div 1000000000;
               s_part = FormatInt (secs mod 60) @ fraction_text 9 (u mod 1000000000) @ ''s'';
               mins = secs div 60
           in if mins = 0 then s_part
              else let m_part = FormatInt (mins mod 60) @ ''m'' @ s_part;
                       hours = mins div 60
                   in if hours = 0 then m_part else FormatInt hours @ ''h'' @ m_part)"

definition DurationString :: "duration \<Rightarrow> string" where
  "DurationString d =
     (if sint d < 0 then CHR ''-'' # duration_text (- sint d) else duration_text (sint d))"

section \<open>Worker\<close>

record WorkerConfig =
  wc_RunnerName :: string
  wc_BuilderBinary :: string
  wc_WorkDir :: string
  wc_SourceDir :: string
  wc_BuildCommand :: string
  wc_ArtifactGlob :: string
  wc_DryRun :: bool
  wc_Timeout :: duration

record Command =
  cmd_Binary :: string
  cmd_Args :: "string list"

record CommandResult =
  cr_Stdout :: string
  cr_Stderr :: string

text \<open>\<^verbatim>\<open>Executor.Run\<close> under a timeout: output, error and the files it leaves.\<close>

type_synonym Executor = "duration \<Rightarrow> Command \<Rightarrow> files \<Rightarrow> (CommandResult \<times> string option) \<times> files"

record runnerArtifact =
  ra_Path :: string
  ra_SHA256 :: string
  ra_Bytes :: int

record runnerResult =
  rres_BuildLog :: string
  rres_Artifacts :: "runnerArtifact list"

record DoctorCheck =
  dc_Name :: string
  dc_Required :: bool
  dc_Status :: string
  dc_Detail :: string
  dc_Path :: string

record DoctorResult =
  dr_Platform :: string
  dr_SourceDir :: string
  dr_Ready :: bool
  dr_Checks :: "DoctorCheck list"

record RunResult =
  rr_Job :: BuildJob
  rr_Artifacts :: "BuildArtifact list option"
  rr_Message :: string

datatype worker_error = ErrNoQueuedJobs | WorkerRepo repo_error | WorkerMsg string

text \<open>Zero values.\<close>

definition zero_job :: BuildJob where
  "zero_job =
     \<lparr> bj_ID = 0, bj_ProfileID = 0, bj_Platform = [], bj_Status = [], bj_Runner = [], bj_LogPath = [],
       bj_ErrorMessage = [], bj_CreatedAt = zero_time, bj_StartedAt = None, bj_FinishedAt = None \<rparr>"

definition run_result :: "BuildJob \<Rightarrow> RunResult" where
  "run_result job = \<lparr> rr_Job = job, rr_Artifacts = None, rr_Message = [] \<rparr>"

definition ConfigFromAPI :: "AppConfig \<Rightarrow> WorkerConfig" where
  "ConfigFromAPI cfg =
     \<lparr> wc_RunnerName = ''local-worker'', wc_BuilderBinary = cfg_BuilderBinary cfg,
       wc_WorkDir = cfg_BuilderWorkDir cfg, wc_SourceDir = cfg_BuilderSourceDir cfg,
       wc_BuildCommand = cfg_BuilderWindowsCommand cfg, wc_ArtifactGlob = cfg_BuilderArtifactGlob cfg,
       wc_DryRun = cfg_BuilderDryRun cfg, wc_Timeout = cfg_BuilderTimeout cfg \<rparr>"

text \<open>\<^verbatim>\<open>New\<close>: the defaults of the configuration.\<close>

definition worker_New :: "WorkerConfig \<Rightarrow> WorkerConfig" where
  "worker_New cfg0 =
     (let cfg1 = (if TrimSpace (wc_RunnerName cfg0) = [] then cfg0\<lparr> wc_RunnerName := ''local-worker'' \<rparr> else cfg0)
      in if wc_Timeout cfg1 = 0 then cfg1\<lparr> wc_Timeout := 120 * Minute \<rparr> else cfg1)"

definition optional_args :: "WorkerConfig \<Rightarrow> string list" where
  "optional_args cfg =
     (if wc_DryRun cfg then [''--dry-run''] else []) @
     (if TrimSpace (wc_BuildCommand cfg) \<noteq> [] then [''--build-command'', wc_BuildCommand cfg] else []) @
     (if TrimSpace (wc_ArtifactGlob cfg) \<noteq> [] then [''--artifact-glob'', wc_ArtifactGlob cfg] else [])"

definition doctorArgs :: "WorkerConfig \<Rightarrow> string list" where
  "doctorArgs cfg =
     [''doctor'', ''--platform'', ''windows_x64'', ''--source'', wc_SourceDir cfg,
      ''--timeout'', DurationString (wc_Timeout cfg)] @ optional_args cfg"

definition worker_args :: "WorkerConfig \<Rightarrow> BuildJob \<Rightarrow> string \<Rightarrow> string \<Rightarrow> string \<Rightarrow> string list" where
  "worker_args cfg job specPath injectionDir artifactDir =
     [''run'', ''--platform'', bj_Platform job, ''--spec'', specPath, ''--source'', wc_SourceDir cfg,
      ''--injection'', injectionDir, ''--artifacts'', artifactDir] @ optional_args cfg @
     [''--timeout'', DurationString (wc_Timeout cfg)]"

section \<open>Build specification\<close>

record cliBuildSpec =
  cli_AppName :: string
  cli_AppVendor :: string
  cli_BundleID :: string
  cli_WindowsProductName :: string
  cli_Description :: string
  cli_Branding :: string
  cli_Server :: string
  cli_Policy :: string
  cli_Platforms :: string
  cli_Signing :: string
  cli_Source :: string

text \<open>
  \<^verbatim>\<open>encoding/json\<close>: objects (\<^term>\<open>None\<close> for the nil map that \<^verbatim>\<open>null\<close> decodes to), the constants
  the defaults need, the specification, and the two answers of the builder program.
\<close>

record 'v worker_json =
  wj_Unmarshal :: "string \<Rightarrow> string + (string \<rightharpoonup> 'v) option"
  wj_Marshal :: "(string \<rightharpoonup> 'v) \<Rightarrow> string + string"
  wj_String :: "string \<Rightarrow> 'v"
  wj_Bool :: "bool \<Rightarrow> 'v"
  wj_Spec :: "cliBuildSpec \<Rightarrow> string + string"
  wj_RunnerResult :: "string \<Rightarrow> string + runnerResult"
  wj_Doctor :: "string \<Rightarrow> string + DoctorResult"

text \<open>
  The values of the object over the defaults; writing a default into a nil map panics
  (\<^term>\<open>None\<close>).
\<close>

definition objectWithDefaults ::
    "'v worker_json \<Rightarrow> string \<Rightarrow> (string \<rightharpoonup> 'v) \<Rightarrow> (string + string) option" where
  "objectWithDefaults js raw defaults =
     (let values = (if raw = [] then Inr (Some Map.empty) else wj_Unmarshal js raw)
      in case values of
           Inl e \<Rightarrow> Some (Inl e)
         | Inr (Some vs) \<Rightarrow> Some (wj_Marshal js (defaults ++ vs))
         | Inr None \<Rightarrow> None)"

definition rawObject :: "string \<Rightarrow> string" where
  "rawObject raw = (if raw = [] then ''{}'' else raw)"

definition buildSpecJSON :: "'v worker_json \<Rightarrow> BuildProfile \<Rightarrow> (string + string) option" where
  "buildSpecJSON js profile =
     (case objectWithDefaults js (bp_ServerConfigJSON profile)
             [''relay_name'' \<mapsto> wj_String js ''hbbr-relay-a'', ''relay_grant_required'' \<mapsto> wj_Bool js True] of
        None \<Rightarrow> None
      | Some (Inl e) \<Rightarrow> Some (Inl e)
      | Some (Inr server) \<Rightarrow>
     (case objectWithDefaults js (bp_SourceJSON profile)
             [''rustdesk_ref'' \<mapsto> wj_String js ''master'',
              ''opendesk_patchset'' \<mapsto> wj_String js ''opendesk-remote-m4''] of
        None \<Rightarrow> None
      | Some (Inl e) \<Rightarrow> Some (Inl e)
      | Some (Inr source) \<Rightarrow>
          Some (wj_Spec js
            \<lparr> cli_AppName = bp_AppName profile,
              cli_AppVendor = (if bp_Vendor profile = [] then ''OpenDesk'' else bp_Vendor profile),
              cli_BundleID = bp_BundleID profile,
              cli_WindowsProductName =
                (if bp_ProductName profile = [] then bp_AppName profile else bp_ProductName profile),
              cli_Description = bp_Description profile,
              cli_Branding = rawObject (bp_BrandingJSON profile), cli_Server = server,
              cli_Policy = rawObject (bp_PolicyJSON profile),
              cli_Platforms = rawObject (bp_PlatformsJSON profile),
              cli_Signing = rawObject (bp_SigningJSON profile), cli_Source = source \<rparr>)))"

definition parseRunnerResult :: "'v worker_json \<Rightarrow> string \<Rightarrow> string + runnerResult" where
  "parseRunnerResult js raw =
     (case wj_RunnerResult js raw of
        Inl e \<Rightarrow> Inl (''parse builder output: '' @ e) | Inr x \<Rightarrow> Inr x)"

definition parseDoctorResult :: "'v worker_json \<Rightarrow> string \<Rightarrow> string + DoctorResult" where
  "parseDoctorResult js raw =
     (case wj_Doctor js raw of
        Inl e \<Rightarrow> Inl (''parse builder doctor output: '' @ e) | Inr x \<Rightarrow> Inr x)"

section \<open>One run\<close>

text \<open>
  What a run meets: JSON, the builder program, the errors of \<^verbatim>\<open>os.MkdirAll\<close> and
  \<^verbatim>\<open>os.WriteFile\<close>, and the clock: \<open>0\<close> the claim, \<open>1\<close> the end, \<open>2\<close> and on the artifacts.
\<close>

record 'v worker_world =
  ww_JSON :: "'v worker_json"
  ww_Exec :: Executor
  ww_Mkdir :: "string option"
  ww_Write :: "string option"
  ww_Clock :: "nat \<Rightarrow> gotime"

type_synonym run_outcome = "(RunResult \<times> worker_error option) option \<times> files \<times> Memory"

fun worker_error_text :: "worker_error \<Rightarrow> string" where
  "worker_error_text ErrNoQueuedJobs = ''no queued build jobs''"
| "worker_error_text (WorkerRepo e) = error_text e"
| "worker_error_text (WorkerMsg msg) = msg"

definition worker_fail ::
    "gotime \<Rightarrow> int \<Rightarrow> string \<Rightarrow> worker_error \<Rightarrow> Memory \<Rightarrow> (RunResult \<times> worker_error option) \<times> Memory" where
  "worker_fail now i logPath err m =
     (case FailBuildJob i logPath (worker_error_text err) now m of
        (Inl e, m1) \<Rightarrow> ((run_result zero_job, Some (WorkerRepo e)), m1)
      | (Inr failed, m1) \<Rightarrow> ((run_result failed, Some err), m1))"

text \<open>\<^verbatim>\<open>failed, _ := w.store.FailBuildJob(...)\<close>: the error of the store is dropped.\<close>

definition fail_ignoring ::
    "gotime \<Rightarrow> int \<Rightarrow> string \<Rightarrow> string \<Rightarrow> worker_error \<Rightarrow> Memory \<Rightarrow> (RunResult \<times> worker_error option) \<times> Memory" where
  "fail_ignoring now i logPath msg err m =
     (case FailBuildJob i logPath msg now m of
        (Inl e, m1) \<Rightarrow> ((run_result zero_job, Some err), m1)
      | (Inr failed, m1) \<Rightarrow> ((run_result failed, Some err), m1))"

definition stderr_or :: "CommandResult \<Rightarrow> string \<Rightarrow> string" where
  "stderr_or output err = (let message = TrimSpace (cr_Stderr output) in if message = [] then err else message)"

fun create_artifacts ::
    "(nat \<Rightarrow> gotime) \<Rightarrow> nat \<Rightarrow> BuildJob \<Rightarrow> runnerArtifact list \<Rightarrow> BuildArtifact list \<Rightarrow> Memory \<Rightarrow>
       BuildArtifact list repo_result" where
  "create_artifacts clk n job [] out m = (Inr out, m)"
| "create_artifacts clk n job (a # as) out m =
     (case CreateBuildArtifact (clk n)
             \<lparr> ba_ID = 0, ba_BuildJobID = bj_ID job, ba_Platform = bj_Platform job,
               ba_Filename = Base (ra_Path a), ba_LocalPath = ra_Path a, ba_SHA256 = ra_SHA256 a,
               ba_SizeBytes = ra_Bytes a, ba_CreatedAt = zero_time \<rparr> m of
        (Inl e, m1) \<Rightarrow> (Inl e, m1)
      | (Inr created, m1) \<Rightarrow> create_artifacts clk (Suc n) job as (out @ [created]) m1)"

text \<open>The part of \<^verbatim>\<open>runClaimed\<close> after the builder program has returned.\<close>

definition record_build ::
    "'v worker_world \<Rightarrow> BuildJob \<Rightarrow> CommandResult \<Rightarrow> string option \<Rightarrow> Memory \<Rightarrow>
       (RunResult \<times> worker_error option) \<times> Memory" where
  "record_build w job output runErr m =
     (let parsed = parseRunnerResult (ww_JSON w) (cr_Stdout output);
          buildLog = (case parsed of Inl e \<Rightarrow> [] | Inr p \<Rightarrow> rres_BuildLog p);
          fin = ww_Clock w 1
      in case runErr of
           Some err \<Rightarrow> fail_ignoring fin (bj_ID job) buildLog (stderr_or output err) (WorkerMsg err) m
         | None \<Rightarrow>
             (case parsed of
                Inl e \<Rightarrow> worker_fail fin (bj_ID job) [] (WorkerMsg e) m
              | Inr p \<Rightarrow>
                  (case create_artifacts (ww_Clock w) 2 job (rres_Artifacts p) [] m of
                     (Inl e, m1) \<Rightarrow> worker_fail fin (bj_ID job) (rres_BuildLog p) (WorkerRepo e) m1
                   | (Inr artifacts, m1) \<Rightarrow>
                       (case CompleteBuildJob (bj_ID job) (rres_BuildLog p) fin m1 of
                          (Inl e, m2) \<Rightarrow> ((run_result zero_job, Some (WorkerRepo e)), m2)
                        | (Inr completed, m2) \<Rightarrow>
                            ((\<lparr> rr_Job = completed, rr_Artifacts = Some artifacts, rr_Message = [] \<rparr>, None), m2)))))"

definition job_paths :: "WorkerConfig \<Rightarrow> BuildJob \<Rightarrow> string \<times> string \<times> string" where
  "job_paths cfg job =
     (let jobDir = Join [wc_WorkDir cfg, ''job-'' @ FormatInt (bj_ID job)]
      in (Join [jobDir, ''buildspec.json''], Join [jobDir, ''injection''], Join [jobDir, ''artifacts'']))"

definition runClaimed ::
    "WorkerConfig \<Rightarrow> 'v worker_world \<Rightarrow> BuildJob \<Rightarrow> BuildProfile \<Rightarrow> files \<Rightarrow> Memory \<Rightarrow> run_outcome" where
  "runClaimed cfg w job profile fs m =
     (case job_paths cfg job of (specPath, injectionDir, artifactDir) \<Rightarrow>
      let failed = (\<lambda>e. case worker_fail (ww_Clock w 1) (bj_ID job) [] (WorkerMsg e) m of
                          (res, m1) \<Rightarrow> (Some res, fs, m1))
      in case ww_Mkdir w of
           Some e \<Rightarrow> failed e
         | None \<Rightarrow>
             (case buildSpecJSON (ww_JSON w) profile of
                None \<Rightarrow> (None, fs, m)
              | Some (Inl e) \<Rightarrow> failed e
              | Some (Inr spec) \<Rightarrow>
                  (case ww_Write w of
                     Some e \<Rightarrow> failed e
                   | None \<Rightarrow>
                       (case ww_Exec w (wc_Timeout cfg)
                               \<lparr> cmd_Binary = wc_BuilderBinary cfg,
                                 cmd_Args = worker_args cfg job specPath injectionDir artifactDir \<rparr>
                               (fs(specPath \<mapsto> spec)) of
                          ((output, runErr), fs1) \<Rightarrow>
                            (case record_build w job output runErr m of (res, m1) \<Rightarrow> (Some res, fs1, m1))))))"

definition RunOnce :: "WorkerConfig \<Rightarrow> 'v worker_world \<Rightarrow> files \<Rightarrow> Memory \<Rightarrow> run_outcome" where
  "RunOnce cfg w fs m =
     (case ClaimNextBuildJob (wc_RunnerName cfg) (ww_Clock w 0) m of
        (Inl e, m1) \<Rightarrow>
          if e = ErrNotFound
          then (Some (\<lparr> rr_Job = zero_job, rr_Artifacts = None,
                        rr_Message = worker_error_text ErrNoQueuedJobs \<rparr>, Some ErrNoQueuedJobs), fs, m1)
          else (Some (run_result zero_job, Some (WorkerRepo e)), fs, m1)
      | (Inr job, m1) \<Rightarrow>
          (case FindBuildProfileByID (bj_ProfileID job) m1 of
             Inl e \<Rightarrow>
               (case fail_ignoring (ww_Clock w 1) (bj_ID job) [] ''build profile not found'' (WorkerRepo e) m1 of
                  (res, m2) \<Rightarrow> (Some res, fs, m2))
           | Inr profile \<Rightarrow> runClaimed cfg w job profile fs m1))"

definition Doctor :: "WorkerConfig \<Rightarrow> 'v worker_world \<Rightarrow> files \<Rightarrow> (string + DoctorResult) \<times> files" where
  "Doctor cfg w fs =
     (case ww_Exec w (wc_Timeout cfg) \<lparr> cmd_Binary = wc_BuilderBinary cfg, cmd_Args = doctorArgs cfg \<rparr> fs of
        ((output, runErr), fs1) \<Rightarrow>
          (case parseDoctorResult (ww_JSON w) (cr_Stdout output) of
             Inr result \<Rightarrow> (Inr result, fs1)
           | Inl e \<Rightarrow>
               (case runErr of
                  Some err \<Rightarrow> (Inl (stderr_or output err), fs1)
                | None \<Rightarrow> (Inl e, fs1))))"

end
