(* ===== verification/Build_Run.thy ===== *)
theory Build_Run
  imports Build_Worker
begin

text \<open>
  What a run of the build worker does to the queue: how the claimed job ends, that runs drain the
  queue, and the refinement of an abstract queue of job states.
\<close>

section \<open>Ending a job\<close>

lemma update_first_at:
  "distinct (map k (pre @ x # post)) \<Longrightarrow>
     update_first (\<lambda>y. k y = k x) f (pre @ x # post) = pre @ f x # post \<and>
     find (\<lambda>y. k y = k x) (pre @ x # post) = Some x"
  by (induction pre) auto

text \<open>
  The job at a place of the list ends there, the result reports it, the artifacts of the run are
  appended, and nothing else of the repository but the counter changes.
\<close>

definition job_ended ::
    "gotime \<Rightarrow> BuildJob list \<Rightarrow> BuildJob \<Rightarrow> BuildJob list \<Rightarrow> Memory \<Rightarrow>
       (RunResult \<times> worker_error option) \<times> Memory \<Rightarrow> bool" where
  "job_ended at pre j post m out \<longleftrightarrow>
     (case out of ((res, err), m') \<Rightarrow>
        (let j' = rr_Job res
         in buildJobs m' = pre @ j' # post \<and> bj_ID j' = bj_ID j \<and> bj_Runner j' = bj_Runner j \<and>
            bj_FinishedAt j' = Some at \<and>
            bj_Status j' = (if err = None then BuildJobSucceeded else BuildJobFailed) \<and>
            (\<exists>new. buildArtifacts m' = buildArtifacts m @ new \<and>
                   list_all (\<lambda>a. ba_BuildJobID a = bj_ID j \<and> ba_Platform a = bj_Platform j) new \<and>
                   (err = None \<longrightarrow> rr_Artifacts res = Some new)) \<and>
            m' = m\<lparr> nextID := nextID m', buildJobs := buildJobs m', buildArtifacts := buildArtifacts m' \<rparr>))"

lemma finish_at:
  assumes "buildJobs m = pre @ j # post" "distinct (map bj_ID (pre @ j # post))"
  shows "finishBuildJob (bj_ID j) st path msg at m =
     (let j' = j\<lparr> bj_Status := st, bj_LogPath := path, bj_ErrorMessage := msg, bj_FinishedAt := Some at \<rparr>
      in (Inr j', m\<lparr> buildJobs := pre @ j' # post \<rparr>))"
  using update_first_at [OF assms(2)] by (simp add: finishBuildJob_def update_row_def assms(1) Let_def)

lemma worker_fail_ends:
  assumes "buildJobs m = pre @ j # post" "distinct (map bj_ID (pre @ j # post))"
  shows "job_ended at pre j post m (worker_fail at (bj_ID j) path err m)"
  by (simp add: worker_fail_def FailBuildJob_def finish_at [OF assms] job_ended_def Let_def run_result_def)

lemma fail_ignoring_ends:
  assumes "buildJobs m = pre @ j # post" "distinct (map bj_ID (pre @ j # post))"
  shows "job_ended at pre j post m (fail_ignoring at (bj_ID j) path msg err m)"
  by (simp add: fail_ignoring_def FailBuildJob_def finish_at [OF assms] job_ended_def Let_def run_result_def)

lemma create_artifacts_appends:
  assumes "create_artifacts clk n job as out m = (res, m1)"
  shows "\<exists>new. buildArtifacts m1 = buildArtifacts m @ new \<and>
           list_all (\<lambda>a. ba_BuildJobID a = bj_ID job \<and> ba_Platform a = bj_Platform job) new \<and>
           m1 = m\<lparr> nextID := nextID m1, buildArtifacts := buildArtifacts m1 \<rparr> \<and>
           (\<forall>arts. res = Inr arts \<longrightarrow> arts = out @ new)"
  using assms
proof (induction as arbitrary: n out m)
  case (Cons a as)
  show ?case
  proof (cases "fst (CreateBuildArtifact (clk n)
             \<lparr> ba_ID = 0, ba_BuildJobID = bj_ID job, ba_Platform = bj_Platform job,
               ba_Filename = Base (ra_Path a), ba_LocalPath = ra_Path a, ba_SHA256 = ra_SHA256 a,
               ba_SizeBytes = ra_Bytes a, ba_CreatedAt = zero_time \<rparr> m)")
    case (Inl e)
    then show ?thesis using Cons.prems
      by (auto simp: CreateBuildArtifact_def Let_def split: if_splits)
  next
    case (Inr created)
    then obtain m2 where c: "create_artifacts clk (Suc n) job as (out @ [created]) m2 = (res, m1)"
      "m2 = m\<lparr> nextID := nextID m2, buildArtifacts := buildArtifacts m @ [created] \<rparr>"
      "ba_BuildJobID created = bj_ID job \<and> ba_Platform created = bj_Platform job"
      using Cons.prems by (auto simp: CreateBuildArtifact_def Let_def split: if_splits)
    obtain new where n: "buildArtifacts m1 = buildArtifacts m2 @ new"
      "list_all (\<lambda>a. ba_BuildJobID a = bj_ID job \<and> ba_Platform a = bj_Platform job) new"
      "m1 = m2\<lparr> nextID := nextID m1, buildArtifacts := buildArtifacts m1 \<rparr>"
      "\<forall>arts. res = Inr arts \<longrightarrow> arts = (out @ [created]) @ new"
      using Cons.IH [OF c(1)] by blast
    have "buildArtifacts m2 = buildArtifacts m @ [created]" by (subst c(2)) simp
    moreover have "m1 = m\<lparr> nextID := nextID m1, buildArtifacts := buildArtifacts m1 \<rparr>"
      by (subst n(3), subst c(2)) simp
    ultimately show ?thesis using n(1,2,4) c(3) by (intro exI [of _ "created # new"]) simp
  qed
qed auto

lemma job_ended_artifacts:
  assumes ended: "job_ended at pre j post m1 ((res, err), m2)"
    and new: "buildArtifacts m1 = buildArtifacts m @ new"
      "list_all (\<lambda>a. ba_BuildJobID a = bj_ID j \<and> ba_Platform a = bj_Platform j) new"
      "m1 = m\<lparr> nextID := nextID m1, buildJobs := buildJobs m1, buildArtifacts := buildArtifacts m1 \<rparr>"
    and "err \<noteq> None"
  shows "job_ended at pre j post m ((res, err), m2)"
proof -
  obtain new2 where n: "buildArtifacts m2 = buildArtifacts m1 @ new2"
    "list_all (\<lambda>a. ba_BuildJobID a = bj_ID j \<and> ba_Platform a = bj_Platform j) new2"
    "m2 = m1\<lparr> nextID := nextID m2, buildJobs := buildJobs m2, buildArtifacts := buildArtifacts m2 \<rparr>"
    using ended by (auto simp: job_ended_def Let_def)
  have "m2 = m\<lparr> nextID := nextID m2, buildJobs := buildJobs m2, buildArtifacts := buildArtifacts m2 \<rparr>"
    by (subst n(3), subst new(3)) simp
  then show ?thesis using ended n(1,2) new(1,2) assms(5)
    unfolding job_ended_def Let_def prod.case
    by (intro conjI exI [of _ "new @ new2"]) (simp_all, blast+)
qed

lemma record_build_ends:
  assumes jobs: "buildJobs m = pre @ j # post" and dist: "distinct (map bj_ID (pre @ j # post))"
  shows "job_ended (ww_Clock w 1) pre j post m (record_build w j output runErr m)"
proof (cases runErr)
  case (Some err)
  then show ?thesis using fail_ignoring_ends [OF assms] by (simp add: record_build_def Let_def)
next
  case None
  show ?thesis
  proof (cases "parseRunnerResult (ww_JSON w) (cr_Stdout output)")
    case (Inl e)
    then show ?thesis using None worker_fail_ends [OF assms] by (simp add: record_build_def Let_def)
  next
    case (Inr p)
    obtain res m1 where c: "create_artifacts (ww_Clock w) 2 j (rres_Artifacts p) [] m = (res, m1)"
      by (cases "create_artifacts (ww_Clock w) 2 j (rres_Artifacts p) [] m")
    from create_artifacts_appends [OF c]
    obtain new where n: "buildArtifacts m1 = buildArtifacts m @ new"
      "list_all (\<lambda>a. ba_BuildJobID a = bj_ID j \<and> ba_Platform a = bj_Platform j) new"
      "m1 = m\<lparr> nextID := nextID m1, buildArtifacts := buildArtifacts m1 \<rparr>"
      "\<forall>arts. res = Inr arts \<longrightarrow> arts = [] @ new"
      by blast
    have j1: "buildJobs m1 = pre @ j # post" by (subst n(3)) (simp add: jobs)
    have m1: "m1 = m\<lparr> nextID := nextID m1, buildJobs := buildJobs m1, buildArtifacts := buildArtifacts m1 \<rparr>"
      by (subst n(3), subst (2) n(3)) simp
    show ?thesis
    proof (cases res)
      case (Inl e)
      obtain rr err m2 where f: "worker_fail (ww_Clock w 1) (bj_ID j) (rres_BuildLog p) (WorkerRepo e) m1 =
          ((rr, err), m2)" by (metis prod.collapse)
      then have "err \<noteq> None" by (auto simp: worker_fail_def split: prod.splits sum.splits)
      then have "job_ended (ww_Clock w 1) pre j post m ((rr, err), m2)"
        using job_ended_artifacts [OF _ n(1,2) m1] worker_fail_ends [OF j1 dist] f by metis
      then show ?thesis using None Inr Inl c f by (simp add: record_build_def Let_def)
    next
      case (Inr arts)
      have "m1\<lparr> buildJobs := js \<rparr> =
          m\<lparr> nextID := nextID m1, buildJobs := js, buildArtifacts := buildArtifacts m1 \<rparr>" for js
        by (subst n(3)) simp
      then show ?thesis
        using Inr None \<open>parseRunnerResult _ _ = Inr p\<close> c n(1,2,4)
        by (simp add: record_build_def Let_def CompleteBuildJob_def finish_at [OF j1 dist] job_ended_def)
    qed
  qed
qed

section \<open>A run on the queue\<close>

abbreviation queued :: "BuildJob \<Rightarrow> bool" where
  "queued j \<equiv> bj_Status j = BuildJobQueued"

definition claimed :: "string \<Rightarrow> gotime \<Rightarrow> BuildJob \<Rightarrow> BuildJob" where
  "claimed runner at j = j\<lparr> bj_Status := BuildJobRunning, bj_Runner := runner, bj_StartedAt := Some at \<rparr>"

lemma claimed_id [simp]: "bj_ID (claimed r t j) = bj_ID j" "bj_Status (claimed r t j) = BuildJobRunning"
  "bj_Runner (claimed r t j) = r"
  by (simp_all add: claimed_def)

lemma RunOnce_idle:
  assumes "\<forall>j \<in> set (buildJobs m). \<not> queued j"
  shows "RunOnce cfg w fs m =
     (Some (\<lparr> rr_Job = zero_job, rr_Artifacts = None, rr_Message = ''no queued build jobs'' \<rparr>,
            Some ErrNoQueuedJobs), fs, m)"
proof -
  have "find queued (buildJobs m) = None" using assms by (simp add: find_None_iff)
  then show ?thesis by (simp add: RunOnce_def ClaimNextBuildJob_def update_row_def)
qed

lemma claim_first_queued:
  assumes "\<exists>j \<in> set (buildJobs m). queued j"
  shows "\<exists>pre j0 post. buildJobs m = pre @ j0 # post \<and> list_all (\<lambda>x. \<not> queued x) pre \<and> queued j0 \<and>
           ClaimNextBuildJob r t m = (Inr (claimed r t j0), m\<lparr> buildJobs := pre @ claimed r t j0 # post \<rparr>)"
proof -
  obtain j where "find queued (buildJobs m) = Some j"
    using assms by (cases "find queued (buildJobs m)") (auto dest: find_None_not)
  then obtain j1 m1 where c: "ClaimNextBuildJob r t m = (Inr j1, m1)"
    by (simp add: ClaimNextBuildJob_def update_row_def)
  show ?thesis using claimD [OF c] c by (auto simp: claimed_def)
qed

lemma job_ended_base:
  "job_ended at pre j post (m\<lparr> buildJobs := js \<rparr>) out \<longleftrightarrow> job_ended at pre j post m out"
  by (simp add: job_ended_def Let_def split: prod.split)

text \<open>What one run does: nothing, end the first queued job, or panic and leave it running.\<close>

lemma RunOnce_cases:
  assumes "ids_inv m"
  obtains (idle) "\<forall>j \<in> set (buildJobs m). \<not> queued j" "snd (snd (RunOnce cfg w fs m)) = m"
      "\<exists>res. fst (RunOnce cfg w fs m) = Some (res, Some ErrNoQueuedJobs)"
  | (ended) pre j0 post res err where "buildJobs m = pre @ j0 # post" "list_all (\<lambda>x. \<not> queued x) pre"
      "queued j0" "fst (RunOnce cfg w fs m) = Some (res, err)"
      "job_ended (ww_Clock w 1) pre (claimed (wc_RunnerName cfg) (ww_Clock w 0) j0) post m
         ((res, err), snd (snd (RunOnce cfg w fs m)))"
  | (panic) pre j0 post profile where "buildJobs m = pre @ j0 # post" "list_all (\<lambda>x. \<not> queued x) pre"
      "queued j0" "fst (RunOnce cfg w fs m) = None" "profile \<in> set (buildProfiles m)"
      "buildSpecJSON (ww_JSON w) profile = None"
      "snd (snd (RunOnce cfg w fs m)) =
         m\<lparr> buildJobs := pre @ claimed (wc_RunnerName cfg) (ww_Clock w 0) j0 # post \<rparr>"
proof (cases "\<exists>j \<in> set (buildJobs m). queued j")
  case False
  then show ?thesis using idle RunOnce_idle [of m cfg w fs] by simp
next
  case True
  then obtain pre j0 post where c: "buildJobs m = pre @ j0 # post" "list_all (\<lambda>x. \<not> queued x) pre" "queued j0"
    "ClaimNextBuildJob (wc_RunnerName cfg) (ww_Clock w 0) m =
       (Inr (claimed (wc_RunnerName cfg) (ww_Clock w 0) j0),
        m\<lparr> buildJobs := pre @ claimed (wc_RunnerName cfg) (ww_Clock w 0) j0 # post \<rparr>)"
    using claim_first_queued by blast
  let ?j = "claimed (wc_RunnerName cfg) (ww_Clock w 0) j0"
  let ?m = "m\<lparr> buildJobs := pre @ ?j # post \<rparr>"
  have jobs: "buildJobs ?m = pre @ ?j # post" by simp
  have dist: "distinct (map bj_ID (pre @ ?j # post))"
    using distinct_jobs [OF assms] by (simp add: c(1))
  note ends = worker_fail_ends [OF jobs dist] fail_ignoring_ends [OF jobs dist] record_build_ends [OF jobs dist]
  show ?thesis
  proof (cases "FindBuildProfileByID (bj_ProfileID ?j) ?m")
    case (Inl e)
    obtain res err m2 where f: "fail_ignoring (ww_Clock w 1) (bj_ID ?j) [] ''build profile not found''
        (WorkerRepo e) ?m = ((res, err), m2)" by (metis prod.collapse)
    have "RunOnce cfg w fs m = (Some (res, err), fs, m2)"
      unfolding RunOnce_def c(4) by (simp only: sum.case prod.case Inl f)
    moreover have "job_ended (ww_Clock w 1) pre ?j post m ((res, err), m2)"
      using ends(2) f job_ended_base by metis
    ultimately show ?thesis using ended [OF c(1-3), of res err] by simp
  next
    case (Inr profile)
    have run: "RunOnce cfg w fs m = runClaimed cfg w ?j profile fs ?m" by (simp add: RunOnce_def c(4) Inr)
    have mem: "profile \<in> set (buildProfiles m)"
      using Inr by (auto simp: FindBuildProfileByID_def dest: find_SomeD split: option.splits)
    obtain specPath injectionDir artifactDir where paths: "job_paths cfg ?j = (specPath, injectionDir, artifactDir)"
      by (metis prod.collapse)
    show ?thesis
    proof (cases "fst (RunOnce cfg w fs m)")
      case None
      then have "buildSpecJSON (ww_JSON w) profile = None \<and> snd (snd (RunOnce cfg w fs m)) = ?m"
        unfolding run runClaimed_def paths
        by (auto simp: Let_def split: option.splits sum.splits prod.splits)
      then show ?thesis using panic [OF c(1-3) None mem] by blast
    next
      case (Some out)
      have "job_ended (ww_Clock w 1) pre ?j post ?m (out, snd (snd (RunOnce cfg w fs m)))"
        using Some ends(1) [of "ww_Clock w 1"] ends(3) [of w]
        unfolding run runClaimed_def paths
        by (auto simp: Let_def split: option.splits sum.splits prod.splits) metis+
      then show ?thesis using ended [OF c(1-3)] Some by (cases out) (simp add: job_ended_base)
    qed
  qed
qed

section \<open>Runs are repository calls\<close>

text \<open>
  A run changes the repository only by claiming, failing and completing jobs and by creating
  artifacts: every reflexive and transitive relation that these four calls respect holds between
  the repository before and after a run.
\<close>

locale worker_relation =
  fixes R :: "Memory \<Rightarrow> Memory \<Rightarrow> bool"
  assumes same: "R m m"
    and seq: "R m m1 \<Longrightarrow> R m1 m2 \<Longrightarrow> R m m2"
    and claim: "R m (snd (ClaimNextBuildJob runner t m))"
    and fail: "R m (snd (FailBuildJob i path msg t m))"
    and complete: "R m (snd (CompleteBuildJob i path t m))"
    and artifact: "R m (snd (CreateBuildArtifact t a m))"
begin

lemma create_artifacts_rel: "R m (snd (create_artifacts clk n job as out m))"
proof (induction as arbitrary: n out m)
  case (Cons a as)
  show ?case
    by (auto split: prod.split sum.split) (metis Cons.IH artifact seq snd_conv)+
qed (simp add: same)

lemma worker_fail_rel: "R m (snd (worker_fail at i path err m))"
proof -
  have "snd (worker_fail at i path err m) = snd (FailBuildJob i path (worker_error_text err) at m)"
    by (simp add: worker_fail_def split: prod.split sum.split)
  then show ?thesis using fail by simp
qed

lemma fail_ignoring_rel: "R m (snd (fail_ignoring at i path msg err m))"
proof -
  have "snd (fail_ignoring at i path msg err m) = snd (FailBuildJob i path msg at m)"
    by (simp add: fail_ignoring_def split: prod.split sum.split)
  then show ?thesis using fail by simp
qed

lemma record_build_rel: "R m (snd (record_build w j output runErr m))"
proof (cases "runErr \<noteq> None \<or> isl (parseRunnerResult (ww_JSON w) (cr_Stdout output))")
  case True
  then show ?thesis
    by (auto simp: record_build_def Let_def fail_ignoring_rel worker_fail_rel split: option.split sum.split)
next
  case False
  then obtain p where p: "runErr = None" "parseRunnerResult (ww_JSON w) (cr_Stdout output) = Inr p"
    by (cases "parseRunnerResult (ww_JSON w) (cr_Stdout output)") auto
  obtain res m1 where c: "create_artifacts (ww_Clock w) 2 j (rres_Artifacts p) [] m = (res, m1)"
    by (metis prod.collapse)
  then have m1: "R m m1" using create_artifacts_rel by (metis snd_conv)
  show ?thesis
  proof (cases res)
    case (Inl e)
    then show ?thesis using p c seq [OF m1 worker_fail_rel] by (simp add: record_build_def Let_def)
  next
    case (Inr arts)
    have "snd (record_build w j output runErr m) =
        snd (CompleteBuildJob (bj_ID j) (rres_BuildLog p) (ww_Clock w 1) m1)"
      using p c Inr by (simp add: record_build_def Let_def split: prod.split sum.split)
    then show ?thesis using seq [OF m1 complete] by simp
  qed
qed

lemma runClaimed_rel: "R m (snd (snd (runClaimed cfg w job profile fs m)))"
proof -
  have f: "R m m1" if "worker_fail at i path err m = (res, m1)" for at i path err res m1
    using worker_fail_rel [of m at i path err] that by simp
  have r: "R m m1" if "record_build w j out runErr m = (res, m1)" for j out runErr res m1
    using record_build_rel [of m w j out runErr] that by simp
  show ?thesis
    by (auto simp: runClaimed_def Let_def same split: option.split sum.split prod.split intro: f r)
qed

lemma RunOnce_rel: "R m (snd (snd (RunOnce cfg w fs m)))"
proof -
  obtain res m1 where c: "ClaimNextBuildJob (wc_RunnerName cfg) (ww_Clock w 0) m = (res, m1)"
    by (metis prod.collapse)
  then have m1: "R m m1" using claim by (metis snd_conv)
  have f: "R m m2" if "fail_ignoring at i path msg err m1 = (out, m2)" for at i path msg err out m2
    using seq [OF m1 fail_ignoring_rel, of at i path msg err] that by simp
  show ?thesis using m1 seq [OF m1 runClaimed_rel]
    by (auto simp: RunOnce_def c split: sum.split prod.split intro: f)
qed

end

lemma mem_reach_one: "mem_step m m' \<Longrightarrow> mem_reach m m'"
  using mem_reach.start mem_reach.step by blast

interpretation reaching: worker_relation mem_reach
  by unfold_locales
     (auto intro: mem_reach.start mem_reach_trans mem_reach_one mem_step.intros)

lemmas RunOnce_reach = reaching.RunOnce_rel

text \<open>The profiles, and what the jobs were asked for, stay as they are.\<close>

definition same_orders :: "Memory \<Rightarrow> Memory \<Rightarrow> bool" where
  "same_orders m m' \<longleftrightarrow>
     buildProfiles m' = buildProfiles m \<and>
     map (\<lambda>j. (bj_ID j, bj_ProfileID j, bj_Platform j)) (buildJobs m') =
       map (\<lambda>j. (bj_ID j, bj_ProfileID j, bj_Platform j)) (buildJobs m)"

lemma same_orders_finish: "same_orders m (snd (finishBuildJob i st path msg t m))"
  by (simp add: same_orders_def finishBuildJob_def update_row_def split: option.split)

interpretation ordering: worker_relation same_orders
  by unfold_locales
     (auto simp: same_orders_def ClaimNextBuildJob_def CreateBuildArtifact_def update_row_def Let_def
        split: option.split intro: same_orders_finish [unfolded same_orders_def] simp: FailBuildJob_def
        CompleteBuildJob_def finishBuildJob_def)

section \<open>Repeated runs\<close>

fun run_worker :: "WorkerConfig \<Rightarrow> 'v worker_world list \<Rightarrow> files \<Rightarrow> Memory \<Rightarrow> files \<times> Memory" where
  "run_worker cfg [] fs m = (fs, m)"
| "run_worker cfg (w # ws) fs m =
     (case snd (RunOnce cfg w fs m) of (fs1, m1) \<Rightarrow> run_worker cfg ws fs1 m1)"

section \<open>The abstract queue\<close>

text \<open>
  The queue as an administrator sees it: the jobs with their states, in order. A run serves the
  first queued one, which ends in one of the states a run can leave, or finds none.
\<close>

type_synonym job_queue = "(int \<times> BuildJobStatus) list"

definition waiting :: "int \<times> BuildJobStatus \<Rightarrow> bool" where
  "waiting x \<longleftrightarrow> snd x = BuildJobQueued"

definition served_state :: "BuildJobStatus \<Rightarrow> bool" where
  "served_state s \<longleftrightarrow> s = BuildJobSucceeded \<or> s = BuildJobFailed \<or> s = BuildJobRunning"

inductive queue_step :: "job_queue \<Rightarrow> job_queue \<Rightarrow> bool" where
  nothing: "list_all (\<lambda>x. \<not> waiting x) q \<Longrightarrow> queue_step q q"
| serve: "list_all (\<lambda>x. \<not> waiting x) pre \<Longrightarrow> served_state s \<Longrightarrow>
            queue_step (pre @ (i, BuildJobQueued) # post) (pre @ (i, s) # post)"

definition job_states :: "Memory \<Rightarrow> job_queue" where
  "job_states m = map (\<lambda>j. (bj_ID j, bj_Status j)) (buildJobs m)"

lemma served_not_waiting: "served_state s \<Longrightarrow> \<not> waiting (i, s)"
  by (auto simp: served_state_def waiting_def)

lemma queue_step_length: "queue_step q q' \<Longrightarrow> map fst q' = map fst q"
  by (induction rule: queue_step.induct) auto

lemma filter_all_not: "list_all (\<lambda>x. \<not> P x) xs \<Longrightarrow> filter P xs = []"
  by (induction xs) auto

lemma queue_step_waiting: "queue_step q q' \<Longrightarrow> filter waiting q' = tl (filter waiting q)"
  by (induction rule: queue_step.induct) (simp_all add: filter_all_not served_not_waiting waiting_def [of "(_, BuildJobQueued)"])

lemma queue_steps_waiting: "(queue_step ^^ n) q q' \<Longrightarrow> filter waiting q' = drop n (filter waiting q)"
proof (induction n arbitrary: q')
  case (Suc n)
  then show ?case by (auto dest: queue_step_waiting simp: drop_Suc tl_drop)
qed simp

text \<open>A job that does not wait is left alone, and one that waits can only be served.\<close>

lemma queue_step_entry:
  "queue_step q q' \<Longrightarrow> n < length q \<Longrightarrow>
     q' ! n = q ! n \<or> waiting (q ! n) \<and> fst (q' ! n) = fst (q ! n) \<and> served_state (snd (q' ! n))"
  by (induction rule: queue_step.induct) (auto simp: nth_append nth_Cons waiting_def split: nat.split)

lemma RunOnce_refines:
  assumes "ids_inv m"
  shows "queue_step (job_states m) (job_states (snd (snd (RunOnce cfg w fs m))))"
  using assms
proof (cases rule: RunOnce_cases [where cfg = cfg and w = w and fs = fs])
  case idle
  then have "list_all (\<lambda>x. \<not> waiting x) (job_states m)"
    by (auto simp: job_states_def waiting_def list_all_iff)
  then show ?thesis using idle(2) by (simp add: queue_step.nothing)
next
  case (ended pre j0 post res err)
  have "list_all (\<lambda>x. \<not> waiting x) (map (\<lambda>j. (bj_ID j, bj_Status j)) pre)"
    using ended(2) by (auto simp: waiting_def list_all_iff)
  from queue_step.serve [OF this, of "if err = None then BuildJobSucceeded else BuildJobFailed" "bj_ID j0"
      "map (\<lambda>j. (bj_ID j, bj_Status j)) post"]
  show ?thesis using ended(1,3,5) by (simp add: job_states_def job_ended_def Let_def served_state_def)
next
  case (panic pre j0 post profile)
  have "list_all (\<lambda>x. \<not> waiting x) (map (\<lambda>j. (bj_ID j, bj_Status j)) pre)"
    using panic(2) by (auto simp: waiting_def list_all_iff)
  from queue_step.serve [OF this, of BuildJobRunning "bj_ID j0" "map (\<lambda>j. (bj_ID j, bj_Status j)) post"]
  show ?thesis using panic(1,3,7) by (simp add: job_states_def served_state_def)
qed

lemma run_worker_refines:
  assumes "ids_inv m"
  shows "(queue_step ^^ length ws) (job_states m) (job_states (snd (run_worker cfg ws fs m)))"
  using assms
proof (induction ws arbitrary: fs m)
  case (Cons w ws)
  obtain fs1 m1 where s: "snd (RunOnce cfg w fs m) = (fs1, m1)" by (metis prod.collapse)
  have "queue_step (job_states m) (job_states m1)" using RunOnce_refines [OF Cons.prems, of cfg w fs] s by simp
  moreover have "ids_inv m1"
    using mem_reach_ids [OF RunOnce_reach Cons.prems, of cfg w fs] s by simp
  ultimately show ?case
    unfolding run_worker.simps s prod.case length_Cons
    using Cons.IH [of m1 fs1] by (blast intro: relpowp_Suc_I2)
qed simp

lemma create_artifacts_length:
  "create_artifacts clk n job as out m = (Inr arts, m1) \<Longrightarrow> length arts = length out + length as"
  by (induction as arbitrary: n out m) (auto split: prod.splits sum.splits)

lemma fail_has_error [simp]:
  "worker_fail at i path e m \<noteq> ((res, None), m1)" "fail_ignoring at i path msg e m \<noteq> ((res, None), m1)"
  by (auto simp: worker_fail_def fail_ignoring_def split: prod.splits sum.splits)

lemma record_build_success:
  assumes "record_build w j output runErr m = ((res, None), m1)"
  shows "runErr = None \<and> (\<exists>p arts. parseRunnerResult (ww_JSON w) (cr_Stdout output) = Inr p \<and>
           rr_Artifacts res = Some arts \<and> length arts = length (rres_Artifacts p))"
  using assms
  by (auto simp: record_build_def Let_def dest!: create_artifacts_length
      split: option.splits sum.splits prod.splits)

text \<open>
  The builder program was called for the job with the specification of the profile in its place,
  ended without error, and reported as many artifacts as the result has.
\<close>

definition builder_ran ::
    "WorkerConfig \<Rightarrow> 'v worker_world \<Rightarrow> BuildJob \<Rightarrow> BuildProfile \<Rightarrow> files \<Rightarrow> RunResult \<Rightarrow> files \<Rightarrow> bool" where
  "builder_ran cfg w job profile fs res fs1 \<longleftrightarrow>
     (\<exists>specPath injectionDir artifactDir spec output p arts.
            job_paths cfg job = (specPath, injectionDir, artifactDir) \<and>
            buildSpecJSON (ww_JSON w) profile = Some (Inr spec) \<and>
            ww_Exec w (wc_Timeout cfg)
              \<lparr> cmd_Binary = wc_BuilderBinary cfg,
                cmd_Args = worker_args cfg job specPath injectionDir artifactDir \<rparr> (fs(specPath \<mapsto> spec)) =
              ((output, None), fs1) \<and>
            parseRunnerResult (ww_JSON w) (cr_Stdout output) = Inr p \<and>
            rr_Artifacts res = Some arts \<and> length arts = length (rres_Artifacts p))"

lemma runClaimed_success:
  assumes "runClaimed cfg w job profile fs m = (Some (res, None), fs1, m1)"
  shows "builder_ran cfg w job profile fs res fs1"
  using assms
  by (auto simp: runClaimed_def builder_ran_def Let_def dest!: record_build_success
      split: option.splits sum.splits prod.splits)

section \<open>A run the witnesses use\<close>

definition wit_profile :: BuildProfile where
  "wit_profile =
     \<lparr> bp_ID = 0, bp_Name = ''std'', bp_AppName = ''Desk'', bp_Vendor = [], bp_BundleID = ''org.desk'',
       bp_ProductName = [], bp_Description = [], bp_ServerConfigJSON = [], bp_BrandingJSON = [],
       bp_PolicyJSON = [], bp_PlatformsJSON = [], bp_SigningJSON = [], bp_SourceJSON = [],
       bp_CreatedBy = 1, bp_CreatedAt = 0, bp_UpdatedAt = 0 \<rparr>"

definition wit_world :: "string worker_world" where
  "wit_world =
     \<lparr> ww_JSON =
         \<lparr> wj_Unmarshal = (\<lambda>s. Inl ''bad''), wj_Marshal = (\<lambda>v. Inr ''{}''), wj_String = id,
           wj_Bool = (\<lambda>b. ''b''), wj_Spec = (\<lambda>c. Inr (cli_AppName c)),
           wj_RunnerResult = (\<lambda>s. if s = ''ok'' then Inr \<lparr> rres_BuildLog = ''build.log'', rres_Artifacts =
              [\<lparr> ra_Path = ''/out/desk.exe'', ra_SHA256 = ''00'', ra_Bytes = 9 \<rparr>] \<rparr> else Inl s),
           wj_Doctor = (\<lambda>s. Inl s) \<rparr>,
       ww_Exec = (\<lambda>d c fs. ((\<lparr> cr_Stdout = ''ok'', cr_Stderr = [] \<rparr>, None), fs)),
       ww_Mkdir = None, ww_Write = None, ww_Clock = (\<lambda>n. 40 + int n) \<rparr>"

definition wit_worker :: WorkerConfig where
  "wit_worker = worker_New
     \<lparr> wc_RunnerName = [], wc_BuilderBinary = ''opendesk-builder'', wc_WorkDir = ''.run'', wc_SourceDir = ''src'',
       wc_BuildCommand = [], wc_ArtifactGlob = [], wc_DryRun = True, wc_Timeout = 0 \<rparr>"

text \<open>One profile with two jobs, and a third job without a profile.\<close>

definition wit_jobs :: Memory where
  "wit_jobs =
     (let m1 = snd (CreateBuildProfile 9 wit_profile wit_start);
          m2 = snd (CreateBuildJob 10 (wit_job\<lparr> bj_ProfileID := 101 \<rparr>) m1);
          m3 = snd (CreateBuildJob 11 (wit_job\<lparr> bj_ProfileID := 7 \<rparr>) m2)
      in snd (CreateBuildJob 12 (wit_job\<lparr> bj_ProfileID := 101 \<rparr>) m3))"

lemma wit_jobs_reach: "mem_reach wit_start wit_jobs"
  unfolding wit_jobs_def Let_def by (meson mem_reach.intros mem_step.intros)

section \<open>Properties\<close>





text \<open>A run that does not find the queue empty and does not panic ends the first queued job and
  no other: the job, in its place, carries the runner's name, the time of the end and the state
  succeeded exactly when the run reports no error; the artifacts of the run are appended and name
  the job, and nothing else changes. Success means that the profile was there, the builder was
  called with the specification in its place and ended without error, and that the job has as many
  new artifacts as the builder reported.\<close>

lemma run_ends_claimed_job:
  assumes reach: "mem_reach (NewMemoryWithInitialAdmin t email h) m"
    and run: "RunOnce cfg w fs m = (Some (res, err), fs', m')"
    and found: "err \<noteq> Some ErrNoQueuedJobs"
  shows "\<exists>pre j0 post. buildJobs m = pre @ j0 # post \<and> list_all (\<lambda>x. \<not> queued x) pre \<and> queued j0 \<and>
     (let job = claimed (wc_RunnerName cfg) (ww_Clock w 0) j0
      in job_ended (ww_Clock w 1) pre job post m ((res, err), m') \<and>
         (err = None \<longrightarrow>
            (\<exists>profile. FindBuildProfileByID (bj_ProfileID j0) m = Inr profile \<and>
                       builder_ran cfg w job profile fs res fs')))"
proof -
  have idle: "\<exists>j \<in> set (buildJobs m). queued j"
    using run found RunOnce_idle [of m cfg w fs] by auto
  then obtain pre j0 post where c: "buildJobs m = pre @ j0 # post" "list_all (\<lambda>x. \<not> queued x) pre" "queued j0"
    "ClaimNextBuildJob (wc_RunnerName cfg) (ww_Clock w 0) m =
       (Inr (claimed (wc_RunnerName cfg) (ww_Clock w 0) j0),
        m\<lparr> buildJobs := pre @ claimed (wc_RunnerName cfg) (ww_Clock w 0) j0 # post \<rparr>)"
    using claim_first_queued by blast
  let ?j = "claimed (wc_RunnerName cfg) (ww_Clock w 0) j0"
  let ?m = "m\<lparr> buildJobs := pre @ ?j # post \<rparr>"
  have "job_ended (ww_Clock w 1) pre ?j post m ((res, err), m')"
    using reach_ids [OF reach]
  proof (cases rule: RunOnce_cases [where cfg = cfg and w = w and fs = fs])
    case idle
    then show ?thesis using \<open>\<exists>j \<in> set (buildJobs m). queued j\<close> by blast
  next
    case (ended pre1 j1 post1 res1 err1)
    then have "pre1 = pre \<and> j1 = j0 \<and> post1 = post"
      using c(1-3) by (auto simp: append_eq_append_conv2 list_all_iff append_eq_Cons_conv Cons_eq_append_conv)
    then show ?thesis using ended(4,5) run by simp
  qed (use run in simp)
  moreover have "\<exists>profile. FindBuildProfileByID (bj_ProfileID j0) m = Inr profile \<and>
      builder_ran cfg w ?j profile fs res fs'" if "err = None"
    using run that runClaimed_success [of cfg w ?j _ fs ?m res fs' m'] by (auto simp: RunOnce_def c(4) FindBuildProfileByID_def claimed_def
        split: sum.splits option.splits prod.splits)
  ultimately show ?thesis
    using c(1-3) unfolding Let_def by blast
qed

lemma run_ends_claimed_job_witness:
  "\<exists>res fs' m'. RunOnce wit_worker wit_world Map.empty wit_jobs = (Some (res, None), fs', m') \<and>
     bj_ID (rr_Job res) = 102 \<and> map ba_Filename (buildArtifacts m') = [''desk.exe''] \<and>
     (\<exists>profile job. builder_ran wit_worker wit_world job profile Map.empty res fs')"
proof -
  have e: "case fst (RunOnce wit_worker wit_world Map.empty wit_jobs) of
      Some (res, err) \<Rightarrow> err = None \<and> bj_ID (rr_Job res) = 102 \<and>
        map ba_Filename (buildArtifacts (snd (snd (RunOnce wit_worker wit_world Map.empty wit_jobs)))) = [''desk.exe'']
    | None \<Rightarrow> False"
    by code_simp
  then obtain res where "fst (RunOnce wit_worker wit_world Map.empty wit_jobs) = Some (res, None)"
    and i: "bj_ID (rr_Job res) = 102"
    and n: "map ba_Filename (buildArtifacts (snd (snd (RunOnce wit_worker wit_world Map.empty wit_jobs)))) = [''desk.exe'']"
    by (auto split: option.splits)
  then obtain fs' m' where run: "RunOnce wit_worker wit_world Map.empty wit_jobs = (Some (res, None), fs', m')"
    by (metis prod.collapse)
  have "\<exists>profile job. builder_ran wit_worker wit_world job profile Map.empty res fs'"
    using run_ends_claimed_job [OF wit_jobs_reach [unfolded wit_start_def] run] unfolding Let_def by blast
  then show ?thesis using run i n by auto
qed

end
