(* ===== verification/Build_Handler.thy ===== *)
theory Build_Handler
  imports Build_Spec Build_Run
begin

text \<open>
  The HTTP handlers of build profiles, jobs, artifacts and the worker
  (\<^verbatim>\<open>api/internal/builds/handler.go\<close>). JSON of the stored parts of a specification is the record
  \<open>spec_json\<close>, and what opening a file gives is a function of its path.
\<close>

section \<open>Requests and answers\<close>

record CreateProfileRequest =
  cpr_Name :: string
  cpr_BuildSpec :: BuildSpec

record CreateJobRequest =
  cjr_ProfileID :: int
  cjr_Platform :: string

record BuildJobLogsResponse =
  bjl_JobID :: int
  bjl_LogPath :: string
  bjl_Content :: string
  bjl_Truncated :: bool

record sourceForStorage =
  sfs_RustDeskRef :: string
  sfs_OpenDeskPatchset :: string

record spec_json =
  sj_Server :: "ServerSpec \<Rightarrow> string + string"
  sj_Branding :: "BrandingSpec \<Rightarrow> string + string"
  sj_Policy :: "PolicySpec \<Rightarrow> string + string"
  sj_Platforms :: "PlatformSpec \<Rightarrow> string + string"
  sj_Signing :: "SigningSpec \<Rightarrow> string + string"
  sj_Source :: "sourceForStorage \<Rightarrow> string + string"
  sj_ReadPlatforms :: "string \<Rightarrow> PlatformSpec option"

text \<open>What \<^verbatim>\<open>os.Open\<close> gives; a file that opens may still fail to be read.\<close>

datatype opened = OpenFails | Directory | RegularFile "string option"

datatype build_payload =
    BuildProfileList "BuildProfile list"
  | BuildProfileItem BuildProfile
  | BuildProfileDeleted
  | BuildJobList "BuildJob list"
  | BuildJobItem BuildJob
  | BuildRunResult RunResult
  | BuildDoctorResult DoctorResult
  | BuildArtifactList "BuildArtifact list"
  | BuildJobLogs BuildJobLogsResponse
  | BuildDownload string "string option"

section \<open>Paths\<close>

definition supportedPlatforms :: "string list" where
  "supportedPlatforms = [''windows_x64'', ''macos_x64'', ''macos_arm64'', ''android_arm64'', ''ios_arm64'']"

definition pathParts :: "string \<Rightarrow> string \<Rightarrow> string list option" where
  "pathParts path pre =
     (if \<not> HasPrefix path pre then None
      else let trimmed = TrimChar CHR ''/'' (TrimPrefix path pre)
           in if trimmed = [] then None
              else let parts = Split CHR ''/'' trimmed
                   in if list_ex (\<lambda>p. TrimSpace p = []) parts then None else Some parts)"

definition parsePositiveID :: "string \<Rightarrow> int option" where
  "parsePositiveID value =
     (case ParseInt value of None \<Rightarrow> None | Some i \<Rightarrow> if i > 0 then Some i else None)"

section \<open>Profiles from specifications\<close>

definition normalizedSource :: "SourceSpec \<Rightarrow> sourceForStorage" where
  "normalizedSource source =
     \<lparr> sfs_RustDeskRef = (if TrimSpace (Ref source) = [] then ''master'' else Ref source),
       sfs_OpenDeskPatchset =
         (if TrimSpace (src_OpenDeskPatchset source) = [] then ''opendesk-remote-m4''
          else src_OpenDeskPatchset source) \<rparr>"

definition profileFromSpec :: "spec_json \<Rightarrow> string \<Rightarrow> BuildSpec \<Rightarrow> int \<Rightarrow> string + BuildProfile" where
  "profileFromSpec js name spec createdBy =
     (case sj_Server js (spec_Server spec) of Inl e \<Rightarrow> Inl e | Inr server \<Rightarrow>
     (case sj_Branding js (spec_Branding spec) of Inl e \<Rightarrow> Inl e | Inr branding \<Rightarrow>
     (case sj_Policy js (spec_Policy spec) of Inl e \<Rightarrow> Inl e | Inr pol \<Rightarrow>
     (case sj_Platforms js (spec_Platforms spec) of Inl e \<Rightarrow> Inl e | Inr platforms \<Rightarrow>
     (case sj_Signing js (spec_Signing spec) of Inl e \<Rightarrow> Inl e | Inr signing \<Rightarrow>
     (case sj_Source js (normalizedSource (spec_Source spec)) of Inl e \<Rightarrow> Inl e | Inr source \<Rightarrow>
        Inr \<lparr> bp_ID = 0, bp_Name = TrimSpace name, bp_AppName = app_Name (spec_App spec),
              bp_Vendor = app_Vendor (spec_App spec), bp_BundleID = app_BundleID (spec_App spec),
              bp_ProductName = app_WindowsProductName (spec_App spec),
              bp_Description = app_Description (spec_App spec),
              bp_ServerConfigJSON = server, bp_BrandingJSON = branding, bp_PolicyJSON = pol,
              bp_PlatformsJSON = platforms, bp_SigningJSON = signing, bp_SourceJSON = source,
              bp_CreatedBy = createdBy, bp_CreatedAt = zero_time, bp_UpdatedAt = zero_time \<rparr>))))))"

definition profileEnablesPlatform :: "spec_json \<Rightarrow> BuildProfile \<Rightarrow> string \<Rightarrow> bool" where
  "profileEnablesPlatform js profile platform =
     (case sj_ReadPlatforms js (bp_PlatformsJSON profile) of
        None \<Rightarrow> False
      | Some p \<Rightarrow>
          if platform = ''windows_x64'' then pf_WindowsX64 p
          else if platform = ''macos_x64'' then pf_MacOSX64 p
          else if platform = ''macos_arm64'' then pf_MacOSARM64 p
          else if platform = ''android_arm64'' then pf_AndroidARM64 p
          else if platform = ''ios_arm64'' then pf_IOSARM64 p
          else False)"

section \<open>Profile handlers\<close>

definition profile_metadata :: "BuildProfile \<Rightarrow> metadata" where
  "profile_metadata p =
     Some [(''name'', AnyString (bp_Name p)), (''app_name'', AnyString (bp_AppName p)),
           (''vendor'', AnyString (bp_Vendor p))]"

text \<open>The steps create and update share, up to the repository call.\<close>

definition with_profile ::
    "spec_json \<Rightarrow> request \<Rightarrow> CreateProfileRequest option \<Rightarrow> Memory \<Rightarrow>
       (BuildProfile \<Rightarrow> build_payload handler_result) \<Rightarrow> build_payload handler_result" where
  "with_profile js r body m k =
     decoded body m (\<lambda>req.
       let name = (if TrimSpace (cpr_Name req) = [] then app_Name (spec_App (cpr_BuildSpec req)) else cpr_Name req)
       in checked (spec_Validate (cpr_BuildSpec req)) ''INVALID_BUILD_SPEC'' m
            (case SessionFromContext r of
               None \<Rightarrow> (Error StatusUnauthorized ''UNAUTHENTICATED'' ''authentication is required'', m)
             | Some session \<Rightarrow>
                 (case profileFromSpec js name (cpr_BuildSpec req) (user_ID (asn_User session)) of
                    Inl e \<Rightarrow> (Error StatusBadRequest ''INVALID_BUILD_SPEC'' e, m)
                  | Inr profile \<Rightarrow> k profile)))"

definition builds_Profiles ::
    "spec_json \<Rightarrow> (nat \<Rightarrow> gotime) \<Rightarrow> request \<Rightarrow> CreateProfileRequest option \<Rightarrow> Memory \<Rightarrow>
       build_payload handler_result" where
  "builds_Profiles js clk r body m =
     (if Method r = MethodGet
      then listed (ListBuildProfiles m) ''LIST_BUILD_PROFILES_FAILED'' ''list build profiles failed''
             BuildProfileList m
      else if Method r = MethodPost
      then with_profile js r body m (\<lambda>profile.
             respond (CreateBuildProfile (clk 0) profile m) (bad_request ''INVALID_BUILD_PROFILE'') (\<lambda>created m1.
               audited (clk 1) r
                 (event ''create_build_profile'' ''build_profile'' (FormatInt (bp_ID created))
                    (profile_metadata created))
                 ''failed to record build profile creation''
                 (JSON StatusCreated (BuildProfileItem created)) m1))
      else (method_not_allowed, m))"

definition getProfile :: "int \<Rightarrow> Memory \<Rightarrow> build_payload handler_result" where
  "getProfile i m =
     (case FindBuildProfileByID i m of
        Inl e \<Rightarrow> (not_found_as ''BUILD_PROFILE_NOT_FOUND'' ''build profile not found''
                   (server_error ''LOAD_BUILD_PROFILE_FAILED'' ''load build profile failed'') e, m)
      | Inr profile \<Rightarrow> (JSON StatusOK (BuildProfileItem profile), m))"

definition updateProfile ::
    "spec_json \<Rightarrow> (nat \<Rightarrow> gotime) \<Rightarrow> request \<Rightarrow> int \<Rightarrow> CreateProfileRequest option \<Rightarrow> Memory \<Rightarrow>
       build_payload handler_result" where
  "updateProfile js clk r i body m =
     with_profile js r body m (\<lambda>profile.
       respond (UpdateBuildProfile (clk 0) i profile m)
         (not_found_as ''BUILD_PROFILE_NOT_FOUND'' ''build profile not found''
            (bad_request ''INVALID_BUILD_PROFILE''))
         (\<lambda>updated m1.
            audited (clk 1) r
              (event ''update_build_profile'' ''build_profile'' (FormatInt (bp_ID updated))
                 (profile_metadata updated))
              ''failed to record build profile update'' (JSON StatusOK (BuildProfileItem updated)) m1))"

definition deleteProfile ::
    "(nat \<Rightarrow> gotime) \<Rightarrow> request \<Rightarrow> int \<Rightarrow> Memory \<Rightarrow> build_payload handler_result" where
  "deleteProfile clk r i m =
     respond (DeleteBuildProfile i m)
       (\<lambda>e. if e = ErrNotFound
            then Error StatusNotFound ''BUILD_PROFILE_NOT_FOUND'' ''build profile not found''
            else if e = ErrConflict
            then Error StatusConflict ''BUILD_PROFILE_HAS_JOBS''
                   ''build profile has build jobs and cannot be deleted''
            else Error StatusInternalServerError ''DELETE_BUILD_PROFILE_FAILED'' ''delete build profile failed'')
       (\<lambda>u m1.
          audited (clk 1) r (event ''delete_build_profile'' ''build_profile'' (FormatInt i) None)
            ''failed to record build profile deletion'' (JSON StatusOK BuildProfileDeleted) m1)"

section \<open>Job handlers\<close>

definition new_job :: "int \<Rightarrow> string \<Rightarrow> BuildJob" where
  "new_job profileID platform =
     zero_job\<lparr> bj_ProfileID := profileID, bj_Platform := platform, bj_Status := BuildJobQueued,
              bj_Runner := ''pending'' \<rparr>"

definition createJobForProfile ::
    "spec_json \<Rightarrow> (nat \<Rightarrow> gotime) \<Rightarrow> request \<Rightarrow> int \<Rightarrow> string \<Rightarrow> string \<Rightarrow> Memory \<Rightarrow>
       build_payload handler_result" where
  "createJobForProfile js clk r profileID platform creationMode m =
     (if \<not> oneOf platform supportedPlatforms
      then (Error StatusBadRequest ''INVALID_BUILD_JOB'' ''unsupported platform'', m)
      else (case FindBuildProfileByID profileID m of
          Inl e \<Rightarrow> (not_found_as ''BUILD_PROFILE_NOT_FOUND'' ''build profile not found''
                     (server_error ''LOAD_BUILD_PROFILE_FAILED'' ''load build profile failed'') e, m)
        | Inr profile \<Rightarrow>
            if \<not> profileEnablesPlatform js profile platform
            then (Error StatusBadRequest ''INVALID_BUILD_JOB'' ''profile does not enable platform'', m)
            else respond (CreateBuildJob (clk 0) (new_job profileID platform) m)
                   (bad_request ''INVALID_BUILD_JOB'') (\<lambda>job m1.
                     audited (clk 1) r
                       (event ''create_build_job'' ''build_job'' (FormatInt (bj_ID job))
                          (Some [(''profile_id'', AnyInt (bj_ProfileID job)),
                                 (''platform'', AnyString (bj_Platform job)),
                                 (''status'', AnyString (bj_Status job)),
                                 (''creation_mode'', AnyString creationMode)]))
                       ''failed to record build job creation''
                       (JSON StatusCreated (BuildJobItem job)) m1)))"

definition createProfileJob ::
    "spec_json \<Rightarrow> (nat \<Rightarrow> gotime) \<Rightarrow> request \<Rightarrow> int \<Rightarrow> CreateJobRequest option \<Rightarrow> Memory \<Rightarrow>
       build_payload handler_result" where
  "createProfileJob js clk r i body m =
     decoded body m (\<lambda>req.
       let platform = TrimSpace (cjr_Platform req)
       in if platform = []
          then (Error StatusBadRequest ''INVALID_BUILD_JOB'' ''platform is required'', m)
          else createJobForProfile js clk r i platform ''profile_item'' m)"

definition builds_Jobs ::
    "spec_json \<Rightarrow> (nat \<Rightarrow> gotime) \<Rightarrow> request \<Rightarrow> CreateJobRequest option \<Rightarrow> Memory \<Rightarrow>
       build_payload handler_result" where
  "builds_Jobs js clk r body m =
     (if Method r = MethodGet
      then listed (ListBuildJobs m) ''LIST_BUILD_JOBS_FAILED'' ''list build jobs failed'' BuildJobList m
      else if Method r = MethodPost
      then decoded body m (\<lambda>req.
             let platform = TrimSpace (cjr_Platform req)
             in if cjr_ProfileID req \<le> 0 \<or> platform = []
                then (Error StatusBadRequest ''INVALID_BUILD_JOB'' ''profile_id and platform are required'', m)
                else if \<not> oneOf platform supportedPlatforms
                then (Error StatusBadRequest ''INVALID_BUILD_JOB'' ''unsupported platform'', m)
                else createJobForProfile js clk r (cjr_ProfileID req) platform ''build_jobs'' m)
      else (method_not_allowed, m))"

definition builds_ProfileItem ::
    "spec_json \<Rightarrow> (nat \<Rightarrow> gotime) \<Rightarrow> request \<Rightarrow> CreateProfileRequest option \<Rightarrow> CreateJobRequest option \<Rightarrow>
       Memory \<Rightarrow> build_payload handler_result" where
  "builds_ProfileItem js clk r body job_body m =
     (let pre = (if HasPrefix (Path r) ''/api/v1/client-build-configs/'' then ''/api/v1/client-build-configs/''
                 else ''/api/v1/build-profiles/'');
          not_found = (Error StatusNotFound ''NOT_FOUND'' ''build profile endpoint not found'', m)
      in case pathParts (Path r) pre of
           None \<Rightarrow> not_found
         | Some parts \<Rightarrow>
             (case parsePositiveID (parts ! 0) of
                None \<Rightarrow> (Error StatusBadRequest ''INVALID_BUILD_PROFILE'' ''invalid build profile id'', m)
              | Some i \<Rightarrow>
                  if length parts = 1
                  then if Method r = MethodGet then getProfile i m
                       else if Method r = MethodPut then updateProfile js clk r i body m
                       else if Method r = MethodDelete then deleteProfile clk r i m
                       else (method_not_allowed, m)
                  else if length parts = 2 \<and> parts ! 1 = ''jobs''
                  then with_method MethodPost r m (createProfileJob js clk r i job_body m)
                  else not_found))"

definition job_error :: "repo_error \<Rightarrow> build_payload http_response" where
  "job_error = not_found_as ''BUILD_JOB_NOT_FOUND'' ''build job not found''
                 (server_error ''LOAD_BUILD_JOB_FAILED'' ''load build job failed'')"

definition with_job ::
    "int \<Rightarrow> Memory \<Rightarrow> (BuildJob \<Rightarrow> build_payload handler_result) \<Rightarrow> build_payload handler_result" where
  "with_job i m k = (case FindBuildJobByID i m of Inl e \<Rightarrow> (job_error e, m) | Inr job \<Rightarrow> k job)"

definition getJob :: "int \<Rightarrow> Memory \<Rightarrow> build_payload handler_result" where
  "getJob i m = with_job i m (\<lambda>job. (JSON StatusOK (BuildJobItem job), m))"

text \<open>The clock reading of \<^verbatim>\<open>cancelJob\<close> itself is \<open>clk 2\<close>.\<close>

definition cancelJob :: "(nat \<Rightarrow> gotime) \<Rightarrow> int \<Rightarrow> Memory \<Rightarrow> build_payload handler_result" where
  "cancelJob clk i m =
     with_job i m (\<lambda>job.
       if bj_Status job \<noteq> BuildJobQueued
       then (Error StatusConflict ''BUILD_JOB_NOT_CANCELABLE'' ''only queued build jobs can be canceled'', m)
       else respond (CancelBuildJob i ''canceled by administrator'' (clk 2) m)
              (server_error ''CANCEL_BUILD_JOB_FAILED'' ''cancel build job failed'')
              (\<lambda>canceled m1. (JSON StatusOK (BuildJobItem canceled), m1)))"

definition retryJob :: "(nat \<Rightarrow> gotime) \<Rightarrow> request \<Rightarrow> int \<Rightarrow> Memory \<Rightarrow> build_payload handler_result" where
  "retryJob clk r i m =
     with_job i m (\<lambda>job.
       if bj_Status job = BuildJobQueued \<or> bj_Status job = BuildJobRunning
       then (Error StatusConflict ''BUILD_JOB_NOT_RETRYABLE''
               ''queued or running build jobs cannot be retried'', m)
       else (case FindBuildProfileByID (bj_ProfileID job) m of
           Inl e \<Rightarrow> (not_found_as ''BUILD_PROFILE_NOT_FOUND'' ''build profile not found''
                      (server_error ''LOAD_BUILD_PROFILE_FAILED'' ''load build profile failed'') e, m)
         | Inr profile \<Rightarrow>
             respond (CreateBuildJob (clk 0) (new_job (bj_ProfileID job) (bj_Platform job)) m)
               (bad_request ''INVALID_BUILD_JOB'') (\<lambda>created m1.
                 audited (clk 1) r
                   (event ''create_build_job'' ''build_job'' (FormatInt (bj_ID created))
                      (Some [(''profile_id'', AnyInt (bj_ProfileID created)),
                             (''platform'', AnyString (bj_Platform created)),
                             (''status'', AnyString (bj_Status created)),
                             (''source_job_id'', AnyInt (bj_ID job)),
                             (''creation_mode'', AnyString ''retry'')]))
                   ''failed to record build job creation''
                   (JSON StatusCreated (BuildJobItem created)) m1)))"

definition listArtifacts :: "int \<Rightarrow> Memory \<Rightarrow> build_payload handler_result" where
  "listArtifacts i m =
     with_job i m (\<lambda>job.
       listed (ListBuildArtifacts i m) ''LIST_BUILD_ARTIFACTS_FAILED'' ''list build artifacts failed''
         BuildArtifactList m)"

definition maxLogBytes :: nat where
  "maxLogBytes = 1024 * 1024"

definition getJobLogs :: "(string \<Rightarrow> opened) \<Rightarrow> int \<Rightarrow> Memory \<Rightarrow> build_payload handler_result" where
  "getJobLogs fsys i m =
     with_job i m (\<lambda>job.
       if TrimSpace (bj_LogPath job) = []
       then (JSON StatusOK (BuildJobLogs \<lparr> bjl_JobID = bj_ID job, bjl_LogPath = [], bjl_Content = [],
                                           bjl_Truncated = False \<rparr>), m)
       else (let unreadable = (Error StatusInternalServerError ''READ_BUILD_JOB_LOG_FAILED''
                                 ''read build job log failed'', m)
             in case fsys (bj_LogPath job) of
                  OpenFails \<Rightarrow> (Error StatusNotFound ''BUILD_JOB_LOG_NOT_FOUND'' ''build job log not found'', m)
                | Directory \<Rightarrow> unreadable
                | RegularFile None \<Rightarrow> unreadable
                | RegularFile (Some content) \<Rightarrow>
                    let raw = take (maxLogBytes + 1) content;
                        truncated = length raw > maxLogBytes
                    in (JSON StatusOK (BuildJobLogs
                          \<lparr> bjl_JobID = bj_ID job, bjl_LogPath = bj_LogPath job,
                            bjl_Content = (if truncated then take maxLogBytes raw else raw),
                            bjl_Truncated = truncated \<rparr>), m)))"

definition builds_JobItem ::
    "(string \<Rightarrow> opened) \<Rightarrow> (nat \<Rightarrow> gotime) \<Rightarrow> request \<Rightarrow> Memory \<Rightarrow> build_payload handler_result" where
  "builds_JobItem fsys clk r m =
     (let not_found = (Error StatusNotFound ''NOT_FOUND'' ''build job endpoint not found'', m)
      in case pathParts (Path r) ''/api/v1/build-jobs/'' of
           None \<Rightarrow> not_found
         | Some parts \<Rightarrow>
             (case parsePositiveID (parts ! 0) of
                None \<Rightarrow> (Error StatusBadRequest ''INVALID_BUILD_JOB'' ''invalid build job id'', m)
              | Some i \<Rightarrow>
                  if length parts = 1 then with_method MethodGet r m (getJob i m)
                  else if length parts \<noteq> 2 then not_found
                  else if parts ! 1 = ''cancel'' then with_method MethodPost r m (cancelJob clk i m)
                  else if parts ! 1 = ''retry'' then with_method MethodPost r m (retryJob clk r i m)
                  else if parts ! 1 = ''artifacts'' then with_method MethodGet r m (listArtifacts i m)
                  else if parts ! 1 = ''logs'' then with_method MethodGet r m (getJobLogs fsys i m)
                  else not_found))"

section \<open>Artifact download\<close>

definition builds_ArtifactItem ::
    "(string \<Rightarrow> opened) \<Rightarrow> (nat \<Rightarrow> gotime) \<Rightarrow> request \<Rightarrow> Memory \<Rightarrow> build_payload handler_result" where
  "builds_ArtifactItem fsys clk r m =
     (let endpoint = (Error StatusNotFound ''NOT_FOUND'' ''build artifact endpoint not found'', m);
          no_file = (Error StatusNotFound ''BUILD_ARTIFACT_NOT_FOUND'' ''build artifact file not found'', m)
      in case pathParts (Path r) ''/api/v1/build-artifacts/'' of
           None \<Rightarrow> endpoint
         | Some parts \<Rightarrow>
             if length parts \<noteq> 2 \<or> parts ! 1 \<noteq> ''download'' then endpoint
             else with_method MethodGet r m
               (case parsePositiveID (parts ! 0) of
                  None \<Rightarrow> (Error StatusBadRequest ''INVALID_BUILD_ARTIFACT'' ''invalid build artifact id'', m)
                | Some i \<Rightarrow>
                    (case FindBuildArtifactByID i m of
                       Inl e \<Rightarrow> (not_found_as ''BUILD_ARTIFACT_NOT_FOUND'' ''build artifact not found''
                                  (server_error ''LOAD_BUILD_ARTIFACT_FAILED'' ''load build artifact failed'') e, m)
                     | Inr artifact \<Rightarrow>
                         if TrimSpace (ba_LocalPath artifact) = [] then no_file
                         else (case fsys (ba_LocalPath artifact) of
                             OpenFails \<Rightarrow> no_file
                           | Directory \<Rightarrow> no_file
                           | RegularFile content \<Rightarrow>
                               audited (clk 1) r
                                 (event ''download_build_artifact'' ''build_artifact'' (FormatInt (ba_ID artifact))
                                    (Some [(''build_job_id'', AnyInt (ba_BuildJobID artifact)),
                                           (''platform'', AnyString (ba_Platform artifact)),
                                           (''filename'', AnyString (ba_Filename artifact)),
                                           (''sha256'', AnyString (ba_SHA256 artifact)),
                                           (''size_bytes'', AnyInt (ba_SizeBytes artifact))]))
                                 ''failed to record build artifact download''
                                 (JSON StatusOK (BuildDownload (ba_Filename artifact) content)) m))))"

section \<open>Worker routes\<close>

abbreviation StatusServiceUnavailable :: nat where "StatusServiceUnavailable \<equiv> 503"

text \<open>A panic of the run is answered by no response (\<^term>\<open>None\<close>).\<close>

definition builds_RunNext ::
    "WorkerConfig option \<Rightarrow> 'v worker_world \<Rightarrow> request \<Rightarrow> files \<times> Memory \<Rightarrow>
       build_payload http_response option \<times> files \<times> Memory" where
  "builds_RunNext worker w r st =
     (case require_method MethodPost r of
        Some resp \<Rightarrow> (Some resp, st)
      | None \<Rightarrow>
          (case worker of
             None \<Rightarrow> (Some (Error StatusServiceUnavailable ''BUILD_WORKER_NOT_CONFIGURED''
                              ''build worker is not configured''), st)
           | Some cfg \<Rightarrow>
               (case RunOnce cfg w (fst st) (snd st) of
                  (None, st1) \<Rightarrow> (None, st1)
                | (Some (result, err), st1) \<Rightarrow>
                    if err = None \<or> err = Some ErrNoQueuedJobs \<or> bj_ID (rr_Job result) \<noteq> 0
                    then (Some (JSON StatusOK (BuildRunResult result)), st1)
                    else (Some (Error StatusInternalServerError ''BUILD_WORKER_FAILED'' ''build worker failed''), st1))))"

definition builds_Doctor ::
    "WorkerConfig option \<Rightarrow> 'v worker_world \<Rightarrow> request \<Rightarrow> files \<Rightarrow> build_payload http_response \<times> files" where
  "builds_Doctor worker w r fs =
     (case require_method MethodGet r of
        Some resp \<Rightarrow> (resp, fs)
      | None \<Rightarrow>
          (case worker of
             None \<Rightarrow> (Error StatusServiceUnavailable ''BUILD_WORKER_NOT_CONFIGURED''
                        ''build worker is not configured'', fs)
           | Some cfg \<Rightarrow>
               (case Doctor cfg w fs of
                  (Inl e, fs1) \<Rightarrow> (Error StatusInternalServerError ''BUILD_WORKER_DOCTOR_FAILED'' e, fs1)
                | (Inr result, fs1) \<Rightarrow> (JSON StatusOK (BuildDoctorResult result), fs1))))"

section \<open>Dispatch\<close>

lemma builds_ProfileItem_cases:
  obtains (answered) resp where "builds_ProfileItem js clk r body job_body m = (resp, m)"
  | (got) i where "builds_ProfileItem js clk r body job_body m = getProfile i m"
  | (updated) i where "builds_ProfileItem js clk r body job_body m = updateProfile js clk r i body m"
  | (deleted) i where "builds_ProfileItem js clk r body job_body m = deleteProfile clk r i m"
  | (created) i where
      "builds_ProfileItem js clk r body job_body m = with_method MethodPost r m (createProfileJob js clk r i job_body m)"
proof -
  define pre where "pre = (if HasPrefix (Path r) ''/api/v1/client-build-configs/'' then ''/api/v1/client-build-configs/''
      else ''/api/v1/build-profiles/'')"
  note def = builds_ProfileItem_def [of js clk r body job_body m, folded pre_def, unfolded Let_def]
  show thesis
  proof (cases "pathParts (Path r) pre")
    case None
    then show thesis using answered by (simp add: def)
  next
    case (Some parts)
    show thesis
    proof (cases "parsePositiveID (parts ! 0)")
      case None
      then show thesis using answered Some by (simp add: def)
    next
      case (Some i)
      have e: "builds_ProfileItem js clk r body job_body m =
          (if length parts = 1
           then if Method r = MethodGet then getProfile i m
                else if Method r = MethodPut then updateProfile js clk r i body m
                else if Method r = MethodDelete then deleteProfile clk r i m
                else (method_not_allowed, m)
           else if length parts = 2 \<and> parts ! 1 = ''jobs''
           then with_method MethodPost r m (createProfileJob js clk r i job_body m)
           else (Error StatusNotFound ''NOT_FOUND'' ''build profile endpoint not found'', m))"
        using Some \<open>pathParts (Path r) pre = Some parts\<close> by (simp add: def)
      show thesis
        using e answered got updated deleted created by metis
    qed
  qed
qed

section \<open>Audit\<close>

lemma build_ops_clean [simp]:
  "clean_op m (CreateBuildProfile now p m)" "clean_op m (UpdateBuildProfile now i p m)"
  "clean_op m (DeleteBuildProfile i m)" "clean_op m (CreateBuildJob now j m)"
  by (simp_all add: clean_op_def step_simps split: option.split)

lemma accounted_with_profile [intro]:
  "(\<And>p. accounted r m (k p)) \<Longrightarrow> accounted r m (with_profile js r' body m k)"
  by (auto simp: with_profile_def decoded_def checked_def Let_def split: option.split sum.split)

lemma accounted_with_job [intro]:
  "(\<And>j. accounted r m (k j)) \<Longrightarrow> accounted r m (with_job i m k)"
  by (auto simp: with_job_def split: sum.split)

lemma createJobForProfile_accounted: "accounted r m (createJobForProfile js clk r i platform mode m)"
  unfolding createJobForProfile_def
  by (auto split: sum.split intro!: accounted_respond accounted_audited simp del: oneOf_iff)

end
