(* ===== verification/Build_Properties.thy ===== *)
theory Build_Properties
  imports Build_Handler Handler_Invariant
begin

text \<open>
  What holds of builds over HTTP: every change is accounted for, stored profiles are valid and
  jobs have profiles, a cancelled job is never built, and log excerpts are bounded.
\<close>

section \<open>Profiles and jobs fit\<close>

definition profile_ok :: "BuildProfile \<Rightarrow> bool" where
  "profile_ok p \<longleftrightarrow> bp_AppName p \<notin> {[], ''RustDesk''} \<and> bundleIDPattern (bp_BundleID p)"

definition builds_inv :: "Memory \<Rightarrow> bool" where
  "builds_inv m \<longleftrightarrow>
     (\<forall>p \<in> set (buildProfiles m). profile_ok p) \<and>
     (\<forall>j \<in> set (buildJobs m). bj_Platform j \<in> set supportedPlatforms \<and>
                               (\<exists>p \<in> set (buildProfiles m). bp_ID p = bj_ProfileID j))"

interpretation builds: handler_invariant builds_inv
  by unfold_locales (simp add: builds_inv_def CreateAuditEvent_def Let_def)

lemma spec_Validate_None:
  "spec_Validate s = None \<Longrightarrow> app_Name (spec_App s) \<notin> {[], ''RustDesk''} \<and> bundleIDPattern (app_BundleID (spec_App s))"
  by (auto simp: spec_Validate_def Let_def split: if_splits)

lemma profileFromSpec_Inr:
  "profileFromSpec js name spec uid = Inr p \<Longrightarrow>
     bp_AppName p = app_Name (spec_App spec) \<and> bp_BundleID p = app_BundleID (spec_App spec)"
  by (auto simp: profileFromSpec_def split: sum.splits)

lemma builds_with_profile:
  assumes "builds_inv m" "\<And>p. profile_ok p \<Longrightarrow> builds_inv (snd (k p))"
  shows "builds_inv (snd (with_profile js r body m k))"
  using assms spec_Validate_None profileFromSpec_Inr unfolding with_profile_def Let_def
  by (intro builds.decoded builds.checked)
     (auto split: option.split sum.split simp: profile_ok_def)

lemma builds_CreateBuildProfile:
  "builds_inv m \<Longrightarrow> profile_ok p \<Longrightarrow> builds_inv (snd (CreateBuildProfile now p m))"
  by (auto simp: CreateBuildProfile_def builds_inv_def Let_def profile_ok_def)

lemma builds_UpdateBuildProfile:
  assumes "builds_inv m" "profile_ok p"
  shows "builds_inv (snd (UpdateBuildProfile now i p m))"
proof -
  let ?f = "\<lambda>q. p\<lparr> bp_ID := i, bp_CreatedBy := bp_CreatedBy q, bp_CreatedAt := bp_CreatedAt q, bp_UpdatedAt := now \<rparr>"
  have ids: "bp_ID ` set (update_first (\<lambda>q. bp_ID q = i) ?f ps) = bp_ID ` set ps" for ps
    by (induction ps) auto
  have ok: "\<forall>q \<in> set (update_first (\<lambda>q. bp_ID q = i) ?f (buildProfiles m)). profile_ok q"
    by (rule ball_update_first) (use assms in \<open>auto simp: builds_inv_def profile_ok_def\<close>)
  have "\<exists>q \<in> set (update_first (\<lambda>q. bp_ID q = i) ?f (buildProfiles m)). bp_ID q = k"
    if "\<exists>q \<in> set (buildProfiles m). bp_ID q = k" for k
    using that ids [of "buildProfiles m"] by (metis (no_types, lifting) image_iff)
  then show ?thesis using assms(1) ok
    by (auto simp: UpdateBuildProfile_def update_row_def builds_inv_def split: option.split)
qed

lemma builds_DeleteBuildProfile:
  assumes "builds_inv m" shows "builds_inv (snd (DeleteBuildProfile i m))"
proof -
  have "q \<in> set (delete_first (\<lambda>p. bp_ID p = i) ps)" if "q \<in> set ps" "bp_ID q \<noteq> i" for q ps
    using that by (induction ps) auto
  then show ?thesis using assms set_delete_first [of "\<lambda>p. bp_ID p = i" "buildProfiles m"]
    by (fastforce simp: DeleteBuildProfile_def delete_row_def builds_inv_def list_ex_iff split: option.split)
qed

lemma builds_CreateBuildJob:
  "builds_inv m \<Longrightarrow> FindBuildProfileByID i m = Inr p \<Longrightarrow> platform \<in> set supportedPlatforms \<Longrightarrow>
     builds_inv (snd (CreateBuildJob now (new_job i platform) m))"
  by (auto simp: CreateBuildJob_def builds_inv_def new_job_def Let_def FindBuildProfileByID_def
      split: option.splits dest!: find_SomeD)

lemma builds_same_orders:
  assumes "same_orders m m'" "builds_inv m" shows "builds_inv m'"
proof -
  let ?f = "\<lambda>j. (bj_ID j, bj_ProfileID j, bj_Platform j)"
  have eq: "set (map ?f (buildJobs m')) = set (map ?f (buildJobs m))" "buildProfiles m' = buildProfiles m"
    using assms(1) by (simp_all only: same_orders_def)
  have "\<exists>k \<in> set (buildJobs m). bj_ProfileID k = bj_ProfileID j \<and> bj_Platform k = bj_Platform j"
    if "j \<in> set (buildJobs m')" for j
  proof -
    have "?f j \<in> set (map ?f (buildJobs m'))" using that by simp
    then show ?thesis unfolding eq(1) by auto
  qed
  note old = this
  have "bj_Platform j \<in> set supportedPlatforms \<and> (\<exists>p \<in> set (buildProfiles m'). bp_ID p = bj_ProfileID j)"
    if "j \<in> set (buildJobs m')" for j
    using old [OF that] assms(2) unfolding builds_inv_def eq(2) by metis
  then show ?thesis using assms(2) unfolding builds_inv_def eq(2) by blast
qed

lemma builds_Profiles_keeps: "builds_inv m \<Longrightarrow> builds_inv (snd (builds_Profiles js clk r body m))"
  unfolding builds_Profiles_def
  by (intro builds.steps builds_with_profile builds_CreateBuildProfile builds.same)

lemma createJobForProfile_keeps:
  "builds_inv m \<Longrightarrow> builds_inv (snd (createJobForProfile js clk r i platform mode m))"
  unfolding createJobForProfile_def
  by (auto split: sum.split intro!: builds.respond builds.audited builds_CreateBuildJob)

lemma createProfileJob_keeps: "builds_inv m \<Longrightarrow> builds_inv (snd (createProfileJob js clk r i body m))"
  unfolding createProfileJob_def Let_def
  by (intro builds.steps builds.same createJobForProfile_keeps)

lemma builds_Jobs_keeps: "builds_inv m \<Longrightarrow> builds_inv (snd (builds_Jobs js clk r body m))"
  unfolding builds_Jobs_def Let_def
  by (intro builds.steps builds.same createJobForProfile_keeps)

lemma profile_item_keeps:
  "builds_inv m \<Longrightarrow> builds_inv (snd (getProfile i m))"
  "builds_inv m \<Longrightarrow> builds_inv (snd (updateProfile js clk r i body m))"
  "builds_inv m \<Longrightarrow> builds_inv (snd (deleteProfile clk r i m))"
  unfolding getProfile_def updateProfile_def deleteProfile_def
  by (auto split: sum.split intro!: builds_with_profile builds.respond builds.audited
      builds_UpdateBuildProfile builds_DeleteBuildProfile)

lemma builds_ProfileItem_keeps:
  "builds_inv m \<Longrightarrow> builds_inv (snd (builds_ProfileItem js clk r body job_body m))"
  by (cases js clk r body job_body m rule: builds_ProfileItem_cases)
    (simp_all add: builds.with_method createProfileJob_keeps profile_item_keeps)

lemma cancelJob_keeps: "builds_inv m \<Longrightarrow> builds_inv (snd (cancelJob clk i m))"
  unfolding cancelJob_def with_job_def
  by (auto split: sum.split simp: respond_def CancelBuildJob_def
      intro: builds_same_orders [OF same_orders_finish] split: prod.split)
     (metis builds_same_orders same_orders_finish snd_conv)+

lemma builds_find_job:
  "builds_inv m \<Longrightarrow> FindBuildJobByID i m = Inr j \<Longrightarrow> bj_Platform j \<in> set supportedPlatforms"
  by (auto simp: FindBuildJobByID_def builds_inv_def split: option.splits dest!: find_SomeD)

lemma retryJob_keeps: "builds_inv m \<Longrightarrow> builds_inv (snd (retryJob clk r i m))"
  unfolding retryJob_def with_job_def
  by (auto split: sum.split intro!: builds.respond builds.audited builds_CreateBuildJob
      dest: builds_find_job)

lemma builds_JobItem_keeps: "builds_inv m \<Longrightarrow> builds_inv (snd (builds_JobItem fsys clk r m))"
  unfolding builds_JobItem_def Let_def getJob_def listArtifacts_def getJobLogs_def
  by (auto split: option.split sum.split opened.split intro!: builds.with_method cancelJob_keeps
      retryJob_keeps builds.listed simp: with_job_def Let_def)

lemma builds_RunNext_keeps:
  assumes "builds_inv (snd st)" shows "builds_inv (snd (snd (builds_RunNext worker w r st)))"
proof -
  have "builds_inv m1" if "RunOnce cfg w (fst st) (snd st) = (res, fs1, m1)" for cfg res fs1 m1
    using builds_same_orders [OF ordering.RunOnce_rel assms, of cfg w "fst st"] that by simp
  then show ?thesis using assms
    by (auto simp: builds_RunNext_def split: option.split prod.split)
qed

section \<open>Audit\<close>

lemma deleteProfile_accounted: "accounted r m (deleteProfile clk r i m)"
  unfolding deleteProfile_def by (intro accounted_intros build_ops_clean; simp)

lemma updateProfile_accounted: "accounted r m (updateProfile js clk r i body m)"
  unfolding updateProfile_def by (intro accounted_with_profile accounted_intros build_ops_clean; simp)

lemma builds_Profiles_accounted: "accounted r m (builds_Profiles js clk r body m)"
  unfolding builds_Profiles_def by (intro accounted_with_profile accounted_intros build_ops_clean; simp)

lemma createProfileJob_accounted: "accounted r m (createProfileJob js clk r i body m)"
  unfolding createProfileJob_def Let_def by (intro accounted_intros createJobForProfile_accounted)

lemma builds_Jobs_accounted: "accounted r m (builds_Jobs js clk r body m)"
  unfolding builds_Jobs_def Let_def by (intro accounted_intros createJobForProfile_accounted)

lemma retryJob_accounted: "accounted r m (retryJob clk r i m)"
  unfolding retryJob_def
  by (intro accounted_with_job accounted_if accounted_same)
     (auto split: sum.split intro!: accounted_respond accounted_audited)

lemma builds_ProfileItem_accounted: "accounted r m (builds_ProfileItem js clk r body job_body m)"
  by (cases js clk r body job_body m rule: builds_ProfileItem_cases)
    (auto simp: getProfile_def split: sum.split intro: accounted_method createProfileJob_accounted
      updateProfile_accounted deleteProfile_accounted)

lemma builds_ArtifactItem_accounted: "accounted r m (builds_ArtifactItem fsys clk r m)"
  unfolding builds_ArtifactItem_def Let_def
  by (auto split: option.split sum.split opened.split intro!: accounted_method accounted_audited)

section \<open>Consistency\<close>



section \<open>Cancelled jobs and logs\<close>

lemma update_first_mem: "find P xs = Some x \<Longrightarrow> f x \<in> set (update_first P f xs)"
  by (induction xs) (auto split: if_splits)

lemma cancel_takes:
  assumes "cancelJob clk i m = (JSON n p, m1)"
  shows "job_taken i m1 \<and> mem_step m m1 \<and> n = 200 \<and>
         (\<exists>j. FindBuildJobByID i m = Inr j \<and> bj_Status j = BuildJobQueued)"
proof -
  obtain j where j: "FindBuildJobByID i m = Inr j" "bj_Status j = BuildJobQueued"
    using assms by (auto simp: cancelJob_def with_job_def job_error_def not_found_as_def server_error_def
        split: sum.splits if_splits)
  obtain res where c: "CancelBuildJob i ''canceled by administrator'' (clk 2) m = (res, m1)" "n = 200"
    using assms j by (auto simp: cancelJob_def with_job_def respond_def server_error_def
        split: prod.splits sum.splits)
  have "find (\<lambda>j. bj_ID j = i) (buildJobs m) = Some j"
    using j(1) by (auto simp: FindBuildJobByID_def split: option.splits)
  let ?g = "\<lambda>j. j\<lparr> bj_Status := BuildJobCanceled, bj_LogPath := [],
      bj_ErrorMessage := ''canceled by administrator'', bj_FinishedAt := Some (clk 2) \<rparr>"
  have "bj_ID j = i" using find_SomeD [OF \<open>find _ _ = _\<close>] by simp
  have m1: "m1 = m\<lparr> buildJobs := update_first (\<lambda>j. bj_ID j = i) ?g (buildJobs m) \<rparr>"
    using c(1) \<open>find _ _ = _\<close> by (simp add: CancelBuildJob_def finishBuildJob_def update_row_def)
  have "job_taken i m1"
    unfolding job_taken_def m1 list_ex_iff
    by (rule bexI [of _ "?g j"]) (use update_first_mem [OF \<open>find _ _ = _\<close>, of ?g] \<open>bj_ID j = i\<close> in simp_all)
  moreover have "mem_step m m1" using mem_step.CancelBuildJob c(1) by (metis snd_conv)
  ultimately show ?thesis using j c(2) by blast
qed

text \<open>The excerpt of a build log: the first mebibyte, marked when there is more.\<close>

lemma log_excerpt:
  assumes "FindBuildJobByID i m = Inr job" "TrimSpace (bj_LogPath job) \<noteq> []"
    and "fsys (bj_LogPath job) = RegularFile (Some content)"
  shows "getJobLogs fsys i m =
     (JSON 200 (BuildJobLogs \<lparr> bjl_JobID = bj_ID job, bjl_LogPath = bj_LogPath job,
        bjl_Content = take maxLogBytes content, bjl_Truncated = (maxLogBytes < length content) \<rparr>), m)"
  using assms by (auto simp: getJobLogs_def with_job_def Let_def min_def)

text \<open>A job cancelled over HTTP is never built: a cancel request is answered 200 only for a queued
  job, and after any later repository calls no claim of the worker, and so no run, gets this
  job.\<close>

lemma cancelled_job_never_built:
  assumes reach: "mem_reach (NewMemoryWithInitialAdmin t email h) m"
    and cancel: "builds_JobItem fsys clk r m = (JSON n p, m1)"
      "pathParts (Path r) ''/api/v1/build-jobs/'' = Some [ids, ''cancel'']" "parsePositiveID ids = Some i"
    and later: "mem_reach m1 m2" "ClaimNextBuildJob runner at m2 = (Inr j, m3)"
  shows "bj_ID j \<noteq> i \<and> (\<exists>j0. FindBuildJobByID i m = Inr j0 \<and> bj_Status j0 = BuildJobQueued)"
proof -
  have "cancelJob clk i m = (JSON n p, m1)"
    using cancel by (auto simp: builds_JobItem_def with_method_def require_method_def method_not_allowed_def
        split: if_splits)
  note c = cancel_takes [OF this]
  have "mem_reach m m2" using mem_reach_trans [OF later(1)] mem_reach_one c by blast
  then have d: "distinct (map bj_ID (buildJobs m2))"
    using reach reach_ids distinct_jobs mem_reach_trans by blast
  have taken: "job_taken i m2" using job_taken_reach [OF later(1)] c by blast
  obtain j0 pre post where "buildJobs m2 = pre @ j0 # post" "bj_Status j0 = BuildJobQueued"
    "j = j0\<lparr> bj_Status := BuildJobRunning, bj_Runner := runner, bj_StartedAt := Some at \<rparr>"
    using claimD [OF later(2)] by blast
  then have "j0 \<in> set (buildJobs m2)" "bj_Status j0 = BuildJobQueued" "bj_ID j = bj_ID j0" by simp_all
  then show ?thesis using not_taken_queued [OF d] taken c by metis
qed

lemma cancelled_job_never_built_witness:
  "\<exists>m1 j m3. builds_JobItem (\<lambda>p. OpenFails) (\<lambda>n. 60)
       \<lparr> Method = ''POST'', Path = ''/api/v1/build-jobs/102/cancel'', RemoteAddr = [], Headers = [],
         Cookies = [], Query = [], Context = None \<rparr> wit_jobs = (JSON 200 (BuildJobItem j), m1) \<and>
     bj_Status j = ''canceled'' \<and>
     (\<exists>j2. ClaimNextBuildJob ''w'' 61 m1 = (Inr j2, m3) \<and> bj_ID j2 = 103 \<and> bj_ID j2 \<noteq> 102)"
proof -
  let ?r = "\<lparr> Method = ''POST'', Path = ''/api/v1/build-jobs/102/cancel'', RemoteAddr = [], Headers = [],
         Cookies = [], Query = [], Context = None \<rparr> :: request"
  let ?x = "builds_JobItem (\<lambda>p. OpenFails) (\<lambda>n. 60) ?r wit_jobs"
  have a: "case fst ?x of JSON n (BuildJobItem j) \<Rightarrow> n = 200 \<and> bj_Status j = ''canceled'' | _ \<Rightarrow> False"
    by code_simp
  have b: "case fst (ClaimNextBuildJob ''w'' 61 (snd ?x)) of Inr j \<Rightarrow> bj_ID j = 103 | Inl e \<Rightarrow> False" by code_simp
  from a obtain j where "fst ?x = JSON 200 (BuildJobItem j)" "bj_Status j = ''canceled''"
    by (auto split: http_response.splits build_payload.splits)
  then obtain m1 where x: "?x = (JSON 200 (BuildJobItem j), m1)" by (metis prod.collapse)
  from b obtain j2 where "fst (ClaimNextBuildJob ''w'' 61 m1) = Inr j2" "bj_ID j2 = 103"
    unfolding x by (auto split: sum.splits)
  then obtain m3 where y: "ClaimNextBuildJob ''w'' 61 m1 = (Inr j2, m3)" by (metis prod.collapse)
  have "pathParts (Path ?r) ''/api/v1/build-jobs/'' = Some [''102'', ''cancel'']" "parsePositiveID ''102'' = Some 102"
    by code_simp+
  then have "bj_ID j2 \<noteq> 102"
    using cancelled_job_never_built [OF wit_jobs_reach [unfolded wit_start_def] x _ _ mem_reach.start y] by blast
  then show ?thesis using x y \<open>bj_ID j2 = 103\<close> \<open>bj_Status j = _\<close> by blast
qed

end
