(* ===== verification/Asset_Storage.thy ===== *)
theory Asset_Storage
  imports Paths Handler_Core
begin

text \<open>
  Branding assets (\<^verbatim>\<open>api/internal/storage/local.go\<close>, \<^verbatim>\<open>api/internal/assets/handler.go\<close>): where an
  upload is stored, what is accepted, and the upload handler. The files are a map from paths to
  contents; what the operating system answers to each call (\<open>io\<close>), SHA-256, the bytes of
  \<^verbatim>\<open>crypto/rand\<close>, the system's table of media types and the parsed multipart body are arguments.
\<close>

section \<open>Local store\<close>

record LocalStore =
  ls_Root :: string

definition SafePath :: "string + string \<Rightarrow> LocalStore \<Rightarrow> string list \<Rightarrow> string + string" where
  "SafePath cwd s parts =
     (case Abs cwd (ls_Root s) of
        Inl e \<Rightarrow> Inl e
      | Inr root \<Rightarrow>
          (case Abs cwd (Join (root # parts)) of
             Inl e \<Rightarrow> Inl e
           | Inr clean \<Rightarrow>
               if clean \<noteq> root \<and> \<not> HasPrefix clean (root @ [slash])
               then Inl ''path traversal rejected'' else Inr clean))"

record AssetValidator =
  av_MaxBytes :: "64 word"

definition ValidateBrandingAsset ::
    "(string \<Rightarrow> string) \<Rightarrow> AssetValidator \<Rightarrow> string \<Rightarrow> int \<Rightarrow> string option" where
  "ValidateBrandingAsset mime v filename sz =
     (if sz \<le> 0 \<or> sz > sint (av_MaxBytes v) then Some ''branding asset size exceeds limit''
      else let ext = ToLower (Ext filename)
           in if ext = ''.png'' \<or> ext = ''.ico'' \<or> ext = ''.icns'' then None
              else if mime ext = ''application/x-msdownload'' \<or> ext = ''.exe'' \<or> ext = ''.dll'' \<or> ext = ''.sh''
              then Some ''executable upload rejected''
              else Some ''unsupported branding asset type'')"

definition SHA256Hex :: "(string \<Rightarrow> string) \<Rightarrow> string \<Rightarrow> string" where
  "SHA256Hex sha content = hex_encode (sha content)"

section \<open>Upload\<close>

text \<open>
  How the calls of one upload end: the error of each call, for the copy with the number of
  bytes written before it, and whether \<^verbatim>\<open>os.Remove\<close> works.
\<close>

record io_outcome =
  io_Mkdir :: "string option"
  io_Open :: "string option"
  io_Copy :: "(nat \<times> string) option"
  io_Close :: "string option"
  io_Rename :: "string option"
  io_Remove :: bool

record FileHeader =
  fh_Filename :: string
  fh_Size :: int

record BrandingAssetResponse =
  bar_ID :: string
  bar_URI :: string
  bar_Filename :: string
  bar_SHA256 :: string
  bar_Size :: int

text \<open>\<^verbatim>\<open>copyAndHash\<close>: the bytes written, and the hash with the size or the error.\<close>

definition copyAndHash ::
    "(string \<Rightarrow> string) \<Rightarrow> io_outcome \<Rightarrow> string \<Rightarrow> 64 word \<Rightarrow> string \<times> (string + string \<times> int)" where
  "copyAndHash sha io content maxBytes =
     (let limited = take (nat (sint (maxBytes + 1))) content
      in case io_Copy io of
           Some (n, e) \<Rightarrow> (take n limited, Inl e)
         | None \<Rightarrow>
             if int (length limited) > sint maxBytes
             then (limited, Inl ''branding asset size exceeds limit'')
             else (limited, Inr (SHA256Hex sha limited, int (length limited))))"

definition randomID :: "string + string \<Rightarrow> string + string" where
  "randomID rnd = map_sum id hex_encode rnd"

definition remove_file :: "io_outcome \<Rightarrow> string \<Rightarrow> files \<Rightarrow> files" where
  "remove_file io path fs = (if io_Remove io then fs(path := None) else fs)"

definition rename_file :: "string \<Rightarrow> string \<Rightarrow> files \<Rightarrow> files" where
  "rename_file old new fs = (fs(new := fs old))(old := None)"

definition tmp_path :: "string \<Rightarrow> string" where
  "tmp_path target = target @ ''.tmp''"

text \<open>The part of \<^verbatim>\<open>saveBrandingAsset\<close> that writes the file.\<close>

definition store_upload ::
    "(string \<Rightarrow> string) \<Rightarrow> (string \<Rightarrow> string) \<Rightarrow> io_outcome \<Rightarrow> AssetValidator \<Rightarrow> string \<Rightarrow> string \<Rightarrow>
       string \<Rightarrow> files \<Rightarrow> (string + string \<times> int) \<times> files" where
  "store_upload sha mime io v originalName targetPath content fs =
     (case io_Mkdir io of
        Some e \<Rightarrow> (Inl e, fs)
      | None \<Rightarrow>
     (case io_Open io of
        Some e \<Rightarrow> (Inl e, fs)
      | None \<Rightarrow>
          let tmp = tmp_path targetPath;
              (written, copied) = copyAndHash sha io content (av_MaxBytes v);
              fs1 = fs(tmp \<mapsto> written)
          in case copied of
               Inl e \<Rightarrow> (Inl e, remove_file io tmp fs1)
             | Inr (digest, sz) \<Rightarrow>
                 (case io_Close io of
                    Some e \<Rightarrow> (Inl e, remove_file io tmp fs1)
                  | None \<Rightarrow>
                 (case ValidateBrandingAsset mime v originalName sz of
                    Some e \<Rightarrow> (Inl e, remove_file io tmp fs1)
                  | None \<Rightarrow>
                 (case io_Rename io of
                    Some e \<Rightarrow> (Inl e, remove_file io tmp fs1)
                  | None \<Rightarrow> (Inr (digest, sz), rename_file tmp targetPath fs1))))))"

definition saveBrandingAsset ::
    "(string \<Rightarrow> string) \<Rightarrow> (string \<Rightarrow> string) \<Rightarrow> io_outcome \<Rightarrow> string + string \<Rightarrow> string + string \<Rightarrow>
       LocalStore \<Rightarrow> AssetValidator \<Rightarrow> string \<Rightarrow> FileHeader option \<Rightarrow> files \<Rightarrow>
       (string + BrandingAssetResponse) \<times> files" where
  "saveBrandingAsset sha mime io rnd cwd s v content header fs =
     (case header of
        None \<Rightarrow> (Inl ''file field is required'', fs)
      | Some h \<Rightarrow>
          let originalName = Base (fh_Filename h)
          in if originalName = dot \<or> originalName = [slash] \<or> TrimSpace originalName = []
             then (Inl ''filename is required'', fs)
             else (case ValidateBrandingAsset mime v originalName (fh_Size h) of
                Some e \<Rightarrow> (Inl e, fs)
              | None \<Rightarrow>
             (case randomID rnd of
                Inl e \<Rightarrow> (Inl e, fs)
              | Inr rid \<Rightarrow>
                  let generatedName = rid @ ToLower (Ext originalName)
                  in case SafePath cwd s [''branding'', generatedName] of
                       Inl e \<Rightarrow> (Inl e, fs)
                     | Inr targetPath \<Rightarrow>
                         (case store_upload sha mime io v originalName targetPath content fs of
                            (Inl e, fs1) \<Rightarrow> (Inl e, fs1)
                          | (Inr (digest, sz), fs1) \<Rightarrow>
                              (Inr \<lparr> bar_ID = rid, bar_URI = ''asset://'' @ generatedName,
                                     bar_Filename = generatedName, bar_SHA256 = digest,
                                     bar_Size = sz \<rparr>, fs1)))))"

section \<open>Handler\<close>

text \<open>
  What \<^verbatim>\<open>ParseMultipartForm\<close> and \<^verbatim>\<open>FormFile\<close> make of the body under the size limit of the
  handler.
\<close>

datatype multipart = NotMultipart | NoFile | FormFile string "FileHeader option"

definition brandingUploadAuditEvent :: "BrandingAssetResponse \<Rightarrow> Event" where
  "brandingUploadAuditEvent asset =
     event ''upload_branding_asset'' ''branding_asset'' (bar_ID asset)
       (Some [(''filename'', AnyString (bar_Filename asset)), (''sha256'', AnyString (bar_SHA256 asset)),
              (''size_bytes'', AnyInt (bar_Size asset)), (''uri'', AnyString (bar_URI asset))])"

definition assets_Branding ::
    "(string \<Rightarrow> string) \<Rightarrow> (string \<Rightarrow> string) \<Rightarrow> io_outcome \<Rightarrow> string + string \<Rightarrow> string + string \<Rightarrow>
       LocalStore \<Rightarrow> AssetValidator \<Rightarrow> (nat \<Rightarrow> gotime) \<Rightarrow> request \<Rightarrow> multipart \<Rightarrow> files \<times> Memory \<Rightarrow>
       BrandingAssetResponse http_response \<times> files \<times> Memory" where
  "assets_Branding sha mime io rnd cwd s v clk r body st =
     (let bad = Error StatusBadRequest ''INVALID_BRANDING_ASSET''
      in case require_method MethodPost r of
           Some resp \<Rightarrow> (resp, st)
         | None \<Rightarrow>
             (case body of
                NotMultipart \<Rightarrow> (bad ''multipart asset upload is required'', st)
              | NoFile \<Rightarrow> (bad ''file field is required'', st)
              | FormFile content header \<Rightarrow>
                  (case saveBrandingAsset sha mime io rnd cwd s v content header (fst st) of
                     (Inl e, fs1) \<Rightarrow> (bad e, fs1, snd st)
                   | (Inr asset, fs1) \<Rightarrow>
                       (case audited (clk 1) r (brandingUploadAuditEvent asset)
                               ''failed to record branding asset upload'' (JSON StatusCreated asset) (snd st) of
                          (resp, m1) \<Rightarrow> (resp, fs1, m1)))))"

section \<open>Facts\<close>

lemma Abs_absE:
  assumes "Abs cwd path = Inr root" "\<And>w. cwd = Inr w \<Longrightarrow> IsAbs w"
  shows "\<exists>ps. root = abs_path ps \<and> (\<forall>p \<in> set ps. plain_name p)"
proof (cases "IsAbs path")
  case True
  then show ?thesis using assms(1) Clean_absE [of path] by (auto simp: Abs_def)
next
  case False
  then obtain w where w: "cwd = Inr w" "root = Join [w, path]"
    using assms(1) by (auto simp: Abs_def split: sum.splits)
  then have "IsAbs w" using assms(2) by simp
  then have "Join [w, path] = Clean (w @ slash # path)"
    by (auto simp: Join_def dest!: IsAbsE)
  then show ?thesis using w Clean_absE [of "w @ slash # path"] \<open>IsAbs w\<close> by simp
qed

lemma Join_abs:
  assumes "IsAbs root" shows "IsAbs (Join (root # parts))"
proof -
  have "Join (root # parts) = Clean (join_slash (root # parts))"
    using assms by (auto simp: Join_def dest!: IsAbsE)
  moreover have "IsAbs (join_slash (root # parts))"
    using assms by (cases parts) auto
  ultimately show ?thesis using Clean_absE by (metis IsAbs_abs_path)
qed

lemma SafePath_cases:
  assumes "Abs cwd (ls_Root s) = Inr (abs_path ps)"
  shows "SafePath cwd s parts =
     (let clean = Clean (Join (abs_path ps # parts))
      in if clean \<noteq> abs_path ps \<and> \<not> HasPrefix clean (abs_path ps @ [slash])
         then Inl ''path traversal rejected'' else Inr clean)"
  using assms Join_abs [of "abs_path ps" parts]
  by (simp add: SafePath_def Abs_def [of cwd "Join _"] Let_def)

lemma Join_names:
  assumes "\<forall>p \<in> set ps. plain_name p" "ps \<noteq> []" "\<forall>q \<in> set qs. plain_name q"
  shows "Join (abs_path ps # qs) = abs_path (ps @ qs)"
proof (cases "qs = []")
  case True
  then show ?thesis using assms by (simp add: Join_def abs_path_def [of ps, symmetric])
next
  case False
  have "Join (abs_path ps # qs) = Clean (join_slash (abs_path ps # qs))"
    by (simp add: Join_def abs_path_def)
  also have "join_slash (abs_path ps # qs) = abs_path (ps @ qs)"
    using False assms(2) by (cases qs) (simp_all add: abs_path_append)
  also have "\<forall>p \<in> set (ps @ qs). plain_name p" using assms(1,3) by auto
  then have "Clean (abs_path (ps @ qs)) = abs_path (ps @ qs)" by (rule Clean_abs_path)
  finally show ?thesis .
qed

lemma SafePath_names:
  assumes "Abs cwd (ls_Root s) = Inr (abs_path ps)" "ps \<noteq> []"
    and "\<forall>p \<in> set ps. plain_name p" "\<forall>q \<in> set qs. plain_name q"
  shows "SafePath cwd s qs = Inr (abs_path (ps @ qs))"
proof -
  have "\<forall>p \<in> set (ps @ qs). plain_name p" using assms(3,4) by auto
  then have "Clean (Join (abs_path ps # qs)) = abs_path (ps @ qs)"
    using Join_names [OF assms(3,2,4)] Clean_abs_path by simp
  moreover have "abs_path (ps @ qs) = abs_path ps \<or> HasPrefix (abs_path (ps @ qs)) (abs_path ps @ [slash])"
    using assms(2) by (cases "qs = []") (simp_all add: abs_path_append HasPrefix_def)
  ultimately show ?thesis using SafePath_cases [OF assms(1), of qs] by (auto simp: Let_def)
qed

section \<open>Properties\<close>

text \<open>A path the local store accepts for upload is the root directory or a path below it: its
  components are those of the root followed by others, and none of them is empty, a dot or two
  dots.\<close>

lemma safe_path_confined:
  assumes "\<And>w. cwd = Inr w \<Longrightarrow> IsAbs w" and "SafePath cwd s parts = Inr path"
  shows "\<exists>root rest. Abs cwd (ls_Root s) = Inr root \<and>
           components path = components root @ rest \<and>
           path = abs_path (components path) \<and> (\<forall>p \<in> set (components path). plain_name p)"
proof -
  obtain root where "Abs cwd (ls_Root s) = Inr root"
    using assms(2) by (cases "Abs cwd (ls_Root s)") (auto simp: SafePath_def)
  then obtain ps where ps: "Abs cwd (ls_Root s) = Inr (abs_path ps)" "\<forall>p \<in> set ps. plain_name p"
    using Abs_absE [OF _ assms(1)] by blast
  obtain qs where qs: "Clean (Join (abs_path ps # parts)) = abs_path qs" "\<forall>p \<in> set qs. plain_name p"
    using Clean_absE [OF Join_abs [OF IsAbs_abs_path]] by blast
  have path: "path = abs_path qs"
    and below: "abs_path qs = abs_path ps \<or> HasPrefix (abs_path qs) (abs_path ps @ [slash])"
    using assms(2) by (auto simp: SafePath_cases [OF ps(1)] qs(1) Let_def split: if_splits)
  have "\<exists>rest. qs = ps @ rest"
    using below
  proof
    assume "abs_path qs = abs_path ps"
    then have "qs = ps" using components_abs_path ps(2) qs(2) by metis
    then show ?thesis by simp
  qed (use abs_path_below ps(2) qs(2) in blast)
  then show ?thesis using ps qs(2) path by auto
qed

lemma safe_path_confined_witness:
  "\<exists>rest. components ''/srv/data/branding/a.png'' = components ''/srv/data'' @ rest"
proof -
  have "SafePath (Inr ''/srv'') \<lparr> ls_Root = ''./data'' \<rparr> [''x'', ''..'', ''branding'', ''a.png''] =
      Inr ''/srv/data/branding/a.png''" by code_simp
  from safe_path_confined [OF _ this] obtain root rest where
    "Abs (Inr ''/srv'') (ls_Root \<lparr> ls_Root = ''./data'' \<rparr>) = Inr root"
    "components ''/srv/data/branding/a.png'' = components root @ rest"
    by (auto simp: IsAbs_def HasPrefix_def)
  moreover have "Abs (Inr ''/srv'') (ls_Root \<lparr> ls_Root = ''./data'' \<rparr>) = Inr ''/srv/data''" by code_simp
  ultimately show ?thesis by auto
qed

lemma hex_digit_not_slash: "n < 16 \<Longrightarrow> hex_digit n \<noteq> slash"
  by (auto simp: hex_digit_def of_char_of dest: arg_cong [where f = byte])

lemma hex_no_slash: "slash \<notin> set (hex_encode s)"
proof -
  have "hex_digit (byte c div 16) \<noteq> slash" "hex_digit (byte c mod 16) \<noteq> slash" for c
    by (rule hex_digit_not_slash, simp add: less_mult_imp_div_less)+
  note * = this [symmetric]
  show ?thesis by (auto simp: hex_encode_def *)
qed

lemma limited_upload:
  assumes "int (length (take (nat (sint (maxBytes + 1))) content)) \<le> sint (maxBytes :: 64 word)"
    and "take (nat (sint (maxBytes + 1))) content \<noteq> []"
  shows "take (nat (sint (maxBytes + 1))) content = content"
proof (cases "length content \<le> nat (sint (maxBytes + 1))")
  case False
  then have "int (nat (sint (maxBytes + 1))) \<le> sint maxBytes" using assms(1) by simp
  moreover have "0 < nat (sint (maxBytes + 1))" using assms(2) by (cases "nat (sint (maxBytes + 1))") auto
  ultimately have "sint (maxBytes + 1) \<le> sint maxBytes" "0 < sint (maxBytes + 1)" by auto
  moreover have "sint (maxBytes + 1) = signed_take_bit 63 (sint maxBytes + 1)"
    by (simp add: signed_word_eqI sint_word_ariths(1))
  moreover have "- (2 ^ 63) \<le> sint maxBytes" "sint maxBytes < 2 ^ 63"
    using sint_greater_eq [of maxBytes] sint_less [of maxBytes] by simp_all
  ultimately show ?thesis
  proof (cases "sint maxBytes + 1 < 2 ^ 63")
    case True
    then have "sint (maxBytes + 1) = sint maxBytes + 1"
      using \<open>sint (maxBytes + 1) = _\<close> \<open>- (2 ^ 63) \<le> sint maxBytes\<close>
      by (simp add: signed_take_bit_int_eq_self)
    then show ?thesis using \<open>sint (maxBytes + 1) \<le> sint maxBytes\<close> by simp
  next
    case False
    then have "sint maxBytes + 1 = 2 ^ 63" using \<open>sint maxBytes < 2 ^ 63\<close> by simp
    then have "sint (maxBytes + 1) < 0" using \<open>sint (maxBytes + 1) = _\<close> by simp
    then show ?thesis using \<open>0 < sint (maxBytes + 1)\<close> by simp
  qed
qed simp

lemma tmp_path_neq [simp]: "tmp_path t \<noteq> t" "t \<noteq> tmp_path t"
  by (simp_all add: tmp_path_def)

lemma rename_tmp:
  "fs (tmp_path t) = None \<Longrightarrow> rename_file (tmp_path t) t (fs(tmp_path t \<mapsto> w)) = fs(t \<mapsto> w)"
  by (auto simp: rename_file_def)

lemma remove_tmp:
  "fs (tmp_path t) = None \<Longrightarrow> io_Remove io \<Longrightarrow> remove_file io (tmp_path t) (fs(tmp_path t \<mapsto> w)) = fs"
  by (auto simp: remove_file_def)

lemma copyAndHash_Inr:
  assumes "copyAndHash sha io content maxBytes = (written, Inr (digest, n))" "0 < n"
  shows "written = content \<and> digest = SHA256Hex sha content \<and> n = int (length content) \<and> n \<le> sint maxBytes"
  using assms limited_upload [of maxBytes content]
  by (auto simp: copyAndHash_def Let_def split: option.splits if_splits)

lemma ValidateBrandingAsset_None:
  "ValidateBrandingAsset mime v name n = None \<longleftrightarrow>
     0 < n \<and> n \<le> sint (av_MaxBytes v) \<and> ToLower (Ext name) \<in> {''.png'', ''.ico'', ''.icns''}"
  by (auto simp: ValidateBrandingAsset_def Let_def)

lemma store_upload_result:
  assumes "fs (tmp_path t) = None" "io_Remove io"
    and "store_upload sha mime io v name t content fs = (res, fs1)"
  shows "case res of Inl e \<Rightarrow> fs1 = fs
         | Inr (digest, n) \<Rightarrow> fs1 = fs(t \<mapsto> content) \<and> digest = SHA256Hex sha content \<and>
             n = int (length content) \<and> 0 < n \<and> n \<le> sint (av_MaxBytes v)"
proof -
  obtain written copied where c: "copyAndHash sha io content (av_MaxBytes v) = (written, copied)"
    by (cases "copyAndHash sha io content (av_MaxBytes v)")
  note copyAndHash_Inr [of sha io content "av_MaxBytes v" written]
  then show ?thesis
    using assms c
    by (auto simp: store_upload_def Let_def remove_tmp rename_tmp ValidateBrandingAsset_None
        split: option.splits sum.splits prod.splits)
qed

lemma saveBrandingAsset_Inl:
  assumes "\<And>path. fs (tmp_path path) = None" "io_Remove io"
    and "saveBrandingAsset sha mime io rnd cwd s v content header fs = (Inl e, fs1)"
  shows "fs1 = fs"
proof -
  have "fs2 = fs" if "store_upload sha mime io v name path content fs = (Inl e2, fs2)" for name path e2 fs2
    using store_upload_result [OF assms(1,2) that] by simp
  then show ?thesis using assms(3)
    by (auto simp: saveBrandingAsset_def Let_def split: option.splits if_splits sum.splits prod.splits)
qed

lemma randomID_Inr: "randomID rnd = Inr rid \<Longrightarrow> \<exists>raw. rid = hex_encode raw"
  by (cases rnd) (auto simp: randomID_def)

lemma saveBrandingAsset_Inr:
  assumes "saveBrandingAsset sha mime io rnd cwd s v content header fs = (Inr a, fs1)"
  shows "\<exists>h raw ext path. header = Some h \<and> ext \<in> {''.png'', ''.ico'', ''.icns''} \<and>
           bar_ID a = hex_encode raw \<and> bar_Filename a = bar_ID a @ ext \<and>
           SafePath cwd s [''branding'', bar_Filename a] = Inr path \<and>
           store_upload sha mime io v (Base (fh_Filename h)) path content fs =
             (Inr (bar_SHA256 a, bar_Size a), fs1)"
  using assms
  by (auto simp: saveBrandingAsset_def Let_def ValidateBrandingAsset_None dest!: randomID_Inr
      split: option.splits if_splits sum.splits prod.splits)

lemma branding_target:
  assumes "Abs cwd (ls_Root s) = Inr (abs_path ps)" "ps \<noteq> []" "\<forall>p \<in> set ps. plain_name p"
    and "ext \<in> {''.png'', ''.ico'', ''.icns''}"
  shows "SafePath cwd s [''branding'', hex_encode raw @ ext] =
           Inr (abs_path (ps @ [''branding'', hex_encode raw @ ext]))"
proof (rule SafePath_names [OF assms(1-3)])
  have "2 < length (hex_encode raw @ ext)" using assms(4) by auto
  then have "hex_encode raw @ ext \<notin> {[], dot, dotdot}"
    by (auto simp del: length_append dest: arg_cong [where f = length])
  then show "\<forall>q \<in> set [''branding'', hex_encode raw @ ext]. plain_name q"
    using assms(4) hex_no_slash [of raw] by (auto simp: plain_name_def)
qed


definition upload_example :: "BrandingAssetResponse http_response \<times> files \<times> Memory" where
  "upload_example =
     assets_Branding (\<lambda>c. ''7'') (\<lambda>e. [])
       \<lparr> io_Mkdir = None, io_Open = None, io_Copy = None, io_Close = None, io_Rename = None, io_Remove = True \<rparr>
       (Inr ''Z'') (Inr ''/'') \<lparr> ls_Root = ''/srv'' \<rparr> \<lparr> av_MaxBytes = 100 \<rparr> (\<lambda>i. 5)
       \<lparr> Method = ''POST'', Path = ''/api/v1/assets/branding'', RemoteAddr = ''10.0.0.1:80'', Headers = [],
         Cookies = [], Query = [], Context = None \<rparr>
       (FormFile ''abc'' (Some \<lparr> fh_Filename = ''x/../logo.PNG'', fh_Size = 3 \<rparr>))
       (Map.empty, NewMemoryWithInitialAdmin 0 ''a'' ''h'')"


end
