(* ===== verification/Handlers_Reach.thy ===== *)
theory Handlers_Reach
  imports Public_Routes User_Handler Device_Handler Token_Handler Log_Handler Book_Handler
    Settings_Handler Policy_Handler Build_Properties Asset_Storage
begin

text \<open>
  Every handler changes the repository only through its methods: what a request leaves is
  reachable from what it found. One lemma for each route.
\<close>

lemmas reach_calls = mem_step.intros [THEN mem_reach.step [rotated]]

lemmas reach_intros = reach.steps reach_calls reach.same

section \<open>Resources\<close>

lemma users_reach:
  "mem_reach m0 m \<Longrightarrow> mem_reach m0 (snd (users_Collection clk r user m))"
  "mem_reach m0 m \<Longrightarrow> mem_reach m0 (snd (updateUser clk r i user m))"
  "mem_reach m0 m \<Longrightarrow> mem_reach m0 (snd (disableUser clk r i m))"
  "mem_reach m0 m \<Longrightarrow> mem_reach m0 (snd (users_Groups clk r gbody m))"
  unfolding users_Collection_def updateUser_def disableUser_def users_Groups_def
  by (intro reach_intros; assumption)+

lemma users_Item_reach: "mem_reach m0 m \<Longrightarrow> mem_reach m0 (snd (users_Item clk r user m))"
  unfolding users_Item_def by (auto split: option.split sum.split intro: users_reach)

lemma user_members_reach:
  "mem_reach m0 m \<Longrightarrow> mem_reach m0 (snd (addUserGroupMember clk r i body m))"
  "mem_reach m0 m \<Longrightarrow> mem_reach m0 (snd (removeUserGroupMember clk r i j m))"
  unfolding addUserGroupMember_def removeUserGroupMember_def by (intro reach_intros; assumption)+

lemma users_GroupItem_reach: "mem_reach m0 m \<Longrightarrow> mem_reach m0 (snd (users_GroupItem clk r body m))"
  unfolding users_GroupItem_def by (auto split: option.split sum.split prod.split intro: user_members_reach)

lemma devices_reach:
  "mem_reach m0 m \<Longrightarrow> mem_reach m0 (snd (devices_Collection clk r d m))"
  "mem_reach m0 m \<Longrightarrow> mem_reach m0 (snd (devices_Register clk r d m))"
  "mem_reach m0 m \<Longrightarrow> mem_reach m0 (snd (updateDevice clk r i d m))"
  "mem_reach m0 m \<Longrightarrow> mem_reach m0 (snd (disableDevice clk r i m))"
  "mem_reach m0 m \<Longrightarrow> mem_reach m0 (snd (devices_Groups clk r gbody m))"
  unfolding devices_Collection_def devices_Register_def updateDevice_def disableDevice_def devices_Groups_def
  by (intro reach_intros; assumption)+

lemma device_members_reach:
  "mem_reach m0 m \<Longrightarrow> mem_reach m0 (snd (addDeviceGroupMember clk r i body m))"
  "mem_reach m0 m \<Longrightarrow> mem_reach m0 (snd (removeDeviceGroupMember clk r i j m))"
  unfolding addDeviceGroupMember_def removeDeviceGroupMember_def by (intro reach_intros; assumption)+

lemma books_reach:
  "mem_reach m0 m \<Longrightarrow> mem_reach m0 (snd (books_Collection clk r body m))"
  "mem_reach m0 m \<Longrightarrow> mem_reach m0 (snd (addBookEntry clk i ebody m))"
  "mem_reach m0 m \<Longrightarrow> mem_reach m0 (snd (removeBookEntry clk i j m))"
  unfolding books_Collection_def addBookEntry_def removeBookEntry_def by (intro reach_intros; assumption)+

lemma books_Item_reach: "mem_reach m0 m \<Longrightarrow> mem_reach m0 (snd (books_Item clk r body m))"
  unfolding books_Item_def by (auto split: option.split sum.split prod.split intro: books_reach)

lemma relays_reach:
  "mem_reach m0 m \<Longrightarrow> mem_reach m0 (snd (relays_Collection clk r body m))"
  "mem_reach m0 m \<Longrightarrow> mem_reach m0 (snd (relays_update clk r i body m))"
  "mem_reach m0 m \<Longrightarrow> mem_reach m0 (snd (relays_heartbeat clk r i hb m))"
  "mem_reach m0 m \<Longrightarrow> mem_reach m0 (snd (relays_disable clk r i m))"
  unfolding relays_Collection_def relays_update_def relays_heartbeat_def relays_disable_def
  by (intro reach_intros; assumption)+

lemma relays_Item_reach: "mem_reach m0 m \<Longrightarrow> mem_reach m0 (snd (relays_Item clk r body hb m))"
  unfolding relays_Item_def
  by (auto split: option.split sum.split prod.split intro: relays_reach reach.with_method)

lemma policies_reach:
  "mem_reach m0 m \<Longrightarrow> mem_reach m0 (snd (AccessRules clk r arb m))"
  "mem_reach m0 m \<Longrightarrow> mem_reach m0 (snd (updateAccessRule clk r i arb m))"
  "mem_reach m0 m \<Longrightarrow> mem_reach m0 (snd (deleteAccessRule clk r i m))"
  "mem_reach m0 m \<Longrightarrow> mem_reach m0 (snd (ControlRoles clk r crb m))"
  "mem_reach m0 m \<Longrightarrow> mem_reach m0 (snd (updateControlRole clk r i crb m))"
  "mem_reach m0 m \<Longrightarrow> mem_reach m0 (snd (deleteControlRole clk r i m))"
  "mem_reach m0 m \<Longrightarrow> mem_reach m0 (snd (deleteStrategy clk r i m))"
  "mem_reach m0 m \<Longrightarrow> mem_reach m0 (snd (addStrategyAssignment clk r i sab m))"
  "mem_reach m0 m \<Longrightarrow> mem_reach m0 (snd (deleteStrategyAssignment clk r i j m))"
  unfolding AccessRules_def updateAccessRule_def deleteAccessRule_def ControlRoles_def updateControlRole_def
    deleteControlRole_def deleteStrategy_def addStrategyAssignment_def deleteStrategyAssignment_def Let_def
  by (intro reach_intros; assumption)+

lemma reach_with_settings:
  "mem_reach m0 m \<Longrightarrow> (\<And>sj. mem_reach m0 (snd (k sj))) \<Longrightarrow> mem_reach m0 (snd (with_settings res m k))"
  by (simp add: with_settings_def split: sum.split)

lemma strategies_reach:
  "mem_reach m0 m \<Longrightarrow> mem_reach m0 (snd (Strategies f clk r stb m))"
  "mem_reach m0 m \<Longrightarrow> mem_reach m0 (snd (updateStrategy f clk r i stb m))"
  unfolding Strategies_def updateStrategy_def Let_def
  by (intro reach_intros reach_with_settings; assumption)+

lemma policy_items_reach:
  "mem_reach m0 m \<Longrightarrow> mem_reach m0 (snd (AccessRuleItem clk r arb m))"
  "mem_reach m0 m \<Longrightarrow> mem_reach m0 (snd (ControlRoleItem clk r crb m))"
  "mem_reach m0 m \<Longrightarrow> mem_reach m0 (snd (StrategyItem f clk r stb sab m))"
  unfolding AccessRuleItem_def ControlRoleItem_def StrategyItem_def
  by (auto split: option.split prod.split intro: policies_reach strategies_reach)

section \<open>Tokens, settings, set-up\<close>

lemma tokens_reach:
  "mem_reach m0 m \<Longrightarrow> mem_reach m0 (snd (tokens_create sp hm secret clk rnd r body m))"
  "mem_reach m0 m \<Longrightarrow> mem_reach m0 (snd (tokens_Item sp clk r m))"
  unfolding tokens_create_def tokens_Item_def
  by (auto split: option.split prod.split intro!: reach.decoded reach.checked reach.with_method reach.respond
      reach.audited reach_calls)

lemma tokens_Collection_reach:
  "mem_reach m0 m \<Longrightarrow> mem_reach m0 (snd (tokens_Collection sp hm secret clk rnd r body m))"
  unfolding tokens_Collection_def by (auto split: option.split sum.split intro: tokens_reach)

lemma settings_reach: "mem_reach m0 m \<Longrightarrow> mem_reach m0 (snd (settings_requests vp d clk r body m))"
proof -
  assume m: "mem_reach m0 m"
  have w: "mem_reach m0 m2" if "writeAudit t r e m1 = (x, m2)" "mem_reach m0 m1" for t e m1 x m2
    using reaches.writeAudit_keeps [OF that(2), of t r e] that(1) by simp
  show ?thesis using m unfolding settings_requests_def
    by (auto split: option.split sum.split prod.split intro!: reach.decoded reach.respond reach_calls
        intro: m) (erule (1) w)+
qed

lemma settings_routes_reach:
  assumes "mem_reach m0 m"
  shows "mem_reach m0 (snd (settings_Collection vp clk r body m))"
    and "mem_reach m0 (snd (settings_OIDC vp clk r body m))"
    and "mem_reach m0 (snd (settings_LDAP vp clk r body m))"
    and "mem_reach m0 (snd (settings_SMTP vp clk r body m))"
  unfolding settings_Collection_def settings_OIDC_def settings_LDAP_def settings_SMTP_def settings_section_def
  by (auto intro: settings_reach assms split: option.split)

lemma setup_reach:
  "mem_reach m0 m \<Longrightarrow> mem_reach m0 (snd (setup_Status r m))"
  "mem_reach m0 m \<Longrightarrow> mem_reach m0 (snd (setup_Admin configured loopback bcrypt_hash clk r body m))"
  unfolding setup_Status_def setup_Admin_def
  by (auto split: option.split sum.split prod.split simp: RepositoryWrite_eq
      intro!: reach.decoded reach.respond reach.with_method reach.checked reach_calls)

lemma devices_Item_reach: "mem_reach m0 m \<Longrightarrow> mem_reach m0 (snd (devices_Item js clk r d m))"
  unfolding devices_Item_def effectiveStrategy_def Let_def
  by (auto split: option.split sum.split prod.split intro!: reach.with_method devices_reach)

lemma devices_GroupItem_reach: "mem_reach m0 m \<Longrightarrow> mem_reach m0 (snd (devices_GroupItem clk r body m))"
  unfolding devices_GroupItem_def
  by (auto split: option.split sum.split prod.split intro: device_members_reach)

section \<open>Builds\<close>

lemma with_profile_reach:
  "mem_reach m0 m \<Longrightarrow> (\<And>p. mem_reach m0 (snd (k p))) \<Longrightarrow> mem_reach m0 (snd (with_profile js r body m k))"
  unfolding with_profile_def Let_def
  by (auto split: option.split sum.split intro!: reach.decoded reach.checked)

lemma with_job_reach:
  "mem_reach m0 m \<Longrightarrow> (\<And>j. mem_reach m0 (snd (k j))) \<Longrightarrow> mem_reach m0 (snd (with_job i m k))"
  by (simp add: with_job_def split: sum.split)

lemma builds_reach:
  "mem_reach m0 m \<Longrightarrow> mem_reach m0 (snd (builds_Profiles js clk r body m))"
  "mem_reach m0 m \<Longrightarrow> mem_reach m0 (snd (Build_Handler.updateProfile js clk r i body m))"
  "mem_reach m0 m \<Longrightarrow> mem_reach m0 (snd (Build_Handler.deleteProfile clk r i m))"
  unfolding builds_Profiles_def Build_Handler.updateProfile_def Build_Handler.deleteProfile_def
  by (intro reach_intros with_profile_reach; assumption)+

lemma createJobForProfile_reach:
  "mem_reach m0 m \<Longrightarrow> mem_reach m0 (snd (createJobForProfile js clk r i platform mode m))"
  unfolding createJobForProfile_def
  by (auto split: sum.split intro!: reach.respond reach.audited reach_calls)

lemma createProfileJob_reach: "mem_reach m0 m \<Longrightarrow> mem_reach m0 (snd (createProfileJob js clk r i body m))"
  unfolding createProfileJob_def Let_def
  by (intro reach.decoded reach.cond reach.same createJobForProfile_reach)

lemma builds_Jobs_reach: "mem_reach m0 m \<Longrightarrow> mem_reach m0 (snd (builds_Jobs js clk r body m))"
  unfolding builds_Jobs_def Let_def
  by (intro reach.listed reach.decoded reach.cond reach.same createJobForProfile_reach)

lemma builds_ProfileItem_reach:
  "mem_reach m0 m \<Longrightarrow> mem_reach m0 (snd (builds_ProfileItem js clk r body job_body m))"
  by (cases js clk r body job_body m rule: builds_ProfileItem_cases)
    (simp_all add: getProfile_def reach.with_method createProfileJob_reach builds_reach split: sum.split)

lemma job_changes_reach:
  "mem_reach m0 m \<Longrightarrow> mem_reach m0 (snd (cancelJob clk i m))"
  "mem_reach m0 m \<Longrightarrow> mem_reach m0 (snd (retryJob clk r i m))"
  unfolding cancelJob_def retryJob_def
  by (auto split: sum.split intro!: with_job_reach reach.respond reach.audited reach_calls)

lemma builds_JobItem_reach: "mem_reach m0 m \<Longrightarrow> mem_reach m0 (snd (builds_JobItem fsys clk r m))"
  unfolding builds_JobItem_def getJob_def listArtifacts_def getJobLogs_def Let_def
  by (auto split: option.split opened.split intro!: reach.with_method job_changes_reach with_job_reach reach.listed)

lemma builds_ArtifactItem_reach: "mem_reach m0 m \<Longrightarrow> mem_reach m0 (snd (builds_ArtifactItem fsys clk r m))"
  unfolding builds_ArtifactItem_def Let_def
  by (auto split: option.split sum.split opened.split intro!: reach.with_method reach.audited)

lemma builds_RunNext_reach:
  assumes "mem_reach m0 (snd st)" shows "mem_reach m0 (snd (snd (builds_RunNext worker w r st)))"
proof -
  have "mem_reach m0 m1" if "RunOnce cfg w (fst st) (snd st) = (res, fs1, m1)" for cfg res fs1 m1
    using mem_reach_trans [OF RunOnce_reach assms, of cfg w "fst st"] that by simp
  then show ?thesis using assms by (auto simp: builds_RunNext_def split: option.split prod.split)
qed

section \<open>Assets\<close>

lemma assets_Branding_reach:
  assumes "mem_reach m0 (snd st)"
  shows "mem_reach m0 (snd (snd (assets_Branding sha mime io rnd cwd s v clk r body st)))"
proof -
  have "mem_reach m0 m1" if "audited t r e msg ok (snd st) = (resp, m1)" for t e msg resp m1
    and ok :: "BrandingAssetResponse http_response"
    using reach.audited [OF assms, of t r e msg ok] that by simp
  then show ?thesis using assms
    by (auto simp: assets_Branding_def Let_def split: option.split multipart.split sum.split prod.split)
qed

section \<open>Authentication\<close>

lemma AuthenticateRequest_reach:
  assumes "as_store svc = memory_user_store" "mem_reach m0 m"
  shows "mem_reach m0 (snd (AuthenticateRequest pr svc clk r m))"
proof -
  have "mem_reach m0 m1" if "RecordAPITokenUsed i t m = (res, m1)" for i t res m1
    using reach_calls [OF assms(2)] that by (metis snd_conv)
  then have "mem_reach m0 m1" if "authenticateAPIToken pr svc clk raw m = (res, m1)" for raw res m1
    using that assms
    by (auto simp: authenticateAPIToken_def memory_user_store_def Let_def
        split: sum.splits prod.splits repo_error.splits option.splits if_splits)
  then show ?thesis using assms(2)
    by (auto simp: AuthenticateRequest_def Let_def split: sum.split prod.split option.split)
qed

section \<open>Relay grants\<close>

text \<open>The service over the repository: it stays so, and its calls are repository calls.\<close>

abbreviation over_memory :: "Memory \<Rightarrow> grant_service \<Rightarrow> bool" where
  "over_memory m0 s \<equiv> over (mem_reach m0) s"

lemma storeGrant_reach: "over_memory m0 s \<Longrightarrow> over_memory m0 (snd (storeGrant now g s))"
proof -
  assume o: "over_memory m0 s"
  have "mem_reach m0 m1" if "CreateRelayGrant t x (svc_db s) = (res, m1)" for t x res m1
    using reach_calls(1) [of m0 "svc_db s"] mem_step.CreateRelayGrant o that
    by (metis mem_reach.step over_def snd_conv)
  then show ?thesis using o
    by (auto simp: storeGrant_def over_def memory_grant_store_def split: sum.split prod.split)
qed

lemma service_calls_reach:
  assumes "over_memory m0 s"
  shows "over_memory m0 (snd (IssueWithContext c now now2 r1 r2 req s))"
    and "over_memory m0 (snd (RevokeWithContext gid s))"
proof -
  have st: "over_memory m0 s1" if "storeGrant t g s = (res, s1)" for t g res s1
    using storeGrant_reach [OF assms, of t g] that by simp
  show "over_memory m0 (snd (IssueWithContext c now now2 r1 r2 req s))"
    using assms by (auto simp: IssueWithContext_def Let_def split: sum.split prod.split dest: st)
  have "mem_reach m0 m1" if "UpdateRelayGrantStatus i x y (svc_db s) = (res, m1)" for i x y res m1
    using mem_step.UpdateRelayGrantStatus assms that by (metis mem_reach.step over_def snd_conv)
  then show "over_memory m0 (snd (RevokeWithContext gid s))"
    using assms
    by (auto simp: RevokeWithContext_def over_def memory_grant_store_def Let_def
        split: sum.split prod.split option.split)
qed

lemma audited_service_reach:
  "over_memory m0 s \<Longrightarrow> over_memory m0 (snd (audited_service now r e failure ok s))"
  using reach.audited [of m0 "svc_db s" now r e failure ok]
  by (auto simp: audited_service_def over_def split: prod.split)

lemma grants_Issue_reach: "over_memory m0 s \<Longrightarrow> over_memory m0 (snd (grants_Issue c clk r1 r2 r body s))"
proof -
  assume o: "over_memory m0 s"
  have "over_memory m0 s1" if "IssueWithContext c t t2 r1 r2 req s = (res, s1)" for t t2 req res s1
    using service_calls_reach(1) [OF o, of c t t2 r1 r2 req] that by simp
  then show ?thesis using o
    by (auto simp: grants_Issue_def Let_def split: option.split sum.split prod.split
        intro: audited_service_reach)
qed

lemma grants_Revoke_reach:
  assumes "over_memory m0 s"
  shows "over_memory m0 (snd (grants_Revoke clk r gid s))" "over_memory m0 (snd (grants_RevokeByPath clk r s))"
proof -
  have "over_memory m0 s1" if "RevokeWithContext i s = (res, s1)" for i res s1
    using service_calls_reach(2) [OF assms, of i] that by simp
  then have "over_memory m0 (snd (revoke_and_record clk r i s))" for i
    by (auto simp: revoke_and_record_def split: prod.split bool.split intro: audited_service_reach)
  then show "over_memory m0 (snd (grants_Revoke clk r gid s))" "over_memory m0 (snd (grants_RevokeByPath clk r s))"
    using assms by (auto simp: grants_Revoke_def grants_RevokeByPath_def Let_def
        split: option.split prod.split)
qed

section \<open>Logs\<close>

lemma with_method_same: "snd k = m \<Longrightarrow> snd (with_method meth r m k) = m"
  by (simp add: with_method_def split: option.split)

lemma log_listing_same: "snd (log_listing r flt list_op code msg f m) = m"
  unfolding log_listing_def by (rule with_method_same) (simp add: listed_def split: sum.split)

lemma EvaluateAccess_same: "snd (EvaluateAccess r eab m) = m"
  unfolding EvaluateAccess_def decoded_def Let_def
  by (rule with_method_same) (simp split: option.split sum.split)

lemma logs_same:
  "snd (logs_Audit f r m) = m" "snd (logs_Connections f r m) = m" "snd (logs_FileTransfers f r m) = m"
  "snd (logs_Logins f r m) = m" "snd (EvaluateAccess r eab m) = m"
  by (simp_all only: logs_Audit_def logs_Connections_def logs_FileTransfers_def logs_Logins_def
      log_listing_same EvaluateAccess_same)

end
