(* ===== verification/App_Store.thy ===== *)
theory App_Store
  imports Config Setup_Handler Handler_Invariant
begin

text \<open>
  Start of the server with the in-memory store (\<^verbatim>\<open>api/internal/app/store.go\<close>) and the health
  routes (\<^verbatim>\<open>api/internal/health/handler.go\<close>). Hashing a password, the answer of Redis, the text of
  an instant and the clock are arguments.
\<close>

section \<open>The initial administrator\<close>

definition bootstrap_user :: "string \<Rightarrow> string \<Rightarrow> User" where
  "bootstrap_user email passwordHash =
     (let username0 = fst (Cut CHR ''@'' email);
          username = (if TrimSpace username0 = [] then ''admin'' else username0)
      in \<lparr> user_ID = 0, user_Email = email, user_Username = username, user_DisplayName = ''Initial Admin'',
           user_PasswordHash = passwordHash, user_Status = UserStatusActive, user_MFAEnabled = False,
           user_Source = ''local'', user_CreatedAt = zero_time, user_UpdatedAt = zero_time,
           user_LastLoginAt = None \<rparr>)"

definition bootstrap_event :: "User \<Rightarrow> Event" where
  "bootstrap_event created =
     (event ''bootstrap_initial_admin'' ''user'' (FormatInt (user_ID created))
        (Some [(''email'', AnyString (user_Email created)), (''username'', AnyString (user_Username created)),
               (''source'', AnyString ''initial_admin_env'')]))\<lparr> ev_ActorType := ''system'' \<rparr>"

definition bootstrapInitialAdminIfConfigured ::
    "(string \<Rightarrow> string + string) \<Rightarrow> (nat \<Rightarrow> gotime) \<Rightarrow> AppConfig \<Rightarrow> Memory \<Rightarrow> string option \<times> Memory" where
  "bootstrapInitialAdminIfConfigured bcrypt_hash clk cfg m =
     (let email = TrimSpace (cfg_InitialAdminEmail cfg);
          password = cfg_InitialAdminPassword cfg
      in if email = [] \<and> TrimSpace password = [] then (None, m)
         else if email = [] \<or> TrimSpace password = []
         then (Some ''both initial admin email and password are required when bootstrapping initial admin'', m)
         else (case CountUsers m of
             Inl e \<Rightarrow> (Some (error_text e), m)
           | Inr count \<Rightarrow>
               if count > 0 then (None, m)
               else (case bcrypt_hash password of
                   Inl e \<Rightarrow> (Some e, m)
                 | Inr passwordHash \<Rightarrow>
                     (case CreateUser (clk 0) (bootstrap_user email passwordHash) m of
                        (Inl e, m1) \<Rightarrow> (Some (error_text e), m1)
                      | (Inr created, m1) \<Rightarrow>
                          (case RepositoryWrite (clk 1) (bootstrap_event created) m1 of
                             (e, m2) \<Rightarrow> (map_option error_text e, m2))))))"

text \<open>\<^verbatim>\<open>NewStore\<close> without a database: the store, or the error the server ends with.\<close>

definition memory_NewStore ::
    "(string \<Rightarrow> string + string) \<Rightarrow> (nat \<Rightarrow> gotime) \<Rightarrow> gotime \<Rightarrow> AppConfig \<Rightarrow> string + Memory" where
  "memory_NewStore bcrypt_hash clk now cfg =
     (case bootstrapInitialAdminIfConfigured bcrypt_hash clk cfg (NewMemoryWithoutInitialAdmin now) of
        (Some e, m) \<Rightarrow> Inl e
      | (None, m) \<Rightarrow> Inr m)"

definition fallbackMemoryStore ::
    "(string \<Rightarrow> string + string) \<Rightarrow> (nat \<Rightarrow> gotime) \<Rightarrow> gotime \<Rightarrow> AppConfig \<Rightarrow> Memory" where
  "fallbackMemoryStore bcrypt_hash clk now cfg =
     snd (bootstrapInitialAdminIfConfigured bcrypt_hash clk cfg (NewMemoryWithoutInitialAdmin now))"

section \<open>Health\<close>

record HealthHandler =
  hh_Service :: string
  hh_Version :: string
  hh_Started :: gotime
  hh_RedisConfigured :: bool
  hh_RedisRequired :: bool
  hh_DatabaseReady :: bool
  hh_StorageDriver :: string

datatype health_payload =
    HealthStatus string string string string
  | VersionInfo string string string
  | Readiness string string string string string

definition health_New :: "string \<Rightarrow> gotime \<Rightarrow> HealthHandler" where
  "health_New version now =
     \<lparr> hh_Service = ''opendesk-api'', hh_Version = version, hh_Started = now, hh_RedisConfigured = False,
       hh_RedisRequired = False, hh_DatabaseReady = False, hh_StorageDriver = ''local'' \<rparr>"

definition NewHandlerWithDeps :: "string \<Rightarrow> gotime \<Rightarrow> bool \<Rightarrow> bool \<Rightarrow> bool \<Rightarrow> string \<Rightarrow> HealthHandler" where
  "NewHandlerWithDeps version now redis redisRequired databaseReady storageDriver =
     (let handler = (health_New version now)\<lparr> hh_RedisConfigured := redis, hh_RedisRequired := redisRequired,
                                              hh_DatabaseReady := databaseReady \<rparr>
      in if storageDriver \<noteq> [] then handler\<lparr> hh_StorageDriver := storageDriver \<rparr> else handler)"

definition databaseStatus :: "HealthHandler \<Rightarrow> string" where
  "databaseStatus h = (if hh_DatabaseReady h then ''ok'' else ''memory'')"

text \<open>\<open>ping\<close> is the answer of Redis within a second.\<close>

definition redisStatus :: "HealthHandler \<Rightarrow> bool \<Rightarrow> string" where
  "redisStatus h ping =
     (if \<not> hh_RedisConfigured h then ''not_configured'' else if \<not> ping then ''unavailable'' else ''ok'')"

definition health_Health ::
    "(gotime \<Rightarrow> string) \<Rightarrow> gotime \<Rightarrow> HealthHandler \<Rightarrow> 'c http_request \<Rightarrow> health_payload http_response" where
  "health_Health rfc3339 now h r =
     (case require_method MethodGet r of
        Some resp \<Rightarrow> resp
      | None \<Rightarrow> JSON StatusOK (HealthStatus ''ok'' (hh_Service h) (hh_Version h) (rfc3339 now)))"

definition health_Version ::
    "(gotime \<Rightarrow> string) \<Rightarrow> HealthHandler \<Rightarrow> 'c http_request \<Rightarrow> health_payload http_response" where
  "health_Version rfc3339 h r =
     (case require_method MethodGet r of
        Some resp \<Rightarrow> resp
      | None \<Rightarrow> JSON StatusOK (VersionInfo (hh_Service h) (hh_Version h) (rfc3339 (hh_Started h))))"

definition health_Ready ::
    "(gotime \<Rightarrow> string) \<Rightarrow> gotime \<Rightarrow> bool \<Rightarrow> HealthHandler \<Rightarrow> 'c http_request \<Rightarrow>
       health_payload http_response" where
  "health_Ready rfc3339 now ping h r =
     (case require_method MethodGet r of
        Some resp \<Rightarrow> resp
      | None \<Rightarrow>
          let redis = redisStatus h ping;
              (code, status) = (if hh_RedisRequired h \<and> redis \<noteq> ''ok'' then (503, ''not_ready'')
                                else if redis \<noteq> ''ok'' then (StatusOK, ''degraded'')
                                else (StatusOK, ''ready''))
          in JSON code (Readiness status (databaseStatus h) redis (hh_StorageDriver h) (rfc3339 now)))"

section \<open>Facts\<close>

lemma bootstrap_reach:
  "mem_reach m0 m \<Longrightarrow> mem_reach m0 (snd (bootstrapInitialAdminIfConfigured bcrypt_hash clk cfg m))"
proof -
  assume m: "mem_reach m0 m"
  have "mem_reach m0 (snd (CreateAuditEvent t e m1))" if "CreateUser now u m = (res, m1)" for now u res m1 t e
    using mem_reach_audit [OF mem_reach.step [OF m mem_step.CreateUser]] that by (metis snd_conv)
  moreover have "mem_reach m0 m1" if "CreateUser now u m = (res, m1)" for now u res m1
    using mem_reach.step [OF m mem_step.CreateUser] that by (metis snd_conv)
  ultimately show ?thesis using m
    by (auto simp: bootstrapInitialAdminIfConfigured_def Let_def RepositoryWrite_eq
        split: sum.split prod.split)
qed

text \<open>The readiness route tells the load balancer to stay away exactly when a required Redis is not there.\<close>

lemma ready_status:
  assumes "Method r = MethodGet"
  shows "status_of (health_Ready rfc3339 now ping h r) = 503 \<longleftrightarrow>
     hh_RedisRequired h \<and> \<not> (hh_RedisConfigured h \<and> ping)"
  using assms by (auto simp: health_Ready_def require_method_def redisStatus_def Let_def)

end
