(* ===== verification/App_Router.thy ===== *)
theory App_Router
  imports Handlers_Reach App_Store Rate_Limit
begin

text \<open>
  The server as a whole (\<^verbatim>\<open>api/internal/app/router.go\<close>): the table of routes, the choice of
  \<^verbatim>\<open>http.ServeMux\<close>, and the handlers behind the middleware. A request is answered from the state
  of the server; paths are taken without percent encoding. What the standard library and the world
  answer during one request is the record \<open>app_call\<close>, what stays the same is \<open>app_world\<close>.
\<close>

section \<open>Routes\<close>

datatype endpoint =
    HealthRoute | ReadyRoute | VersionRoute
  | LoginRoute | LogoutRoute | MeRoute
  | SetupStatusRoute | SetupAdminRoute
  | TokensRoute | TokenItemRoute
  | UsersRoute | UserItemRoute | UserGroupsRoute | UserGroupItemRoute
  | DevicesRoute | DeviceRegisterRoute | DeviceItemRoute | DeviceGroupsRoute | DeviceGroupItemRoute
  | BooksRoute | BookItemRoute
  | RelaysRoute | RelayItemRoute
  | AccessRulesRoute | AccessRuleItemRoute | EvaluateRoute
  | ControlRolesRoute | ControlRoleItemRoute
  | StrategiesRoute | StrategyItemRoute
  | GrantIssueRoute | GrantValidateRoute | GrantRevokeRoute | GrantPathRoute
  | ProfilesRoute | DoctorRoute | JobsRoute | RunNextRoute | JobItemRoute | ArtifactRoute | ProfileItemRoute
  | AuditRoute | ConnectionsRoute | FileTransfersRoute | LoginsRoute
  | SettingsRoute | OIDCRoute | LDAPRoute | SMTPRoute
  | BrandingRoute

definition routes :: "(string \<times> endpoint) list" where
  "routes =
     [(''/api/v1/health'', HealthRoute), (''/api/v1/ready'', ReadyRoute), (''/api/v1/version'', VersionRoute),
      (''/api/v1/auth/login'', LoginRoute), (''/api/v1/auth/logout'', LogoutRoute), (''/api/v1/auth/me'', MeRoute),
      (''/api/v1/setup/status'', SetupStatusRoute), (''/api/v1/setup/admin'', SetupAdminRoute),
      (''/api/v1/api-tokens'', TokensRoute), (''/api/v1/api-tokens/'', TokenItemRoute),
      (''/api/v1/users'', UsersRoute), (''/api/v1/users/'', UserItemRoute),
      (''/api/v1/user-groups'', UserGroupsRoute), (''/api/v1/user-groups/'', UserGroupItemRoute),
      (''/api/v1/devices'', DevicesRoute), (''/api/v1/devices/register'', DeviceRegisterRoute),
      (''/api/v1/devices/'', DeviceItemRoute), (''/api/v1/device-groups'', DeviceGroupsRoute),
      (''/api/v1/device-groups/'', DeviceGroupItemRoute), (''/api/v1/address-books'', BooksRoute),
      (''/api/v1/address-books/'', BookItemRoute), (''/api/v1/relays'', RelaysRoute),
      (''/api/v1/relays/'', RelayItemRoute), (''/api/v1/access-rules'', AccessRulesRoute),
      (''/api/v1/access-rules/'', AccessRuleItemRoute), (''/api/v1/access/evaluate'', EvaluateRoute),
      (''/api/v1/control-roles'', ControlRolesRoute), (''/api/v1/control-roles/'', ControlRoleItemRoute),
      (''/api/v1/strategies'', StrategiesRoute), (''/api/v1/strategies/'', StrategyItemRoute),
      (''/api/v1/relay-grants'', GrantIssueRoute), (''/api/v1/relay-grants/validate'', GrantValidateRoute),
      (''/api/v1/relay-grants/revoke'', GrantRevokeRoute), (''/api/v1/relay-grants/'', GrantPathRoute),
      (''/api/v1/build-profiles'', ProfilesRoute), (''/api/v1/client-build-configs'', ProfilesRoute),
      (''/api/v1/build-worker/doctor'', DoctorRoute), (''/api/v1/build-jobs'', JobsRoute),
      (''/api/v1/build-jobs/run-next'', RunNextRoute), (''/api/v1/build-jobs/'', JobItemRoute),
      (''/api/v1/build-artifacts/'', ArtifactRoute), (''/api/v1/build-profiles/'', ProfileItemRoute),
      (''/api/v1/client-build-configs/'', ProfileItemRoute), (''/api/v1/logs/audit'', AuditRoute),
      (''/api/v1/logs/connections'', ConnectionsRoute), (''/api/v1/logs/file-transfers'', FileTransfersRoute),
      (''/api/v1/logs/logins'', LoginsRoute), (''/api/v1/settings'', SettingsRoute),
      (''/api/v1/settings/oidc'', OIDCRoute), (''/api/v1/settings/ldap'', LDAPRoute),
      (''/api/v1/settings/smtp'', SMTPRoute), (''/api/v1/assets/branding'', BrandingRoute)]"

text \<open>
  \<^verbatim>\<open>http.ServeMux\<close>: a pattern matches its path, one that ends in a slash everything below it, and
  the longest one wins; an uncleaned path and a missing final slash are redirected.
\<close>

definition cleanPath :: "string \<Rightarrow> string" where
  "cleanPath p =
     (if p = [] then [slash]
      else let p1 = (if hd p \<noteq> slash then slash # p else p);
               np = Clean p1
           in if last p1 = slash \<and> np \<noteq> [slash] then np @ [slash] else np)"

definition longer_subtree ::
    "string \<Rightarrow> (string \<times> endpoint) option \<Rightarrow> string \<times> endpoint \<Rightarrow> (string \<times> endpoint) option" where
  "longer_subtree path best entry =
     (if HasSuffix (fst entry) [slash] \<and> HasPrefix path (fst entry) \<and>
         (case best of None \<Rightarrow> True | Some b \<Rightarrow> length (fst b) < length (fst entry))
      then Some entry else best)"

definition mux_match :: "string \<Rightarrow> endpoint option" where
  "mux_match path =
     (case map_of routes path of
        Some e \<Rightarrow> Some e
      | None \<Rightarrow> map_option snd (foldl (longer_subtree path) None routes))"

datatype routed = RouteTo endpoint | RedirectTo string | NoRoute

definition mux_route :: "'c http_request \<Rightarrow> routed" where
  "mux_route r =
     (let path = (if Method r = ''CONNECT'' then Path r else cleanPath (Path r))
      in case mux_match path of
           Some e \<Rightarrow> if path \<noteq> Path r then RedirectTo path else RouteTo e
         | None \<Rightarrow>
             if \<not> HasSuffix path [slash] \<and> map_of routes (path @ [slash]) \<noteq> None
             then RedirectTo (path @ [slash])
             else if path \<noteq> Path r then RedirectTo path else NoRoute)"

section \<open>The server\<close>

record app_decoders =
  dec_Login :: "string \<Rightarrow> LoginRequest option"
  dec_CreateAdmin :: "string \<Rightarrow> CreateAdminRequest option"
  dec_CreateToken :: "string \<Rightarrow> CreateTokenRequest option"
  dec_User :: "string \<Rightarrow> User option"
  dec_UserGroup :: "string \<Rightarrow> CreateUserGroupRequest option"
  dec_Member :: "string \<Rightarrow> int option"
  dec_Device :: "string \<Rightarrow> Device option"
  dec_DeviceGroup :: "string \<Rightarrow> CreateDeviceGroupRequest option"
  dec_DeviceMember :: "string \<Rightarrow> int option"
  dec_Book :: "string \<Rightarrow> CreateAddressBookRequest option"
  dec_Entry :: "string \<Rightarrow> AddAddressBookEntryRequest option"
  dec_Relay :: "string \<Rightarrow> Relay option"
  dec_Heartbeat :: "string \<Rightarrow> HeartbeatRequest option"
  dec_AccessRule :: "string \<Rightarrow> CreateAccessRuleRequest option"
  dec_Evaluate :: "string \<Rightarrow> EvaluateAccessRequest option"
  dec_ControlRole :: "string \<Rightarrow> CreateControlRoleRequest option"
  dec_Strategy :: "string \<Rightarrow> CreateStrategyRequest option"
  dec_Assignment :: "string \<Rightarrow> StrategyAssignmentRequest option"
  dec_Issue :: "string \<Rightarrow> IssueRequest option"
  dec_Validate :: "string \<Rightarrow> ValidateRequest option"
  dec_Revoke :: "string \<Rightarrow> string option"
  dec_Profile :: "string \<Rightarrow> CreateProfileRequest option"
  dec_Job :: "string \<Rightarrow> CreateJobRequest option"
  dec_Settings :: "string \<Rightarrow> (string \<times> string) list option"

record ('f, 'o, 'v) app_world =
  aw_Decode :: app_decoders
  aw_Auth :: auth_prims
  aw_Codec :: codec
  aw_Scopes :: scope_prims
  aw_JSON :: "('f, 'o) json_prims"
  aw_Values :: "'v value_prims"
  aw_Spec :: spec_json
  aw_Reencode :: "string \<Rightarrow> string option"
  aw_ParseTime :: "string \<Rightarrow> gotime option"
  aw_FormatTime :: "gotime \<Rightarrow> string"
  aw_Loopback :: "string \<Rightarrow> bool"
  aw_BcryptHash :: "string \<Rightarrow> string option"
  aw_SHA256 :: "string \<Rightarrow> string"
  aw_Mime :: "string \<Rightarrow> string"
  aw_Cwd :: "string + string"

record 'w app_call =
  ac_Now :: gotime
  ac_AuthClock :: "nat \<Rightarrow> gotime"
  ac_Clock :: "nat \<Rightarrow> gotime"
  ac_Body :: string
  ac_Upload :: multipart
  ac_Random :: string
  ac_Random2 :: string
  ac_RandomToken :: "string option"
  ac_RandomAsset :: "string + string"
  ac_RandomRequest :: string
  ac_IO :: io_outcome
  ac_Opened :: "string \<Rightarrow> opened"
  ac_Worker :: "'w worker_world"
  ac_Redis :: bool

text \<open>
  The state: the relay-grant service, which is over the store all handlers share, the files and the
  rate limiter.
\<close>

record app_state =
  app_Service :: grant_service
  app_Files :: files
  app_Limiter :: memoryRateLimiter

abbreviation app_Memory :: "app_state \<Rightarrow> Memory" where
  "app_Memory st \<equiv> svc_db (app_Service st)"

definition with_memory :: "Memory \<Rightarrow> app_state \<Rightarrow> app_state" where
  "with_memory m st = st\<lparr> app_Service := (app_Service st)\<lparr> svc_db := m \<rparr> \<rparr>"

text \<open>A panic closes the connection without an answer; it is written with status 0.\<close>

datatype 'v app_payload =
    OfHealth health_payload
  | OfAuth "set_cookie option" auth_payload
  | OfSetup setup_payload
  | OfToken token_payload
  | OfUser user_payload
  | OfDevice device_payload
  | OfBook book_payload
  | OfRelay relay_payload
  | OfPolicy policy_payload
  | OfGrant grant_payload
  | OfBuild build_payload
  | OfLog log_payload
  | OfSettings "'v settings_payload"
  | OfAsset BrandingAssetResponse
  | MovedTo string
  | NoContent
  | ConnectionClosed

type_synonym 'v app_result = "'v app_payload http_response \<times> app_state"

definition on_memory :: "('a \<Rightarrow> 'v app_payload) \<Rightarrow> app_state \<Rightarrow> 'a handler_result \<Rightarrow> 'v app_result" where
  "on_memory f st res = (map_http_response f (fst res), with_memory (snd res) st)"

definition on_service :: "app_state \<Rightarrow> grant_payload http_response \<times> grant_service \<Rightarrow> 'v app_result" where
  "on_service st res = (map_http_response OfGrant (fst res), st\<lparr> app_Service := snd res \<rparr>)"

definition on_auth :: "app_state \<Rightarrow> Memory auth_result \<Rightarrow> 'v app_result" where
  "on_auth st res = (map_http_response (OfAuth (fst (fst res))) (snd (fst res)), with_memory (snd res) st)"

definition on_files ::
    "('a \<Rightarrow> 'v app_payload) \<Rightarrow> app_state \<Rightarrow> 'a http_response option \<times> files \<times> Memory \<Rightarrow> 'v app_result" where
  "on_files f st res =
     ((case fst res of None \<Rightarrow> JSON 0 ConnectionClosed | Some resp \<Rightarrow> map_http_response f resp),
      (with_memory (snd (snd res)) st)\<lparr> app_Files := fst (snd res) \<rparr>)"

section \<open>Construction\<close>

text \<open>\<^verbatim>\<open>NewRouterWithStore\<close>: what it derives from the configuration, and the state it starts with.\<close>

abbreviation version :: string where "version \<equiv> ''0.1.0''"

definition app_production :: "AppConfig \<Rightarrow> bool" where
  "app_production cfg \<longleftrightarrow> cfg_Env cfg = ''production''"

definition app_auth :: "AppConfig \<Rightarrow> Memory AuthService" where
  "app_auth cfg =
     NewAuthService memory_user_store \<lparr> cfg_SigningKey = cfg_JWTSecret cfg, cfg_TokenTTL = cfg_AuthTokenTTL cfg \<rparr>"

definition app_health :: "AppConfig \<Rightarrow> gotime \<Rightarrow> HealthHandler" where
  "app_health cfg started =
     NewHandlerWithDeps version started True (app_production cfg) (TrimSpace (cfg_MySQLDSN cfg) \<noteq> [])
       (cfg_StorageDriver cfg)"

definition app_worker :: "AppConfig \<Rightarrow> WorkerConfig" where
  "app_worker cfg = worker_New (ConfigFromAPI cfg)"

definition app_limits :: "AppConfig \<Rightarrow> RateLimitConfig" where
  "app_limits cfg =
     \<lparr> rlc_Enabled = cfg_RateLimitEnabled cfg, rlc_Requests = cfg_RateLimitRequests cfg,
       rlc_Window = cfg_RateLimitWindow cfg \<rparr>"

definition NewRouterWithStore :: "AppConfig \<Rightarrow> Memory \<Rightarrow> files \<Rightarrow> app_state" where
  "NewRouterWithStore cfg m fs =
     \<lparr> app_Service = WithStore memory_grant_store (NewService (cfg_RelayGrantSigningKey cfg) (cfg_RelayGrantTTL cfg) m),
       app_Files = fs,
       app_Limiter = newMemoryRateLimiter (cfg_RateLimitRequests cfg) (cfg_RateLimitWindow cfg) \<rparr>"

section \<open>Handlers\<close>

definition dispatch_auth ::
    "AppConfig \<Rightarrow> ('f, 'o, 'v) app_world \<Rightarrow> 'w app_call \<Rightarrow> endpoint \<Rightarrow> request \<Rightarrow> app_state \<Rightarrow> 'v app_result" where
  "dispatch_auth cfg w c e r st =
     (let pr = aw_Auth w; svc = app_auth cfg; clk = ac_Clock c; m = app_Memory st;
          d = aw_Decode w; b = ac_Body c; secure = app_production cfg
      in case e of
           LoginRoute \<Rightarrow> on_auth st (auth_Login secure pr svc clk (ac_Random c) r (dec_Login d b) m)
         | LogoutRoute \<Rightarrow> on_auth st (auth_Logout secure pr svc clk r m)
         | MeRoute \<Rightarrow> (map_http_response (OfAuth None) (auth_Me r), st)
         | SetupStatusRoute \<Rightarrow> on_memory OfSetup st (setup_Status r m)
         | SetupAdminRoute \<Rightarrow>
             on_memory OfSetup st
               (setup_Admin (cfg_SetupToken cfg) (aw_Loopback w) (aw_BcryptHash w) clk r (dec_CreateAdmin d b) m)
         | TokensRoute \<Rightarrow>
             on_memory OfToken st
               (tokens_Collection (aw_Scopes w) (ap_hmac pr) (cfg_JWTSecret cfg) clk (ac_RandomToken c) r
                 (dec_CreateToken d b) m)
         | TokenItemRoute \<Rightarrow> on_memory OfToken st (tokens_Item (aw_Scopes w) clk r m)
         | GrantIssueRoute \<Rightarrow>
             on_service st
               (grants_Issue (aw_Codec w) clk (ac_Random c) (ac_Random2 c) r (dec_Issue d b) (app_Service st))
         | GrantValidateRoute \<Rightarrow>
             on_service st (grants_Validate (aw_Codec w) clk r (dec_Validate d b) (app_Service st))
         | GrantRevokeRoute \<Rightarrow> on_service st (grants_Revoke clk r (dec_Revoke d b) (app_Service st))
         | GrantPathRoute \<Rightarrow> on_service st (grants_RevokeByPath clk r (app_Service st))
         | other \<Rightarrow> (Error StatusNotFound [] ''404 page not found'', st))"

definition dispatch_builds ::
    "AppConfig \<Rightarrow> ('f, 'o, 'v) app_world \<Rightarrow> 'w app_call \<Rightarrow> endpoint \<Rightarrow> request \<Rightarrow> app_state \<Rightarrow> 'v app_result" where
  "dispatch_builds cfg w c e r st =
     (let js = aw_Spec w; clk = ac_Clock c; m = app_Memory st; d = aw_Decode w; b = ac_Body c;
          worker = Some (app_worker cfg)
      in case e of
           ProfilesRoute \<Rightarrow> on_memory OfBuild st (builds_Profiles js clk r (dec_Profile d b) m)
         | DoctorRoute \<Rightarrow>
             (case builds_Doctor worker (ac_Worker c) r (app_Files st) of
                (resp, fs) \<Rightarrow> (map_http_response OfBuild resp, st\<lparr> app_Files := fs \<rparr>))
         | JobsRoute \<Rightarrow> on_memory OfBuild st (builds_Jobs js clk r (dec_Job d b) m)
         | RunNextRoute \<Rightarrow> on_files OfBuild st (builds_RunNext worker (ac_Worker c) r (app_Files st, m))
         | JobItemRoute \<Rightarrow> on_memory OfBuild st (builds_JobItem (ac_Opened c) clk r m)
         | ArtifactRoute \<Rightarrow> on_memory OfBuild st (builds_ArtifactItem (ac_Opened c) clk r m)
         | ProfileItemRoute \<Rightarrow>
             on_memory OfBuild st (builds_ProfileItem js clk r (dec_Profile d b) (dec_Job d b) m)
         | BrandingRoute \<Rightarrow>
             (case assets_Branding (aw_SHA256 w) (aw_Mime w) (ac_IO c) (ac_RandomAsset c) (aw_Cwd w)
                     \<lparr> ls_Root = cfg_StorageLocalPath cfg \<rparr>
                     \<lparr> av_MaxBytes = of_int (cfg_BrandingAssetMaxBytes cfg) \<rparr> clk r (ac_Upload c)
                     (app_Files st, m) of
                (resp, st1) \<Rightarrow> on_files OfAsset st (Some resp, st1))
         | other \<Rightarrow> (Error StatusNotFound [] ''404 page not found'', st))"

definition dispatch_data ::
    "('f, 'o, 'v) app_world \<Rightarrow> 'w app_call \<Rightarrow> endpoint \<Rightarrow> request \<Rightarrow> app_state \<Rightarrow> 'v app_result" where
  "dispatch_data w c e r st =
     (let clk = ac_Clock c; m = app_Memory st; d = aw_Decode w; b = ac_Body c; vp = aw_Values w
      in case e of
           UsersRoute \<Rightarrow> on_memory OfUser st (users_Collection clk r (dec_User d b) m)
         | UserItemRoute \<Rightarrow> on_memory OfUser st (users_Item clk r (dec_User d b) m)
         | UserGroupsRoute \<Rightarrow> on_memory OfUser st (users_Groups clk r (dec_UserGroup d b) m)
         | UserGroupItemRoute \<Rightarrow> on_memory OfUser st (users_GroupItem clk r (dec_Member d b) m)
         | DevicesRoute \<Rightarrow> on_memory OfDevice st (devices_Collection clk r (dec_Device d b) m)
         | DeviceRegisterRoute \<Rightarrow> on_memory OfDevice st (devices_Register clk r (dec_Device d b) m)
         | DeviceItemRoute \<Rightarrow> on_memory OfDevice st (devices_Item (aw_JSON w) clk r (dec_Device d b) m)
         | DeviceGroupsRoute \<Rightarrow> on_memory OfDevice st (devices_Groups clk r (dec_DeviceGroup d b) m)
         | DeviceGroupItemRoute \<Rightarrow> on_memory OfDevice st (devices_GroupItem clk r (dec_DeviceMember d b) m)
         | BooksRoute \<Rightarrow> on_memory OfBook st (books_Collection clk r (dec_Book d b) m)
         | BookItemRoute \<Rightarrow> on_memory OfBook st (books_Item clk r (dec_Entry d b) m)
         | RelaysRoute \<Rightarrow> on_memory OfRelay st (relays_Collection clk r (dec_Relay d b) m)
         | RelayItemRoute \<Rightarrow> on_memory OfRelay st (relays_Item clk r (dec_Relay d b) (dec_Heartbeat d b) m)
         | AccessRulesRoute \<Rightarrow> on_memory OfPolicy st (AccessRules clk r (dec_AccessRule d b) m)
         | AccessRuleItemRoute \<Rightarrow> on_memory OfPolicy st (AccessRuleItem clk r (dec_AccessRule d b) m)
         | EvaluateRoute \<Rightarrow> on_memory OfPolicy st (EvaluateAccess r (dec_Evaluate d b) m)
         | ControlRolesRoute \<Rightarrow> on_memory OfPolicy st (ControlRoles clk r (dec_ControlRole d b) m)
         | ControlRoleItemRoute \<Rightarrow> on_memory OfPolicy st (ControlRoleItem clk r (dec_ControlRole d b) m)
         | StrategiesRoute \<Rightarrow> on_memory OfPolicy st (Strategies (aw_Reencode w) clk r (dec_Strategy d b) m)
         | StrategyItemRoute \<Rightarrow>
             on_memory OfPolicy st
               (StrategyItem (aw_Reencode w) clk r (dec_Strategy d b) (dec_Assignment d b) m)
         | AuditRoute \<Rightarrow> on_memory OfLog st (logs_Audit (aw_ParseTime w) r m)
         | ConnectionsRoute \<Rightarrow> on_memory OfLog st (logs_Connections (aw_ParseTime w) r m)
         | FileTransfersRoute \<Rightarrow> on_memory OfLog st (logs_FileTransfers (aw_ParseTime w) r m)
         | LoginsRoute \<Rightarrow> on_memory OfLog st (logs_Logins (aw_ParseTime w) r m)
         | SettingsRoute \<Rightarrow> on_memory OfSettings st (settings_Collection vp clk r (dec_Settings d b) m)
         | OIDCRoute \<Rightarrow> on_memory OfSettings st (settings_OIDC vp clk r (dec_Settings d b) m)
         | LDAPRoute \<Rightarrow> on_memory OfSettings st (settings_LDAP vp clk r (dec_Settings d b) m)
         | SMTPRoute \<Rightarrow> on_memory OfSettings st (settings_SMTP vp clk r (dec_Settings d b) m)
         | other \<Rightarrow> (Error StatusNotFound [] ''404 page not found'', st))"

definition health_routes :: "endpoint list" where
  "health_routes = [HealthRoute, ReadyRoute, VersionRoute]"

definition auth_routes :: "endpoint list" where
  "auth_routes = [LoginRoute, LogoutRoute, MeRoute, SetupStatusRoute, SetupAdminRoute, TokensRoute, TokenItemRoute,
     GrantIssueRoute, GrantValidateRoute, GrantRevokeRoute, GrantPathRoute]"

definition build_routes :: "endpoint list" where
  "build_routes = [ProfilesRoute, DoctorRoute, JobsRoute, RunNextRoute, JobItemRoute, ArtifactRoute,
     ProfileItemRoute, BrandingRoute]"

definition dispatch ::
    "AppConfig \<Rightarrow> gotime \<Rightarrow> ('f, 'o, 'v) app_world \<Rightarrow> 'w app_call \<Rightarrow> endpoint \<Rightarrow> request \<Rightarrow> app_state \<Rightarrow>
       'v app_result" where
  "dispatch cfg started w c e r st =
     (if e \<in> set health_routes
      then (map_http_response OfHealth
             (case e of
                ReadyRoute \<Rightarrow> health_Ready (aw_FormatTime w) (ac_Now c) (ac_Redis c) (app_health cfg started) r
              | VersionRoute \<Rightarrow> health_Version (aw_FormatTime w) (app_health cfg started) r
              | other \<Rightarrow> health_Health (aw_FormatTime w) (ac_Now c) (app_health cfg started) r), st)
      else if e \<in> set auth_routes then dispatch_auth cfg w c e r st
      else if e \<in> set build_routes then dispatch_builds cfg w c e r st
      else dispatch_data w c e r st)"

definition serve_mux ::
    "AppConfig \<Rightarrow> gotime \<Rightarrow> ('f, 'o, 'v) app_world \<Rightarrow> 'w app_call \<Rightarrow> request \<Rightarrow> app_state \<Rightarrow> 'v app_result" where
  "serve_mux cfg started w c r st =
     (case mux_route r of
        RouteTo e \<Rightarrow> dispatch cfg started w c e r st
      | RedirectTo p \<Rightarrow> (JSON 301 (MovedTo p), st)
      | NoRoute \<Rightarrow> (Error StatusNotFound [] ''404 page not found'', st))"

section \<open>Middleware\<close>

text \<open>\<^verbatim>\<open>Require\<close> around the mux: the request that reaches it, with its session, or the refusal.\<close>

definition authenticated ::
    "AppConfig \<Rightarrow> ('f, 'o, 'v) app_world \<Rightarrow> 'w app_call \<Rightarrow> request \<Rightarrow> Memory \<Rightarrow> request http_response \<times> Memory" where
  "authenticated cfg w c r m =
     Require (aw_Auth w) (app_auth cfg) (ac_AuthClock c) (Some publicRoute) (\<lambda>r1 m1. (JSON StatusOK r1, m1)) r m"

definition protected ::
    "AppConfig \<Rightarrow> gotime \<Rightarrow> ('f, 'o, 'v) app_world \<Rightarrow> 'w app_call \<Rightarrow> request \<Rightarrow> app_state \<Rightarrow> 'v app_result" where
  "protected cfg started w c r st =
     (case authenticated cfg w c r (app_Memory st) of
        (JSON n r1, m1) \<Rightarrow> serve_mux cfg started w c r1 (with_memory m1 st)
      | (Error n code msg, m1) \<Rightarrow> (Error n code msg, with_memory m1 st))"

fun rate_headers :: "rate_answer \<Rightarrow> (string \<times> string) list" where
  "rate_headers Unlimited = []"
| "rate_headers (Passed limit remaining) =
     [(''X-RateLimit-Limit'', FormatInt limit), (''X-RateLimit-Remaining'', FormatInt remaining)]"
| "rate_headers (Limited limit remaining wait) =
     [(''X-RateLimit-Limit'', FormatInt limit), (''X-RateLimit-Remaining'', FormatInt remaining),
      (''Retry-After'', FormatInt wait)]"

text \<open>
  The whole handler: request identifier, CORS, rate limit, security headers, authentication, mux.
  \<^verbatim>\<open>net/http\<close> gives a new request an empty context.
\<close>

definition serve ::
    "AppConfig \<Rightarrow> gotime \<Rightarrow> ('f, 'o, 'v) app_world \<Rightarrow> 'w app_call \<Rightarrow> request \<Rightarrow> app_state \<Rightarrow>
       ((string \<times> string) list \<times> 'v app_payload http_response) \<times> app_state" where
  "serve cfg started w c r0 st =
     (let r = r0\<lparr> Context := None \<rparr>;
          (cors, preflight) = CORS (cfg_AllowedCORSOrigins cfg) r;
          hs = (''X-Request-Id'', RequestID (ac_RandomRequest c) r) # cors
      in if preflight then ((hs, JSON 204 NoContent), st)
         else (case RateLimit (app_limits cfg) r (ac_Now c) (app_Limiter st) of
             (answer, l1) \<Rightarrow>
               let st1 = st\<lparr> app_Limiter := l1 \<rparr>
               in (case answer of
                     Limited limit remaining wait \<Rightarrow>
                       ((hs @ rate_headers answer,
                         Error StatusTooManyRequests ''RATE_LIMITED'' ''too many requests''), st1)
                   | passed \<Rightarrow>
                       (case protected cfg started w c r st1 of
                          (resp, st2) \<Rightarrow> ((hs @ rate_headers answer @ SecurityHeaders, resp), st2)))))"

fun serve_all ::
    "AppConfig \<Rightarrow> gotime \<Rightarrow> ('f, 'o, 'v) app_world \<Rightarrow> ('w app_call \<times> request) list \<Rightarrow> app_state \<Rightarrow> app_state" where
  "serve_all cfg started w [] st = st"
| "serve_all cfg started w ((c, r) # rs) st = serve_all cfg started w rs (snd (serve cfg started w c r st))"

end
