(* ===== verification/App_Properties.thy ===== *)
theory App_Properties
  imports App_Router
begin

text \<open>
  Properties of the server as a whole: requests in any order change the repository only through its
  methods, and without credentials only sessions, logs, grants in use and relay health change.
\<close>

section \<open>All requests\<close>

abbreviation server_reach :: "Memory \<Rightarrow> app_state \<Rightarrow> bool" where
  "server_reach m0 st \<equiv> over_memory m0 (app_Service st)"

lemma app_result_simps [simp]:
  "app_Service (snd (on_memory f st res)) = (app_Service st)\<lparr> svc_db := snd res \<rparr>"
  "app_Service (snd (on_service st res')) = snd res'"
  "app_Service (snd (on_auth st ares)) = (app_Service st)\<lparr> svc_db := snd ares \<rparr>"
  "app_Service (snd (on_files g st fres)) = (app_Service st)\<lparr> svc_db := snd (snd fres) \<rparr>"
  "app_Files (snd (on_memory f st res)) = app_Files st"
  "app_Files (snd (on_service st res')) = app_Files st"
  "app_Files (snd (on_auth st ares)) = app_Files st"
  "app_Service (with_memory m st) = (app_Service st)\<lparr> svc_db := m \<rparr>"
  "app_Files (with_memory m st) = app_Files st"
  by (simp_all add: on_memory_def on_service_def on_auth_def on_files_def with_memory_def)

lemma app_auth_store [simp]: "as_store (app_auth cfg) = memory_user_store"
  by (simp add: app_auth_def NewAuthService_def)

lemma over_memory_app: "server_reach m0 st \<Longrightarrow> mem_reach m0 (app_Memory st)"
  by (simp add: over_def)

lemmas data_routes_reach =
  users_reach users_Item_reach users_GroupItem_reach devices_reach devices_Item_reach devices_GroupItem_reach
  books_reach books_Item_reach relays_reach relays_Item_reach policies_reach strategies_reach
  policy_items_reach settings_routes_reach

lemma dispatch_data_reach:
  assumes "server_reach m0 st"
  shows "server_reach m0 (snd (dispatch_data w c e r st))"
proof -
  note m = over_memory_app [OF assms]
  note d = over_db [OF assms]
  show ?thesis using assms m
    by (cases e) (simp_all add: dispatch_data_def Let_def logs_same d data_routes_reach)
qed

lemma dispatch_auth_reach:
  assumes "server_reach m0 st"
  shows "server_reach m0 (snd (dispatch_auth cfg w c e r st))"
proof -
  note m = over_memory_app [OF assms]
  note d = over_db [OF assms]
  show ?thesis using assms m
    by (cases e) (simp_all add: dispatch_auth_def Let_def d setup_reach tokens_Collection_reach tokens_reach
        reaches.auth_handlers_keep grants_Issue_reach reaches.grants_Validate_keeps grants_Revoke_reach)
qed

lemma builds_Doctor_state: "snd (case builds_Doctor worker w r fs of (resp, fs1) \<Rightarrow> (f resp, st\<lparr> app_Files := fs1 \<rparr>)) =
     st\<lparr> app_Files := snd (builds_Doctor worker w r fs) \<rparr>"
  by (simp split: prod.split)

lemma dispatch_builds_reach:
  assumes "server_reach m0 st"
  shows "server_reach m0 (snd (dispatch_builds cfg w c e r st))"
proof -
  note m = over_memory_app [OF assms]
  note d = over_db [OF assms]
  show ?thesis using assms m
    by (cases e) (simp_all add: dispatch_builds_def Let_def d builds_reach builds_Jobs_reach builds_JobItem_reach
        builds_ArtifactItem_reach builds_ProfileItem_reach builds_RunNext_reach assets_Branding_reach
        builds_Doctor_state split_beta)
qed

lemma serve_mux_reach: "server_reach m0 st \<Longrightarrow> server_reach m0 (snd (serve_mux cfg started w c r st))"
  by (simp add: serve_mux_def dispatch_def dispatch_data_reach dispatch_auth_reach dispatch_builds_reach
      split: routed.split)

lemma authenticated_cases:
  obtains (public) "publicRoute r \<or> Method r = MethodOptions" "authenticated cfg w c r m = (JSON StatusOK r, m)"
  | (refused) e where "AuthenticateRequest (aw_Auth w) (app_auth cfg) (ac_AuthClock c) r m = (Inl e, m)"
      "authenticated cfg w c r m = (Error StatusUnauthorized ''UNAUTHENTICATED'' ''authentication is required'', m)"
  | (session) s m1 where "AuthenticateRequest (aw_Auth w) (app_auth cfg) (ac_AuthClock c) r m = (Inr s, m1)"
      "authenticated cfg w c r m = (JSON StatusOK (WithSession r s), m1)"
proof (cases "publicRoute r \<or> Method r = MethodOptions")
  case True
  then show thesis by (intro public) (auto simp: authenticated_def Require_def)
next
  case False
  obtain res m1 where a: "AuthenticateRequest (aw_Auth w) (app_auth cfg) (ac_AuthClock c) r m = (res, m1)"
    by fastforce
  show thesis
  proof (cases res)
    case (Inl e)
    with a have "m1 = m" by (simp add: AuthenticateRequest_Inl)
    then show thesis using a Inl False refused by (simp add: authenticated_def Require_def)
  next
    case (Inr s)
    then show thesis using a False session by (simp add: authenticated_def Require_def)
  qed
qed

lemma protected_reach:
  assumes "server_reach m0 st" shows "server_reach m0 (snd (protected cfg started w c r st))"
proof -
  have "mem_reach m0 (snd (authenticated cfg w c r (app_Memory st)))"
    using AuthenticateRequest_reach [OF app_auth_store over_memory_app [OF assms], of "aw_Auth w" cfg "ac_AuthClock c" r]
      over_memory_app [OF assms]
    by (cases cfg w c r "app_Memory st" rule: authenticated_cases) simp_all
  then have "server_reach m0 (with_memory (snd (authenticated cfg w c r (app_Memory st))) st)"
    by (simp add: over_db [OF assms])
  then show ?thesis
    by (auto simp: protected_def split: prod.split http_response.split intro: serve_mux_reach)
qed

lemma serve_cases:
  fixes r :: request
  obtains (preflight) hs where "Method r = MethodOptions" "serve cfg started w c r st = ((hs, JSON 204 NoContent), st)"
  | (limited) hs l where "serve cfg started w c r st =
        ((hs, Error StatusTooManyRequests ''RATE_LIMITED'' ''too many requests''), st\<lparr> app_Limiter := l \<rparr>)"
  | (passed) hs l where "Method r \<noteq> MethodOptions" "serve cfg started w c r st =
        ((hs, fst (protected cfg started w c (r\<lparr> Context := None \<rparr>) (st\<lparr> app_Limiter := l \<rparr>))),
         snd (protected cfg started w c (r\<lparr> Context := None \<rparr>) (st\<lparr> app_Limiter := l \<rparr>)))"
proof (cases "Method r = MethodOptions")
  case True
  then show thesis using preflight by (simp add: serve_def CORS_def Let_def)
next
  case False
  obtain answer l where rl: "RateLimit (app_limits cfg) (r\<lparr> Context := None \<rparr>) (ac_Now c) (app_Limiter st) = (answer, l)"
    by fastforce
  show thesis
  proof (cases answer)
    case (Limited a b d)
    then show thesis using False rl by (intro limited) (simp add: serve_def CORS_def Let_def)
  qed (use False rl in \<open>intro passed; simp add: serve_def CORS_def Let_def split_beta\<close>)+
qed

lemma serve_reach:
  assumes "server_reach m0 st" shows "server_reach m0 (snd (serve cfg started w c r st))"
  by (rule serve_cases [where r = r and cfg = cfg and started = started and w = w and c = c and st = st]) (use assms in \<open>simp_all add: protected_reach\<close>)

lemma serve_all_reach: "server_reach m0 st \<Longrightarrow> server_reach m0 (serve_all cfg started w rs st)"
  by (induction rs arbitrary: st) (auto simp: serve_reach)

lemma new_router_reach: "server_reach m (NewRouterWithStore cfg m fs)"
  by (simp add: NewRouterWithStore_def WithStore_def NewService_def over_def mem_reach.start)

section \<open>Requests without credentials\<close>

lemma relays_prefix: "HasPrefix path ''/api/v1/relays/'' \<Longrightarrow> \<exists>x. path = ''/api/v1/relays/'' @ x"
  unfolding HasPrefix_def by (metis append_take_drop_id)

lemma mux_match_relays: "mux_match (''/api/v1/relays/'' @ x) = Some RelayItemRoute"
  by (simp add: mux_match_def routes_def longer_subtree_def HasPrefix_def HasSuffix_def)

lemma mux_match_public:
  "mux_match ''/api/v1/health'' = Some HealthRoute" "mux_match ''/api/v1/ready'' = Some ReadyRoute"
  "mux_match ''/api/v1/version'' = Some VersionRoute" "mux_match ''/api/v1/auth/login'' = Some LoginRoute"
  "mux_match ''/api/v1/auth/logout'' = Some LogoutRoute"
  "mux_match ''/api/v1/relay-grants/validate'' = Some GrantValidateRoute"
  "mux_match ''/api/v1/setup/status'' = Some SetupStatusRoute"
  "mux_match ''/api/v1/setup/admin'' = Some SetupAdminRoute"
  by code_simp+

lemma mux_route_RouteTo: "mux_route r = RouteTo e \<Longrightarrow> mux_match (Path r) = Some e"
  by (auto simp: mux_route_def Let_def split: option.splits if_splits)

lemma public_endpoint:
  assumes "publicRoute r" "mux_route r = RouteTo e"
  shows "e \<in> {HealthRoute, ReadyRoute, VersionRoute, LoginRoute, LogoutRoute, SetupStatusRoute, SetupAdminRoute,
       GrantValidateRoute} \<or> e = RelayItemRoute \<and> HasPrefix (Path r) ''/api/v1/relays/''"
proof (cases "HasPrefix (Path r) ''/api/v1/relays/''")
  case True
  then show ?thesis using mux_route_RouteTo [OF assms(2)] mux_match_relays relays_prefix by fastforce
next
  case False
  then have "Path r \<in> {''/api/v1/health'', ''/api/v1/ready'', ''/api/v1/version'', ''/api/v1/auth/login'',
      ''/api/v1/auth/logout'', ''/api/v1/relay-grants/validate'', ''/api/v1/setup/status'', ''/api/v1/setup/admin''}"
    using assms(1) unfolding publicRoute_def by (simp split: if_splits)
  then show ?thesis using mux_route_RouteTo [OF assms(2)]
    by (elim insertE; simp add: mux_match_public)
qed

text \<open>What a request without credentials may leave behind.\<close>

definition anonymous_kept :: "app_state \<Rightarrow> app_state \<Rightarrow> bool" where
  "anonymous_kept st st' \<longleftrightarrow>
     app_Files st' = app_Files st \<and> kept_tables (app_Memory st) (app_Memory st') \<and>
     (users (app_Memory st) = [] \<or> kept (app_Memory st) (app_Memory st'))"

lemma anonymous_kept_same [simp]:
  "anonymous_kept st st" "anonymous_kept st (st\<lparr> app_Limiter := l \<rparr>)"
  by (simp_all add: anonymous_kept_def kept_def kept_tables_def)

lemma anonymous_kept_limiter: "anonymous_kept (st\<lparr> app_Limiter := l \<rparr>) st' \<longleftrightarrow> anonymous_kept st st'"
  by (simp add: anonymous_kept_def)

lemma anonymous_kept_memory:
  "kept (app_Memory st) m \<Longrightarrow> app_Files st' = app_Files st \<Longrightarrow> app_Memory st' = m \<Longrightarrow> anonymous_kept st st'"
  by (simp add: anonymous_kept_def kept_def)

lemma setup_Status_same: "snd (setup_Status r m) = m"
  by (simp add: setup_Status_def with_method_def CountUsers_def split: option.split)

lemma setup_Admin_tables: "kept_tables m (snd (setup_Admin configured loopback bcrypt_hash clk r body m))"
  by (auto simp: kept_tables_def setup_Admin_def with_method_def decoded_def checked_def respond_def
      CreateUser_def CountUsers_def RepositoryWrite_eq CreateAuditEvent_def Let_def split: option.split)

lemma setup_Admin_kept:
  "users m \<noteq> [] \<Longrightarrow> kept m (snd (setup_Admin configured loopback bcrypt_hash clk r body m))"
  using setup_Admin_refused [of m configured loopback bcrypt_hash clk r body] by fastforce

lemma public_relay_kept:
  assumes "publicRoute r" "HasPrefix (Path r) ''/api/v1/relays/''"
  shows "kept m (snd (relays_Item clk r body hb m))"
proof -
  have suf: "HasSuffix (Path r) ''/heartbeat''"
    using assms unfolding publicRoute_def by (auto simp: HasPrefix_def split: if_splits)
  show ?thesis
  proof (cases "parseRelayPath (Path r)")
    case None
    then show ?thesis by (simp add: relays_Item_def)
  next
    case (Some p)
    then obtain i action where p: "parseRelayPath (Path r) = Some (i, action)" by fastforce
    have "action = ''heartbeat''" by (rule parse_heartbeat_path [OF assms(2) suf p])
    then show ?thesis using p
      by (auto simp: relays_Item_def with_method_def keeps.heartbeat_keeps split: option.split)
  qed
qed

lemma public_dispatch_kept:
  assumes "svc_store (app_Service st) = Some memory_grant_store"
    and "publicRoute r" "mux_route r = RouteTo e"
  shows "anonymous_kept st (snd (dispatch cfg started w c e r st))"
proof -
  have o: "over (kept (app_Memory st)) (app_Service st)" using assms(1) by (simp add: over_def)
  note e = public_endpoint [OF assms(2,3)]
  have login: "anonymous_kept st (snd (dispatch_auth cfg w c LoginRoute r st))"
    "anonymous_kept st (snd (dispatch_auth cfg w c LogoutRoute r st))"
    by (rule anonymous_kept_memory; simp add: dispatch_auth_def Let_def keeps.auth_handlers_keep)+
  have first: "anonymous_kept st (snd (dispatch_auth cfg w c SetupStatusRoute r st))"
    "anonymous_kept st (snd (dispatch_auth cfg w c SetupAdminRoute r st))"
    by (simp_all add: anonymous_kept_def dispatch_auth_def Let_def setup_Status_same setup_Admin_tables
        setup_Admin_kept disj_imp) (simp add: kept_def [symmetric] kept_tables_def)
  have grants: "anonymous_kept st (snd (dispatch_auth cfg w c GrantValidateRoute r st))"
    using keeps.grants_Validate_keeps [OF o]
    by (intro anonymous_kept_memory [OF _ _ HOL.refl]) (simp_all add: dispatch_auth_def Let_def over_def)
  have relays: "anonymous_kept st (snd (dispatch_data w c RelayItemRoute r st))"
    if "HasPrefix (Path r) ''/api/v1/relays/''"
    by (rule anonymous_kept_memory; simp add: dispatch_data_def Let_def public_relay_kept [OF assms(2) that])
  show ?thesis using e login first grants relays
    by (auto simp: dispatch_def health_routes_def auth_routes_def build_routes_def)
qed

lemma protected_anonymous:
  assumes "svc_store (app_Service st) = Some memory_grant_store" "Method r \<noteq> MethodOptions"
    and "AuthenticateRequest (aw_Auth w) (app_auth cfg) (ac_AuthClock c) r (app_Memory st) = (Inl e, m1)"
  shows "anonymous_kept st (snd (protected cfg started w c r st))"
proof (cases cfg w c r "app_Memory st" rule: authenticated_cases)
  case public
  have "with_memory (app_Memory st) st = st" by (simp add: with_memory_def)
  then show ?thesis using public assms(1,2)
    by (auto simp: protected_def serve_mux_def public_dispatch_kept split: routed.split)
next
  case refused
  have "with_memory (app_Memory st) st = st" by (simp add: with_memory_def)
  then show ?thesis using refused by (simp add: protected_def)
qed (use assms(3) in simp)

section \<open>An example world\<close>

definition wit_decoders :: app_decoders where
  "wit_decoders = \<lparr>
       
       dec_Login = (\<lambda>b. Some \<lparr> lr_Email = ''a@b'', lr_Password = b, lr_IP = [], lr_UserAgent = [] \<rparr>),
       dec_CreateAdmin = (\<lambda>_. None), dec_CreateToken = (\<lambda>_. None),
       dec_User = (\<lambda>_. None), dec_UserGroup = (\<lambda>_. None),
       dec_Member = (\<lambda>_. None), dec_Device = (\<lambda>_. None),
       dec_DeviceGroup = (\<lambda>_. None), dec_DeviceMember = (\<lambda>_. None),
       dec_Book = (\<lambda>_. None), dec_Entry = (\<lambda>_. None), dec_Relay = (\<lambda>_. None),
       dec_Heartbeat = (\<lambda>_. Some wit_heartbeat), dec_AccessRule = (\<lambda>_. None),
       dec_Evaluate = (\<lambda>_. None), dec_ControlRole = (\<lambda>_. None),
       dec_Strategy = (\<lambda>_. None), dec_Assignment = (\<lambda>_. None),
       dec_Issue = (\<lambda>_. None), dec_Validate = (\<lambda>_. None),
       dec_Revoke = (\<lambda>_. None), dec_Profile = (\<lambda>_. None),
       dec_Job = (\<lambda>_. None), dec_Settings = (\<lambda>_. None) \<rparr>"

definition wit_spec :: spec_json where
  "wit_spec =
     \<lparr> sj_Server = (\<lambda>_. Inl []), sj_Branding = (\<lambda>_. Inl []), sj_Policy = (\<lambda>_. Inl []),
       sj_Platforms = (\<lambda>_. Inl []), sj_Signing = (\<lambda>_. Inl []), sj_Source = (\<lambda>_. Inl []),
       sj_ReadPlatforms = (\<lambda>_. None) \<rparr>"

definition wit_app :: "(nat, nat, string) app_world" where
  "wit_app =
     \<lparr> aw_Decode = wit_decoders, aw_Auth = wit_setup_prims, aw_Codec = wit_c, aw_Scopes = wit_scopes,
       aw_JSON = wit_js, aw_Values = wit_values, aw_Spec = wit_spec, aw_Reencode = Some,
       aw_ParseTime = (\<lambda>_. None), aw_FormatTime = FormatInt, aw_Loopback = (\<lambda>_. False),
       aw_BcryptHash = wit_bcrypt, aw_SHA256 = rev, aw_Mime = (\<lambda>_. []), aw_Cwd = Inr ''/srv'' \<rparr>"

definition wit_call :: "string app_call" where
  "wit_call =
     \<lparr> ac_Now = 10, ac_AuthClock = (\<lambda>_. 11), ac_Clock = (\<lambda>_. 12), ac_Body = ''correct horse'',
       ac_Upload = NotMultipart, ac_Random = ''n'', ac_Random2 = ''m'', ac_RandomToken = None,
       ac_RandomAsset = Inr ''1'', ac_RandomRequest = ''q'',
       ac_IO = \<lparr> io_Mkdir = None, io_Open = None, io_Copy = None, io_Close = None, io_Rename = None,
                 io_Remove = True \<rparr>,
       ac_Opened = (\<lambda>_. OpenFails), ac_Worker = wit_world, ac_Redis = True \<rparr>"

definition wit_app_cfg :: AppConfig where
  "wit_app_cfg = config_from_env (\<lambda>_. None) [''OPENDESK_RELAY_GRANT_SIGNING_KEY'' \<mapsto> ''x'']"

definition wit_app_start :: app_state where
  "wit_app_start = NewRouterWithStore wit_app_cfg wit_m0 Map.empty"

section \<open>Properties\<close>

text \<open>
  C10. The server's logs are append-only and its revocations final: no sequence of HTTP requests to
  any routes, with any bodies, credentials and clock readings, changes or removes a row of the audit,
  login or connection log, or gives a revoked session or API token back.
\<close>

theorem server_logs_append_only:
  "let m' = app_Memory (serve_all cfg started w rs (NewRouterWithStore cfg m fs))
   in suffix (auditEvents m) (auditEvents m') \<and> suffix (loginLogs m) (loginLogs m') \<and>
      suffix (connectionLogs m) (connectionLogs m') \<and> fileTransfers m' = fileTransfers m \<and> revoked_kept m m'"
proof -
  have r: "mem_reach m (app_Memory (serve_all cfg started w rs (NewRouterWithStore cfg m fs)))"
    using serve_all_reach [OF new_router_reach] by (rule over_memory_app)
  show ?thesis using mem_reach_logs [OF r] mem_reach_revoked [OF r] by (simp add: logs_extend_def Let_def)
qed

text \<open>
  C4. Without credentials the server can be used only to log in and out, to set it up while it has no
  user, to validate grants and to report relay health: whatever such a request is, no file, device,
  group, address book, policy, setting, API token or build changes, and, once there is a user, no
  user beyond the time of the last login.
\<close>

theorem anonymous_requests_confined:
  assumes "svc_store (app_Service st) = Some memory_grant_store"
    and "AuthenticateRequest (aw_Auth w) (app_auth cfg) (ac_AuthClock c) (r\<lparr> Context := None \<rparr>) (app_Memory st) =
       (Inl e, m1)"
    and "serve cfg started w c r st = ((hs, resp), st')"
  shows "app_Files st' = app_Files st \<and> kept_tables (app_Memory st) (app_Memory st') \<and>
     (users (app_Memory st) \<noteq> [] \<longrightarrow>
       map user_core (users (app_Memory st')) = map user_core (users (app_Memory st)))"
proof -
  have "anonymous_kept st (snd (serve cfg started w c r st))"
  proof (rule serve_cases [where r = r and cfg = cfg and started = started and w = w and c = c and st = st])
    fix hs l
    assume s: "Method r \<noteq> MethodOptions" "serve cfg started w c r st =
        ((hs, fst (protected cfg started w c (r\<lparr> Context := None \<rparr>) (st\<lparr> app_Limiter := l \<rparr>))),
         snd (protected cfg started w c (r\<lparr> Context := None \<rparr>) (st\<lparr> app_Limiter := l \<rparr>)))"
    have "anonymous_kept (st\<lparr> app_Limiter := l \<rparr>)
        (snd (protected cfg started w c (r\<lparr> Context := None \<rparr>) (st\<lparr> app_Limiter := l \<rparr>)))"
      by (rule protected_anonymous) (use assms(1,2) s(1) in simp_all)
    then show ?thesis using s(2) by (simp add: anonymous_kept_limiter)
  qed simp_all
  then show ?thesis using assms(3) by (auto simp: anonymous_kept_def kept_def)
qed

theorem anonymous_requests_confined_witness:
  "kept_tables (app_Memory wit_app_start)
     (app_Memory (snd (serve wit_app_cfg 0 wit_app wit_call wit_heartbeat_request wit_app_start)))"
proof -
  let ?res = "serve wit_app_cfg 0 wit_app wit_call wit_heartbeat_request wit_app_start"
  have o: "svc_store (app_Service wit_app_start) = Some memory_grant_store"
    by (simp add: wit_app_start_def NewRouterWithStore_def WithStore_def)
  have a: "AuthenticateRequest (aw_Auth wit_app) (app_auth wit_app_cfg) (ac_AuthClock wit_call)
      (wit_heartbeat_request\<lparr> Context := None \<rparr>) (app_Memory wit_app_start) =
      (Inl ErrInvalidSessionToken, app_Memory wit_app_start)"
    by (simp add: AuthenticateRequest_def HeaderGet_def wit_heartbeat_request_def bearerToken_def Cookie_def
        Fields.simps [of "[]"])
  have s: "?res = ((fst (fst ?res), snd (fst ?res)), snd ?res)" by simp
  show ?thesis using anonymous_requests_confined [OF o a s] by blast
qed

end
