(* ===== verification/App_Start.thy ===== *)
theory App_Start
  imports App_Properties
begin

text \<open>
  From the environment to the first login: configuration, store and router together.
\<close>

section \<open>Secrets\<close>

lemma default_secret_weak: "weakSecret ''dev-only-opendesk-session-signing-key-change-me''"
  by code_simp

lemma config_from_env_secret:
  "cfg_JWTSecret (config_from_env pd env) =
     stringEnv env ''OPENDESK_JWT_SECRET'' ''dev-only-opendesk-session-signing-key-change-me''"
  by (simp add: config_from_env_def)

text \<open>
  In production the key that signs sessions is the operator's: a configuration that loads without
  error has the key from the environment or \<^verbatim>\<open>.env\<close>, at least 32 characters long, never the
  built-in one, and the service signs with it; and the repository is the database.
\<close>

lemma production_secret_supplied:
  assumes "Load pd dotenv env0 = (cfg, None)" "cfg_Env cfg = ''production''"
  shows "as_key (app_auth cfg) = TrimSpace (Getenv (loadDotEnv dotenv env0) ''OPENDESK_JWT_SECRET'') \<and>
     32 \<le> length (as_key (app_auth cfg)) \<and>
     as_key (app_auth cfg) \<noteq> ''dev-only-opendesk-session-signing-key-change-me'' \<and>
     TrimSpace (cfg_MySQLDSN cfg) \<noteq> []"
proof -
  let ?s = "Getenv (loadDotEnv dotenv env0) ''OPENDESK_JWT_SECRET''"
  have v: "config_Validate cfg = None" "cfg = config_from_env pd (loadDotEnv dotenv env0)"
    using assms(1) by (auto simp: Load_def Let_def)
  then have w: "\<not> weakSecret (cfg_JWTSecret cfg)" "TrimSpace (cfg_MySQLDSN cfg) \<noteq> []"
    using assms(2) by (auto simp: config_Validate_def split: if_splits)
  have s: "cfg_JWTSecret cfg = TrimSpace ?s"
    using w(1) default_secret_weak v(2) by (auto simp: config_from_env_secret stringEnv_def Let_def split: if_splits)
  then have "32 \<le> length (TrimSpace ?s)" using w(1) by (auto simp: weakSecret_def Let_def)
  moreover have "as_key (app_auth cfg) = cfg_JWTSecret cfg"
    using s calculation by (auto simp: app_auth_def NewAuthService_def)
  ultimately show ?thesis using s w default_secret_weak by auto
qed

definition wit_env :: env where
  "wit_env = [''OPENDESK_ENV'' \<mapsto> ''production'', ''OPENDESK_MYSQL_DSN'' \<mapsto> ''db'',
     ''OPENDESK_RELAY_GRANT_SIGNING_KEY'' \<mapsto> ''x'', ''OPENDESK_INITIAL_ADMIN_EMAIL'' \<mapsto> ''a@b'']"

definition wit_dotenv :: "string list option" where
  "wit_dotenv = Some [''# keys'', ''OPENDESK_JWT_SECRET = \"0123456789abcdef0123456789abcdef\"'', ''OPENDESK_ENV=test'',
     ''OPENDESK_INITIAL_ADMIN_PASSWORD=correct horse'']"

definition wit_cfg :: AppConfig where
  "wit_cfg = fst (Load (\<lambda>_. None) wit_dotenv wit_env)"

lemma wit_loads:
  "snd (Load (\<lambda>_. None) wit_dotenv wit_env) = None \<and> cfg_Env wit_cfg = ''production'' \<and>
   TrimSpace (Getenv (loadDotEnv wit_dotenv wit_env) ''OPENDESK_JWT_SECRET'') = ''0123456789abcdef0123456789abcdef''"
  by code_simp

lemma wit_load: "Load (\<lambda>_. None) wit_dotenv wit_env = (wit_cfg, None)"
  using wit_loads by (simp add: wit_cfg_def prod_eq_iff)

lemma production_secret_supplied_witness:
  "as_key (app_auth wit_cfg) = ''0123456789abcdef0123456789abcdef''"
  using production_secret_supplied [OF wit_load] wit_loads by simp

section \<open>First login\<close>

lemma bootstrapD:
  assumes "memory_NewStore bcrypt_hash clk now cfg = Inr m"
    and "TrimSpace (cfg_InitialAdminEmail cfg) \<noteq> []" "TrimSpace (cfg_InitialAdminPassword cfg) \<noteq> []"
  shows "\<exists>u. users m = [u] \<and> 0 < user_ID u \<and> user_Status u = UserStatusActive \<and>
     user_Email u = TrimSpace (cfg_InitialAdminEmail cfg) \<and>
     bcrypt_hash (cfg_InitialAdminPassword cfg) = Inr (user_PasswordHash u)"
  using assms
  by (auto simp: memory_NewStore_def bootstrapInitialAdminIfConfigured_def CountUsers_def CreateUser_def
      NewMemoryWithoutInitialAdmin_def newMemoryWithUsersAndNext_def bootstrap_user_def RepositoryWrite_eq
      CreateAuditEvent_def Let_def split: sum.splits if_splits)

lemma fresh_limiter_passes:
  assumes "config_Validate cfg = None"
  shows "RateLimit (app_limits cfg) r now (app_Limiter (NewRouterWithStore cfg m fs)) \<noteq> (Limited a b d, l)"
  using assms
  by (auto simp: RateLimit_def app_limits_def NewRouterWithStore_def newMemoryRateLimiter_def allow_def Let_def
      config_Validate_def split: if_splits)

lemma mux_route_login: "Path r = ''/api/v1/auth/login'' \<Longrightarrow> mux_route r = RouteTo LoginRoute"
proof -
  have "cleanPath ''/api/v1/auth/login'' = ''/api/v1/auth/login''" by code_simp
  then show "Path r = ''/api/v1/auth/login'' \<Longrightarrow> ?thesis"
    by (simp add: mux_route_def mux_match_public del: One_nat_def)
qed

text \<open>
  C20. The configured administrator can log in: when the configuration loads without error and the
  store starts, a POST of the configured address and password to the login route of the fresh server
  is answered 200 with a session of that administrator, whoever sends it, and a set-up request is
  refused.
\<close>

theorem configured_admin_logs_in:
  fixes r :: request
  assumes "Load pd dotenv env0 = (cfg, None)" "memory_NewStore bcrypt_hash clk now cfg = Inr m"
    and "TrimSpace (cfg_InitialAdminEmail cfg) \<noteq> []"
    and "\<And>ch. ch \<in> set (TrimSpace (cfg_InitialAdminEmail cfg)) \<Longrightarrow> 32 < byte ch \<and> byte ch < 128"
    and "\<And>pw hash. bcrypt_hash pw = Inr hash \<Longrightarrow> ap_bcrypt (aw_Auth w) hash pw"
    and "\<And>x. ap_marshal (aw_Auth w) x \<noteq> None" "\<And>key s. ap_hmac (aw_Auth w) key s \<noteq> []"
    and "\<not> IsZero (Add (ac_Clock c 1) (as_ttl (app_auth cfg)))"
    and "Method r = MethodPost" "Path r = ''/api/v1/auth/login''"
    and "dec_Login (aw_Decode w) (ac_Body c) =
       Some \<lparr> lr_Email = cfg_InitialAdminEmail cfg, lr_Password = cfg_InitialAdminPassword cfg, lr_IP = [], lr_UserAgent = [] \<rparr>"
  shows "(\<exists>hs ck resp st'. serve cfg started w c r (NewRouterWithStore cfg m fs) =
       ((hs, JSON StatusOK (OfAuth (Some ck) (LoggedIn resp))), st') \<and>
       map user_ID (users m) = [user_ID (lp_User resp)] \<and> ck_Value ck = lp_AccessToken resp) \<and>
    (\<exists>n code msg. setup_Admin configured loopback bh clk2 r2 body2 m = (Error n code msg, m))"
proof -
  have v: "config_Validate cfg = None" using assms(1) by (auto simp: Load_def Let_def)
  then have pw: "TrimSpace (cfg_InitialAdminPassword cfg) \<noteq> []"
    using assms(3) by (auto simp: config_Validate_def split: if_splits)
  obtain u where u: "users m = [u]" "0 < user_ID u" "user_Status u = UserStatusActive"
      "user_Email u = TrimSpace (cfg_InitialAdminEmail cfg)"
      "bcrypt_hash (cfg_InitialAdminPassword cfg) = Inr (user_PasswordHash u)"
    using bootstrapD [OF assms(2,3) pw] by blast
  define req where "req = \<lparr> lr_Email = cfg_InitialAdminEmail cfg, lr_Password = cfg_InitialAdminPassword cfg,
      lr_IP = requestIP (r\<lparr> Context := None \<rparr>), lr_UserAgent = UserAgent (r\<lparr> Context := None \<rparr>) \<rparr>"
  have low: "TrimSpace (ToLower (TrimSpace (cfg_InitialAdminEmail cfg))) = ToLower (TrimSpace (cfg_InitialAdminEmail cfg))"
  proof (rule TrimSpace_graph)
    fix ch assume "ch \<in> set (ToLower (TrimSpace (cfg_InitialAdminEmail cfg)))"
    then obtain ch' where "ch' \<in> set (TrimSpace (cfg_InitialAdminEmail cfg))" "ch = lower_char ch'"
      by (auto simp: ToLower_def)
    then show "32 < byte ch \<and> byte ch < 128" using assms(4) [of ch'] by (auto simp: lower_char_def)
  qed
  have f: "FindUserByEmail (ToLower (TrimSpace (lr_Email req))) m = Inr u"
    using u low by (simp add: req_def FindUserByEmail_def EqualFold_def)
  have "\<exists>resp m'. Login (aw_Auth w) (app_auth cfg) (ac_Clock c) (ac_Random c) req m = (Inr resp, m') \<and>
      user_ID (lp_User resp) = user_ID u"
    by (rule login_succeeds [OF app_auth_store f])
      (use u assms(3,5-8) pw in \<open>auto simp: req_def VerifyPassword_def ToLower_def\<close>)
  then obtain resp m' where l: "Login (aw_Auth w) (app_auth cfg) (ac_Clock c) (ac_Random c) req m = (Inr resp, m')"
      "user_ID (lp_User resp) = user_ID u" by blast
  have db: "app_Memory (NewRouterWithStore cfg m fs \<lparr> app_Limiter := l \<rparr>) = m" for l
    by (simp add: NewRouterWithStore_def WithStore_def NewService_def)
  obtain answer l1 where rl: "RateLimit (app_limits cfg) (r\<lparr> Context := None \<rparr>) (ac_Now c)
      (app_Limiter (NewRouterWithStore cfg m fs)) = (answer, l1)" by fastforce
  then have a: "\<nexists>a b d. answer = Limited a b d" using fresh_limiter_passes [OF v] by blast
  have "publicRoute (r\<lparr> Context := None \<rparr>)" using assms(10) by (simp add: publicRoute_def)
  then have "\<exists>ck st'. protected cfg started w c (r\<lparr> Context := None \<rparr>) (NewRouterWithStore cfg m fs\<lparr> app_Limiter := l1 \<rparr>) =
      (JSON StatusOK (OfAuth (Some ck) (LoggedIn resp)), st') \<and> ck_Value ck = lp_AccessToken resp"
    using l assms(9-11) db
    by (simp add: protected_def authenticated_def Require_def serve_mux_def mux_route_login dispatch_def
        health_routes_def auth_routes_def dispatch_auth_def Let_def on_auth_def auth_Login_def
        require_method_def req_def)
  then have "\<exists>hs ck st'. serve cfg started w c r (NewRouterWithStore cfg m fs) =
      ((hs, JSON StatusOK (OfAuth (Some ck) (LoggedIn resp))), st') \<and> ck_Value ck = lp_AccessToken resp"
    using rl a assms(9) by (cases answer) (auto simp: serve_def CORS_def Let_def)
  then have "\<exists>hs ck resp st'. serve cfg started w c r (NewRouterWithStore cfg m fs) =
       ((hs, JSON StatusOK (OfAuth (Some ck) (LoggedIn resp))), st') \<and>
       map user_ID (users m) = [user_ID (lp_User resp)] \<and> ck_Value ck = lp_AccessToken resp"
    using l(2) u(1) by auto
  moreover have "\<exists>n code msg. setup_Admin configured loopback bh clk2 r2 body2 m = (Error n code msg, m)"
    by (rule setup_Admin_refused) (simp add: u(1))
  ultimately show ?thesis by blast
qed

definition wit_start_cfg :: AppConfig where
  "wit_start_cfg = fst (Load (\<lambda>_. None) None
     [''OPENDESK_RELAY_GRANT_SIGNING_KEY'' \<mapsto> ''x'', ''OPENDESK_INITIAL_ADMIN_EMAIL'' \<mapsto> ''a@b'',
      ''OPENDESK_INITIAL_ADMIN_PASSWORD'' \<mapsto> ''correct horse''])"

definition wit_hash :: "string \<Rightarrow> string + string" where
  "wit_hash pw = Inr (rev pw)"

definition wit_store_started :: Memory where
  "wit_store_started = fallbackMemoryStore wit_hash (\<lambda>_. 1) 0 wit_start_cfg"

definition wit_login_post :: request where
  "wit_login_post = wit_heartbeat_request\<lparr> Path := ''/api/v1/auth/login'' \<rparr>"

theorem configured_admin_logs_in_witness:
  "\<exists>hs ck resp st'. serve wit_start_cfg 0 wit_app wit_call wit_login_post
       (NewRouterWithStore wit_start_cfg wit_store_started Map.empty) =
     ((hs, JSON StatusOK (OfAuth (Some ck) (LoggedIn resp))), st') \<and> user_ID (lp_User resp) = 1"
proof -
  let ?env = "[''OPENDESK_RELAY_GRANT_SIGNING_KEY'' \<mapsto> ''x'', ''OPENDESK_INITIAL_ADMIN_EMAIL'' \<mapsto> ''a@b'',
      ''OPENDESK_INITIAL_ADMIN_PASSWORD'' \<mapsto> ''correct horse''] :: env"
  have s: "snd (Load (\<lambda>_. None) None ?env) = None \<and>
      cfg_InitialAdminEmail wit_start_cfg = ''a@b'' \<and> cfg_InitialAdminPassword wit_start_cfg = ''correct horse'' \<and>
      TrimSpace ''a@b'' = ''a@b'' \<and> map user_ID (users wit_store_started) = [1] \<and>
      fst (bootstrapInitialAdminIfConfigured wit_hash (\<lambda>_. 1) wit_start_cfg (NewMemoryWithoutInitialAdmin 0)) = None \<and>
      \<not> IsZero (Add (ac_Clock wit_call 1) (as_ttl (app_auth wit_start_cfg)))"
    by code_simp
  then have l: "Load (\<lambda>_. None) None ?env = (wit_start_cfg, None)" by (simp add: wit_start_cfg_def prod_eq_iff)
  have e: "cfg_InitialAdminEmail wit_start_cfg = ''a@b''" "cfg_InitialAdminPassword wit_start_cfg = ''correct horse''"
    and t: "TrimSpace ''a@b'' = ''a@b''" and u: "map user_ID (users wit_store_started) = [1]"
    and z: "\<not> IsZero (Add (ac_Clock wit_call 1) (as_ttl (app_auth wit_start_cfg)))"
    using s by blast+
  have m: "memory_NewStore wit_hash (\<lambda>_. 1) 0 wit_start_cfg = Inr wit_store_started"
    using s by (auto simp: memory_NewStore_def wit_store_started_def fallbackMemoryStore_def split: prod.split)
  have g: "32 < byte ch \<and> byte ch < 128" if "ch \<in> set (TrimSpace (cfg_InitialAdminEmail wit_start_cfg))" for ch
    using that by (auto simp: e t)
  have p: "ap_bcrypt (aw_Auth wit_app) hash pw" if "wit_hash pw = Inr hash" for pw hash
    using that by (auto simp: wit_app_def wit_setup_prims_def wit_hash_def)
  have q: "ap_marshal (aw_Auth wit_app) x \<noteq> None" "ap_hmac (aw_Auth wit_app) key t \<noteq> []" for x key t
    by (simp_all add: wit_app_def wit_setup_prims_def)
  have r: "Method wit_login_post = MethodPost" "Path wit_login_post = ''/api/v1/auth/login''"
    by (simp_all add: wit_login_post_def wit_heartbeat_request_def)
  have b: "dec_Login (aw_Decode wit_app) (ac_Body wit_call) =
      Some \<lparr> lr_Email = cfg_InitialAdminEmail wit_start_cfg, lr_Password = cfg_InitialAdminPassword wit_start_cfg,
             lr_IP = [], lr_UserAgent = [] \<rparr>"
    by (simp add: wit_app_def wit_decoders_def wit_call_def e)
  have n: "TrimSpace (cfg_InitialAdminEmail wit_start_cfg) \<noteq> []" by (simp add: e t)
  show ?thesis using configured_admin_logs_in [OF l m n g p q z r b] u by fastforce
qed

end
