(* ===== verification/Builder_Spec.thy ===== *)
theory Builder_Spec
  imports Build_Spec
begin

text \<open>
  The build specification as the builder program reads it
  (\<^verbatim>\<open>builder/internal/buildspec/buildspec.go\<close>). Its parts have the fields of those of the API
  (\<^verbatim>\<open>api/internal/builder/buildspec.go\<close>) except the source, and its validation is stricter. Reading
  a file and decoding JSON are arguments.
\<close>

section \<open>Specification\<close>

type_synonym cli_AppSpec = AppSpec
type_synonym cli_BrandingSpec = BrandingSpec
type_synonym cli_ServerSpec = ServerSpec
type_synonym cli_PolicySpec = PolicySpec
type_synonym cli_PlatformSpec = PlatformSpec
type_synonym cli_SigningSpec = SigningSpec

record cli_SourceSpec =
  csrc_RustDeskRef :: string
  csrc_OpenDeskPatchset :: string

record Spec =
  sp_App :: cli_AppSpec
  sp_Branding :: cli_BrandingSpec
  sp_Server :: cli_ServerSpec
  sp_Policy :: cli_PolicySpec
  sp_Platforms :: cli_PlatformSpec
  sp_Signing :: cli_SigningSpec
  sp_Source :: cli_SourceSpec

definition cli_RelayGrantRequired :: "Spec \<Rightarrow> bool" where
  "cli_RelayGrantRequired s =
     (case srv_RelayGrantRequired (sp_Server s) of None \<Rightarrow> True | Some b \<Rightarrow> b)"

definition cli_Any :: "cli_PlatformSpec \<Rightarrow> bool" where
  "cli_Any p \<longleftrightarrow> pf_WindowsX64 p \<or> pf_MacOSX64 p \<or> pf_MacOSARM64 p \<or> pf_AndroidARM64 p \<or> pf_IOSARM64 p"

definition cli_Ordered :: "cli_PlatformSpec \<Rightarrow> string list" where
  "cli_Ordered p =
     (if pf_WindowsX64 p then [''windows_x64''] else []) @
     (if pf_MacOSX64 p then [''macos_x64''] else []) @
     (if pf_MacOSARM64 p then [''macos_arm64''] else []) @
     (if pf_AndroidARM64 p then [''android_arm64''] else []) @
     (if pf_IOSARM64 p then [''ios_arm64''] else [])"

definition cli_Validate :: "Spec \<Rightarrow> string option" where
  "cli_Validate s =
     (let app = sp_App s; server = sp_Server s
      in if TrimSpace (app_Name app) = [] then Some ''app.name is required''
         else if EqualFold (TrimSpace (app_Name app)) ''rustdesk''
         then Some ''app.name must not use RustDesk trademark''
         else if TrimSpace (app_Vendor app) = [] then Some ''app.vendor is required''
         else if \<not> bundleIDPattern (app_BundleID app)
         then Some ''app.bundle_id must be a valid reverse-DNS identifier''
         else if srv_IDServer server = [] \<or> srv_RelayServer server = [] \<or> srv_APIServer server = [] \<or>
                 srv_Key server = []
         then Some ''server id_server, relay_server, api_server, and key are required''
         else if cli_RelayGrantRequired s \<and> TrimSpace (srv_RelayName server) = []
         then Some ''server.relay_name is required when relay grants are required''
         else if \<not> cli_Any (sp_Platforms s) then Some ''at least one platform must be enabled''
         else if pf_IOSARM64 (sp_Platforms s) \<and> sig_IOS (sp_Signing s) = []
         then Some ''ios signing mode is required when ios_arm64 is enabled''
         else if csrc_OpenDeskPatchset (sp_Source s) = [] then Some ''source.opendesk_patchset is required''
         else None)"

text \<open>\<^verbatim>\<open>Load\<close>: \<open>read\<close> is \<^verbatim>\<open>os.ReadFile\<close> and \<open>decode\<close> is \<^verbatim>\<open>json.Unmarshal\<close>.\<close>

definition cli_Load ::
    "(string \<Rightarrow> string + string) \<Rightarrow> (string \<Rightarrow> string + Spec) \<Rightarrow> string \<Rightarrow> string + Spec" where
  "cli_Load read decode path =
     (case read path of
        Inl e \<Rightarrow> Inl e
      | Inr raw \<Rightarrow>
          (case decode raw of
             Inl e \<Rightarrow> Inl e
           | Inr spec \<Rightarrow> (case cli_Validate spec of Some e \<Rightarrow> Inl e | None \<Rightarrow> Inr spec)))"

section \<open>Normalized form\<close>

record normalizedServer =
  ns_IDServer :: string
  ns_RelayServer :: string
  ns_RelayName :: string
  ns_APIServer :: string
  ns_Key :: string
  ns_WebSocket :: bool
  ns_RelayGrantRequired :: bool

record normalized =
  nm_App :: cli_AppSpec
  nm_Branding :: cli_BrandingSpec
  nm_Server :: normalizedServer
  nm_Policy :: cli_PolicySpec
  nm_Platforms :: cli_PlatformSpec
  nm_Signing :: cli_SigningSpec
  nm_Source :: cli_SourceSpec

definition normalized_spec :: "Spec \<Rightarrow> normalized" where
  "normalized_spec s =
     \<lparr> nm_App = sp_App s, nm_Branding = sp_Branding s,
       nm_Server =
         \<lparr> ns_IDServer = srv_IDServer (sp_Server s), ns_RelayServer = srv_RelayServer (sp_Server s),
           ns_RelayName = srv_RelayName (sp_Server s), ns_APIServer = srv_APIServer (sp_Server s),
           ns_Key = srv_Key (sp_Server s), ns_WebSocket = srv_WebSocket (sp_Server s),
           ns_RelayGrantRequired = cli_RelayGrantRequired s \<rparr>,
       nm_Policy = sp_Policy s, nm_Platforms = sp_Platforms s, nm_Signing = sp_Signing s,
       nm_Source = sp_Source s \<rparr>"

text \<open>\<^verbatim>\<open>fmt\<close> prints a list of strings in brackets with blanks between them.\<close>

fun join_blank :: "string list \<Rightarrow> string" where
  "join_blank [] = []"
| "join_blank [p] = p"
| "join_blank (p # q # ps) = p @ '' '' @ join_blank (q # ps)"

definition cli_Summary :: "Spec \<Rightarrow> string" where
  "cli_Summary s =
     app_Name (sp_App s) @ '' ('' @ app_BundleID (sp_App s) @ ''), platforms=['' @
     join_blank (cli_Ordered (sp_Platforms s)) @ '']''"

section \<open>The two validations\<close>

text \<open>
  The specification of the API as the builder sees it: the parts are taken over, the tag of the
  source is not.
\<close>

definition as_cli :: "string \<Rightarrow> BuildSpec \<Rightarrow> Spec" where
  "as_cli vendor s =
     \<lparr> sp_App = (spec_App s)\<lparr> app_Vendor := vendor \<rparr>, sp_Branding = spec_Branding s,
       sp_Server = spec_Server s, sp_Policy = spec_Policy s, sp_Platforms = spec_Platforms s,
       sp_Signing = spec_Signing s,
       sp_Source = \<lparr> csrc_RustDeskRef = src_RustDeskRef (spec_Source s),
                     csrc_OpenDeskPatchset = src_OpenDeskPatchset (spec_Source s) \<rparr> \<rparr>"

lemma cli_same: "cli_Any = Any" "cli_Ordered = Ordered" "cli_RelayGrantRequired (as_cli v s) = RelayGrantRequired s"
  by (auto simp: fun_eq_iff cli_Any_def Any_def cli_Ordered_def Ordered_def cli_RelayGrantRequired_def
      RelayGrantRequired_def as_cli_def)

lemma RustDesk_refused: "EqualFold (TrimSpace ''RustDesk'') ''rustdesk''"
  by code_simp

lemma if_Some_None: "(if c then Some x else r) = None \<longleftrightarrow> \<not> c \<and> r = None"
  by simp

lemma API_valid_iff:
  "spec_Validate s = None \<longleftrightarrow>
     app_Name (spec_App s) \<noteq> [] \<and> app_Name (spec_App s) \<noteq> ''RustDesk'' \<and> bundleIDPattern (app_BundleID (spec_App s)) \<and>
     srv_IDServer (spec_Server s) \<noteq> [] \<and> srv_RelayServer (spec_Server s) \<noteq> [] \<and>
     srv_APIServer (spec_Server s) \<noteq> [] \<and> srv_Key (spec_Server s) \<noteq> [] \<and>
     \<not> (RelayGrantRequired s \<and> srv_RelayName (spec_Server s) = []) \<and> Any (spec_Platforms s) \<and>
     \<not> (pf_IOSARM64 (spec_Platforms s) \<and> sig_IOS (spec_Signing s) = [])"
  unfolding spec_Validate_def Let_def if_Some_None by blast

lemma cli_valid_iff:
  "cli_Validate s = None \<longleftrightarrow>
     TrimSpace (app_Name (sp_App s)) \<noteq> [] \<and> \<not> EqualFold (TrimSpace (app_Name (sp_App s))) ''rustdesk'' \<and>
     TrimSpace (app_Vendor (sp_App s)) \<noteq> [] \<and> bundleIDPattern (app_BundleID (sp_App s)) \<and>
     srv_IDServer (sp_Server s) \<noteq> [] \<and> srv_RelayServer (sp_Server s) \<noteq> [] \<and>
     srv_APIServer (sp_Server s) \<noteq> [] \<and> srv_Key (sp_Server s) \<noteq> [] \<and>
     \<not> (cli_RelayGrantRequired s \<and> TrimSpace (srv_RelayName (sp_Server s)) = []) \<and> cli_Any (sp_Platforms s) \<and>
     \<not> (pf_IOSARM64 (sp_Platforms s) \<and> sig_IOS (sp_Signing s) = []) \<and>
     csrc_OpenDeskPatchset (sp_Source s) \<noteq> []"
  unfolding cli_Validate_def Let_def if_Some_None by blast

text \<open>
  What the API accepts the builder accepts too, but for four things: a name that is blank or RustDesk
  in another case or with blanks around, a blank vendor, a blank relay name, and no patch set.
\<close>

lemma cli_Validate_as_cli:
  assumes "spec_Validate s = None"
  shows "cli_Validate (as_cli vendor s) = None \<longleftrightarrow>
     TrimSpace (app_Name (spec_App s)) \<noteq> [] \<and> \<not> EqualFold (TrimSpace (app_Name (spec_App s))) ''rustdesk'' \<and>
     TrimSpace vendor \<noteq> [] \<and> \<not> (RelayGrantRequired s \<and> TrimSpace (srv_RelayName (spec_Server s)) = []) \<and>
     src_OpenDeskPatchset (spec_Source s) \<noteq> []"
proof -
  have "sp_App (as_cli vendor s) = (spec_App s)\<lparr> app_Vendor := vendor \<rparr>"
    "sp_Server (as_cli vendor s) = spec_Server s" "sp_Platforms (as_cli vendor s) = spec_Platforms s"
    "sp_Signing (as_cli vendor s) = spec_Signing s"
    "csrc_OpenDeskPatchset (sp_Source (as_cli vendor s)) = src_OpenDeskPatchset (spec_Source s)"
    by (simp_all add: as_cli_def)
  note parts = this cli_same
  show ?thesis using assms unfolding API_valid_iff cli_valid_iff parts by simp
qed

end
