(* ===== verification/Builder_Inject.thy ===== *)
theory Builder_Inject
  imports Builder_Spec Paths Tokens
begin

text \<open>
  The files the builder injects into the client (\<^verbatim>\<open>builder/internal/injector/injector.go\<close>): the
  normalized specification, its parts as JSON, and the Rust source with the constants. JSON,
  SHA-256, the errors of the file system and the way \<^verbatim>\<open>strconv.Quote\<close> writes what is not ASCII are
  arguments.
\<close>

section \<open>Quoting\<close>

text \<open>
  \<^verbatim>\<open>strconv.Quote\<close> at an ASCII byte. \<open>wide\<close> gives the text for the other runes at the head of a
  string, and how many bytes they take.
\<close>

definition quote_ascii :: "char \<Rightarrow> string" where
  "quote_ascii c =
     (if c = CHR 0x22 \<or> c = CHR 0x5C then [CHR 0x5C, c]
      else if 32 \<le> byte c \<and> byte c < 127 then [c]
      else if byte c = 7 then [CHR 0x5C, CHR ''a'']
      else if byte c = 8 then [CHR 0x5C, CHR ''b'']
      else if byte c = 12 then [CHR 0x5C, CHR ''f'']
      else if byte c = 10 then [CHR 0x5C, CHR ''n'']
      else if byte c = 13 then [CHR 0x5C, CHR ''r'']
      else if byte c = 9 then [CHR 0x5C, CHR ''t'']
      else if byte c = 11 then [CHR 0x5C, CHR ''v'']
      else CHR 0x5C # CHR ''x'' # hex_encode [c])"

function quote_body :: "(string \<Rightarrow> string \<times> nat) \<Rightarrow> string \<Rightarrow> string" where
  "quote_body wide [] = []"
| "quote_body wide (c # s) =
     (if byte c < 128 then quote_ascii c @ quote_body wide s
      else fst (wide (c # s)) @ quote_body wide (drop (snd (wide (c # s)) - 1) s))"
  by pat_completeness auto
termination by (relation "measure (length \<circ> snd)") auto

definition Quote :: "(string \<Rightarrow> string \<times> nat) \<Rightarrow> string \<Rightarrow> string" where
  "Quote wide s = CHR 0x22 # quote_body wide s @ [CHR 0x22]"

section \<open>Generated files\<close>

record GeneratedFile =
  gf_Path :: string
  gf_SHA256 :: string
  gf_Bytes :: int

record Manifest =
  mf_App :: string
  mf_BundleID :: string
  mf_Platforms :: "string list"
  mf_Files :: "GeneratedFile list"

text \<open>JSON of the values written; \<^term>\<open>None\<close> is an error, on which the builder panics.\<close>

record inject_json =
  ij_Normalized :: "normalized \<Rightarrow> string option"
  ij_Branding :: "BrandingSpec \<Rightarrow> string option"
  ij_Policy :: "PolicySpec \<Rightarrow> string option"
  ij_Settings :: "(string \<rightharpoonup> string) option \<Rightarrow> string option"
  ij_Manifest :: "Manifest \<Rightarrow> string option"

record file_errors =
  fe_Mkdir :: "string \<Rightarrow> string option"
  fe_Write :: "string \<Rightarrow> string option"

abbreviation newline :: char where "newline \<equiv> CHR 0x0A"

definition mustNormalized :: "inject_json \<Rightarrow> Spec \<Rightarrow> string option" where
  "mustNormalized js spec = map_option (\<lambda>d. d @ [newline]) (ij_Normalized js (normalized_spec spec))"

definition mustJSON :: "('a \<Rightarrow> string option) \<Rightarrow> 'a \<Rightarrow> string option" where
  "mustJSON marshal v = map_option (\<lambda>d. d @ [newline]) (marshal v)"

definition rust_str :: "(string \<Rightarrow> string \<times> nat) \<Rightarrow> string \<Rightarrow> string \<Rightarrow> string" where
  "rust_str wide name v = ''pub const '' @ name @ '': &str = '' @ Quote wide v @ '';'' @ [newline]"

definition rust_bool :: "string \<Rightarrow> bool \<Rightarrow> string" where
  "rust_bool name b =
     ''pub const '' @ name @ '': bool = '' @ (if b then ''true'' else ''false'') @ '';'' @ [newline]"

definition rustConfig :: "(string \<Rightarrow> string \<times> nat) \<Rightarrow> inject_json \<Rightarrow> Spec \<Rightarrow> string option" where
  "rustConfig wide js spec =
     (case ij_Settings js (ps_DefaultSettings (sp_Policy spec)) of
        None \<Rightarrow> None
      | Some defaultSettings \<Rightarrow>
          (case ij_Settings js (ps_OverrideSettings (sp_Policy spec)) of
             None \<Rightarrow> None
           | Some overrideSettings \<Rightarrow>
               let app = sp_App spec; server = sp_Server spec
               in Some (''// Code generated by opendesk-builder. Do not edit.'' @ [newline] @
                    rust_str wide ''OPENDESK_APP_NAME'' (app_Name app) @
                    rust_str wide ''OPENDESK_VENDOR'' (app_Vendor app) @
                    rust_str wide ''OPENDESK_BUNDLE_ID'' (app_BundleID app) @
                    rust_str wide ''OPENDESK_WINDOWS_PRODUCT_NAME'' (app_WindowsProductName app) @
                    rust_str wide ''OPENDESK_ID_SERVER'' (srv_IDServer server) @
                    rust_str wide ''OPENDESK_RELAY_SERVER'' (srv_RelayServer server) @
                    rust_str wide ''OPENDESK_RELAY_NAME'' (srv_RelayName server) @
                    rust_str wide ''OPENDESK_API_SERVER'' (srv_APIServer server) @
                    rust_str wide ''OPENDESK_SERVER_KEY'' (srv_Key server) @
                    rust_bool ''OPENDESK_WEBSOCKET'' (srv_WebSocket server) @
                    rust_bool ''OPENDESK_RELAY_GRANT_REQUIRED'' (cli_RelayGrantRequired spec) @
                    rust_str wide ''OPENDESK_POLICY_PROFILE'' (ps_Profile (sp_Policy spec)) @
                    rust_str wide ''OPENDESK_DEFAULT_SETTINGS_JSON'' defaultSettings @
                    rust_str wide ''OPENDESK_OVERRIDE_SETTINGS_JSON'' overrideSettings)))"

text \<open>\<^verbatim>\<open>filepath.Dir\<close>: the path in front of the last slash, cleaned.\<close>

definition Dir :: "string \<Rightarrow> string" where
  "Dir path = Clean (rev (dropWhile (\<lambda>c. c \<noteq> slash) (rev path)))"

definition inject_writeFile ::
    "(string \<Rightarrow> string) \<Rightarrow> file_errors \<Rightarrow> string \<Rightarrow> string \<Rightarrow> string \<Rightarrow> files \<Rightarrow>
       (string + GeneratedFile) \<times> files" where
  "inject_writeFile sha fe root relativePath data fs =
     (let fullPath = Join [root, relativePath]
      in case fe_Mkdir fe (Dir fullPath) of
           Some e \<Rightarrow> (Inl e, fs)
         | None \<Rightarrow>
             (case fe_Write fe fullPath of
                Some e \<Rightarrow> (Inl e, fs)
              | None \<Rightarrow>
                  (Inr \<lparr> gf_Path = relativePath, gf_SHA256 = hex_encode (sha data), gf_Bytes = int (length data) \<rparr>,
                   fs(fullPath \<mapsto> data))))"

fun write_files ::
    "(string \<Rightarrow> string) \<Rightarrow> file_errors \<Rightarrow> string \<Rightarrow> (string \<times> string) list \<Rightarrow> files \<Rightarrow>
       (string + GeneratedFile list) \<times> files" where
  "write_files sha fe root [] fs = (Inr [], fs)"
| "write_files sha fe root ((path, data) # rest) fs =
     (case inject_writeFile sha fe root path data fs of
        (Inl e, fs1) \<Rightarrow> (Inl e, fs1)
      | (Inr g, fs1) \<Rightarrow>
          (case write_files sha fe root rest fs1 of
             (Inl e, fs2) \<Rightarrow> (Inl e, fs2)
           | (Inr gs, fs2) \<Rightarrow> (Inr (g # gs), fs2)))"

definition inject_files :: "(string \<Rightarrow> string \<times> nat) \<Rightarrow> inject_json \<Rightarrow> Spec \<Rightarrow> (string \<times> string) list option" where
  "inject_files wide js spec =
     (case mustNormalized js spec of
        None \<Rightarrow> None
      | Some a \<Rightarrow>
     (case mustJSON (ij_Branding js) (sp_Branding spec) of
        None \<Rightarrow> None
      | Some b \<Rightarrow>
     (case mustJSON (ij_Policy js) (sp_Policy spec) of
        None \<Rightarrow> None
      | Some p \<Rightarrow>
     (case rustConfig wide js spec of
        None \<Rightarrow> None
      | Some r \<Rightarrow>
          Some [(''opendesk/buildspec.normalized.json'', a), (''opendesk/branding.json'', b),
                (''opendesk/policy.json'', p), (''rust/src/opendesk_generated.rs'', r)]))))"

text \<open>\<^verbatim>\<open>Generate\<close>: the manifest or the error, and the files; \<^term>\<open>None\<close> is the panic.\<close>

definition Generate ::
    "(string \<Rightarrow> string \<times> nat) \<Rightarrow> inject_json \<Rightarrow> (string \<Rightarrow> string) \<Rightarrow> file_errors \<Rightarrow> Spec \<Rightarrow> string \<Rightarrow> files \<Rightarrow>
       (string + Manifest) option \<times> files" where
  "Generate wide js sha fe spec outDir fs =
     (case cli_Validate spec of
        Some e \<Rightarrow> (Some (Inl e), fs)
      | None \<Rightarrow>
          (case fe_Mkdir fe outDir of
             Some e \<Rightarrow> (Some (Inl e), fs)
           | None \<Rightarrow>
               (case inject_files wide js spec of
                  None \<Rightarrow> (None, fs)
                | Some fls \<Rightarrow>
                    (case write_files sha fe outDir fls fs of
                       (Inl e, fs1) \<Rightarrow> (Some (Inl e), fs1)
                     | (Inr gs, fs1) \<Rightarrow>
                         let manifest = \<lparr> mf_App = app_Name (sp_App spec), mf_BundleID = app_BundleID (sp_App spec),
                                          mf_Platforms = cli_Ordered (sp_Platforms spec), mf_Files = gs \<rparr>
                         in (case mustJSON (ij_Manifest js) manifest of
                               None \<Rightarrow> (None, fs1)
                             | Some data \<Rightarrow>
                                 (case inject_writeFile sha fe outDir ''opendesk/manifest.json'' data fs1 of
                                    (Inl e, fs2) \<Rightarrow> (Some (Inl e), fs2)
                                  | (Inr g, fs2) \<Rightarrow> (Some (Inr manifest), fs2)))))))"

end
