(* ===== verification/Builder_Source.thy ===== *)
theory Builder_Source
  imports Builder_Inject
begin

text \<open>
  The generated Rust source read back: a reader for string literals and constant declarations of
  Rust, and the constants it finds in what \<^verbatim>\<open>rustConfig\<close> of
  \<^verbatim>\<open>builder/internal/injector/injector.go\<close> writes. The reader belongs to the statement, not to the
  program.
\<close>

section \<open>Reading the constants back\<close>

text \<open>
  A string literal of Rust after its opening quote: the value and what follows the closing quote.
  The escapes of Rust are those for quotes, backslash, newline, carriage return, tab and zero, and
  two hexadecimal digits up to 7F.
\<close>

definition hex_value :: "char \<Rightarrow> nat option" where
  "hex_value c =
     (if 48 \<le> byte c \<and> byte c \<le> 57 then Some (byte c - 48)
      else if 97 \<le> byte c \<and> byte c \<le> 102 then Some (byte c - 87)
      else if 65 \<le> byte c \<and> byte c \<le> 70 then Some (byte c - 55)
      else None)"

definition simple_escape :: "char \<Rightarrow> char option" where
  "simple_escape c =
     (if c = CHR 0x22 \<or> c = CHR 0x5C \<or> byte c = 39 then Some c
      else if c = CHR ''n'' then Some CHR 0x0A
      else if c = CHR ''r'' then Some CHR 0x0D
      else if c = CHR ''t'' then Some CHR 0x09
      else if c = CHR ''0'' then Some CHR 0x00
      else None)"

fun rust_body :: "string \<Rightarrow> (string \<times> string) option" where
  "rust_body [] = None"
| "rust_body [c] = (if c = CHR 0x22 then Some ([], []) else None)"
| "rust_body [c, d] =
     (if c = CHR 0x22 then Some ([], [d])
      else if c = CHR 0x5C then None
      else map_option (\<lambda>(v, rest). (c # v, rest)) (rust_body [d]))"
| "rust_body (c # d # e # s) =
     (if c = CHR 0x22 then Some ([], d # e # s)
      else if c = CHR 0x5C
      then (if d = CHR ''x''
            then (case s of
                    [] \<Rightarrow> None
                  | f # t \<Rightarrow>
                      (case (hex_value e, hex_value f) of
                         (Some a, Some b) \<Rightarrow>
                           if a < 8 then map_option (\<lambda>(v, rest). (char_of (16 * a + b) # v, rest)) (rust_body t)
                           else None
                       | _ \<Rightarrow> None))
            else (case simple_escape d of
                    None \<Rightarrow> None
                  | Some x \<Rightarrow> map_option (\<lambda>(v, rest). (x # v, rest)) (rust_body (e # s))))
      else map_option (\<lambda>(v, rest). (c # v, rest)) (rust_body (d # e # s)))"

text \<open>The bytes Go escapes in a way Rust does not know.\<close>

definition go_only :: "char \<Rightarrow> bool" where
  "go_only c \<longleftrightarrow> byte c \<in> {7, 8, 11, 12}"

definition ascii :: "string \<Rightarrow> bool" where
  "ascii s \<longleftrightarrow> (\<forall>c \<in> set s. byte c < 128)"

lemma ascii_simps [simp]: "ascii []" "ascii (c # s) \<longleftrightarrow> byte c < 128 \<and> ascii s"
  by (simp_all add: ascii_def)

lemma hex_value_digit: "n < 16 \<Longrightarrow> hex_value (hex_digit n) = Some n"
  by (auto simp: hex_value_def hex_digit_def)

lemma rust_body_plain:
  "c \<noteq> CHR 0x22 \<Longrightarrow> c \<noteq> CHR 0x5C \<Longrightarrow> s \<noteq> [] \<Longrightarrow>
     rust_body (c # s) = map_option (\<lambda>(v, rest). (c # v, rest)) (rust_body s)"
  by (cases s; cases "tl s") auto

lemma rust_body_escape:
  "s \<noteq> [] \<Longrightarrow> d \<noteq> CHR ''x'' \<Longrightarrow>
     rust_body (CHR 0x5C # d # s) =
       (case simple_escape d of None \<Rightarrow> None | Some x \<Rightarrow> map_option (\<lambda>(v, rest). (x # v, rest)) (rust_body s))"
  by (cases s) auto

lemma rust_body_hex:
  assumes "byte c < 128"
  shows "rust_body (CHR 0x5C # CHR ''x'' # hex_encode [c] @ s) =
     map_option (\<lambda>(v, rest). (c # v, rest)) (rust_body s)"
proof -
  have "byte c div 16 < 8" "byte c mod 16 < 16" using assms by auto
  moreover have "16 * (byte c div 16) + byte c mod 16 = byte c" by simp
  ultimately show ?thesis
    by (simp add: hex_encode_def hex_value_digit del: mult_div_mod_eq)
qed

lemma char_eq_byte: "c = d \<longleftrightarrow> byte c = byte d"
  by simp

lemma rust_body_quote_ascii:
  assumes "byte c < 128" "s \<noteq> []"
  shows "rust_body (quote_ascii c @ s) =
     (if go_only c then None else map_option (\<lambda>(v, rest). (c # v, rest)) (rust_body s))"
proof -
  consider (quote) "c = CHR 0x22 \<or> c = CHR 0x5C"
    | (plain) "32 \<le> byte c" "byte c < 127" "c \<noteq> CHR 0x22" "c \<noteq> CHR 0x5C"
    | (control) "byte c \<in> {7, 8, 9, 10, 11, 12, 13}"
    | (hex) "byte c < 32 \<or> byte c = 127" "byte c \<notin> {7, 8, 9, 10, 11, 12, 13}"
    by (cases "32 \<le> byte c"; cases "byte c < 127") (use assms(1) in auto)
  then show ?thesis
  proof cases
    case quote
    then show ?thesis using assms(2)
      by (auto simp: quote_ascii_def rust_body_escape simple_escape_def go_only_def)
  next
    case plain
    then show ?thesis using assms(2) by (simp add: quote_ascii_def rust_body_plain go_only_def)
  next
    case control
    then have "c \<in> {CHR 0x07, CHR 0x08, CHR 0x09, CHR 0x0A, CHR 0x0B, CHR 0x0C, CHR 0x0D}"
      by (elim insertE) (simp_all add: char_eq_byte [of c] del: of_char_eq_iff)
    moreover have "simple_escape CHR ''a'' = None" "simple_escape CHR ''b'' = None"
      "simple_escape CHR ''f'' = None" "simple_escape CHR ''v'' = None"
      "simple_escape CHR ''n'' = Some CHR 0x0A" "simple_escape CHR ''r'' = Some CHR 0x0D"
      "simple_escape CHR ''t'' = Some CHR 0x09"
      by code_simp+
    moreover have "quote_ascii CHR 0x07 = [CHR 0x5C, CHR ''a'']" "quote_ascii CHR 0x08 = [CHR 0x5C, CHR ''b'']"
      "quote_ascii CHR 0x09 = [CHR 0x5C, CHR ''t'']" "quote_ascii CHR 0x0A = [CHR 0x5C, CHR ''n'']"
      "quote_ascii CHR 0x0B = [CHR 0x5C, CHR ''v'']" "quote_ascii CHR 0x0C = [CHR 0x5C, CHR ''f'']"
      "quote_ascii CHR 0x0D = [CHR 0x5C, CHR ''r'']"
      by (simp_all add: quote_ascii_def)
    moreover have "go_only CHR 0x07" "go_only CHR 0x08" "\<not> go_only CHR 0x09" "\<not> go_only CHR 0x0A"
      "go_only CHR 0x0B" "go_only CHR 0x0C" "\<not> go_only CHR 0x0D"
      by (simp_all add: go_only_def)
    ultimately show ?thesis using assms(2)
      by (elim insertE emptyE) (simp_all add: rust_body_escape del: rust_body.simps)
  next
    case hex
    then have "quote_ascii c = CHR 0x5C # CHR ''x'' # hex_encode [c]"
      by (auto simp: quote_ascii_def)
    then show ?thesis using rust_body_hex [OF assms(1), of s] hex(2) by (auto simp: go_only_def)
  qed
qed

lemma rust_body_end: "rust_body (CHR 0x22 # s) = Some ([], s)"
  by (cases s; cases "tl s") auto

lemma rust_body_quote:
  "ascii v \<Longrightarrow> rust_body (quote_body wide v @ CHR 0x22 # rest) =
     (if list_ex go_only v then None else Some (v, rest))"
proof (induction v)
  case (Cons c v)
  then have "byte c < 128" by simp
  from rust_body_quote_ascii [OF this, of "quote_body wide v @ CHR 0x22 # rest"] show ?case
    using Cons by simp
qed (simp add: rust_body_end)

section \<open>Lines\<close>

definition read_const :: "string \<Rightarrow> (string \<times> string) option" where
  "read_const line =
     (if \<not> HasPrefix line ''pub const '' then None
      else let rest = TrimPrefix line ''pub const '';
               name = takeWhile (\<lambda>c. c \<noteq> CHR '':'') rest;
               decl = drop (length name) rest;
               str = '': &str = '' @ [CHR 0x22]
           in if HasPrefix decl str
              then (case rust_body (TrimPrefix decl str) of
                      Some (v, r) \<Rightarrow> if r = '';'' then Some (name, v) else None
                    | None \<Rightarrow> None)
              else if decl = '': bool = true;'' then Some (name, ''true'')
              else if decl = '': bool = false;'' then Some (name, ''false'')
              else None)"

text \<open>The constants a generated source declares; \<^term>\<open>None\<close> for a line that does not read.\<close>

definition rust_consts :: "string \<Rightarrow> (string \<times> string) option list" where
  "rust_consts src = map read_const (filter (\<lambda>l. HasPrefix l ''pub const '') (Split newline src))"

lemma HasPrefix_append [simp]: "HasPrefix (p @ s) p"
  by (simp add: HasPrefix_def)

lemma TrimPrefix_append [simp]: "TrimPrefix (p @ s) p = s"
  by (simp add: TrimPrefix_def)

lemma takeWhile_name: "CHR '':'' \<notin> set name \<Longrightarrow> takeWhile (\<lambda>c. c \<noteq> CHR '':'') (name @ CHR '':'' # s) = name"
  by (induction name) auto

lemma read_const_decl:
  assumes "CHR '':'' \<notin> set name"
  shows "read_const (''pub const '' @ name @ CHR '':'' # s) =
     (let decl = CHR '':'' # s; str = '': &str = '' @ [CHR 0x22]
      in if HasPrefix decl str
         then (case rust_body (TrimPrefix decl str) of
                 Some (v, r) \<Rightarrow> if r = '';'' then Some (name, v) else None
               | None \<Rightarrow> None)
         else if decl = '': bool = true;'' then Some (name, ''true'')
         else if decl = '': bool = false;'' then Some (name, ''false'')
         else None)"
proof -
  have d: "drop (length name) (name @ t) = t" for t by simp
  show ?thesis
    unfolding read_const_def TrimPrefix_append takeWhile_name [OF assms] Let_def d
    by (simp only: HasPrefix_append not_True_eq_False if_False)
qed

lemma read_const_str:
  assumes "CHR '':'' \<notin> set name" "ascii v"
  shows "read_const (''pub const '' @ name @ '': &str = '' @ Quote wide v @ '';'') =
     (if list_ex go_only v then None else Some (name, v))"
proof -
  have "'': &str = '' @ Quote wide v @ '';'' = ('': &str = '' @ [CHR 0x22]) @ quote_body wide v @ CHR 0x22 # '';''"
    by (simp add: Quote_def)
  then show ?thesis
    using read_const_decl [OF assms(1), of "'' &str = '' @ Quote wide v @ '';''"]
      rust_body_quote [OF assms(2), of wide "'';''"]
    by (simp add: HasPrefix_def TrimPrefix_def Quote_def)
qed

lemma read_const_bool:
  assumes "CHR '':'' \<notin> set name"
  shows "read_const (''pub const '' @ name @ '': bool = '' @ (if b then ''true'' else ''false'') @ '';'') =
     Some (name, if b then ''true'' else ''false'')"
  using read_const_decl [OF assms, of "'' bool = '' @ (if b then ''true'' else ''false'') @ '';''"]
  by (simp add: HasPrefix_def)

section \<open>The generated source\<close>

text \<open>The constants of a specification, in the order of the source; the strings first read as text.\<close>

definition config_values :: "string \<Rightarrow> string \<Rightarrow> Spec \<Rightarrow> (string \<times> string) list" where
  "config_values defaultSettings overrideSettings spec =
     (let app = sp_App spec; server = sp_Server spec
      in [(''OPENDESK_APP_NAME'', app_Name app), (''OPENDESK_VENDOR'', app_Vendor app),
          (''OPENDESK_BUNDLE_ID'', app_BundleID app),
          (''OPENDESK_WINDOWS_PRODUCT_NAME'', app_WindowsProductName app),
          (''OPENDESK_ID_SERVER'', srv_IDServer server), (''OPENDESK_RELAY_SERVER'', srv_RelayServer server),
          (''OPENDESK_RELAY_NAME'', srv_RelayName server), (''OPENDESK_API_SERVER'', srv_APIServer server),
          (''OPENDESK_SERVER_KEY'', srv_Key server),
          (''OPENDESK_WEBSOCKET'', if srv_WebSocket server then ''true'' else ''false''),
          (''OPENDESK_RELAY_GRANT_REQUIRED'', if cli_RelayGrantRequired spec then ''true'' else ''false''),
          (''OPENDESK_POLICY_PROFILE'', ps_Profile (sp_Policy spec)),
          (''OPENDESK_DEFAULT_SETTINGS_JSON'', defaultSettings),
          (''OPENDESK_OVERRIDE_SETTINGS_JSON'', overrideSettings)])"

definition read_value :: "string \<times> string \<Rightarrow> (string \<times> string) option" where
  "read_value c = (if list_ex go_only (snd c) then None else Some c)"

lemma hex_digit_line: "n < 16 \<Longrightarrow> hex_digit n \<noteq> newline"
proof
  assume "n < 16" "hex_digit n = newline"
  moreover have "hex_value newline = None" by (simp add: hex_value_def)
  ultimately show False using hex_value_digit [of n] by simp
qed

lemma quote_ascii_line: "byte c < 128 \<Longrightarrow> newline \<notin> set (quote_ascii c)"
proof -
  assume "byte c < 128"
  then have "byte c div 16 < 16" "byte c mod 16 < 16" by auto
  then have "newline \<notin> set (hex_encode [c])"
    using hex_digit_line [of "byte c div 16"] hex_digit_line [of "byte c mod 16"]
    by (auto simp: hex_encode_def)
  moreover have "c = newline \<Longrightarrow> byte c = 10" by simp
  ultimately show ?thesis by (auto simp: quote_ascii_def)
qed

lemma quote_body_line: "ascii v \<Longrightarrow> newline \<notin> set (quote_body wide v)"
  by (induction v) (auto simp: quote_ascii_line)

text \<open>A line that declares a constant: what is in front of the newline, and how it reads.\<close>

definition const_line :: "string \<Rightarrow> string \<Rightarrow> (string \<times> string) option \<Rightarrow> bool" where
  "const_line text l c \<longleftrightarrow> text = l @ [newline] \<and> newline \<notin> set l \<and>
     HasPrefix l ''pub const '' \<and> read_const l = c"

lemma rust_str_line:
  assumes "CHR '':'' \<notin> set name" "newline \<notin> set name" "ascii v"
  shows "\<exists>l. const_line (rust_str wide name v) l (read_value (name, v))"
proof -
  let ?l = "''pub const '' @ name @ '': &str = '' @ Quote wide v @ '';''"
  have "newline \<notin> set ?l"
    using assms(2) quote_body_line [OF assms(3), of wide] by (simp add: Quote_def)
  moreover have "HasPrefix ?l ''pub const ''" by (rule HasPrefix_append)
  ultimately show ?thesis using read_const_str [OF assms(1,3), of wide]
    by (intro exI [of _ ?l]) (simp add: const_line_def rust_str_def read_value_def)
qed

lemma rust_bool_line:
  assumes "CHR '':'' \<notin> set name" "newline \<notin> set name"
  shows "\<exists>l. const_line (rust_bool name b) l (read_value (name, if b then ''true'' else ''false''))"
proof -
  let ?l = "''pub const '' @ name @ '': bool = '' @ (if b then ''true'' else ''false'') @ '';''"
  have "newline \<notin> set ?l" using assms(2) by simp
  moreover have "HasPrefix ?l ''pub const ''" by (rule HasPrefix_append)
  moreover have "\<not> list_ex go_only ''true''" "\<not> list_ex go_only ''false''" by (simp_all add: go_only_def)
  ultimately show ?thesis using read_const_bool [OF assms(1), of b]
    by (intro exI [of _ ?l]) (simp add: const_line_def rust_bool_def read_value_def)
qed

lemma rust_consts_line:
  assumes "const_line text l c"
  shows "rust_consts (text @ src) = c # rust_consts src"
  using assms by (auto simp: const_line_def rust_consts_def Split_append)

lemma rust_consts_str:
  assumes "CHR '':'' \<notin> set name" "newline \<notin> set name" "ascii v"
  shows "rust_consts (rust_str wide name v @ src) = read_value (name, v) # rust_consts src"
    and "rust_consts (rust_str wide name v) = [read_value (name, v)]"
proof -
  obtain l where l: "const_line (rust_str wide name v) l (read_value (name, v))"
    using rust_str_line [OF assms] by blast
  show "rust_consts (rust_str wide name v @ src) = read_value (name, v) # rust_consts src"
    by (rule rust_consts_line [OF l])
  have "rust_consts [] = []" by (simp add: rust_consts_def HasPrefix_def)
  then show "rust_consts (rust_str wide name v) = [read_value (name, v)]"
    using rust_consts_line [OF l, of "[]"] by simp
qed

lemma rust_consts_bool:
  assumes "CHR '':'' \<notin> set name" "newline \<notin> set name"
  shows "rust_consts (rust_bool name b @ src) =
     read_value (name, if b then ''true'' else ''false'') # rust_consts src"
  using rust_bool_line [OF assms, of b] rust_consts_line by blast

lemma rust_consts_comment:
  "rust_consts (''// Code generated by opendesk-builder. Do not edit.'' @ [newline] @ src) = rust_consts src"
proof -
  have "newline \<notin> set ''// Code generated by opendesk-builder. Do not edit.''" by simp
  note split = Split_append [OF this, of src] append_Cons [of newline "[]" src] append_Nil [of src]
  have "\<not> HasPrefix ''// Code generated by opendesk-builder. Do not edit.'' ''pub const ''"
    by (simp add: HasPrefix_def)
  then show ?thesis by (simp only: rust_consts_def split filter.simps if_False)
qed

text \<open>
  C34. The constants the builder compiles into the client are those of the specification. Where every
  text of it is ASCII, each of the fourteen constants of the generated Rust source reads back as the value
  it stands for, but for a text with a bell, backspace, vertical tab or form feed: Go writes
  these bytes as escapes Rust does not know, and the line is no Rust.
\<close>

theorem rust_constants_roundtrip:
  assumes "rustConfig wide js spec = Some src"
    and "ij_Settings js (ps_DefaultSettings (sp_Policy spec)) = Some defaultSettings"
    and "ij_Settings js (ps_OverrideSettings (sp_Policy spec)) = Some overrideSettings"
    and "\<forall>(name, v) \<in> set (config_values defaultSettings overrideSettings spec). ascii v"
  shows "rust_consts src =
     map (\<lambda>c. if list_ex go_only (snd c) then None else Some c)
       (config_values defaultSettings overrideSettings spec)"
proof -
  have r: "(\<lambda>c. if list_ex go_only (snd c) then None else Some c) = read_value"
    by (simp add: fun_eq_iff read_value_def)
  have src: "src = ''// Code generated by opendesk-builder. Do not edit.'' @ [newline] @
     rust_str wide ''OPENDESK_APP_NAME'' (app_Name (sp_App spec)) @
     rust_str wide ''OPENDESK_VENDOR'' (app_Vendor (sp_App spec)) @
     rust_str wide ''OPENDESK_BUNDLE_ID'' (app_BundleID (sp_App spec)) @
     rust_str wide ''OPENDESK_WINDOWS_PRODUCT_NAME'' (app_WindowsProductName (sp_App spec)) @
     rust_str wide ''OPENDESK_ID_SERVER'' (srv_IDServer (sp_Server spec)) @
     rust_str wide ''OPENDESK_RELAY_SERVER'' (srv_RelayServer (sp_Server spec)) @
     rust_str wide ''OPENDESK_RELAY_NAME'' (srv_RelayName (sp_Server spec)) @
     rust_str wide ''OPENDESK_API_SERVER'' (srv_APIServer (sp_Server spec)) @
     rust_str wide ''OPENDESK_SERVER_KEY'' (srv_Key (sp_Server spec)) @
     rust_bool ''OPENDESK_WEBSOCKET'' (srv_WebSocket (sp_Server spec)) @
     rust_bool ''OPENDESK_RELAY_GRANT_REQUIRED'' (cli_RelayGrantRequired spec) @
     rust_str wide ''OPENDESK_POLICY_PROFILE'' (ps_Profile (sp_Policy spec)) @
     rust_str wide ''OPENDESK_DEFAULT_SETTINGS_JSON'' defaultSettings @
     rust_str wide ''OPENDESK_OVERRIDE_SETTINGS_JSON'' overrideSettings"
    using assms(1-3) unfolding rustConfig_def Let_def by (simp only: option.simps)
  have texts: "\<forall>c \<in> set (config_values defaultSettings overrideSettings spec). ascii (snd c)"
    using assms(4) by (auto simp: case_prod_unfold)
  show ?thesis
    using texts unfolding r src config_values_def Let_def rust_consts_comment
    by (simp add: rust_consts_str rust_consts_bool)
qed

definition wit_cli_spec :: Spec where
  "wit_cli_spec =
     \<lparr> sp_App = \<lparr> app_Name = ''A'' @ [CHR 0x22, newline], app_Vendor = ''v'' @ [CHR 0x07], app_BundleID = ''a.b'',
                  app_WindowsProductName = [], app_Description = [] \<rparr>,
       sp_Branding = \<lparr> br_LogoPNG = [], br_IconICO = [], br_IconICNS = [], br_AndroidAdaptiveIcon = [],
                       br_IOSAppIcon = [], br_TrayIcon = [], br_InstallerBanner = [] \<rparr>,
       sp_Server = \<lparr> srv_IDServer = ''i'', srv_RelayServer = ''r'', srv_RelayName = ''n'', srv_APIServer = ''a'',
                     srv_Key = ''k'', srv_WebSocket = True, srv_RelayGrantRequired = None \<rparr>,
       sp_Policy = \<lparr> ps_Profile = ''p'', ps_OverrideSettings = None, ps_DefaultSettings = None \<rparr>,
       sp_Platforms = \<lparr> pf_WindowsX64 = True, pf_MacOSX64 = False, pf_MacOSARM64 = False, pf_AndroidARM64 = False,
                        pf_IOSARM64 = False \<rparr>,
       sp_Signing = \<lparr> sig_Windows = [], sig_MacOS = [], sig_Android = [], sig_IOS = [] \<rparr>,
       sp_Source = \<lparr> csrc_RustDeskRef = ''m'', csrc_OpenDeskPatchset = ''p'' \<rparr> \<rparr>"

definition wit_json :: inject_json where
  "wit_json =
     \<lparr> ij_Normalized = \<lambda>n. Some (app_Name (nm_App n)), ij_Branding = \<lambda>b. Some (br_LogoPNG b),
       ij_Policy = \<lambda>p. Some (ps_Profile p), ij_Settings = \<lambda>m. if m = None then Some ''null'' else None,
       ij_Manifest = \<lambda>m. Some (mf_App m) \<rparr>"

theorem rust_constants_roundtrip_witness:
  "\<exists>src. rustConfig (\<lambda>s. ([], 1)) wit_json wit_cli_spec = Some src \<and>
     rust_consts src =
       [Some (''OPENDESK_APP_NAME'', ''A'' @ [CHR 0x22, newline]), None, Some (''OPENDESK_BUNDLE_ID'', ''a.b''),
        Some (''OPENDESK_WINDOWS_PRODUCT_NAME'', []), Some (''OPENDESK_ID_SERVER'', ''i''),
        Some (''OPENDESK_RELAY_SERVER'', ''r''), Some (''OPENDESK_RELAY_NAME'', ''n''),
        Some (''OPENDESK_API_SERVER'', ''a''), Some (''OPENDESK_SERVER_KEY'', ''k''),
        Some (''OPENDESK_WEBSOCKET'', ''true''), Some (''OPENDESK_RELAY_GRANT_REQUIRED'', ''true''),
        Some (''OPENDESK_POLICY_PROFILE'', ''p''), Some (''OPENDESK_DEFAULT_SETTINGS_JSON'', ''null''),
        Some (''OPENDESK_OVERRIDE_SETTINGS_JSON'', ''null'')]"
proof -
  have js: "ij_Settings wit_json (ps_DefaultSettings (sp_Policy wit_cli_spec)) = Some ''null''"
    "ij_Settings wit_json (ps_OverrideSettings (sp_Policy wit_cli_spec)) = Some ''null''"
    by (simp_all add: wit_json_def wit_cli_spec_def)
  obtain src where src: "rustConfig (\<lambda>s. ([], 1)) wit_json wit_cli_spec = Some src"
    unfolding rustConfig_def js Let_def option.simps by blast
  have ok: "\<forall>(name, v) \<in> set (config_values ''null'' ''null'' wit_cli_spec). ascii v"
    by (simp add: config_values_def wit_cli_spec_def cli_RelayGrantRequired_def)
  have c: "map (\<lambda>c. if list_ex go_only (snd c) then None else Some c)
      (config_values ''null'' ''null'' wit_cli_spec) =
       [Some (''OPENDESK_APP_NAME'', ''A'' @ [CHR 0x22, newline]), None, Some (''OPENDESK_BUNDLE_ID'', ''a.b''),
        Some (''OPENDESK_WINDOWS_PRODUCT_NAME'', []), Some (''OPENDESK_ID_SERVER'', ''i''),
        Some (''OPENDESK_RELAY_SERVER'', ''r''), Some (''OPENDESK_RELAY_NAME'', ''n''),
        Some (''OPENDESK_API_SERVER'', ''a''), Some (''OPENDESK_SERVER_KEY'', ''k''),
        Some (''OPENDESK_WEBSOCKET'', ''true''), Some (''OPENDESK_RELAY_GRANT_REQUIRED'', ''true''),
        Some (''OPENDESK_POLICY_PROFILE'', ''p''), Some (''OPENDESK_DEFAULT_SETTINGS_JSON'', ''null''),
        Some (''OPENDESK_OVERRIDE_SETTINGS_JSON'', ''null'')]"
    by (simp add: config_values_def wit_cli_spec_def cli_RelayGrantRequired_def go_only_def)
  show ?thesis using rust_constants_roundtrip [OF src js ok] src unfolding c by blast
qed

end
