(* ===== verification/Builder_Run.thy ===== *)
theory Builder_Run
  imports Builder_Source Asset_Storage
begin

text \<open>
  The Windows runner of the builder (\<^verbatim>\<open>builder/internal/runners/windows.go\<close>,
  \<^verbatim>\<open>runners.go\<close>): it generates the injected files, stages the Rust source in the client's tree, runs the
  build command and collects what it built. The build command, \<^verbatim>\<open>filepath.Glob\<close>, \<^verbatim>\<open>os.Stat\<close> and the
  errors of the operating system are arguments; a write that fails leaves the files as they were.
\<close>

section \<open>Environment\<close>

text \<open>
  Errors of reading a file that is there, the error for one that is not, \<^verbatim>\<open>os.Stat\<close> (whether it is a
  directory), \<^verbatim>\<open>filepath.Glob\<close>, and the command: time left, directory, command line and files give
  the output, an error and the files it leaves.
\<close>

record runner_env = file_errors +
  re_Read :: "string \<Rightarrow> string option"
  re_NoFile :: "string \<Rightarrow> string"
  re_Stat :: "string \<Rightarrow> files \<Rightarrow> string + bool"
  re_Glob :: "string \<Rightarrow> files \<Rightarrow> string + string list"
  re_Exec :: "duration \<Rightarrow> string \<Rightarrow> string \<Rightarrow> files \<Rightarrow> (string \<times> string option) \<times> files"

definition readFile :: "('x) runner_env_scheme \<Rightarrow> string \<Rightarrow> files \<Rightarrow> string + string" where
  "readFile env path fs =
     (case fs path of
        None \<Rightarrow> Inl (re_NoFile env path)
      | Some data \<Rightarrow> (case re_Read env path of Some e \<Rightarrow> Inl e | None \<Rightarrow> Inr data))"

definition file_size :: "string \<Rightarrow> files \<Rightarrow> int" where
  "file_size path fs = (case fs path of None \<Rightarrow> 0 | Some data \<Rightarrow> int (length data))"

section \<open>Data\<close>

record Artifact =
  ar_Path :: string
  ar_SHA256 :: string
  ar_Bytes :: int

record Result =
  res_Platform :: string
  res_SourceDir :: string
  res_InjectionDir :: string
  res_ArtifactDir :: string
  res_StagedFiles :: "string list"
  res_BuildCommand :: string
  res_BuildExecuted :: bool
  res_BuildLog :: string
  res_Artifacts :: "Artifact list"
  res_NotConfigured :: bool
  res_NotConfiguredReason :: string

record WindowsConfig =
  wn_SourceDir :: string
  wn_InjectionDir :: string
  wn_ArtifactDir :: string
  wn_BuildCommand :: string
  wn_ArtifactGlob :: string
  wn_DryRun :: bool
  wn_ToolSearchRoots :: "string list"

definition zero_result :: Result where
  "zero_result =
     \<lparr> res_Platform = [], res_SourceDir = [], res_InjectionDir = [], res_ArtifactDir = [],
       res_StagedFiles = [], res_BuildCommand = [], res_BuildExecuted = False, res_BuildLog = [],
       res_Artifacts = [], res_NotConfigured = False, res_NotConfiguredReason = [] \<rparr>"

definition ErrPlatformDisabled :: string where
  "ErrPlatformDisabled = ''platform is not enabled in BuildSpec''"

definition ErrRunnerNotReady :: string where
  "ErrRunnerNotReady = ''windows runner is not configured''"

section \<open>Steps\<close>

definition copyFile :: "'x runner_env_scheme \<Rightarrow> string \<Rightarrow> string \<Rightarrow> files \<Rightarrow> string option \<times> files" where
  "copyFile env src dst fs =
     (case readFile env src fs of
        Inl e \<Rightarrow> (Some e, fs)
      | Inr raw \<Rightarrow>
          (case fe_Mkdir env (Dir dst) of
             Some e \<Rightarrow> (Some e, fs)
           | None \<Rightarrow>
               (case fe_Write env dst of
                  Some e \<Rightarrow> (Some e, fs)
                | None \<Rightarrow> (None, fs(dst \<mapsto> raw)))))"

text \<open>The loop over the manifest: what starts with \<^verbatim>\<open>rust/\<close> goes to the source directory.\<close>

fun stage_files ::
    "'x runner_env_scheme \<Rightarrow> WindowsConfig \<Rightarrow> GeneratedFile list \<Rightarrow> string list \<Rightarrow> files \<Rightarrow>
       (string + string list) \<times> files" where
  "stage_files env cfg [] staged fs = (Inr staged, fs)"
| "stage_files env cfg (file # rest) staged fs =
     (if HasPrefix (gf_Path file) ''rust/''
      then let src = Join [wn_InjectionDir cfg, gf_Path file];
               dst = Join [wn_SourceDir cfg, TrimPrefix (gf_Path file) ''rust/'']
           in (case copyFile env src dst fs of
                 (Some e, fs1) \<Rightarrow> (Inl e, fs1)
               | (None, fs1) \<Rightarrow> stage_files env cfg rest (staged @ [dst]) fs1)
      else stage_files env cfg rest staged fs)"

definition runCommand ::
    "'x runner_env_scheme \<Rightarrow> duration \<Rightarrow> string \<Rightarrow> string \<Rightarrow> string \<Rightarrow> files \<Rightarrow> string option \<times> files" where
  "runCommand env ctx dir command logPath fs =
     (case re_Exec env ctx dir command fs of
        ((out, err), fs1) \<Rightarrow>
          (case fe_Write env logPath of
             Some e \<Rightarrow> (Some e, fs1)
           | None \<Rightarrow>
               (map_option (\<lambda>e. ''windows build command failed: '' @ e) err, fs1(logPath \<mapsto> out))))"

fun collect_matches ::
    "(string \<Rightarrow> string) \<Rightarrow> 'x runner_env_scheme \<Rightarrow> string \<Rightarrow> string list \<Rightarrow> Artifact list \<Rightarrow> files \<Rightarrow>
       (string + Artifact list) \<times> files" where
  "collect_matches sha env artifactDir [] artifacts fs = (Inr artifacts, fs)"
| "collect_matches sha env artifactDir (m # ms) artifacts fs =
     (case re_Stat env m fs of
        Inl e \<Rightarrow> (Inl e, fs)
      | Inr True \<Rightarrow> collect_matches sha env artifactDir ms artifacts fs
      | Inr False \<Rightarrow>
          (case readFile env m fs of
             Inl e \<Rightarrow> (Inl e, fs)
           | Inr raw \<Rightarrow>
               let target = Join [artifactDir, Base m]
               in (case fe_Write env target of
                     Some e \<Rightarrow> (Inl e, fs)
                   | None \<Rightarrow>
                       collect_matches sha env artifactDir ms
                         (artifacts @ [\<lparr> ar_Path = target, ar_SHA256 = hex_encode (sha raw),
                                        ar_Bytes = file_size m fs \<rparr>])
                         (fs(target \<mapsto> raw)))))"

definition collectArtifacts ::
    "(string \<Rightarrow> string) \<Rightarrow> 'x runner_env_scheme \<Rightarrow> string \<Rightarrow> string \<Rightarrow> string \<Rightarrow> files \<Rightarrow>
       (string + Artifact list) \<times> files" where
  "collectArtifacts sha env sourceDir artifactDir pattern fs =
     (let glob = (if IsAbs pattern then pattern else Join [sourceDir, pattern])
      in case re_Glob env glob fs of
           Inl e \<Rightarrow> (Inl e, fs)
         | Inr matches \<Rightarrow>
             if matches = [] then (Inl (''artifact glob matched no files: '' @ pattern), fs)
             else (case collect_matches sha env artifactDir matches [] fs of
                     (Inl e, fs1) \<Rightarrow> (Inl e, fs1)
                   | (Inr artifacts, fs1) \<Rightarrow>
                       if artifacts = [] then (Inl (''artifact glob matched only directories: '' @ pattern), fs1)
                       else (Inr artifacts, fs1)))"

section \<open>Runner\<close>

text \<open>The part of \<^verbatim>\<open>RunWindows\<close> after the files are staged.\<close>

definition build_and_collect ::
    "(string \<Rightarrow> string) \<Rightarrow> 'x runner_env_scheme \<Rightarrow> duration \<Rightarrow> WindowsConfig \<Rightarrow> Result \<Rightarrow> files \<Rightarrow>
       (Result \<times> string option) \<times> files" where
  "build_and_collect sha env ctx cfg result fs =
     (if wn_DryRun cfg then ((result, None), fs)
      else if TrimSpace (wn_BuildCommand cfg) = []
      then ((result\<lparr> res_NotConfigured := True,
                    res_NotConfiguredReason := ''set --build-command to compile patched RustDesk Windows client'' \<rparr>,
             Some ErrRunnerNotReady), fs)
      else let logPath = Join [wn_ArtifactDir cfg, ''windows-runner.log'']
           in (case runCommand env ctx (wn_SourceDir cfg) (wn_BuildCommand cfg) logPath fs of
                 (Some e, fs1) \<Rightarrow> ((result\<lparr> res_BuildLog := logPath \<rparr>, Some e), fs1)
               | (None, fs1) \<Rightarrow>
                   let result1 = result\<lparr> res_BuildExecuted := True, res_BuildLog := logPath \<rparr>
                   in if TrimSpace (wn_ArtifactGlob cfg) \<noteq> []
                      then (case collectArtifacts sha env (wn_SourceDir cfg) (wn_ArtifactDir cfg)
                                   (wn_ArtifactGlob cfg) fs1 of
                              (Inl e, fs2) \<Rightarrow> ((result1, Some e), fs2)
                            | (Inr artifacts, fs2) \<Rightarrow> ((result1\<lparr> res_Artifacts := artifacts \<rparr>, None), fs2))
                      else ((result1, None), fs1)))"

definition RunWindows ::
    "(string \<Rightarrow> string \<times> nat) \<Rightarrow> inject_json \<Rightarrow> (string \<Rightarrow> string) \<Rightarrow> runner_env \<Rightarrow> duration \<Rightarrow> Spec \<Rightarrow>
       WindowsConfig \<Rightarrow> files \<Rightarrow> (Result \<times> string option) option \<times> files" where
  "RunWindows wide js sha env ctx spec cfg fs =
     (if \<not> pf_WindowsX64 (sp_Platforms spec)
      then (Some (zero_result, Some (ErrPlatformDisabled @ '': windows_x64'')), fs)
      else if TrimSpace (wn_SourceDir cfg) = []
      then (Some (zero_result, Some ''windows runner source directory is required''), fs)
      else if TrimSpace (wn_InjectionDir cfg) = []
      then (Some (zero_result, Some ''windows runner injection directory is required''), fs)
      else if TrimSpace (wn_ArtifactDir cfg) = []
      then (Some (zero_result, Some ''windows runner artifact directory is required''), fs)
      else
     (case fe_Mkdir env (wn_ArtifactDir cfg) of
        Some e \<Rightarrow> (Some (zero_result, Some e), fs)
      | None \<Rightarrow>
     (case Generate wide js sha (file_errors.truncate env) spec (wn_InjectionDir cfg) fs of
        (None, fs1) \<Rightarrow> (None, fs1)
      | (Some (Inl e), fs1) \<Rightarrow> (Some (zero_result, Some e), fs1)
      | (Some (Inr manifest), fs1) \<Rightarrow>
     (case stage_files env cfg (mf_Files manifest) [] fs1 of
        (Inl e, fs2) \<Rightarrow> (Some (zero_result, Some e), fs2)
      | (Inr staged, fs2) \<Rightarrow>
          let result = zero_result\<lparr> res_Platform := ''windows_x64'', res_SourceDir := wn_SourceDir cfg,
                                   res_InjectionDir := wn_InjectionDir cfg, res_ArtifactDir := wn_ArtifactDir cfg,
                                   res_BuildCommand := wn_BuildCommand cfg, res_StagedFiles := staged \<rparr>
          in (case build_and_collect sha env ctx cfg result fs2 of (r, fs3) \<Rightarrow> (Some r, fs3))))))"

section \<open>Paths below a directory\<close>

text \<open>
  A directory as \<^verbatim>\<open>Clean\<close> leaves it, absolute or relative, that is neither the root nor the
  working directory nor above it.
\<close>

definition clean_dir :: "string \<Rightarrow> bool" where
  "clean_dir dir \<longleftrightarrow> list_all plain_name (Split slash (if IsAbs dir then tl dir else dir))"

definition dir_path :: "bool \<Rightarrow> string list \<Rightarrow> string" where
  "dir_path rooted ps = (if rooted then abs_path ps else join_slash ps)"

lemma join_slash_Cons: "join_slash ((c # p) # ps) = c # join_slash (p # ps)"
  by (cases ps) auto

lemma join_slash_Split: "join_slash (Split slash s) = s"
  by (induction s) (auto split: list.splits simp: neq_Nil_conv join_slash_Cons)

lemma clean_dirE:
  assumes "clean_dir dir"
  obtains rooted ps where "dir = dir_path rooted ps" "\<forall>p \<in> set ps. plain_name p" "ps \<noteq> []"
proof (cases "IsAbs dir")
  case True
  then obtain t where t: "dir = slash # t" using IsAbsE by blast
  then show ?thesis
    using that [of True "Split slash t"] assms True
    by (simp add: clean_dir_def dir_path_def abs_path_def join_slash_Split list_all_iff)
next
  case False
  then show ?thesis
    using that [of False "Split slash dir"] assms
    by (simp add: clean_dir_def dir_path_def join_slash_Split list_all_iff)
qed

lemma join_slash_relative:
  assumes "\<forall>p \<in> set ps. plain_name p"
  shows "\<not> IsAbs (join_slash ps)"
proof (cases ps)
  case Nil
  then show ?thesis by (simp add: IsAbs_def HasPrefix_def)
next
  case (Cons p qs)
  then obtain c q where p: "p = c # q" "c \<noteq> slash"
    using assms by (cases p) (auto simp: plain_name_def)
  then show ?thesis by (auto simp: Cons join_slash_Cons dest!: IsAbsE)
qed

lemma clean_dir_path:
  assumes "\<forall>p \<in> set ps. plain_name p" "ps \<noteq> []"
  shows "clean_dir (dir_path rooted ps)"
proof -
  have "Split slash (join_slash ps) = ps" by (rule Split_join_slash) (use assms plain_no_slash in auto)
  then show ?thesis
    using assms(1) join_slash_relative [OF assms(1)]
    by (auto simp: clean_dir_def dir_path_def abs_path_def list_all_iff)
qed

lemma Clean_dir_path:
  assumes "\<forall>p \<in> set ps. plain_name p" "ps \<noteq> []"
  shows "Clean (dir_path rooted ps) = dir_path rooted ps"
proof (cases rooted)
  case True
  then show ?thesis using assms(1) by (simp add: dir_path_def)
next
  case False
  have "Split slash (join_slash ps) = ps" by (rule Split_join_slash) (use assms plain_no_slash in auto)
  moreover have "clean_parts False ps = ps"
    using clean_fold_names [OF assms(1)] by (simp add: clean_parts_def)
  moreover have "join_slash ps \<noteq> []"
    using assms by (cases ps rule: join_slash.cases) (auto simp: plain_name_def)
  ultimately show ?thesis
    using False join_slash_relative [OF assms(1)] by (simp add: dir_path_def Clean_def)
qed

lemma Join_pair:
  assumes "\<forall>p \<in> set ps. plain_name p" "ps \<noteq> []" "\<forall>p \<in> set qs. plain_name p" "qs \<noteq> []"
  shows "Join [dir_path rooted ps, join_slash qs] = dir_path rooted (ps @ qs)"
proof -
  have "dir_path rooted ps \<noteq> []"
    using assms(1,2) by (cases ps rule: join_slash.cases) (auto simp: dir_path_def abs_path_def plain_name_def)
  then have "Join [dir_path rooted ps, join_slash qs] = Clean (dir_path rooted ps @ slash # join_slash qs)"
    by (simp add: Join_def)
  also have "dir_path rooted ps @ slash # join_slash qs = dir_path rooted (ps @ qs)"
    using assms(2,4) by (simp add: dir_path_def abs_path_def join_slash_append)
  also have "\<forall>p \<in> set (ps @ qs). plain_name p" using assms(1,3) by auto
  then have "Clean (dir_path rooted (ps @ qs)) = dir_path rooted (ps @ qs)"
    by (rule Clean_dir_path) (use assms(2) in simp)
  finally show ?thesis .
qed

lemma clean_dir_Join:
  assumes "clean_dir dir" "plain_name q"
  shows "clean_dir (Join [dir, q])"
proof -
  obtain rooted ps where d: "dir = dir_path rooted ps" "\<forall>p \<in> set ps. plain_name p" "ps \<noteq> []"
    using assms(1) by (rule clean_dirE)
  have "Join [dir, q] = dir_path rooted (ps @ [q])"
    using Join_pair [OF d(2,3), of "[q]"] assms(2) d(1) by simp
  then show ?thesis using clean_dir_path [of "ps @ [q]" rooted] d(2) assms(2) by auto
qed

lemma dir_path_eq:
  assumes "\<forall>p \<in> set ps. plain_name p" "\<forall>p \<in> set qs. plain_name p" "ps \<noteq> []" "qs \<noteq> []"
    and "dir_path rooted ps = dir_path rooted qs"
  shows "ps = qs"
proof -
  have "join_slash ps = join_slash qs" using assms(5) by (cases rooted) (simp_all add: dir_path_def abs_path_def)
  moreover have "Split slash (join_slash ps) = ps" "Split slash (join_slash qs) = qs"
    using assms(1-4) plain_no_slash Split_join_slash by blast+
  ultimately show ?thesis by metis
qed

definition inject_names :: "string list list" where
  "inject_names =
     [[''opendesk'', ''buildspec.normalized.json''], [''opendesk'', ''branding.json''],
      [''opendesk'', ''policy.json''], [''rust'', ''src'', ''opendesk_generated.rs''],
      [''opendesk'', ''manifest.json'']]"

lemma inject_names_plain: "\<forall>ns \<in> set inject_names. ns \<noteq> [] \<and> (\<forall>p \<in> set ns. plain_name p)"
  by code_simp

lemma inject_names_distinct: "distinct inject_names"
  by code_simp

lemma inject_names_text:
  "map join_slash inject_names =
     [''opendesk/buildspec.normalized.json'', ''opendesk/branding.json'', ''opendesk/policy.json'',
      ''rust/src/opendesk_generated.rs'', ''opendesk/manifest.json'']"
  by code_simp

lemma inject_paths_distinct:
  assumes "clean_dir dir"
  shows "distinct (map (\<lambda>rel. Join [dir, rel]) (map join_slash inject_names))"
proof -
  obtain rooted ps where dir: "dir = dir_path rooted ps" and ps: "\<forall>p \<in> set ps. plain_name p" "ps \<noteq> []"
    using assms by (rule clean_dirE)
  have "map (\<lambda>rel. Join [dir, rel]) (map join_slash inject_names) =
     map (\<lambda>ns. dir_path rooted (ps @ ns)) inject_names"
    using ps inject_names_plain unfolding dir by (auto intro!: Join_pair)
  moreover have "inj_on (\<lambda>ns. dir_path rooted (ps @ ns)) (set inject_names)"
  proof (rule inj_onI)
    fix x y
    assume xy: "x \<in> set inject_names" "y \<in> set inject_names" "dir_path rooted (ps @ x) = dir_path rooted (ps @ y)"
    have "\<forall>p \<in> set (ps @ x). plain_name p" "\<forall>p \<in> set (ps @ y). plain_name p"
      using ps(1) inject_names_plain xy(1,2) by auto
    from dir_path_eq [OF this _ _ xy(3)] ps(2) show "x = y" by simp
  qed
  ultimately show ?thesis using inject_names_distinct by (simp only: distinct_map)
qed

section \<open>Generated files\<close>

text \<open>What the manifest says of a file holds of its contents.\<close>

definition file_described :: "(string \<Rightarrow> string) \<Rightarrow> string \<Rightarrow> GeneratedFile \<Rightarrow> files \<Rightarrow> bool" where
  "file_described sha root g fs =
     (case fs (Join [root, gf_Path g]) of
        None \<Rightarrow> False
      | Some data \<Rightarrow> gf_SHA256 g = hex_encode (sha data) \<and> gf_Bytes g = int (length data))"

lemma inject_writeFile_ok:
  "inject_writeFile sha fe root path data fs = (Inr g, fs1) \<Longrightarrow>
     g = \<lparr> gf_Path = path, gf_SHA256 = hex_encode (sha data), gf_Bytes = int (length data) \<rparr> \<and>
     fs1 = fs(Join [root, path] \<mapsto> data)"
  by (auto simp: inject_writeFile_def Let_def split: option.splits)

lemma write_files_ok:
  "write_files sha fe root fls fs = (Inr gs, fs1) \<Longrightarrow>
     gs = map (\<lambda>(path, data). \<lparr> gf_Path = path, gf_SHA256 = hex_encode (sha data), gf_Bytes = int (length data) \<rparr>) fls \<and>
     fs1 = foldl (\<lambda>f (path, data). f(Join [root, path] \<mapsto> data)) fs fls"
  by (induction fls arbitrary: gs fs)
    (auto split: prod.splits sum.splits dest!: inject_writeFile_ok)

lemma foldl_updates_other:
  "p \<notin> (\<lambda>(path, data). k path) ` set fls \<Longrightarrow> foldl (\<lambda>f (path, data). f(k path \<mapsto> data)) fs fls p = fs p"
  by (induction fls arbitrary: fs) (auto split: prod.splits)

lemma foldl_updates_at:
  "distinct (map (\<lambda>(path, data). k path) fls) \<Longrightarrow> (path, data) \<in> set fls \<Longrightarrow>
     foldl (\<lambda>f (path, data). f(k path \<mapsto> data)) fs fls (k path) = Some data"
proof (induction fls arbitrary: fs)
  case (Cons x fls)
  obtain p d where x: "x = (p, d)" by (cases x)
  show ?case
  proof (cases "(path, data) \<in> set fls")
    case True
    then show ?thesis using Cons x by simp
  next
    case False
    then have "path = p" "data = d" using Cons.prems(2) x by auto
    moreover have "k p \<notin> (\<lambda>(path, data). k path) ` set fls" using Cons.prems(1) x by simp
    ultimately show ?thesis using x foldl_updates_other [of "k p" k fls "fs(k p \<mapsto> d)"]
      by (simp del: fun_upd_apply add: fun_upd_same)
  qed
qed simp

lemma inject_files_ok:
  "inject_files wide js spec = Some fls \<Longrightarrow>
     \<exists>a b p r. rustConfig wide js spec = Some r \<and>
       fls = [(''opendesk/buildspec.normalized.json'', a), (''opendesk/branding.json'', b),
              (''opendesk/policy.json'', p), (''rust/src/opendesk_generated.rs'', r)]"
  by (auto simp: inject_files_def split: option.splits)

lemma Generate_ok:
  assumes "Generate wide js sha fe spec outDir fs = (Some (Inr m), fs')"
  shows "\<exists>fls data. cli_Validate spec = None \<and> inject_files wide js spec = Some fls \<and>
     mf_App m = app_Name (sp_App spec) \<and> mf_BundleID m = app_BundleID (sp_App spec) \<and>
     mf_Platforms m = cli_Ordered (sp_Platforms spec) \<and>
     mf_Files m = map (\<lambda>(path, data). \<lparr> gf_Path = path, gf_SHA256 = hex_encode (sha data),
                                          gf_Bytes = int (length data) \<rparr>) fls \<and>
     fs' = (foldl (\<lambda>f (path, data). f(Join [outDir, path] \<mapsto> data)) fs fls)
              (Join [outDir, ''opendesk/manifest.json''] \<mapsto> data)"
  using assms unfolding Generate_def
  by (auto simp: Let_def split: option.splits prod.splits sum.splits
      dest!: write_files_ok inject_writeFile_ok)

section \<open>Staging and collecting\<close>

lemma copyFile_ok:
  "copyFile env src dst fs = (None, fs1) \<Longrightarrow> \<exists>raw. fs src = Some raw \<and> fs1 = fs(dst \<mapsto> raw)"
  by (auto simp: copyFile_def readFile_def split: option.splits sum.splits)

text \<open>What the artifact says holds of the file at its path.\<close>

definition artifact_described :: "(string \<Rightarrow> string) \<Rightarrow> Artifact \<Rightarrow> files \<Rightarrow> bool" where
  "artifact_described sha a fs =
     (case fs (ar_Path a) of
        None \<Rightarrow> False
      | Some data \<Rightarrow> ar_SHA256 a = hex_encode (sha data) \<and> ar_Bytes a = int (length data))"

lemma artifact_described_other: "p \<noteq> ar_Path a \<Longrightarrow> artifact_described sha a (fs(p \<mapsto> d)) = artifact_described sha a fs"
  by (simp add: artifact_described_def)

text \<open>Of several artifacts with one path the last one describes the file.\<close>

fun last_described :: "(string \<Rightarrow> string) \<Rightarrow> Artifact list \<Rightarrow> files \<Rightarrow> bool" where
  "last_described sha [] fs \<longleftrightarrow> True"
| "last_described sha (a # as) fs \<longleftrightarrow>
     (ar_Path a \<in> ar_Path ` set as \<or> artifact_described sha a fs) \<and> last_described sha as fs"

lemma last_described_snoc:
  "last_described sha as fs \<Longrightarrow> artifact_described sha a (fs(ar_Path a \<mapsto> d)) \<Longrightarrow>
     last_described sha (as @ [a]) (fs(ar_Path a \<mapsto> d))"
  by (induction as) (auto simp: artifact_described_other)

lemma readFile_size: "readFile env m fs = Inr raw \<Longrightarrow> file_size m fs = int (length raw)"
  by (auto simp: readFile_def file_size_def split: option.splits)

lemma collect_matches_ok:
  "collect_matches sha env dir ms as fs = (Inr out, fs1) \<Longrightarrow> last_described sha as fs \<Longrightarrow>
     last_described sha out fs1"
proof (induction ms arbitrary: as fs)
  case (Cons m ms)
  from Cons.prems(1) consider "re_Stat env m fs = Inr True" "collect_matches sha env dir ms as fs = (Inr out, fs1)"
    | raw where "readFile env m fs = Inr raw"
      "collect_matches sha env dir ms (as @ [\<lparr> ar_Path = Join [dir, Base m], ar_SHA256 = hex_encode (sha raw),
          ar_Bytes = file_size m fs \<rparr>]) (fs(Join [dir, Base m] \<mapsto> raw)) = (Inr out, fs1)"
    by (auto simp: Let_def split: sum.splits option.splits bool.splits)
  then show ?case
  proof cases
    case 1
    then show ?thesis using Cons.IH Cons.prems(2) by blast
  next
    case 2
    let ?a = "\<lparr> ar_Path = Join [dir, Base m], ar_SHA256 = hex_encode (sha raw), ar_Bytes = file_size m fs \<rparr>"
    have "artifact_described sha ?a (fs(ar_Path ?a \<mapsto> raw))"
      using readFile_size [OF 2(1)] by (simp add: artifact_described_def)
    from last_described_snoc [OF Cons.prems(2) this]
    have "last_described sha (as @ [?a]) (fs(Join [dir, Base m] \<mapsto> raw))" by (simp only: Artifact.select_convs)
    then show ?thesis by (rule Cons.IH [OF 2(2)])
  qed
qed simp

lemma collectArtifacts_ok:
  "collectArtifacts sha env src dir pattern fs = (Inr as, fs1) \<Longrightarrow> as \<noteq> [] \<and> last_described sha as fs1"
  by (auto simp: collectArtifacts_def Let_def split: sum.splits prod.splits if_splits
      dest: collect_matches_ok)

lemma rust_paths:
  "\<not> HasPrefix ''opendesk/buildspec.normalized.json'' ''rust/''"
  "\<not> HasPrefix ''opendesk/branding.json'' ''rust/''" "\<not> HasPrefix ''opendesk/policy.json'' ''rust/''"
  "HasPrefix ''rust/src/opendesk_generated.rs'' ''rust/''"
  "TrimPrefix ''rust/src/opendesk_generated.rs'' ''rust/'' = ''src/opendesk_generated.rs''"
  by (simp_all add: HasPrefix_def TrimPrefix_def)

lemma stage_manifest:
  assumes "stage_files env cfg
      (map (\<lambda>(path, data). \<lparr> gf_Path = path, gf_SHA256 = hex_encode (sha data), gf_Bytes = int (length data) \<rparr>)
         [(''opendesk/buildspec.normalized.json'', a), (''opendesk/branding.json'', b),
          (''opendesk/policy.json'', p), (''rust/src/opendesk_generated.rs'', r)]) [] fs = (Inr staged, fs1)"
  shows "\<exists>raw. fs (Join [wn_InjectionDir cfg, ''rust/src/opendesk_generated.rs'']) = Some raw \<and>
     staged = [Join [wn_SourceDir cfg, ''src/opendesk_generated.rs'']] \<and>
     fs1 = fs(Join [wn_SourceDir cfg, ''src/opendesk_generated.rs''] \<mapsto> raw)"
  using assms
  by (simp only: list.map prod.case stage_files.simps GeneratedFile.select_convs rust_paths if_True if_False Let_def
      append_Nil) (auto split: prod.splits option.splits dest!: copyFile_ok)

text \<open>After generating, the five files below the directory.\<close>

lemma Generate_files:
  assumes "Generate wide js sha fe spec dir fs = (Some (Inr m), fs')"
    and "clean_dir dir"
  shows "\<exists>a b p r. rustConfig wide js spec = Some r \<and>
     (let fls = [(''opendesk/buildspec.normalized.json'', a), (''opendesk/branding.json'', b),
                 (''opendesk/policy.json'', p), (''rust/src/opendesk_generated.rs'', r)]
      in mf_Files m = map (\<lambda>(path, data). \<lparr> gf_Path = path, gf_SHA256 = hex_encode (sha data),
                                             gf_Bytes = int (length data) \<rparr>) fls \<and>
         (\<forall>(path, data) \<in> set fls. fs' (Join [dir, path]) = Some data)) \<and>
     (\<forall>path. path \<notin> (\<lambda>rel. Join [dir, rel]) ` set (map join_slash inject_names) \<longrightarrow> fs' path = fs path)"
proof -
  obtain fls data where g: "inject_files wide js spec = Some fls"
    "mf_Files m = map (\<lambda>(path, data). \<lparr> gf_Path = path, gf_SHA256 = hex_encode (sha data),
                                         gf_Bytes = int (length data) \<rparr>) fls"
    and fs': "fs' = (foldl (\<lambda>f (path, data). f(Join [dir, path] \<mapsto> data)) fs fls)
              (Join [dir, ''opendesk/manifest.json''] \<mapsto> data)"
    using Generate_ok [OF assms(1)] by blast
  obtain a b p r where r: "rustConfig wide js spec = Some r"
    and fls: "fls = [(''opendesk/buildspec.normalized.json'', a), (''opendesk/branding.json'', b),
              (''opendesk/policy.json'', p), (''rust/src/opendesk_generated.rs'', r)]"
    using inject_files_ok [OF g(1)] by blast
  let ?k = "\<lambda>rel. Join [dir, rel]"
  have names: "map join_slash inject_names = map fst fls @ [''opendesk/manifest.json'']"
    by (simp only: inject_names_text fls list.map fst_conv append_Cons append_Nil)
  have d: "distinct (map ?k (map fst fls @ [''opendesk/manifest.json'']))"
    using inject_paths_distinct [OF assms(2)] unfolding names .
  then have d1: "distinct (map (\<lambda>(path, data). ?k path) fls)" "?k ''opendesk/manifest.json'' \<notin> ?k ` fst ` set fls"
    by (auto simp: case_prod_unfold comp_def)
  have at: "fs' (?k path) = Some v" if "(path, v) \<in> set fls" for path v
  proof -
    have "fst (path, v) \<in> fst ` set fls" using that by (rule imageI)
    then have "?k path \<in> ?k ` fst ` set fls" unfolding fst_conv by (rule imageI)
    then have "?k path \<noteq> ?k ''opendesk/manifest.json''" using d1(2) by metis
    then show ?thesis using foldl_updates_at [OF d1(1) that, of fs] fs' by simp
  qed
  have other: "fs' q = fs q" if "q \<notin> ?k ` set (map join_slash inject_names)" for q
  proof -
    have "q \<noteq> ?k ''opendesk/manifest.json''" "q \<notin> (\<lambda>(path, data). ?k path) ` set fls"
      using that unfolding names by (force simp: case_prod_unfold)+
    then show ?thesis using foldl_updates_other [of q ?k fls fs] fs' by simp
  qed
  show ?thesis
    using r g(2) at other unfolding fls Let_def by blast
qed

section \<open>What the runner guarantees\<close>

text \<open>
  The manifest of a generation is true: below a clean directory it names the four
  files, each listed file holds content with the listed hash and length, the Rust source is the one of the
  specification, the specification is valid, and only the four files and the manifest itself changed.
\<close>

lemma manifest_describes_files:
  assumes "Generate wide js sha fe spec dir fs = (Some (Inr m), fs')"
    and "clean_dir dir"
  shows "cli_Validate spec = None \<and>
     map gf_Path (mf_Files m) @ [''opendesk/manifest.json''] = map join_slash inject_names \<and>
     list_all (\<lambda>g. file_described sha dir g fs') (mf_Files m) \<and>
     rustConfig wide js spec = fs' (Join [dir, ''rust/src/opendesk_generated.rs'']) \<and>
     (\<forall>path. path \<notin> (\<lambda>rel. Join [dir, rel]) ` set (map join_slash inject_names) \<longrightarrow> fs' path = fs path)"
proof -
  obtain a b p r where r: "rustConfig wide js spec = Some r"
    and fls: "let fls = [(''opendesk/buildspec.normalized.json'', a), (''opendesk/branding.json'', b),
                 (''opendesk/policy.json'', p), (''rust/src/opendesk_generated.rs'', r)]
      in mf_Files m = map (\<lambda>(path, data). \<lparr> gf_Path = path, gf_SHA256 = hex_encode (sha data),
                                             gf_Bytes = int (length data) \<rparr>) fls \<and>
         (\<forall>(path, data) \<in> set fls. fs' (Join [dir, path]) = Some data)"
    and other: "\<forall>path. path \<notin> (\<lambda>rel. Join [dir, rel]) ` set (map join_slash inject_names) \<longrightarrow> fs' path = fs path"
    using Generate_files [OF assms] by blast
  have "cli_Validate spec = None" using Generate_ok [OF assms(1)] by blast
  moreover have "map gf_Path (mf_Files m) @ [''opendesk/manifest.json''] = map join_slash inject_names"
    using fls unfolding inject_names_text by (simp add: Let_def)
  moreover have "list_all (\<lambda>g. file_described sha dir g fs') (mf_Files m)"
    using fls by (simp add: Let_def file_described_def)
  moreover have "rustConfig wide js spec = fs' (Join [dir, ''rust/src/opendesk_generated.rs''])"
    using fls r by (simp add: Let_def)
  ultimately show ?thesis using other by blast
qed

lemma RunWindows_ok:
  assumes "RunWindows wide js sha env ctx spec cfg fs = (Some (r, None), fs')"
  shows "\<exists>m fs1 fs2 staged. pf_WindowsX64 (sp_Platforms spec) \<and>
     Generate wide js sha (file_errors.truncate env) spec (wn_InjectionDir cfg) fs = (Some (Inr m), fs1) \<and>
     stage_files env cfg (mf_Files m) [] fs1 = (Inr staged, fs2) \<and>
     build_and_collect sha env ctx cfg
       (zero_result\<lparr> res_Platform := ''windows_x64'', res_SourceDir := wn_SourceDir cfg,
          res_InjectionDir := wn_InjectionDir cfg, res_ArtifactDir := wn_ArtifactDir cfg,
          res_BuildCommand := wn_BuildCommand cfg, res_StagedFiles := staged \<rparr>) fs2 = ((r, None), fs')"
  using assms unfolding RunWindows_def
  by (auto simp: Let_def split: if_splits option.splits prod.splits sum.splits)

lemma build_and_collect_ok:
  assumes "build_and_collect sha env ctx cfg result fs = ((r, None), fs')" "\<not> wn_DryRun cfg"
    and "res_Artifacts result = []"
  shows "\<exists>out fs1. re_Exec env ctx (wn_SourceDir cfg) (wn_BuildCommand cfg) fs = ((out, None), fs1) \<and>
     TrimSpace (wn_BuildCommand cfg) \<noteq> [] \<and> res_BuildExecuted r \<and>
     res_BuildLog r = Join [wn_ArtifactDir cfg, ''windows-runner.log''] \<and>
     (res_Artifacts r = [] \<longleftrightarrow> TrimSpace (wn_ArtifactGlob cfg) = []) \<and> last_described sha (res_Artifacts r) fs'"
  using assms unfolding build_and_collect_def runCommand_def
  by (auto simp: Let_def split: if_splits option.splits prod.splits sum.splits dest!: collectArtifacts_ok)

text \<open>
  A build that ends without error compiled the specification it was given: the specification enables
  Windows and is valid, the build command ran in the source directory on files in which the generated
  constants stand where the client's source expects them, and ended without error. Artifacts are
  listed exactly when a pattern is configured, and the last artifact listed for a path has the hash
  and length of the file there.
\<close>

lemma RunWindows_built:
  assumes "RunWindows wide js sha env ctx spec cfg fs = (Some (r, None), fs')"
    and "\<not> wn_DryRun cfg"
    and "clean_dir (wn_InjectionDir cfg)"
  shows "pf_WindowsX64 (sp_Platforms spec) \<and> cli_Validate spec = None \<and>
     (\<exists>src fsc out fs2. rustConfig wide js spec = Some src \<and>
        fsc (Join [wn_SourceDir cfg, ''src/opendesk_generated.rs'']) = Some src \<and>
        re_Exec env ctx (wn_SourceDir cfg) (wn_BuildCommand cfg) fsc = ((out, None), fs2)) \<and>
     TrimSpace (wn_BuildCommand cfg) \<noteq> [] \<and> res_BuildExecuted r \<and>
     (res_Artifacts r = [] \<longleftrightarrow> TrimSpace (wn_ArtifactGlob cfg) = []) \<and>
     last_described sha (res_Artifacts r) fs'"
proof -
  obtain m fs1 fs2 staged where w: "pf_WindowsX64 (sp_Platforms spec)"
    and g: "Generate wide js sha (file_errors.truncate env) spec  (wn_InjectionDir cfg) fs = (Some (Inr m), fs1)"
    and st: "stage_files env cfg (mf_Files m) [] fs1 = (Inr staged, fs2)"
    and b: "build_and_collect sha env ctx cfg
       (zero_result\<lparr> res_Platform := ''windows_x64'', res_SourceDir := wn_SourceDir cfg,
          res_InjectionDir := wn_InjectionDir cfg, res_ArtifactDir := wn_ArtifactDir cfg,
          res_BuildCommand := wn_BuildCommand cfg, res_StagedFiles := staged \<rparr>) fs2 = ((r, None), fs')"
    using RunWindows_ok [OF assms(1)] by auto
  obtain a bd p src where src: "rustConfig wide js spec = Some src"
    and files: "mf_Files m = map (\<lambda>(path, data). \<lparr> gf_Path = path, gf_SHA256 = hex_encode (sha data),
                                                    gf_Bytes = int (length data) \<rparr>)
       [(''opendesk/buildspec.normalized.json'', a), (''opendesk/branding.json'', bd),
        (''opendesk/policy.json'', p), (''rust/src/opendesk_generated.rs'', src)]"
    and at: "fs1 (Join [wn_InjectionDir cfg, ''rust/src/opendesk_generated.rs'']) = Some src"
    using Generate_files [OF g assms(3)] unfolding Let_def by auto
  have "fs2 (Join [wn_SourceDir cfg, ''src/opendesk_generated.rs'']) = Some src"
    using stage_manifest [OF st [unfolded files]] at by auto
  moreover have "cli_Validate spec = None" using Generate_ok [OF g] by blast
  moreover have "res_Artifacts (zero_result\<lparr> res_Platform := ''windows_x64'', res_SourceDir := wn_SourceDir cfg,
          res_InjectionDir := wn_InjectionDir cfg, res_ArtifactDir := wn_ArtifactDir cfg,
          res_BuildCommand := wn_BuildCommand cfg, res_StagedFiles := staged \<rparr>) = []"
    by (simp add: zero_result_def)
  ultimately show ?thesis using w src build_and_collect_ok [OF b assms(2)] by blast
qed

definition wit_env :: runner_env where
  "wit_env =
     \<lparr> fe_Mkdir = \<lambda>p. None, fe_Write = \<lambda>p. None, re_Read = \<lambda>p. None, re_NoFile = \<lambda>p. ''none'',
       re_Stat = \<lambda>p fs. Inr False, re_Glob = \<lambda>p fs. Inr [''/a/x'', ''/b/x''],
       re_Exec = \<lambda>t d c fs. ((''done'', None), fs(''/a/x'' \<mapsto> ''A'', ''/b/x'' \<mapsto> ''BC'')) \<rparr>"

definition wit_wn :: WindowsConfig where
  "wit_wn =
     \<lparr> wn_SourceDir = ''/s'', wn_InjectionDir = ''i'', wn_ArtifactDir = ''/o'', wn_BuildCommand = ''b'',
       wn_ArtifactGlob = ''*'', wn_DryRun = False, wn_ToolSearchRoots = [] \<rparr>"

lemma ok_result:
  "(case fst x of Some (r, e) \<Rightarrow> e = None \<and> P r | None \<Rightarrow> False) \<and> Q (snd x) \<Longrightarrow>
     \<exists>r fs. x = (Some (r, None), fs) \<and> P r \<and> Q fs"
  by (cases x) (auto split: option.splits)

text \<open>Two matches with one base name: the file left is the second one.\<close>

lemma wit_build:
  "\<exists>r fs'. RunWindows (\<lambda>s. ([], 1)) wit_json (take 1) wit_env 0 wit_cli_spec wit_wn Map.empty = (Some (r, None), fs') \<and>
     map ar_SHA256 (res_Artifacts r) = [hex_encode ''A'', hex_encode ''B''] \<and> fs' ''/o/x'' = Some ''BC''"
proof -
  let ?x = "RunWindows (\<lambda>s. ([], 1)) wit_json (take 1) wit_env 0 wit_cli_spec wit_wn Map.empty"
  have "(case fst ?x of Some (r, e) \<Rightarrow> e = None \<and> map ar_SHA256 (res_Artifacts r) = [hex_encode ''A'', hex_encode ''B'']
              | None \<Rightarrow> False) \<and> snd ?x ''/o/x'' = Some ''BC''"
    by code_simp
  then show ?thesis
    by (rule ok_result [where P = "\<lambda>r. map ar_SHA256 (res_Artifacts r) = [hex_encode ''A'', hex_encode ''B'']"
          and Q = "\<lambda>fs. fs ''/o/x'' = Some ''BC''"])
qed

lemma wit_build_dirs:
  "\<not> wn_DryRun wit_wn" "wn_InjectionDir wit_wn = ''i''" "clean_dir ''i''" "clean_dir (wn_InjectionDir wit_wn)"
  by (simp_all add: wit_wn_def clean_dir_def plain_name_def IsAbs_def HasPrefix_def)

lemma manifest_describes_files_witness:
  "\<exists>m fs'. Generate (\<lambda>s. ([], 1)) wit_json (take 1) (file_errors.truncate wit_env) wit_cli_spec ''i'' Map.empty =
       (Some (Inr m), fs') \<and>
     list_all (\<lambda>g. file_described (take 1) ''i'' g fs') (mf_Files m)"
proof -
  obtain m fs1 where m: "Generate (\<lambda>s. ([], 1)) wit_json (take 1) (file_errors.truncate wit_env) wit_cli_spec
      ''i'' Map.empty = (Some (Inr m), fs1)"
    using wit_build RunWindows_ok unfolding wit_build_dirs(2) [symmetric] by blast
  from manifest_describes_files [OF m wit_build_dirs(3)] m show ?thesis by blast
qed

end
