(* ===== verification/Builder_Preflight.thy ===== *)
theory Builder_Preflight
  imports Builder_Run Config
begin

text \<open>
  The inspection of a build machine (\<^verbatim>\<open>builder/internal/runners/preflight.go\<close>): where the tools
  are looked for, how each is tried, and the report. The machine is an argument: the search path, the
  environment, the directories and the answers of the tools, which are taken to leave the files alone.
\<close>

section \<open>Text\<close>

text \<open>\<^verbatim>\<open>strings.LastIndex\<close> and \<^verbatim>\<open>strings.Join\<close>.\<close>

fun LastIndex :: "string \<Rightarrow> string \<Rightarrow> nat option" where
  "LastIndex [] sub = (if sub = [] then Some 0 else None)"
| "LastIndex (c # s) sub =
     (case LastIndex s sub of
        Some i \<Rightarrow> Some (Suc i)
      | None \<Rightarrow> if HasPrefix (c # s) sub then Some 0 else None)"

fun join_with :: "string \<Rightarrow> string list \<Rightarrow> string" where
  "join_with sep [] = []"
| "join_with sep [p] = p"
| "join_with sep (p # q # ps) = p @ sep @ join_with sep (q # ps)"

definition firstLine :: "string \<Rightarrow> string" where
  "firstLine value = TrimSpace (takeWhile (\<lambda>c. c \<noteq> newline) value)"

section \<open>Machine\<close>

text \<open>
  \<^verbatim>\<open>exec.LookPath\<close>, \<^verbatim>\<open>os.Getwd\<close>, \<^verbatim>\<open>os.UserHomeDir\<close>, the environment, whether the system is
  Windows, and running a tool: the time left, its own limit, path, arguments and environment give
  the output and an error.
\<close>

record preflight_env = runner_env +
  pe_LookPath :: "string \<Rightarrow> string option"
  pe_Cwd :: "string + string"
  pe_Home :: "string option"
  pe_Getenv :: "string \<Rightarrow> string"
  pe_Environ :: "string list"
  pe_Windows :: bool
  pe_Probe :: "duration \<Rightarrow> duration \<Rightarrow> string \<Rightarrow> string list \<Rightarrow> string list \<Rightarrow> string \<times> string option"

section \<open>Report\<close>

definition CheckPass :: string where "CheckPass = ''pass''"
definition CheckWarn :: string where "CheckWarn = ''warn''"
definition CheckFail :: string where "CheckFail = ''fail''"

record PreflightCheck =
  pc_Name :: string
  pc_Required :: bool
  pc_Status :: string
  pc_Detail :: string
  pc_Path :: string

record PreflightReport =
  pr_Platform :: string
  pr_SourceDir :: string
  pr_Ready :: bool
  pr_Checks :: "PreflightCheck list"

definition passCheck :: "string \<Rightarrow> bool \<Rightarrow> string \<Rightarrow> string \<Rightarrow> PreflightCheck" where
  "passCheck name required detail path =
     \<lparr> pc_Name = name, pc_Required = required, pc_Status = CheckPass, pc_Detail = detail, pc_Path = path \<rparr>"

definition failCheck :: "string \<Rightarrow> bool \<Rightarrow> string \<Rightarrow> string \<Rightarrow> PreflightCheck" where
  "failCheck name required detail path =
     \<lparr> pc_Name = name, pc_Required = required, pc_Status = CheckFail, pc_Detail = detail, pc_Path = path \<rparr>"

text \<open>The closure \<^verbatim>\<open>add\<close> of \<^verbatim>\<open>CheckWindows\<close>.\<close>

definition add_check :: "PreflightReport \<Rightarrow> PreflightCheck \<Rightarrow> PreflightReport" where
  "add_check report check =
     report\<lparr> pr_Ready := (pr_Ready report \<and> \<not> (pc_Required check \<and> pc_Status check = CheckFail)),
             pr_Checks := pr_Checks report @ [check] \<rparr>"

section \<open>Finding tools\<close>

definition globDirs :: "'x runner_env_scheme \<Rightarrow> files \<Rightarrow> string \<Rightarrow> string list" where
  "globDirs env fs pattern =
     (case re_Glob env pattern fs of
        Inl e \<Rightarrow> []
      | Inr matches \<Rightarrow> filter (\<lambda>m. re_Stat env m fs = Inr True) matches)"

definition appendProjectToolRoots :: "'x runner_env_scheme \<Rightarrow> files \<Rightarrow> string list \<Rightarrow> string \<Rightarrow> string list" where
  "appendProjectToolRoots env fs roots projectRoot =
     (let toolsRoot = Join [projectRoot, ''.tools'']
      in roots @
         [Join [toolsRoot, ''cargo'', ''bin''], Join [toolsRoot, ''cmake'', ''bin''],
          Join [toolsRoot, ''cmake'', ''current'', ''bin''], Join [toolsRoot, ''flutter'', ''bin''],
          Join [toolsRoot, ''flutter'', ''current'', ''bin'']] @
         globDirs env fs (Join [toolsRoot, ''cmake'', ''*'', ''bin'']) @
         globDirs env fs (Join [toolsRoot, ''flutter'', ''*'', ''bin'']))"

definition visualStudioToolRoots :: "'x preflight_env_scheme \<Rightarrow> files \<Rightarrow> string list" where
  "visualStudioToolRoots env fs =
     concat (map (\<lambda>base.
       if TrimSpace base = [] then []
       else concat (map (\<lambda>year.
         concat (map (\<lambda>edition.
           globDirs env fs (Join [base, ''Microsoft Visual Studio'', year, edition, ''VC'', ''Tools'', ''MSVC'', ''*'',
                                  ''bin'', ''Hostx64'', ''x64'']))
           [''BuildTools'', ''Community'', ''Professional'', ''Enterprise'']))
         [''2022'', ''2019'']))
       [pe_Getenv env ''ProgramFiles'', pe_Getenv env ''ProgramFiles(x86)''])"

fun dedupe_from :: "string list \<Rightarrow> string list \<Rightarrow> string list" where
  "dedupe_from seen [] = []"
| "dedupe_from seen (value # rest) =
     (if TrimSpace value = [] then dedupe_from seen rest
      else let cleaned = Clean value; key = ToLower cleaned
           in if key \<in> set seen then dedupe_from seen rest
              else cleaned # dedupe_from (key # seen) rest)"

definition dedupeStrings :: "string list \<Rightarrow> string list" where
  "dedupeStrings values1 = dedupe_from [] values1"

definition toolSearchRoots :: "'x preflight_env_scheme \<Rightarrow> files \<Rightarrow> WindowsConfig \<Rightarrow> string list" where
  "toolSearchRoots env fs cfg =
     (let roots0 = wn_ToolSearchRoots cfg;
          roots1 = (case pe_Cwd env of
                      Inl e \<Rightarrow> roots0
                    | Inr cwd \<Rightarrow>
                        appendProjectToolRoots env fs (appendProjectToolRoots env fs roots0 cwd) (Join [cwd, ''..'']));
          roots2 = (case Abs (pe_Cwd env) (wn_SourceDir cfg) of
                      Inl e \<Rightarrow> roots1
                    | Inr absSource \<Rightarrow> appendProjectToolRoots env fs roots1 (Dir (Dir absSource)));
          roots3 = (case pe_Home env of
                      None \<Rightarrow> roots2
                    | Some home \<Rightarrow>
                        roots2 @ [Join [home, ''scoop'', ''shims''],
                                  Join [home, ''scoop'', ''apps'', ''cmake'', ''current'', ''bin''],
                                  Join [home, ''scoop'', ''apps'', ''flutter'', ''current'', ''bin'']])
      in dedupeStrings (roots3 @ visualStudioToolRoots env fs))"

definition toolNameCandidates :: "'x preflight_env_scheme \<Rightarrow> string \<Rightarrow> string list" where
  "toolNameCandidates env name =
     (if pe_Windows env then [name @ ''.exe'', name @ ''.cmd'', name @ ''.bat'', name]
      else [name, name @ ''.exe'', name @ ''.cmd'', name @ ''.bat''])"

definition findTool :: "'x preflight_env_scheme \<Rightarrow> files \<Rightarrow> string \<Rightarrow> WindowsConfig \<Rightarrow> string option" where
  "findTool env fs name cfg =
     (case pe_LookPath env name of
        Some path \<Rightarrow> Some path
      | None \<Rightarrow>
          List.find (\<lambda>path. re_Stat env path fs = Inr False)
            (concat (map (\<lambda>root. map (\<lambda>candidate. Join [root, candidate]) (toolNameCandidates env name))
                         (toolSearchRoots env fs cfg))))"

section \<open>Trying tools\<close>

definition localProjectRootFromTool :: "'x preflight_env_scheme \<Rightarrow> files \<Rightarrow> string \<Rightarrow> WindowsConfig \<Rightarrow> string" where
  "localProjectRootFromTool env fs toolPath cfg =
     (let from_tool =
            (case LastIndex (ToLower (Clean toolPath)) ''/.tools/cargo/bin'' of
               Some index \<Rightarrow> if index > 0 then take index toolPath else []
             | None \<Rightarrow> [])
      in case Abs (pe_Cwd env) (wn_SourceDir cfg) of
           Inl e \<Rightarrow> from_tool
         | Inr absSource \<Rightarrow>
             let root = Dir (Dir absSource)
             in (case re_Stat env (Join [root, ''.tools'', ''rustup'']) fs of
                   Inr _ \<Rightarrow> root
                 | Inl e \<Rightarrow> from_tool))"

definition toolEnv :: "'x preflight_env_scheme \<Rightarrow> files \<Rightarrow> string list \<Rightarrow> string \<Rightarrow> WindowsConfig \<Rightarrow> string list" where
  "toolEnv env fs environ toolPath cfg =
     (if \<not> Contains (ToLower toolPath) ''/.tools/cargo/bin/'' then environ
      else let projectRoot = localProjectRootFromTool env fs toolPath cfg
           in if projectRoot = [] then environ
              else environ @ [''CARGO_HOME='' @ Join [projectRoot, ''.tools'', ''cargo''],
                              ''RUSTUP_HOME='' @ Join [projectRoot, ''.tools'', ''rustup'']])"

text \<open>The compiler in Chinese, as bytes.\<close>

definition compiler_zh :: string where
  "compiler_zh = [CHR 0xE7, CHR 0xBC, CHR 0x96, CHR 0xE8, CHR 0xAF, CHR 0x91, CHR 0xE5, CHR 0x99, CHR 0xA8]"

definition acceptsNonZeroToolOutput :: "string \<Rightarrow> string \<Rightarrow> bool" where
  "acceptsNonZeroToolOutput name raw =
     (let out = ToLower raw
      in if ToLower name = ''cl''
         then Contains out ''microsoft'' \<and>
              (Contains out ''c/c++'' \<or> Contains out ''compiler'' \<or> Contains out compiler_zh)
         else if ToLower name = ''link'' then Contains out ''incremental linker'' \<and> Contains out ''microsoft''
         else False)"

definition checkTool ::
    "'x preflight_env_scheme \<Rightarrow> files \<Rightarrow> duration \<Rightarrow> WindowsConfig \<Rightarrow> string \<Rightarrow> string list \<Rightarrow> bool \<Rightarrow> string \<Rightarrow>
       PreflightCheck" where
  "checkTool env fs ctx cfg name args required detail =
     (let bad = (if required then CheckFail else CheckWarn)
      in case findTool env fs name cfg of
           None \<Rightarrow>
             \<lparr> pc_Name = name, pc_Required = required, pc_Status = bad, pc_Detail = detail @ '' (not found)'',
               pc_Path = [] \<rparr>
         | Some path \<Rightarrow>
             (case pe_Probe env ctx (10 * Second) path args (toolEnv env fs (pe_Environ env) path cfg) of
                (raw, Some err) \<Rightarrow>
                  if acceptsNonZeroToolOutput name raw
                  then \<lparr> pc_Name = name, pc_Required = required, pc_Status = CheckPass,
                         pc_Detail = firstLine (TrimSpace raw), pc_Path = path \<rparr>
                  else \<lparr> pc_Name = name, pc_Required = required, pc_Status = bad,
                         pc_Detail = TrimSpace (raw @ '' '' @ err), pc_Path = path \<rparr>
              | (raw, None) \<Rightarrow>
                  let out = firstLine (TrimSpace raw)
                  in \<lparr> pc_Name = name, pc_Required = required, pc_Status = CheckPass,
                       pc_Detail = (if out = [] then detail else out), pc_Path = path \<rparr>))"

section \<open>Checks\<close>

definition source_markers :: "string list" where
  "source_markers = [''Cargo.toml'', ''vcpkg.json'', ''flutter/pubspec.yaml'', ''src'']"

definition missingSourceMarkers :: "'x runner_env_scheme \<Rightarrow> files \<Rightarrow> string \<Rightarrow> string list \<Rightarrow> string list" where
  "missingSourceMarkers env fs sourceDir markers =
     (if TrimSpace sourceDir = [] then markers
      else filter (\<lambda>marker. case re_Stat env (Join [sourceDir, marker]) fs of Inl e \<Rightarrow> True | Inr _ \<Rightarrow> False) markers)"

definition source_check :: "'x runner_env_scheme \<Rightarrow> files \<Rightarrow> string \<Rightarrow> PreflightCheck" where
  "source_check env fs sourceDir =
     (if sourceDir = []
      then failCheck ''source_dir'' True ''set --source to the patched RustDesk client source directory'' []
      else if re_Stat env sourceDir fs \<noteq> Inr True
      then failCheck ''source_dir'' True ''source directory does not exist or is not a directory'' sourceDir
      else passCheck ''source_dir'' True ''source directory exists'' sourceDir)"

definition markers_check :: "'x runner_env_scheme \<Rightarrow> files \<Rightarrow> string \<Rightarrow> PreflightCheck" where
  "markers_check env fs sourceDir =
     (let missing = missingSourceMarkers env fs sourceDir source_markers
      in if missing = []
         then passCheck ''rustdesk_source'' True ''RustDesk client source markers found'' sourceDir
         else failCheck ''rustdesk_source'' True (''missing source markers: '' @ join_with '', '' missing) sourceDir)"

definition config_checks :: "WindowsConfig \<Rightarrow> PreflightCheck list" where
  "config_checks cfg =
     (if wn_DryRun cfg then [passCheck ''build_mode'' True ''dry-run only stages OpenDesk generated files'' []]
      else
       [if TrimSpace (wn_BuildCommand cfg) = []
        then failCheck ''build_command'' True ''set --build-command or OPENDESK_BUILDER_WINDOWS_COMMAND'' []
        else passCheck ''build_command'' True ''build command is configured'' [],
        if TrimSpace (wn_ArtifactGlob cfg) = []
        then failCheck ''artifact_glob'' True
               ''set --artifact-glob or OPENDESK_BUILDER_WINDOWS_ARTIFACT_GLOB so artifacts can be persisted'' []
        else passCheck ''artifact_glob'' True ''artifact glob is configured'' (wn_ArtifactGlob cfg)])"

text \<open>The tools: name, arguments, whether a dry run requires it too, and the hint.\<close>

definition tool_table :: "(string \<times> string list \<times> bool \<times> string) list" where
  "tool_table =
     [(''powershell'', [''-NoProfile'', ''-Command'', ''$PSVersionTable.PSVersion.ToString()''], True,
       ''PowerShell is required to execute Windows build commands''),
      (''cargo'', [''--version''], False, ''Rust cargo is required for real RustDesk Windows builds''),
      (''rustc'', [''--version''], False, ''Rust compiler is required for real RustDesk Windows builds''),
      (''cmake'', [''--version''], False, ''CMake is required by native RustDesk dependencies''),
      (''flutter'', [''--version''], False, ''Flutter is required by the RustDesk desktop UI build''),
      (''cl'', [''/?''], False, ''MSVC cl.exe is required; install Visual Studio Build Tools C++ workload''),
      (''link'', [''/?''], False, ''MSVC link.exe is required; install Visual Studio Build Tools C++ workload'')]"

definition CheckWindows :: "'x preflight_env_scheme \<Rightarrow> files \<Rightarrow> duration \<Rightarrow> WindowsConfig \<Rightarrow> PreflightReport" where
  "CheckWindows env fs ctx cfg =
     (let sourceDir = TrimSpace (wn_SourceDir cfg);
          tool_checks = map (\<lambda>(name, args, always, detail).
                               checkTool env fs ctx cfg name args (always \<or> \<not> wn_DryRun cfg) detail) tool_table
      in foldl add_check
           \<lparr> pr_Platform = ''windows_x64'', pr_SourceDir = wn_SourceDir cfg, pr_Ready = True, pr_Checks = [] \<rparr>
           ([source_check env fs sourceDir, markers_check env fs sourceDir] @ config_checks cfg @ tool_checks))"

section \<open>Ready\<close>

definition check_ok :: "PreflightCheck \<Rightarrow> bool" where
  "check_ok c \<longleftrightarrow> \<not> (pc_Required c \<and> pc_Status c = CheckFail)"

lemma foldl_add_check:
  "foldl add_check r cs =
     r\<lparr> pr_Ready := (pr_Ready r \<and> list_all check_ok cs), pr_Checks := pr_Checks r @ cs \<rparr>"
  by (induction cs arbitrary: r) (auto simp: add_check_def check_ok_def)

text \<open>A tool is usable: it is found, and it runs without error or says who it is.\<close>

definition tool_usable :: "'x preflight_env_scheme \<Rightarrow> files \<Rightarrow> duration \<Rightarrow> WindowsConfig \<Rightarrow> string \<times> string list \<Rightarrow> bool" where
  "tool_usable env fs ctx cfg tool \<longleftrightarrow>
     (case findTool env fs (fst tool) cfg of
        None \<Rightarrow> False
      | Some path \<Rightarrow>
          (case pe_Probe env ctx (10 * Second) path (snd tool) (toolEnv env fs (pe_Environ env) path cfg) of
             (raw, None) \<Rightarrow> True
           | (raw, Some err) \<Rightarrow> acceptsNonZeroToolOutput (fst tool) raw))"

lemma statuses [simp]: "CheckPass \<noteq> CheckFail" "CheckWarn \<noteq> CheckFail"
  by (simp_all add: CheckPass_def CheckWarn_def CheckFail_def)

lemma check_ok_pass [simp]: "check_ok (passCheck n r d p)" "check_ok (failCheck n r d p) \<longleftrightarrow> \<not> r"
  by (simp_all add: check_ok_def passCheck_def failCheck_def)

lemma check_ok_tool [simp]:
  "check_ok (checkTool env fs ctx cfg name args required detail) \<longleftrightarrow>
     \<not> required \<or> tool_usable env fs ctx cfg (name, args)"
  by (auto simp: checkTool_def check_ok_def tool_usable_def Let_def split: option.splits prod.splits)

lemma check_ok_source [simp]:
  "check_ok (source_check env fs dir) \<longleftrightarrow> dir \<noteq> [] \<and> re_Stat env dir fs = Inr True"
  by (simp add: source_check_def)

lemma check_ok_markers [simp]:
  "check_ok (markers_check env fs (TrimSpace dir)) \<longleftrightarrow>
     TrimSpace dir \<noteq> [] \<and>
     list_all (\<lambda>marker. \<exists>is_dir. re_Stat env (Join [TrimSpace dir, marker]) fs = Inr is_dir) source_markers"
  by (auto simp: markers_check_def missingSourceMarkers_def Let_def source_markers_def filter_empty_conv list_all_iff
      split: sum.splits if_splits)

lemma check_ok_config [simp]:
  "list_all check_ok (config_checks cfg) \<longleftrightarrow>
     wn_DryRun cfg \<or> TrimSpace (wn_BuildCommand cfg) \<noteq> [] \<and> TrimSpace (wn_ArtifactGlob cfg) \<noteq> []"
  by (simp add: config_checks_def)

text \<open>
  The inspection reports a machine ready exactly when the build can be tried: the source
  directory and its four markers are there, the PowerShell that runs the build command is usable, and,
  unless the build is a dry run, a command and a pattern for artifacts are configured and the six other
  tools are usable.
\<close>

lemma preflight_ready_iff:
  "pr_Ready (CheckWindows env fs ctx cfg) \<longleftrightarrow>
     (let dir = TrimSpace (wn_SourceDir cfg)
      in dir \<noteq> [] \<and> re_Stat env dir fs = Inr True \<and>
         list_all (\<lambda>marker. \<exists>is_dir. re_Stat env (Join [dir, marker]) fs = Inr is_dir)
           [''Cargo.toml'', ''vcpkg.json'', ''flutter/pubspec.yaml'', ''src'']) \<and>
     tool_usable env fs ctx cfg (''powershell'', [''-NoProfile'', ''-Command'', ''$PSVersionTable.PSVersion.ToString()'']) \<and>
     (wn_DryRun cfg \<or>
        TrimSpace (wn_BuildCommand cfg) \<noteq> [] \<and> TrimSpace (wn_ArtifactGlob cfg) \<noteq> [] \<and>
        list_all (tool_usable env fs ctx cfg)
          [(''cargo'', [''--version'']), (''rustc'', [''--version'']), (''cmake'', [''--version'']),
           (''flutter'', [''--version'']), (''cl'', [''/?'']), (''link'', [''/?''])])"
  unfolding CheckWindows_def foldl_add_check Let_def tool_table_def source_markers_def [symmetric]
  by (simp only: PreflightReport.simps list_all_append list.pred_inject check_ok_source check_ok_markers check_ok_config
      check_ok_tool list.map prod.case) blast

end
