(* ===== verification/Builder_Main.thy ===== *)
theory Builder_Main
  imports Builder_Preflight Build_Run
begin

text \<open>
  The command line of the builder (\<^verbatim>\<open>builder/cmd/opendesk-builder/main.go\<close>): flags as Go's
  \<^verbatim>\<open>flag\<close> reads them, the four commands, and the exit code. \<^verbatim>\<open>time.ParseDuration\<close>, JSON, the
  text of usages and of panics are arguments.
\<close>

section \<open>Flags\<close>

datatype flag_value = VString string | VBool bool | VDuration duration

type_synonym flags = "string \<rightharpoonup> flag_value"

text \<open>\<^verbatim>\<open>strconv.ParseBool\<close>.\<close>

definition ParseBool :: "string \<Rightarrow> bool option" where
  "ParseBool s =
     (if s \<in> {''1'', ''t'', ''T'', ''true'', ''TRUE'', ''True''} then Some True
      else if s \<in> {''0'', ''f'', ''F'', ''false'', ''FALSE'', ''False''} then Some False
      else None)"

text \<open>\<^verbatim>\<open>Value.Set\<close>; the error text does not depend on the kind.\<close>

definition flag_set :: "(string \<Rightarrow> duration option) \<Rightarrow> flag_value \<Rightarrow> string \<Rightarrow> flag_value option" where
  "flag_set parse_duration old s =
     (case old of
        VString _ \<Rightarrow> Some (VString s)
      | VBool _ \<Rightarrow> map_option VBool (ParseBool s)
      | VDuration _ \<Rightarrow> map_option VDuration (parse_duration s))"

text \<open>The name of a flag up to an equals sign, and what follows the sign.\<close>

definition split_flag :: "string \<Rightarrow> string \<times> string option" where
  "split_flag name =
     (let key = take 1 name @ takeWhile (\<lambda>c. c \<noteq> CHR ''='') (drop 1 name);
          rest = drop (length key) name
      in (key, if rest = [] then None else Some (drop 1 rest)))"

text \<open>The value of a flag that is not boolean: behind the sign, or the next argument.\<close>

fun flag_argument :: "string option \<Rightarrow> string list \<Rightarrow> (string \<times> string list) option" where
  "flag_argument (Some v) rest = Some (v, rest)"
| "flag_argument None (v # rest) = Some (v, rest)"
| "flag_argument None [] = None"

lemma flag_argument_length: "flag_argument v rest = Some (x, rest1) \<Longrightarrow> length rest1 \<le> length rest"
  by (cases "(v, rest)" rule: flag_argument.cases) auto

record flag_env =
  fl_ParseDuration :: "string \<Rightarrow> duration option"
  fl_Wide :: "string \<Rightarrow> string \<times> nat"

function parse_flags :: "flag_env \<Rightarrow> flags \<Rightarrow> string list \<Rightarrow> string + flags" where
  "parse_flags env fl [] = Inr fl"
| "parse_flags env fl (s # rest) =
     (if length s < 2 \<or> hd s \<noteq> CHR ''-'' then Inr fl
      else let minuses = (if s ! 1 = CHR ''-'' then 2 else 1)
           in if minuses = 2 \<and> length s = 2 then Inr fl
              else let name = drop minuses s
                   in if name = [] \<or> hd name = CHR ''-'' \<or> hd name = CHR ''='' then Inl (''bad flag syntax: '' @ s)
                      else (case split_flag name of (key, value) \<Rightarrow>
                        (case fl key of
                           None \<Rightarrow>
                             if key = ''help'' \<or> key = ''h'' then Inl ''flag: help requested''
                             else Inl (''flag provided but not defined: -'' @ key)
                         | Some (VBool b) \<Rightarrow>
                             (case value of
                                None \<Rightarrow> parse_flags env (fl(key \<mapsto> VBool True)) rest
                              | Some v \<Rightarrow>
                                  (case ParseBool v of
                                     None \<Rightarrow> Inl (''invalid boolean value '' @ Quote (fl_Wide env) v @ '' for -'' @ key @
                                                  '': parse error'')
                                   | Some x \<Rightarrow> parse_flags env (fl(key \<mapsto> VBool x)) rest))
                         | Some old \<Rightarrow>
                             (case flag_argument value rest of
                                None \<Rightarrow> Inl (''flag needs an argument: -'' @ key)
                              | Some (v, rest1) \<Rightarrow>
                                  (case flag_set (fl_ParseDuration env) old v of
                                     None \<Rightarrow> Inl (''invalid value '' @ Quote (fl_Wide env) v @ '' for flag -'' @ key @
                                                  '': parse error'')
                                   | Some new \<Rightarrow> parse_flags env (fl(key \<mapsto> new)) rest1)))))"
  by pat_completeness auto
termination
  by (relation "measure (\<lambda>(env, fl, args). length args)") (auto dest!: flag_argument_length)

definition flag_string :: "flags \<Rightarrow> string \<Rightarrow> string" where
  "flag_string fl name = (case fl name of Some (VString s) \<Rightarrow> s | _ \<Rightarrow> [])"

definition flag_bool :: "flags \<Rightarrow> string \<Rightarrow> bool" where
  "flag_bool fl name = (case fl name of Some (VBool b) \<Rightarrow> b | _ \<Rightarrow> False)"

definition flag_duration :: "flags \<Rightarrow> string \<Rightarrow> duration" where
  "flag_duration fl name = (case fl name of Some (VDuration d) \<Rightarrow> d | _ \<Rightarrow> 0)"

section \<open>Commands\<close>

text \<open>
  What the program meets: the machine, the flags' environment, JSON in both directions, the hash,
  the usage of a flag set and the text of a panic.
\<close>

record builder_env =
  be_Machine :: preflight_env
  be_Flags :: flag_env
  be_JSON :: inject_json
  be_Sha :: "string \<Rightarrow> string"
  be_DecodeSpec :: "string \<Rightarrow> string + Spec"
  be_ManifestJSON :: "Manifest \<Rightarrow> string + string"
  be_ReportJSON :: "PreflightReport \<Rightarrow> string + string"
  be_ResultJSON :: "Result \<Rightarrow> string + string"
  be_Usage :: "string \<Rightarrow> string"
  be_Panic :: string

text \<open>
  How a command ends: what it printed, what the flags wrote to standard error, and its error;
  \<^term>\<open>None\<close> for a panic.
\<close>

type_synonym command_end = "(string \<times> string \<times> string option) option"

definition fails :: "string \<Rightarrow> command_end" where
  "fails e = Some ([], [], Some e)"

definition loadSpec :: "builder_env \<Rightarrow> files \<Rightarrow> string \<Rightarrow> string + Spec" where
  "loadSpec env fs path =
     (if path = [] then Inl ''--spec is required''
      else cli_Load (\<lambda>p. readFile (be_Machine env) p fs) (be_DecodeSpec env) path)"

text \<open>Parsing with \<^verbatim>\<open>ContinueOnError\<close>: an error and the usage go to standard error.\<close>

definition with_flags ::
    "builder_env \<Rightarrow> string \<Rightarrow> flags \<Rightarrow> string list \<Rightarrow> (flags \<Rightarrow> files \<Rightarrow> command_end \<times> files) \<Rightarrow> files \<Rightarrow>
       command_end \<times> files" where
  "with_flags env name defaults args body fs =
     (case parse_flags (be_Flags env) defaults args of
        Inl e \<Rightarrow>
          (Some ([], (if e = ''flag: help requested'' then [] else e @ [newline]) @ be_Usage env name, Some e), fs)
      | Inr fl \<Rightarrow> body fl fs)"

definition cmd_validate :: "builder_env \<Rightarrow> string list \<Rightarrow> files \<Rightarrow> command_end \<times> files" where
  "cmd_validate env args =
     with_flags env ''validate'' [''spec'' \<mapsto> VString []] args (\<lambda>fl fs.
       case loadSpec env fs (flag_string fl ''spec'') of
         Inl e \<Rightarrow> (fails e, fs)
       | Inr spec \<Rightarrow> (Some (''valid BuildSpec: '' @ cli_Summary spec @ [newline], [], None), fs))"

definition doctor_flags :: flags where
  "doctor_flags =
     [''platform'' \<mapsto> VString ''windows_x64'', ''source'' \<mapsto> VString [], ''build-command'' \<mapsto> VString [],
      ''artifact-glob'' \<mapsto> VString [], ''dry-run'' \<mapsto> VBool False, ''timeout'' \<mapsto> VDuration (30 * Second)]"

definition cmd_doctor :: "builder_env \<Rightarrow> string list \<Rightarrow> files \<Rightarrow> command_end \<times> files" where
  "cmd_doctor env args =
     with_flags env ''doctor'' doctor_flags args (\<lambda>fl fs.
       if flag_string fl ''platform'' \<noteq> ''windows_x64''
       then (fails (''doctor not implemented for platform: '' @ flag_string fl ''platform''), fs)
       else let report = CheckWindows (be_Machine env) fs (flag_duration fl ''timeout'')
                  \<lparr> wn_SourceDir = flag_string fl ''source'', wn_InjectionDir = [], wn_ArtifactDir = [],
                    wn_BuildCommand = flag_string fl ''build-command'',
                    wn_ArtifactGlob = flag_string fl ''artifact-glob'',
                    wn_DryRun = flag_bool fl ''dry-run'', wn_ToolSearchRoots = [] \<rparr>
            in (case be_ReportJSON env report of
                  Inl e \<Rightarrow> (fails e, fs)
                | Inr raw \<Rightarrow>
                    (Some (raw @ [newline], [],
                           if pr_Ready report then None
                           else Some (flag_string fl ''platform'' @ '' build environment is not ready'')), fs)))"

definition run_flags :: flags where
  "run_flags =
     [''spec'' \<mapsto> VString [], ''platform'' \<mapsto> VString ''windows_x64'', ''source'' \<mapsto> VString [],
      ''injection'' \<mapsto> VString [], ''artifacts'' \<mapsto> VString [], ''build-command'' \<mapsto> VString [],
      ''artifact-glob'' \<mapsto> VString [], ''dry-run'' \<mapsto> VBool False, ''timeout'' \<mapsto> VDuration (120 * Minute)]"

definition run_config :: "flags \<Rightarrow> WindowsConfig" where
  "run_config fl =
     \<lparr> wn_SourceDir = flag_string fl ''source'', wn_InjectionDir = flag_string fl ''injection'',
       wn_ArtifactDir = flag_string fl ''artifacts'', wn_BuildCommand = flag_string fl ''build-command'',
       wn_ArtifactGlob = flag_string fl ''artifact-glob'', wn_DryRun = flag_bool fl ''dry-run'',
       wn_ToolSearchRoots = [] \<rparr>"

definition run_body :: "builder_env \<Rightarrow> flags \<Rightarrow> files \<Rightarrow> command_end \<times> files" where
  "run_body env fl fs =
     (case loadSpec env fs (flag_string fl ''spec'') of
        Inl e \<Rightarrow> (fails e, fs)
      | Inr spec \<Rightarrow>
          if flag_string fl ''platform'' \<noteq> ''windows_x64''
          then (fails (''runner not implemented for platform: '' @ flag_string fl ''platform''), fs)
          else (case RunWindows (fl_Wide (be_Flags env)) (be_JSON env) (be_Sha env)
                       (runner_env.truncate (be_Machine env)) (flag_duration fl ''timeout'') spec (run_config fl) fs of
                  (None, fs1) \<Rightarrow> (None, fs1)
                | (Some (result, err), fs1) \<Rightarrow>
                    (case be_ResultJSON env result of
                       Inl e \<Rightarrow> (fails e, fs1)
                     | Inr raw \<Rightarrow> (Some (raw @ [newline], [], err), fs1))))"

definition cmd_run :: "builder_env \<Rightarrow> string list \<Rightarrow> files \<Rightarrow> command_end \<times> files" where
  "cmd_run env args = with_flags env ''run'' run_flags args (run_body env)"

definition cmd_inject :: "builder_env \<Rightarrow> string list \<Rightarrow> files \<Rightarrow> command_end \<times> files" where
  "cmd_inject env args =
     with_flags env ''inject'' [''spec'' \<mapsto> VString [], ''out'' \<mapsto> VString []] args (\<lambda>fl fs.
       if flag_string fl ''out'' = [] then (fails ''--out is required'', fs)
       else (case loadSpec env fs (flag_string fl ''spec'') of
               Inl e \<Rightarrow> (fails e, fs)
             | Inr spec \<Rightarrow>
                 (case Generate (fl_Wide (be_Flags env)) (be_JSON env) (be_Sha env)
                         (file_errors.truncate (be_Machine env)) spec (flag_string fl ''out'') fs of
                    (None, fs1) \<Rightarrow> (None, fs1)
                  | (Some (Inl e), fs1) \<Rightarrow> (fails e, fs1)
                  | (Some (Inr manifest), fs1) \<Rightarrow>
                      (case be_ManifestJSON env manifest of
                         Inl e \<Rightarrow> (fails e, fs1)
                       | Inr raw \<Rightarrow> (Some (raw @ [newline], [], None), fs1)))))"

section \<open>Program\<close>

definition usage_lines :: "string list" where
  "usage_lines =
     [''opendesk-builder'', [], ''Commands:'',
      ''  validate --spec buildspec.json'',
      ''  inject   --spec buildspec.json --out .run/client-injection'',
      ''  doctor   --platform windows_x64 --source .upstream/rustdesk-client'',
      ''  run      --platform windows_x64 --spec buildspec.json --source .upstream/rustdesk-client --injection .run/client-injection --artifacts .run/artifacts --dry-run'']"

definition builder_usage :: string where
  "builder_usage = concat (map (\<lambda>l. l @ [newline]) usage_lines)"

text \<open>\<^verbatim>\<open>main\<close> on the arguments after the name of the program: its output and exit code.\<close>

definition builder_main :: "builder_env \<Rightarrow> string list \<Rightarrow> files \<Rightarrow> (CommandResult \<times> int) \<times> files" where
  "builder_main env argv fs =
     (let command =
            (case argv of
               [] \<Rightarrow> None
             | name # args \<Rightarrow>
                 if name = ''validate'' then Some (cmd_validate env args fs)
                 else if name = ''inject'' then Some (cmd_inject env args fs)
                 else if name = ''doctor'' then Some (cmd_doctor env args fs)
                 else if name = ''run'' then Some (cmd_run env args fs)
                 else None)
      in case command of
           None \<Rightarrow> ((\<lparr> cr_Stdout = builder_usage, cr_Stderr = [] \<rparr>, 2), fs)
         | Some (None, fs1) \<Rightarrow> ((\<lparr> cr_Stdout = [], cr_Stderr = be_Panic env \<rparr>, 2), fs1)
         | Some (Some (out, err, None), fs1) \<Rightarrow> ((\<lparr> cr_Stdout = out, cr_Stderr = err \<rparr>, 0), fs1)
         | Some (Some (out, err, Some e), fs1) \<Rightarrow>
             ((\<lparr> cr_Stdout = out, cr_Stderr = err @ ''error: '' @ e @ [newline] \<rparr>, 1), fs1))"

text \<open>
  \<^verbatim>\<open>CLIExecutor.Run\<close> when the binary is this program and ends in time: the error of
  \<^verbatim>\<open>exec.Cmd.Run\<close> is the exit status.
\<close>

definition exec_builder :: "builder_env \<Rightarrow> Executor" where
  "exec_builder env timeout cmd fs =
     (case builder_main env (cmd_Args cmd) fs of
        ((out, code), fs1) \<Rightarrow> ((out, if code = 0 then None else Some (''exit status '' @ FormatInt code)), fs1))"

end
