(* ===== verification/Builder_Contract.thy ===== *)
theory Builder_Contract
  imports Builder_Main
begin

text \<open>
  The contract between the build worker of the API (\<^verbatim>\<open>api/internal/buildworker/worker.go\<close>) and the
  builder program (\<^verbatim>\<open>builder\<close>): the builder reads back the flags the worker writes, a job the worker
  completes has been built from the specification of its profile, and the worker's doctor reports
  what the builder found.
\<close>

section \<open>Reading flags\<close>

definition flag_key :: "string \<Rightarrow> bool" where
  "flag_key key \<longleftrightarrow> key \<noteq> [] \<and> hd key \<noteq> CHR ''-'' \<and> hd key \<noteq> CHR ''='' \<and> CHR ''='' \<notin> set key"

lemma split_flag_key: "flag_key key \<Longrightarrow> split_flag key = (key, None)"
proof -
  assume k: "flag_key key"
  then obtain c s where key: "key = c # s" by (cases key) (auto simp: flag_key_def)
  have "CHR ''='' \<notin> set s" using k by (auto simp: flag_key_def key)
  then have t: "takeWhile (\<lambda>c. c \<noteq> CHR ''='') s = s" by (auto simp: takeWhile_eq_all_conv)
  show ?thesis by (simp add: split_flag_def key Let_def t)
qed

lemma parse_string:
  assumes "flag_key key" "fl key = Some (VString old)"
  shows "parse_flags env fl ((CHR ''-'' # CHR ''-'' # key) # v # rest) = parse_flags env (fl(key \<mapsto> VString v)) rest"
  using assms by (auto simp: split_flag_key flag_set_def Let_def flag_key_def)

lemma parse_duration:
  assumes "flag_key key" "fl key = Some (VDuration old)" "fl_ParseDuration env v = Some d"
  shows "parse_flags env fl ((CHR ''-'' # CHR ''-'' # key) # v # rest) = parse_flags env (fl(key \<mapsto> VDuration d)) rest"
  using assms by (auto simp: split_flag_key flag_set_def Let_def flag_key_def)

lemma parse_bool:
  assumes "flag_key key" "fl key = Some (VBool old)"
  shows "parse_flags env fl ((CHR ''-'' # CHR ''-'' # key) # rest) = parse_flags env (fl(key \<mapsto> VBool True)) rest"
  using assms by (auto simp: split_flag_key flag_set_def Let_def flag_key_def)

lemma flag_keys:
  "flag_key ''platform''" "flag_key ''spec''" "flag_key ''source''" "flag_key ''injection''" "flag_key ''artifacts''"
  "flag_key ''dry-run''" "flag_key ''build-command''" "flag_key ''artifact-glob''" "flag_key ''timeout''"
  by (simp_all add: flag_key_def)

text \<open>The flags the worker passes, as the builder reads them.\<close>

definition or_blank :: "string \<Rightarrow> string" where
  "or_blank s = (if TrimSpace s = [] then [] else s)"

definition optional_flags :: "WorkerConfig \<Rightarrow> flags \<Rightarrow> flags" where
  "optional_flags cfg fl =
     fl(''dry-run'' \<mapsto> VBool (wc_DryRun cfg), ''build-command'' \<mapsto> VString (or_blank (wc_BuildCommand cfg)),
        ''artifact-glob'' \<mapsto> VString (or_blank (wc_ArtifactGlob cfg)))"

lemma parse_optional_bool:
  assumes "flag_key key" "fl key = Some (VBool False)"
  shows "parse_flags env fl ((if b then [CHR ''-'' # CHR ''-'' # key] else []) @ rest) =
     parse_flags env (fl(key \<mapsto> VBool b)) rest"
proof (cases b)
  case True
  then show ?thesis using parse_bool [where fl = fl, OF assms] by (simp del: parse_flags.simps)
next
  case False
  then show ?thesis using assms(2) by (simp add: fun_upd_idem del: parse_flags.simps)
qed

lemma parse_optional_string:
  assumes "flag_key key" "fl key = Some (VString [])"
  shows "parse_flags env fl ((if TrimSpace v \<noteq> [] then [CHR ''-'' # CHR ''-'' # key, v] else []) @ rest) =
     parse_flags env (fl(key \<mapsto> VString (or_blank v))) rest"
proof (cases "TrimSpace v = []")
  case True
  then show ?thesis using assms(2) by (simp add: fun_upd_idem or_blank_def del: parse_flags.simps)
next
  case False
  then show ?thesis using parse_string [where fl = fl, OF assms] by (simp add: or_blank_def del: parse_flags.simps)
qed

lemma parse_optional:
  assumes "fl ''dry-run'' = Some (VBool False)" "fl ''build-command'' = Some (VString [])"
    "fl ''artifact-glob'' = Some (VString [])"
  shows "parse_flags env fl (optional_args cfg @ rest) = parse_flags env (optional_flags cfg fl) rest"
proof -
  let ?f1 = "fl(''dry-run'' \<mapsto> VBool (wc_DryRun cfg))"
  let ?f2 = "?f1(''build-command'' \<mapsto> VString (or_blank (wc_BuildCommand cfg)))"
  have "?f1 ''build-command'' = Some (VString [])" "?f2 ''artifact-glob'' = Some (VString [])"
    using assms by simp_all
  note steps = parse_optional_bool [where fl = fl, OF flag_keys(6) assms(1)] parse_optional_string [where fl = ?f1, OF flag_keys(7) this(1)]
    parse_optional_string [where fl = ?f2, OF flag_keys(8) this(2)]
  show ?thesis unfolding optional_args_def append_assoc optional_flags_def steps by (rule HOL.refl)
qed

definition worker_flags :: "WorkerConfig \<Rightarrow> BuildJob \<Rightarrow> string \<Rightarrow> string \<Rightarrow> string \<Rightarrow> flags" where
  "worker_flags cfg job specPath injectionDir artifactDir =
     (optional_flags cfg
        (run_flags(''platform'' \<mapsto> VString (bj_Platform job), ''spec'' \<mapsto> VString specPath,
                   ''source'' \<mapsto> VString (wc_SourceDir cfg), ''injection'' \<mapsto> VString injectionDir,
                   ''artifacts'' \<mapsto> VString artifactDir)))(''timeout'' \<mapsto> VDuration (wc_Timeout cfg))"

lemma run_flags_at:
  "run_flags ''platform'' = Some (VString ''windows_x64'')" "run_flags ''spec'' = Some (VString [])"
  "run_flags ''source'' = Some (VString [])" "run_flags ''injection'' = Some (VString [])"
  "run_flags ''artifacts'' = Some (VString [])" "run_flags ''dry-run'' = Some (VBool False)"
  "run_flags ''build-command'' = Some (VString [])" "run_flags ''artifact-glob'' = Some (VString [])"
  "run_flags ''timeout'' = Some (VDuration (120 * Minute))"
  by (simp_all add: run_flags_def)

lemma worker_args_parse:
  assumes "fl_ParseDuration env (DurationString (wc_Timeout cfg)) = Some (wc_Timeout cfg)"
  shows "worker_args cfg job specPath injectionDir artifactDir =
     ''run'' # tl (worker_args cfg job specPath injectionDir artifactDir)"
    and "parse_flags env run_flags (tl (worker_args cfg job specPath injectionDir artifactDir)) =
       Inr (worker_flags cfg job specPath injectionDir artifactDir)"
proof -
  let ?w = "worker_args cfg job specPath injectionDir artifactDir"
  show "?w = ''run'' # tl ?w" by (simp add: worker_args_def)
  let ?f1 = "run_flags(''platform'' \<mapsto> VString (bj_Platform job))"
  let ?f2 = "?f1(''spec'' \<mapsto> VString specPath)"
  let ?f3 = "?f2(''source'' \<mapsto> VString (wc_SourceDir cfg))"
  let ?f4 = "?f3(''injection'' \<mapsto> VString injectionDir)"
  let ?f5 = "?f4(''artifacts'' \<mapsto> VString artifactDir)"
  have f: "?f1 ''spec'' = Some (VString [])" "?f2 ''source'' = Some (VString [])"
    "?f3 ''injection'' = Some (VString [])" "?f4 ''artifacts'' = Some (VString [])"
    "?f5 ''dry-run'' = Some (VBool False)" "?f5 ''build-command'' = Some (VString [])"
    "?f5 ''artifact-glob'' = Some (VString [])"
    "optional_flags cfg ?f5 ''timeout'' = Some (VDuration (120 * Minute))"
    by (simp_all add: run_flags_at optional_flags_def)
  note steps = parse_string [where fl = run_flags, OF flag_keys(1) run_flags_at(1)] parse_string [where fl = ?f1, OF flag_keys(2) f(1)]
    parse_string [where fl = ?f2, OF flag_keys(3) f(2)] parse_string [where fl = ?f3, OF flag_keys(4) f(3)] parse_string [where fl = ?f4, OF flag_keys(5) f(4)]
    parse_optional [where fl = ?f5, OF f(5-7)] parse_duration [where fl = "optional_flags cfg ?f5", OF flag_keys(9) f(8) assms]
  show "parse_flags env run_flags (tl ?w) = Inr (worker_flags cfg job specPath injectionDir artifactDir)"
    unfolding worker_args_def append_Cons append_Nil list.sel steps worker_flags_def
    by (simp only: parse_flags.simps)
qed

lemma worker_flags_at:
  "flag_string (worker_flags cfg job sp injd art) ''spec'' = sp"
  "flag_string (worker_flags cfg job sp injd art) ''platform'' = bj_Platform job"
  "flag_duration (worker_flags cfg job sp injd art) ''timeout'' = wc_Timeout cfg"
  "run_config (worker_flags cfg job sp injd art) =
     \<lparr> wn_SourceDir = wc_SourceDir cfg, wn_InjectionDir = injd, wn_ArtifactDir = art,
       wn_BuildCommand = or_blank (wc_BuildCommand cfg), wn_ArtifactGlob = or_blank (wc_ArtifactGlob cfg),
       wn_DryRun = wc_DryRun cfg, wn_ToolSearchRoots = [] \<rparr>"
  by (simp_all add: worker_flags_def optional_flags_def run_config_def flag_string_def flag_bool_def flag_duration_def)

section \<open>Directories of a job\<close>

lemma FormatInt_no_slash: "slash \<notin> set (FormatInt n)"
proof -
  have "slash \<notin> set (nat_digits k)" for k
    using nat_digits_digit [of k] by (auto simp: list_all_iff digit_char_def)
  then show ?thesis by (simp add: FormatInt_def)
qed

lemma job_name_plain: "plain_name (''job-'' @ FormatInt n)"
  using FormatInt_no_slash [of n] by (simp add: plain_name_def)

lemma job_paths_clean:
  assumes "clean_dir (wc_WorkDir cfg)" "job_paths cfg job = (sp, injd, art)"
  shows "clean_dir injd"
proof -
  have "clean_dir (Join [wc_WorkDir cfg, ''job-'' @ FormatInt (bj_ID job)])"
    by (rule clean_dir_Join [OF assms(1) job_name_plain])
  moreover have "plain_name ''injection''" by (simp add: plain_name_def)
  ultimately show ?thesis using assms(2) clean_dir_Join by (auto simp: job_paths_def Let_def)
qed

section \<open>Artifacts\<close>

text \<open>An artifact as the worker reads it, and as it records it.\<close>

definition as_runner :: "Result \<Rightarrow> runnerResult" where
  "as_runner r =
     \<lparr> rres_BuildLog = res_BuildLog r,
       rres_Artifacts = map (\<lambda>a. \<lparr> ra_Path = ar_Path a, ra_SHA256 = ar_SHA256 a, ra_Bytes = ar_Bytes a \<rparr>)
                            (res_Artifacts r) \<rparr>"

definition as_artifact :: "BuildArtifact \<Rightarrow> Artifact" where
  "as_artifact b = \<lparr> ar_Path = ba_LocalPath b, ar_SHA256 = ba_SHA256 b, ar_Bytes = ba_SizeBytes b \<rparr>"

lemma create_artifacts_recorded:
  "create_artifacts clk n job as out m = (Inr arts, m1) \<Longrightarrow>
     map as_artifact arts =
       map as_artifact out @ map (\<lambda>a. \<lparr> ar_Path = ra_Path a, ar_SHA256 = ra_SHA256 a, ar_Bytes = ra_Bytes a \<rparr>) as"
proof (induction as arbitrary: n out m)
  case (Cons a as)
  then obtain created m2 where c: "create_artifacts clk (Suc n) job as (out @ [created]) m2 = (Inr arts, m1)"
    "as_artifact created = \<lparr> ar_Path = ra_Path a, ar_SHA256 = ra_SHA256 a, ar_Bytes = ra_Bytes a \<rparr>"
    by (auto simp: CreateBuildArtifact_def Let_def as_artifact_def split: if_splits)
  from Cons.IH [OF c(1)] c(2) show ?case by simp
qed simp

lemma record_build_artifacts:
  assumes "record_build w j output runErr m = ((res, None), m1)"
    and "parseRunnerResult (ww_JSON w) (cr_Stdout output) = Inr (as_runner r)"
  shows "\<exists>arts. rr_Artifacts res = Some arts \<and> map as_artifact arts = res_Artifacts r"
proof -
  obtain arts m2 where "create_artifacts (ww_Clock w) 2 j (rres_Artifacts (as_runner r)) [] m = (Inr arts, m2)"
    "rr_Artifacts res = Some arts"
    using assms by (auto simp: record_build_def Let_def split: option.splits sum.splits prod.splits)
  moreover have "map (\<lambda>a. \<lparr> ar_Path = ar_Path a, ar_SHA256 = ar_SHA256 a, ar_Bytes = ar_Bytes a \<rparr>) (res_Artifacts r) =
     res_Artifacts r" by (rule map_idI) simp
  ultimately show ?thesis using create_artifacts_recorded by (fastforce simp: as_runner_def comp_def)
qed

section \<open>A completed job\<close>

lemma exec_builder_ok:
  assumes "exec_builder env t cmd fs = ((output, None), fs1)"
  shows "builder_main env (cmd_Args cmd) fs = ((output, 0), fs1)"
  using assms by (auto simp: exec_builder_def split: prod.splits if_splits)

lemma builder_main_run:
  assumes "builder_main env (''run'' # args) fs = ((output, 0), fs1)"
  shows "\<exists>err. cmd_run env args fs = (Some (cr_Stdout output, err, None), fs1)"
  using assms unfolding builder_main_def Let_def
  by (auto split: prod.splits option.splits)

lemma run_body_ok:
  assumes "run_body env fl fs = (Some (out, err, None), fs1)"
  shows "\<exists>spec r raw. loadSpec env fs (flag_string fl ''spec'') = Inr spec \<and>
     flag_string fl ''platform'' = ''windows_x64'' \<and>
     RunWindows (fl_Wide (be_Flags env)) (be_JSON env) (be_Sha env) (runner_env.truncate (be_Machine env))
       (flag_duration fl ''timeout'') spec (run_config fl) fs = (Some (r, None), fs1) \<and>
     be_ResultJSON env r = Inr raw \<and> out = raw @ [newline]"
  using assms by (auto simp: run_body_def fails_def split: sum.splits if_splits prod.splits option.splits)

lemma loadSpec_ok:
  assumes "loadSpec env fs path = Inr spec"
  shows "\<exists>raw. fs path = Some raw \<and> be_DecodeSpec env raw = Inr spec \<and> cli_Validate spec = None"
  using assms by (auto simp: loadSpec_def cli_Load_def readFile_def split: if_splits sum.splits option.splits)

text \<open>What the worker did to complete a job.\<close>

lemma runClaimed_ok:
  assumes "runClaimed cfg w job profile fs m = (Some (res, None), fs1, m1)"
  shows "\<exists>sp injd art spec output. job_paths cfg job = (sp, injd, art) \<and>
     buildSpecJSON (ww_JSON w) profile = Some (Inr spec) \<and>
     ww_Exec w (wc_Timeout cfg)
       \<lparr> cmd_Binary = wc_BuilderBinary cfg, cmd_Args = worker_args cfg job sp injd art \<rparr> (fs(sp \<mapsto> spec)) =
       ((output, None), fs1) \<and>
     record_build w job output None m = ((res, None), m1)"
  using assms record_build_success
  by (fastforce simp: runClaimed_def Let_def split: option.splits sum.splits prod.splits)

lemma RunOnce_ok:
  assumes "RunOnce cfg w fs m = (Some (res, None), fs1, m1)"
  shows "\<exists>job m2 profile. ClaimNextBuildJob (wc_RunnerName cfg) (ww_Clock w 0) m = (Inr job, m2) \<and>
     FindBuildProfileByID (bj_ProfileID job) m2 = Inr profile \<and>
     runClaimed cfg w job profile fs m2 = (Some (res, None), fs1, m1)"
  using assms by (auto simp: RunOnce_def split: prod.splits sum.splits if_splits)

lemma RunWindows_dry:
  assumes "RunWindows wide js sha env ctx spec cfg fs = (Some (r, None), fs')" "wn_DryRun cfg"
  shows "pf_WindowsX64 (sp_Platforms spec) \<and> res_Artifacts r = []"
  using RunWindows_ok [OF assms(1)] assms(2) by (auto simp: build_and_collect_def zero_result_def)

lemma or_blank_simps [simp]: "TrimSpace (or_blank s) = [] \<longleftrightarrow> TrimSpace s = []"
  by (simp add: or_blank_def)

lemma or_blank_id: "TrimSpace s \<noteq> [] \<Longrightarrow> or_blank s = s"
  by (simp add: or_blank_def)

lemma exec_truncate [simp]: "re_Exec (runner_env.truncate env) = re_Exec env"
  by (simp add: runner_env.truncate_def)

text \<open>The builder, called by the worker: the command that ran.\<close>

lemma exec_builder_run:
  assumes "exec_builder env t \<lparr> cmd_Binary = b, cmd_Args = worker_args cfg job sp injd art \<rparr> fs = ((outp, None), fs1)"
    and "fl_ParseDuration (be_Flags env) (DurationString (wc_Timeout cfg)) = Some (wc_Timeout cfg)"
  shows "\<exists>err. run_body env (worker_flags cfg job sp injd art) fs = (Some (cr_Stdout outp, err, None), fs1)"
proof -
  let ?args = "worker_args cfg job sp injd art"
  have "builder_main env (''run'' # tl ?args) fs = ((outp, 0), fs1)"
    using exec_builder_ok [OF assms(1)] worker_args_parse(1) [OF assms(2)] by (metis Command.select_convs(2))
  then obtain err where "cmd_run env (tl ?args) fs = (Some (cr_Stdout outp, err, None), fs1)"
    using builder_main_run by blast
  then show ?thesis
    unfolding cmd_run_def with_flags_def worker_args_parse(2) [OF assms(2)] by auto
qed


definition wit_builder_answer :: runnerResult where
  "wit_builder_answer =
     \<lparr> rres_BuildLog = ''w/job-102/artifacts/windows-runner.log'',
       rres_Artifacts = [\<lparr> ra_Path = ''w/job-102/artifacts/x'', ra_SHA256 = hex_encode ''A'', ra_Bytes = 1 \<rparr>,
                         \<lparr> ra_Path = ''w/job-102/artifacts/x'', ra_SHA256 = hex_encode ''B'', ra_Bytes = 2 \<rparr>] \<rparr>"

definition wit_builder :: builder_env where
  "wit_builder =
     \<lparr> be_Machine =
         \<lparr> fe_Mkdir = fe_Mkdir wit_env, fe_Write = fe_Write wit_env, re_Read = re_Read wit_env,
           re_NoFile = re_NoFile wit_env, re_Stat = re_Stat wit_env, re_Glob = re_Glob wit_env,
           re_Exec = re_Exec wit_env, pe_LookPath = \<lambda>n. None, pe_Cwd = Inr ''/'', pe_Home = None,
           pe_Getenv = \<lambda>n. [], pe_Environ = [], pe_Windows = False, pe_Probe = \<lambda>t l p a e. ([], None) \<rparr>,
       be_Flags = \<lparr> fl_ParseDuration = \<lambda>s. if s = DurationString 5 then Some 5 else None, fl_Wide = \<lambda>s. ([], 1) \<rparr>,
       be_JSON = wit_json, be_Sha = take 1, be_DecodeSpec = \<lambda>s. Inr wit_cli_spec, be_ManifestJSON = \<lambda>m. Inl [],
       be_ReportJSON = \<lambda>r. Inl [],
       be_ResultJSON = \<lambda>r. if as_runner r = wit_builder_answer then Inr ''{}'' else Inl ''json'',
       be_Usage = \<lambda>n. [], be_Panic = [] \<rparr>"

definition wit_build_world :: "string worker_world" where
  "wit_build_world = wit_world
     \<lparr> ww_JSON := (ww_JSON wit_world)\<lparr> wj_RunnerResult :=
         \<lambda>s. if s = ''{}'' @ [newline] then Inr wit_builder_answer else Inl ''json'' \<rparr>,
       ww_Exec := exec_builder wit_builder \<rparr>"

definition wit_build_worker :: WorkerConfig where
  "wit_build_worker =
     \<lparr> wc_RunnerName = ''r'', wc_BuilderBinary = ''b'', wc_WorkDir = ''w'', wc_SourceDir = ''/s'', wc_BuildCommand = ''b'',
       wc_ArtifactGlob = ''*'', wc_DryRun = False, wc_Timeout = 5 \<rparr>"


section \<open>Doctor\<close>

definition doctor_config :: "WorkerConfig \<Rightarrow> WindowsConfig" where
  "doctor_config cfg =
     \<lparr> wn_SourceDir = wc_SourceDir cfg, wn_InjectionDir = [], wn_ArtifactDir = [],
       wn_BuildCommand = or_blank (wc_BuildCommand cfg), wn_ArtifactGlob = or_blank (wc_ArtifactGlob cfg),
       wn_DryRun = wc_DryRun cfg, wn_ToolSearchRoots = [] \<rparr>"

definition as_doctor :: "PreflightReport \<Rightarrow> DoctorResult" where
  "as_doctor r =
     \<lparr> dr_Platform = pr_Platform r, dr_SourceDir = pr_SourceDir r, dr_Ready = pr_Ready r,
       dr_Checks = map (\<lambda>c. \<lparr> dc_Name = pc_Name c, dc_Required = pc_Required c, dc_Status = pc_Status c,
                              dc_Detail = pc_Detail c, dc_Path = pc_Path c \<rparr>) (pr_Checks r) \<rparr>"

lemma doctor_flags_at:
  "doctor_flags ''platform'' = Some (VString ''windows_x64'')" "doctor_flags ''source'' = Some (VString [])"
  "doctor_flags ''build-command'' = Some (VString [])" "doctor_flags ''artifact-glob'' = Some (VString [])"
  "doctor_flags ''dry-run'' = Some (VBool False)" "doctor_flags ''timeout'' = Some (VDuration (30 * Second))"
  by (simp_all add: doctor_flags_def)

definition worker_doctor_flags :: "WorkerConfig \<Rightarrow> flags" where
  "worker_doctor_flags cfg =
     optional_flags cfg
       (doctor_flags(''platform'' \<mapsto> VString ''windows_x64'', ''source'' \<mapsto> VString (wc_SourceDir cfg),
                     ''timeout'' \<mapsto> VDuration (wc_Timeout cfg)))"

lemma doctorArgs_parse:
  assumes "fl_ParseDuration env (DurationString (wc_Timeout cfg)) = Some (wc_Timeout cfg)"
  shows "parse_flags env doctor_flags (tl (doctorArgs cfg)) = Inr (worker_doctor_flags cfg)"
proof -
  let ?f1 = "doctor_flags(''platform'' \<mapsto> VString ''windows_x64'')"
  let ?f2 = "?f1(''source'' \<mapsto> VString (wc_SourceDir cfg))"
  let ?f3 = "?f2(''timeout'' \<mapsto> VDuration (wc_Timeout cfg))"
  have f: "?f1 ''source'' = Some (VString [])" "?f2 ''timeout'' = Some (VDuration (30 * Second))"
    "?f3 ''dry-run'' = Some (VBool False)" "?f3 ''build-command'' = Some (VString [])"
    "?f3 ''artifact-glob'' = Some (VString [])"
    by (simp_all add: doctor_flags_at)
  note steps = parse_string [where fl = doctor_flags, OF flag_keys(1) doctor_flags_at(1)]
    parse_string [where fl = ?f1, OF flag_keys(3) f(1)]
    parse_duration [where fl = ?f2, OF flag_keys(9) f(2) assms]
    parse_optional [where fl = ?f3 and rest = "[]", OF f(3-5), unfolded append_Nil2]
  show ?thesis
    unfolding doctorArgs_def append_Cons append_Nil list.sel steps worker_doctor_flags_def
    by (simp only: parse_flags.simps)
qed

lemma worker_doctor_flags_at:
  "flag_string (worker_doctor_flags cfg) ''platform'' = ''windows_x64''"
  "flag_string (worker_doctor_flags cfg) ''source'' = wc_SourceDir cfg"
  "flag_string (worker_doctor_flags cfg) ''build-command'' = or_blank (wc_BuildCommand cfg)"
  "flag_string (worker_doctor_flags cfg) ''artifact-glob'' = or_blank (wc_ArtifactGlob cfg)"
  "flag_bool (worker_doctor_flags cfg) ''dry-run'' = wc_DryRun cfg"
  "flag_duration (worker_doctor_flags cfg) ''timeout'' = wc_Timeout cfg"
  by (simp_all add: worker_doctor_flags_def optional_flags_def flag_string_def flag_bool_def flag_duration_def)

lemma cmd_doctor_worker:
  assumes "fl_ParseDuration (be_Flags env) (DurationString (wc_Timeout cfg)) = Some (wc_Timeout cfg)"
    and "be_ReportJSON env (CheckWindows (be_Machine env) fs (wc_Timeout cfg) (doctor_config cfg)) = Inr raw"
  shows "\<exists>e. cmd_doctor env (tl (doctorArgs cfg)) fs = (Some (raw @ [newline], [], e), fs)"
  using assms(2) unfolding cmd_doctor_def with_flags_def doctorArgs_parse [OF assms(1)] sum.case worker_doctor_flags_at
    doctor_config_def by simp

text \<open>
  The doctor of the worker answers what the builder finds on the machine. With the builder
  program as the binary, a duration that reads back as written and a report that is read as it was
  written, the answer is the inspection of the worker's own configuration, ready or not: an inspection that
  ends with exit code 1 because the machine is not ready is an answer, not an error, and no file changes.
\<close>

lemma doctor_reports_machine:
  assumes "ww_Exec w = exec_builder env"
    and "fl_ParseDuration (be_Flags env) (DurationString (wc_Timeout cfg)) = Some (wc_Timeout cfg)"
    and "be_ReportJSON env (CheckWindows (be_Machine env) fs (wc_Timeout cfg) (doctor_config cfg)) = Inr raw"
    and "wj_Doctor (ww_JSON w) (raw @ [newline]) =
      Inr (as_doctor (CheckWindows (be_Machine env) fs (wc_Timeout cfg) (doctor_config cfg)))"
  shows "Doctor cfg w fs = (Inr (as_doctor (CheckWindows (be_Machine env) fs (wc_Timeout cfg) (doctor_config cfg))), fs)"
proof -
  have args: "doctorArgs cfg = ''doctor'' # tl (doctorArgs cfg)" by (simp add: doctorArgs_def)
  obtain e where e: "cmd_doctor env (tl (doctorArgs cfg)) fs = (Some (raw @ [newline], [], e), fs)"
    using cmd_doctor_worker [OF assms(2,3)] by blast
  have "\<exists>err code. builder_main env (''doctor'' # tl (doctorArgs cfg)) fs =
      ((\<lparr> cr_Stdout = raw @ [newline], cr_Stderr = err \<rparr>, code), fs)"
    using e unfolding builder_main_def Let_def by (cases e) simp_all
  then obtain err code where "builder_main env (doctorArgs cfg) fs =
      ((\<lparr> cr_Stdout = raw @ [newline], cr_Stderr = err \<rparr>, code), fs)"
    using args by metis
  then show ?thesis
    using assms(4) by (simp add: Doctor_def assms(1) exec_builder_def parseDoctorResult_def)
qed

lemma doctor_reports_machine_witness:
  "\<exists>d. Doctor wit_build_worker
      (wit_build_world\<lparr> ww_JSON := (ww_JSON wit_build_world)\<lparr> wj_Doctor :=
          \<lambda>s. Inr (as_doctor (CheckWindows (be_Machine wit_builder) Map.empty 5 (doctor_config wit_build_worker))) \<rparr>,
         ww_Exec := exec_builder (wit_builder\<lparr> be_ReportJSON := \<lambda>r. Inr ''{}'' \<rparr>) \<rparr>) Map.empty = (Inr d, Map.empty) \<and>
     \<not> dr_Ready d"
proof -
  let ?w = "wit_build_world\<lparr> ww_JSON := (ww_JSON wit_build_world)\<lparr> wj_Doctor :=
          \<lambda>s. Inr (as_doctor (CheckWindows (be_Machine wit_builder) Map.empty 5 (doctor_config wit_build_worker))) \<rparr>,
         ww_Exec := exec_builder (wit_builder\<lparr> be_ReportJSON := \<lambda>r. Inr ''{}'' \<rparr>) \<rparr>"
  let ?env = "wit_builder\<lparr> be_ReportJSON := \<lambda>r. Inr ''{}'' \<rparr>"
  have h: "ww_Exec ?w = exec_builder ?env"
    "fl_ParseDuration (be_Flags ?env) (DurationString (wc_Timeout wit_build_worker)) = Some (wc_Timeout wit_build_worker)"
    "be_ReportJSON ?env (CheckWindows (be_Machine ?env) Map.empty (wc_Timeout wit_build_worker)
        (doctor_config wit_build_worker)) = Inr ''{}''"
    "wj_Doctor (ww_JSON ?w) (''{}'' @ [newline]) = Inr (as_doctor (CheckWindows (be_Machine ?env) Map.empty
        (wc_Timeout wit_build_worker) (doctor_config wit_build_worker)))"
    by (simp_all add: wit_builder_def wit_build_worker_def)
  have "\<not> pr_Ready (CheckWindows (be_Machine ?env) Map.empty (wc_Timeout wit_build_worker) (doctor_config wit_build_worker))"
    unfolding CheckWindows_def Let_def foldl_add_check
    by (simp add: doctor_config_def wit_build_worker_def wit_builder_def wit_env_def source_check_def TrimSpace_def)
  then show ?thesis using doctor_reports_machine [OF h] by (simp add: as_doctor_def)
qed

end
