(* ===== verification/Mysql_Core.thy ===== *)
theory Mysql_Core
  imports Memory_Logs
begin

text \<open>
  The tables behind the MySQL repository (\<^verbatim>\<open>api/internal/repository/mysql.go\<close>, schema in
  \<^verbatim>\<open>api/migrations\<close>) and the statements its methods are made of. A table is the list of
  its rows and its \<^verbatim>\<open>AUTO_INCREMENT\<close> counter; a column that may be NULL is an option. A
  statement is atomic; a method that runs in a transaction gives back the tables it started
  with when it returns an error.

  What the server and the codecs do with values is an argument of the model, \<open>sql_env\<close>.
\<close>

section \<open>The server\<close>

text \<open>
  \<open>se_weight\<close> is the weight string of the collation (\<^verbatim>\<open>WEIGHT_STRING\<close>): strings compare as
  their weights do. \<open>se_chars\<close> counts characters, \<open>se_time\<close> is what a \<^verbatim>\<open>TIMESTAMP\<close> column
  holds of a time (nothing when it is out of range), \<open>se_moment\<close> what a time argument of a
  comparison is read as, \<open>se_json\<close> the text a \<^verbatim>\<open>JSON\<close> column gives back (nothing for invalid
  JSON), \<open>se_tie\<close> the order of rows a query leaves open, \<open>se_found_rows\<close> whether the
  connection has \<^verbatim>\<open>clientFoundRows\<close>, \<open>se_error\<close> the message of an error number. The last
  four are \<^verbatim>\<open>json.Marshal\<close> and \<^verbatim>\<open>json.Unmarshal\<close> at a list of strings and at metadata.
\<close>

record sql_env =
  se_weight :: "string \<Rightarrow> string"
  se_chars :: "string \<Rightarrow> int"
  se_time :: "gotime \<Rightarrow> gotime option"
  se_moment :: "gotime \<Rightarrow> gotime"
  se_json :: "string \<Rightarrow> string option"
  se_tie :: "int \<Rightarrow> int"
  se_found_rows :: bool
  se_error :: "nat \<Rightarrow> string"
  se_strings :: "string list \<Rightarrow> string"
  se_strings_of :: "string \<Rightarrow> repo_error + string list"
  se_object :: "(string \<times> any) list \<Rightarrow> repo_error + string"
  se_object_of :: "string \<Rightarrow> repo_error + metadata"

definition ci_eq :: "sql_env \<Rightarrow> string \<Rightarrow> string \<Rightarrow> bool" where
  "ci_eq env a b \<longleftrightarrow> se_weight env a = se_weight env b"

text \<open>
  What a column holds of a value the statement gives it. An \<^verbatim>\<open>ENUM\<close> holds the member that
  equals the value under the collation; the server refuses a table two of whose members are
  equal, so a value that is a member is that member.
\<close>

definition enum_val :: "sql_env \<Rightarrow> string list \<Rightarrow> string \<Rightarrow> string option" where
  "enum_val env vals v = (if v \<in> set vals then Some v else find (\<lambda>w. ci_eq env w v) vals)"

definition enum_col :: "sql_env \<Rightarrow> string list \<Rightarrow> string \<Rightarrow> string" where
  "enum_col env vals v = (case enum_val env vals v of Some w \<Rightarrow> w | None \<Rightarrow> v)"

definition time_col :: "sql_env \<Rightarrow> gotime \<Rightarrow> gotime" where
  "time_col env t = (case se_time env t of Some u \<Rightarrow> u | None \<Rightarrow> t)"

definition json_col :: "sql_env \<Rightarrow> string \<Rightarrow> string" where
  "json_col env s = (case se_json env s of Some j \<Rightarrow> j | None \<Rightarrow> s)"

definition char_col :: "string \<Rightarrow> string" where
  "char_col s = rev (dropWhile (\<lambda>c. c = CHR '' '') (rev s))"

section \<open>Constraints\<close>

text \<open>
  A constraint is the number of its error and whether it holds. Which of several violated
  constraints the server names is open; the model takes the first of the list.
\<close>

type_synonym sql_check = "nat \<times> bool"

definition refused :: "sql_env \<Rightarrow> sql_check list \<Rightarrow> repo_error option" where
  "refused env cs =
     (case find (\<lambda>(n, ok). \<not> ok) cs of
        None \<Rightarrow> None
      | Some (n, ok) \<Rightarrow> Some (ErrMsg (se_error env n)))"

definition opt_ok :: "('a \<Rightarrow> bool) \<Rightarrow> 'a option \<Rightarrow> bool" where
  "opt_ok P v = (case v of None \<Rightarrow> True | Some x \<Rightarrow> P x)"

definition varchar :: "sql_env \<Rightarrow> int \<Rightarrow> string \<Rightarrow> sql_check" where
  "varchar env n s = (1406, se_chars env s \<le> n)"

definition varchar_null :: "sql_env \<Rightarrow> int \<Rightarrow> string option \<Rightarrow> sql_check" where
  "varchar_null env n v = (1406, opt_ok (\<lambda>s. se_chars env s \<le> n) v)"

definition text_null :: "string option \<Rightarrow> sql_check" where
  "text_null v = (1406, opt_ok (\<lambda>s. int (length s) \<le> 65535) v)"

definition enum_in :: "sql_env \<Rightarrow> string list \<Rightarrow> string \<Rightarrow> sql_check" where
  "enum_in env vals v = (1265, enum_val env vals v \<noteq> None)"

definition timestamp :: "sql_env \<Rightarrow> gotime \<Rightarrow> sql_check" where
  "timestamp env t = (1292, se_time env t \<noteq> None)"

definition timestamp_null :: "sql_env \<Rightarrow> gotime option \<Rightarrow> sql_check" where
  "timestamp_null env v = (1292, opt_ok (\<lambda>t. se_time env t \<noteq> None) v)"

definition json_text :: "sql_env \<Rightarrow> string \<Rightarrow> sql_check" where
  "json_text env s = (3140, se_json env s \<noteq> None)"

definition int32 :: "int \<Rightarrow> sql_check" where
  "int32 n = (1264, - (2 ^ 31) \<le> n \<and> n < 2 ^ 31)"

definition references :: "int \<Rightarrow> int list \<Rightarrow> sql_check" where
  "references i ids = (1452, i \<in> set ids)"

definition references_null :: "int option \<Rightarrow> int list \<Rightarrow> sql_check" where
  "references_null v ids = (1452, opt_ok (\<lambda>i. i \<in> set ids) v)"

definition unique_but :: "sql_env \<Rightarrow> ('r \<Rightarrow> string) \<Rightarrow> string \<Rightarrow> ('r \<Rightarrow> bool) \<Rightarrow> 'r list \<Rightarrow> sql_check" where
  "unique_but env col v same rows = (1062, \<not> list_ex (\<lambda>r. \<not> same r \<and> ci_eq env (col r) v) rows)"

abbreviation unique_in :: "sql_env \<Rightarrow> ('r \<Rightarrow> string) \<Rightarrow> string \<Rightarrow> 'r list \<Rightarrow> sql_check" where
  "unique_in env col v rows \<equiv> unique_but env col v (\<lambda>_. False) rows"

lemmas check_defs = varchar_def varchar_null_def text_null_def enum_in_def timestamp_def timestamp_null_def
  json_text_def int32_def references_def references_null_def unique_but_def

lemma refused_None: "refused env cs = None \<longleftrightarrow> list_all snd cs"
  by (induction cs) (auto simp: refused_def split: option.splits)

section \<open>Tables and statements\<close>

record 'r sql_table =
  rows :: "'r list"
  next_id :: int

definition auto_id :: "('r \<Rightarrow> int) \<Rightarrow> 'r sql_table \<Rightarrow> int" where
  "auto_id key t = foldr (\<lambda>r i. max (key r + 1) i) (rows t) (max 1 (next_id t))"

lemma auto_id_fresh: "r \<in> set (rows t) \<Longrightarrow> key r < auto_id key t"
proof -
  have "r \<in> set rs \<Longrightarrow> key r < foldr (\<lambda>r i. max (key r + 1) i) rs n" for rs and n :: int
    by (induction rs) auto
  then show "r \<in> set (rows t) \<Longrightarrow> key r < auto_id key t" by (simp add: auto_id_def)
qed

lemma auto_id_pos: "0 < auto_id key t"
proof -
  have "0 < n \<Longrightarrow> 0 < foldr (\<lambda>r i. max (key r + 1) i) rs n" for rs and n :: int
    by (induction rs) auto
  then show ?thesis by (simp add: auto_id_def)
qed

text \<open>\<^verbatim>\<open>INSERT\<close>: the row with the next identifier, which \<^verbatim>\<open>LastInsertId\<close> tells.\<close>

definition sql_insert ::
    "sql_env \<Rightarrow> ('r \<Rightarrow> int) \<Rightarrow> sql_check list \<Rightarrow> (int \<Rightarrow> 'r) \<Rightarrow> 'r sql_table \<Rightarrow>
       (repo_error + int) \<times> 'r sql_table" where
  "sql_insert env key cs mk t =
     (case refused env cs of
        Some e \<Rightarrow> (Inl e, t)
      | None \<Rightarrow> let i = auto_id key t
                in (Inr i, t\<lparr> rows := rows t @ [mk i], next_id := i + 1 \<rparr>))"

text \<open>
  \<^verbatim>\<open>UPDATE\<close>: constraints are checked when a row matches; \<^verbatim>\<open>RowsAffected\<close> is the number of rows
  that change, or with \<^verbatim>\<open>clientFoundRows\<close> of rows that match.
\<close>

definition sql_update ::
    "sql_env \<Rightarrow> sql_check list \<Rightarrow> ('r \<Rightarrow> bool) \<Rightarrow> ('r \<Rightarrow> 'r) \<Rightarrow> 'r sql_table \<Rightarrow>
       (repo_error + nat) \<times> 'r sql_table" where
  "sql_update env cs P f t =
     (if \<not> list_ex P (rows t) then (Inr 0, t)
      else (case refused env cs of
              Some e \<Rightarrow> (Inl e, t)
            | None \<Rightarrow> (Inr (length (filter (\<lambda>r. P r \<and> (se_found_rows env \<or> f r \<noteq> r)) (rows t))),
                       t\<lparr> rows := map (\<lambda>r. if P r then f r else r) (rows t) \<rparr>)))"

definition sql_delete ::
    "sql_env \<Rightarrow> sql_check list \<Rightarrow> ('r \<Rightarrow> bool) \<Rightarrow> 'r sql_table \<Rightarrow>
       (repo_error + nat) \<times> 'r sql_table" where
  "sql_delete env cs P t =
     (if \<not> list_ex P (rows t) then (Inr 0, t)
      else (case refused env cs of
              Some e \<Rightarrow> (Inl e, t)
            | None \<Rightarrow> (Inr (length (filter P (rows t))), t\<lparr> rows := filter (\<lambda>r. \<not> P r) (rows t) \<rparr>)))"

text \<open>\<^verbatim>\<open>SELECT ... WHERE id = ?\<close> with \<^verbatim>\<open>QueryRowContext\<close>: the row, or \<^verbatim>\<open>sql.ErrNoRows\<close> as \<^verbatim>\<open>ErrNotFound\<close>.\<close>

definition query_row :: "('r \<Rightarrow> bool) \<Rightarrow> ('r \<Rightarrow> repo_error + 'a) \<Rightarrow> 'r sql_table \<Rightarrow> repo_error + 'a" where
  "query_row P scan t = (case find P (rows t) of Some r \<Rightarrow> scan r | None \<Rightarrow> Inl ErrNotFound)"

text \<open>The loop \<^verbatim>\<open>for rows.Next() { scan; append }\<close>: the first row that cannot be read ends it.\<close>

fun scan_all :: "('r \<Rightarrow> repo_error + 'a) \<Rightarrow> 'r list \<Rightarrow> repo_error + 'a list" where
  "scan_all scan [] = Inr []"
| "scan_all scan (r # rs) =
     (case scan r of
        Inl e \<Rightarrow> Inl e
      | Inr x \<Rightarrow> (case scan_all scan rs of Inl e \<Rightarrow> Inl e | Inr xs \<Rightarrow> Inr (x # xs)))"

definition newest_first :: "('r \<Rightarrow> int) \<Rightarrow> 'r list \<Rightarrow> 'r list" where
  "newest_first key rs = rev (sort_key key rs)"

text \<open>\<^verbatim>\<open>ORDER BY at DESC LIMIT ? OFFSET ?\<close>\<close>

definition sql_page :: "int \<Rightarrow> int \<Rightarrow> 'r list \<Rightarrow> 'r list" where
  "sql_page offset limit rs =
     take (nat (effectiveLimit limit)) (drop (nat (effectiveOffset offset)) rs)"

definition sql_between :: "sql_env \<Rightarrow> gotime \<Rightarrow> gotime option \<Rightarrow> gotime option \<Rightarrow> bool" where
  "sql_between env t lo hi \<longleftrightarrow>
     opt_ok (\<lambda>u. se_moment env u \<le> t) lo \<and> opt_ok (\<lambda>u. t \<le> se_moment env u) hi"

definition sql_filter :: "sql_env \<Rightarrow> string \<Rightarrow> string \<Rightarrow> bool" where
  "sql_filter env want col \<longleftrightarrow> want = [] \<or> ci_eq env col want"

section \<open>The pattern of the methods\<close>

text \<open>\<^verbatim>\<open>ExecContext\<close> of an insert, \<^verbatim>\<open>LastInsertId\<close>, and the row read back.\<close>

definition insert_find ::
    "(repo_error + int) \<times> 't \<Rightarrow> ('t \<Rightarrow> 'db) \<Rightarrow> (int \<Rightarrow> 'db \<Rightarrow> repo_error + 'a) \<Rightarrow> 'db \<Rightarrow>
       (repo_error + 'a) \<times> 'db" where
  "insert_find q put fnd db =
     (case q of
        (Inl e, t) \<Rightarrow> (Inl e, db)
      | (Inr i, t) \<Rightarrow> (fnd i (put t), put t))"

text \<open>\<^verbatim>\<open>ExecContext\<close> of an update, \<^verbatim>\<open>RowsAffected\<close>, \<^verbatim>\<open>ErrNotFound\<close> for none, and the row read back.\<close>

definition update_find ::
    "(repo_error + nat) \<times> 't \<Rightarrow> ('t \<Rightarrow> 'db) \<Rightarrow> ('db \<Rightarrow> repo_error + 'a) \<Rightarrow> 'db \<Rightarrow>
       (repo_error + 'a) \<times> 'db" where
  "update_find q put fnd db =
     (case q of
        (Inl e, t) \<Rightarrow> (Inl e, db)
      | (Inr n, t) \<Rightarrow> if n = 0 then (Inl ErrNotFound, put t) else (fnd (put t), put t))"

section \<open>NULL\<close>

definition nullString :: "string \<Rightarrow> string option" where
  "nullString v = (if TrimSpace v = [] then None else Some v)"

definition nullStringPointer :: "string option \<Rightarrow> string option" where
  "nullStringPointer v = (case v of None \<Rightarrow> None | Some s \<Rightarrow> nullString s)"

definition nullInt64 :: "int option \<Rightarrow> int option" where
  "nullInt64 v = (case v of None \<Rightarrow> None | Some n \<Rightarrow> Some n)"

definition nullIntPointer :: "int option \<Rightarrow> int option" where
  "nullIntPointer v = (case v of None \<Rightarrow> None | Some n \<Rightarrow> Some n)"

definition nullTime :: "gotime option \<Rightarrow> gotime option" where
  "nullTime v = (case v of None \<Rightarrow> None | Some t \<Rightarrow> Some t)"

definition nullablePositiveInt64 :: "int \<Rightarrow> int option" where
  "nullablePositiveInt64 n = (if n \<le> 0 then None else Some n)"

definition int64FromNull :: "int option \<Rightarrow> int option" where
  "int64FromNull v = (case v of None \<Rightarrow> None | Some n \<Rightarrow> Some n)"

definition timeFromNull :: "gotime option \<Rightarrow> gotime option" where
  "timeFromNull v = (case v of None \<Rightarrow> None | Some t \<Rightarrow> Some t)"

text \<open>The field \<^verbatim>\<open>String\<close> of a \<^verbatim>\<open>sql.NullString\<close>.\<close>

definition string_of :: "string option \<Rightarrow> string" where
  "string_of v = (case v of None \<Rightarrow> [] | Some s \<Rightarrow> s)"

definition parseJSONObject :: "sql_env \<Rightarrow> string option \<Rightarrow> repo_error + metadata" where
  "parseJSONObject env v =
     (case v of
        None \<Rightarrow> Inr (Some [])
      | Some s \<Rightarrow> if TrimSpace s = [] then Inr (Some [])
          else (case se_object_of env s of
                  Inl e \<Rightarrow> Inl e
                | Inr None \<Rightarrow> Inr (Some [])
                | Inr (Some kvs) \<Rightarrow> Inr (Some kvs)))"

definition normalizeEmail :: "string \<Rightarrow> string" where
  "normalizeEmail email = ToLower (TrimSpace email)"

definition usernameFromEmail :: "string \<Rightarrow> string" where
  "usernameFromEmail email =
     (let username = fst (Cut CHR ''@'' email)
      in if TrimSpace username = [] then ''admin'' else TrimSpace username)"

lemma null_ids [simp]:
  "nullInt64 v = v" "nullIntPointer v = v" "nullTime v = v" "int64FromNull v = v" "timeFromNull v = v"
  by (simp_all add: nullInt64_def nullIntPointer_def nullTime_def int64FromNull_def timeFromNull_def
      split: option.split)

section \<open>Facts about the statements\<close>

lemma sql_insert_InrD:
  "sql_insert env key cs mk t = (Inr i, t') \<Longrightarrow>
     i = auto_id key t \<and> rows t' = rows t @ [mk i] \<and> list_all snd cs"
  by (auto simp: sql_insert_def Let_def refused_None split: option.splits)

lemma sql_insert_InlD: "sql_insert env key cs mk t = (Inl e, t') \<Longrightarrow> t' = t"
  by (auto simp: sql_insert_def Let_def split: option.splits)

lemma sql_update_zero: "sql_update env cs P f t = (Inr 0, t') \<Longrightarrow> t' = t"
proof -
  have "filter (\<lambda>r. P r \<and> (b \<or> f r \<noteq> r)) rs = [] \<Longrightarrow> map (\<lambda>r. if P r then f r else r) rs = rs" for b rs
    by (induction rs) (auto split: if_splits)
  then show "sql_update env cs P f t = (Inr 0, t') \<Longrightarrow> t' = t"
    by (auto simp: sql_update_def split: if_splits option.splits)
qed

lemma sql_update_rows:
  "sql_update env cs P f t = (Inr n, t') \<Longrightarrow>
     rows t' = map (\<lambda>r. if P r then f r else r) (rows t) \<and> next_id t' = next_id t"
proof -
  have "\<not> list_ex P rs \<Longrightarrow> map (\<lambda>r. if P r then f r else r) rs = rs" for rs
    by (induction rs) auto
  then show "sql_update env cs P f t = (Inr n, t') \<Longrightarrow> rows t' = map (\<lambda>r. if P r then f r else r) (rows t) \<and> next_id t' = next_id t"
    by (auto simp: sql_update_def split: if_splits option.splits)
qed

lemma sql_update_some:
  "sql_update env cs P f t = (Inr n, t') \<Longrightarrow> n \<noteq> 0 \<Longrightarrow> \<exists>r \<in> set (rows t). P r"
  by (auto simp: sql_update_def list_ex_iff filter_empty_conv split: if_splits option.splits)

lemma sql_update_InlD: "sql_update env cs P f t = (Inl e, t') \<Longrightarrow> t' = t"
  by (auto simp: sql_update_def split: if_splits option.splits)

lemma insert_find_cases:
  assumes "insert_find (sql_insert env key cs mk t) put fnd db = (r, db')"
  obtains (refused) e where "refused env cs = Some e" "r = Inl e" "db' = db"
  | (inserted) "list_all snd cs"
      "db' = put (t\<lparr> rows := rows t @ [mk (auto_id key t)], next_id := auto_id key t + 1 \<rparr>)"
      "r = fnd (auto_id key t) db'"
  using assms by (auto simp: insert_find_def sql_insert_def Let_def refused_None split: option.splits)

lemma update_find_cases:
  assumes "update_find (sql_update env cs P f t) put fnd db = (r, db')"
  obtains (refused) e where "refused env cs = Some e" "r = Inl e" "db' = db"
  | (unchanged) "r = Inl ErrNotFound" "db' = put t"
      "\<And>x. x \<in> set (rows t) \<Longrightarrow> P x \<Longrightarrow> \<not> se_found_rows env \<and> f x = x"
  | (updated) "db' = put (t\<lparr> rows := map (\<lambda>x. if P x then f x else x) (rows t) \<rparr>)"
      "r = fnd db'" "\<exists>x \<in> set (rows t). P x" "list_all snd cs"
proof (cases "fst (sql_update env cs P f t)")
  case (Inl e)
  then show ?thesis using assms refused [of e]
    by (auto simp: update_find_def sql_update_def split: if_splits option.splits)
next
  case (Inr n)
  then obtain t' where u: "sql_update env cs P f t = (Inr n, t')" by (metis prod.collapse)
  show ?thesis
  proof (cases "n = 0")
    case True
    have "\<not> se_found_rows env \<and> f x = x" if "x \<in> set (rows t)" "P x" for x
      using u that by (auto simp: sql_update_def True list_ex_iff filter_empty_conv split: if_splits option.splits)
    then show ?thesis using sql_update_zero [of env cs P f t t'] u True assms unchanged
      by (auto simp: update_find_def)
  next
    case False
    then have "list_ex P (rows t)" "t' = t\<lparr> rows := map (\<lambda>x. if P x then f x else x) (rows t) \<rparr>" "refused env cs = None"
      using u by (auto simp: sql_update_def split: if_splits option.splits)
    then show ?thesis using updated assms u False
      by (auto simp: update_find_def refused_None list_ex_iff)
  qed
qed

lemma query_fresh:
  "key (mk (auto_id key t)) = auto_id key t \<Longrightarrow>
     query_row (\<lambda>r. key r = auto_id key t) scan (t\<lparr> rows := rows t @ [mk (auto_id key t)], next_id := n \<rparr>)
       = scan (mk (auto_id key t))"
proof -
  assume k: "key (mk (auto_id key t)) = auto_id key t"
  have "find (\<lambda>r. key r = auto_id key t) (rows t) = None"
    using auto_id_fresh [of _ t key] by (fastforce simp: find_None_iff)
  then show ?thesis using k by (simp add: query_row_def find_append)
qed

lemma find_map_if:
  assumes "\<And>r. Q (f r) = Q r"
  shows "find Q (map (\<lambda>r. if P r then f r else r) rs) =
     map_option (\<lambda>r. if P r then f r else r) (find Q rs)"
  using assms by (induction rs) auto

lemma query_row_update:
  assumes "\<And>x. Q (f x) = Q x"
  shows "query_row Q scan (t\<lparr> rows := map (\<lambda>x. if P x then f x else x) (rows t) \<rparr>) =
     query_row Q (\<lambda>x. scan (if P x then f x else x)) t"
  using find_map_if [of Q f P "rows t"] assms by (simp add: query_row_def split: option.split)

lemma query_row_cong:
  "(\<And>x. x \<in> set (rows t) \<Longrightarrow> P x \<Longrightarrow> scan x = scan' x) \<Longrightarrow> query_row P scan t = query_row P scan' t"
  by (auto simp: query_row_def split: option.split dest: find_SomeD)

lemma query_row_InrD: "query_row P scan t = Inr y \<Longrightarrow> \<exists>x \<in> set (rows t). P x \<and> scan x = Inr y"
  by (auto simp: query_row_def split: option.splits dest: find_SomeD)

end
