(* ===== verification/Mysql_Schema.thy ===== *)
theory Mysql_Schema
  imports Mysql_Core
begin

text \<open>
  The schema (\<^verbatim>\<open>api/migrations/*.sql\<close>): one record per table whose columns differ from the
  struct they are read into, and the \<open>scan\<close> functions of \<^verbatim>\<open>mysql.go\<close> that read a row. The
  tables \<open>users\<close>, \<open>api_tokens\<close>, \<open>access_rules\<close>, \<open>control_role_permissions\<close>,
  \<open>strategy_assignments\<close>, \<open>file_transfer_logs\<close> and \<open>build_artifacts\<close> have the columns of their
  structs.
\<close>

section \<open>Rows\<close>

record user_group_row =
  qug_id :: int
  qug_name :: string
  qug_description :: "string option"
  qug_created_at :: gotime
  qug_updated_at :: gotime

record session_row =
  qs_id :: int
  qs_user_id :: int
  qs_token_hash :: string
  qs_ip :: "string option"
  qs_user_agent :: "string option"
  qs_expires_at :: gotime
  qs_created_at :: gotime
  qs_revoked_at :: "gotime option"

record device_row =
  qd_id :: int
  qd_rustdesk_id :: string
  qd_name :: string
  qd_alias :: "string option"
  qd_owner_user_id :: "int option"
  qd_status :: string
  qd_platform :: "string option"
  qd_client_version :: "string option"
  qd_opendesk_client_version :: "string option"
  qd_last_ip :: "string option"
  qd_last_seen_at :: "gotime option"
  qd_registered_at :: "gotime option"
  qd_created_at :: gotime
  qd_updated_at :: gotime

record device_group_row =
  qdg_id :: int
  qdg_name :: string
  qdg_description :: "string option"
  qdg_created_at :: gotime
  qdg_updated_at :: gotime

record address_book_row =
  qab_id :: int
  qab_name :: string
  qab_description :: "string option"
  qab_owner_user_id :: "int option"
  qab_created_at :: gotime
  qab_updated_at :: gotime

record address_book_entry_row =
  qabe_id :: int
  qabe_address_book_id :: int
  qabe_device_id :: int
  qabe_alias :: "string option"
  qabe_created_at :: gotime

record relay_row =
  qr_id :: int
  qr_name :: string
  qr_region :: string
  qr_host :: string
  qr_port :: int
  qr_ws_port :: int
  qr_public_key_fingerprint :: "string option"
  qr_status :: string
  qr_max_bandwidth_mbps :: "int option"
  qr_current_sessions :: int
  qr_last_health_at :: "gotime option"
  qr_created_at :: gotime
  qr_updated_at :: gotime

record relay_grant_row =
  qg_id :: int
  qg_grant_id :: string
  qg_user_id :: "int option"
  qg_controller_device_id :: "int option"
  qg_target_device_id :: "int option"
  qg_target_rustdesk_id :: "string option"
  qg_relay_id :: "int option"
  qg_allowed_relays :: "string option"
  qg_expires_at :: gotime
  qg_nonce :: string
  qg_status :: string
  qg_created_at :: gotime
  qg_used_at :: "gotime option"

record control_role_row =
  qcr_id :: int
  qcr_name :: string
  qcr_description :: "string option"
  qcr_enabled :: bool
  qcr_created_at :: gotime
  qcr_updated_at :: gotime

record strategy_row =
  qst_id :: int
  qst_name :: string
  qst_description :: "string option"
  qst_enabled :: bool
  qst_settings_json :: string
  qst_created_at :: gotime
  qst_updated_at :: gotime

record audit_event_row =
  qae_id :: int
  qae_actor_user_id :: "int option"
  qae_actor_type :: string
  qae_action :: string
  qae_resource_type :: string
  qae_resource_id :: "string option"
  qae_ip :: "string option"
  qae_user_agent :: "string option"
  qae_metadata_json :: "string option"
  qae_created_at :: gotime

record connection_log_row =
  qcl_id :: int
  qcl_session_id :: "int option"
  qcl_controller_user_id :: "int option"
  qcl_controller_device_id :: "int option"
  qcl_target_device_id :: "int option"
  qcl_connection_type :: string
  qcl_relay_id :: "int option"
  qcl_started_at :: gotime
  qcl_ended_at :: "gotime option"
  qcl_status :: string
  qcl_deny_reason :: "string option"
  qcl_metadata_json :: "string option"

record login_log_row =
  qll_id :: int
  qll_user_id :: "int option"
  qll_email :: string
  qll_username :: "string option"
  qll_display_name :: "string option"
  qll_status :: string
  qll_failure_reason :: "string option"
  qll_ip :: "string option"
  qll_user_agent :: "string option"
  qll_created_at :: gotime

record system_setting_row =
  qss_setting_key :: string
  qss_setting_value :: string
  qss_updated_by :: "int option"
  qss_updated_at :: gotime

record build_profile_row =
  qbp_id :: int
  qbp_name :: string
  qbp_app_name :: string
  qbp_vendor :: "string option"
  qbp_bundle_id :: string
  qbp_product_name :: "string option"
  qbp_description :: "string option"
  qbp_server_config_json :: string
  qbp_branding_json :: string
  qbp_policy_json :: string
  qbp_platforms_json :: string
  qbp_signing_json :: string
  qbp_source_json :: "string option"
  qbp_created_by :: int
  qbp_created_at :: gotime
  qbp_updated_at :: gotime

record build_job_row =
  qbj_id :: int
  qbj_profile_id :: int
  qbj_platform :: string
  qbj_status :: string
  qbj_runner :: "string option"
  qbj_log_path :: "string option"
  qbj_error_message :: "string option"
  qbj_created_at :: gotime
  qbj_started_at :: "gotime option"
  qbj_finished_at :: "gotime option"

section \<open>The database\<close>

record MySQL =
  tb_users :: "User sql_table"
  tb_user_groups :: "user_group_row sql_table"
  tb_user_group_members :: "(int \<times> int) list"
  tb_devices :: "device_row sql_table"
  tb_device_groups :: "device_group_row sql_table"
  tb_device_group_members :: "(int \<times> int) list"
  tb_api_tokens :: "APIToken sql_table"
  tb_sessions :: "session_row sql_table"
  tb_relays :: "relay_row sql_table"
  tb_relay_grants :: "relay_grant_row sql_table"
  tb_access_rules :: "AccessRule sql_table"
  tb_control_roles :: "control_role_row sql_table"
  tb_control_role_permissions :: "ControlRolePermission sql_table"
  tb_strategies :: "strategy_row sql_table"
  tb_strategy_assignments :: "StrategyAssignment sql_table"
  tb_audit_events :: "audit_event_row sql_table"
  tb_connection_logs :: "connection_log_row sql_table"
  tb_file_transfer_logs :: "FileTransferLog sql_table"
  tb_build_profiles :: "build_profile_row sql_table"
  tb_build_jobs :: "build_job_row sql_table"
  tb_build_artifacts :: "BuildArtifact sql_table"
  tb_system_settings :: "system_setting_row list"
  tb_address_books :: "address_book_row sql_table"
  tb_address_book_entries :: "address_book_entry_row sql_table"
  tb_login_logs :: "login_log_row sql_table"

type_synonym 'a sql_result = "(repo_error + 'a) \<times> MySQL"

definition no_rows :: "'r sql_table" where
  "no_rows = \<lparr> rows = [], next_id = 1 \<rparr>"

text \<open>The tables right after the migrations.\<close>

definition migrated :: MySQL where
  "migrated =
     \<lparr> tb_users = no_rows, tb_user_groups = no_rows, tb_user_group_members = [],
       tb_devices = no_rows, tb_device_groups = no_rows, tb_device_group_members = [],
       tb_api_tokens = no_rows, tb_sessions = no_rows, tb_relays = no_rows,
       tb_relay_grants = no_rows, tb_access_rules = no_rows, tb_control_roles = no_rows,
       tb_control_role_permissions = no_rows, tb_strategies = no_rows,
       tb_strategy_assignments = no_rows, tb_audit_events = no_rows,
       tb_connection_logs = no_rows, tb_file_transfer_logs = no_rows,
       tb_build_profiles = no_rows, tb_build_jobs = no_rows, tb_build_artifacts = no_rows,
       tb_system_settings = [], tb_address_books = no_rows, tb_address_book_entries = no_rows,
       tb_login_logs = no_rows \<rparr>"

section \<open>Enumerations\<close>

definition user_statuses :: "string list" where
  "user_statuses = [''active'', ''disabled'', ''locked'']"

definition user_sources :: "string list" where
  "user_sources = [''local'', ''oidc'', ''ldap'']"

definition device_statuses :: "string list" where
  "device_statuses = [''online'', ''offline'', ''disabled'']"

definition relay_statuses :: "string list" where
  "relay_statuses = [''active'', ''degraded'', ''offline'', ''disabled'']"

definition grant_statuses :: "string list" where
  "grant_statuses = [''issued'', ''used'', ''expired'', ''revoked'']"

definition rule_subjects :: "string list" where
  "rule_subjects = [''user'', ''user_group'']"

definition rule_targets :: "string list" where
  "rule_targets = [''device'', ''device_group'']"

definition rule_effects :: "string list" where
  "rule_effects = [''allow'', ''deny'']"

definition permission_modes :: "string list" where
  "permission_modes = [''use_client_settings'', ''enable'', ''disable'']"

definition assignment_targets :: "string list" where
  "assignment_targets = [''device'', ''user'', ''device_group'']"

definition actor_types :: "string list" where
  "actor_types = [''user'', ''system'', ''api_token'']"

definition connection_types :: "string list" where
  "connection_types = [''direct'', ''relay'', ''websocket'']"

definition connection_statuses :: "string list" where
  "connection_statuses = [''started'', ''ended'', ''failed'', ''denied'']"

definition login_statuses :: "string list" where
  "login_statuses = [''succeeded'', ''failed'', ''denied'']"

definition job_statuses :: "string list" where
  "job_statuses = [''queued'', ''running'', ''succeeded'', ''failed'', ''canceled'']"

section \<open>Reading rows\<close>

definition scanUser :: "User \<Rightarrow> repo_error + User" where
  "scanUser r = Inr (r\<lparr> user_LastLoginAt :=
     (case user_LastLoginAt r of Some t \<Rightarrow> Some t | None \<Rightarrow> None) \<rparr>)"

definition scanAPIToken :: "APIToken \<Rightarrow> repo_error + APIToken" where
  "scanAPIToken r = Inr (r\<lparr> tok_UserID := int64FromNull (tok_UserID r),
     tok_ExpiresAt := timeFromNull (tok_ExpiresAt r), tok_LastUsedAt := timeFromNull (tok_LastUsedAt r),
     tok_RevokedAt := timeFromNull (tok_RevokedAt r) \<rparr>)"

definition scanSession :: "session_row \<Rightarrow> repo_error + Session" where
  "scanSession r = Inr
     \<lparr> ses_ID = qs_id r, ses_UserID = qs_user_id r, ses_TokenHash = qs_token_hash r,
       ses_IP = string_of (qs_ip r), ses_UserAgent = string_of (qs_user_agent r),
       ses_ExpiresAt = qs_expires_at r, ses_CreatedAt = qs_created_at r,
       ses_RevokedAt = timeFromNull (qs_revoked_at r) \<rparr>"

definition scanUserGroup :: "user_group_row \<Rightarrow> repo_error + UserGroup" where
  "scanUserGroup r = Inr
     \<lparr> ug_ID = qug_id r, ug_Name = qug_name r, ug_Description = string_of (qug_description r),
       ug_MemberUserIDs = [], ug_CreatedAt = qug_created_at r, ug_UpdatedAt = qug_updated_at r \<rparr>"

definition scanDevice :: "device_row \<Rightarrow> repo_error + Device" where
  "scanDevice r = Inr
     \<lparr> dev_ID = qd_id r, dev_RustDeskID = qd_rustdesk_id r, dev_Name = qd_name r,
       dev_Alias = string_of (qd_alias r), dev_OwnerUserID = qd_owner_user_id r,
       dev_Status = qd_status r, dev_Platform = string_of (qd_platform r),
       dev_ClientVersion = string_of (qd_client_version r),
       dev_OpenDeskClientVersion = string_of (qd_opendesk_client_version r),
       dev_LastIP = string_of (qd_last_ip r), dev_LastSeenAt = qd_last_seen_at r,
       dev_RegisteredAt = qd_registered_at r, dev_CreatedAt = qd_created_at r,
       dev_UpdatedAt = qd_updated_at r \<rparr>"

definition scanDeviceGroup :: "device_group_row \<Rightarrow> repo_error + DeviceGroup" where
  "scanDeviceGroup r = Inr
     \<lparr> dg_ID = qdg_id r, dg_Name = qdg_name r, dg_Description = string_of (qdg_description r),
       dg_MemberDeviceIDs = [], dg_CreatedAt = qdg_created_at r, dg_UpdatedAt = qdg_updated_at r \<rparr>"

definition scanAddressBook :: "address_book_row \<Rightarrow> repo_error + AddressBook" where
  "scanAddressBook r = Inr
     \<lparr> ab_ID = qab_id r, ab_Name = qab_name r, ab_Description = string_of (qab_description r),
       ab_OwnerUserID = int64FromNull (qab_owner_user_id r), ab_Entries = [],
       ab_CreatedAt = qab_created_at r, ab_UpdatedAt = qab_updated_at r \<rparr>"

definition scanAddressBookEntry :: "address_book_entry_row \<Rightarrow> repo_error + AddressBookEntry" where
  "scanAddressBookEntry r = Inr
     \<lparr> abe_ID = qabe_id r, abe_AddressBookID = qabe_address_book_id r,
       abe_DeviceID = qabe_device_id r, abe_Alias = string_of (qabe_alias r),
       abe_CreatedAt = qabe_created_at r \<rparr>"

definition scanRelay :: "relay_row \<Rightarrow> repo_error + Relay" where
  "scanRelay r = Inr
     \<lparr> rel_ID = qr_id r, rel_Name = qr_name r, rel_Region = qr_region r, rel_Host = qr_host r,
       rel_Port = qr_port r, rel_WSPort = qr_ws_port r,
       rel_PublicKeyFingerprint = string_of (qr_public_key_fingerprint r),
       rel_Status = qr_status r, rel_MaxBandwidthMbps = qr_max_bandwidth_mbps r,
       rel_CurrentSessions = qr_current_sessions r, rel_LastHealthAt = qr_last_health_at r,
       rel_CreatedAt = qr_created_at r, rel_UpdatedAt = qr_updated_at r \<rparr>"

definition scanRelayGrant :: "sql_env \<Rightarrow> relay_grant_row \<Rightarrow> repo_error + RelayGrant" where
  "scanRelayGrant env r =
     (let grant = \<lambda>hosts.
            \<lparr> rg_ID = qg_id r, rg_GrantID = qg_grant_id r, rg_UserID = int64FromNull (qg_user_id r),
              rg_ControllerDeviceID = int64FromNull (qg_controller_device_id r),
              rg_TargetDeviceID = int64FromNull (qg_target_device_id r),
              rg_TargetRustDeskID = string_of (qg_target_rustdesk_id r),
              rg_RelayID = int64FromNull (qg_relay_id r), rg_AllowedRelays = hosts,
              rg_ExpiresAt = qg_expires_at r, rg_Nonce = qg_nonce r, rg_Status = qg_status r,
              rg_CreatedAt = qg_created_at r, rg_UsedAt = timeFromNull (qg_used_at r) \<rparr>
      in case qg_allowed_relays r of
           None \<Rightarrow> Inr (grant [])
         | Some js \<Rightarrow> if TrimSpace js = [] then Inr (grant [])
             else (case se_strings_of env js of
                     Inl e \<Rightarrow> Inl e
                   | Inr hosts \<Rightarrow> Inr (grant hosts)))"

definition scanAccessRule :: "AccessRule \<Rightarrow> repo_error + AccessRule" where
  "scanAccessRule r = Inr r"

definition scanControlRole :: "control_role_row \<Rightarrow> repo_error + ControlRole" where
  "scanControlRole r = Inr
     \<lparr> cr_ID = qcr_id r, cr_Name = qcr_name r, cr_Description = string_of (qcr_description r),
       cr_Enabled = qcr_enabled r, cr_Permissions = [], cr_CreatedAt = qcr_created_at r,
       cr_UpdatedAt = qcr_updated_at r \<rparr>"

definition scanControlRolePermission :: "ControlRolePermission \<Rightarrow> repo_error + ControlRolePermission" where
  "scanControlRolePermission r = Inr r"

definition scanStrategy :: "strategy_row \<Rightarrow> repo_error + Strategy" where
  "scanStrategy r = Inr
     \<lparr> st_ID = qst_id r, st_Name = qst_name r, st_Description = string_of (qst_description r),
       st_Enabled = qst_enabled r, st_SettingsJSON = qst_settings_json r, st_Assignments = [],
       st_CreatedAt = qst_created_at r, st_UpdatedAt = qst_updated_at r \<rparr>"

definition scanStrategyAssignment :: "StrategyAssignment \<Rightarrow> repo_error + StrategyAssignment" where
  "scanStrategyAssignment r = Inr r"

definition scanAuditEvent :: "sql_env \<Rightarrow> audit_event_row \<Rightarrow> repo_error + AuditEvent" where
  "scanAuditEvent env r =
     (case parseJSONObject env (qae_metadata_json r) of
        Inl e \<Rightarrow> Inl e
      | Inr parsed \<Rightarrow> Inr
          \<lparr> ae_ID = qae_id r, ae_ActorUserID = int64FromNull (qae_actor_user_id r),
            ae_ActorType = qae_actor_type r, ae_Action = qae_action r,
            ae_ResourceType = qae_resource_type r, ae_ResourceID = qae_resource_id r,
            ae_IP = string_of (qae_ip r), ae_UserAgent = string_of (qae_user_agent r),
            ae_Metadata = parsed, ae_CreatedAt = qae_created_at r \<rparr>)"

definition scanConnectionLog :: "sql_env \<Rightarrow> connection_log_row \<Rightarrow> repo_error + ConnectionLog" where
  "scanConnectionLog env r =
     (case parseJSONObject env (qcl_metadata_json r) of
        Inl e \<Rightarrow> Inl e
      | Inr parsed \<Rightarrow> Inr
          \<lparr> cl_ID = qcl_id r, cl_SessionID = int64FromNull (qcl_session_id r),
            cl_ControllerUserID = int64FromNull (qcl_controller_user_id r),
            cl_ControllerDeviceID = int64FromNull (qcl_controller_device_id r),
            cl_TargetDeviceID = int64FromNull (qcl_target_device_id r),
            cl_ConnectionType = qcl_connection_type r, cl_RelayID = int64FromNull (qcl_relay_id r),
            cl_StartedAt = qcl_started_at r, cl_EndedAt = qcl_ended_at r,
            cl_Status = qcl_status r, cl_DenyReason = string_of (qcl_deny_reason r),
            cl_Metadata = parsed \<rparr>)"

definition scanFileTransferLog :: "FileTransferLog \<Rightarrow> repo_error + FileTransferLog" where
  "scanFileTransferLog r = Inr (r\<lparr> ft_ConnectionLogID := int64FromNull (ft_ConnectionLogID r) \<rparr>)"

definition scanLoginLog :: "login_log_row \<Rightarrow> repo_error + LoginLog" where
  "scanLoginLog r = Inr
     \<lparr> ll_ID = qll_id r, ll_UserID = (case qll_user_id r of Some i \<Rightarrow> i | None \<Rightarrow> 0),
       ll_Email = qll_email r, ll_Username = string_of (qll_username r),
       ll_DisplayName = string_of (qll_display_name r), ll_Status = qll_status r,
       ll_FailureReason = string_of (qll_failure_reason r), ll_IP = string_of (qll_ip r),
       ll_UserAgent = string_of (qll_user_agent r),
       ll_LastLoginAt = (if qll_status r = ''succeeded'' then Some (qll_created_at r) else None),
       ll_CreatedAt = qll_created_at r \<rparr>"

definition scanSystemSetting :: "system_setting_row \<Rightarrow> repo_error + SystemSetting" where
  "scanSystemSetting r = Inr
     \<lparr> ss_Key = qss_setting_key r, ss_ValueJSON = qss_setting_value r,
       ss_UpdatedBy = int64FromNull (qss_updated_by r), ss_UpdatedAt = qss_updated_at r \<rparr>"

definition scanBuildProfile :: "build_profile_row \<Rightarrow> repo_error + BuildProfile" where
  "scanBuildProfile r = Inr
     \<lparr> bp_ID = qbp_id r, bp_Name = qbp_name r, bp_AppName = qbp_app_name r,
       bp_Vendor = string_of (qbp_vendor r), bp_BundleID = qbp_bundle_id r,
       bp_ProductName = string_of (qbp_product_name r),
       bp_Description = string_of (qbp_description r),
       bp_ServerConfigJSON = qbp_server_config_json r, bp_BrandingJSON = qbp_branding_json r,
       bp_PolicyJSON = qbp_policy_json r, bp_PlatformsJSON = qbp_platforms_json r,
       bp_SigningJSON = qbp_signing_json r, bp_SourceJSON = string_of (qbp_source_json r),
       bp_CreatedBy = qbp_created_by r, bp_CreatedAt = qbp_created_at r,
       bp_UpdatedAt = qbp_updated_at r \<rparr>"

definition scanBuildJob :: "build_job_row \<Rightarrow> repo_error + BuildJob" where
  "scanBuildJob r = Inr
     \<lparr> bj_ID = qbj_id r, bj_ProfileID = qbj_profile_id r, bj_Platform = qbj_platform r,
       bj_Status = qbj_status r, bj_Runner = string_of (qbj_runner r),
       bj_LogPath = string_of (qbj_log_path r), bj_ErrorMessage = string_of (qbj_error_message r),
       bj_CreatedAt = qbj_created_at r, bj_StartedAt = qbj_started_at r,
       bj_FinishedAt = qbj_finished_at r \<rparr>"

definition scanBuildArtifact :: "BuildArtifact \<Rightarrow> repo_error + BuildArtifact" where
  "scanBuildArtifact r = Inr r"

end
