(* ===== verification/Mysql_Users.thy ===== *)
theory Mysql_Users
  imports Mysql_Schema Memory_Users
begin

text \<open>
  The user part of the MySQL repository (\<^verbatim>\<open>mysql.go\<close>): users, user groups, API tokens,
  sessions and the rows of the login log.
\<close>

section \<open>Users\<close>

abbreviation disabledLoginHash :: string where "disabledLoginHash \<equiv> ''!disabled-login!''"

abbreviation user_ids :: "MySQL \<Rightarrow> int list" where
  "user_ids db \<equiv> map user_ID (rows (tb_users db))"

definition user_checks ::
    "sql_env \<Rightarrow> string \<Rightarrow> string \<Rightarrow> string \<Rightarrow> string \<Rightarrow> string \<Rightarrow> sql_check list" where
  "user_checks env email username display status source =
     [varchar env 255 email, varchar env 120 username, varchar env 255 display,
      enum_in env user_statuses status, enum_in env user_sources source]"

definition FindUserByID_sql :: "int \<Rightarrow> MySQL \<Rightarrow> repo_error + User" where
  "FindUserByID_sql i db = query_row (\<lambda>r. user_ID r = i) scanUser (tb_users db)"

definition FindUserByEmail_sql :: "sql_env \<Rightarrow> string \<Rightarrow> MySQL \<Rightarrow> repo_error + User" where
  "FindUserByEmail_sql env email db =
     query_row (\<lambda>r. ci_eq env (user_Email r) (normalizeEmail email)) scanUser (tb_users db)"

definition EnsureInitialAdmin ::
    "sql_env \<Rightarrow> gotime \<Rightarrow> string \<Rightarrow> string \<Rightarrow> MySQL \<Rightarrow> unit sql_result" where
  "EnsureInitialAdmin env now email0 passwordHash db =
     (let email = normalizeEmail email0
      in if email = [] then (Inl (ErrMsg ''initial admin email is required''), db)
         else if TrimSpace passwordHash = []
         then (Inl (ErrMsg ''initial admin password hash is required''), db)
         else let username = usernameFromEmail email;
                  rs = rows (tb_users db)
              in case refused env (user_checks env email username ''Initial Admin'' ''active'' ''local'' @
                     [varchar env 255 passwordHash]) of
                   Some e \<Rightarrow> (Inl e, db)
                 | None \<Rightarrow>
                     (case sql_insert env user_ID
                        [unique_in env user_Email email rs, unique_in env user_Username username rs]
                        (\<lambda>i. \<lparr> user_ID = i, user_Email = email, user_Username = username,
                                user_DisplayName = ''Initial Admin'', user_PasswordHash = passwordHash,
                                user_Status = ''active'', user_MFAEnabled = False,
                                user_Source = ''local'', user_CreatedAt = now, user_UpdatedAt = now,
                                user_LastLoginAt = None \<rparr>) (tb_users db) of
                        (Inl duplicate, t) \<Rightarrow> (Inr (), db)
                      | (Inr i, t) \<Rightarrow> (Inr (), db\<lparr> tb_users := t \<rparr>)))"

definition CountUsers_sql :: "MySQL \<Rightarrow> repo_error + int" where
  "CountUsers_sql db = Inr (int (length (rows (tb_users db))))"

definition ListUsers_sql :: "MySQL \<Rightarrow> repo_error + User list" where
  "ListUsers_sql db = scan_all scanUser (take 500 (sort_key user_ID (rows (tb_users db))))"

definition CreateUser_sql :: "sql_env \<Rightarrow> gotime \<Rightarrow> User \<Rightarrow> MySQL \<Rightarrow> User sql_result" where
  "CreateUser_sql env now user db =
     (let email = normalizeEmail (user_Email user);
          username = TrimSpace (user_Username user);
          display0 = TrimSpace (user_DisplayName user)
      in if email = [] \<or> username = [] then (Inl (ErrMsg ''email and username are required''), db)
         else let display = (if display0 = [] then username else display0);
                  hash = (if user_PasswordHash user = [] then disabledLoginHash else user_PasswordHash user);
                  status = (if user_Status user = [] then UserStatusActive else user_Status user);
                  source = (if user_Source user = [] then ''local'' else user_Source user);
                  rs = rows (tb_users db)
              in insert_find
                   (sql_insert env user_ID
                     (user_checks env email username display status source @
                      [varchar env 255 hash, unique_in env user_Email email rs,
                       unique_in env user_Username username rs])
                     (\<lambda>i. \<lparr> user_ID = i, user_Email = email, user_Username = username,
                             user_DisplayName = display, user_PasswordHash = hash,
                             user_Status = enum_col env user_statuses status,
                             user_MFAEnabled = user_MFAEnabled user,
                             user_Source = enum_col env user_sources source,
                             user_CreatedAt = now, user_UpdatedAt = now, user_LastLoginAt = None \<rparr>)
                     (tb_users db))
                   (\<lambda>t. db\<lparr> tb_users := t \<rparr>) FindUserByID_sql db)"

definition UpdateUser_sql :: "sql_env \<Rightarrow> gotime \<Rightarrow> int \<Rightarrow> User \<Rightarrow> MySQL \<Rightarrow> User sql_result" where
  "UpdateUser_sql env now i user db =
     (let email = normalizeEmail (user_Email user);
          username = TrimSpace (user_Username user);
          display0 = TrimSpace (user_DisplayName user);
          source0 = TrimSpace (user_Source user)
      in if email = [] \<or> username = [] then (Inl (ErrMsg ''email and username are required''), db)
         else let display = (if display0 = [] then username else display0);
                  status = (if user_Status user = [] then UserStatusActive else user_Status user);
                  source = (if source0 = [] then ''local'' else source0);
                  rs = rows (tb_users db)
              in update_find
                   (sql_update env
                     (user_checks env email username display status source @
                      [timestamp env now, unique_but env user_Email email (\<lambda>r. user_ID r = i) rs,
                       unique_but env user_Username username (\<lambda>r. user_ID r = i) rs])
                     (\<lambda>r. user_ID r = i)
                     (\<lambda>r. r\<lparr> user_Email := email, user_Username := username,
                             user_DisplayName := display,
                             user_Status := enum_col env user_statuses status,
                             user_MFAEnabled := user_MFAEnabled user,
                             user_Source := enum_col env user_sources source,
                             user_UpdatedAt := time_col env now \<rparr>)
                     (tb_users db))
                   (\<lambda>t. db\<lparr> tb_users := t \<rparr>) (FindUserByID_sql i) db)"

definition DisableUser_sql :: "sql_env \<Rightarrow> int \<Rightarrow> gotime \<Rightarrow> MySQL \<Rightarrow> User sql_result" where
  "DisableUser_sql env i at db =
     update_find
       (sql_update env [timestamp env at] (\<lambda>r. user_ID r = i)
         (\<lambda>r. r\<lparr> user_Status := ''disabled'', user_UpdatedAt := time_col env at \<rparr>) (tb_users db))
       (\<lambda>t. db\<lparr> tb_users := t \<rparr>) (FindUserByID_sql i) db"

definition RecordUserLogin_sql :: "sql_env \<Rightarrow> int \<Rightarrow> gotime \<Rightarrow> MySQL \<Rightarrow> User sql_result" where
  "RecordUserLogin_sql env i at db =
     update_find
       (sql_update env [timestamp env at] (\<lambda>r. user_ID r = i)
         (\<lambda>r. r\<lparr> user_LastLoginAt := Some (time_col env at), user_UpdatedAt := time_col env at \<rparr>)
         (tb_users db))
       (\<lambda>t. db\<lparr> tb_users := t \<rparr>) (FindUserByID_sql i) db"

section \<open>User groups\<close>

abbreviation user_group_ids :: "MySQL \<Rightarrow> int list" where
  "user_group_ids db \<equiv> map qug_id (rows (tb_user_groups db))"

definition listUserGroupMembers :: "int \<Rightarrow> MySQL \<Rightarrow> int list" where
  "listUserGroupMembers gid db =
     sort (map fst (filter (\<lambda>(u, g). g = gid) (tb_user_group_members db)))"

definition scan_user_group :: "MySQL \<Rightarrow> user_group_row \<Rightarrow> repo_error + UserGroup" where
  "scan_user_group db r =
     (case scanUserGroup r of
        Inl e \<Rightarrow> Inl e
      | Inr g \<Rightarrow> Inr (g\<lparr> ug_MemberUserIDs := listUserGroupMembers (ug_ID g) db \<rparr>))"

definition findUserGroupByID :: "int \<Rightarrow> MySQL \<Rightarrow> repo_error + UserGroup" where
  "findUserGroupByID i db = query_row (\<lambda>r. qug_id r = i) (scan_user_group db) (tb_user_groups db)"

definition ListUserGroups_sql :: "MySQL \<Rightarrow> repo_error + UserGroup list" where
  "ListUserGroups_sql db =
     scan_all (scan_user_group db) (take 500 (newest_first qug_id (rows (tb_user_groups db))))"

text \<open>\<^verbatim>\<open>INSERT IGNORE\<close>: a pair that is there or that refers to a missing row is left out.\<close>

definition insert_ignore_member :: "int list \<Rightarrow> int list \<Rightarrow> int \<times> int \<Rightarrow> (int \<times> int) list \<Rightarrow> (int \<times> int) list" where
  "insert_ignore_member members grps p ps =
     (if p \<in> set ps \<or> fst p \<notin> set members \<or> snd p \<notin> set grps then ps else ps @ [p])"

fun insert_members :: "int list \<Rightarrow> int list \<Rightarrow> int \<Rightarrow> int list \<Rightarrow> (int \<times> int) list \<Rightarrow> (int \<times> int) list" where
  "insert_members members grps gid [] ps = ps"
| "insert_members members grps gid (u # us) ps =
     (if u \<le> 0 then insert_members members grps gid us ps
      else insert_members members grps gid us (insert_ignore_member members grps (u, gid) ps))"

definition CreateUserGroup_sql :: "sql_env \<Rightarrow> gotime \<Rightarrow> UserGroup \<Rightarrow> MySQL \<Rightarrow> UserGroup sql_result" where
  "CreateUserGroup_sql env now grp db =
     (let name = TrimSpace (ug_Name grp)
      in if name = [] then (Inl (ErrMsg ''name is required''), db)
         else (case sql_insert env qug_id
                  [varchar env 255 name, text_null (nullString (ug_Description grp)),
                   unique_in env qug_name name (rows (tb_user_groups db))]
                  (\<lambda>i. \<lparr> qug_id = i, qug_name = name, qug_description = nullString (ug_Description grp),
                          qug_created_at = now, qug_updated_at = now \<rparr>) (tb_user_groups db) of
                 (Inl e, t) \<Rightarrow> (Inl e, db)
               | (Inr i, t) \<Rightarrow>
                   let db1 = db\<lparr> tb_user_groups := t \<rparr>;
                       db2 = db1\<lparr> tb_user_group_members :=
                               insert_members (user_ids db1) (user_group_ids db1) i
                                 (ug_MemberUserIDs grp) (tb_user_group_members db1) \<rparr>
                   in (findUserGroupByID i db2, db2)))"

definition ListUserGroupMembers_sql :: "int \<Rightarrow> MySQL \<Rightarrow> repo_error + int list" where
  "ListUserGroupMembers_sql gid db =
     (case findUserGroupByID gid db of Inl e \<Rightarrow> Inl e | Inr g \<Rightarrow> Inr (ug_MemberUserIDs g))"

definition touch_user_group :: "sql_env \<Rightarrow> gotime \<Rightarrow> int \<Rightarrow> MySQL \<Rightarrow> MySQL" where
  "touch_user_group env now gid db =
     db\<lparr> tb_user_groups := snd (sql_update env [] (\<lambda>r. qug_id r = gid)
            (\<lambda>r. r\<lparr> qug_updated_at := now \<rparr>) (tb_user_groups db)) \<rparr>"

definition AddUserGroupMember_sql ::
    "sql_env \<Rightarrow> gotime \<Rightarrow> int \<Rightarrow> int \<Rightarrow> MySQL \<Rightarrow> UserGroup sql_result" where
  "AddUserGroupMember_sql env now gid uid db =
     (if gid \<le> 0 \<or> uid \<le> 0 then (Inl (ErrMsg ''group_id and user_id must be positive''), db)
      else (case findUserGroupByID gid db of
              Inl e \<Rightarrow> (Inl e, db)
            | Inr g \<Rightarrow>
                let db1 = db\<lparr> tb_user_group_members :=
                            insert_ignore_member (user_ids db) (user_group_ids db) (uid, gid)
                              (tb_user_group_members db) \<rparr>;
                    db2 = touch_user_group env now gid db1
                in (findUserGroupByID gid db2, db2)))"

definition RemoveUserGroupMember_sql ::
    "sql_env \<Rightarrow> gotime \<Rightarrow> int \<Rightarrow> int \<Rightarrow> MySQL \<Rightarrow> UserGroup sql_result" where
  "RemoveUserGroupMember_sql env now gid uid db =
     (if gid \<le> 0 \<or> uid \<le> 0 then (Inl (ErrMsg ''group_id and user_id must be positive''), db)
      else let db1 = db\<lparr> tb_user_group_members :=
                       filter (\<lambda>p. p \<noteq> (uid, gid)) (tb_user_group_members db) \<rparr>;
               db2 = touch_user_group env now gid db1
           in (findUserGroupByID gid db2, db2))"

section \<open>API tokens\<close>

definition findAPITokenByID :: "int \<Rightarrow> MySQL \<Rightarrow> repo_error + APIToken" where
  "findAPITokenByID i db = query_row (\<lambda>r. tok_ID r = i) scanAPIToken (tb_api_tokens db)"

definition ListAPITokens_sql :: "MySQL \<Rightarrow> repo_error + APIToken list" where
  "ListAPITokens_sql db =
     scan_all scanAPIToken
       (take 500 (newest_first tok_CreatedAt (sort_key tok_ID (rows (tb_api_tokens db)))))"

definition CreateAPIToken_sql :: "sql_env \<Rightarrow> gotime \<Rightarrow> APIToken \<Rightarrow> MySQL \<Rightarrow> APIToken sql_result" where
  "CreateAPIToken_sql env now token db =
     (let name = TrimSpace (tok_Name token)
      in if name = [] \<or> TrimSpace (tok_TokenHash token) = [] \<or> TrimSpace (tok_ScopesJSON token) = []
         then (Inl (ErrMsg ''name, token_hash, and scopes_json are required''), db)
         else insert_find
                (sql_insert env tok_ID
                  [varchar env 255 name, varchar env 64 (char_col (tok_TokenHash token)),
                   json_text env (tok_ScopesJSON token),
                   timestamp_null env (nullTime (tok_ExpiresAt token)),
                   unique_in env tok_TokenHash (char_col (tok_TokenHash token)) (rows (tb_api_tokens db)),
                   references_null (nullInt64 (tok_UserID token)) (user_ids db)]
                  (\<lambda>i. \<lparr> tok_ID = i, tok_Name = name, tok_TokenHash = char_col (tok_TokenHash token),
                          tok_ScopesJSON = json_col env (tok_ScopesJSON token),
                          tok_UserID = nullInt64 (tok_UserID token),
                          tok_ExpiresAt = map_option (time_col env) (nullTime (tok_ExpiresAt token)),
                          tok_LastUsedAt = None, tok_CreatedAt = now, tok_RevokedAt = None \<rparr>)
                  (tb_api_tokens db))
                (\<lambda>t. db\<lparr> tb_api_tokens := t \<rparr>) findAPITokenByID db)"

definition FindAPITokenByHash_sql :: "sql_env \<Rightarrow> string \<Rightarrow> MySQL \<Rightarrow> repo_error + APIToken" where
  "FindAPITokenByHash_sql env h db =
     query_row (\<lambda>r. ci_eq env (tok_TokenHash r) (TrimSpace h)) scanAPIToken (tb_api_tokens db)"

definition RevokeAPIToken_sql :: "sql_env \<Rightarrow> int \<Rightarrow> gotime \<Rightarrow> MySQL \<Rightarrow> APIToken sql_result" where
  "RevokeAPIToken_sql env i at db =
     update_find
       (sql_update env [timestamp env at] (\<lambda>r. tok_ID r = i)
         (\<lambda>r. r\<lparr> tok_RevokedAt := Some (time_col env at) \<rparr>) (tb_api_tokens db))
       (\<lambda>t. db\<lparr> tb_api_tokens := t \<rparr>) (findAPITokenByID i) db"

definition RecordAPITokenUsed_sql :: "sql_env \<Rightarrow> int \<Rightarrow> gotime \<Rightarrow> MySQL \<Rightarrow> APIToken sql_result" where
  "RecordAPITokenUsed_sql env i at db =
     update_find
       (sql_update env [timestamp env at] (\<lambda>r. tok_ID r = i)
         (\<lambda>r. r\<lparr> tok_LastUsedAt := Some (time_col env at) \<rparr>) (tb_api_tokens db))
       (\<lambda>t. db\<lparr> tb_api_tokens := t \<rparr>) (findAPITokenByID i) db"

section \<open>Sessions\<close>

definition findSessionByID :: "int \<Rightarrow> MySQL \<Rightarrow> repo_error + Session" where
  "findSessionByID i db = query_row (\<lambda>r. qs_id r = i) scanSession (tb_sessions db)"

definition CreateSession_sql :: "sql_env \<Rightarrow> gotime \<Rightarrow> Session \<Rightarrow> MySQL \<Rightarrow> Session sql_result" where
  "CreateSession_sql env now session db =
     (if ses_UserID session \<le> 0 \<or> TrimSpace (ses_TokenHash session) = []
         \<or> IsZero (ses_ExpiresAt session)
      then (Inl (ErrMsg ''user_id, token_hash, and expires_at are required''), db)
      else let hash = char_col (TrimSpace (ses_TokenHash session))
           in insert_find
                (sql_insert env qs_id
                  [varchar env 64 hash, varchar_null env 64 (nullString (ses_IP session)),
                   text_null (nullString (ses_UserAgent session)),
                   timestamp env (ses_ExpiresAt session),
                   unique_in env qs_token_hash hash (rows (tb_sessions db)),
                   references (ses_UserID session) (user_ids db)]
                  (\<lambda>i. \<lparr> qs_id = i, qs_user_id = ses_UserID session, qs_token_hash = hash,
                          qs_ip = nullString (ses_IP session),
                          qs_user_agent = nullString (ses_UserAgent session),
                          qs_expires_at = time_col env (ses_ExpiresAt session),
                          qs_created_at = now, qs_revoked_at = None \<rparr>) (tb_sessions db))
                (\<lambda>t. db\<lparr> tb_sessions := t \<rparr>) findSessionByID db)"

definition FindSessionByTokenHash_sql :: "sql_env \<Rightarrow> string \<Rightarrow> MySQL \<Rightarrow> repo_error + Session" where
  "FindSessionByTokenHash_sql env h db =
     query_row (\<lambda>r. ci_eq env (qs_token_hash r) (TrimSpace h)) scanSession (tb_sessions db)"

definition RevokeSession_sql :: "sql_env \<Rightarrow> string \<Rightarrow> gotime \<Rightarrow> MySQL \<Rightarrow> Session sql_result" where
  "RevokeSession_sql env h0 at db =
     (let h = TrimSpace h0
      in update_find
           (sql_update env [timestamp env at] (\<lambda>r. ci_eq env (qs_token_hash r) h)
             (\<lambda>r. r\<lparr> qs_revoked_at := (case qs_revoked_at r of Some t \<Rightarrow> Some t
                                       | None \<Rightarrow> Some (time_col env at)) \<rparr>) (tb_sessions db))
           (\<lambda>t. db\<lparr> tb_sessions := t \<rparr>) (FindSessionByTokenHash_sql env h) db)"

section \<open>Login log\<close>

definition findLoginLogByID :: "int \<Rightarrow> MySQL \<Rightarrow> repo_error + LoginLog" where
  "findLoginLogByID i db = query_row (\<lambda>r. qll_id r = i) scanLoginLog (tb_login_logs db)"

definition CreateLoginLog_sql :: "sql_env \<Rightarrow> gotime \<Rightarrow> LoginLog \<Rightarrow> MySQL \<Rightarrow> LoginLog sql_result" where
  "CreateLoginLog_sql env now log db =
     (if TrimSpace (ll_Email log) = [] then (Inl (ErrMsg ''email is required''), db)
      else if \<not> validLoginStatus (ll_Status log)
      then (Inl (ErrMsg ''login status must be succeeded, failed, or denied''), db)
      else let createdAt = (if IsZero (ll_CreatedAt log) then now else ll_CreatedAt log);
               email = ToLower (TrimSpace (ll_Email log))
           in insert_find
                (sql_insert env qll_id
                  [varchar env 255 email, varchar_null env 120 (nullString (ll_Username log)),
                   varchar_null env 255 (nullString (ll_DisplayName log)),
                   enum_in env login_statuses (ll_Status log),
                   varchar_null env 120 (nullString (ll_FailureReason log)),
                   varchar_null env 64 (nullString (ll_IP log)),
                   text_null (nullString (ll_UserAgent log)), timestamp env createdAt,
                   references_null (nullablePositiveInt64 (ll_UserID log)) (user_ids db)]
                  (\<lambda>i. \<lparr> qll_id = i, qll_user_id = nullablePositiveInt64 (ll_UserID log),
                          qll_email = email, qll_username = nullString (ll_Username log),
                          qll_display_name = nullString (ll_DisplayName log),
                          qll_status = enum_col env login_statuses (ll_Status log),
                          qll_failure_reason = nullString (ll_FailureReason log),
                          qll_ip = nullString (ll_IP log),
                          qll_user_agent = nullString (ll_UserAgent log),
                          qll_created_at = time_col env createdAt \<rparr>) (tb_login_logs db))
                (\<lambda>t. db\<lparr> tb_login_logs := t \<rparr>) findLoginLogByID db)"

end
