(* ===== verification/Mysql_Devices.thy ===== *)
theory Mysql_Devices
  imports Mysql_Users
begin

text \<open>
  The device part of the MySQL repository (\<^verbatim>\<open>mysql.go\<close>): devices, device groups and address
  books.
\<close>

section \<open>Devices\<close>

abbreviation device_ids :: "MySQL \<Rightarrow> int list" where
  "device_ids db \<equiv> map qd_id (rows (tb_devices db))"

definition findDeviceByID :: "int \<Rightarrow> MySQL \<Rightarrow> repo_error + Device" where
  "findDeviceByID i db = query_row (\<lambda>r. qd_id r = i) scanDevice (tb_devices db)"

definition FindDeviceByID_sql :: "int \<Rightarrow> MySQL \<Rightarrow> repo_error + Device" where
  "FindDeviceByID_sql i db = findDeviceByID i db"

definition ListDevices_sql :: "MySQL \<Rightarrow> repo_error + Device list" where
  "ListDevices_sql db = scan_all scanDevice (take 500 (sort_key qd_id (rows (tb_devices db))))"

definition device_checks :: "sql_env \<Rightarrow> string \<Rightarrow> string \<Rightarrow> string \<Rightarrow> Device \<Rightarrow> MySQL \<Rightarrow> sql_check list" where
  "device_checks env rustdesk name status d db =
     [varchar env 128 rustdesk, varchar env 255 name, varchar_null env 255 (nullString (dev_Alias d)),
      enum_in env device_statuses status, varchar_null env 64 (nullString (dev_Platform d)),
      varchar_null env 64 (nullString (dev_ClientVersion d)),
      varchar_null env 64 (nullString (dev_OpenDeskClientVersion d)),
      varchar_null env 64 (nullString (dev_LastIP d)),
      references_null (nullInt64 (dev_OwnerUserID d)) (user_ids db)]"

definition CreateDevice_sql :: "sql_env \<Rightarrow> gotime \<Rightarrow> Device \<Rightarrow> MySQL \<Rightarrow> Device sql_result" where
  "CreateDevice_sql env now d db =
     (let rustdesk = TrimSpace (dev_RustDeskID d); name = TrimSpace (dev_Name d)
      in if rustdesk = [] \<or> name = [] then (Inl (ErrMsg ''rustdesk_id and name are required''), db)
         else let status = (if dev_Status d = [] then DeviceStatusOffline else dev_Status d)
              in insert_find
                   (sql_insert env qd_id
                     (device_checks env rustdesk name status d db @
                      [unique_in env qd_rustdesk_id rustdesk (rows (tb_devices db))])
                     (\<lambda>i. \<lparr> qd_id = i, qd_rustdesk_id = rustdesk, qd_name = name,
                             qd_alias = nullString (dev_Alias d),
                             qd_owner_user_id = nullInt64 (dev_OwnerUserID d),
                             qd_status = enum_col env device_statuses status,
                             qd_platform = nullString (dev_Platform d),
                             qd_client_version = nullString (dev_ClientVersion d),
                             qd_opendesk_client_version = nullString (dev_OpenDeskClientVersion d),
                             qd_last_ip = nullString (dev_LastIP d), qd_last_seen_at = None,
                             qd_registered_at = None, qd_created_at = now, qd_updated_at = now \<rparr>)
                     (tb_devices db))
                   (\<lambda>t. db\<lparr> tb_devices := t \<rparr>) findDeviceByID db)"

definition UpdateDevice_sql :: "sql_env \<Rightarrow> gotime \<Rightarrow> int \<Rightarrow> Device \<Rightarrow> MySQL \<Rightarrow> Device sql_result" where
  "UpdateDevice_sql env now i d db =
     (let rustdesk = TrimSpace (dev_RustDeskID d); name = TrimSpace (dev_Name d)
      in if rustdesk = [] \<or> name = [] then (Inl (ErrMsg ''rustdesk_id and name are required''), db)
         else let status = (if dev_Status d = [] then DeviceStatusOffline else dev_Status d)
              in update_find
                   (sql_update env
                     (device_checks env rustdesk name status d db @
                      [timestamp env now,
                       unique_but env qd_rustdesk_id rustdesk (\<lambda>r. qd_id r = i) (rows (tb_devices db))])
                     (\<lambda>r. qd_id r = i)
                     (\<lambda>r. r\<lparr> qd_rustdesk_id := rustdesk, qd_name := name,
                             qd_alias := nullString (dev_Alias d),
                             qd_owner_user_id := nullInt64 (dev_OwnerUserID d),
                             qd_status := enum_col env device_statuses status,
                             qd_platform := nullString (dev_Platform d),
                             qd_client_version := nullString (dev_ClientVersion d),
                             qd_opendesk_client_version := nullString (dev_OpenDeskClientVersion d),
                             qd_last_ip := nullString (dev_LastIP d),
                             qd_updated_at := time_col env now \<rparr>)
                     (tb_devices db))
                   (\<lambda>t. db\<lparr> tb_devices := t \<rparr>) (findDeviceByID i) db)"

definition DisableDevice_sql :: "sql_env \<Rightarrow> int \<Rightarrow> gotime \<Rightarrow> MySQL \<Rightarrow> Device sql_result" where
  "DisableDevice_sql env i at db =
     update_find
       (sql_update env [timestamp env at] (\<lambda>r. qd_id r = i)
         (\<lambda>r. r\<lparr> qd_status := ''disabled'', qd_updated_at := time_col env at \<rparr>) (tb_devices db))
       (\<lambda>t. db\<lparr> tb_devices := t \<rparr>) (findDeviceByID i) db"

section \<open>Device groups\<close>

abbreviation device_group_ids :: "MySQL \<Rightarrow> int list" where
  "device_group_ids db \<equiv> map qdg_id (rows (tb_device_groups db))"

definition listDeviceGroupMembers :: "int \<Rightarrow> MySQL \<Rightarrow> int list" where
  "listDeviceGroupMembers gid db =
     sort (map fst (filter (\<lambda>(d, g). g = gid) (tb_device_group_members db)))"

definition scan_device_group :: "MySQL \<Rightarrow> device_group_row \<Rightarrow> repo_error + DeviceGroup" where
  "scan_device_group db r =
     (case scanDeviceGroup r of
        Inl e \<Rightarrow> Inl e
      | Inr g \<Rightarrow> Inr (g\<lparr> dg_MemberDeviceIDs := listDeviceGroupMembers (dg_ID g) db \<rparr>))"

definition findDeviceGroupByID :: "int \<Rightarrow> MySQL \<Rightarrow> repo_error + DeviceGroup" where
  "findDeviceGroupByID i db = query_row (\<lambda>r. qdg_id r = i) (scan_device_group db) (tb_device_groups db)"

definition ListDeviceGroups_sql :: "MySQL \<Rightarrow> repo_error + DeviceGroup list" where
  "ListDeviceGroups_sql db =
     scan_all (scan_device_group db) (take 500 (newest_first qdg_id (rows (tb_device_groups db))))"

definition CreateDeviceGroup_sql :: "sql_env \<Rightarrow> gotime \<Rightarrow> DeviceGroup \<Rightarrow> MySQL \<Rightarrow> DeviceGroup sql_result" where
  "CreateDeviceGroup_sql env now grp db =
     (let name = TrimSpace (dg_Name grp)
      in if name = [] then (Inl (ErrMsg ''name is required''), db)
         else (case sql_insert env qdg_id
                  [varchar env 255 name, text_null (nullString (dg_Description grp)),
                   unique_in env qdg_name name (rows (tb_device_groups db))]
                  (\<lambda>i. \<lparr> qdg_id = i, qdg_name = name, qdg_description = nullString (dg_Description grp),
                          qdg_created_at = now, qdg_updated_at = now \<rparr>) (tb_device_groups db) of
                 (Inl e, t) \<Rightarrow> (Inl e, db)
               | (Inr i, t) \<Rightarrow>
                   let db1 = db\<lparr> tb_device_groups := t \<rparr>;
                       db2 = db1\<lparr> tb_device_group_members :=
                               insert_members (device_ids db1) (device_group_ids db1) i
                                 (dg_MemberDeviceIDs grp) (tb_device_group_members db1) \<rparr>
                   in (findDeviceGroupByID i db2, db2)))"

definition ListDeviceGroupMembers_sql :: "int \<Rightarrow> MySQL \<Rightarrow> repo_error + int list" where
  "ListDeviceGroupMembers_sql gid db =
     (case findDeviceGroupByID gid db of Inl e \<Rightarrow> Inl e | Inr g \<Rightarrow> Inr (dg_MemberDeviceIDs g))"

definition touch_device_group :: "sql_env \<Rightarrow> gotime \<Rightarrow> int \<Rightarrow> MySQL \<Rightarrow> MySQL" where
  "touch_device_group env now gid db =
     db\<lparr> tb_device_groups := snd (sql_update env [] (\<lambda>r. qdg_id r = gid)
            (\<lambda>r. r\<lparr> qdg_updated_at := now \<rparr>) (tb_device_groups db)) \<rparr>"

definition AddDeviceGroupMember_sql ::
    "sql_env \<Rightarrow> gotime \<Rightarrow> int \<Rightarrow> int \<Rightarrow> MySQL \<Rightarrow> DeviceGroup sql_result" where
  "AddDeviceGroupMember_sql env now gid did db =
     (if gid \<le> 0 \<or> did \<le> 0 then (Inl (ErrMsg ''group_id and device_id must be positive''), db)
      else (case findDeviceGroupByID gid db of
              Inl e \<Rightarrow> (Inl e, db)
            | Inr g \<Rightarrow>
                let db1 = db\<lparr> tb_device_group_members :=
                            insert_ignore_member (device_ids db) (device_group_ids db) (did, gid)
                              (tb_device_group_members db) \<rparr>;
                    db2 = touch_device_group env now gid db1
                in (findDeviceGroupByID gid db2, db2)))"

definition RemoveDeviceGroupMember_sql ::
    "sql_env \<Rightarrow> gotime \<Rightarrow> int \<Rightarrow> int \<Rightarrow> MySQL \<Rightarrow> DeviceGroup sql_result" where
  "RemoveDeviceGroupMember_sql env now gid did db =
     (if gid \<le> 0 \<or> did \<le> 0 then (Inl (ErrMsg ''group_id and device_id must be positive''), db)
      else let db1 = db\<lparr> tb_device_group_members :=
                       filter (\<lambda>p. p \<noteq> (did, gid)) (tb_device_group_members db) \<rparr>;
               db2 = touch_device_group env now gid db1
           in (findDeviceGroupByID gid db2, db2))"

section \<open>Address books\<close>

abbreviation address_book_ids :: "MySQL \<Rightarrow> int list" where
  "address_book_ids db \<equiv> map qab_id (rows (tb_address_books db))"

definition listAddressBookEntries :: "int \<Rightarrow> MySQL \<Rightarrow> repo_error + AddressBookEntry list" where
  "listAddressBookEntries bid db =
     scan_all scanAddressBookEntry
       (sort_key qabe_id (filter (\<lambda>r. qabe_address_book_id r = bid) (rows (tb_address_book_entries db))))"

definition scan_address_book :: "MySQL \<Rightarrow> address_book_row \<Rightarrow> repo_error + AddressBook" where
  "scan_address_book db r =
     (case scanAddressBook r of
        Inl e \<Rightarrow> Inl e
      | Inr b \<Rightarrow> (case listAddressBookEntries (ab_ID b) db of
                   Inl e \<Rightarrow> Inl e
                 | Inr es \<Rightarrow> Inr (b\<lparr> ab_Entries := es \<rparr>)))"

definition findAddressBookByID :: "int \<Rightarrow> MySQL \<Rightarrow> repo_error + AddressBook" where
  "findAddressBookByID i db = query_row (\<lambda>r. qab_id r = i) (scan_address_book db) (tb_address_books db)"

definition ListAddressBooks_sql :: "MySQL \<Rightarrow> repo_error + AddressBook list" where
  "ListAddressBooks_sql db =
     scan_all (scan_address_book db) (take 500 (newest_first qab_id (rows (tb_address_books db))))"

definition insert_entry ::
    "sql_env \<Rightarrow> gotime \<Rightarrow> int \<Rightarrow> int \<Rightarrow> string option \<Rightarrow> MySQL \<Rightarrow> unit sql_result" where
  "insert_entry env now bid did alias db =
     (case sql_insert env qabe_id
        [varchar_null env 255 alias,
         (1062, \<not> list_ex (\<lambda>r. qabe_address_book_id r = bid \<and> qabe_device_id r = did)
                  (rows (tb_address_book_entries db))),
         references bid (address_book_ids db), references did (device_ids db)]
        (\<lambda>i. \<lparr> qabe_id = i, qabe_address_book_id = bid, qabe_device_id = did, qabe_alias = alias,
                qabe_created_at = now \<rparr>) (tb_address_book_entries db) of
        (Inl e, t) \<Rightarrow> (Inl e, db)
      | (Inr i, t) \<Rightarrow> (Inr (), db\<lparr> tb_address_book_entries := t \<rparr>))"

fun insert_entries ::
    "sql_env \<Rightarrow> gotime \<Rightarrow> int \<Rightarrow> AddressBookEntry list \<Rightarrow> MySQL \<Rightarrow> unit sql_result" where
  "insert_entries env now bid [] db = (Inr (), db)"
| "insert_entries env now bid (e # es) db =
     (case insert_entry env now bid (abe_DeviceID e) (nullString (abe_Alias e)) db of
        (Inl err, db1) \<Rightarrow> (Inl err, db1)
      | (Inr u, db1) \<Rightarrow> insert_entries env now bid es db1)"

definition CreateAddressBook_sql :: "sql_env \<Rightarrow> gotime \<Rightarrow> AddressBook \<Rightarrow> MySQL \<Rightarrow> AddressBook sql_result" where
  "CreateAddressBook_sql env now book db =
     (let name = TrimSpace (ab_Name book)
      in if name = [] then (Inl (ErrMsg ''name is required''), db)
         else if list_ex (\<lambda>e. abe_DeviceID e \<le> 0) (ab_Entries book)
         then (Inl (ErrMsg ''entry device_id must be positive''), db)
         else (case sql_insert env qab_id
                  [varchar env 255 name, text_null (nullString (ab_Description book)),
                   unique_in env qab_name name (rows (tb_address_books db)),
                   references_null (nullInt64 (ab_OwnerUserID book)) (user_ids db)]
                  (\<lambda>i. \<lparr> qab_id = i, qab_name = name, qab_description = nullString (ab_Description book),
                          qab_owner_user_id = nullInt64 (ab_OwnerUserID book),
                          qab_created_at = now, qab_updated_at = now \<rparr>) (tb_address_books db) of
                 (Inl e, t) \<Rightarrow> (Inl e, db)
               | (Inr i, t) \<Rightarrow>
                   (case insert_entries env now i (ab_Entries book) (db\<lparr> tb_address_books := t \<rparr>) of
                      (Inl e, db1) \<Rightarrow> (Inl e, db)
                    | (Inr u, db1) \<Rightarrow> (findAddressBookByID i db1, db1))))"

definition ListAddressBookEntries_sql :: "int \<Rightarrow> MySQL \<Rightarrow> repo_error + AddressBookEntry list" where
  "ListAddressBookEntries_sql bid db =
     (case findAddressBookByID bid db of Inl e \<Rightarrow> Inl e | Inr b \<Rightarrow> Inr (ab_Entries b))"

definition touch_address_book :: "sql_env \<Rightarrow> gotime \<Rightarrow> int \<Rightarrow> MySQL \<Rightarrow> MySQL" where
  "touch_address_book env now bid db =
     db\<lparr> tb_address_books := snd (sql_update env [] (\<lambda>r. qab_id r = bid)
            (\<lambda>r. r\<lparr> qab_updated_at := now \<rparr>) (tb_address_books db)) \<rparr>"

definition AddAddressBookEntry_sql ::
    "sql_env \<Rightarrow> gotime \<Rightarrow> int \<Rightarrow> AddressBookEntry \<Rightarrow> MySQL \<Rightarrow> AddressBook sql_result" where
  "AddAddressBookEntry_sql env now bid entry db =
     (if bid \<le> 0 \<or> abe_DeviceID entry \<le> 0
      then (Inl (ErrMsg ''book_id and device_id must be positive''), db)
      else (case findAddressBookByID bid db of
              Inl e \<Rightarrow> (Inl e, db)
            | Inr b \<Rightarrow>
                (case insert_entry env now bid (abe_DeviceID entry)
                        (nullString (TrimSpace (abe_Alias entry))) db of
                   (Inl e, db1) \<Rightarrow> (Inl e, db)
                 | (Inr u, db1) \<Rightarrow>
                     let db2 = touch_address_book env now bid db1
                     in (findAddressBookByID bid db2, db2))))"

definition RemoveAddressBookEntry_sql ::
    "sql_env \<Rightarrow> gotime \<Rightarrow> int \<Rightarrow> int \<Rightarrow> MySQL \<Rightarrow> AddressBook sql_result" where
  "RemoveAddressBookEntry_sql env now bid eid db =
     (if bid \<le> 0 \<or> eid \<le> 0 then (Inl (ErrMsg ''book_id and entry_id must be positive''), db)
      else (case sql_delete env [] (\<lambda>r. qabe_address_book_id r = bid \<and> qabe_id r = eid)
                   (tb_address_book_entries db) of
              (Inl e, t) \<Rightarrow> (Inl e, db)
            | (Inr n, t) \<Rightarrow>
                if n = 0 then (Inl ErrNotFound, db)
                else let db2 = touch_address_book env now bid (db\<lparr> tb_address_book_entries := t \<rparr>)
                     in (findAddressBookByID bid db2, db2)))"

end
