(* ===== verification/Mysql_Relays.thy ===== *)
theory Mysql_Relays
  imports Mysql_Devices
begin

text \<open>The relay part of the MySQL repository (\<^verbatim>\<open>mysql.go\<close>): relay nodes and relay grants.\<close>

section \<open>Relay nodes\<close>

abbreviation relay_ids :: "MySQL \<Rightarrow> int list" where
  "relay_ids db \<equiv> map qr_id (rows (tb_relays db))"

definition findRelayByID :: "int \<Rightarrow> MySQL \<Rightarrow> repo_error + Relay" where
  "findRelayByID i db = query_row (\<lambda>r. qr_id r = i) scanRelay (tb_relays db)"

definition ListRelays_sql :: "MySQL \<Rightarrow> repo_error + Relay list" where
  "ListRelays_sql db = scan_all scanRelay (take 500 (sort_key qr_id (rows (tb_relays db))))"

text \<open>The values \<^verbatim>\<open>CreateRelay\<close> and \<^verbatim>\<open>UpdateRelay\<close> write, with their defaults.\<close>

definition relay_values :: "Relay \<Rightarrow> Relay" where
  "relay_values relay =
     relay\<lparr> rel_Name := TrimSpace (rel_Name relay), rel_Region := TrimSpace (rel_Region relay),
            rel_Host := TrimSpace (rel_Host relay),
            rel_Port := (if rel_Port relay = 0 then 21117 else rel_Port relay),
            rel_WSPort := (if rel_WSPort relay = 0 then 21119 else rel_WSPort relay),
            rel_Status := (if rel_Status relay = [] then ''active'' else rel_Status relay) \<rparr>"

definition relay_checks :: "sql_env \<Rightarrow> Relay \<Rightarrow> sql_check list" where
  "relay_checks env v =
     [varchar env 255 (rel_Name v), varchar env 120 (rel_Region v), varchar env 255 (rel_Host v),
      int32 (rel_Port v), int32 (rel_WSPort v),
      varchar_null env 128 (nullString (rel_PublicKeyFingerprint v)),
      enum_in env relay_statuses (rel_Status v),
      (1264, opt_ok (\<lambda>n. snd (int32 n)) (nullIntPointer (rel_MaxBandwidthMbps v)))]"

definition CreateRelay_sql :: "sql_env \<Rightarrow> gotime \<Rightarrow> Relay \<Rightarrow> MySQL \<Rightarrow> Relay sql_result" where
  "CreateRelay_sql env now relay db =
     (let v = relay_values relay
      in if rel_Name v = [] \<or> rel_Region v = [] \<or> rel_Host v = []
         then (Inl (ErrMsg ''name, region, and host are required''), db)
         else insert_find
                (sql_insert env qr_id (relay_checks env v)
                  (\<lambda>i. \<lparr> qr_id = i, qr_name = rel_Name v, qr_region = rel_Region v, qr_host = rel_Host v,
                          qr_port = rel_Port v, qr_ws_port = rel_WSPort v,
                          qr_public_key_fingerprint = nullString (rel_PublicKeyFingerprint v),
                          qr_status = enum_col env relay_statuses (rel_Status v),
                          qr_max_bandwidth_mbps = nullIntPointer (rel_MaxBandwidthMbps v),
                          qr_current_sessions = 0, qr_last_health_at = None,
                          qr_created_at = now, qr_updated_at = now \<rparr>) (tb_relays db))
                (\<lambda>t. db\<lparr> tb_relays := t \<rparr>) findRelayByID db)"

definition UpdateRelay_sql :: "sql_env \<Rightarrow> gotime \<Rightarrow> int \<Rightarrow> Relay \<Rightarrow> MySQL \<Rightarrow> Relay sql_result" where
  "UpdateRelay_sql env now i relay db =
     (let v = relay_values relay
      in if rel_Name v = [] \<or> rel_Region v = [] \<or> rel_Host v = []
         then (Inl (ErrMsg ''name, region, and host are required''), db)
         else update_find
                (sql_update env (relay_checks env v @ [timestamp env now]) (\<lambda>r. qr_id r = i)
                  (\<lambda>r. r\<lparr> qr_name := rel_Name v, qr_region := rel_Region v, qr_host := rel_Host v,
                          qr_port := rel_Port v, qr_ws_port := rel_WSPort v,
                          qr_public_key_fingerprint := nullString (rel_PublicKeyFingerprint v),
                          qr_status := enum_col env relay_statuses (rel_Status v),
                          qr_max_bandwidth_mbps := nullIntPointer (rel_MaxBandwidthMbps v),
                          qr_updated_at := time_col env now \<rparr>) (tb_relays db))
                (\<lambda>t. db\<lparr> tb_relays := t \<rparr>) (findRelayByID i) db)"

definition RelayHeartbeat_sql ::
    "sql_env \<Rightarrow> gotime \<Rightarrow> int \<Rightarrow> int option \<Rightarrow> string \<Rightarrow> MySQL \<Rightarrow> Relay sql_result" where
  "RelayHeartbeat_sql env now i currentSessions status db =
     (let beat = \<lambda>r. r\<lparr> qr_last_health_at := Some (time_col env now), qr_updated_at := time_col env now \<rparr>;
          stat = \<lambda>r. r\<lparr> qr_status := enum_col env relay_statuses status \<rparr>;
          run = \<lambda>cs f. update_find
                  (sql_update env (cs @ [timestamp env now]) (\<lambda>r. qr_id r = i) f (tb_relays db))
                  (\<lambda>t. db\<lparr> tb_relays := t \<rparr>) (findRelayByID i) db
      in case currentSessions of
           Some n \<Rightarrow>
             if status \<noteq> []
             then run [int32 n, enum_in env relay_statuses status]
                    (\<lambda>r. beat (stat (r\<lparr> qr_current_sessions := n \<rparr>)))
             else run [int32 n] (\<lambda>r. beat (r\<lparr> qr_current_sessions := n \<rparr>))
         | None \<Rightarrow>
             if status \<noteq> [] then run [enum_in env relay_statuses status] (\<lambda>r. beat (stat r))
             else run [] beat)"

definition DisableRelay_sql :: "sql_env \<Rightarrow> int \<Rightarrow> gotime \<Rightarrow> MySQL \<Rightarrow> Relay sql_result" where
  "DisableRelay_sql env i at db =
     update_find
       (sql_update env [timestamp env at] (\<lambda>r. qr_id r = i)
         (\<lambda>r. r\<lparr> qr_status := ''disabled'', qr_updated_at := time_col env at \<rparr>) (tb_relays db))
       (\<lambda>t. db\<lparr> tb_relays := t \<rparr>) (findRelayByID i) db"

section \<open>Relay grants\<close>

definition findRelayGrantByID :: "sql_env \<Rightarrow> int \<Rightarrow> MySQL \<Rightarrow> repo_error + RelayGrant" where
  "findRelayGrantByID env i db = query_row (\<lambda>r. qg_id r = i) (scanRelayGrant env) (tb_relay_grants db)"

definition FindRelayGrantByGrantID_sql :: "sql_env \<Rightarrow> string \<Rightarrow> MySQL \<Rightarrow> repo_error + RelayGrant" where
  "FindRelayGrantByGrantID_sql env gid db =
     query_row (\<lambda>r. ci_eq env (qg_grant_id r) (TrimSpace gid)) (scanRelayGrant env) (tb_relay_grants db)"

definition CreateRelayGrant_sql :: "sql_env \<Rightarrow> gotime \<Rightarrow> RelayGrant \<Rightarrow> MySQL \<Rightarrow> RelayGrant sql_result" where
  "CreateRelayGrant_sql env now grant db =
     (let gid = TrimSpace (rg_GrantID grant);
          target = TrimSpace (rg_TargetRustDeskID grant);
          nonce = TrimSpace (rg_Nonce grant)
      in if gid = [] \<or> nonce = [] \<or> IsZero (rg_ExpiresAt grant) \<or> rg_AllowedRelays grant = []
         then (Inl (ErrMsg ''grant_id, nonce, expires_at, and allowed_relays are required''), db)
         else let status = (if rg_Status grant = [] then ''issued'' else rg_Status grant);
                  js = se_strings env (rg_AllowedRelays grant)
              in insert_find
                   (sql_insert env qg_id
                     [varchar env 128 gid, varchar_null env 128 (nullString target), json_text env js,
                      timestamp env (rg_ExpiresAt grant), varchar env 128 nonce,
                      enum_in env grant_statuses status,
                      unique_in env qg_grant_id gid (rows (tb_relay_grants db)),
                      references_null (nullInt64 (rg_UserID grant)) (user_ids db),
                      references_null (nullInt64 (rg_ControllerDeviceID grant)) (device_ids db),
                      references_null (nullInt64 (rg_TargetDeviceID grant)) (device_ids db),
                      references_null (nullInt64 (rg_RelayID grant)) (relay_ids db)]
                     (\<lambda>i. \<lparr> qg_id = i, qg_grant_id = gid, qg_user_id = nullInt64 (rg_UserID grant),
                             qg_controller_device_id = nullInt64 (rg_ControllerDeviceID grant),
                             qg_target_device_id = nullInt64 (rg_TargetDeviceID grant),
                             qg_target_rustdesk_id = nullString target,
                             qg_relay_id = nullInt64 (rg_RelayID grant),
                             qg_allowed_relays = Some (json_col env js),
                             qg_expires_at = time_col env (rg_ExpiresAt grant), qg_nonce = nonce,
                             qg_status = enum_col env grant_statuses status,
                             qg_created_at = now, qg_used_at = None \<rparr>) (tb_relay_grants db))
                   (\<lambda>t. db\<lparr> tb_relay_grants := t \<rparr>) (findRelayGrantByID env) db)"

definition UpdateRelayGrantStatus_sql ::
    "sql_env \<Rightarrow> string \<Rightarrow> string \<Rightarrow> gotime option \<Rightarrow> MySQL \<Rightarrow> RelayGrant sql_result" where
  "UpdateRelayGrantStatus_sql env gid status usedAt db =
     (if TrimSpace status = [] then (Inl (ErrMsg ''status is required''), db)
      else update_find
             (sql_update env
               [enum_in env grant_statuses (TrimSpace status), timestamp_null env (nullTime usedAt)]
               (\<lambda>r. ci_eq env (qg_grant_id r) (TrimSpace gid))
               (\<lambda>r. r\<lparr> qg_status := enum_col env grant_statuses (TrimSpace status),
                       qg_used_at := (case nullTime usedAt of Some t \<Rightarrow> Some (time_col env t)
                                      | None \<Rightarrow> qg_used_at r) \<rparr>) (tb_relay_grants db))
             (\<lambda>t. db\<lparr> tb_relay_grants := t \<rparr>) (FindRelayGrantByGrantID_sql env gid) db)"

end
