(* ===== verification/Mysql_Policies.thy ===== *)
theory Mysql_Policies
  imports Mysql_Relays
begin

text \<open>
  The policy part of the MySQL repository (\<^verbatim>\<open>mysql.go\<close>): access rules, control roles with
  their permissions, and strategies with their assignments. Roles and strategies are written
  in a transaction: an error gives back the tables as they were.
\<close>

section \<open>Existence\<close>

definition requireRowExists :: "string \<Rightarrow> int \<Rightarrow> MySQL \<Rightarrow> repo_error option" where
  "requireRowExists table i db =
     (let row = \<lambda>ids. if i \<in> set ids then None else Some ErrNotFound
      in if table = ''access_rules'' then row (map ar_ID (rows (tb_access_rules db)))
         else if table = ''control_roles'' then row (map qcr_id (rows (tb_control_roles db)))
         else if table = ''strategies'' then row (map qst_id (rows (tb_strategies db)))
         else if table = ''build_profiles'' then row (map qbp_id (rows (tb_build_profiles db)))
         else Some (ErrMsg ''unknown table for existence check''))"

text \<open>
  \<^verbatim>\<open>if affected == 0 { if err := requireRowExists(...); err != nil { return err } }\<close>, the rest
  of the method on the tables after the update otherwise.
\<close>

definition update_exists ::
    "(repo_error + nat) \<times> 't \<Rightarrow> ('t \<Rightarrow> MySQL) \<Rightarrow> string \<Rightarrow> int \<Rightarrow> (MySQL \<Rightarrow> 'a sql_result) \<Rightarrow> MySQL \<Rightarrow>
       'a sql_result" where
  "update_exists q put table i rest db =
     (case q of
        (Inl e, t) \<Rightarrow> (Inl e, db)
      | (Inr n, t) \<Rightarrow>
          if n = 0
          then (case requireRowExists table i (put t) of
                  Some e \<Rightarrow> (Inl e, db)
                | None \<Rightarrow> rest (put t))
          else rest (put t))"

section \<open>Access rules\<close>

definition findAccessRuleByID :: "int \<Rightarrow> MySQL \<Rightarrow> repo_error + AccessRule" where
  "findAccessRuleByID i db = query_row (\<lambda>r. ar_ID r = i) scanAccessRule (tb_access_rules db)"

definition ListAccessRules_sql :: "MySQL \<Rightarrow> repo_error + AccessRule list" where
  "ListAccessRules_sql db =
     scan_all scanAccessRule
       (take 500 (newest_first ar_Priority (sort_key ar_ID (rows (tb_access_rules db)))))"

definition rule_incomplete :: "AccessRule \<Rightarrow> bool" where
  "rule_incomplete r \<longleftrightarrow> ar_SubjectType r = [] \<or> ar_SubjectID r \<le> 0 \<or> ar_TargetType r = [] \<or>
     ar_TargetID r \<le> 0 \<or> ar_Effect r = []"

definition rule_checks :: "sql_env \<Rightarrow> AccessRule \<Rightarrow> sql_check list" where
  "rule_checks env r =
     [enum_in env rule_subjects (ar_SubjectType r), enum_in env rule_targets (ar_TargetType r),
      enum_in env rule_effects (ar_Effect r), int32 (ar_Priority r)]"

definition CreateAccessRule_sql :: "sql_env \<Rightarrow> gotime \<Rightarrow> AccessRule \<Rightarrow> MySQL \<Rightarrow> AccessRule sql_result" where
  "CreateAccessRule_sql env now rule db =
     (if rule_incomplete rule
      then (Inl (ErrMsg ''subject_type, subject_id, target_type, target_id, and effect are required''), db)
      else insert_find
             (sql_insert env ar_ID (rule_checks env rule)
               (\<lambda>i. \<lparr> ar_ID = i, ar_SubjectType = enum_col env rule_subjects (ar_SubjectType rule),
                       ar_SubjectID = ar_SubjectID rule,
                       ar_TargetType = enum_col env rule_targets (ar_TargetType rule),
                       ar_TargetID = ar_TargetID rule,
                       ar_Effect = enum_col env rule_effects (ar_Effect rule),
                       ar_Priority = ar_Priority rule, ar_Enabled = ar_Enabled rule,
                       ar_CreatedAt = now, ar_UpdatedAt = now \<rparr>) (tb_access_rules db))
             (\<lambda>t. db\<lparr> tb_access_rules := t \<rparr>) findAccessRuleByID db)"

definition UpdateAccessRule_sql :: "sql_env \<Rightarrow> gotime \<Rightarrow> int \<Rightarrow> AccessRule \<Rightarrow> MySQL \<Rightarrow> AccessRule sql_result" where
  "UpdateAccessRule_sql env now i rule db =
     (if rule_incomplete rule
      then (Inl (ErrMsg ''subject_type, subject_id, target_type, target_id, and effect are required''), db)
      else update_exists
             (sql_update env (rule_checks env rule @ [timestamp env now]) (\<lambda>r. ar_ID r = i)
               (\<lambda>r. r\<lparr> ar_SubjectType := enum_col env rule_subjects (ar_SubjectType rule),
                       ar_SubjectID := ar_SubjectID rule,
                       ar_TargetType := enum_col env rule_targets (ar_TargetType rule),
                       ar_TargetID := ar_TargetID rule,
                       ar_Effect := enum_col env rule_effects (ar_Effect rule),
                       ar_Priority := ar_Priority rule, ar_Enabled := ar_Enabled rule,
                       ar_UpdatedAt := time_col env now \<rparr>) (tb_access_rules db))
             (\<lambda>t. db\<lparr> tb_access_rules := t \<rparr>) ''access_rules'' i
             (\<lambda>db1. (findAccessRuleByID i db1, db1)) db)"

definition DeleteAccessRule_sql :: "sql_env \<Rightarrow> int \<Rightarrow> MySQL \<Rightarrow> unit sql_result" where
  "DeleteAccessRule_sql env i db =
     (case sql_delete env [] (\<lambda>r. ar_ID r = i) (tb_access_rules db) of
        (Inl e, t) \<Rightarrow> (Inl e, db)
      | (Inr n, t) \<Rightarrow>
          if n = 0 then (Inl ErrNotFound, db) else (Inr (), db\<lparr> tb_access_rules := t \<rparr>))"

section \<open>Control roles\<close>

definition listControlRolePermissions :: "int \<Rightarrow> MySQL \<Rightarrow> repo_error + ControlRolePermission list" where
  "listControlRolePermissions i db =
     scan_all scanControlRolePermission
       (sort_key crp_ID (filter (\<lambda>p. crp_RoleID p = i) (rows (tb_control_role_permissions db))))"

definition scan_control_role :: "MySQL \<Rightarrow> control_role_row \<Rightarrow> repo_error + ControlRole" where
  "scan_control_role db r =
     (case scanControlRole r of
        Inl e \<Rightarrow> Inl e
      | Inr c \<Rightarrow> (case listControlRolePermissions (cr_ID c) db of
                   Inl e \<Rightarrow> Inl e
                 | Inr ps \<Rightarrow> Inr (c\<lparr> cr_Permissions := ps \<rparr>)))"

definition findControlRoleByID :: "int \<Rightarrow> MySQL \<Rightarrow> repo_error + ControlRole" where
  "findControlRoleByID i db = query_row (\<lambda>r. qcr_id r = i) (scan_control_role db) (tb_control_roles db)"

definition ListControlRoles_sql :: "MySQL \<Rightarrow> repo_error + ControlRole list" where
  "ListControlRoles_sql db =
     scan_all (scan_control_role db) (take 500 (newest_first qcr_id (rows (tb_control_roles db))))"

fun insert_permissions ::
    "sql_env \<Rightarrow> int \<Rightarrow> ControlRolePermission list \<Rightarrow> MySQL \<Rightarrow> unit sql_result" where
  "insert_permissions env rid [] db = (Inr (), db)"
| "insert_permissions env rid (p # ps) db =
     (case sql_insert env crp_ID
        [varchar env 120 (crp_PermissionKey p), enum_in env permission_modes (crp_Mode p),
         references rid (map qcr_id (rows (tb_control_roles db)))]
        (\<lambda>i. \<lparr> crp_ID = i, crp_RoleID = rid, crp_PermissionKey = crp_PermissionKey p,
                crp_Mode = enum_col env permission_modes (crp_Mode p) \<rparr>)
        (tb_control_role_permissions db) of
        (Inl e, t) \<Rightarrow> (Inl e, db)
      | (Inr i, t) \<Rightarrow> insert_permissions env rid ps (db\<lparr> tb_control_role_permissions := t \<rparr>))"

definition delete_permissions :: "sql_env \<Rightarrow> int \<Rightarrow> MySQL \<Rightarrow> MySQL" where
  "delete_permissions env i db =
     db\<lparr> tb_control_role_permissions :=
           snd (sql_delete env [] (\<lambda>p. crp_RoleID p = i) (tb_control_role_permissions db)) \<rparr>"

definition CreateControlRole_sql :: "sql_env \<Rightarrow> gotime \<Rightarrow> ControlRole \<Rightarrow> MySQL \<Rightarrow> ControlRole sql_result" where
  "CreateControlRole_sql env now role db =
     (let name = TrimSpace (cr_Name role)
      in if name = [] then (Inl (ErrMsg ''name is required''), db)
         else (case sql_insert env qcr_id
                  [varchar env 255 name, text_null (nullString (cr_Description role)),
                   unique_in env qcr_name name (rows (tb_control_roles db))]
                  (\<lambda>i. \<lparr> qcr_id = i, qcr_name = name, qcr_description = nullString (cr_Description role),
                          qcr_enabled = cr_Enabled role, qcr_created_at = now,
                          qcr_updated_at = now \<rparr>) (tb_control_roles db) of
                 (Inl e, t) \<Rightarrow> (Inl e, db)
               | (Inr i, t) \<Rightarrow>
                   (case insert_permissions env i (cr_Permissions role) (db\<lparr> tb_control_roles := t \<rparr>) of
                      (Inl e, db1) \<Rightarrow> (Inl e, db)
                    | (Inr u, db1) \<Rightarrow> (findControlRoleByID i db1, db1))))"

definition UpdateControlRole_sql ::
    "sql_env \<Rightarrow> gotime \<Rightarrow> int \<Rightarrow> ControlRole \<Rightarrow> MySQL \<Rightarrow> ControlRole sql_result" where
  "UpdateControlRole_sql env now i role db =
     (let name = TrimSpace (cr_Name role)
      in if name = [] then (Inl (ErrMsg ''name is required''), db)
         else update_exists
                (sql_update env
                  [varchar env 255 name, text_null (nullString (cr_Description role)), timestamp env now,
                   unique_but env qcr_name name (\<lambda>r. qcr_id r = i) (rows (tb_control_roles db))]
                  (\<lambda>r. qcr_id r = i)
                  (\<lambda>r. r\<lparr> qcr_name := name, qcr_description := nullString (cr_Description role),
                          qcr_enabled := cr_Enabled role, qcr_updated_at := time_col env now \<rparr>)
                  (tb_control_roles db))
                (\<lambda>t. db\<lparr> tb_control_roles := t \<rparr>) ''control_roles'' i
                (\<lambda>db1. case insert_permissions env i (cr_Permissions role) (delete_permissions env i db1) of
                          (Inl e, db2) \<Rightarrow> (Inl e, db)
                        | (Inr u, db2) \<Rightarrow> (findControlRoleByID i db2, db2)) db)"

definition DeleteControlRole_sql :: "sql_env \<Rightarrow> int \<Rightarrow> MySQL \<Rightarrow> unit sql_result" where
  "DeleteControlRole_sql env i db =
     (let db1 = delete_permissions env i db
      in case sql_delete env
                [(1451, \<not> list_ex (\<lambda>p. crp_RoleID p = i) (rows (tb_control_role_permissions db1)))]
                (\<lambda>r. qcr_id r = i) (tb_control_roles db1) of
           (Inl e, t) \<Rightarrow> (Inl e, db)
         | (Inr n, t) \<Rightarrow>
             if n = 0 then (Inl ErrNotFound, db) else (Inr (), db1\<lparr> tb_control_roles := t \<rparr>))"

section \<open>Strategies\<close>

definition listStrategyAssignments :: "int \<Rightarrow> MySQL \<Rightarrow> repo_error + StrategyAssignment list" where
  "listStrategyAssignments i db =
     scan_all scanStrategyAssignment
       (sort_key sa_ID (filter (\<lambda>a. sa_StrategyID a = i) (rows (tb_strategy_assignments db))))"

definition scan_strategy :: "MySQL \<Rightarrow> strategy_row \<Rightarrow> repo_error + Strategy" where
  "scan_strategy db r =
     (case scanStrategy r of
        Inl e \<Rightarrow> Inl e
      | Inr s \<Rightarrow> (case listStrategyAssignments (st_ID s) db of
                   Inl e \<Rightarrow> Inl e
                 | Inr as \<Rightarrow> Inr (s\<lparr> st_Assignments := as \<rparr>)))"

definition findStrategyByID :: "int \<Rightarrow> MySQL \<Rightarrow> repo_error + Strategy" where
  "findStrategyByID i db = query_row (\<lambda>r. qst_id r = i) (scan_strategy db) (tb_strategies db)"

definition ListStrategies_sql :: "MySQL \<Rightarrow> repo_error + Strategy list" where
  "ListStrategies_sql db =
     scan_all (scan_strategy db) (take 500 (newest_first qst_id (rows (tb_strategies db))))"

definition insert_assignment ::
    "sql_env \<Rightarrow> gotime \<Rightarrow> int \<Rightarrow> StrategyAssignment \<Rightarrow> MySQL \<Rightarrow> unit sql_result" where
  "insert_assignment env now sid a db =
     (case sql_insert env sa_ID
        [enum_in env assignment_targets (sa_TargetType a),
         references sid (map qst_id (rows (tb_strategies db)))]
        (\<lambda>i. \<lparr> sa_ID = i, sa_StrategyID = sid,
                sa_TargetType = enum_col env assignment_targets (sa_TargetType a),
                sa_TargetID = sa_TargetID a, sa_CreatedAt = now \<rparr>) (tb_strategy_assignments db) of
        (Inl e, t) \<Rightarrow> (Inl e, db)
      | (Inr i, t) \<Rightarrow> (Inr (), db\<lparr> tb_strategy_assignments := t \<rparr>))"

fun insert_assignments ::
    "sql_env \<Rightarrow> gotime \<Rightarrow> int \<Rightarrow> StrategyAssignment list \<Rightarrow> MySQL \<Rightarrow> unit sql_result" where
  "insert_assignments env now sid [] db = (Inr (), db)"
| "insert_assignments env now sid (a # as) db =
     (case insert_assignment env now sid a db of
        (Inl e, db1) \<Rightarrow> (Inl e, db1)
      | (Inr u, db1) \<Rightarrow> insert_assignments env now sid as db1)"

definition delete_assignments :: "sql_env \<Rightarrow> int \<Rightarrow> MySQL \<Rightarrow> MySQL" where
  "delete_assignments env i db =
     db\<lparr> tb_strategy_assignments :=
           snd (sql_delete env [] (\<lambda>a. sa_StrategyID a = i) (tb_strategy_assignments db)) \<rparr>"

definition CreateStrategy_sql :: "sql_env \<Rightarrow> gotime \<Rightarrow> Strategy \<Rightarrow> MySQL \<Rightarrow> Strategy sql_result" where
  "CreateStrategy_sql env now s db =
     (let name = TrimSpace (st_Name s)
      in if name = [] \<or> TrimSpace (st_SettingsJSON s) = []
         then (Inl (ErrMsg ''name and settings_json are required''), db)
         else (case sql_insert env qst_id
                  [varchar env 255 name, text_null (nullString (st_Description s)),
                   json_text env (st_SettingsJSON s),
                   unique_in env qst_name name (rows (tb_strategies db))]
                  (\<lambda>i. \<lparr> qst_id = i, qst_name = name, qst_description = nullString (st_Description s),
                          qst_enabled = st_Enabled s, qst_settings_json = json_col env (st_SettingsJSON s),
                          qst_created_at = now, qst_updated_at = now \<rparr>) (tb_strategies db) of
                 (Inl e, t) \<Rightarrow> (Inl e, db)
               | (Inr i, t) \<Rightarrow>
                   (case insert_assignments env now i (st_Assignments s) (db\<lparr> tb_strategies := t \<rparr>) of
                      (Inl e, db1) \<Rightarrow> (Inl e, db)
                    | (Inr u, db1) \<Rightarrow> (findStrategyByID i db1, db1))))"

definition UpdateStrategy_sql ::
    "sql_env \<Rightarrow> gotime \<Rightarrow> int \<Rightarrow> Strategy \<Rightarrow> MySQL \<Rightarrow> Strategy sql_result" where
  "UpdateStrategy_sql env now i s db =
     (let name = TrimSpace (st_Name s)
      in if name = [] \<or> TrimSpace (st_SettingsJSON s) = []
         then (Inl (ErrMsg ''name and settings_json are required''), db)
         else update_exists
                (sql_update env
                  [varchar env 255 name, text_null (nullString (st_Description s)),
                   json_text env (st_SettingsJSON s), timestamp env now,
                   unique_but env qst_name name (\<lambda>r. qst_id r = i) (rows (tb_strategies db))]
                  (\<lambda>r. qst_id r = i)
                  (\<lambda>r. r\<lparr> qst_name := name, qst_description := nullString (st_Description s),
                          qst_enabled := st_Enabled s,
                          qst_settings_json := json_col env (st_SettingsJSON s),
                          qst_updated_at := time_col env now \<rparr>) (tb_strategies db))
                (\<lambda>t. db\<lparr> tb_strategies := t \<rparr>) ''strategies'' i
                (\<lambda>db1. case insert_assignments env now i (st_Assignments s) (delete_assignments env i db1) of
                          (Inl e, db2) \<Rightarrow> (Inl e, db)
                        | (Inr u, db2) \<Rightarrow> (findStrategyByID i db2, db2)) db)"

definition DeleteStrategy_sql :: "sql_env \<Rightarrow> int \<Rightarrow> MySQL \<Rightarrow> unit sql_result" where
  "DeleteStrategy_sql env i db =
     (let db1 = delete_assignments env i db
      in case sql_delete env
                [(1451, \<not> list_ex (\<lambda>a. sa_StrategyID a = i) (rows (tb_strategy_assignments db1)))]
                (\<lambda>r. qst_id r = i) (tb_strategies db1) of
           (Inl e, t) \<Rightarrow> (Inl e, db)
         | (Inr n, t) \<Rightarrow>
             if n = 0 then (Inl ErrNotFound, db) else (Inr (), db1\<lparr> tb_strategies := t \<rparr>))"

definition AddStrategyAssignment_sql ::
    "sql_env \<Rightarrow> gotime \<Rightarrow> int \<Rightarrow> StrategyAssignment \<Rightarrow> MySQL \<Rightarrow> Strategy sql_result" where
  "AddStrategyAssignment_sql env now sid a db =
     (if sa_TargetType a = [] \<or> sa_TargetID a \<le> 0
      then (Inl (ErrMsg ''target_type and target_id are required''), db)
      else (case requireRowExists ''strategies'' sid db of
              Some e \<Rightarrow> (Inl e, db)
            | None \<Rightarrow>
                (case insert_assignment env now sid a db of
                   (Inl e, db1) \<Rightarrow> (Inl e, db)
                 | (Inr u, db1) \<Rightarrow> (findStrategyByID sid db1, db1))))"

definition RemoveStrategyAssignment_sql :: "sql_env \<Rightarrow> int \<Rightarrow> int \<Rightarrow> MySQL \<Rightarrow> Strategy sql_result" where
  "RemoveStrategyAssignment_sql env sid aid db =
     (case sql_delete env [] (\<lambda>a. sa_StrategyID a = sid \<and> sa_ID a = aid) (tb_strategy_assignments db) of
        (Inl e, t) \<Rightarrow> (Inl e, db)
      | (Inr n, t) \<Rightarrow>
          if n = 0
          then (case requireRowExists ''strategies'' sid db of
                  Some e \<Rightarrow> (Inl e, db)
                | None \<Rightarrow> (Inl ErrNotFound, db))
          else let db1 = db\<lparr> tb_strategy_assignments := t \<rparr> in (findStrategyByID sid db1, db1))"

end
