(* ===== verification/Mysql_Builds.thy ===== *)
theory Mysql_Builds
  imports Mysql_Policies Memory_Builds
begin

text \<open>
  The build part of the MySQL repository (\<^verbatim>\<open>mysql.go\<close>): profiles, jobs and artifacts. A job
  is claimed in a transaction that locks its row (\<^verbatim>\<open>FOR UPDATE\<close>), so the claim is one step.
\<close>

section \<open>Profiles\<close>

definition FindBuildProfileByID_sql :: "int \<Rightarrow> MySQL \<Rightarrow> repo_error + BuildProfile" where
  "FindBuildProfileByID_sql i db = query_row (\<lambda>r. qbp_id r = i) scanBuildProfile (tb_build_profiles db)"

definition ListBuildProfiles_sql :: "MySQL \<Rightarrow> repo_error + BuildProfile list" where
  "ListBuildProfiles_sql db =
     scan_all scanBuildProfile (take 500 (newest_first qbp_id (rows (tb_build_profiles db))))"

definition profile_checks :: "sql_env \<Rightarrow> BuildProfile \<Rightarrow> sql_check list" where
  "profile_checks env p =
     [varchar env 255 (bp_Name p), varchar env 255 (bp_AppName p),
      varchar_null env 255 (nullString (bp_Vendor p)), varchar env 255 (bp_BundleID p),
      varchar_null env 255 (nullString (bp_ProductName p)), text_null (nullString (bp_Description p)),
      json_text env (bp_ServerConfigJSON p), json_text env (bp_BrandingJSON p),
      json_text env (bp_PolicyJSON p), json_text env (bp_PlatformsJSON p),
      json_text env (bp_SigningJSON p), json_text env (bp_SourceJSON p)]"

definition CreateBuildProfile_sql :: "sql_env \<Rightarrow> gotime \<Rightarrow> BuildProfile \<Rightarrow> MySQL \<Rightarrow> BuildProfile sql_result" where
  "CreateBuildProfile_sql env now p db =
     (if bp_Name p = [] \<or> bp_AppName p = [] \<or> bp_BundleID p = []
      then (Inl (ErrMsg ''name, app_name, and bundle_id are required''), db)
      else insert_find
             (sql_insert env qbp_id
               (profile_checks env p @ [references (bp_CreatedBy p) (user_ids db)])
               (\<lambda>i. \<lparr> qbp_id = i, qbp_name = bp_Name p, qbp_app_name = bp_AppName p,
                       qbp_vendor = nullString (bp_Vendor p), qbp_bundle_id = bp_BundleID p,
                       qbp_product_name = nullString (bp_ProductName p),
                       qbp_description = nullString (bp_Description p),
                       qbp_server_config_json = json_col env (bp_ServerConfigJSON p),
                       qbp_branding_json = json_col env (bp_BrandingJSON p),
                       qbp_policy_json = json_col env (bp_PolicyJSON p),
                       qbp_platforms_json = json_col env (bp_PlatformsJSON p),
                       qbp_signing_json = json_col env (bp_SigningJSON p),
                       qbp_source_json = Some (json_col env (bp_SourceJSON p)),
                       qbp_created_by = bp_CreatedBy p, qbp_created_at = now,
                       qbp_updated_at = now \<rparr>) (tb_build_profiles db))
             (\<lambda>t. db\<lparr> tb_build_profiles := t \<rparr>) FindBuildProfileByID_sql db)"

definition UpdateBuildProfile_sql ::
    "sql_env \<Rightarrow> gotime \<Rightarrow> int \<Rightarrow> BuildProfile \<Rightarrow> MySQL \<Rightarrow> BuildProfile sql_result" where
  "UpdateBuildProfile_sql env now i p db =
     (if bp_Name p = [] \<or> bp_AppName p = [] \<or> bp_BundleID p = []
      then (Inl (ErrMsg ''name, app_name, and bundle_id are required''), db)
      else update_exists
             (sql_update env (profile_checks env p @ [timestamp env now]) (\<lambda>r. qbp_id r = i)
               (\<lambda>r. r\<lparr> qbp_name := bp_Name p, qbp_app_name := bp_AppName p,
                       qbp_vendor := nullString (bp_Vendor p), qbp_bundle_id := bp_BundleID p,
                       qbp_product_name := nullString (bp_ProductName p),
                       qbp_description := nullString (bp_Description p),
                       qbp_server_config_json := json_col env (bp_ServerConfigJSON p),
                       qbp_branding_json := json_col env (bp_BrandingJSON p),
                       qbp_policy_json := json_col env (bp_PolicyJSON p),
                       qbp_platforms_json := json_col env (bp_PlatformsJSON p),
                       qbp_signing_json := json_col env (bp_SigningJSON p),
                       qbp_source_json := Some (json_col env (bp_SourceJSON p)),
                       qbp_updated_at := time_col env now \<rparr>) (tb_build_profiles db))
             (\<lambda>t. db\<lparr> tb_build_profiles := t \<rparr>) ''build_profiles'' i
             (\<lambda>db1. (FindBuildProfileByID_sql i db1, db1)) db)"

definition DeleteBuildProfile_sql :: "sql_env \<Rightarrow> int \<Rightarrow> MySQL \<Rightarrow> unit sql_result" where
  "DeleteBuildProfile_sql env i db =
     (let jobCount = length (filter (\<lambda>j. qbj_profile_id j = i) (rows (tb_build_jobs db)))
      in if jobCount > 0 then (Inl ErrConflict, db)
         else (case sql_delete env
                      [(1451, \<not> list_ex (\<lambda>j. qbj_profile_id j = i) (rows (tb_build_jobs db)))]
                      (\<lambda>r. qbp_id r = i) (tb_build_profiles db) of
                 (Inl e, t) \<Rightarrow> (Inl e, db)
               | (Inr n, t) \<Rightarrow>
                   if n = 0 then (Inl ErrNotFound, db) else (Inr (), db\<lparr> tb_build_profiles := t \<rparr>)))"

section \<open>Jobs\<close>

definition findBuildJobByID :: "int \<Rightarrow> MySQL \<Rightarrow> repo_error + BuildJob" where
  "findBuildJobByID i db = query_row (\<lambda>r. qbj_id r = i) scanBuildJob (tb_build_jobs db)"

definition FindBuildJobByID_sql :: "int \<Rightarrow> MySQL \<Rightarrow> repo_error + BuildJob" where
  "FindBuildJobByID_sql i db = findBuildJobByID i db"

definition ListBuildJobs_sql :: "MySQL \<Rightarrow> repo_error + BuildJob list" where
  "ListBuildJobs_sql db =
     scan_all scanBuildJob (take 500 (newest_first qbj_id (rows (tb_build_jobs db))))"

definition CreateBuildJob_sql :: "sql_env \<Rightarrow> gotime \<Rightarrow> BuildJob \<Rightarrow> MySQL \<Rightarrow> BuildJob sql_result" where
  "CreateBuildJob_sql env now job db =
     (if bj_ProfileID job \<le> 0 \<or> bj_Platform job = []
      then (Inl (ErrMsg ''profile_id and platform are required''), db)
      else let status = (if bj_Status job = [] then BuildJobQueued else bj_Status job)
           in insert_find
                (sql_insert env qbj_id
                  [varchar env 64 (bj_Platform job), enum_in env job_statuses status,
                   varchar_null env 120 (nullString (bj_Runner job)),
                   text_null (nullString (bj_LogPath job)), text_null (nullString (bj_ErrorMessage job)),
                   references (bj_ProfileID job) (map qbp_id (rows (tb_build_profiles db)))]
                  (\<lambda>i. \<lparr> qbj_id = i, qbj_profile_id = bj_ProfileID job, qbj_platform = bj_Platform job,
                          qbj_status = enum_col env job_statuses status,
                          qbj_runner = nullString (bj_Runner job),
                          qbj_log_path = nullString (bj_LogPath job),
                          qbj_error_message = nullString (bj_ErrorMessage job),
                          qbj_created_at = now, qbj_started_at = None, qbj_finished_at = None \<rparr>)
                  (tb_build_jobs db))
                (\<lambda>t. db\<lparr> tb_build_jobs := t \<rparr>) findBuildJobByID db)"

definition ClaimNextBuildJob_sql :: "sql_env \<Rightarrow> string \<Rightarrow> gotime \<Rightarrow> MySQL \<Rightarrow> BuildJob sql_result" where
  "ClaimNextBuildJob_sql env runner at db =
     (case sort_key qbj_id (filter (\<lambda>r. ci_eq env (qbj_status r) ''queued'') (rows (tb_build_jobs db))) of
        [] \<Rightarrow> (Inl ErrNotFound, db)
      | r # rs \<Rightarrow>
          (case sql_update env [varchar env 120 runner, timestamp env at] (\<lambda>j. qbj_id j = qbj_id r)
                  (\<lambda>j. j\<lparr> qbj_status := ''running'', qbj_runner := Some runner,
                          qbj_started_at := Some (time_col env at) \<rparr>) (tb_build_jobs db) of
             (Inl e, t) \<Rightarrow> (Inl e, db)
           | (Inr n, t) \<Rightarrow>
               let db1 = db\<lparr> tb_build_jobs := t \<rparr> in (findBuildJobByID (qbj_id r) db1, db1)))"

definition finishBuildJob_sql ::
    "sql_env \<Rightarrow> int \<Rightarrow> BuildJobStatus \<Rightarrow> string \<Rightarrow> string \<Rightarrow> gotime \<Rightarrow> MySQL \<Rightarrow> BuildJob sql_result" where
  "finishBuildJob_sql env i status logPath message at db =
     update_find
       (sql_update env
         [enum_in env job_statuses status, text_null (nullString logPath),
          text_null (nullString message), timestamp env at] (\<lambda>r. qbj_id r = i)
         (\<lambda>r. r\<lparr> qbj_status := enum_col env job_statuses status, qbj_log_path := nullString logPath,
                 qbj_error_message := nullString message,
                 qbj_finished_at := Some (time_col env at) \<rparr>) (tb_build_jobs db))
       (\<lambda>t. db\<lparr> tb_build_jobs := t \<rparr>) (findBuildJobByID i) db"

definition CompleteBuildJob_sql :: "sql_env \<Rightarrow> int \<Rightarrow> string \<Rightarrow> gotime \<Rightarrow> MySQL \<Rightarrow> BuildJob sql_result" where
  "CompleteBuildJob_sql env i logPath at db =
     finishBuildJob_sql env i BuildJobSucceeded logPath [] at db"

definition FailBuildJob_sql ::
    "sql_env \<Rightarrow> int \<Rightarrow> string \<Rightarrow> string \<Rightarrow> gotime \<Rightarrow> MySQL \<Rightarrow> BuildJob sql_result" where
  "FailBuildJob_sql env i logPath message at db =
     finishBuildJob_sql env i BuildJobFailed logPath message at db"

definition CancelBuildJob_sql :: "sql_env \<Rightarrow> int \<Rightarrow> string \<Rightarrow> gotime \<Rightarrow> MySQL \<Rightarrow> BuildJob sql_result" where
  "CancelBuildJob_sql env i message at db =
     finishBuildJob_sql env i BuildJobCanceled [] message at db"

section \<open>Artifacts\<close>

definition findBuildArtifactByID :: "int \<Rightarrow> MySQL \<Rightarrow> repo_error + BuildArtifact" where
  "findBuildArtifactByID i db = query_row (\<lambda>r. ba_ID r = i) scanBuildArtifact (tb_build_artifacts db)"

definition FindBuildArtifactByID_sql :: "int \<Rightarrow> MySQL \<Rightarrow> repo_error + BuildArtifact" where
  "FindBuildArtifactByID_sql i db = findBuildArtifactByID i db"

definition CreateBuildArtifact_sql :: "sql_env \<Rightarrow> gotime \<Rightarrow> BuildArtifact \<Rightarrow> MySQL \<Rightarrow> BuildArtifact sql_result" where
  "CreateBuildArtifact_sql env now a db =
     (if ba_BuildJobID a \<le> 0 \<or> ba_Platform a = [] \<or> ba_Filename a = []
      then (Inl (ErrMsg ''build_job_id, platform, and filename are required''), db)
      else insert_find
             (sql_insert env ba_ID
               [varchar env 64 (ba_Platform a), varchar env 255 (ba_Filename a),
                text_null (Some (ba_LocalPath a)), varchar env 64 (char_col (ba_SHA256 a)),
                references (ba_BuildJobID a) (map qbj_id (rows (tb_build_jobs db)))]
               (\<lambda>i. a\<lparr> ba_ID := i, ba_SHA256 := char_col (ba_SHA256 a), ba_CreatedAt := now \<rparr>)
               (tb_build_artifacts db))
             (\<lambda>t. db\<lparr> tb_build_artifacts := t \<rparr>) findBuildArtifactByID db)"

definition ListBuildArtifacts_sql :: "int \<Rightarrow> MySQL \<Rightarrow> repo_error + BuildArtifact list" where
  "ListBuildArtifacts_sql jid db =
     scan_all scanBuildArtifact
       (sort_key ba_ID (filter (\<lambda>r. ba_BuildJobID r = jid) (rows (tb_build_artifacts db))))"

end
