(* ===== verification/Mysql_Logs.thy ===== *)
theory Mysql_Logs
  imports Mysql_Builds
begin

text \<open>
  The log and settings part of the MySQL repository (\<^verbatim>\<open>mysql.go\<close>): audit events, connection
  logs, the filtered listings and the system settings. Where a listing sorts by time alone
  the order of rows with the same time is the one of \<open>se_tie\<close>.
\<close>

definition newest_page ::
    "sql_env \<Rightarrow> ('r \<Rightarrow> int) \<Rightarrow> ('r \<Rightarrow> gotime) \<Rightarrow> int \<Rightarrow> int \<Rightarrow> 'r list \<Rightarrow> 'r list" where
  "newest_page env key at offset limit rs =
     sql_page offset limit (newest_first at (sort_key (\<lambda>r. se_tie env (key r)) rs))"

section \<open>Audit events\<close>

definition findAuditEventByID :: "sql_env \<Rightarrow> int \<Rightarrow> MySQL \<Rightarrow> repo_error + AuditEvent" where
  "findAuditEventByID env i db = query_row (\<lambda>r. qae_id r = i) (scanAuditEvent env) (tb_audit_events db)"

definition CreateAuditEvent_sql :: "sql_env \<Rightarrow> gotime \<Rightarrow> AuditEvent \<Rightarrow> MySQL \<Rightarrow> AuditEvent sql_result" where
  "CreateAuditEvent_sql env now event db =
     (let metadata = (case ae_Metadata event of None \<Rightarrow> [] | Some kvs \<Rightarrow> kvs)
      in case se_object env metadata of
           Inl e \<Rightarrow> (Inl e, db)
         | Inr metadataJSON \<Rightarrow>
             insert_find
               (sql_insert env qae_id
                 [enum_in env actor_types (ae_ActorType event), varchar env 160 (ae_Action event),
                  varchar env 160 (ae_ResourceType event),
                  varchar_null env 160 (nullStringPointer (ae_ResourceID event)),
                  varchar_null env 64 (nullString (ae_IP event)),
                  text_null (nullString (ae_UserAgent event)), json_text env metadataJSON]
                 (\<lambda>i. \<lparr> qae_id = i, qae_actor_user_id = nullInt64 (ae_ActorUserID event),
                         qae_actor_type = enum_col env actor_types (ae_ActorType event),
                         qae_action = ae_Action event, qae_resource_type = ae_ResourceType event,
                         qae_resource_id = nullStringPointer (ae_ResourceID event),
                         qae_ip = nullString (ae_IP event),
                         qae_user_agent = nullString (ae_UserAgent event),
                         qae_metadata_json = Some (json_col env metadataJSON),
                         qae_created_at = now \<rparr>) (tb_audit_events db))
               (\<lambda>t. db\<lparr> tb_audit_events := t \<rparr>) (findAuditEventByID env) db)"

definition audit_row_selected :: "sql_env \<Rightarrow> AuditLogFilter \<Rightarrow> audit_event_row \<Rightarrow> bool" where
  "audit_row_selected env f r \<longleftrightarrow>
     sql_filter env (alf_ActorType f) (qae_actor_type r) \<and>
     sql_filter env (alf_Action f) (qae_action r) \<and>
     sql_filter env (alf_ResourceType f) (qae_resource_type r) \<and>
     (alf_ResourceID f \<noteq> [] \<longrightarrow>
        (case qae_resource_id r of None \<Rightarrow> False | Some v \<Rightarrow> ci_eq env v (alf_ResourceID f))) \<and>
     sql_between env (qae_created_at r) (alf_From f) (alf_To f)"

definition ListAuditEvents_sql :: "sql_env \<Rightarrow> AuditLogFilter \<Rightarrow> MySQL \<Rightarrow> repo_error + AuditEvent list" where
  "ListAuditEvents_sql env f db =
     scan_all (scanAuditEvent env)
       (newest_page env qae_id qae_created_at (alf_Offset f) (alf_Limit f)
         (filter (audit_row_selected env f) (rows (tb_audit_events db))))"

section \<open>Connection and file-transfer logs\<close>

definition findConnectionLogByID :: "sql_env \<Rightarrow> int \<Rightarrow> MySQL \<Rightarrow> repo_error + ConnectionLog" where
  "findConnectionLogByID env i db =
     query_row (\<lambda>r. qcl_id r = i) (scanConnectionLog env) (tb_connection_logs db)"

definition CreateConnectionLog_sql ::
    "sql_env \<Rightarrow> gotime \<Rightarrow> ConnectionLog \<Rightarrow> MySQL \<Rightarrow> ConnectionLog sql_result" where
  "CreateConnectionLog_sql env now log db =
     (if \<not> validConnectionType (cl_ConnectionType log)
      then (Inl (ErrMsg ''connection_type must be direct, relay, or websocket''), db)
      else if \<not> validConnectionStatus (cl_Status log)
      then (Inl (ErrMsg ''status must be started, ended, failed, or denied''), db)
      else let startedAt = (if IsZero (cl_StartedAt log) then now else cl_StartedAt log);
               metadata = (case cl_Metadata log of None \<Rightarrow> [] | Some kvs \<Rightarrow> kvs)
           in case se_object env metadata of
                Inl e \<Rightarrow> (Inl e, db)
              | Inr metadataJSON \<Rightarrow>
                  insert_find
                    (sql_insert env qcl_id
                      [enum_in env connection_types (cl_ConnectionType log), timestamp env startedAt,
                       timestamp_null env (nullTime (cl_EndedAt log)),
                       enum_in env connection_statuses (cl_Status log),
                       varchar_null env 255 (nullString (cl_DenyReason log)), json_text env metadataJSON]
                      (\<lambda>i. \<lparr> qcl_id = i, qcl_session_id = nullInt64 (cl_SessionID log),
                              qcl_controller_user_id = nullInt64 (cl_ControllerUserID log),
                              qcl_controller_device_id = nullInt64 (cl_ControllerDeviceID log),
                              qcl_target_device_id = nullInt64 (cl_TargetDeviceID log),
                              qcl_connection_type = enum_col env connection_types (cl_ConnectionType log),
                              qcl_relay_id = nullInt64 (cl_RelayID log),
                              qcl_started_at = time_col env startedAt,
                              qcl_ended_at = map_option (time_col env) (nullTime (cl_EndedAt log)),
                              qcl_status = enum_col env connection_statuses (cl_Status log),
                              qcl_deny_reason = nullString (cl_DenyReason log),
                              qcl_metadata_json = Some (json_col env metadataJSON) \<rparr>)
                      (tb_connection_logs db))
                    (\<lambda>t. db\<lparr> tb_connection_logs := t \<rparr>) (findConnectionLogByID env) db)"

definition ListConnectionLogs_sql ::
    "sql_env \<Rightarrow> ConnectionLogFilter \<Rightarrow> MySQL \<Rightarrow> repo_error + ConnectionLog list" where
  "ListConnectionLogs_sql env f db =
     scan_all (scanConnectionLog env)
       (newest_page env qcl_id qcl_started_at (clf_Offset f) (clf_Limit f)
         (filter (\<lambda>r. sql_filter env (clf_Status f) (qcl_status r) \<and>
                      sql_filter env (clf_ConnectionType f) (qcl_connection_type r) \<and>
                      sql_between env (qcl_started_at r) (clf_From f) (clf_To f))
           (rows (tb_connection_logs db))))"

definition ListFileTransferLogs_sql ::
    "sql_env \<Rightarrow> FileTransferLogFilter \<Rightarrow> MySQL \<Rightarrow> repo_error + FileTransferLog list" where
  "ListFileTransferLogs_sql env f db =
     scan_all scanFileTransferLog
       (newest_page env ft_ID ft_CreatedAt (ftf_Offset f) (ftf_Limit f)
         (filter (\<lambda>r. sql_filter env (ftf_Direction f) (ft_Direction r) \<and>
                      sql_filter env (ftf_Status f) (ft_Status r) \<and>
                      sql_between env (ft_CreatedAt r) (ftf_From f) (ftf_To f))
           (rows (tb_file_transfer_logs db))))"

section \<open>Login log\<close>

definition ListLoginLogs_sql :: "sql_env \<Rightarrow> LoginLogFilter \<Rightarrow> MySQL \<Rightarrow> repo_error + LoginLog list" where
  "ListLoginLogs_sql env f db =
     scan_all scanLoginLog
       (sql_page (llf_Offset f) (llf_Limit f)
         (newest_first qll_created_at (sort_key qll_id
           (filter (\<lambda>r. (llf_Email f \<noteq> [] \<longrightarrow>
                           ci_eq env (ToLower (qll_email r)) (ToLower (llf_Email f))) \<and>
                        sql_filter env (llf_Status f) (qll_status r) \<and>
                        sql_between env (qll_created_at r) (llf_From f) (llf_To f))
             (rows (tb_login_logs db))))))"

section \<open>System settings\<close>

definition ListSystemSettings_sql :: "sql_env \<Rightarrow> MySQL \<Rightarrow> repo_error + SystemSetting list" where
  "ListSystemSettings_sql env db =
     scan_all scanSystemSetting
       (sort_key (\<lambda>r. se_weight env (qss_setting_key r)) (tb_system_settings db))"

text \<open>
  \<^verbatim>\<open>INSERT ... ON DUPLICATE KEY UPDATE\<close>: the row of the key gets the value and the author, and
  the current time when that changes it; without such a row there is a new one.
\<close>

definition upsert_setting ::
    "sql_env \<Rightarrow> gotime \<Rightarrow> string \<Rightarrow> string \<Rightarrow> int option \<Rightarrow> MySQL \<Rightarrow> unit sql_result" where
  "upsert_setting env now key v author db =
     (case refused env [varchar env 160 key, json_text env v, references_null author (user_ids db)] of
        Some e \<Rightarrow> (Inl e, db)
      | None \<Rightarrow>
          let js = json_col env v; ss = tb_system_settings db;
              put = \<lambda>r. if ci_eq env (qss_setting_key r) key \<and>
                            (qss_setting_value r \<noteq> js \<or> qss_updated_by r \<noteq> author)
                        then r\<lparr> qss_setting_value := js, qss_updated_by := author, qss_updated_at := now \<rparr>
                        else r
          in (Inr (),
              db\<lparr> tb_system_settings :=
                    (if list_ex (\<lambda>r. ci_eq env (qss_setting_key r) key) ss then map put ss
                     else ss @ [\<lparr> qss_setting_key = key, qss_setting_value = js,
                                   qss_updated_by = author, qss_updated_at = now \<rparr>]) \<rparr>))"

fun upsert_settings ::
    "sql_env \<Rightarrow> gotime \<Rightarrow> SystemSetting list \<Rightarrow> int \<Rightarrow> MySQL \<Rightarrow> unit sql_result" where
  "upsert_settings env now [] updatedBy db = (Inr (), db)"
| "upsert_settings env now (s # ss) updatedBy db =
     (let key = TrimSpace (ss_Key s)
      in if key = [] \<or> TrimSpace (ss_ValueJSON s) = []
         then (Inl (ErrMsg ''setting key and value_json are required''), db)
         else (case upsert_setting env now key (ss_ValueJSON s) (nullablePositiveInt64 updatedBy) db of
                 (Inl e, db1) \<Rightarrow> (Inl e, db1)
               | (Inr u, db1) \<Rightarrow> upsert_settings env now ss updatedBy db1))"

definition UpsertSystemSettings_sql ::
    "sql_env \<Rightarrow> gotime \<Rightarrow> SystemSetting list \<Rightarrow> int \<Rightarrow> MySQL \<Rightarrow> unit sql_result" where
  "UpsertSystemSettings_sql env now ss updatedBy db =
     (case upsert_settings env now ss updatedBy db of
        (Inl e, db1) \<Rightarrow> (Inl e, db)
      | (Inr u, db1) \<Rightarrow> (Inr (), db1))"

end
