(* ===== verification/Mysql_Stores.thy ===== *)
theory Mysql_Stores
  imports Mysql_Logs Grant_Properties Auth_Lifecycle
begin

text \<open>
  The MySQL repository as the store of the two services: it keeps the laws of \<open>grant_store\<close>
  with identifiers compared under the collation, and those of \<open>user_store\<close> with times as a
  \<^verbatim>\<open>TIMESTAMP\<close> column keeps them.
\<close>

section \<open>Relay grants\<close>

definition mysql_grant_store :: "sql_env \<Rightarrow> MySQL grant_store_ops" where
  "mysql_grant_store env =
     \<lparr> gs_CreateRelayGrant = CreateRelayGrant_sql env,
       gs_FindRelayGrantByGrantID = FindRelayGrantByGrantID_sql env,
       gs_UpdateRelayGrantStatus = UpdateRelayGrantStatus_sql env \<rparr>"

definition grant_norm :: "sql_env \<Rightarrow> string \<Rightarrow> string" where
  "grant_norm env k = se_weight env (TrimSpace k)"

definition sql_storable :: "sql_env \<Rightarrow> gotime \<Rightarrow> bool" where
  "sql_storable env t \<longleftrightarrow> se_time env t \<noteq> None"

lemma scan_status:
  "scanRelayGrant env (r\<lparr> qg_status := st, qg_used_at := u \<rparr>) =
     (case scanRelayGrant env r of Inl e \<Rightarrow> Inl e | Inr g \<Rightarrow> Inr (g\<lparr> rg_Status := st, rg_UsedAt := u \<rparr>))"
  by (simp add: scanRelayGrant_def Let_def split: option.split sum.split)

lemma scan_grant_fields:
  "scanRelayGrant env r = Inr g \<Longrightarrow>
     rg_GrantID g = qg_grant_id r \<and> rg_Status g = qg_status r \<and> rg_UsedAt g = qg_used_at r"
  by (auto simp: scanRelayGrant_def Let_def split: option.splits if_splits sum.splits)

lemma known_enum [simp]: "known_status st \<Longrightarrow> enum_col env grant_statuses st = st \<and> enum_val env grant_statuses st \<noteq> None"
  by (auto simp: enum_col_def enum_val_def known_status_def grant_statuses_def)

text \<open>What an update makes of the grant an identifier stands for.\<close>

definition grant_updated :: "sql_env \<Rightarrow> string \<Rightarrow> gotime option \<Rightarrow> relay_grant_row \<Rightarrow> relay_grant_row" where
  "grant_updated env st usedAt r =
     r\<lparr> qg_status := enum_col env grant_statuses (TrimSpace st),
        qg_used_at := (case nullTime usedAt of Some t \<Rightarrow> Some (time_col env t) | None \<Rightarrow> qg_used_at r) \<rparr>"

lemma scan_grant_updated:
  "scanRelayGrant env (grant_updated env st u x) =
     (case scanRelayGrant env x of
        Inl e \<Rightarrow> Inl e
      | Inr g \<Rightarrow> Inr (with_status (enum_col env grant_statuses (TrimSpace st)) (map_option (time_col env) u) g))"
  unfolding grant_updated_def scan_status
  by (auto simp: with_status_def split: sum.split option.split dest: scan_grant_fields)

lemma update_grant_cases:
  assumes "UpdateRelayGrantStatus_sql env k st u db = (r, db')" "TrimSpace st \<noteq> []"
  obtains (failed) e where "r = Inl e" "db' = db"
      "refused env [enum_in env grant_statuses (TrimSpace st), timestamp_null env (nullTime u)] = Some e"
  | (same) "r = Inl ErrNotFound" "db' = db"
      "\<And>x. x \<in> set (rows (tb_relay_grants db)) \<Longrightarrow> ci_eq env (qg_grant_id x) (TrimSpace k) \<Longrightarrow>
         grant_updated env st u x = x"
  | (updated) "r = FindRelayGrantByGrantID_sql env k db'"
      "tb_relay_grants db' = (tb_relay_grants db)\<lparr> rows := map (\<lambda>x. if ci_eq env (qg_grant_id x) (TrimSpace k)
         then grant_updated env st u x else x) (rows (tb_relay_grants db)) \<rparr>"
proof -
  have "update_find (sql_update env
         [enum_in env grant_statuses (TrimSpace st), timestamp_null env (nullTime u)]
         (\<lambda>r. ci_eq env (qg_grant_id r) (TrimSpace k)) (grant_updated env st u) (tb_relay_grants db))
       (\<lambda>t. db\<lparr> tb_relay_grants := t \<rparr>) (FindRelayGrantByGrantID_sql env k) db = (r, db')"
    using assms by (simp add: UpdateRelayGrantStatus_sql_def grant_updated_def [abs_def])
  then show ?thesis by (cases rule: update_find_cases) (auto intro: that)
qed

lemma same_norm: "grant_norm env k' = grant_norm env k \<Longrightarrow>
     (\<lambda>x. ci_eq env (qg_grant_id x) (TrimSpace k')) = (\<lambda>x. ci_eq env (qg_grant_id x) (TrimSpace k))"
  by (simp add: ci_eq_def grant_norm_def)

lemma find_updated:
  assumes "tb_relay_grants db' = (tb_relay_grants db)\<lparr> rows := map (\<lambda>x. if ci_eq env (qg_grant_id x) (TrimSpace k)
         then grant_updated env st u x else x) (rows (tb_relay_grants db)) \<rparr>"
  shows "FindRelayGrantByGrantID_sql env k' db' =
    (if grant_norm env k' = grant_norm env k
     then query_row (\<lambda>x. ci_eq env (qg_grant_id x) (TrimSpace k))
            (\<lambda>x. scanRelayGrant env (grant_updated env st u x)) (tb_relay_grants db)
     else FindRelayGrantByGrantID_sql env k' db)"
proof -
  have id: "qg_grant_id (grant_updated env st u x) = qg_grant_id x" for x
    by (simp add: grant_updated_def)
  have q: "FindRelayGrantByGrantID_sql env k' db' =
      query_row (\<lambda>x. ci_eq env (qg_grant_id x) (TrimSpace k')) (\<lambda>x. scanRelayGrant env
        (if ci_eq env (qg_grant_id x) (TrimSpace k) then grant_updated env st u x else x)) (tb_relay_grants db)"
    unfolding FindRelayGrantByGrantID_sql_def assms by (rule query_row_update) (simp add: id)
  show ?thesis
  proof (cases "grant_norm env k' = grant_norm env k")
    case True
    show ?thesis unfolding q same_norm [OF True] using True by (auto intro!: query_row_cong)
  next
    case False
    then show ?thesis unfolding q unfolding FindRelayGrantByGrantID_sql_def
      by (auto simp: ci_eq_def grant_norm_def intro!: query_row_cong)
  qed
qed

lemma update_grant_found:
  assumes f: "FindRelayGrantByGrantID_sql env k s = Inr g" and st: "known_status st" "rg_Status g \<noteq> st"
    and u: "\<And>t. u = Some t \<Longrightarrow> sql_storable env t"
  shows "\<exists>g' s'. UpdateRelayGrantStatus_sql env k st u s = (Inr g', s')"
proof -
  let ?P = "\<lambda>x. ci_eq env (qg_grant_id x) (TrimSpace k)"
  obtain x where x: "find ?P (rows (tb_relay_grants s)) = Some x" "scanRelayGrant env x = Inr g"
    using f by (auto simp: FindRelayGrantByGrantID_sql_def query_row_def split: option.splits)
  have x': "x \<in> set (rows (tb_relay_grants s))" "?P x" using find_SomeD [OF x(1)] by auto
  have "qg_status (grant_updated env st u x) \<noteq> qg_status x"
    using scan_grant_fields [OF x(2)] st by (simp add: grant_updated_def)
  then have ne: "grant_updated env st u x \<noteq> x" by metis
  have ok: "refused env [enum_in env grant_statuses (TrimSpace st), timestamp_null env (nullTime u)] = None"
    using st u by (cases u) (auto simp: refused_None check_defs opt_ok_def sql_storable_def)
  obtain r s' where r: "UpdateRelayGrantStatus_sql env k st u s = (r, s')" by fastforce
  have "TrimSpace st \<noteq> []" using st(1) by simp
  with r show ?thesis
  proof (cases rule: update_grant_cases)
    case updated
    have "r = scanRelayGrant env (grant_updated env st u x)"
      using find_updated [OF updated(2), of k] x(1) updated(1) by (simp add: query_row_def)
    then show ?thesis using x(2) r by (simp add: scan_grant_updated)
  qed (use ok ne x' in auto)
qed

lemma update_grant_error:
  assumes "UpdateRelayGrantStatus_sql env k st u s = (Inl e, s')"
  shows "(FindRelayGrantByGrantID_sql env k' s' = Inr g) = (FindRelayGrantByGrantID_sql env k' s = Inr g)"
proof (cases "TrimSpace st = []")
  case False
  with assms show ?thesis
  proof (cases rule: update_grant_cases)
    case updated
    have e: "query_row (\<lambda>x. ci_eq env (qg_grant_id x) (TrimSpace k))
        (\<lambda>x. scanRelayGrant env (grant_updated env st u x)) (tb_relay_grants s) = Inl e"
      using find_updated [OF updated(2), of k] updated(1) by simp
    have "query_row (\<lambda>x. ci_eq env (qg_grant_id x) (TrimSpace k)) (scanRelayGrant env) (tb_relay_grants s) \<noteq> Inr g"
      using e by (auto simp: query_row_def scan_grant_updated split: option.splits sum.splits)
    then have "FindRelayGrantByGrantID_sql env k' s \<noteq> Inr g" if "grant_norm env k' = grant_norm env k"
      unfolding FindRelayGrantByGrantID_sql_def same_norm [OF that] .
    then show ?thesis using find_updated [OF updated(2), of k'] e by simp
  qed simp_all
qed (use assms in \<open>simp add: UpdateRelayGrantStatus_sql_def\<close>)

lemma update_grant_Inr:
  assumes "UpdateRelayGrantStatus_sql env k st u s = (Inr g', s')"
  shows "query_row (\<lambda>x. ci_eq env (qg_grant_id x) (TrimSpace k))
        (\<lambda>x. scanRelayGrant env (grant_updated env st u x)) (tb_relay_grants s) = Inr g' \<and>
      (\<forall>k'. FindRelayGrantByGrantID_sql env k' s' =
         (if grant_norm env k' = grant_norm env k then Inr g' else FindRelayGrantByGrantID_sql env k' s))"
proof -
  have "TrimSpace st \<noteq> []" using assms by (auto simp: UpdateRelayGrantStatus_sql_def)
  with assms show ?thesis
  proof (cases rule: update_grant_cases)
    case updated
    then show ?thesis using find_updated [OF updated(2)] by simp
  qed simp_all
qed

lemma create_grant_cases:
  assumes "CreateRelayGrant_sql env now g s = (r, s')"
  obtains (refused) e where "r = Inl e" "s' = s"
  | (created) x where "r = scanRelayGrant env x" "qg_grant_id x = TrimSpace (rg_GrantID g)"
      "\<And>y. y \<in> set (rows (tb_relay_grants s)) \<Longrightarrow> \<not> ci_eq env (qg_grant_id y) (qg_grant_id x)"
      "rows (tb_relay_grants s') = rows (tb_relay_grants s) @ [x]"
proof (cases "TrimSpace (rg_GrantID g) = [] \<or> TrimSpace (rg_Nonce g) = [] \<or> IsZero (rg_ExpiresAt g)
     \<or> rg_AllowedRelays g = []")
  case True
  then show ?thesis using assms refused by (auto simp: CreateRelayGrant_sql_def Let_def)
next
  case False
  note c = assms [unfolded CreateRelayGrant_sql_def Let_def if_not_P [OF False]]
  show ?thesis
  proof (cases rule: insert_find_cases [OF c])
    case (1 e)
    then show ?thesis using refused by blast
  next
    case 2
    let ?i = "auto_id qg_id (tb_relay_grants s)"
    obtain x where x: "tb_relay_grants s' = (tb_relay_grants s)\<lparr>
        rows := rows (tb_relay_grants s) @ [x], next_id := ?i + 1 \<rparr>"
      "qg_id x = ?i" "qg_grant_id x = TrimSpace (rg_GrantID g)"
      using 2(2) by auto
    have "r = scanRelayGrant env x"
      unfolding 2(3) findRelayGrantByID_def x(1)
      by (rule query_fresh [where mk = "\<lambda>_. x"]) (rule x(2))
    moreover have "\<not> ci_eq env (qg_grant_id y) (qg_grant_id x)" if "y \<in> set (rows (tb_relay_grants s))" for y
      using 2(1) that x(3) by (auto simp: check_defs list_ex_iff)
    ultimately show ?thesis using created x by simp
  qed
qed

interpretation mysql_grants:
  grant_store "CreateRelayGrant_sql env" "FindRelayGrantByGrantID_sql env"
    "UpdateRelayGrantStatus_sql env" "grant_norm env" "sql_storable env" for env
proof unfold_locales
  fix k k' st u g g' e now and s s' :: MySQL
  show "grant_norm env (TrimSpace k) = grant_norm env k" by (simp add: grant_norm_def)
  show "FindRelayGrantByGrantID_sql env k s = FindRelayGrantByGrantID_sql env k' s"
    if "grant_norm env k = grant_norm env k'"
    using that by (simp add: FindRelayGrantByGrantID_sql_def grant_norm_def ci_eq_def)
  show "grant_norm env (rg_GrantID g') = grant_norm env (rg_GrantID g)"
    if "CreateRelayGrant_sql env now g s = (Inr g', s')"
    using that
  proof (cases rule: create_grant_cases)
    case (created x)
    then show ?thesis using scan_grant_fields [OF created(1) [symmetric]] by (simp add: grant_norm_def)
  qed simp
  show "FindRelayGrantByGrantID_sql env k s' =
      (if grant_norm env k = grant_norm env (rg_GrantID g') then Inr g' else FindRelayGrantByGrantID_sql env k s)"
    if "CreateRelayGrant_sql env now g s = (Inr g', s')"
    using that
  proof (cases rule: create_grant_cases)
    case (created x)
    have id: "rg_GrantID g' = qg_grant_id x" "TrimSpace (qg_grant_id x) = qg_grant_id x"
      using scan_grant_fields [OF created(1) [symmetric]] created(2) by simp_all
    have "find (\<lambda>r. ci_eq env (qg_grant_id r) (TrimSpace k)) (rows (tb_relay_grants s)) = None"
      if "grant_norm env k = grant_norm env (rg_GrantID g')"
      using that created(3) id by (auto simp: find_None_iff grant_norm_def ci_eq_def)
    then show ?thesis using created(1) id
      by (auto simp: FindRelayGrantByGrantID_sql_def grant_norm_def ci_eq_def query_row_def
          created(4) find_append split: option.splits)
  qed simp
  show "(FindRelayGrantByGrantID_sql env k s' = Inr g') = (FindRelayGrantByGrantID_sql env k s = Inr g')"
    if "CreateRelayGrant_sql env now g s = (Inl e, s')"
    using that
  proof (cases rule: create_grant_cases)
    case (created x)
    then show ?thesis
      by (auto simp: FindRelayGrantByGrantID_sql_def query_row_def created(4) find_append split: option.splits)
  qed simp
  show "\<exists>g' s'. UpdateRelayGrantStatus_sql env k st u s = (Inr g', s')"
    if "FindRelayGrantByGrantID_sql env k s = Inr g" "known_status st" "rg_Status g \<noteq> st"
      "\<And>t. u = Some t \<Longrightarrow> sql_storable env t"
    using that by (rule update_grant_found)
  show "\<exists>g u'. FindRelayGrantByGrantID_sql env k s = Inr g \<and> g' = with_status st u' g"
    if up: "UpdateRelayGrantStatus_sql env k st u s = (Inr g', s')" and kn: "known_status st"
  proof -
    obtain x where x: "find (\<lambda>x. ci_eq env (qg_grant_id x) (TrimSpace k)) (rows (tb_relay_grants s)) = Some x"
      "scanRelayGrant env (grant_updated env st u x) = Inr g'"
      using update_grant_Inr [OF up] by (auto simp: query_row_def split: option.splits)
    then obtain g where "scanRelayGrant env x = Inr g" "g' = with_status st (map_option (time_col env) u) g"
      using kn by (auto simp: scan_grant_updated split: sum.splits)
    then show ?thesis using x(1) by (auto simp: FindRelayGrantByGrantID_sql_def query_row_def)
  qed
  show "FindRelayGrantByGrantID_sql env k' s' =
      (if grant_norm env k' = grant_norm env k then Inr g' else FindRelayGrantByGrantID_sql env k' s)"
    if "UpdateRelayGrantStatus_sql env k st u s = (Inr g', s')"
    using update_grant_Inr [OF that] by blast
  show "(FindRelayGrantByGrantID_sql env k' s' = Inr g') = (FindRelayGrantByGrantID_sql env k' s = Inr g')"
    if "UpdateRelayGrantStatus_sql env k st u s = (Inl e, s')"
    using that by (rule update_grant_error)
qed

section \<open>Users and sessions\<close>

definition mysql_user_store :: "sql_env \<Rightarrow> MySQL user_store_ops" where
  "mysql_user_store env =
     \<lparr> us_FindUserByEmail = FindUserByEmail_sql env, us_FindUserByID = FindUserByID_sql,
       us_RecordUserLogin = RecordUserLogin_sql env, us_FindAPITokenByHash = FindAPITokenByHash_sql env,
       us_RecordAPITokenUsed = RecordAPITokenUsed_sql env, us_CreateSession = CreateSession_sql env,
       us_FindSessionByTokenHash = FindSessionByTokenHash_sql env,
       us_RevokeSession = RevokeSession_sql env, us_CreateLoginLog = CreateLoginLog_sql env \<rparr>"

definition user_rows_wf :: "MySQL \<Rightarrow> bool" where
  "user_rows_wf db \<longleftrightarrow> distinct (user_ids db) \<and> (\<forall>r \<in> set (rows (tb_users db)). 0 < user_ID r)"

lemma scanUser_Inr [simp]: "scanUser r = Inr r"
  by (cases "user_LastLoginAt r") (simp_all add: scanUser_def)

lemma scanSession_fields [simp]:
  "\<exists>s. scanSession r = Inr s"
  by (simp add: scanSession_def)

lemma char_col_trim [simp]: "char_col (TrimSpace s) = TrimSpace s"
proof -
  have "rspace_width (rev (TrimSpace s)) = 0" by (simp add: TrimSpace_def trim_right_def)
  then show ?thesis
    by (cases "rev (TrimSpace s)") (auto simp: char_col_def ascii_space_def rev_swap)
qed

lemma user_login_recorded:
  assumes wf: "user_rows_wf db" and f: "FindUserByID_sql i db = Inr u"
    and r: "RecordUserLogin_sql env i at db = (r, db')"
  shows "user_rows_wf db' \<and> (\<exists>u'. FindUserByID_sql i db' = Inr u' \<and> user_ID u' = user_ID u \<and>
          user_Status u' = user_Status u \<and> user_Email u' = user_Email u \<and>
          (case r of Inr v \<Rightarrow> v = u' | Inl err \<Rightarrow> u' = u))"
  using r [unfolded RecordUserLogin_sql_def]
proof (cases rule: update_find_cases)
  case updated
  let ?f = "\<lambda>r. r\<lparr> user_LastLoginAt := Some (time_col env at), user_UpdatedAt := time_col env at \<rparr>"
  have d: "tb_users db' = (tb_users db)\<lparr> rows := map (\<lambda>x. if user_ID x = i then ?f x else x) (rows (tb_users db)) \<rparr>"
    by (simp add: updated(1))
  have "user_rows_wf db'" using wf by (auto simp: user_rows_wf_def d comp_def if_distrib cong: if_cong)
  moreover have "FindUserByID_sql i db' = Inr (?f u)"
    using f unfolding FindUserByID_sql_def d
    by (subst query_row_update) (auto simp: query_row_def split: option.splits dest: find_SomeD)
  ultimately show ?thesis by (simp add: updated(2))
qed (use wf f in auto)

lemma session_created:
  assumes c: "CreateSession_sql env now s db = (Inr s', db')"
  shows "tb_users db' = tb_users db \<and> ses_UserID s' = ses_UserID s \<and>
     ses_ExpiresAt s' = time_col env (ses_ExpiresAt s) \<and> ses_RevokedAt s' = None \<and>
     FindSessionByTokenHash_sql env (ses_TokenHash s) db' = Inr s'"
proof -
  have ok: "\<not> (ses_UserID s \<le> 0 \<or> TrimSpace (ses_TokenHash s) = [] \<or> IsZero (ses_ExpiresAt s))"
    using c by (auto simp: CreateSession_sql_def)
  note c' = c [unfolded CreateSession_sql_def if_not_P [OF ok] Let_def char_col_trim]
  show ?thesis
  proof (cases rule: insert_find_cases [OF c'])
    case 2
    let ?i = "auto_id qs_id (tb_sessions db)"
    obtain x where x: "tb_sessions db' = (tb_sessions db)\<lparr>
        rows := rows (tb_sessions db) @ [x], next_id := ?i + 1 \<rparr>"
      "qs_id x = ?i" "qs_user_id x = ses_UserID s" "qs_token_hash x = TrimSpace (ses_TokenHash s)"
      "qs_expires_at x = time_col env (ses_ExpiresAt s)" "qs_revoked_at x = None"
      using 2(2) by auto
    have s': "Inr s' = scanSession x"
      unfolding 2(3) findSessionByID_def x(1)
      by (rule query_fresh [where mk = "\<lambda>_. x"]) (rule x(2))
    have "\<not> ci_eq env (qs_token_hash y) (TrimSpace (ses_TokenHash s))" if "y \<in> set (rows (tb_sessions db))" for y
      using 2(1) that by (auto simp: check_defs list_ex_iff)
    then have "find (\<lambda>r. ci_eq env (qs_token_hash r) (TrimSpace (ses_TokenHash s))) (rows (tb_sessions db)) = None"
      by (simp add: find_None_iff)
    then have "FindSessionByTokenHash_sql env (ses_TokenHash s) db' = Inr s'"
      using x(4) by (simp add: FindSessionByTokenHash_sql_def query_row_def x(1) find_append s' ci_eq_def)
    moreover have "tb_users db' = tb_users db" by (simp add: 2(2))
    ultimately show ?thesis using s' x by (simp add: scanSession_def)
  qed simp
qed

lemma login_log_created:
  "CreateLoginLog_sql env now l db = (r, db') \<Longrightarrow> tb_users db' = tb_users db \<and> tb_sessions db' = tb_sessions db"
  by (auto simp: CreateLoginLog_sql_def insert_find_def Let_def split: if_splits prod.splits sum.splits)

lemma session_revoked:
  assumes f: "FindSessionByTokenHash_sql env h db = Inr s" and st: "sql_storable env at"
    and r: "RevokeSession_sql env h at db = (r, db')"
  shows "\<exists>s'. FindSessionByTokenHash_sql env h db' = Inr s' \<and> ses_RevokedAt s' \<noteq> None \<and>
     (r = Inr s' \<or> r = Inl ErrNotFound)"
proof -
  let ?P = "\<lambda>x. ci_eq env (qs_token_hash x) (TrimSpace h)"
  let ?f = "\<lambda>r. r\<lparr> qs_revoked_at := (case qs_revoked_at r of Some t \<Rightarrow> Some t | None \<Rightarrow> Some (time_col env at)) \<rparr>"
  obtain x where x: "find ?P (rows (tb_sessions db)) = Some x" "scanSession x = Inr s"
    using f by (auto simp: FindSessionByTokenHash_sql_def query_row_def split: option.splits)
  have x': "x \<in> set (rows (tb_sessions db))" "?P x" using find_SomeD [OF x(1)] by auto
  show ?thesis
    using r [unfolded RevokeSession_sql_def Let_def]
  proof (cases rule: update_find_cases)
    case (refused e)
    then show ?thesis using st by (auto simp: refused_def timestamp_def sql_storable_def)
  next
    case unchanged
    have "?f x = x" using unchanged(3) [OF x'] by simp
    then have "qs_revoked_at (?f x) = qs_revoked_at x" by simp
    then have "qs_revoked_at x \<noteq> None" by (cases "qs_revoked_at x") simp_all
    then show ?thesis using x(2) f unchanged(1,2) by (auto simp: scanSession_def)
  next
    case updated
    have "FindSessionByTokenHash_sql env h db' = scanSession (?f x)"
      unfolding FindSessionByTokenHash_sql_def updated(1)
      using x x'(2) by (simp add: query_row_def find_map_if)
    then show ?thesis
      using updated(2) by (auto simp: scanSession_def FindSessionByTokenHash_sql_def split: option.split)
  qed
qed

interpretation mysql_users:
  user_store "mysql_user_store env" user_rows_wf "time_col env" "sql_storable env" for env
proof unfold_locales
  fix db db' :: MySQL and e i u s s' h at now l r r' r''
  show "us_FindUserByID (mysql_user_store env) (user_ID u) db = Inr u \<and> 0 < user_ID u"
    if "user_rows_wf db" "us_FindUserByEmail (mysql_user_store env) e db = Inr u"
  proof -
    have "u \<in> set (rows (tb_users db))"
      using that(2) by (auto simp: mysql_user_store_def FindUserByEmail_sql_def dest: query_row_InrD)
    then show ?thesis using that(1) find_key [of user_ID "rows (tb_users db)" u]
      by (auto simp: mysql_user_store_def FindUserByID_sql_def query_row_def user_rows_wf_def)
  qed
  show "user_rows_wf db' \<and> (\<exists>u'. us_FindUserByID (mysql_user_store env) i db' = Inr u' \<and>
          user_ID u' = user_ID u \<and> user_Status u' = user_Status u \<and> user_Email u' = user_Email u \<and>
          (case r of Inr v \<Rightarrow> v = u' | Inl err \<Rightarrow> u' = u))"
    if "user_rows_wf db" "us_FindUserByID (mysql_user_store env) i db = Inr u"
      "us_RecordUserLogin (mysql_user_store env) i at db = (r, db')"
    using that user_login_recorded by (simp add: mysql_user_store_def)
  show "user_rows_wf db' \<and> us_FindSessionByTokenHash (mysql_user_store env) (ses_TokenHash s) db' = Inr s' \<and>
          ses_UserID s' = ses_UserID s \<and> ses_ExpiresAt s' = time_col env (ses_ExpiresAt s) \<and>
          (ses_RevokedAt s = None \<longrightarrow> ses_RevokedAt s' = None) \<and>
          (\<forall>i. us_FindUserByID (mysql_user_store env) i db' = us_FindUserByID (mysql_user_store env) i db)"
    if "us_CreateSession (mysql_user_store env) now s db = (Inr s', db')" "user_rows_wf db"
    using session_created [of env now s db s' db'] that
    by (simp add: mysql_user_store_def user_rows_wf_def FindUserByID_sql_def)
  show "user_rows_wf db' \<and>
        (\<forall>i. us_FindUserByID (mysql_user_store env) i db' = us_FindUserByID (mysql_user_store env) i db) \<and>
        (\<forall>h. us_FindSessionByTokenHash (mysql_user_store env) h db' =
              us_FindSessionByTokenHash (mysql_user_store env) h db)"
    if "us_CreateLoginLog (mysql_user_store env) now l db = (r', db')" "user_rows_wf db"
    using login_log_created [of env now l db r' db'] that
    by (simp add: mysql_user_store_def user_rows_wf_def FindUserByID_sql_def FindSessionByTokenHash_sql_def)
  show "\<exists>s'. us_FindSessionByTokenHash (mysql_user_store env) h db' = Inr s' \<and>
          ses_RevokedAt s' \<noteq> None \<and> (r'' = Inr s' \<or> r'' = Inl ErrNotFound)"
    if "us_FindSessionByTokenHash (mysql_user_store env) h db = Inr s" "sql_storable env at"
      "us_RevokeSession (mysql_user_store env) h at db = (r'', db')"
    using that session_revoked by (simp add: mysql_user_store_def)
qed

end
