(* ===== verification/Mysql_Steps.thy ===== *)
theory Mysql_Steps
  imports Mysql_Stores
begin

text \<open>
  The calls of the MySQL repository that write: each keeps the references between the tables
  and leaves the tables as they were when it returns an error. The call relation and the
  databases it reaches come last.
\<close>

section \<open>References between tables\<close>

definition ids :: "('r \<Rightarrow> int) \<Rightarrow> 'r sql_table \<Rightarrow> int set" where
  "ids key t = set (map key (rows t))"

definition all_rows :: "('r \<Rightarrow> bool) \<Rightarrow> 'r sql_table \<Rightarrow> bool" where
  "all_rows Q t \<longleftrightarrow> (\<forall>r \<in> set (rows t). Q r)"

definition pairs_ok :: "(int \<times> int) list \<Rightarrow> int set \<Rightarrow> int set \<Rightarrow> bool" where
  "pairs_ok ps A B \<longleftrightarrow> set ps \<subseteq> A \<times> B"

definition references_ok :: "MySQL \<Rightarrow> bool" where
  "references_ok db \<longleftrightarrow>
     pairs_ok (tb_user_group_members db) (ids user_ID (tb_users db)) (ids qug_id (tb_user_groups db)) \<and>
     pairs_ok (tb_device_group_members db) (ids qd_id (tb_devices db)) (ids qdg_id (tb_device_groups db)) \<and>
     all_rows (\<lambda>e. qabe_address_book_id e \<in> ids qab_id (tb_address_books db)) (tb_address_book_entries db) \<and>
     all_rows (\<lambda>p. crp_RoleID p \<in> ids qcr_id (tb_control_roles db)) (tb_control_role_permissions db) \<and>
     all_rows (\<lambda>a. sa_StrategyID a \<in> ids qst_id (tb_strategies db)) (tb_strategy_assignments db) \<and>
     all_rows (\<lambda>j. qbj_profile_id j \<in> ids qbp_id (tb_build_profiles db)) (tb_build_jobs db)"

definition grant_readable :: "sql_env \<Rightarrow> relay_grant_row \<Rightarrow> bool" where
  "grant_readable env r \<longleftrightarrow>
     (\<exists>g. scanRelayGrant env r = Inr g) \<and> TrimSpace (qg_grant_id r) = qg_grant_id r"

definition ids_fresh :: "('r \<Rightarrow> int) \<Rightarrow> 'r sql_table \<Rightarrow> bool" where
  "ids_fresh key t \<longleftrightarrow> distinct (map key (rows t)) \<and> (\<forall>r \<in> set (rows t). 0 < key r)"

definition db_ok :: "sql_env \<Rightarrow> MySQL \<Rightarrow> bool" where
  "db_ok env db \<longleftrightarrow>
     references_ok db \<and> all_rows (grant_readable env) (tb_relay_grants db) \<and> ids_fresh user_ID (tb_users db)"

lemma ids_fresh_insert:
  "ids_fresh key t \<Longrightarrow> key x = auto_id key t \<Longrightarrow> ids_fresh key (t\<lparr> rows := rows t @ [x], next_id := n \<rparr>)"
  using auto_id_fresh [of _ t key] auto_id_pos [of key t] by (fastforce simp: ids_fresh_def)

lemma ids_fresh_update:
  "ids_fresh key t \<Longrightarrow> (\<And>x. key (f x) = key x) \<Longrightarrow>
     ids_fresh key (t\<lparr> rows := map (\<lambda>x. if P x then f x else x) (rows t) \<rparr>)"
proof -
  assume k: "ids_fresh key t" "\<And>x. key (f x) = key x"
  then have "key (if P x then f x else x) = key x" for x by simp
  then show ?thesis using k by (auto simp: ids_fresh_def comp_def)
qed

lemma db_ok_users: "db_ok env db \<Longrightarrow> user_rows_wf db"
  by (simp add: db_ok_def ids_fresh_def user_rows_wf_def)

text \<open>What \<^verbatim>\<open>encoding/json\<close> and the server promise: JSON that was written can be read back.\<close>

definition json_readable :: "sql_env \<Rightarrow> bool" where
  "json_readable env \<longleftrightarrow>
     (\<forall>xs j. se_json env (se_strings env xs) = Some j \<longrightarrow> (\<exists>ys. se_strings_of env j = Inr ys)) \<and>
     (\<forall>kvs s j. se_object env kvs = Inr s \<longrightarrow> se_json env s = Some j \<longrightarrow>
        (\<exists>md. se_object_of env j = Inr md))"

lemma pairs_left [intro]: "pairs_ok ps A B \<Longrightarrow> pairs_ok ps (insert i A) B"
  by (auto simp: pairs_ok_def)

lemma pairs_right [intro]: "pairs_ok ps A B \<Longrightarrow> pairs_ok ps A (insert i B)"
  by (auto simp: pairs_ok_def)

lemma pairs_filter [intro]: "pairs_ok ps A B \<Longrightarrow> pairs_ok (filter P ps) A B"
  by (auto simp: pairs_ok_def)

lemma ids_iff: "i \<in> ids key t \<longleftrightarrow> (\<exists>r \<in> set (rows t). key r = i)"
  by (auto simp: ids_def)

lemma ids_insert [simp]: "ids key (t\<lparr> rows := rows t @ [x], next_id := n \<rparr>) = insert (key x) (ids key t)"
  by (simp add: ids_def)

lemma ids_update [simp]:
  "(\<And>x. key (f x) = key x) \<Longrightarrow> ids key (t\<lparr> rows := map (\<lambda>x. if P x then f x else x) (rows t) \<rparr>) = ids key t"
proof -
  assume "\<And>x. key (f x) = key x"
  then have "key (if P x then f x else x) = key x" for x by simp
  then show ?thesis by (simp add: ids_def image_image)
qed

lemma ids_filter [simp]:
  "i \<in> ids key (t\<lparr> rows := filter Q (rows t) \<rparr>) \<longleftrightarrow> (\<exists>r \<in> set (rows t). Q r \<and> key r = i)"
  by (auto simp: ids_iff)

lemma all_rows_insert [simp]:
  "all_rows Q (t\<lparr> rows := rows t @ [x], next_id := n \<rparr>) \<longleftrightarrow> all_rows Q t \<and> Q x"
  by (auto simp: all_rows_def)

lemma all_rows_update:
  "all_rows Q t \<Longrightarrow> (\<And>x. Q x \<Longrightarrow> Q (f x)) \<Longrightarrow>
     all_rows Q (t\<lparr> rows := map (\<lambda>x. if P x then f x else x) (rows t) \<rparr>)"
  by (auto simp: all_rows_def)

lemma all_rows_mono: "all_rows Q t \<Longrightarrow> (\<And>r. r \<in> set (rows t) \<Longrightarrow> Q r \<Longrightarrow> Q' r) \<Longrightarrow> all_rows Q' t"
  by (auto simp: all_rows_def)

section \<open>Clean calls\<close>

text \<open>A clean answer keeps the tables consistent, and an error leaves them as they were.\<close>

definition clean :: "sql_env \<Rightarrow> MySQL \<Rightarrow> (repo_error + 'a) \<times> MySQL \<Rightarrow> bool" where
  "clean env db q \<longleftrightarrow> db_ok env (snd q) \<and> (isl (fst q) \<longrightarrow> snd q = db)"

lemma clean_fail [simp]: "clean env db (Inl e, db) \<longleftrightarrow> db_ok env db"
  by (simp add: clean_def)

lemma clean_done [simp]: "clean env db (Inr x, db') \<longleftrightarrow> db_ok env db'"
  by (simp add: clean_def)

lemma clean_found: "db_ok env db' \<Longrightarrow> \<exists>y. q = Inr y \<Longrightarrow> clean env db (q, db')"
  by (auto simp: clean_def)

lemma query_found:
  assumes "x \<in> set (rows t)" "P x" "\<And>r. r \<in> set (rows t) \<Longrightarrow> P r \<Longrightarrow> \<exists>y. scan r = Inr y"
  shows "\<exists>y. query_row P scan t = Inr y"
proof -
  obtain r where "find P (rows t) = Some r" using assms(1,2) by (cases "find P (rows t)") (auto simp: find_None_iff)
  then show ?thesis using assms(3) find_SomeD [of P "rows t" r] by (simp add: query_row_def)
qed

lemma clean_insert:
  assumes "db_ok env db" "\<And>i. key (mk i) = i"
    and "\<And>i t'. fnd i (put t') = query_row (\<lambda>r. key r = i) scan t'"
    and "\<And>i. list_all snd cs \<Longrightarrow> \<exists>y. scan (mk i) = Inr y"
    and "\<And>i. i = auto_id key t \<Longrightarrow> list_all snd cs \<Longrightarrow>
       db_ok env (put (t\<lparr> rows := rows t @ [mk i], next_id := i + 1 \<rparr>))"
  shows "clean env db (insert_find (sql_insert env key cs mk t) put fnd db)"
proof (cases "insert_find (sql_insert env key cs mk t) put fnd db")
  case (Pair r db')
  show ?thesis unfolding Pair using Pair
  proof (cases rule: insert_find_cases)
    case inserted
    have "r = scan (mk (auto_id key t))"
      unfolding inserted(3) unfolding inserted(2) assms(3)
      by (rule query_fresh) (simp add: assms(2))
    then show "clean env db (r, db')" using assms(4) [OF inserted(1)] assms(5) [OF HOL.refl inserted(1)] inserted(2)
      by (auto intro: clean_found)
  qed (simp add: assms(1))
qed

lemma clean_update:
  assumes "db_ok env db" "put t = db"
    and "list_all snd cs \<Longrightarrow> db_ok env (put (t\<lparr> rows := map (\<lambda>x. if P x then f x else x) (rows t) \<rparr>))"
    and "\<And>t'. fnd (put t') = query_row P scan t'" "\<And>x. P (f x) = P x"
    and "\<And>x. x \<in> set (rows t) \<Longrightarrow> P x \<Longrightarrow> \<exists>y. scan (f x) = Inr y"
  shows "clean env db (update_find (sql_update env cs P f t) put fnd db)"
proof (cases "update_find (sql_update env cs P f t) put fnd db")
  case (Pair r db')
  show ?thesis unfolding Pair using Pair
  proof (cases rule: update_find_cases)
    case updated
    obtain x where x: "x \<in> set (rows t)" "P x" using updated(3) by blast
    have "\<exists>y. query_row P scan (t\<lparr> rows := map (\<lambda>x. if P x then f x else x) (rows t) \<rparr>) = Inr y"
      by (rule query_found [where x = "f x"]) (use x assms(5,6) in auto)
    then have "\<exists>y. r = Inr y" by (simp add: updated(1,2) assms(4))
    then show "clean env db (r, db')" using assms(3) [OF updated(4)] updated(1) by (simp add: clean_found)
  qed (simp_all add: assms(1,2))
qed

lemmas db_ok_defs = db_ok_def references_ok_def

section \<open>Users, tokens and sessions\<close>

lemmas user_finds = FindUserByID_sql_def findAPITokenByID_def findSessionByID_def findLoginLogByID_def
  FindSessionByTokenHash_sql_def

lemma scan_total [simp]:
  "scanAPIToken t = Inr t" "\<exists>y. scanSession r1 = Inr y" "\<exists>y. scanLoginLog r2 = Inr y"
  "\<exists>y. scanDevice r3 = Inr y" "\<exists>y. scanRelay r4 = Inr y" "\<exists>y. scanBuildProfile r5 = Inr y"
  "\<exists>y. scanBuildJob r6 = Inr y" "\<exists>y. scanBuildArtifact r7 = Inr y" "\<exists>y. scanAccessRule r8 = Inr y"
  by (simp_all add: scanAPIToken_def scanSession_def scanLoginLog_def scanDevice_def scanRelay_def
      scanBuildProfile_def scanBuildJob_def scanBuildArtifact_def scanAccessRule_def)

lemma clean_users:
  assumes "db_ok env db"
  shows "clean env db (CreateUser_sql env now u db)" "clean env db (UpdateUser_sql env now i u db)"
    "clean env db (DisableUser_sql env i at db)" "clean env db (RecordUserLogin_sql env i at db)"
  unfolding CreateUser_sql_def UpdateUser_sql_def DisableUser_sql_def RecordUserLogin_sql_def Let_def
  using assms
  by (auto intro!: clean_insert [where scan = scanUser] clean_update [where scan = scanUser]
      ids_fresh_insert ids_fresh_update simp: user_finds db_ok_defs)

lemma clean_EnsureInitialAdmin: "db_ok env db \<Longrightarrow> clean env db (EnsureInitialAdmin env now e h db)"
  unfolding EnsureInitialAdmin_def Let_def sql_insert_def
  by (auto simp: db_ok_defs intro!: ids_fresh_insert split: option.split prod.split sum.split)

lemma clean_tokens:
  assumes "db_ok env db"
  shows "clean env db (CreateAPIToken_sql env now t db)" "clean env db (RevokeAPIToken_sql env i at db)"
    "clean env db (RecordAPITokenUsed_sql env i at db)"
  unfolding CreateAPIToken_sql_def RevokeAPIToken_sql_def RecordAPITokenUsed_sql_def Let_def
  using assms
  by (auto intro!: clean_insert [where scan = scanAPIToken] clean_update [where scan = scanAPIToken]
      simp: user_finds db_ok_defs)

lemma clean_sessions:
  assumes "db_ok env db"
  shows "clean env db (CreateSession_sql env now s db)" "clean env db (RevokeSession_sql env h at db)"
    "clean env db (CreateLoginLog_sql env now l db)"
  unfolding CreateSession_sql_def RevokeSession_sql_def CreateLoginLog_sql_def Let_def
  using assms
  by (auto intro!: clean_insert [where scan = scanSession] clean_insert [where scan = scanLoginLog]
      clean_update [where scan = scanSession] simp: user_finds db_ok_defs)

section \<open>Groups\<close>

lemma insert_ignore_ok:
  "pairs_ok ps A B \<Longrightarrow> set members = A \<Longrightarrow> set grps = B \<Longrightarrow>
     pairs_ok (insert_ignore_member members grps p ps) A B"
  by (cases p) (auto simp: insert_ignore_member_def pairs_ok_def)

lemma insert_members_ok:
  "pairs_ok ps A B \<Longrightarrow> set members = A \<Longrightarrow> set grps = B \<Longrightarrow>
     pairs_ok (insert_members members grps gid us ps) A B"
  by (induction us arbitrary: ps) (simp_all add: insert_ignore_ok)

lemma set_ids: "set (map key (rows t)) = ids key t"
  by (simp add: ids_def)

lemma scan_groups_total [simp]:
  "\<exists>y. scan_user_group db r1 = Inr y" "\<exists>y. scan_device_group db r2 = Inr y"
  by (simp_all add: scan_user_group_def scanUserGroup_def scan_device_group_def scanDeviceGroup_def)

lemma touch_rows:
  "rows (snd (sql_update env [] P f t)) = map (\<lambda>x. if P x then f x else x) (rows t)"
proof -
  have "\<not> list_ex P rs \<Longrightarrow> map (\<lambda>x. if P x then f x else x) rs = rs" for rs by (induction rs) auto
  then show ?thesis by (simp add: sql_update_def refused_def)
qed

lemma touch_ids:
  "(\<And>x. key (f x) = key x) \<Longrightarrow> ids key (snd (sql_update env [] P f t)) = ids key t"
  using ids_update [of key f P t] by (simp add: ids_def touch_rows)

lemma find_by_id:
  "(\<And>r. \<exists>y. scan r = Inr y) \<Longrightarrow> i \<in> ids key t \<Longrightarrow> \<exists>y. query_row (\<lambda>r. key r = i) scan t = Inr y"
  by (auto simp: ids_iff intro: query_found)

lemma find_by_idD: "query_row (\<lambda>r. key r = i) scan t = Inr y \<Longrightarrow> i \<in> ids key t"
  by (auto simp: ids_iff dest!: query_row_InrD)

lemma insertedD:
  assumes "sql_insert env key cs mk t = (Inr i, t')" "\<And>i. key (mk i) = i"
  shows "ids key t' = insert i (ids key t) \<and> list_all snd cs \<and> (\<forall>Q. all_rows Q t' \<longleftrightarrow> all_rows Q t \<and> Q (mk i))"
  using sql_insert_InrD [OF assms(1)] assms(2) by (auto simp: ids_def all_rows_def)

lemma clean_CreateUserGroup: "db_ok env db \<Longrightarrow> clean env db (CreateUserGroup_sql env now grp db)"
  unfolding CreateUserGroup_sql_def Let_def findUserGroupByID_def
  by (auto simp: db_ok_defs set_ids simp del: set_map split: prod.split sum.split
      dest!: insertedD intro!: clean_found find_by_id insert_members_ok)

lemma clean_CreateDeviceGroup: "db_ok env db \<Longrightarrow> clean env db (CreateDeviceGroup_sql env now grp db)"
  unfolding CreateDeviceGroup_sql_def Let_def findDeviceGroupByID_def
  by (auto simp: db_ok_defs set_ids simp del: set_map split: prod.split sum.split
      dest!: insertedD intro!: clean_found find_by_id insert_members_ok)

lemma clean_add_member:
  assumes "db_ok env db"
  shows "clean env db (AddUserGroupMember_sql env now gid uid db)"
    "clean env db (AddDeviceGroupMember_sql env now gid did db)"
  unfolding AddUserGroupMember_sql_def AddDeviceGroupMember_sql_def Let_def findUserGroupByID_def
    findDeviceGroupByID_def touch_user_group_def touch_device_group_def
  using assms
  by (auto simp: db_ok_defs set_ids touch_ids simp del: set_map split: sum.split
      dest!: find_by_idD intro!: clean_found find_by_id insert_ignore_ok)

text \<open>Removing a member: a group that is missing has no members, so nothing is removed.\<close>

lemma touch_missing: "i \<notin> ids key t \<Longrightarrow> snd (sql_update env [] (\<lambda>r. key r = i) f t) = t"
  by (auto simp: sql_update_def list_ex_iff ids_iff)

lemma remove_missing: "pairs_ok ps A B \<Longrightarrow> g \<notin> B \<Longrightarrow> filter (\<lambda>p. p \<noteq> (u, g)) ps = ps"
  by (auto simp: pairs_ok_def filter_id_conv)

lemma query_missing: "i \<notin> ids key t \<Longrightarrow> query_row (\<lambda>r. key r = i) scan t = Inl ErrNotFound"
  by (auto simp: query_row_def ids_iff split: option.split dest: find_SomeD)

lemma clean_RemoveUserGroupMember:
  assumes "db_ok env db"
  shows "clean env db (RemoveUserGroupMember_sql env now gid uid db)"
proof (cases "gid \<in> ids qug_id (tb_user_groups db)")
  case True
  then show ?thesis using assms
    unfolding RemoveUserGroupMember_sql_def Let_def findUserGroupByID_def touch_user_group_def
    by (auto simp: db_ok_defs touch_ids intro!: clean_found find_by_id)
next
  case False
  then have "filter (\<lambda>p. p \<noteq> (uid, gid)) (tb_user_group_members db) = tb_user_group_members db"
    using assms remove_missing by (auto simp: db_ok_defs)
  then show ?thesis using assms False
    by (simp add: RemoveUserGroupMember_sql_def Let_def findUserGroupByID_def touch_user_group_def
        touch_missing query_missing)
qed

lemma clean_RemoveDeviceGroupMember:
  assumes "db_ok env db"
  shows "clean env db (RemoveDeviceGroupMember_sql env now gid did db)"
proof (cases "gid \<in> ids qdg_id (tb_device_groups db)")
  case True
  then show ?thesis using assms
    unfolding RemoveDeviceGroupMember_sql_def Let_def findDeviceGroupByID_def touch_device_group_def
    by (auto simp: db_ok_defs touch_ids intro!: clean_found find_by_id)
next
  case False
  then have "filter (\<lambda>p. p \<noteq> (did, gid)) (tb_device_group_members db) = tb_device_group_members db"
    using assms remove_missing by (auto simp: db_ok_defs)
  then show ?thesis using assms False
    by (simp add: RemoveDeviceGroupMember_sql_def Let_def findDeviceGroupByID_def touch_device_group_def
        touch_missing query_missing)
qed

section \<open>Devices and relays\<close>

lemma clean_devices:
  assumes "db_ok env db"
  shows "clean env db (CreateDevice_sql env now d db)" "clean env db (UpdateDevice_sql env now i d db)"
    "clean env db (DisableDevice_sql env i at db)"
  unfolding CreateDevice_sql_def UpdateDevice_sql_def DisableDevice_sql_def Let_def
  using assms
  by (auto intro!: clean_insert [where scan = scanDevice] clean_update [where scan = scanDevice]
      simp: findDeviceByID_def db_ok_defs)

lemma clean_relays:
  assumes "db_ok env db"
  shows "clean env db (CreateRelay_sql env now r db)" "clean env db (UpdateRelay_sql env now i r db)"
    "clean env db (DisableRelay_sql env i at db)" "clean env db (RelayHeartbeat_sql env now i n st db)"
  unfolding CreateRelay_sql_def UpdateRelay_sql_def DisableRelay_sql_def RelayHeartbeat_sql_def Let_def
  using assms
  by (auto intro!: clean_insert [where scan = scanRelay] clean_update [where scan = scanRelay]
      simp: findRelayByID_def db_ok_defs split: option.split)

section \<open>Relay grants\<close>

lemma clean_CreateRelayGrant:
  assumes "db_ok env db" "json_readable env"
  shows "clean env db (CreateRelayGrant_sql env now g db)"
proof -
  have "\<exists>y. scanRelayGrant env r = Inr y"
    if "se_json env (se_strings env (rg_AllowedRelays g)) \<noteq> None"
      "qg_allowed_relays r = Some (json_col env (se_strings env (rg_AllowedRelays g)))" for r
    using assms(2) that by (force simp: scanRelayGrant_def Let_def json_readable_def json_col_def)
  note R = this
  show ?thesis
    unfolding CreateRelayGrant_sql_def Let_def using assms(1)
    by (auto intro!: clean_insert [where scan = "scanRelayGrant env"] R
        simp: findRelayGrantByID_def db_ok_defs grant_readable_def json_text_def)
qed

lemma clean_UpdateRelayGrantStatus:
  assumes "db_ok env db"
  shows "clean env db (UpdateRelayGrantStatus_sql env gid st u db)"
proof -
  have "\<exists>y. scanRelayGrant env (r\<lparr> qg_status := a, qg_used_at := b \<rparr>) = Inr y"
    if "\<exists>g. scanRelayGrant env r = Inr g" for r a b
    using that by (auto simp: scan_status)
  then show ?thesis
    unfolding UpdateRelayGrantStatus_sql_def using assms
    by (auto intro!: clean_update [where scan = "scanRelayGrant env"] all_rows_update
        simp: FindRelayGrantByGrantID_sql_def db_ok_defs grant_readable_def all_rows_def)
qed

section \<open>Address books\<close>

lemma scan_all_total: "(\<And>r. \<exists>y. scan r = Inr y) \<Longrightarrow> \<exists>ys. scan_all scan rs = Inr ys"
proof (induction rs)
  case (Cons r rs)
  then obtain y ys where "scan r = Inr y" "scan_all scan rs = Inr ys" by blast
  then show ?case by simp
qed simp

lemma scan_book_total [simp]: "\<exists>y. scan_address_book db r = Inr y"
proof -
  have "\<exists>es. listAddressBookEntries (qab_id r) db = Inr es"
    unfolding listAddressBookEntries_def by (rule scan_all_total) (simp add: scanAddressBookEntry_def)
  then show ?thesis by (auto simp: scan_address_book_def scanAddressBook_def)
qed

lemma insert_entry_ok:
  assumes "insert_entry env now bid did alias db = (q, db')" "db_ok env db"
  shows "db_ok env db' \<and> tb_address_books db' = tb_address_books db"
  using assms
  by (auto simp: insert_entry_def db_ok_defs references_def set_ids simp del: set_map
      split: prod.splits sum.splits dest!: insertedD)

lemma insert_entries_ok:
  "insert_entries env now bid es db = (q, db') \<Longrightarrow> db_ok env db \<Longrightarrow>
     db_ok env db' \<and> tb_address_books db' = tb_address_books db"
proof (induction es arbitrary: db)
  case (Cons e es)
  obtain q1 db1 where 1: "insert_entry env now bid (abe_DeviceID e) (nullString (abe_Alias e)) db = (q1, db1)"
    by fastforce
  show ?case using Cons 1 insert_entry_ok [OF 1] by (auto split: sum.splits)
qed simp

lemma book_inserted_ok:
  "db_ok env db \<Longrightarrow> ids qab_id t = insert i (ids qab_id (tb_address_books db)) \<Longrightarrow>
     db_ok env (db\<lparr> tb_address_books := t \<rparr>)"
  by (auto simp: db_ok_defs elim: all_rows_mono)

lemma clean_CreateAddressBook:
  assumes "db_ok env db"
  shows "clean env db (CreateAddressBook_sql env now b db)"
  unfolding CreateAddressBook_sql_def Let_def findAddressBookByID_def
  using assms
  by (auto split: prod.split sum.split dest!: insertedD insert_entries_ok
      intro!: clean_found find_by_id book_inserted_ok)

lemma touch_book_ok:
  "db_ok env db \<Longrightarrow> db_ok env (touch_address_book env now bid db)"
  by (simp add: db_ok_defs touch_address_book_def touch_ids)

lemma touch_book_ids [simp]:
  "ids qab_id (tb_address_books (touch_address_book env now bid db)) = ids qab_id (tb_address_books db)"
  by (simp add: touch_address_book_def touch_ids)

lemma clean_AddAddressBookEntry:
  assumes "db_ok env db"
  shows "clean env db (AddAddressBookEntry_sql env now bid e db)"
  unfolding AddAddressBookEntry_sql_def Let_def findAddressBookByID_def
  using assms
  by (auto split: prod.split sum.split dest!: insert_entry_ok find_by_idD
      intro!: clean_found find_by_id touch_book_ok)

lemma sql_deleteD:
  "sql_delete env cs P t = (Inr n, t') \<Longrightarrow>
     t' = t\<lparr> rows := filter (\<lambda>r. \<not> P r) (rows t) \<rparr> \<and> (n \<noteq> 0 \<longrightarrow> (\<exists>r \<in> set (rows t). P r))"
proof -
  have "\<not> list_ex P rs \<Longrightarrow> filter (\<lambda>r. \<not> P r) rs = rs" for rs by (induction rs) auto
  then show "sql_delete env cs P t = (Inr n, t') \<Longrightarrow>
      t' = t\<lparr> rows := filter (\<lambda>r. \<not> P r) (rows t) \<rparr> \<and> (n \<noteq> 0 \<longrightarrow> (\<exists>r \<in> set (rows t). P r))"
    by (auto simp: sql_delete_def filter_empty_conv list_ex_iff split: if_splits option.splits)
qed

lemma all_rows_filter: "all_rows Q t \<Longrightarrow> all_rows Q (t\<lparr> rows := filter P (rows t) \<rparr>)"
  by (simp add: all_rows_def)

lemma clean_RemoveAddressBookEntry:
  assumes "db_ok env db"
  shows "clean env db (RemoveAddressBookEntry_sql env now bid eid db)"
proof (cases "sql_delete env [] (\<lambda>r. qabe_address_book_id r = bid \<and> qabe_id r = eid) (tb_address_book_entries db)")
  case (Pair q t)
  show ?thesis
  proof (cases q)
    case (Inr n)
    note d = sql_deleteD [OF Pair [unfolded Inr]]
    have "bid \<in> ids qab_id (tb_address_books db)" if "n \<noteq> 0"
      using d that assms by (auto simp: db_ok_defs all_rows_def)
    then show ?thesis
      unfolding RemoveAddressBookEntry_sql_def Let_def findAddressBookByID_def Pair Inr
      using assms d
      by (auto intro!: clean_found find_by_id touch_book_ok simp: db_ok_defs all_rows_filter)
  qed (use assms in \<open>simp add: RemoveAddressBookEntry_sql_def Pair\<close>)
qed

lemma delete_refs_ok:
  "all_rows (\<lambda>p. k p \<in> ids key t) T \<Longrightarrow> all_rows (\<lambda>p. k p \<noteq> i) T \<Longrightarrow>
     all_rows (\<lambda>p. k p \<in> ids key (t\<lparr> rows := filter (\<lambda>r. key r \<noteq> i) (rows t) \<rparr>)) T"
  unfolding all_rows_def ids_iff by fastforce

section \<open>Access rules\<close>

lemma clean_exists:
  assumes "db_ok env db"
    and "\<And>t'. t' = t \<or> list_all snd cs \<and> t' = t\<lparr> rows := map (\<lambda>x. if P x then f x else x) (rows t) \<rparr> \<Longrightarrow>
       (\<exists>x \<in> set (rows t). P x) \<or> requireRowExists table i (put t') = None \<Longrightarrow> clean env db (rest (put t'))"
  shows "clean env db (update_exists (sql_update env cs P f t) put table i rest db)"
proof (cases "sql_update env cs P f t")
  case (Pair q t')
  show ?thesis
  proof (cases q)
    case (Inr n)
    have "t' = t \<or> list_all snd cs \<and> t' = t\<lparr> rows := map (\<lambda>x. if P x then f x else x) (rows t) \<rparr>"
      using Pair Inr by (auto simp: sql_update_def refused_None split: if_splits option.splits)
    moreover have "\<exists>x \<in> set (rows t). P x" if "n \<noteq> 0"
      using sql_update_some [of env cs P f t n t'] Pair Inr that by simp
    ultimately show ?thesis using assms Pair Inr
      by (auto simp: update_exists_def split: option.split)
  qed (use assms Pair in \<open>simp add: update_exists_def\<close>)
qed

lemma clean_rules:
  assumes "db_ok env db"
  shows "clean env db (CreateAccessRule_sql env now r db)" "clean env db (UpdateAccessRule_sql env now i r db)"
    "clean env db (DeleteAccessRule_sql env i db)"
proof -
  show "clean env db (CreateAccessRule_sql env now r db)"
    unfolding CreateAccessRule_sql_def using assms
    by (auto intro!: clean_insert [where scan = scanAccessRule] simp: findAccessRuleByID_def db_ok_defs)
  show "clean env db (UpdateAccessRule_sql env now i r db)"
    unfolding UpdateAccessRule_sql_def using assms
    by (auto intro!: clean_exists clean_found find_by_id
        simp: findAccessRuleByID_def db_ok_defs requireRowExists_def set_ids ids_iff simp del: set_map
        split: if_splits)
  show "clean env db (DeleteAccessRule_sql env i db)"
    unfolding DeleteAccessRule_sql_def using assms
    by (auto simp: db_ok_defs split: prod.split sum.split)
qed

section \<open>Control roles\<close>

lemma scan_role_total [simp]: "\<exists>y. scan_control_role db r = Inr y"
proof -
  have "\<exists>ps. listControlRolePermissions (qcr_id r) db = Inr ps"
    unfolding listControlRolePermissions_def by (rule scan_all_total) (simp add: scanControlRolePermission_def)
  then show ?thesis by (auto simp: scan_control_role_def scanControlRole_def)
qed

lemma insert_permissions_ok:
  "insert_permissions env i ps db = (q, db') \<Longrightarrow> db_ok env db \<Longrightarrow>
     db_ok env db' \<and> tb_control_roles db' = tb_control_roles db"
proof (induction ps arbitrary: db)
  case (Cons p ps)
  show ?case
  proof (cases "sql_insert env crp_ID
        [varchar env 120 (crp_PermissionKey p), enum_in env permission_modes (crp_Mode p),
         references i (map qcr_id (rows (tb_control_roles db)))]
        (\<lambda>j. \<lparr> crp_ID = j, crp_RoleID = i, crp_PermissionKey = crp_PermissionKey p,
                crp_Mode = enum_col env permission_modes (crp_Mode p) \<rparr>)
        (tb_control_role_permissions db)")
    case (Pair r t)
    show ?thesis
    proof (cases r)
      case (Inr j)
      have "db_ok env (db\<lparr> tb_control_role_permissions := t \<rparr>)"
        using insertedD [OF Pair [unfolded Inr]] Cons.prems(2)
        by (auto simp: db_ok_defs references_def set_ids simp del: set_map)
      then show ?thesis using Cons.IH [of "db\<lparr> tb_control_role_permissions := t \<rparr>"] Cons.prems(1) Pair Inr
        by simp
    qed (use Cons.prems Pair in auto)
  qed
qed simp

lemma delete_rows: "rows (snd (sql_delete env [] P t)) = filter (\<lambda>r. \<not> P r) (rows t)"
proof -
  have "\<not> list_ex P rs \<Longrightarrow> filter (\<lambda>r. \<not> P r) rs = rs" for rs by (induction rs) auto
  then show ?thesis by (auto simp: sql_delete_def refused_def)
qed

lemma delete_all_rows: "all_rows Q t \<Longrightarrow> all_rows Q (snd (sql_delete env [] P t))"
  by (simp add: all_rows_def delete_rows)

lemma delete_permissions_ok:
  "db_ok env db \<Longrightarrow> db_ok env (delete_permissions env i db) \<and>
     tb_control_roles (delete_permissions env i db) = tb_control_roles db"
  by (simp add: db_ok_defs delete_permissions_def delete_all_rows)

lemma role_inserted_ok:
  "db_ok env db \<Longrightarrow> ids qcr_id t = insert i (ids qcr_id (tb_control_roles db)) \<Longrightarrow>
     db_ok env (db\<lparr> tb_control_roles := t \<rparr>)"
  by (auto simp: db_ok_defs elim: all_rows_mono)

lemma role_ids_ok:
  "db_ok env db \<Longrightarrow> ids qcr_id t = ids qcr_id (tb_control_roles db) \<Longrightarrow> db_ok env (db\<lparr> tb_control_roles := t \<rparr>)"
  by (simp add: db_ok_defs)

lemma clean_CreateControlRole: "db_ok env db \<Longrightarrow> clean env db (CreateControlRole_sql env now r db)"
  unfolding CreateControlRole_sql_def Let_def findControlRoleByID_def
  by (auto split: prod.split sum.split dest!: insertedD insert_permissions_ok
      intro!: clean_found find_by_id role_inserted_ok)

lemma clean_UpdateControlRole:
  assumes "db_ok env db"
  shows "clean env db (UpdateControlRole_sql env now i r db)"
proof -
  have "clean env db (case insert_permissions env i ps (delete_permissions env i (db\<lparr> tb_control_roles := t \<rparr>)) of
      (Inl e, db2) \<Rightarrow> (Inl e, db) | (Inr u, db2) \<Rightarrow> (findControlRoleByID i db2, db2))"
    if "ids qcr_id t = ids qcr_id (tb_control_roles db)" "i \<in> ids qcr_id t" for ps t
  proof -
    have ok: "db_ok env (db\<lparr> tb_control_roles := t \<rparr>)" by (rule role_ids_ok [OF assms that(1)])
    show ?thesis
      using delete_permissions_ok [OF ok, of i] that(2) assms
      by (auto split: prod.split sum.split dest!: insert_permissions_ok
          simp: findControlRoleByID_def intro!: clean_found find_by_id)
  qed
  note R = this
  show ?thesis
    unfolding UpdateControlRole_sql_def Let_def
    by (auto intro!: clean_exists R simp: assms requireRowExists_def set_ids ids_iff simp del: set_map
        split: if_splits)
qed

lemma clean_DeleteControlRole:
  assumes "db_ok env db"
  shows "clean env db (DeleteControlRole_sql env i db)"
proof -
  let ?d = "delete_permissions env i db"
  let ?q = "sql_delete env
     [(1451, \<not> list_ex (\<lambda>p. crp_RoleID p = i) (rows (tb_control_role_permissions ?d)))]
     (\<lambda>r. qcr_id r = i) (tb_control_roles ?d)"
  have d: "db_ok env ?d" "tb_control_roles ?d = tb_control_roles db"
    using delete_permissions_ok [OF assms] by auto
  have no: "all_rows (\<lambda>p. crp_RoleID p \<noteq> i) (tb_control_role_permissions ?d)"
    by (simp add: all_rows_def delete_permissions_def delete_rows)
  have "db_ok env (?d\<lparr> tb_control_roles := t \<rparr>)" if "?q = (Inr n, t)" for n t
  proof -
    have "all_rows (\<lambda>p. crp_RoleID p \<in> ids qcr_id t) (tb_control_role_permissions ?d)"
      using d no sql_deleteD [OF that] by (simp add: db_ok_defs delete_refs_ok del: ids_filter)
    then show ?thesis using d by (simp add: db_ok_defs)
  qed
  then show ?thesis unfolding DeleteControlRole_sql_def Let_def using assms
    by (auto split: prod.split sum.split)
qed

section \<open>Strategies\<close>

lemma scan_strategy_total [simp]: "\<exists>y. scan_strategy db r = Inr y"
proof -
  have "\<exists>xs. listStrategyAssignments (qst_id r) db = Inr xs"
    unfolding listStrategyAssignments_def by (rule scan_all_total) (simp add: scanStrategyAssignment_def)
  then show ?thesis by (auto simp: scan_strategy_def scanStrategy_def)
qed

lemma insert_assignment_ok:
  "insert_assignment env now i a db = (q, db') \<Longrightarrow> db_ok env db \<Longrightarrow>
     db_ok env db' \<and> tb_strategies db' = tb_strategies db"
  by (auto simp: insert_assignment_def db_ok_defs references_def set_ids simp del: set_map
      split: prod.splits sum.splits dest!: insertedD)

lemma insert_assignments_ok:
  "insert_assignments env now i xs db = (q, db') \<Longrightarrow> db_ok env db \<Longrightarrow>
     db_ok env db' \<and> tb_strategies db' = tb_strategies db"
proof (induction xs arbitrary: db)
  case (Cons a xs)
  obtain q1 db1 where 1: "insert_assignment env now i a db = (q1, db1)" by fastforce
  show ?case using Cons 1 insert_assignment_ok [OF 1] by (auto split: sum.splits)
qed simp

lemma delete_assignments_ok:
  "db_ok env db \<Longrightarrow> db_ok env (delete_assignments env i db) \<and>
     tb_strategies (delete_assignments env i db) = tb_strategies db"
  by (simp add: db_ok_defs delete_assignments_def delete_all_rows)

lemma strategy_inserted_ok:
  "db_ok env db \<Longrightarrow> ids qst_id t = insert i (ids qst_id (tb_strategies db)) \<Longrightarrow>
     db_ok env (db\<lparr> tb_strategies := t \<rparr>)"
  by (auto simp: db_ok_defs elim: all_rows_mono)

lemma strategy_ids_ok:
  "db_ok env db \<Longrightarrow> ids qst_id t = ids qst_id (tb_strategies db) \<Longrightarrow> db_ok env (db\<lparr> tb_strategies := t \<rparr>)"
  by (simp add: db_ok_defs)

lemma clean_CreateStrategy: "db_ok env db \<Longrightarrow> clean env db (CreateStrategy_sql env now s db)"
  unfolding CreateStrategy_sql_def Let_def findStrategyByID_def
  by (auto split: prod.split sum.split dest!: insertedD insert_assignments_ok
      intro!: clean_found find_by_id strategy_inserted_ok)

lemma clean_UpdateStrategy:
  assumes "db_ok env db"
  shows "clean env db (UpdateStrategy_sql env now i s db)"
proof -
  have "clean env db (case insert_assignments env now i xs (delete_assignments env i (db\<lparr> tb_strategies := t \<rparr>)) of
      (Inl e, db2) \<Rightarrow> (Inl e, db) | (Inr u, db2) \<Rightarrow> (findStrategyByID i db2, db2))"
    if "ids qst_id t = ids qst_id (tb_strategies db)" "i \<in> ids qst_id t" for xs t
  proof -
    have ok: "db_ok env (db\<lparr> tb_strategies := t \<rparr>)" by (rule strategy_ids_ok [OF assms that(1)])
    show ?thesis
      using delete_assignments_ok [OF ok, of i] that(2) assms
      by (auto split: prod.split sum.split dest!: insert_assignments_ok
          simp: findStrategyByID_def intro!: clean_found find_by_id)
  qed
  note R = this
  show ?thesis
    unfolding UpdateStrategy_sql_def Let_def
    by (auto intro!: clean_exists R simp: assms requireRowExists_def set_ids ids_iff simp del: set_map
        split: if_splits)
qed

lemma clean_DeleteStrategy:
  assumes "db_ok env db"
  shows "clean env db (DeleteStrategy_sql env i db)"
proof -
  let ?d = "delete_assignments env i db"
  let ?q = "sql_delete env
     [(1451, \<not> list_ex (\<lambda>a. sa_StrategyID a = i) (rows (tb_strategy_assignments ?d)))]
     (\<lambda>r. qst_id r = i) (tb_strategies ?d)"
  have d: "db_ok env ?d" "tb_strategies ?d = tb_strategies db"
    using delete_assignments_ok [OF assms] by auto
  have no: "all_rows (\<lambda>a. sa_StrategyID a \<noteq> i) (tb_strategy_assignments ?d)"
    by (simp add: all_rows_def delete_assignments_def delete_rows)
  have "db_ok env (?d\<lparr> tb_strategies := t \<rparr>)" if "?q = (Inr n, t)" for n t
  proof -
    have "all_rows (\<lambda>a. sa_StrategyID a \<in> ids qst_id t) (tb_strategy_assignments ?d)"
      using d no sql_deleteD [OF that] by (simp add: db_ok_defs delete_refs_ok del: ids_filter)
    then show ?thesis using d by (simp add: db_ok_defs)
  qed
  then show ?thesis unfolding DeleteStrategy_sql_def Let_def using assms
    by (auto split: prod.split sum.split)
qed

lemma clean_AddStrategyAssignment:
  "db_ok env db \<Longrightarrow> clean env db (AddStrategyAssignment_sql env now i a db)"
  unfolding AddStrategyAssignment_sql_def findStrategyByID_def
  by (auto split: prod.split sum.split option.split dest!: insert_assignment_ok
      simp: requireRowExists_def set_ids simp del: set_map intro!: clean_found find_by_id)

lemma clean_RemoveStrategyAssignment:
  assumes "db_ok env db"
  shows "clean env db (RemoveStrategyAssignment_sql env i j db)"
proof (cases "sql_delete env [] (\<lambda>a. sa_StrategyID a = i \<and> sa_ID a = j) (tb_strategy_assignments db)")
  case (Pair q t)
  show ?thesis
  proof (cases q)
    case (Inr n)
    note d = sql_deleteD [OF Pair [unfolded Inr]]
    have "i \<in> ids qst_id (tb_strategies db)" if "n \<noteq> 0"
      using d that assms by (auto simp: db_ok_defs all_rows_def)
    then show ?thesis
      unfolding RemoveStrategyAssignment_sql_def Let_def findStrategyByID_def Pair Inr
      using assms d
      by (auto intro!: clean_found find_by_id simp: db_ok_defs all_rows_filter split: option.split)
  qed (use assms in \<open>simp add: RemoveStrategyAssignment_sql_def Pair\<close>)
qed

section \<open>Builds\<close>

lemma profile_inserted_ok:
  "db_ok env db \<Longrightarrow> ids qbp_id t = insert i (ids qbp_id (tb_build_profiles db)) \<Longrightarrow>
     db_ok env (db\<lparr> tb_build_profiles := t \<rparr>)"
  by (auto simp: db_ok_defs elim: all_rows_mono)

lemma clean_profiles:
  assumes "db_ok env db"
  shows "clean env db (CreateBuildProfile_sql env now p db)"
    "clean env db (UpdateBuildProfile_sql env now i p db)"
    "clean env db (DeleteBuildProfile_sql env i db)"
proof -
  show "clean env db (CreateBuildProfile_sql env now p db)"
    unfolding CreateBuildProfile_sql_def using assms
    by (auto intro!: clean_insert [where scan = scanBuildProfile] profile_inserted_ok
        simp: FindBuildProfileByID_sql_def)
  show "clean env db (UpdateBuildProfile_sql env now i p db)"
    unfolding UpdateBuildProfile_sql_def using assms
    by (auto intro!: clean_exists clean_found find_by_id
        simp: FindBuildProfileByID_sql_def db_ok_defs requireRowExists_def set_ids ids_iff simp del: set_map
        split: if_splits)
  have "all_rows (\<lambda>j. qbj_profile_id j \<in> ids qbp_id t) (tb_build_jobs db)"
    if "sql_delete env [(1451, \<not> list_ex (\<lambda>j. qbj_profile_id j = i) (rows (tb_build_jobs db)))]
          (\<lambda>r. qbp_id r = i) (tb_build_profiles db) = (Inr n, t)"
      "filter (\<lambda>j. qbj_profile_id j = i) (rows (tb_build_jobs db)) = []" for n t
  proof -
    have "all_rows (\<lambda>j. qbj_profile_id j \<noteq> i) (tb_build_jobs db)"
      using that(2) by (auto simp: all_rows_def filter_empty_conv)
    then show ?thesis using assms sql_deleteD [OF that(1)] by (simp add: db_ok_defs delete_refs_ok del: ids_filter)
  qed
  then show "clean env db (DeleteBuildProfile_sql env i db)"
    unfolding DeleteBuildProfile_sql_def Let_def using assms
    by (auto simp: db_ok_defs split: prod.split sum.split)
qed

lemma clean_jobs:
  assumes "db_ok env db"
  shows "clean env db (CreateBuildJob_sql env now j db)" "clean env db (finishBuildJob_sql env i st lp msg at db)"
    "clean env db (CreateBuildArtifact_sql env now a db)"
  unfolding CreateBuildJob_sql_def finishBuildJob_sql_def CreateBuildArtifact_sql_def Let_def
  using assms
  by (auto intro!: clean_insert [where scan = scanBuildJob] clean_update [where scan = scanBuildJob]
      clean_insert [where scan = scanBuildArtifact] all_rows_update
      simp: findBuildJobByID_def findBuildArtifactByID_def db_ok_defs references_def set_ids
      simp del: set_map)

lemma clean_ClaimNextBuildJob:
  assumes "db_ok env db"
  shows "clean env db (ClaimNextBuildJob_sql env runner at db)"
proof (cases "sort_key qbj_id (filter (\<lambda>r. ci_eq env (qbj_status r) ''queued'') (rows (tb_build_jobs db)))")
  case Nil
  then show ?thesis using assms by (simp add: ClaimNextBuildJob_sql_def)
next
  case (Cons r rs)
  have "r \<in> set (filter (\<lambda>r. ci_eq env (qbj_status r) ''queued'') (rows (tb_build_jobs db)))"
    using Cons by (metis list.set_intros(1) set_sort)
  then have r: "qbj_id r \<in> ids qbj_id (tb_build_jobs db)" by (auto simp: ids_iff)
  let ?q = "sql_update env [varchar env 120 runner, timestamp env at] (\<lambda>j. qbj_id j = qbj_id r)
      (\<lambda>j. j\<lparr> qbj_status := ''running'', qbj_runner := Some runner,
              qbj_started_at := Some (time_col env at) \<rparr>) (tb_build_jobs db)"
  have "clean env db (findBuildJobByID (qbj_id r) (db\<lparr> tb_build_jobs := t \<rparr>), db\<lparr> tb_build_jobs := t \<rparr>)"
    if q: "?q = (Inr n, t)" for n t
  proof (rule clean_found)
    have t: "rows t = map (\<lambda>j. if qbj_id j = qbj_id r then j\<lparr> qbj_status := ''running'',
        qbj_runner := Some runner, qbj_started_at := Some (time_col env at) \<rparr> else j) (rows (tb_build_jobs db))"
      using sql_update_rows [OF q] by simp
    show "db_ok env (db\<lparr> tb_build_jobs := t \<rparr>)" using assms by (auto simp: db_ok_defs all_rows_def t)
    have "ids qbj_id t = ids qbj_id (tb_build_jobs db)"
      using ids_update [of qbj_id _ "\<lambda>j. qbj_id j = qbj_id r" "tb_build_jobs db"] by (simp add: ids_def t)
    then have "qbj_id r \<in> ids qbj_id t" using r by simp
    then show "\<exists>y. findBuildJobByID (qbj_id r) (db\<lparr> tb_build_jobs := t \<rparr>) = Inr y"
      by (auto simp: findBuildJobByID_def intro!: find_by_id)
  qed
  then show ?thesis using assms Cons
    by (auto simp: ClaimNextBuildJob_sql_def Let_def split: prod.split sum.split)
qed

section \<open>Logs and settings\<close>

lemma metadata_readable:
  assumes "json_readable env" "se_object env kvs = Inr s" "list_all snd [json_text env s]"
  shows "\<exists>md. parseJSONObject env (Some (json_col env s)) = Inr md"
proof -
  obtain j where j: "se_json env s = Some j" using assms(3) by (auto simp: json_text_def)
  then obtain md where "se_object_of env j = Inr md" using assms(1,2) unfolding json_readable_def by metis
  then show ?thesis using j by (cases md) (auto simp: parseJSONObject_def json_col_def)
qed

lemma clean_CreateAuditEvent:
  assumes "json_readable env" "db_ok env db"
  shows "clean env db (CreateAuditEvent_sql env now e db)"
proof -
  have R: "\<exists>y. scanAuditEvent env r = Inr y"
    if "se_object env kvs = Inr s" "list_all snd [json_text env s]"
      "qae_metadata_json r = Some (json_col env s)" for kvs s r
    using metadata_readable [OF assms(1) that(1,2)] that(3) by (auto simp: scanAuditEvent_def)
  show ?thesis
    unfolding CreateAuditEvent_sql_def Let_def using assms(2)
    by (auto intro!: clean_insert [where scan = "scanAuditEvent env"] R simp: findAuditEventByID_def db_ok_defs
        split: sum.split)
qed

lemma clean_CreateConnectionLog:
  assumes "json_readable env" "db_ok env db"
  shows "clean env db (CreateConnectionLog_sql env now l db)"
proof -
  have R: "\<exists>y. scanConnectionLog env r = Inr y"
    if "se_object env kvs = Inr s" "list_all snd [json_text env s]"
      "qcl_metadata_json r = Some (json_col env s)" for kvs s r
    using metadata_readable [OF assms(1) that(1,2)] that(3) by (auto simp: scanConnectionLog_def)
  show ?thesis
    unfolding CreateConnectionLog_sql_def Let_def using assms(2)
    by (auto intro!: clean_insert [where scan = "scanConnectionLog env"] R
        simp: findConnectionLogByID_def db_ok_defs split: sum.split)
qed

lemma upsert_settings_ok:
  "upsert_settings env now ss u db = (q, db') \<Longrightarrow> db_ok env db \<Longrightarrow> db_ok env db'"
proof (induction ss arbitrary: db)
  case (Cons s ss)
  have "upsert_setting env now k v a db = (q1, db1) \<Longrightarrow> db_ok env db1" for k v a q1 db1
    using Cons.prems(2) by (auto simp: upsert_setting_def Let_def db_ok_defs split: option.splits)
  then show ?case using Cons by (auto simp: Let_def split: if_splits prod.splits sum.splits)
qed simp

lemma clean_UpsertSystemSettings:
  "db_ok env db \<Longrightarrow> clean env db (UpsertSystemSettings_sql env now ss u db)"
  unfolding UpsertSystemSettings_sql_def
  by (auto split: prod.split sum.split dest: upsert_settings_ok)

section \<open>Calls and the databases they reach\<close>

text \<open>One call of a method that writes, whether it answered an error, and the database after it.\<close>

inductive mysql_call :: "sql_env \<Rightarrow> MySQL \<Rightarrow> bool \<Rightarrow> MySQL \<Rightarrow> bool" for env where
  user_created: "CreateUser_sql env now u db = (r, db') \<Longrightarrow> mysql_call env db (isl r) db'"
| user_updated: "UpdateUser_sql env now i u db = (r, db') \<Longrightarrow> mysql_call env db (isl r) db'"
| user_disabled: "DisableUser_sql env i now db = (r, db') \<Longrightarrow> mysql_call env db (isl r) db'"
| user_login: "RecordUserLogin_sql env i now db = (r, db') \<Longrightarrow> mysql_call env db (isl r) db'"
| admin_ensured: "EnsureInitialAdmin env now e h db = (r, db') \<Longrightarrow> mysql_call env db (isl r) db'"
| token_created: "CreateAPIToken_sql env now k db = (r, db') \<Longrightarrow> mysql_call env db (isl r) db'"
| token_revoked: "RevokeAPIToken_sql env i now db = (r, db') \<Longrightarrow> mysql_call env db (isl r) db'"
| token_used: "RecordAPITokenUsed_sql env i now db = (r, db') \<Longrightarrow> mysql_call env db (isl r) db'"
| session_opened: "CreateSession_sql env now n db = (r, db') \<Longrightarrow> mysql_call env db (isl r) db'"
| session_closed: "RevokeSession_sql env h now db = (r, db') \<Longrightarrow> mysql_call env db (isl r) db'"
| login_logged: "CreateLoginLog_sql env now l db = (r, db') \<Longrightarrow> mysql_call env db (isl r) db'"
| user_group_created: "CreateUserGroup_sql env now ug db = (r, db') \<Longrightarrow> mysql_call env db (isl r) db'"
| user_joined: "AddUserGroupMember_sql env now i j db = (r, db') \<Longrightarrow> mysql_call env db (isl r) db'"
| user_left: "RemoveUserGroupMember_sql env now i j db = (r, db') \<Longrightarrow> mysql_call env db (isl r) db'"
| device_created: "CreateDevice_sql env now d db = (r, db') \<Longrightarrow> mysql_call env db (isl r) db'"
| device_updated: "UpdateDevice_sql env now i d db = (r, db') \<Longrightarrow> mysql_call env db (isl r) db'"
| device_disabled: "DisableDevice_sql env i now db = (r, db') \<Longrightarrow> mysql_call env db (isl r) db'"
| device_group_created: "CreateDeviceGroup_sql env now dg db = (r, db') \<Longrightarrow> mysql_call env db (isl r) db'"
| device_joined: "AddDeviceGroupMember_sql env now i j db = (r, db') \<Longrightarrow> mysql_call env db (isl r) db'"
| device_left: "RemoveDeviceGroupMember_sql env now i j db = (r, db') \<Longrightarrow> mysql_call env db (isl r) db'"
| book_created: "CreateAddressBook_sql env now b db = (r, db') \<Longrightarrow> mysql_call env db (isl r) db'"
| entry_added: "AddAddressBookEntry_sql env now i en db = (r, db') \<Longrightarrow> mysql_call env db (isl r) db'"
| entry_removed: "RemoveAddressBookEntry_sql env now i j db = (r, db') \<Longrightarrow> mysql_call env db (isl r) db'"
| relay_created: "CreateRelay_sql env now rl db = (r, db') \<Longrightarrow> mysql_call env db (isl r) db'"
| relay_updated: "UpdateRelay_sql env now i rl db = (r, db') \<Longrightarrow> mysql_call env db (isl r) db'"
| relay_disabled: "DisableRelay_sql env i now db = (r, db') \<Longrightarrow> mysql_call env db (isl r) db'"
| relay_beat: "RelayHeartbeat_sql env now i n st db = (r, db') \<Longrightarrow> mysql_call env db (isl r) db'"
| grant_created: "CreateRelayGrant_sql env now g db = (r, db') \<Longrightarrow> mysql_call env db (isl r) db'"
| grant_updated: "UpdateRelayGrantStatus_sql env k st t db = (r, db') \<Longrightarrow> mysql_call env db (isl r) db'"
| rule_created: "CreateAccessRule_sql env now ar db = (r, db') \<Longrightarrow> mysql_call env db (isl r) db'"
| rule_updated: "UpdateAccessRule_sql env now i ar db = (r, db') \<Longrightarrow> mysql_call env db (isl r) db'"
| rule_deleted: "DeleteAccessRule_sql env i db = (r, db') \<Longrightarrow> mysql_call env db (isl r) db'"
| role_created: "CreateControlRole_sql env now cr db = (r, db') \<Longrightarrow> mysql_call env db (isl r) db'"
| role_updated: "UpdateControlRole_sql env now i cr db = (r, db') \<Longrightarrow> mysql_call env db (isl r) db'"
| role_deleted: "DeleteControlRole_sql env i db = (r, db') \<Longrightarrow> mysql_call env db (isl r) db'"
| strategy_created: "CreateStrategy_sql env now sg db = (r, db') \<Longrightarrow> mysql_call env db (isl r) db'"
| strategy_updated: "UpdateStrategy_sql env now i sg db = (r, db') \<Longrightarrow> mysql_call env db (isl r) db'"
| strategy_deleted: "DeleteStrategy_sql env i db = (r, db') \<Longrightarrow> mysql_call env db (isl r) db'"
| assignment_added: "AddStrategyAssignment_sql env now i a db = (r, db') \<Longrightarrow> mysql_call env db (isl r) db'"
| assignment_removed: "RemoveStrategyAssignment_sql env i j db = (r, db') \<Longrightarrow> mysql_call env db (isl r) db'"
| profile_created: "CreateBuildProfile_sql env now p db = (r, db') \<Longrightarrow> mysql_call env db (isl r) db'"
| profile_updated: "UpdateBuildProfile_sql env now i p db = (r, db') \<Longrightarrow> mysql_call env db (isl r) db'"
| profile_deleted: "DeleteBuildProfile_sql env i db = (r, db') \<Longrightarrow> mysql_call env db (isl r) db'"
| job_created: "CreateBuildJob_sql env now bj db = (r, db') \<Longrightarrow> mysql_call env db (isl r) db'"
| job_claimed: "ClaimNextBuildJob_sql env runner now db = (r, db') \<Longrightarrow> mysql_call env db (isl r) db'"
| job_completed: "CompleteBuildJob_sql env i lp now db = (r, db') \<Longrightarrow> mysql_call env db (isl r) db'"
| job_failed: "FailBuildJob_sql env i lp msg now db = (r, db') \<Longrightarrow> mysql_call env db (isl r) db'"
| job_canceled: "CancelBuildJob_sql env i msg now db = (r, db') \<Longrightarrow> mysql_call env db (isl r) db'"
| artifact_created: "CreateBuildArtifact_sql env now ba db = (r, db') \<Longrightarrow> mysql_call env db (isl r) db'"
| audit_created: "CreateAuditEvent_sql env now ae db = (r, db') \<Longrightarrow> mysql_call env db (isl r) db'"
| connection_created: "CreateConnectionLog_sql env now cl db = (r, db') \<Longrightarrow> mysql_call env db (isl r) db'"
| settings_saved: "UpsertSystemSettings_sql env now ss i db = (r, db') \<Longrightarrow> mysql_call env db (isl r) db'"

inductive mysql_path :: "sql_env \<Rightarrow> MySQL \<Rightarrow> MySQL \<Rightarrow> bool" for env db where
  nothing: "mysql_path env db db"
| then_call: "mysql_path env db db1 \<Longrightarrow> mysql_call env db1 failed db2 \<Longrightarrow> mysql_path env db db2"

abbreviation mysql_reach :: "sql_env \<Rightarrow> MySQL \<Rightarrow> bool" where
  "mysql_reach env \<equiv> mysql_path env migrated"

lemmas clean_finished = clean_jobs(2)

lemma clean_completed:
  assumes "db_ok env db"
  shows "clean env db (CompleteBuildJob_sql env i lp at db)" "clean env db (FailBuildJob_sql env i lp msg at db)"
    "clean env db (CancelBuildJob_sql env i msg at db)"
  unfolding CompleteBuildJob_sql_def FailBuildJob_sql_def CancelBuildJob_sql_def
  by (rule clean_finished [OF assms])+

lemma cleanD: "clean env db (r, db') \<Longrightarrow> db_ok env db' \<and> (isl r \<longrightarrow> db' = db)"
  by (simp add: clean_def)

lemma clean_result: "q = (r, db') \<Longrightarrow> clean env db q \<Longrightarrow> db_ok env db' \<and> (isl r \<longrightarrow> db' = db)"
  by (simp add: clean_def)

lemma mysql_call_ok:
  assumes "json_readable env"
  shows "mysql_call env db failed db' \<Longrightarrow> db_ok env db \<Longrightarrow> db_ok env db' \<and> (failed \<longrightarrow> db' = db)"
proof (induction rule: mysql_call.induct)
qed (erule clean_result,
    intro clean_users clean_EnsureInitialAdmin clean_tokens clean_sessions clean_CreateUserGroup
      clean_CreateDeviceGroup clean_add_member clean_RemoveUserGroupMember clean_RemoveDeviceGroupMember
      clean_devices clean_relays clean_CreateRelayGrant clean_UpdateRelayGrantStatus
      clean_CreateAddressBook clean_AddAddressBookEntry clean_RemoveAddressBookEntry clean_rules
      clean_CreateControlRole clean_UpdateControlRole clean_DeleteControlRole clean_CreateStrategy
      clean_UpdateStrategy clean_DeleteStrategy clean_AddStrategyAssignment
      clean_RemoveStrategyAssignment clean_profiles clean_jobs clean_completed clean_ClaimNextBuildJob
      clean_CreateAuditEvent clean_CreateConnectionLog clean_UpsertSystemSettings assms;
    assumption)+

lemma migrated_ok: "db_ok env migrated"
  by (simp add: db_ok_defs migrated_def no_rows_def pairs_ok_def all_rows_def ids_fresh_def)

lemma mysql_reach_ok: "mysql_reach env db \<Longrightarrow> json_readable env \<Longrightarrow> db_ok env db"
  by (induction rule: mysql_path.induct) (auto simp: migrated_ok dest: mysql_call_ok)

lemma mysql_path_trans: "mysql_path env db1 db2 \<Longrightarrow> mysql_path env db db1 \<Longrightarrow> mysql_path env db db2"
  by (induction rule: mysql_path.induct) (auto intro: mysql_path.then_call)

end
