(* ===== verification/Mysql_Queue.thy ===== *)
theory Mysql_Queue
  imports Mysql_Steps
begin

text \<open>
  The build queue in the MySQL repository: which calls touch the jobs and how, and that a
  claimed job stays claimed.
\<close>

section \<open>Calls that leave the jobs alone\<close>

lemma insert_find_jobs [simp]:
  "(\<And>t. tb_build_jobs (put t) = tb_build_jobs db) \<Longrightarrow>
     tb_build_jobs (snd (insert_find q put fnd db)) = tb_build_jobs db"
  by (auto simp: insert_find_def split: prod.split sum.split)

lemma update_find_jobs [simp]:
  "(\<And>t. tb_build_jobs (put t) = tb_build_jobs db) \<Longrightarrow>
     tb_build_jobs (snd (update_find q put fnd db)) = tb_build_jobs db"
  by (auto simp: update_find_def split: prod.split sum.split)

lemma update_exists_jobs [simp]:
  "(\<And>t. tb_build_jobs (snd (rest (put t))) = tb_build_jobs db) \<Longrightarrow>
   (\<And>t. tb_build_jobs (put t) = tb_build_jobs db) \<Longrightarrow>
     tb_build_jobs (snd (update_exists q put table i rest db)) = tb_build_jobs db"
  by (auto simp: update_exists_def split: prod.split sum.split option.split)

lemmas keep_splits = prod.split sum.split option.split

lemma keep_users [simp]:
  "tb_build_jobs (snd (CreateUser_sql env now u db)) = tb_build_jobs db"
  "tb_build_jobs (snd (UpdateUser_sql env now i u db)) = tb_build_jobs db"
  "tb_build_jobs (snd (DisableUser_sql env i now db)) = tb_build_jobs db"
  "tb_build_jobs (snd (RecordUserLogin_sql env i now db)) = tb_build_jobs db"
  "tb_build_jobs (snd (EnsureInitialAdmin env now e h db)) = tb_build_jobs db"
  by (simp_all add: CreateUser_sql_def UpdateUser_sql_def DisableUser_sql_def RecordUserLogin_sql_def
      EnsureInitialAdmin_def Let_def split: keep_splits)

lemma keep_tokens [simp]:
  "tb_build_jobs (snd (CreateAPIToken_sql env now k db)) = tb_build_jobs db"
  "tb_build_jobs (snd (RevokeAPIToken_sql env i now db)) = tb_build_jobs db"
  "tb_build_jobs (snd (RecordAPITokenUsed_sql env i now db)) = tb_build_jobs db"
  "tb_build_jobs (snd (CreateSession_sql env now n db)) = tb_build_jobs db"
  "tb_build_jobs (snd (RevokeSession_sql env h now db)) = tb_build_jobs db"
  "tb_build_jobs (snd (CreateLoginLog_sql env now l db)) = tb_build_jobs db"
  by (simp_all add: CreateAPIToken_sql_def RevokeAPIToken_sql_def RecordAPITokenUsed_sql_def
      CreateSession_sql_def RevokeSession_sql_def CreateLoginLog_sql_def Let_def split: keep_splits)

lemma keep_groups [simp]:
  "tb_build_jobs (snd (CreateUserGroup_sql env now ug db)) = tb_build_jobs db"
  "tb_build_jobs (snd (AddUserGroupMember_sql env now i j db)) = tb_build_jobs db"
  "tb_build_jobs (snd (RemoveUserGroupMember_sql env now i j db)) = tb_build_jobs db"
  "tb_build_jobs (snd (CreateDeviceGroup_sql env now dg db)) = tb_build_jobs db"
  "tb_build_jobs (snd (AddDeviceGroupMember_sql env now i j db)) = tb_build_jobs db"
  "tb_build_jobs (snd (RemoveDeviceGroupMember_sql env now i j db)) = tb_build_jobs db"
  by (simp_all add: CreateUserGroup_sql_def AddUserGroupMember_sql_def RemoveUserGroupMember_sql_def
      CreateDeviceGroup_sql_def AddDeviceGroupMember_sql_def RemoveDeviceGroupMember_sql_def
      touch_user_group_def touch_device_group_def Let_def split: keep_splits)

lemma keep_devices [simp]:
  "tb_build_jobs (snd (CreateDevice_sql env now d db)) = tb_build_jobs db"
  "tb_build_jobs (snd (UpdateDevice_sql env now i d db)) = tb_build_jobs db"
  "tb_build_jobs (snd (DisableDevice_sql env i now db)) = tb_build_jobs db"
  "tb_build_jobs (snd (CreateRelay_sql env now rl db)) = tb_build_jobs db"
  "tb_build_jobs (snd (UpdateRelay_sql env now i rl db)) = tb_build_jobs db"
  "tb_build_jobs (snd (DisableRelay_sql env i now db)) = tb_build_jobs db"
  "tb_build_jobs (snd (RelayHeartbeat_sql env now i n st db)) = tb_build_jobs db"
  "tb_build_jobs (snd (CreateRelayGrant_sql env now g db)) = tb_build_jobs db"
  "tb_build_jobs (snd (UpdateRelayGrantStatus_sql env k st' t db)) = tb_build_jobs db"
  by (simp_all add: CreateDevice_sql_def UpdateDevice_sql_def DisableDevice_sql_def
      CreateRelay_sql_def UpdateRelay_sql_def DisableRelay_sql_def RelayHeartbeat_sql_def
      CreateRelayGrant_sql_def UpdateRelayGrantStatus_sql_def Let_def split: keep_splits)

lemma insert_entries_jobs: "insert_entries env now i xs db = (q, db') \<Longrightarrow> tb_build_jobs db' = tb_build_jobs db"
  by (induction xs arbitrary: db) (auto simp: insert_entry_def split: prod.splits sum.splits)

lemma insert_permissions_jobs: "insert_permissions env i xs db = (q, db') \<Longrightarrow> tb_build_jobs db' = tb_build_jobs db"
  by (induction xs arbitrary: db) (fastforce split: prod.splits sum.splits)+

lemma insert_assignments_jobs: "insert_assignments env now i xs db = (q, db') \<Longrightarrow> tb_build_jobs db' = tb_build_jobs db"
  by (induction xs arbitrary: db) (fastforce simp: insert_assignment_def split: prod.splits sum.splits)+

lemma upsert_settings_jobs: "upsert_settings env now xs i db = (q, db') \<Longrightarrow> tb_build_jobs db' = tb_build_jobs db"
  by (induction xs arbitrary: db) (fastforce simp: upsert_setting_def Let_def split: prod.splits sum.splits option.splits if_splits)+

lemma keep_books [simp]:
  "tb_build_jobs (snd (CreateAddressBook_sql env now b db)) = tb_build_jobs db"
  "tb_build_jobs (snd (AddAddressBookEntry_sql env now i en db)) = tb_build_jobs db"
  "tb_build_jobs (snd (RemoveAddressBookEntry_sql env now i j db)) = tb_build_jobs db"
  "tb_build_jobs (snd (UpsertSystemSettings_sql env now ss i db)) = tb_build_jobs db"
  by (auto simp: CreateAddressBook_sql_def AddAddressBookEntry_sql_def RemoveAddressBookEntry_sql_def
      UpsertSystemSettings_sql_def touch_address_book_def insert_entry_def Let_def
      split: keep_splits dest: insert_entries_jobs upsert_settings_jobs)

lemma keep_rules [simp]:
  "tb_build_jobs (snd (CreateAccessRule_sql env now ar db)) = tb_build_jobs db"
  "tb_build_jobs (snd (UpdateAccessRule_sql env now i ar db)) = tb_build_jobs db"
  "tb_build_jobs (snd (DeleteAccessRule_sql env i db)) = tb_build_jobs db"
  by (simp_all add: CreateAccessRule_sql_def UpdateAccessRule_sql_def DeleteAccessRule_sql_def Let_def
      split: keep_splits)

lemma keep_roles [simp]:
  "tb_build_jobs (snd (CreateControlRole_sql env now cr db)) = tb_build_jobs db"
  "tb_build_jobs (snd (UpdateControlRole_sql env now i cr db)) = tb_build_jobs db"
  "tb_build_jobs (snd (DeleteControlRole_sql env i db)) = tb_build_jobs db"
  by (auto simp: CreateControlRole_sql_def UpdateControlRole_sql_def DeleteControlRole_sql_def
      delete_permissions_def Let_def split: keep_splits dest!: insert_permissions_jobs intro!: update_exists_jobs)

lemma keep_strategies [simp]:
  "tb_build_jobs (snd (CreateStrategy_sql env now sg db)) = tb_build_jobs db"
  "tb_build_jobs (snd (UpdateStrategy_sql env now i sg db)) = tb_build_jobs db"
  "tb_build_jobs (snd (DeleteStrategy_sql env i db)) = tb_build_jobs db"
  "tb_build_jobs (snd (AddStrategyAssignment_sql env now i a db)) = tb_build_jobs db"
  "tb_build_jobs (snd (RemoveStrategyAssignment_sql env i j db)) = tb_build_jobs db"
  by (auto simp: CreateStrategy_sql_def UpdateStrategy_sql_def DeleteStrategy_sql_def
      AddStrategyAssignment_sql_def RemoveStrategyAssignment_sql_def insert_assignment_def
      delete_assignments_def Let_def split: keep_splits dest!: insert_assignments_jobs intro!: update_exists_jobs)

lemma keep_builds [simp]:
  "tb_build_jobs (snd (CreateBuildProfile_sql env now p db)) = tb_build_jobs db"
  "tb_build_jobs (snd (UpdateBuildProfile_sql env now i p db)) = tb_build_jobs db"
  "tb_build_jobs (snd (DeleteBuildProfile_sql env i db)) = tb_build_jobs db"
  "tb_build_jobs (snd (CreateBuildArtifact_sql env now ba db)) = tb_build_jobs db"
  "tb_build_jobs (snd (CreateAuditEvent_sql env now ae db)) = tb_build_jobs db"
  "tb_build_jobs (snd (CreateConnectionLog_sql env now cl db)) = tb_build_jobs db"
  by (simp_all add: CreateBuildProfile_sql_def UpdateBuildProfile_sql_def DeleteBuildProfile_sql_def
      CreateBuildArtifact_sql_def CreateAuditEvent_sql_def CreateConnectionLog_sql_def Let_def split: keep_splits)

section \<open>Changes of the jobs\<close>

text \<open>A new queued job, or jobs that leave the queue for another status.\<close>

inductive job_change :: "build_job_row sql_table \<Rightarrow> build_job_row sql_table \<Rightarrow> bool" for t where
  untouched: "job_change t t"
| queued: "qbj_id x = auto_id qbj_id t \<Longrightarrow> qbj_status x \<in> set job_statuses \<Longrightarrow>
     job_change t (t\<lparr> rows := rows t @ [x], next_id := n \<rparr>)"
| moved: "st \<in> set job_statuses \<Longrightarrow> st \<noteq> ''queued'' \<Longrightarrow> (\<And>x. qbj_id (f x) = qbj_id x) \<Longrightarrow>
     (\<And>x. qbj_status (f x) = st) \<Longrightarrow>
     job_change t (t\<lparr> rows := map (\<lambda>x. if qbj_id x = i then f x else x) (rows t) \<rparr>)"

lemma enum_col_in: "snd (enum_in env vals v) \<Longrightarrow> enum_col env vals v \<in> set vals"
  by (auto simp: enum_in_def enum_col_def enum_val_def split: if_splits option.splits dest: find_SomeD)

lemma enum_col_member [simp]: "v \<in> set vals \<Longrightarrow> enum_col env vals v = v"
  by (simp add: enum_col_def enum_val_def)

lemma create_job_change: "job_change (tb_build_jobs db) (tb_build_jobs (snd (CreateBuildJob_sql env now j db)))"
proof (cases "CreateBuildJob_sql env now j db")
  case (Pair r db')
  show ?thesis
  proof (cases "bj_ProfileID j \<le> 0 \<or> bj_Platform j = []")
    case False
    show ?thesis
      using Pair [unfolded CreateBuildJob_sql_def Let_def if_not_P [OF False]]
    proof (cases rule: insert_find_cases)
      case inserted
      then show ?thesis using Pair enum_col_in by (auto intro!: job_change.queued)
    qed (simp add: Pair job_change.untouched)
  qed (simp add: CreateBuildJob_sql_def job_change.untouched)
qed

lemma finish_job_change:
  assumes "st \<in> set job_statuses" "st \<noteq> ''queued''"
  shows "job_change (tb_build_jobs db) (tb_build_jobs (snd (finishBuildJob_sql env i st lp msg at db)))"
proof (cases "finishBuildJob_sql env i st lp msg at db")
  case (Pair r db')
  show ?thesis
    using Pair [unfolded finishBuildJob_sql_def]
  proof (cases rule: update_find_cases)
    case updated
    then show ?thesis using Pair assms by (auto intro!: job_change.moved [where st = st])
  qed (simp_all add: Pair job_change.untouched)
qed

lemma claim_sqlD:
  assumes "ClaimNextBuildJob_sql env runner at db = (r, db')"
  obtains (nothing) "filter (\<lambda>r. ci_eq env (qbj_status r) ''queued'') (rows (tb_build_jobs db)) = []"
      "r = Inl ErrNotFound" "db' = db"
  | (refused) e where "refused env [varchar env 120 runner, timestamp env at] = Some e" "r = Inl e" "db' = db"
  | (claimed) x xs where
      "sort_key qbj_id (filter (\<lambda>r. ci_eq env (qbj_status r) ''queued'') (rows (tb_build_jobs db))) = x # xs"
      "db' = db\<lparr> tb_build_jobs := (tb_build_jobs db)\<lparr> rows := map (\<lambda>j. if qbj_id j = qbj_id x
         then j\<lparr> qbj_status := ''running'', qbj_runner := Some runner, qbj_started_at := Some (time_col env at) \<rparr>
         else j) (rows (tb_build_jobs db)) \<rparr> \<rparr>"
      "r = findBuildJobByID (qbj_id x) db'" "list_all snd [varchar env 120 runner, timestamp env at]"
proof (cases "sort_key qbj_id (filter (\<lambda>r. ci_eq env (qbj_status r) ''queued'') (rows (tb_build_jobs db)))")
  case Nil
  then have "filter (\<lambda>r. ci_eq env (qbj_status r) ''queued'') (rows (tb_build_jobs db)) = []"
    by (metis set_empty set_sort)
  then show ?thesis by (rule nothing) (use assms Nil in \<open>simp_all add: ClaimNextBuildJob_sql_def\<close>)
next
  case (Cons x xs)
  have "x \<in> set (filter (\<lambda>r. ci_eq env (qbj_status r) ''queued'') (rows (tb_build_jobs db)))"
    using Cons by (metis list.set_intros(1) set_sort)
  then have ex: "list_ex (\<lambda>j. qbj_id j = qbj_id x) (rows (tb_build_jobs db))" by (auto simp: list_ex_iff)
  show ?thesis
  proof (cases "refused env [varchar env 120 runner, timestamp env at]")
    case None
    then show ?thesis using assms Cons ex None [unfolded refused_None]
      by (intro claimed [OF Cons]) (auto simp: ClaimNextBuildJob_sql_def sql_update_def Let_def)
  next
    case (Some e)
    then show ?thesis using assms Cons ex
      by (intro refused) (auto simp: ClaimNextBuildJob_sql_def sql_update_def)
  qed
qed

lemma claim_job_change:
  "job_change (tb_build_jobs db) (tb_build_jobs (snd (ClaimNextBuildJob_sql env runner at db)))"
proof (cases "ClaimNextBuildJob_sql env runner at db")
  case (Pair r db')
  show ?thesis
    using Pair
  proof (cases rule: claim_sqlD)
    case (claimed x xs)
    then show ?thesis using Pair
      by (auto intro!: job_change.moved [where st = "''running''"] simp: job_statuses_def)
  qed (simp_all add: Pair job_change.untouched)
qed

lemma job_calls:
  "job_change (tb_build_jobs db) (tb_build_jobs (snd (CompleteBuildJob_sql env i lp at db)))"
  "job_change (tb_build_jobs db) (tb_build_jobs (snd (FailBuildJob_sql env i lp msg at db)))"
  "job_change (tb_build_jobs db) (tb_build_jobs (snd (CancelBuildJob_sql env i msg at db)))"
  unfolding CompleteBuildJob_sql_def FailBuildJob_sql_def CancelBuildJob_sql_def
  by (rule finish_job_change; simp add: job_statuses_def)+

lemma same_jobs_change:
  "tb_build_jobs (snd q) = tb_build_jobs db \<Longrightarrow> job_change (tb_build_jobs db) (tb_build_jobs (snd q))"
  by (simp add: job_change.untouched)

lemma change_result:
  "q = (r, db') \<Longrightarrow> job_change (tb_build_jobs db) (tb_build_jobs (snd q)) \<Longrightarrow>
     job_change (tb_build_jobs db) (tb_build_jobs db')"
  by simp

lemma mysql_call_jobs: "mysql_call env db failed db' \<Longrightarrow> job_change (tb_build_jobs db) (tb_build_jobs db')"
proof (induction rule: mysql_call.induct)
qed (erule change_result,
    intro create_job_change claim_job_change job_calls same_jobs_change
      keep_users keep_tokens keep_groups keep_devices keep_books keep_rules keep_roles keep_strategies
      keep_builds)+

section \<open>The queue of a reachable database\<close>

definition jobs_listed :: "build_job_row sql_table \<Rightarrow> bool" where
  "jobs_listed t \<longleftrightarrow>
     sorted_wrt (<) (map qbj_id (rows t)) \<and> (\<forall>r \<in> set (rows t). qbj_status r \<in> set job_statuses)"

definition job_left :: "int \<Rightarrow> build_job_row sql_table \<Rightarrow> bool" where
  "job_left i t \<longleftrightarrow>
     i \<in> ids qbj_id t \<and> (\<forall>r \<in> set (rows t). qbj_id r = i \<longrightarrow> qbj_status r \<noteq> ''queued'')"

lemma change_listed: "job_change t t' \<Longrightarrow> jobs_listed t \<Longrightarrow> jobs_listed t'"
proof (induction rule: job_change.induct)
  case (queued x n)
  then show ?case using auto_id_fresh [of _ t qbj_id] by (auto simp: jobs_listed_def sorted_wrt_append)
next
  case (moved st f i)
  then have "qbj_id (if qbj_id x = i then f x else x) = qbj_id x" for x by simp
  then show ?case using moved by (auto simp: jobs_listed_def comp_def)
qed simp

lemma change_left: "job_change t t' \<Longrightarrow> job_left i t \<Longrightarrow> job_left i t'"
proof (induction rule: job_change.induct)
  case (queued x n)
  then show ?case using auto_id_fresh [of _ t qbj_id] by (fastforce simp: job_left_def ids_iff)
next
  case (moved st f k)
  have "ids qbj_id (t\<lparr> rows := map (\<lambda>x. if qbj_id x = k then f x else x) (rows t) \<rparr>) = ids qbj_id t"
    using moved by simp
  then show ?case using moved by (auto simp: job_left_def)
qed simp

lemma path_jobs:
  "mysql_path env db db' \<Longrightarrow> (jobs_listed (tb_build_jobs db) \<longrightarrow> jobs_listed (tb_build_jobs db')) \<and>
     (job_left i (tb_build_jobs db) \<longrightarrow> job_left i (tb_build_jobs db'))"
  by (induction rule: mysql_path.induct) (auto dest: mysql_call_jobs change_listed change_left)

lemma reach_listed: "mysql_reach env db \<Longrightarrow> jobs_listed (tb_build_jobs db)"
  using path_jobs [of env migrated db 0] by (simp add: migrated_def no_rows_def jobs_listed_def)

text \<open>The collation tells the members of the status enumeration apart, as the server demands.\<close>

definition statuses_apart :: "sql_env \<Rightarrow> bool" where
  "statuses_apart env \<longleftrightarrow> inj_on (se_weight env) (set job_statuses)"

lemma queued_weight:
  "statuses_apart env \<Longrightarrow> st \<in> set job_statuses \<Longrightarrow> ci_eq env st ''queued'' \<longleftrightarrow> st = ''queued''"
  by (auto simp: statuses_apart_def ci_eq_def job_statuses_def dest: inj_onD)

lemma queued_rows:
  assumes "statuses_apart env" "jobs_listed t"
  shows "sort_key qbj_id (filter (\<lambda>r. ci_eq env (qbj_status r) ''queued'') (rows t)) =
     filter (\<lambda>r. qbj_status r = ''queued'') (rows t)"
proof -
  have "filter (\<lambda>r. ci_eq env (qbj_status r) ''queued'') (rows t) = filter (\<lambda>r. qbj_status r = ''queued'') (rows t)"
    by (rule filter_cong) (use assms in \<open>auto simp: jobs_listed_def queued_weight\<close>)
  moreover have "sorted (map qbj_id (filter (\<lambda>r. qbj_status r = ''queued'') (rows t)))"
    using assms(2) by (intro sorted_filter) (auto simp: jobs_listed_def dest: strict_sorted_imp_sorted)
  ultimately show ?thesis by (simp add: sort_key_id_if_sorted)
qed

text \<open>A claim that succeeds, in terms of the rows.\<close>

lemma update_one_row:
  "sorted_wrt (<) (map key (pre @ x # post)) \<Longrightarrow>
     map (\<lambda>j. if key j = key x then f j else j) (pre @ x # post) = pre @ f x # post" for key :: "'r \<Rightarrow> int"
  by (fastforce simp: sorted_wrt_append intro: map_idI)

lemma find_one_row:
  "sorted_wrt (<) (map key (pre @ x # post)) \<Longrightarrow> key y = key x \<Longrightarrow>
     find (\<lambda>j. key j = key x) (pre @ y # post) = Some y" for key :: "'r \<Rightarrow> int"
  by (induction pre) auto

lemma claimed_row:
  assumes "statuses_apart env" "jobs_listed (tb_build_jobs db)"
    and "ClaimNextBuildJob_sql env runner at db = (Inr job, db')"
  obtains pre x post y where
    "rows (tb_build_jobs db) = pre @ x # post" "rows (tb_build_jobs db') = pre @ y # post"
    "\<forall>r \<in> set pre. qbj_status r \<noteq> ''queued''" "qbj_status x = ''queued''"
    "y = x\<lparr> qbj_status := ''running'', qbj_runner := Some runner, qbj_started_at := Some (time_col env at) \<rparr>"
    "scanBuildJob y = Inr job"
  using assms(3)
proof (cases rule: claim_sqlD)
  case (claimed x xs)
  have "filter (\<lambda>r. qbj_status r = ''queued'') (rows (tb_build_jobs db)) = x # xs"
    using claimed(1) queued_rows [OF assms(1,2)] by simp
  then obtain pre post where r: "rows (tb_build_jobs db) = pre @ x # post"
    "\<forall>r \<in> set pre. qbj_status r \<noteq> ''queued''" "qbj_status x = ''queued''"
    by (auto dest: filter_eq_ConsD)
  have o: "sorted_wrt (<) (map qbj_id (pre @ x # post))" using assms(2) r(1) by (simp add: jobs_listed_def)
  let ?y = "x\<lparr> qbj_status := ''running'', qbj_runner := Some runner, qbj_started_at := Some (time_col env at) \<rparr>"
  have "rows (tb_build_jobs db') = pre @ ?y # post"
    unfolding claimed(2) using update_one_row [OF o] r(1) by simp
  moreover have "scanBuildJob ?y = Inr job"
    using claimed(3) find_one_row [OF o, of ?y] calculation
    by (simp add: findBuildJobByID_def query_row_def)
  ultimately show ?thesis using that r by blast
qed simp_all

section \<open>The queue in memory\<close>

text \<open>
  The same job in both repositories: identifiers and creation times are each repository's own,
  and times are what a column holds of them.
\<close>

definition same_job :: "sql_env \<Rightarrow> BuildJob \<Rightarrow> BuildJob \<Rightarrow> bool" where
  "same_job env j j' \<longleftrightarrow>
     bj_Platform j' = bj_Platform j \<and> bj_Status j' = bj_Status j \<and> bj_Runner j' = bj_Runner j \<and>
     bj_LogPath j' = bj_LogPath j \<and> bj_ErrorMessage j' = bj_ErrorMessage j \<and>
     bj_StartedAt j' = map_option (time_col env) (bj_StartedAt j) \<and>
     bj_FinishedAt j' = map_option (time_col env) (bj_FinishedAt j)"

definition same_row :: "sql_env \<Rightarrow> BuildJob \<Rightarrow> build_job_row \<Rightarrow> bool" where
  "same_row env j r \<longleftrightarrow> (\<exists>j'. scanBuildJob r = Inr j' \<and> same_job env j j')"

definition same_queue :: "sql_env \<Rightarrow> Memory \<Rightarrow> MySQL \<Rightarrow> bool" where
  "same_queue env m db \<longleftrightarrow>
     list_all2 (same_row env) (buildJobs m) (rows (tb_build_jobs db))"

lemma same_statuses: "list_all2 (same_row env) js rs \<Longrightarrow> map bj_Status js = map qbj_status rs"
  by (induction rule: list_all2_induct) (auto simp: same_row_def scanBuildJob_def same_job_def)

lemma none_queued:
  "map bj_Status js = map qbj_status rs \<Longrightarrow> \<forall>r \<in> set rs. qbj_status r \<noteq> s \<Longrightarrow> list_all (\<lambda>j. bj_Status j \<noteq> s) js"
proof -
  assume a: "map bj_Status js = map qbj_status rs" "\<forall>r \<in> set rs. qbj_status r \<noteq> s"
  then have "s \<notin> set (map bj_Status js)" by auto
  then show ?thesis by (auto simp: list_all_iff)
qed

lemma update_row_append:
  "list_all (\<lambda>x. \<not> P x) pre \<Longrightarrow> P x \<Longrightarrow> update_row P f (pre @ x # post) = Some (f x, pre @ f x # post)"
  by (induction pre) (auto simp: update_row_def split: option.splits)

lemma same_claim:
  assumes "statuses_apart env" "jobs_listed (tb_build_jobs db)" "same_queue env m db"
    and "se_chars env runner \<le> 120" "se_time env at \<noteq> None"
    and m: "ClaimNextBuildJob runner at m = (r, m')" and q: "ClaimNextBuildJob_sql env runner at db = (r', db')"
  shows "rel_sum (=) (same_job env) r r' \<and> same_queue env m' db'"
proof (cases r')
  case (Inl e)
  have ok: "refused env [varchar env 120 runner, timestamp env at] = None"
    using assms(4,5) by (simp add: refused_None check_defs)
  have n: "filter (\<lambda>r. ci_eq env (qbj_status r) ''queued'') (rows (tb_build_jobs db)) = []"
      "r' = Inl ErrNotFound" "db' = db"
  proof -
    have "filter (\<lambda>r. ci_eq env (qbj_status r) ''queued'') (rows (tb_build_jobs db)) = [] \<and>
      r' = Inl ErrNotFound \<and> db' = db"
      using q
    proof (cases rule: claim_sqlD)
      case (claimed x xs)
      have "set (filter (\<lambda>r. ci_eq env (qbj_status r) ''queued'') (rows (tb_build_jobs db))) = set (x # xs)"
        unfolding claimed(1) [symmetric] by (simp only: set_sort)
      then have "x \<in> set (filter (\<lambda>r. ci_eq env (qbj_status r) ''queued'') (rows (tb_build_jobs db)))"
        by (simp only: list.set_intros)
      then have "x \<in> set (rows (tb_build_jobs db))" by simp
      then have "\<exists>y. r' = Inr y" unfolding claimed(2,3) findBuildJobByID_def
        by (intro find_by_id) (auto simp: ids_iff)
      then show ?thesis using Inl by simp
    qed (use ok in auto)
    then show "filter (\<lambda>r. ci_eq env (qbj_status r) ''queued'') (rows (tb_build_jobs db)) = []"
      "r' = Inl ErrNotFound" "db' = db" by blast+
  qed
  have "\<forall>r \<in> set (rows (tb_build_jobs db)). qbj_status r \<noteq> ''queued''"
    using n(1) by (auto simp: filter_empty_conv ci_eq_def)
  then have "find (\<lambda>j. bj_Status j = BuildJobQueued) (buildJobs m) = None"
    using none_queued [OF same_statuses [OF assms(3) [unfolded same_queue_def]]]
    by (auto simp: find_None_iff list_all_iff)
  then show ?thesis using m n assms(3) by (auto simp: ClaimNextBuildJob_def update_row_def)
next
  case (Inr job)
  from claimed_row [OF assms(1,2) q [unfolded Inr]] obtain pre x post y where x:
    "rows (tb_build_jobs db) = pre @ x # post" "rows (tb_build_jobs db') = pre @ y # post"
    "\<forall>r \<in> set pre. qbj_status r \<noteq> ''queued''" "qbj_status x = ''queued''"
    "y = x\<lparr> qbj_status := ''running'', qbj_runner := Some runner, qbj_started_at := Some (time_col env at) \<rparr>"
    "scanBuildJob y = Inr job" .
  obtain pre' j post' where j: "buildJobs m = pre' @ j # post'"
    "list_all2 (same_row env) pre' pre"
    "list_all2 (same_row env) post' post"
    "same_row env j x"
    using assms(3) unfolding same_queue_def x(1) list_all2_append2 list_all2_Cons2 by blast
  let ?j = "j\<lparr> bj_Status := BuildJobRunning, bj_Runner := runner, bj_StartedAt := Some at \<rparr>"
  have "list_all (\<lambda>j. bj_Status j \<noteq> BuildJobQueued) pre'"
    by (rule none_queued [OF same_statuses [OF j(2)] x(3)])
  then have "update_row (\<lambda>j. bj_Status j = BuildJobQueued)
     (\<lambda>j. j\<lparr> bj_Status := BuildJobRunning, bj_Runner := runner, bj_StartedAt := Some at \<rparr>) (buildJobs m) =
     Some (?j, pre' @ ?j # post')"
    unfolding j(1) using same_statuses [of env "[j]" "[x]"] j(4) x(4) by (intro update_row_append) auto
  then have "r = Inr ?j" "buildJobs m' = pre' @ ?j # post'"
    using m by (auto simp: ClaimNextBuildJob_def)
  moreover have "same_job env ?j job" using x(5,6) j(4) by (auto simp: same_row_def scanBuildJob_def same_job_def string_of_def)
  ultimately show ?thesis using Inr j x(2,6) by (auto simp: same_queue_def same_row_def intro!: list_all2_appendI)
qed

lemma claimed_left:
  assumes "statuses_apart env" "jobs_listed (tb_build_jobs db)"
    and "ClaimNextBuildJob_sql env runner at db = (Inr job, db')"
  shows "\<not> job_left (bj_ID job) (tb_build_jobs db) \<and> job_left (bj_ID job) (tb_build_jobs db')"
proof -
  from claimed_row [OF assms] obtain pre x post y where x:
    "rows (tb_build_jobs db) = pre @ x # post" "rows (tb_build_jobs db') = pre @ y # post"
    "\<forall>r \<in> set pre. qbj_status r \<noteq> ''queued''" "qbj_status x = ''queued''"
    "y = x\<lparr> qbj_status := ''running'', qbj_runner := Some runner, qbj_started_at := Some (time_col env at) \<rparr>"
    "scanBuildJob y = Inr job" .
  have "bj_ID job = qbj_id x" using x(5,6) by (auto simp: scanBuildJob_def)
  moreover have "sorted_wrt (<) (map qbj_id (pre @ x # post))" using assms(2) x(1) by (simp add: jobs_listed_def)
  ultimately show ?thesis using x by (fastforce simp: job_left_def ids_iff sorted_wrt_append)
qed

end
