(* ===== verification/Mysql_Properties.thy ===== *)
theory Mysql_Properties
  imports Mysql_Queue Auth_Properties
begin

text \<open>
  What the program promises when its repository is MySQL: grants that have ended stay ended,
  logins and logouts, the build queue, and what a failed call leaves behind. The databases
  are the ones the calls of the repository reach from the empty schema.
\<close>

section \<open>A concrete server\<close>

text \<open>
  The examples run on a server with a case-insensitive collation and times in seconds;
  an affected row is one that changes, as the driver's default has it.
\<close>

definition wit_server :: sql_env where
  "wit_server =
     \<lparr> se_weight = ToLower, se_chars = (\<lambda>s. int (length s)),
       se_time = (\<lambda>t. Some (t div 1000000000 * 1000000000)), se_moment = (\<lambda>t. t), se_json = Some,
       se_tie = (\<lambda>i. i), se_found_rows = False, se_error = (\<lambda>_. ''Error''),
       se_strings = (\<lambda>xs. concat (map (\<lambda>x. x @ '','') xs)),
       se_strings_of = (\<lambda>s. Inr (butlast (Split CHR '','' s))),
       se_object = (\<lambda>_. Inr ''{}''), se_object_of = (\<lambda>_. Inr (Some [])) \<rparr>"

lemma wit_server_fields [simp]:
  "se_found_rows wit_server = False" "se_time wit_server t = Some (t div 1000000000 * 1000000000)"
  "se_chars wit_server s = int (length s)"
  by (simp_all add: wit_server_def)

lemma wit_server_ok: "json_readable wit_server" "sql_storable wit_server t"
  by (simp_all add: json_readable_def sql_storable_def wit_server_def)

lemma wit_server_apart: "statuses_apart wit_server"
proof -
  have "map (se_weight wit_server) job_statuses = job_statuses" by code_simp
  then have "se_weight wit_server s = s" if "s \<in> set job_statuses" for s
    using that map_eq_conv [of "se_weight wit_server" job_statuses "\<lambda>s. s"] by simp
  then show ?thesis by (auto simp: statuses_apart_def intro!: inj_onI)
qed

section \<open>Calls and references\<close>


definition wit_sql_role :: ControlRole where
  "wit_sql_role =
     \<lparr> cr_ID = 0, cr_Name = ''operator'', cr_Description = [], cr_Enabled = True,
       cr_Permissions = [\<lparr> crp_ID = 0, crp_RoleID = 0, crp_PermissionKey = ''keyboard'', crp_Mode = ''enable'' \<rparr>,
         \<lparr> crp_ID = 0, crp_RoleID = 0, crp_PermissionKey = ''clipboard'', crp_Mode = ''maybe'' \<rparr>],
       cr_CreatedAt = 0, cr_UpdatedAt = 0 \<rparr>"


section \<open>The build queue\<close>

text \<open>
  C35. Over the same jobs both repositories claim the same job: the answers agree and so do
  the queues afterwards, for a runner's name and a time that the columns can hold.
\<close>

theorem claims_agree:
  assumes "statuses_apart env" "mysql_reach env db" "same_queue env m db"
    and "se_chars env runner \<le> 120" "se_time env at \<noteq> None"
  shows "rel_sum (=) (same_job env) (fst (ClaimNextBuildJob runner at m)) (fst (ClaimNextBuildJob_sql env runner at db)) \<and>
     same_queue env (snd (ClaimNextBuildJob runner at m)) (snd (ClaimNextBuildJob_sql env runner at db))"
  by (rule same_claim [OF assms(1) reach_listed [OF assms(2)] assms(3-5)]; rule surjective_pairing)

text \<open>
  C36. A build job is claimed once: whatever calls come after a claim, no later claim answers
  that job again.
\<close>

theorem mysql_job_claimed_once:
  assumes "statuses_apart env" "mysql_reach env db"
    and c1: "ClaimNextBuildJob_sql env r1 t1 db = (Inr j, db1)" and p: "mysql_path env db1 db2"
    and c2: "ClaimNextBuildJob_sql env r2 t2 db2 = (Inr j', db3)"
  shows "bj_Status j = BuildJobRunning \<and> bj_Runner j = r1 \<and> bj_ID j' \<noteq> bj_ID j"
proof -
  have "mysql_path env db db1"
    using mysql_path.then_call [OF mysql_path.nothing mysql_call.job_claimed [OF c1]] .
  then have l: "jobs_listed (tb_build_jobs db)" "jobs_listed (tb_build_jobs db2)"
    using reach_listed assms(2) mysql_path_trans p by blast+
  have "job_left (bj_ID j) (tb_build_jobs db2)"
    using claimed_left [OF assms(1) l(1) c1] path_jobs [OF p] by blast
  moreover have "\<not> job_left (bj_ID j') (tb_build_jobs db2)"
    using claimed_left [OF assms(1) l(2) c2] by blast
  moreover have "bj_Status j = BuildJobRunning \<and> bj_Runner j = r1"
    by (rule claimed_row [OF assms(1) l(1) c1]) (auto simp: scanBuildJob_def string_of_def)
  ultimately show ?thesis by auto
qed

section \<open>A queue with two jobs\<close>

definition wit_sql_admin :: MySQL where
  "wit_sql_admin = snd (EnsureInitialAdmin wit_server 0 ''admin@example.com'' ''hash'' migrated)"

definition wit_sql_profile :: BuildProfile where
  "wit_sql_profile =
     \<lparr> bp_ID = 0, bp_Name = ''std'', bp_AppName = ''Desk'', bp_Vendor = [], bp_BundleID = ''org.desk'',
       bp_ProductName = [], bp_Description = [], bp_ServerConfigJSON = ''{}'', bp_BrandingJSON = ''{}'',
       bp_PolicyJSON = ''{}'', bp_PlatformsJSON = ''[]'', bp_SigningJSON = ''{}'', bp_SourceJSON = ''{}'',
       bp_CreatedBy = 1, bp_CreatedAt = 0, bp_UpdatedAt = 0 \<rparr>"

definition wit_sql_job :: BuildJob where
  "wit_sql_job = \<lparr> bj_ID = 0, bj_ProfileID = 1, bj_Platform = ''windows_x64'', bj_Status = [],
               bj_Runner = [], bj_LogPath = [], bj_ErrorMessage = [], bj_CreatedAt = 0,
               bj_StartedAt = None, bj_FinishedAt = None \<rparr>"

definition wit_sql_queue :: MySQL where
  "wit_sql_queue = snd (CreateBuildJob_sql wit_server 7 wit_sql_job (snd (CreateBuildJob_sql wit_server 6 wit_sql_job
     (snd (CreateBuildProfile_sql wit_server 5 wit_sql_profile wit_sql_admin)))))"

definition wit_memory_queue :: Memory where
  "wit_memory_queue = snd (CreateBuildJob 7 wit_sql_job (snd (CreateBuildJob 6 wit_sql_job (NewMemory 0))))"

lemma wit_sql_admin_reach: "mysql_reach wit_server wit_sql_admin"
  unfolding wit_sql_admin_def
  by (rule mysql_path.then_call [OF mysql_path.nothing mysql_call.admin_ensured]) (rule surjective_pairing)

lemma wit_sql_queue_reach: "mysql_reach wit_server wit_sql_queue"
proof -
  note p = mysql_path.then_call [OF wit_sql_admin_reach mysql_call.profile_created [OF surjective_pairing]]
  note j = mysql_path.then_call [OF p mysql_call.job_created [OF surjective_pairing]]
  show ?thesis unfolding wit_sql_queue_def
    by (rule mysql_path.then_call [OF j mysql_call.job_created [OF surjective_pairing]])
qed

lemma wit_sql_queue_rows:
  "map scanBuildJob (rows (tb_build_jobs wit_sql_queue)) =
     [Inr (wit_sql_job\<lparr> bj_ID := 1, bj_Status := ''queued'', bj_CreatedAt := 6 \<rparr>),
      Inr (wit_sql_job\<lparr> bj_ID := 2, bj_Status := ''queued'', bj_CreatedAt := 7 \<rparr>)] \<and>
   buildJobs wit_memory_queue =
     [wit_sql_job\<lparr> bj_ID := 101, bj_Status := ''queued'', bj_CreatedAt := 6 \<rparr>,
      wit_sql_job\<lparr> bj_ID := 102, bj_Status := ''queued'', bj_CreatedAt := 7 \<rparr>]"
  by code_simp

lemma wit_same_queue: "same_queue wit_server wit_memory_queue wit_sql_queue"
  using wit_sql_queue_rows by (auto simp: same_queue_def same_row_def same_job_def wit_sql_job_def)

theorem claims_agree_witness:
  "\<exists>j j'. fst (ClaimNextBuildJob ''w'' 9000000000 wit_memory_queue) = Inr j \<and>
     fst (ClaimNextBuildJob_sql wit_server ''w'' 9000000000 wit_sql_queue) = Inr j' \<and> same_job wit_server j j'"
proof -
  have "fst (ClaimNextBuildJob ''w'' 9000000000 wit_memory_queue) =
      Inr (wit_sql_job\<lparr> bj_ID := 101, bj_Status := BuildJobRunning, bj_Runner := ''w'', bj_CreatedAt := 6,
        bj_StartedAt := Some 9000000000 \<rparr>)" by code_simp
  then show ?thesis
    using claims_agree [OF wit_server_apart wit_sql_queue_reach wit_same_queue, of "''w''" 9000000000]
    by (cases "fst (ClaimNextBuildJob_sql wit_server ''w'' 9000000000 wit_sql_queue)") auto
qed

theorem mysql_job_claimed_once_witness:
  "\<exists>j db1 j' db2. ClaimNextBuildJob_sql wit_server ''a'' 9000000000 wit_sql_queue = (Inr j, db1) \<and>
     ClaimNextBuildJob_sql wit_server ''b'' 9000000000 db1 = (Inr j', db2) \<and> bj_ID j' \<noteq> bj_ID j"
proof -
  let ?q = "ClaimNextBuildJob_sql wit_server ''a'' 9000000000 wit_sql_queue"
  have e: "map_sum (\<lambda>_. ()) bj_ID (fst ?q) = Inr 1 \<and>
     map_sum (\<lambda>_. ()) bj_ID (fst (ClaimNextBuildJob_sql wit_server ''b'' 9000000000 (snd ?q))) = Inr 2"
    by code_simp
  obtain j db1 where c1: "?q = (Inr j, db1)" using e by (cases ?q; cases "fst ?q") auto
  obtain j' db2 where c2: "ClaimNextBuildJob_sql wit_server ''b'' 9000000000 db1 = (Inr j', db2)"
    using e c1 by (cases "ClaimNextBuildJob_sql wit_server ''b'' 9000000000 db1";
      cases "fst (ClaimNextBuildJob_sql wit_server ''b'' 9000000000 db1)") auto
  show ?thesis
    using mysql_job_claimed_once [OF wit_server_apart wit_sql_queue_reach c1 mysql_path.nothing c2] c1 c2 by blast
qed

section \<open>Relay grants\<close>

lemma mysql_ops: "mysql_grants.ops env = mysql_grant_store env"
  by (simp add: mysql_grant_store_def)

lemma mysql_serves:
  assumes "json_readable env" "mysql_reach env (svc_db s)" "svc_store s = Some (mysql_grant_store env)"
  shows "serves (grant_norm env) (mysql_grant_store env) s"
proof -
  have "all_rows (grant_readable env) (tb_relay_grants (svc_db s))"
    using mysql_reach_ok [OF assms(2,1)] by (simp add: db_ok_def)
  then have "grant_norm env (rg_GrantID m) = grant_norm env k"
    if "FindRelayGrantByGrantID_sql env k (svc_db s) = Inr m" for k m
    using that scan_grant_fields
    by (auto simp: FindRelayGrantByGrantID_sql_def all_rows_def grant_readable_def grant_norm_def ci_eq_def
        dest!: query_row_InrD)
  then show ?thesis
    by (auto simp: serves_def grants_keyed_def findGrant_def assms(3) grant_key_def mysql_grant_store_def
        split: sum.splits)
qed

text \<open>
  C17. A grant in MySQL that was validated or revoked has ended: after any calls, no token
  that names it, in whatever spelling the collation equates, is valid. A validation counts
  when its time of use can be stored.
\<close>

theorem mysql_grant_ended:
  assumes env: "json_readable env" "mysql_reach env (svc_db s)" "svc_store s = Some (mysql_grant_store env)"
    and ended: "ValidateWithContext c t t' v s = ((r, e), s1) \<and> vs_Valid r \<and> vs_GrantID r = gid \<and>
        sql_storable env t' \<or> RevokeWithContext gid s = (True, s1)"
    and steps: "grant_steps c s1 s2"
    and w: "parse c (svc_key s) (vr_Token w) = Inr q" "grant_norm env (tp_GrantID q) = grant_norm env gid"
  shows "\<not> vs_Valid (fst (fst (ValidateWithContext c t2 t2' w s2)))"
proof -
  have s: "serves (grant_norm env) (mysql_grant_store env) s" by (rule mysql_serves [OF env])
  have key: "grant_key (grant_norm env) s = grant_norm env" by (auto simp: grant_key_def env(3))
  obtain g st u where t: "table_updated (grant_norm env) s s1 (grant_norm env gid) (set_status st u g)" "dead st"
    and s1: "serves (grant_norm env) (mysql_grant_store env) s1" "same_config s s1"
    using ended
  proof
    assume v: "ValidateWithContext c t t' v s = ((r, e), s1) \<and> vs_Valid r \<and> vs_GrantID r = gid \<and> sql_storable env t'"
    then show thesis
      using mysql_grants.validate_step [unfolded mysql_ops, OF s, of c t t' v "(r, e)" s1] key that by auto
  next
    assume "RevokeWithContext gid s = (True, s1)"
    then show thesis
      using mysql_grants.revoke_grant [unfolded mysql_ops, OF s, of gid True s1] key that by (auto simp: grant_norm_def)
  qed
  have "grant_dead (tp_GrantID q) s1" using t w(2) by (simp add: grant_dead_def table_updated_def key)
  then have "serves (grant_norm env) (mysql_grant_store env) s2" "same_config s1 s2" "grant_dead (tp_GrantID q) s2"
    using mysql_grants.dead_steps [unfolded mysql_ops, OF steps s1(1)] by auto
  then show ?thesis
    using mysql_grants.dead_not_valid [unfolded mysql_ops, of env s2 c w q] w(1) s1
    by (simp add: same_config_def)
qed

text \<open>The database: an administrator and one grant.\<close>

definition wit_sql_grant :: Grant where
  "wit_sql_grant = wit_grant\<lparr> g_TargetDeviceID := None \<rparr>"

definition wit_sql_service :: "MySQL Service" where
  "wit_sql_service = WithStore (mysql_grant_store wit_server) (NewService ''key'' 0
     (snd (CreateRelayGrant_sql wit_server 1000000000 (modelFromGrant wit_sql_grant) wit_sql_admin)))"

definition wit_sql_used :: "MySQL Service" where
  "wit_sql_used = snd (ValidateWithContext wit_c 2000000000 2000000001 wit_validate wit_sql_service)"

lemma wit_sql_reach: "mysql_reach wit_server (svc_db wit_sql_service)"
  unfolding wit_sql_service_def
  using mysql_path.then_call [OF wit_sql_admin_reach mysql_call.grant_created [OF surjective_pairing]]
  by (simp add: WithStore_def NewService_def)

lemma wit_sql_valid:
  "vs_Valid (fst (fst (ValidateWithContext wit_c 2000000000 2000000001 wit_validate wit_sql_service))) \<and>
   vs_GrantID (fst (fst (ValidateWithContext wit_c 2000000000 2000000001 wit_validate wit_sql_service))) =
     randomID ''rg'' ''a'' \<and>
   parse wit_c (svc_key wit_sql_service) (vr_Token wit_validate) = Inr (payload_of wit_grant) \<and>
   tp_GrantID (payload_of wit_grant) = randomID ''rg'' ''a''"
  by code_simp

theorem mysql_grant_ended_witness:
  "\<not> vs_Valid (fst (fst (ValidateWithContext wit_c 3000000000 3000000001 wit_validate
      (snd (RevokeWithContext ''other'' wit_sql_used)))))"
proof (rule mysql_grant_ended [OF wit_server_ok(1) wit_sql_reach])
  show "svc_store wit_sql_service = Some (mysql_grant_store wit_server)"
    by (simp add: wit_sql_service_def WithStore_def)
  show "ValidateWithContext wit_c 2000000000 2000000001 wit_validate wit_sql_service =
      ((fst (fst (ValidateWithContext wit_c 2000000000 2000000001 wit_validate wit_sql_service)),
        snd (fst (ValidateWithContext wit_c 2000000000 2000000001 wit_validate wit_sql_service))), wit_sql_used) \<and>
    vs_Valid (fst (fst (ValidateWithContext wit_c 2000000000 2000000001 wit_validate wit_sql_service))) \<and>
    vs_GrantID (fst (fst (ValidateWithContext wit_c 2000000000 2000000001 wit_validate wit_sql_service))) =
      randomID ''rg'' ''a'' \<and> sql_storable wit_server 2000000001 \<or>
    RevokeWithContext (randomID ''rg'' ''a'') wit_sql_service = (True, wit_sql_used)"
    using wit_sql_valid by (simp add: wit_sql_used_def wit_server_ok)
  show "grant_steps wit_c wit_sql_used (snd (RevokeWithContext ''other'' wit_sql_used))"
    by (auto intro: grant_steps.intros grant_step.Revoke)
  show "parse wit_c (svc_key wit_sql_service) (vr_Token wit_validate) = Inr (payload_of wit_grant)"
    and "grant_norm wit_server (tp_GrantID (payload_of wit_grant)) = grant_norm wit_server (randomID ''rg'' ''a'')"
    using wit_sql_valid by simp_all
qed

lemma sql_update_again:
  assumes "sql_update env cs P f t = (Inr n, t')" "\<And>r. P (f r) = P r" "\<And>r. f (f r) = f r" "\<not> se_found_rows env"
  shows "sql_update env cs P f t' = (Inr 0, t')"
proof -
  have r: "rows t' = map (\<lambda>r. if P r then f r else r) (rows t)" using sql_update_rows [OF assms(1)] by simp
  then have z: "filter (\<lambda>r. P r \<and> (se_found_rows env \<or> f r \<noteq> r)) (rows t') = []"
    "map (\<lambda>r. if P r then f r else r) (rows t') = rows t'" "list_ex P (rows t') = list_ex P (rows t)"
    using assms(2-4) by (auto simp: filter_empty_conv list_ex_iff)
  show ?thesis
  proof (cases "list_ex P (rows t)")
    case True
    then have "refused env cs = None" using assms(1) by (auto simp: sql_update_def split: option.splits)
    then show ?thesis using True z by (simp add: sql_update_def)
  qed (simp add: sql_update_def z(3))
qed

text \<open>
  C37. A second revocation through MySQL is answered as if the grant did not exist: the update
  changes no row, and without \<^verbatim>\<open>clientFoundRows\<close> that is what the method takes for a missing one.
\<close>

theorem second_revocation_not_found:
  assumes "svc_store s = Some (mysql_grant_store env)" "\<not> se_found_rows env"
    and "RevokeWithContext gid s = (True, s1)"
  shows "RevokeWithContext gid s1 = (False, s1)"
proof -
  let ?gid = "TrimSpace gid"
  have g: "?gid \<noteq> []" using assms(3) by (auto simp: RevokeWithContext_def)
  obtain m db where m: "UpdateRelayGrantStatus_sql env ?gid StatusRevoked None (svc_db s) = (Inr m, db)"
    and s1: "s1 = s\<lparr> svc_db := db \<rparr>"
    using assms(1,3) g by (auto simp: RevokeWithContext_def mysql_grant_store_def split: prod.splits sum.splits)
  let ?P = "\<lambda>r. ci_eq env (qg_grant_id r) ?gid"
  let ?f = "\<lambda>r. r\<lparr> qg_status := enum_col env grant_statuses StatusRevoked, qg_used_at := qg_used_at r \<rparr>"
  let ?cs = "[enum_in env grant_statuses StatusRevoked, timestamp_null env None]"
  have U: "UpdateRelayGrantStatus_sql env ?gid StatusRevoked None d =
     update_find (sql_update env ?cs ?P ?f (tb_relay_grants d)) (\<lambda>t. d\<lparr> tb_relay_grants := t \<rparr>)
       (FindRelayGrantByGrantID_sql env ?gid) d" for d
    by (simp add: UpdateRelayGrantStatus_sql_def)
  obtain n t where n: "sql_update env ?cs ?P ?f (tb_relay_grants (svc_db s)) = (Inr n, t)"
    "db = (svc_db s)\<lparr> tb_relay_grants := t \<rparr>"
    using m unfolding U by (auto simp: update_find_def split: prod.splits sum.splits if_splits)
  have "sql_update env ?cs ?P ?f t = (Inr 0, t)"
    by (rule sql_update_again [OF n(1)]) (simp_all add: assms(2))
  then have "UpdateRelayGrantStatus_sql env ?gid StatusRevoked None db = (Inl ErrNotFound, db)"
    unfolding U by (simp add: n(2) update_find_def)
  then show ?thesis using g assms(1) by (simp add: RevokeWithContext_def mysql_grant_store_def s1)
qed

definition wit_sql_revoked :: "MySQL Service" where
  "wit_sql_revoked = snd (RevokeWithContext (randomID ''rg'' ''a'') wit_sql_service)"

theorem second_revocation_not_found_witness:
  "RevokeWithContext (randomID ''rg'' ''a'') wit_sql_revoked = (False, wit_sql_revoked)"
proof (rule second_revocation_not_found)
  show "svc_store wit_sql_service = Some (mysql_grant_store wit_server)"
    by (simp add: wit_sql_service_def WithStore_def)
  have "fst (RevokeWithContext (randomID ''rg'' ''a'') wit_sql_service)" by code_simp
  then show "RevokeWithContext (randomID ''rg'' ''a'') wit_sql_service = (True, wit_sql_revoked)"
    by (simp add: wit_sql_revoked_def prod_eq_iff)
qed simp

section \<open>Logins\<close>


definition wit_sql_svc :: "MySQL AuthService" where
  "wit_sql_svc = NewAuthService (mysql_user_store wit_server) \<lparr> cfg_SigningKey = ''key'', cfg_TokenTTL = 0 \<rparr>"

lemma wit_sql_login:
  "fst (Login wit_prims wit_sql_svc (\<lambda>_. 1000000000) ''n'' wit_login wit_sql_admin) = Inr wit_login_response \<and>
   wit_claims = token_claims wit_sql_svc 1000000000 ''n'' (lp_User wit_login_response)"
  by code_simp


end
