(* ===== verification/Redis_Ping.thy ===== *)
theory Redis_Ping
  imports Go_Prelude
begin

text \<open>
  The health probe of Redis (\<^verbatim>\<open>api/internal/redisconn/redis.go\<close>): the bytes it sends and what it
  makes of the answers. Dialling, the outcome of each write and the lines that come back (which
  may depend on what was sent) are arguments; a deadline that passes is an error of a read or a
  write.
\<close>

section \<open>The client\<close>

record redis_client =
  rc_Addr :: string
  rc_Password :: string
  rc_Timeout :: duration

definition redis_New :: "string \<Rightarrow> string \<Rightarrow> redis_client" where
  "redis_New addr password = \<lparr> rc_Addr = TrimSpace addr, rc_Password = password, rc_Timeout = Second \<rparr>"

record redis_net =
  rn_Dial :: "string \<Rightarrow> string option"
  rn_Write :: "nat \<Rightarrow> string option"
  rn_ReadString :: "nat \<Rightarrow> string \<Rightarrow> string + string"

record redis_conn =
  cn_Sent :: string
  cn_Writes :: nat
  cn_Reads :: nat

definition conn_write :: "redis_net \<Rightarrow> string \<Rightarrow> redis_conn \<Rightarrow> string option \<times> redis_conn" where
  "conn_write net s conn =
     (let conn1 = conn\<lparr> cn_Writes := cn_Writes conn + 1 \<rparr>
      in case rn_Write net (cn_Writes conn) of
           Some e \<Rightarrow> (Some e, conn1)
         | None \<Rightarrow> (None, conn1\<lparr> cn_Sent := cn_Sent conn @ s \<rparr>))"

definition conn_read :: "redis_net \<Rightarrow> redis_conn \<Rightarrow> (string + string) \<times> redis_conn" where
  "conn_read net conn =
     (rn_ReadString net (cn_Reads conn) (cn_Sent conn), conn\<lparr> cn_Reads := cn_Reads conn + 1 \<rparr>)"

abbreviation crlf :: string where "crlf \<equiv> [CHR 0x0D, CHR 0x0A]"

fun write_parts :: "redis_net \<Rightarrow> string list \<Rightarrow> redis_conn \<Rightarrow> string option \<times> redis_conn" where
  "write_parts net [] conn = (None, conn)"
| "write_parts net (part # parts) conn =
     (case conn_write net (CHR ''$'' # FormatInt (int (length part)) @ crlf @ part @ crlf) conn of
        (Some e, conn1) \<Rightarrow> (Some e, conn1)
      | (None, conn1) \<Rightarrow> write_parts net parts conn1)"

definition writeCommand :: "redis_net \<Rightarrow> string list \<Rightarrow> redis_conn \<Rightarrow> string option \<times> redis_conn" where
  "writeCommand net parts conn =
     (case conn_write net (CHR ''*'' # FormatInt (int (length parts)) @ crlf) conn of
        (Some e, conn1) \<Rightarrow> (Some e, conn1)
      | (None, conn1) \<Rightarrow> write_parts net parts conn1)"

definition readSimpleOK :: "redis_net \<Rightarrow> redis_conn \<Rightarrow> string option \<times> redis_conn" where
  "readSimpleOK net conn =
     (case conn_read net conn of
        (Inl e, conn1) \<Rightarrow> (Some e, conn1)
      | (Inr line, conn1) \<Rightarrow>
          (if TrimSpace line \<noteq> ''+OK'' then Some (TrimSpace line) else None, conn1))"

definition redis_probe :: "redis_net \<Rightarrow> redis_conn \<Rightarrow> string option \<times> redis_conn" where
  "redis_probe net conn =
     (case writeCommand net [''PING''] conn of
        (Some e, conn1) \<Rightarrow> (Some e, conn1)
      | (None, conn1) \<Rightarrow>
          (case conn_read net conn1 of
             (Inl e, conn2) \<Rightarrow> (Some e, conn2)
           | (Inr line, conn2) \<Rightarrow>
               (if TrimSpace line \<noteq> ''+PONG'' then Some (''unexpected redis ping response: '' @ TrimSpace line)
                else None, conn2)))"

definition redis_Ping :: "redis_net \<Rightarrow> redis_client \<Rightarrow> string option \<times> redis_conn" where
  "redis_Ping net c =
     (let conn = \<lparr> cn_Sent = [], cn_Writes = 0, cn_Reads = 0 \<rparr>
      in if rc_Addr c = [] then (Some ''redis address is not configured'', conn)
         else (case rn_Dial net (rc_Addr c) of
             Some e \<Rightarrow> (Some e, conn)
           | None \<Rightarrow>
               if rc_Password c = [] then redis_probe net conn
               else (case writeCommand net [''AUTH'', rc_Password c] conn of
                   (Some e, conn1) \<Rightarrow> (Some e, conn1)
                 | (None, conn1) \<Rightarrow>
                     (case readSimpleOK net conn1 of
                        (Some e, conn2) \<Rightarrow> (Some (''redis auth failed: '' @ e), conn2)
                      | (None, conn2) \<Rightarrow> redis_probe net conn2))))"

section \<open>How a Redis server reads\<close>

text \<open>
  The protocol of Redis: a command is an array of bulk strings, each with its length in front.
\<close>

fun resp_line :: "string \<Rightarrow> (string \<times> string) option" where
  "resp_line [] = None"
| "resp_line (c # s) =
     (if c = CHR 0x0D \<and> s \<noteq> [] \<and> hd s = CHR 0x0A then Some ([], tl s)
      else map_option (\<lambda>(l, r). (c # l, r)) (resp_line s))"

definition resp_number :: "char \<Rightarrow> string \<Rightarrow> (nat \<times> string) option" where
  "resp_number mark s =
     (case resp_line s of
        Some (c # ds, rest) \<Rightarrow>
          if c \<noteq> mark then None
          else (case ParseInt ds of
                  Some n \<Rightarrow> if 0 \<le> n then Some (nat n, rest) else None
                | None \<Rightarrow> None)
      | _ \<Rightarrow> None)"

definition resp_bulk :: "string \<Rightarrow> (string \<times> string) option" where
  "resp_bulk s =
     (case resp_number CHR ''$'' s of
        None \<Rightarrow> None
      | Some (n, rest) \<Rightarrow>
          if take 2 (drop n rest) = crlf then Some (take n rest, drop (n + 2) rest) else None)"

fun resp_bulks :: "nat \<Rightarrow> string \<Rightarrow> (string list \<times> string) option" where
  "resp_bulks 0 s = Some ([], s)"
| "resp_bulks (Suc n) s =
     (case resp_bulk s of
        None \<Rightarrow> None
      | Some (part, rest) \<Rightarrow> map_option (\<lambda>(parts, rest'). (part # parts, rest')) (resp_bulks n rest))"

definition resp_command :: "string \<Rightarrow> (string list \<times> string) option" where
  "resp_command s =
     (case resp_number CHR ''*'' s of None \<Rightarrow> None | Some (n, rest) \<Rightarrow> resp_bulks n rest)"

text \<open>The commands in what a client has sent.\<close>

function resp_commands :: "string \<Rightarrow> string list list option" where
  "resp_commands s =
     (if s = [] then Some []
      else (case resp_command s of
              None \<Rightarrow> None
            | Some (cmd, rest) \<Rightarrow>
                if length rest < length s then map_option ((#) cmd) (resp_commands rest) else None))"
  by pat_completeness auto
termination by (relation "measure length") auto

declare resp_commands.simps [simp del]

section \<open>What is sent is read back\<close>

definition resp_part :: "string \<Rightarrow> string" where
  "resp_part p = CHR ''$'' # FormatInt (int (length p)) @ crlf @ p @ crlf"

definition resp_encode :: "string list \<Rightarrow> string" where
  "resp_encode ps = CHR ''*'' # FormatInt (int (length ps)) @ crlf @ concat (map resp_part ps)"

lemma resp_line_append: "CHR 0x0D \<notin> set l \<Longrightarrow> resp_line (l @ crlf @ r) = Some (l, r)"
  by (induction l) auto

lemma FormatInt_graph: "CHR 0x0D \<notin> set (FormatInt (int n))"
  using nat_digits_digit [of n] by (auto simp: FormatInt_def list_all_iff digit_char_def)

lemma resp_number_append:
  assumes "int n < 2 ^ 63" "mark \<noteq> CHR 0x0D"
  shows "resp_number mark (mark # FormatInt (int n) @ crlf @ r) = Some (n, r)"
proof -
  have "resp_line ((mark # FormatInt (int n)) @ crlf @ r) = Some (mark # FormatInt (int n), r)"
    by (rule resp_line_append) (use FormatInt_graph [of n] assms(2) in auto)
  then show ?thesis using assms(1) ParseInt_FormatInt [of "int n"] by (simp add: resp_number_def)
qed

lemma resp_bulk_append: "int (length p) < 2 ^ 63 \<Longrightarrow> resp_bulk (resp_part p @ r) = Some (p, r)"
  using resp_number_append [of "length p" "CHR ''$''" "p @ crlf @ r"] by (simp add: resp_bulk_def resp_part_def)

lemma resp_bulks_append:
  "\<forall>p \<in> set ps. int (length p) < 2 ^ 63 \<Longrightarrow> resp_bulks (length ps) (concat (map resp_part ps) @ r) = Some (ps, r)"
  by (induction ps) (simp_all add: resp_bulk_append)

lemma resp_command_append:
  "int (length ps) < 2 ^ 63 \<Longrightarrow> \<forall>p \<in> set ps. int (length p) < 2 ^ 63 \<Longrightarrow>
     resp_command (resp_encode ps @ r) = Some (ps, r)"
  using resp_number_append [of "length ps" "CHR ''*''" "concat (map resp_part ps) @ r"]
  by (simp add: resp_command_def resp_encode_def resp_bulks_append)

lemma resp_commands_append:
  "int (length ps) < 2 ^ 63 \<Longrightarrow> \<forall>p \<in> set ps. int (length p) < 2 ^ 63 \<Longrightarrow>
     resp_commands (resp_encode ps @ r) = map_option ((#) ps) (resp_commands r)"
  using resp_command_append [of ps r] by (subst resp_commands.simps) (simp add: resp_encode_def)

lemma resp_commands_Nil [simp]: "resp_commands [] = Some []"
  by (simp add: resp_commands.simps)

lemma write_parts_sent:
  assumes "\<And>n. rn_Write net n = None"
  shows "write_parts net ps conn = (r, conn') \<Longrightarrow>
     r = None \<and> cn_Sent conn' = cn_Sent conn @ concat (map resp_part ps) \<and> cn_Reads conn' = cn_Reads conn"
  by (induction ps arbitrary: conn) (auto simp: conn_write_def Let_def assms resp_part_def)

lemma writeCommand_sent:
  assumes "\<And>n. rn_Write net n = None" "writeCommand net ps conn = (r, conn')"
  shows "r = None \<and> cn_Sent conn' = cn_Sent conn @ resp_encode ps \<and> cn_Reads conn' = cn_Reads conn"
  using assms(2) write_parts_sent [OF assms(1), of ps _ r conn']
  by (auto simp: writeCommand_def conn_write_def Let_def assms(1) resp_encode_def)

lemma probe_sent:
  assumes "\<And>n. rn_Write net n = None" "redis_probe net conn = (r, conn')"
  shows "cn_Sent conn' = cn_Sent conn @ resp_encode [''PING''] \<and>
     (r = None \<longleftrightarrow> (\<exists>line. rn_ReadString net (cn_Reads conn) (cn_Sent conn') = Inr line \<and> TrimSpace line = ''+PONG''))"
proof -
  obtain e c1 where w: "writeCommand net [''PING''] conn = (e, c1)" by fastforce
  show ?thesis using writeCommand_sent [OF assms(1) w] assms(2) w
    by (auto simp: redis_probe_def conn_read_def split: sum.splits if_splits)
qed

section \<open>Property\<close>

text \<open>
  C40. The probe speaks the protocol: whatever the password is, a Redis server reads from the
  bytes sent exactly the commands meant -- nothing without a connection, the password in one
  AUTH command in front when there is one, and PING only after the password was accepted -- and
  the probe succeeds exactly when the answer to PING is +PONG.
\<close>

theorem redis_ping_commands:
  assumes writes: "\<And>n. rn_Write net n = None" and len: "int (length (rc_Password c)) < 2 ^ 63"
    and ping: "redis_Ping net c = (r, conn)"
    and accepted: "accepted \<longleftrightarrow> rc_Password c = [] \<or>
       (\<exists>line. rn_ReadString net 0 (resp_encode [''AUTH'', rc_Password c]) = Inr line \<and> TrimSpace line = ''+OK'')"
  shows "resp_commands (cn_Sent conn) = Some (if rc_Addr c = [] \<or> rn_Dial net (rc_Addr c) \<noteq> None then []
       else (if rc_Password c = [] then [] else [[''AUTH'', rc_Password c]]) @ (if accepted then [[''PING'']] else [])) \<and>
     (r = None \<longleftrightarrow> rc_Addr c \<noteq> [] \<and> rn_Dial net (rc_Addr c) = None \<and> accepted \<and>
        (\<exists>line. rn_ReadString net (if rc_Password c = [] then 0 else 1) (cn_Sent conn) = Inr line \<and>
           TrimSpace line = ''+PONG''))"
proof -
  let ?c0 = "\<lparr> cn_Sent = [], cn_Writes = 0, cn_Reads = 0 \<rparr>"
  have dec: "resp_commands (resp_encode [''PING'']) = Some [[''PING'']]"
    using resp_commands_append [of "[''PING'']" "[]"] by simp
  have dec2: "resp_commands (resp_encode [''AUTH'', rc_Password c] @ s) =
      map_option ((#) [''AUTH'', rc_Password c]) (resp_commands s)" for s
    by (rule resp_commands_append) (use len in auto)
  show ?thesis
  proof (cases "rc_Addr c = [] \<or> rn_Dial net (rc_Addr c) \<noteq> None")
    case True
    then show ?thesis using ping by (auto simp: redis_Ping_def Let_def split: if_splits)
  next
    case dialled: False
    show ?thesis
    proof (cases "rc_Password c = []")
      case True
      then have "redis_probe net ?c0 = (r, conn)" using ping dialled by (simp add: redis_Ping_def)
      then show ?thesis using probe_sent [OF writes] dialled True accepted dec by fastforce
    next
      case False
      obtain e c1 where w: "writeCommand net [''AUTH'', rc_Password c] ?c0 = (e, c1)" by fastforce
      note s = writeCommand_sent [OF writes w]
      obtain e2 c2 where o: "readSimpleOK net c1 = (e2, c2)" by fastforce
      have c2: "cn_Sent c2 = cn_Sent c1 \<and> cn_Reads c2 = 1 \<and> (e2 = None \<longleftrightarrow> accepted)"
        using o s False accepted by (auto simp: readSimpleOK_def conn_read_def split: sum.splits if_splits)
      show ?thesis
      proof (cases e2)
        case None
        then have "redis_probe net c2 = (r, conn)" using ping dialled False w s o by (simp add: redis_Ping_def)
        then show ?thesis
          using probe_sent [OF writes, of c2 r conn] c2 s dialled False None dec dec2 [of "resp_encode [''PING'']"] by auto
      next
        case (Some x)
        then have "conn = c2" "r \<noteq> None" using ping dialled False w s o by (auto simp: redis_Ping_def)
        then show ?thesis using c2 s dialled False Some dec2 [of "[]"] by simp
      qed
    qed
  qed
qed

definition wit_net :: redis_net where
  "wit_net = \<lparr> rn_Dial = (\<lambda>_. None), rn_Write = (\<lambda>_. None),
     rn_ReadString = (\<lambda>n s. Inr (if n = 0 then ''+OK'' @ crlf else ''+PONG'' @ crlf)) \<rparr>"

definition wit_client :: redis_client where
  "wit_client = (redis_New '' redis:6379 '' (''x'' @ crlf @ ''*1'' @ crlf @ ''$8'' @ crlf @ ''FLUSHALL''))"

theorem redis_ping_commands_witness:
  "fst (redis_Ping wit_net wit_client) = None \<and>
   resp_commands (cn_Sent (snd (redis_Ping wit_net wit_client))) =
     Some [[''AUTH'', rc_Password wit_client], [''PING'']]"
proof -
  have e: "fst (redis_Ping wit_net wit_client) = None \<and> rc_Addr wit_client = ''redis:6379'' \<and>
      TrimSpace (''+OK'' @ crlf) = ''+OK'' \<and> length (rc_Password wit_client) = 19" by code_simp
  have "(rc_Password wit_client = [] \<or> (\<exists>line. rn_ReadString wit_net 0 (resp_encode [''AUTH'', rc_Password wit_client]) =
      Inr line \<and> TrimSpace line = ''+OK''))" using e by (simp add: wit_net_def)
  then show ?thesis
    using redis_ping_commands [of wit_net wit_client "fst (redis_Ping wit_net wit_client)"
        "snd (redis_Ping wit_net wit_client)" True] e by (auto simp: wit_net_def split: if_splits)
qed

end
