(* ===== verification/Migrations.thy ===== *)
theory Migrations
  imports Mysql_Core Paths
begin

text \<open>
  The migrations of the database (\<^verbatim>\<open>api/internal/migrations/migrations.go\<close>): the SQL files of a
  directory and the table of the versions that have been applied. The directory, the contents of
  its files, \<^verbatim>\<open>sort.Slice\<close> and what the server does with the text of a file are arguments.
\<close>

section \<open>The files\<close>

record File =
  mig_Version :: string
  mig_Path :: string
  mig_SQL :: string

record dir_entry =
  de_Name :: string
  de_IsDir :: bool

fun load_files :: "(string \<Rightarrow> string + string) \<Rightarrow> string \<Rightarrow> dir_entry list \<Rightarrow> string + File list" where
  "load_files read_file dir [] = Inr []"
| "load_files read_file dir (entry # entries) =
     (if de_IsDir entry \<or> \<not> HasSuffix (de_Name entry) ''.sql'' then load_files read_file dir entries
      else case Cut CHR ''_'' (de_Name entry) of (version, _, ok) \<Rightarrow>
        if \<not> ok \<or> version = []
        then Inl (''migration filename must start with numeric version and underscore: '' @ de_Name entry)
        else let path = Join [dir, de_Name entry]
             in (case read_file path of
                   Inl e \<Rightarrow> Inl e
                 | Inr raw \<Rightarrow>
                     (case load_files read_file dir entries of
                        Inl e \<Rightarrow> Inl e
                      | Inr files \<Rightarrow>
                          Inr (\<lparr> mig_Version = version, mig_Path = path, mig_SQL = raw \<rparr> # files))))"

record migration_world =
  mw_ReadDir :: "string \<Rightarrow> string + dir_entry list"
  mw_ReadFile :: "string \<Rightarrow> string + string"
  mw_Sort :: "File list \<Rightarrow> File list"

definition migrations_Load :: "migration_world \<Rightarrow> string \<Rightarrow> string + File list" where
  "migrations_Load w dir =
     (case mw_ReadDir w dir of
        Inl e \<Rightarrow> Inl e
      | Inr entries \<Rightarrow>
          (case load_files (mw_ReadFile w) dir entries of
             Inl e \<Rightarrow> Inl e
           | Inr files \<Rightarrow> Inr (mw_Sort w files)))"

section \<open>Applying them\<close>

text \<open>
  The table \<^verbatim>\<open>schema_migrations\<close>, when it exists, and everything else in the database. The
  function \<open>exec\<close> runs the text of a file: the error, if any, and the database after it, which
  after an error is whatever the statements in front of the failing one left.
\<close>

record 'd migration_db =
  schema_migrations :: "string list option"
  md_schema :: 'd

definition versions :: "'d migration_db \<Rightarrow> string list" where
  "versions db = (case schema_migrations db of None \<Rightarrow> [] | Some vs \<Rightarrow> vs)"

definition recorded :: "sql_env \<Rightarrow> string \<Rightarrow> string list \<Rightarrow> bool" where
  "recorded env v vs \<longleftrightarrow> list_ex (\<lambda>u. ci_eq env u v) vs"

fun apply_files ::
    "sql_env \<Rightarrow> (string \<Rightarrow> 'd \<Rightarrow> string option \<times> 'd) \<Rightarrow> File list \<Rightarrow> 'd migration_db \<Rightarrow>
       string option \<times> 'd migration_db" where
  "apply_files env exec [] db = (None, db)"
| "apply_files env exec (file # files) db =
     (if recorded env (mig_Version file) (versions db) then apply_files env exec files db
      else (case exec (mig_SQL file) (md_schema db) of
              (Some e, d) \<Rightarrow> (Some e, db\<lparr> md_schema := d \<rparr>)
            | (None, d) \<Rightarrow>
                (case varchar env 64 (mig_Version file) of
                   (n, False) \<Rightarrow> (Some (se_error env n), db\<lparr> md_schema := d \<rparr>)
                 | (n, True) \<Rightarrow> apply_files env exec files
                     (db\<lparr> schema_migrations := Some (versions db @ [mig_Version file]), md_schema := d \<rparr>))))"

definition migrations_Apply ::
    "sql_env \<Rightarrow> migration_world \<Rightarrow> (string \<Rightarrow> 'd \<Rightarrow> string option \<times> 'd) \<Rightarrow> string \<Rightarrow> 'd migration_db \<Rightarrow>
       string option \<times> 'd migration_db" where
  "migrations_Apply env w exec dir db =
     (case migrations_Load w dir of
        Inl e \<Rightarrow> (Some e, db)
      | Inr files \<Rightarrow> apply_files env exec files (db\<lparr> schema_migrations := Some (versions db) \<rparr>))"

section \<open>What a run does\<close>

text \<open>The files that are not recorded, each version once.\<close>

fun pending :: "sql_env \<Rightarrow> string list \<Rightarrow> File list \<Rightarrow> File list" where
  "pending env vs [] = []"
| "pending env vs (f # fs) =
     (if recorded env (mig_Version f) vs then pending env vs fs
      else f # pending env (vs @ [mig_Version f]) fs)"

definition run_files :: "(string \<Rightarrow> 'd \<Rightarrow> string option \<times> 'd) \<Rightarrow> File list \<Rightarrow> 'd \<Rightarrow> 'd" where
  "run_files exec fs d = fold (\<lambda>f d. snd (exec (mig_SQL f) d)) fs d"

lemma run_files_simps [simp]:
  "run_files exec [] d = d" "run_files exec (f # fs) d = run_files exec fs (snd (exec (mig_SQL f) d))"
  by (simp_all add: run_files_def)

lemma versions_simps [simp]:
  "schema_migrations db = Some vs \<Longrightarrow> versions db = vs"
  by (simp add: versions_def)

lemma recorded_append [simp]: "recorded env v (us @ vs) \<longleftrightarrow> recorded env v us \<or> recorded env v vs"
  by (simp add: recorded_def)

lemma recorded_Cons [simp]: "recorded env v (u # vs) \<longleftrightarrow> ci_eq env u v \<or> recorded env v vs"
  by (simp add: recorded_def)

lemma recorded_Nil [simp]: "\<not> recorded env v []"
  by (simp add: recorded_def)

lemma pending_resume:
  "pending env vs fs = made @ rest \<Longrightarrow> pending env (vs @ map mig_Version made) fs = rest"
proof (induction fs arbitrary: vs made)
  case (Cons f fs)
  show ?case
  proof (cases "recorded env (mig_Version f) vs")
    case False
    show ?thesis
    proof (cases made)
      case g: (Cons g made')
      then show ?thesis using False Cons.prems Cons.IH [of "vs @ [mig_Version f]" made'] by (auto simp: ci_eq_def)
    qed (use False Cons.prems in simp)
  qed (use Cons in simp)
qed simp

lemma pending_subset: "set (pending env vs fs) \<subseteq> set fs"
proof (induction fs arbitrary: vs)
  case (Cons f fs)
  then show ?case using Cons.IH [of vs] Cons.IH [of "vs @ [mig_Version f]"] by auto
qed simp

lemma pending_sorted: "sorted (map mig_Version fs) \<Longrightarrow> sorted (map mig_Version (pending env vs fs))"
proof (induction fs arbitrary: vs)
  case (Cons f fs)
  then show ?case using pending_subset [of env "vs @ [mig_Version f]" fs] by auto
qed simp

lemma pending_distinct:
  "distinct (map (\<lambda>f. se_weight env (mig_Version f)) (pending env vs fs)) \<and>
   (\<forall>f \<in> set (pending env vs fs). \<not> recorded env (mig_Version f) vs)"
proof (induction fs arbitrary: vs)
  case (Cons f fs)
  then show ?case using Cons.IH [of "vs @ [mig_Version f]"] by (auto simp: ci_eq_def)
qed simp

text \<open>
  A run from a database with the versions \<open>vs\<close>: the files \<open>made\<close> were run and recorded, and either
  they are all that were pending, or the next one was run and failed or could not be recorded.
\<close>

lemma apply_files_run:
  assumes "apply_files env exec fs db = (r, db')" "schema_migrations db = Some vs"
  shows "\<exists>made rest. pending env vs fs = made @ rest \<and> schema_migrations db' = Some (vs @ map mig_Version made) \<and>
     (r = None \<longrightarrow> rest = [] \<and> md_schema db' = run_files exec made (md_schema db)) \<and>
     (r \<noteq> None \<longrightarrow> rest \<noteq> [] \<and>
        md_schema db' = snd (exec (mig_SQL (hd rest)) (run_files exec made (md_schema db))))"
  using assms
proof (induction fs arbitrary: db vs)
  case (Cons f fs)
  show ?case
  proof (cases "recorded env (mig_Version f) vs")
    case False
    obtain e d where x: "exec (mig_SQL f) (md_schema db) = (e, d)" by fastforce
    show ?thesis
    proof (cases "e = None \<and> snd (varchar env 64 (mig_Version f))")
      case True
      then have "\<exists>made rest. pending env (vs @ [mig_Version f]) fs = made @ rest \<and>
          schema_migrations db' = Some ((vs @ [mig_Version f]) @ map mig_Version made) \<and>
          (r = None \<longrightarrow> rest = [] \<and> md_schema db' = run_files exec made d) \<and>
          (r \<noteq> None \<longrightarrow> rest \<noteq> [] \<and> md_schema db' = snd (exec (mig_SQL (hd rest)) (run_files exec made d)))"
        using Cons.IH [of "db\<lparr> schema_migrations := Some (vs @ [mig_Version f]), md_schema := d \<rparr>"
            "vs @ [mig_Version f]"] Cons.prems False x by (cases "varchar env 64 (mig_Version f)") simp
      then obtain made rest where n: "pending env (vs @ [mig_Version f]) fs = made @ rest"
          "schema_migrations db' = Some ((vs @ [mig_Version f]) @ map mig_Version made)"
          "r = None \<longrightarrow> rest = [] \<and> md_schema db' = run_files exec made d"
          "r \<noteq> None \<longrightarrow> rest \<noteq> [] \<and> md_schema db' = snd (exec (mig_SQL (hd rest)) (run_files exec made d))"
        by blast
      show ?thesis
        by (rule exI [of _ "f # made"], rule exI [of _ rest]) (use n False x Cons.prems in simp)
    next
      case failed: False
      show ?thesis
        by (rule exI [of _ "[]"], rule exI [of _ "f # pending env (vs @ [mig_Version f]) fs"])
           (use failed Cons.prems False x in \<open>auto split: option.splits prod.splits bool.splits\<close>)
    qed
  qed (use Cons in simp)
qed simp

lemma migrations_run:
  assumes "migrations_Apply env w exec dir db = (r, db')" "migrations_Load w dir = Inr files"
  shows "\<exists>made rest. pending env (versions db) files = made @ rest \<and>
     schema_migrations db' = Some (versions db @ map mig_Version made) \<and>
     (r = None \<longrightarrow> rest = [] \<and> md_schema db' = run_files exec made (md_schema db)) \<and>
     (r \<noteq> None \<longrightarrow> rest \<noteq> [] \<and>
        md_schema db' = snd (exec (mig_SQL (hd rest)) (run_files exec made (md_schema db))))"
  using apply_files_run [of env exec files "db\<lparr> schema_migrations := Some (versions db) \<rparr>" r db' "versions db"] assms
  by (simp add: migrations_Apply_def)

section \<open>Property\<close>

text \<open>
  C39. A migration that was interrupted goes on where it failed: a first run, successful or not,
  and a run after it that succeeds, possibly of a server that by then behaves differently,
  together run every pending file in the order of the versions, each version once, the first
  run those it recorded and the second the others; only the file at which the first run failed
  is run again. After a run that succeeded, another run changes nothing.
\<close>

theorem migrations_resume:
  assumes sort: "\<And>fs. sorted (map mig_Version (mw_Sort w fs))"
    and first: "migrations_Apply env w exec dir db = (r, db1)"
    and second: "migrations_Apply env w exec' dir db1 = (None, db2)"
  shows "\<exists>files made rest. migrations_Load w dir = Inr files \<and> pending env (versions db) files = made @ rest \<and>
     sorted (map mig_Version (made @ rest)) \<and> distinct (map (\<lambda>f. se_weight env (mig_Version f)) (made @ rest)) \<and>
     versions db1 = versions db @ map mig_Version made \<and> versions db2 = versions db1 @ map mig_Version rest \<and>
     md_schema db2 = run_files exec' rest (md_schema db1) \<and>
     (if r = None then rest = [] \<and> md_schema db1 = run_files exec made (md_schema db) \<and> db2 = db1
      else md_schema db1 = snd (exec (mig_SQL (hd rest)) (run_files exec made (md_schema db))))"
proof -
  obtain files where l: "migrations_Load w dir = Inr files"
    using second by (auto simp: migrations_Apply_def split: sum.splits)
  obtain made rest where a: "pending env (versions db) files = made @ rest"
    "schema_migrations db1 = Some (versions db @ map mig_Version made)"
    "r = None \<longrightarrow> rest = [] \<and> md_schema db1 = run_files exec made (md_schema db)"
    "r \<noteq> None \<longrightarrow> rest \<noteq> [] \<and> md_schema db1 = snd (exec (mig_SQL (hd rest)) (run_files exec made (md_schema db)))"
    using migrations_run [OF first l] by blast
  have "pending env (versions db1) files = rest" using pending_resume [OF a(1)] a(2) by simp
  then have b: "schema_migrations db2 = Some (versions db1 @ map mig_Version rest)"
    "md_schema db2 = run_files exec' rest (md_schema db1)"
    using migrations_run [OF second l] by auto
  obtain fs where "files = mw_Sort w fs" using l by (auto simp: migrations_Load_def split: sum.splits)
  then have "sorted (map mig_Version files)" using sort by simp
  then have "sorted (map mig_Version (made @ rest))"
    using pending_sorted [of files env "versions db"] a(1) by simp
  moreover have "distinct (map (\<lambda>f. se_weight env (mig_Version f)) (made @ rest))"
    using pending_distinct [of env "versions db" files] a(1) by simp
  moreover have "db2 = db1" if "rest = []" using b a(2) that by (intro migration_db.equality) simp_all
  ultimately show ?thesis using l a b by (intro exI [of _ files] exI [of _ made] exI [of _ rest]) simp_all
qed

text \<open>Two files; the server refuses the second at first.\<close>

definition wit_migrations :: migration_world where
  "wit_migrations =
     \<lparr> mw_ReadDir = (\<lambda>_. Inr [\<lparr> de_Name = ''001_a.sql'', de_IsDir = False \<rparr>, \<lparr> de_Name = ''README'', de_IsDir = False \<rparr>,
         \<lparr> de_Name = ''002_b.sql'', de_IsDir = False \<rparr>]),
       mw_ReadFile = (\<lambda>p. Inr p), mw_Sort = sort_key mig_Version \<rparr>"

definition wit_migration_env :: sql_env where
  "wit_migration_env =
     \<lparr> se_weight = ToLower, se_chars = (\<lambda>s. int (length s)), se_time = Some, se_moment = (\<lambda>t. t), se_json = Some,
       se_tie = (\<lambda>i. i), se_found_rows = False, se_error = (\<lambda>_. ''Error''), se_strings = (\<lambda>_. []),
       se_strings_of = (\<lambda>_. Inr []), se_object = (\<lambda>_. Inr []), se_object_of = (\<lambda>_. Inr None) \<rparr>"

definition wit_exec :: "bool \<Rightarrow> string \<Rightarrow> string list \<Rightarrow> string option \<times> string list" where
  "wit_exec broken sql ran_sql =
     (if broken \<and> sql = ''m/002_b.sql'' then (Some ''Error'', ran_sql @ [''half'']) else (None, ran_sql @ [sql]))"

definition wit_interrupted :: "string option \<times> string list migration_db" where
  "wit_interrupted = migrations_Apply wit_migration_env wit_migrations (wit_exec True) ''m''
     \<lparr> schema_migrations = None, md_schema = [] \<rparr>"

definition wit_resumed :: "string option \<times> string list migration_db" where
  "wit_resumed = migrations_Apply wit_migration_env wit_migrations (wit_exec False) ''m'' (snd wit_interrupted)"

lemma wit_migration_runs:
  "fst wit_interrupted = Some ''Error'' \<and> fst wit_resumed = None \<and>
   md_schema (snd wit_resumed) = [''m/001_a.sql'', ''half'', ''m/002_b.sql'']"
  by code_simp

theorem migrations_resume_witness:
  "\<exists>files made rest. migrations_Load wit_migrations ''m'' = Inr files \<and>
     pending wit_migration_env [] files = made @ rest \<and>
     versions (snd wit_interrupted) = map mig_Version made \<and>
     md_schema (snd wit_resumed) = run_files (wit_exec False) rest (md_schema (snd wit_interrupted))"
proof -
  let ?db = "\<lparr> schema_migrations = None, md_schema = [] \<rparr> :: string list migration_db"
  have sort: "sorted (map mig_Version (mw_Sort wit_migrations fs))" for fs
    by (simp add: wit_migrations_def)
  have 1: "migrations_Apply wit_migration_env wit_migrations (wit_exec True) ''m'' ?db =
      (fst wit_interrupted, snd wit_interrupted)" by (simp add: wit_interrupted_def)
  have 2: "migrations_Apply wit_migration_env wit_migrations (wit_exec False) ''m'' (snd wit_interrupted) =
      (None, snd wit_resumed)" using wit_migration_runs by (simp add: wit_resumed_def prod_eq_iff)
  have "versions ?db = []" by (simp add: versions_def)
  then show ?thesis using migrations_resume [OF sort 1 2] by auto
qed

end
