(* ===== verification/Program_Start.thy ===== *)
theory Program_Start
  imports App_Store Build_Worker Migrations Mysql_Properties
begin

text \<open>
  The programs of the server and how they open the store: \<^verbatim>\<open>NewStore\<close> with both repositories
  (\<^verbatim>\<open>api/internal/app/store.go\<close>, \<^verbatim>\<open>api/internal/database/database.go\<close>) and the command lines
  \<^verbatim>\<open>opendeskctl\<close> and \<^verbatim>\<open>opendesk-worker\<close> (\<^verbatim>\<open>api/cmd\<close>). Opening a database, its answer to a ping,
  bcrypt and the clock are arguments. Lines of the logger are left out.
\<close>

section \<open>The database\<close>

record database_world =
  dw_Open :: "string \<Rightarrow> string option"
  dw_Ping :: "string option"

text \<open>A handle or the \<^verbatim>\<open>nil\<close> of an empty data source name.\<close>

definition OpenMySQL :: "database_world \<Rightarrow> string \<Rightarrow> string + bool" where
  "OpenMySQL w dsn =
     (if dsn = [] then Inr False
      else (case dw_Open w dsn of Some e \<Rightarrow> Inl e | None \<Rightarrow> Inr True))"

definition database_Ping :: "database_world \<Rightarrow> bool \<Rightarrow> string option" where
  "database_Ping w db = (if \<not> db then None else dw_Ping w)"

section \<open>The initial administrator, for any store\<close>

record 's admin_store =
  as_CountUsers :: "'s \<Rightarrow> repo_error + int"
  as_CreateUser :: "gotime \<Rightarrow> User \<Rightarrow> 's \<Rightarrow> (repo_error + User) \<times> 's"
  as_CreateAuditEvent :: "gotime \<Rightarrow> AuditEvent \<Rightarrow> 's \<Rightarrow> (repo_error + AuditEvent) \<times> 's"

definition store_Write :: "'s admin_store \<Rightarrow> gotime \<Rightarrow> Event \<Rightarrow> 's \<Rightarrow> repo_error option \<times> 's" where
  "store_Write ops now e s =
     (case as_CreateAuditEvent ops now (ToModel e) s of
        (Inl err, s1) \<Rightarrow> (Some err, s1)
      | (Inr row, s1) \<Rightarrow> (None, s1))"

definition bootstrap_store ::
    "'s admin_store \<Rightarrow> (string \<Rightarrow> string + string) \<Rightarrow> (nat \<Rightarrow> gotime) \<Rightarrow> AppConfig \<Rightarrow> 's \<Rightarrow> string option \<times> 's" where
  "bootstrap_store ops bcrypt_hash clk cfg s =
     (let email = TrimSpace (cfg_InitialAdminEmail cfg);
          password = cfg_InitialAdminPassword cfg
      in if email = [] \<and> TrimSpace password = [] then (None, s)
         else if email = [] \<or> TrimSpace password = []
         then (Some ''both initial admin email and password are required when bootstrapping initial admin'', s)
         else (case as_CountUsers ops s of
             Inl e \<Rightarrow> (Some (error_text e), s)
           | Inr count \<Rightarrow>
               if count > 0 then (None, s)
               else (case bcrypt_hash password of
                   Inl e \<Rightarrow> (Some e, s)
                 | Inr passwordHash \<Rightarrow>
                     (case as_CreateUser ops (clk 0) (bootstrap_user email passwordHash) s of
                        (Inl e, s1) \<Rightarrow> (Some (error_text e), s1)
                      | (Inr created, s1) \<Rightarrow>
                          (case store_Write ops (clk 1) (bootstrap_event created) s1 of
                             (e, s2) \<Rightarrow> (map_option error_text e, s2))))))"

definition memory_admin_store :: "Memory admin_store" where
  "memory_admin_store =
     \<lparr> as_CountUsers = CountUsers, as_CreateUser = CreateUser, as_CreateAuditEvent = CreateAuditEvent \<rparr>"

definition mysql_admin_store :: "sql_env \<Rightarrow> MySQL admin_store" where
  "mysql_admin_store env =
     \<lparr> as_CountUsers = CountUsers_sql, as_CreateUser = CreateUser_sql env,
       as_CreateAuditEvent = CreateAuditEvent_sql env \<rparr>"

text \<open>The function of \<open>App_Store\<close> is this one at the in-memory repository.\<close>

lemma store_Write_memory: "store_Write memory_admin_store = RepositoryWrite"
  by (intro ext) (simp add: store_Write_def RepositoryWrite_def memory_admin_store_def)

lemma bootstrap_memory:
  "bootstrap_store memory_admin_store bcrypt_hash clk cfg m = bootstrapInitialAdminIfConfigured bcrypt_hash clk cfg m"
proof -
  have ops: "as_CountUsers memory_admin_store = CountUsers" "as_CreateUser memory_admin_store = CreateUser"
    by (simp_all add: memory_admin_store_def)
  show ?thesis
    unfolding bootstrap_store_def bootstrapInitialAdminIfConfigured_def store_Write_memory ops by (rule HOL.refl)
qed

section \<open>The store\<close>

text \<open>The store of the server; the tables of MySQL are the state outside.\<close>

datatype store = InMemory Memory | OnMySQL

record start_world =
  sw_Database :: database_world
  sw_Hash :: "string \<Rightarrow> string + string"
  sw_Clock :: "nat \<Rightarrow> gotime"

definition NewStore :: "sql_env \<Rightarrow> start_world \<Rightarrow> AppConfig \<Rightarrow> MySQL \<Rightarrow> (string + store) \<times> MySQL" where
  "NewStore env w cfg db =
     (if TrimSpace (cfg_MySQLDSN cfg) = []
      then (case bootstrap_store memory_admin_store (sw_Hash w) (sw_Clock w) cfg
                   (NewMemoryWithoutInitialAdmin (sw_Clock w 2)) of
              (Some e, m) \<Rightarrow> (Inl e, db)
            | (None, m) \<Rightarrow> (Inr (InMemory m), db))
      else (case OpenMySQL (sw_Database w) (cfg_MySQLDSN cfg) of
          Inl e \<Rightarrow> (Inl e, db)
        | Inr handle \<Rightarrow>
            (case database_Ping (sw_Database w) handle of
               Some e \<Rightarrow> (Inl e, db)
             | None \<Rightarrow>
                 (case bootstrap_store (mysql_admin_store env) (sw_Hash w) (sw_Clock w) cfg db of
                    (Some e, db1) \<Rightarrow> (Inl e, db1)
                  | (None, db1) \<Rightarrow> (Inr OnMySQL, db1)))))"

section \<open>The command lines\<close>

text \<open>How a program ends: its exit code, what it prints, and on which stream errors go.\<close>

datatype program_end = Ended nat "string list" "string list"

text \<open>\<^verbatim>\<open>opendeskctl\<close>; \<open>loaded\<close> is the configuration with the error of \<^verbatim>\<open>config.Load\<close>.\<close>

definition ctl_migrate ::
    "sql_env \<Rightarrow> database_world \<Rightarrow> migration_world \<Rightarrow> (string \<Rightarrow> 'd \<Rightarrow> string option \<times> 'd) \<Rightarrow>
       AppConfig \<times> string option \<Rightarrow> 'd migration_db \<Rightarrow> (string + string) \<times> 'd migration_db" where
  "ctl_migrate env w mw exec loaded db =
     (case loaded of
        (cfg, Some e) \<Rightarrow> (Inl e, db)
      | (cfg, None) \<Rightarrow>
          (case OpenMySQL w (cfg_MySQLDSN cfg) of
             Inl e \<Rightarrow> (Inl e, db)
           | Inr handle \<Rightarrow>
               if \<not> handle then (Inl ''OPENDESK_MYSQL_DSN is required for migrations'', db)
               else (case database_Ping w handle of
                   Some e \<Rightarrow> (Inl e, db)
                 | None \<Rightarrow>
                     (case migrations_Apply env mw exec ''migrations'' db of
                        (Some e, db1) \<Rightarrow> (Inl e, db1)
                      | (None, db1) \<Rightarrow> (Inr ''migrations applied'', db1)))))"

definition ctl_main ::
    "sql_env \<Rightarrow> database_world \<Rightarrow> migration_world \<Rightarrow> (string \<Rightarrow> 'd \<Rightarrow> string option \<times> 'd) \<Rightarrow>
       AppConfig \<times> string option \<Rightarrow> string list \<Rightarrow> 'd migration_db \<Rightarrow> program_end \<times> 'd migration_db" where
  "ctl_main env w mw exec loaded args db =
     (if length args < 2 then (Ended 2 [] [''usage: opendeskctl migrate''], db)
      else if args ! 1 = ''migrate''
      then (case ctl_migrate env w mw exec loaded db of
              (Inl e, db1) \<Rightarrow> (Ended 1 [] [e], db1)
            | (Inr out, db1) \<Rightarrow> (Ended 0 [out] [], db1))
      else (Ended 2 [] [''unknown command: '' @ args ! 1], db))"

text \<open>
  \<^verbatim>\<open>opendesk-worker\<close>; \<open>run\<close> is \<^verbatim>\<open>RunOnce\<close> of the worker on the store (\<open>RunOnce\<close> of
  \<open>Build_Worker\<close> for the one in memory), nothing when it panics, and \<open>json\<close> is \<^verbatim>\<open>json.MarshalIndent\<close>.
\<close>

definition worker_main ::
    "(AppConfig \<Rightarrow> (string + store) \<times> MySQL) \<Rightarrow>
     (WorkerConfig \<Rightarrow> store \<Rightarrow> MySQL \<Rightarrow> (RunResult \<times> worker_error option) option \<times> MySQL) \<Rightarrow>
     (RunResult \<Rightarrow> string option) \<Rightarrow> AppConfig \<times> string option \<Rightarrow> string list \<Rightarrow> MySQL \<Rightarrow> program_end \<times> MySQL" where
  "worker_main start run json loaded args db =
     (if length args < 2 \<or> args ! 1 \<noteq> ''run-once''
      then (Ended 2 [] [''usage: opendesk-worker run-once''], db)
      else (case loaded of
          (cfg, Some e) \<Rightarrow> (Ended 1 [] [], db)
        | (cfg, None) \<Rightarrow>
            (case start cfg of
               (Inl e, db1) \<Rightarrow> (Ended 1 [] [], db1)
             | (Inr st, db1) \<Rightarrow>
                 (case run (ConfigFromAPI cfg) st db1 of
                    (None, db2) \<Rightarrow> (Ended 2 [] [], db2)
                  | (Some (result, err), db2) \<Rightarrow>
                      (case json result of
                         None \<Rightarrow> (Ended 1 [] [], db2)
                       | Some raw \<Rightarrow>
                           (Ended (if err = Some ErrNoQueuedJobs \<or> err = None then 0 else 1) [raw] [], db2))))))"

definition memory_run ::
    "'v worker_world \<Rightarrow> files \<Rightarrow> WorkerConfig \<Rightarrow> store \<Rightarrow> MySQL \<Rightarrow> (RunResult \<times> worker_error option) option \<times> MySQL" where
  "memory_run w fs cfg st db =
     (case st of
        InMemory m \<Rightarrow> (fst (RunOnce cfg w fs m), db)
      | OnMySQL \<Rightarrow> (None, db))"

section \<open>Starting on MySQL\<close>

lemma bootstrap_again:
  assumes "rows (tb_users db) \<noteq> []"
  shows "snd (bootstrap_store (mysql_admin_store env) bcrypt_hash clk cfg db) = db"
  using assms by (simp add: bootstrap_store_def mysql_admin_store_def CountUsers_sql_def Let_def)

lemma audit_sql_users: "tb_users (snd (CreateAuditEvent_sql env now e db)) = tb_users db"
  by (auto simp: CreateAuditEvent_sql_def insert_find_def Let_def split: prod.split sum.split option.split)

lemma store_Write_users: "tb_users (snd (store_Write (mysql_admin_store env) now e db)) = tb_users db"
proof -
  obtain r db1 where a: "CreateAuditEvent_sql env now (ToModel e) db = (r, db1)" by fastforce
  have ops: "as_CreateAuditEvent (mysql_admin_store env) = CreateAuditEvent_sql env"
    by (simp add: mysql_admin_store_def)
  show ?thesis
    using audit_sql_users [of env now "ToModel e" db] by (cases r) (simp_all add: store_Write_def ops a)
qed

lemma bootstrap_created:
  assumes none: "rows (tb_users db) = []" and email: "TrimSpace (cfg_InitialAdminEmail cfg) \<noteq> []"
    and pw: "TrimSpace (cfg_InitialAdminPassword cfg) \<noteq> []"
    and b: "bootstrap_store (mysql_admin_store env) bcrypt_hash clk cfg db = (None, db1)"
  obtains h created db2 where "bcrypt_hash (cfg_InitialAdminPassword cfg) = Inr h"
    "CreateUser_sql env (clk 0) (bootstrap_user (TrimSpace (cfg_InitialAdminEmail cfg)) h) db = (Inr created, db2)" "tb_users db1 = tb_users db2"
proof -
  have ops: "as_CountUsers (mysql_admin_store env) = CountUsers_sql"
    "as_CreateUser (mysql_admin_store env) = CreateUser_sql env"
    by (simp_all add: mysql_admin_store_def)
  have c: "CountUsers_sql db = Inr 0" using none by (simp add: CountUsers_sql_def)
  obtain h where h: "bcrypt_hash (cfg_InitialAdminPassword cfg) = Inr h"
    using b email pw by (simp add: bootstrap_store_def ops c split: sum.splits)
  obtain r db2 where u: "CreateUser_sql env (clk 0) (bootstrap_user (TrimSpace (cfg_InitialAdminEmail cfg)) h) db = (r, db2)" by fastforce
  obtain created where r: "r = Inr created"
    using b email pw by (simp add: bootstrap_store_def ops c h u split: sum.splits)
  have "snd (store_Write (mysql_admin_store env) (clk 1) (bootstrap_event created) db2) = db1"
    using b email pw by (simp add: bootstrap_store_def ops c h u r split: prod.splits)
  then show thesis using that h u r store_Write_users by metis
qed

lemma create_first_user:
  assumes "rows (tb_users db) = []" "CreateUser_sql env now (bootstrap_user email h) db = (Inr created, db1)" "h \<noteq> []"
  shows "\<exists>u. rows (tb_users db1) = [u] \<and> user_Email u = normalizeEmail email \<and> user_PasswordHash u = h \<and>
     user_Status u = UserStatusActive \<and> user_LastLoginAt u = None"
proof -
  have active: "enum_col env user_statuses ''active'' = ''active''"
    by (simp add: enum_col_def enum_val_def user_statuses_def)
  show ?thesis
    using assms unfolding CreateUser_sql_def Let_def
    by (auto simp: bootstrap_user_def Let_def active split: if_splits elim!: insert_find_cases)
qed

lemma NewStore_MySQL:
  assumes "TrimSpace (cfg_MySQLDSN cfg) \<noteq> []" "NewStore env w cfg db = (r, db1)"
  shows "db1 = db \<and> (\<exists>e. r = Inl e) \<or>
     (\<exists>e. bootstrap_store (mysql_admin_store env) (sw_Hash w) (sw_Clock w) cfg db = (e, db1) \<and>
        r = (case e of None \<Rightarrow> Inr OnMySQL | Some x \<Rightarrow> Inl x))"
  using assms by (auto simp: NewStore_def split: sum.splits option.splits prod.splits)

text \<open>
  C38. With MySQL configured and an initial administrator in the configuration, a start that succeeds
  leaves the database either exactly as it was (somebody was there) or with one user: the
  administrator, active, with the hash of the configured password, found by the configured address
  whatever its case and the blanks around it. Starting again, with any world and any outcome,
  changes no row.
\<close>

theorem mysql_start_once:
  assumes cfg: "TrimSpace (cfg_MySQLDSN cfg) \<noteq> []" "TrimSpace (cfg_InitialAdminEmail cfg) \<noteq> []"
      "TrimSpace (cfg_InitialAdminPassword cfg) \<noteq> []"
    and hash: "sw_Hash w (cfg_InitialAdminPassword cfg) \<noteq> Inr []"
    and start: "NewStore env w cfg db = (Inr st, db1)"
  shows "st = OnMySQL \<and> snd (NewStore env w' cfg db1) = db1 \<and>
     (if rows (tb_users db) \<noteq> [] then db1 = db
      else \<exists>h u. sw_Hash w (cfg_InitialAdminPassword cfg) = Inr h \<and> rows (tb_users db1) = [u] \<and>
             FindUserByEmail_sql env (cfg_InitialAdminEmail cfg) db1 = Inr u \<and>
             user_PasswordHash u = h \<and> user_Status u = UserStatusActive)"
proof -
  have b: "st = OnMySQL" "bootstrap_store (mysql_admin_store env) (sw_Hash w) (sw_Clock w) cfg db = (None, db1)"
    using NewStore_MySQL [OF cfg(1) start] by (auto split: option.splits)
  have first: "\<exists>h u. sw_Hash w (cfg_InitialAdminPassword cfg) = Inr h \<and> rows (tb_users db1) = [u] \<and>
      FindUserByEmail_sql env (cfg_InitialAdminEmail cfg) db1 = Inr u \<and>
      user_PasswordHash u = h \<and> user_Status u = UserStatusActive" if none: "rows (tb_users db) = []"
  proof -
    obtain h created db2 where h: "sw_Hash w (cfg_InitialAdminPassword cfg) = Inr h"
      "CreateUser_sql env (sw_Clock w 0) (bootstrap_user (TrimSpace (cfg_InitialAdminEmail cfg)) h) db = (Inr created, db2)"
      "tb_users db1 = tb_users db2"
      using bootstrap_created [OF none cfg(2,3) b(2)] by blast
    have "h \<noteq> []" using hash h(1) by auto
    from create_first_user [OF none h(2) this] show ?thesis
      using h(1,3) by (auto simp: FindUserByEmail_sql_def query_row_def scanUser_def normalizeEmail_def ci_eq_def)
  qed
  have old: "db1 = db" if "rows (tb_users db) \<noteq> []"
    using bootstrap_again [OF that, of env "sw_Hash w" "sw_Clock w" cfg] b(2) by simp
  then have "rows (tb_users db1) \<noteq> []" using first by fastforce
  from bootstrap_again [OF this, of env "sw_Hash w'" "sw_Clock w'" cfg]
  have "snd (NewStore env w' cfg db1) = db1"
    using NewStore_MySQL [OF cfg(1), of env w' db1 "fst (NewStore env w' cfg db1)" "snd (NewStore env w' cfg db1)"]
    by (auto split: option.splits)
  with b(1) first old show ?thesis by simp
qed

definition wit_mysql_cfg :: AppConfig where
  "wit_mysql_cfg = config_from_env (\<lambda>_. None)
     [''OPENDESK_MYSQL_DSN'' \<mapsto> ''opendesk@tcp(db)/opendesk'', ''OPENDESK_INITIAL_ADMIN_EMAIL'' \<mapsto> '' Admin@b '',
      ''OPENDESK_INITIAL_ADMIN_PASSWORD'' \<mapsto> ''correct horse'']"

definition wit_start_world :: start_world where
  "wit_start_world =
     \<lparr> sw_Database = \<lparr> dw_Open = (\<lambda>_. None), dw_Ping = None \<rparr>, sw_Hash = (\<lambda>pw. Inr (rev pw)), sw_Clock = int \<rparr>"

lemma wit_mysql_start:
  "TrimSpace (cfg_MySQLDSN wit_mysql_cfg) \<noteq> []" "TrimSpace (cfg_InitialAdminEmail wit_mysql_cfg) \<noteq> []"
  "TrimSpace (cfg_InitialAdminPassword wit_mysql_cfg) \<noteq> []"
  "sw_Hash wit_start_world (cfg_InitialAdminPassword wit_mysql_cfg) \<noteq> Inr []"
  "(case NewStore wit_server wit_start_world wit_mysql_cfg migrated of (r, db1) \<Rightarrow> r = Inr OnMySQL)"
  "rows (tb_users migrated) = []"
  by code_simp+

theorem mysql_start_once_witness:
  "\<exists>db1 u. NewStore wit_server wit_start_world wit_mysql_cfg migrated = (Inr OnMySQL, db1) \<and>
     snd (NewStore wit_server wit_start_world wit_mysql_cfg db1) = db1 \<and>
     FindUserByEmail_sql wit_server (cfg_InitialAdminEmail wit_mysql_cfg) db1 = Inr u"
proof -
  obtain db1 where s: "NewStore wit_server wit_start_world wit_mysql_cfg migrated = (Inr OnMySQL, db1)"
    using wit_mysql_start(5) by (auto split: prod.splits)
  show ?thesis
    using mysql_start_once [OF wit_mysql_start(1-4) s, of wit_start_world] wit_mysql_start(6) s by auto
qed

end
