(* ===== verification/Spec2Isabelle.thy ===== *)
theory Spec2Isabelle
  imports
    Grant_Properties Auth_Lifecycle Access_Evaluator Control_Role Strategy_Resolver
    Rate_Limit App_Properties App_Start Builder_Contract Mysql_Properties
    Redis_Ping Program_Start
begin

text \<open>
  A verification library for the API server and the builder of OpenDesk Remote, a self-hosted
  remote-desktop control plane (\<^verbatim>\<open>src/api\<close> and \<^verbatim>\<open>src/builder\<close>, Go). The server answers HTTP requests of administrators, devices
  and relays; what it decides is who may log in, who may connect to which device with which
  permissions, and which relay accepts which connection. The builder compiles clients from build
  specifications; the build worker of the server calls it.

  \<^bold>\<open>The parts and where they are modelled\<close>

  \<^item> \<open>Go_Prelude\<close>: what of the Go library the program uses -- trimming and splitting of strings
    at their byte values, \<^verbatim>\<open>strconv\<close>, instants and 64-bit durations -- the loops over rows that
    change or remove the first match, and the shared lemmas. \<open>Http\<close>: requests and responses as
    values (\<^verbatim>\<open>httpx\<close>). \<open>Base64\<close>: the raw URL encoding of tokens.
  \<^item> \<open>Models\<close>: one record for each struct of \<^verbatim>\<open>internal/models/models.go\<close>.
  \<^item> \<open>Memory_Core\<close>, \<open>Memory_Users\<close>, \<open>Memory_Devices\<close>, \<open>Memory_Relays\<close>, \<open>Memory_Policies\<close>,
    \<open>Memory_Logs\<close>, \<open>Memory_Builds\<close>: every method of the in-memory repository
    (\<^verbatim>\<open>internal/repository/memory.go\<close>). The struct \<^verbatim>\<open>Memory\<close> is a record, each method a function
    from its arguments and the record to its result and the record; errors are the left side
    of a sum. \<open>Memory_Steps\<close> is the repository as a state machine with one step for each
    changing method, and \<open>Memory_Properties\<close> what holds of every reachable state, of the
    paging of the logs and of the build queue.
  \<^item> \<open>Relay_Grant\<close> (\<^verbatim>\<open>internal/relaygrant/service.go\<close>): issue, validation and revocation of relay
    grants. \<open>Grant_Store\<close> states the interface to the repository as a locale and interprets
    it on the in-memory repository; \<open>Grant_Lifecycle\<close> proves the life of a grant from those
    laws; \<open>Grant_Properties\<close> what callers get; \<open>Grant_Handler\<close> is the HTTP side.
  \<^item> \<open>Tokens\<close>, \<open>Auth_Service\<close> (\<^verbatim>\<open>internal/auth/service.go\<close>, \<^verbatim>\<open>internal/tokens\<close>): login, logout,
    authentication of requests and the middleware \<^verbatim>\<open>Require\<close>. \<open>Auth_Lifecycle\<close> has the interface
    to the repository as a locale with its interpretation, \<open>Auth_Properties\<close> the properties.
  \<^item> \<open>Access_Evaluator\<close>, \<open>Control_Role\<close>, \<open>Strategy_Resolver\<close>: the three decision procedures
    (\<^verbatim>\<open>internal/access\<close>, \<^verbatim>\<open>internal/controlrole\<close>, \<^verbatim>\<open>internal/strategy\<close>).
  \<^item> \<open>Handler_Core\<close>: what the HTTP handlers share -- caller address, audit rows
    (\<^verbatim>\<open>internal/audit\<close>), the early returns -- and the contract \<open>accounted\<close> of a handler.
    Each handler package has its theory: \<open>Relay_Handler\<close>, \<open>Policy_Handler\<close>, \<open>Grant_Handler\<close>,
    \<open>Auth_Handler\<close>, \<open>User_Handler\<close>, \<open>Device_Handler\<close>, \<open>Token_Handler\<close>, \<open>Log_Handler\<close>,
    \<open>Book_Handler\<close>, \<open>Setup_Handler\<close>, \<open>Settings_Handler\<close> and \<open>Build_Handler\<close>.
  \<^item> \<open>Rate_Limit\<close> (\<^verbatim>\<open>internal/middleware\<close>): the rate limiter, CORS, request identifiers and
    security headers.
  \<^item> \<open>Paths\<close> and \<open>Asset_Storage\<close> (\<^verbatim>\<open>internal/storage\<close>, \<^verbatim>\<open>internal/assets\<close>): slash-separated paths,
    the confinement to the storage root, and the upload of branding files.
  \<^item> \<open>Build_Spec\<close> (\<^verbatim>\<open>internal/builder\<close>): validation of build specifications and the registry of
    runners. \<open>Build_Worker\<close> (\<^verbatim>\<open>internal/buildworker\<close>): one run of the worker and the doctor.
    \<open>Build_Run\<close> relates runs to an abstract queue of job states. \<open>Build_Properties\<close>: what the build
    handlers keep.
  \<^item> \<open>Config\<close> (\<^verbatim>\<open>internal/config\<close>): environment, \<^verbatim>\<open>.env\<close>, defaults and validation. \<open>App_Store\<close>
    (\<^verbatim>\<open>internal/app/store.go\<close>, \<^verbatim>\<open>internal/health\<close>): the store at start and the health routes.
  \<^item> \<open>Handler_Invariant\<close>, \<open>Public_Routes\<close> and \<open>Handlers_Reach\<close>: predicates that pass through
    handlers, as locales whose instances are reachability by repository calls and what requests
    without credentials leave alone.
  \<^item> \<open>App_Router\<close> (\<^verbatim>\<open>internal/app/router.go\<close>): the routes, the mux, every handler with the parts of
    the configuration it gets, and the middleware around them; the state of the server is the grant
    service over the repository, the files and the rate limiter. \<open>App_Properties\<close> and \<open>App_Start\<close>
    prove what holds of the server as a whole.

  \<^item> \<open>Builder_Spec\<close>, \<open>Builder_Inject\<close>, \<open>Builder_Run\<close>, \<open>Builder_Preflight\<close>, \<open>Builder_Main\<close>
    (\<^verbatim>\<open>src/builder/internal/buildspec\<close>, \<^verbatim>\<open>injector\<close>, \<^verbatim>\<open>runners/windows.go\<close>, \<^verbatim>\<open>runners/preflight.go\<close>,
    \<^verbatim>\<open>cmd/opendesk-builder\<close>): the specification, the generated files, the Windows runner, the
    inspection of a machine and the command line. \<open>Builder_Source\<close> reads the generated Rust source
    back; \<open>Builder_Contract\<close> puts worker and builder together.

  \<^item> The MySQL repository (\<^verbatim>\<open>internal/repository/mysql.go\<close>, schema in \<^verbatim>\<open>api/migrations\<close>): \<open>Mysql_Core\<close> has
    tables, the statements and the constraints of columns, \<open>Mysql_Schema\<close> the rows of each table and
    the \<^verbatim>\<open>scan\<close> functions, \<open>Mysql_Users\<close>, \<open>Mysql_Devices\<close>, \<open>Mysql_Relays\<close>, \<open>Mysql_Policies\<close>,
    \<open>Mysql_Builds\<close> and \<open>Mysql_Logs\<close> every method, named as in Go with the suffix \<open>_sql\<close> where the
    in-memory method has the name. \<open>Mysql_Stores\<close> interprets the locales of the grant service and of
    the authentication service on it, \<open>Mysql_Steps\<close> has one rule for each call that writes and the
    databases they reach, \<open>Mysql_Queue\<close> the build queue and its relation to the one in memory,
    \<open>Mysql_Properties\<close> the theorems.
  \<^item> \<open>Migrations\<close> (\<^verbatim>\<open>internal/migrations\<close>): loading and applying the files of a directory.
    \<open>Redis_Ping\<close> (\<^verbatim>\<open>internal/redisconn\<close>): the probe of Redis with the bytes it sends, read back by a
    decoder of the protocol. \<open>Program_Start\<close> (\<^verbatim>\<open>internal/app/store.go\<close>, \<^verbatim>\<open>internal/database\<close>,
    \<^verbatim>\<open>cmd/opendeskctl\<close>, \<^verbatim>\<open>cmd/opendesk-worker\<close>): \<^verbatim>\<open>NewStore\<close> with both repositories and the two
    command lines; its bootstrap is the one of \<open>App_Store\<close> for any repository.

  \<^bold>\<open>How state, time and outside code appear\<close>

  A call of a repository method runs under a mutex and is one function; where the code makes
  several calls in a row the model composes them in the same order, and where the gap between
  two calls matters (validation of a grant) the two halves are definitions of their own.
  Readings of the clock and bytes of \<^verbatim>\<open>crypto/rand\<close> are arguments. Code that is not in the
  repository is an argument with the laws used of it as hypotheses: JSON (a value that
  marshals unmarshals to itself), HMAC-SHA-256 (any function of key and message) and bcrypt
  (any relation); reading a timestamp or a duration, the builder program, the outcome of each
  file operation and the answer of Redis. For the server they are gathered in the records
  \<open>app_world\<close> (what stays the same) and \<open>app_call\<close> (what one request meets). Instants are integers in nanoseconds; durations are 64-bit words whose
  arithmetic wraps. Row identifiers and counters are integers: they only ever grow by one,
  so 64 bits are not reached. Maps of metadata are lists of pairs in the order of the code.

  A database is a record of tables; a table is the list of its rows in the order of insertion and
  the next identifier. A statement is atomic, a method in a transaction gives back the tables it
  started with when it fails (identifiers it used up are given back too). What the server does
  with values is the argument \<open>sql_env\<close>: the weight of a string under the collation, the length in
  characters, what a \<^verbatim>\<open>TIMESTAMP\<close> and a \<^verbatim>\<open>JSON\<close> column hold, the order of rows a query leaves open,
  and whether the connection counts found or changed rows.

  \<^bold>\<open>What the lemmas show\<close>

  Tokens round-trip and cannot be changed without the key; a grant is used at most once and
  never after revocation or expiry, in every state reachable by calls one after the other;
  a session lives from login to logout, expiry or revocation; deny rules override, and the
  reported rule is the strongest one; permissions and settings come from the last layer that
  defines them; identifiers are unique, logs are append-only and a build job is claimed once
  in every reachable state; the handlers leave exactly one audit row for each change and
  change nothing when they answer with an error. The rate limiter treats each client as if it
  were alone and bounds what passes. An upload is stored whole below the storage root or not at
  all. Each run of the build worker is a step of the queue of job states, and as many runs as
  there are queued jobs drain it. With the builder program as the worker's binary, a completed job was
  built from exactly the specification of its profile, with the generated constants in place when the
  build command ran, and the recorded artifacts describe the files left; the doctor answers what
  the inspection finds, and that is readiness exactly when source, configuration and tools are there.
  For the server as a whole, any sequence of requests keeps the
  logs and the revocations, a request without credentials is confined to login, logout, set-up,
  heartbeats and grant validation, the configured administrator can log in, and a production
  server signs sessions with the key of the operator. With MySQL as the repository, grants that ended
  and logins that were closed stay so, a job is claimed once and is the one the in-memory repository
  would claim, and a call that fails leaves every table as it was; starting the server makes the
  administrator once, and migrations that were interrupted go on where they failed. Some theorems and lemmas record where the
  code falls short: overlapping validations, a store that cannot write, a lifetime that wraps,
  the open heartbeat route, finished jobs, logging out with two tokens, and the identifiers
  without an initial administrator.

  \<^bold>\<open>Bounds and fuel\<close>

  No definition has fuel: all loops are structural, or recurse on the rest of a string or of the
  arguments of a command line, with the length as measure. Listings are bounded by 500 rows as in the code.

  \<^bold>\<open>Not modelled\<close>

  Failures of the connection to MySQL and interleavings of its transactions, the main function of
  the server, which listens and waits for a signal, the admin web interface, and of
  the server: percent encoding of paths, the logger, concurrency of handlers beyond the
  interleaving of grant validations, and files that a failed write leaves behind partly written. Paths of the builder follow the Unix rules,
  and trying a tool is taken to change no file.
\<close>

end
